(* ===== verification/Prelude.thy ===== *)
theory Prelude
  imports Main "HOL-Library.Char_ord" "HOL-Library.List_Lexorder"
begin

text \<open>
  What every component of the model shares: Rust's \<open>Result\<close> as a sum, the string operations
  the code calls (\<open>split\<close>, \<open>join\<close>, \<open>starts_with\<close>, \<open>trim\<close>, \<open>to_lowercase\<close>), and the two map
  types of the standard library, \<open>BTreeMap\<close> as a sorted association list and \<open>HashMap\<close> as an
  association list whose order stands for the iteration order. Both are interpretations of one
  interface, the locale \<open>keyed_map\<close>.

  A \<open>String\<close> is a list of \<open>char\<close>s: the model is exact for ASCII text, where bytes and
  characters agree.
\<close>

section \<open>Results\<close>

text \<open>\<open>Result<T, E>\<close>: \<open>Inl\<close> is \<open>Err\<close>, \<open>Inr\<close> is \<open>Ok\<close>; \<open>res_bind\<close> is the \<open>?\<close> operator.\<close>

type_synonym ('e, 'a) result = "'e + 'a"

definition res_bind :: "('e, 'a) result \<Rightarrow> ('a \<Rightarrow> ('e, 'b) result) \<Rightarrow> ('e, 'b) result" where
  "res_bind r f = (case r of Inl e \<Rightarrow> Inl e | Inr a \<Rightarrow> f a)"

definition map_err :: "('e \<Rightarrow> 'd) \<Rightarrow> ('e, 'a) result \<Rightarrow> ('d, 'a) result" where
  "map_err h r = (case r of Inl e \<Rightarrow> Inl (h e) | Inr a \<Rightarrow> Inr a)"

definition is_ok :: "('e, 'a) result \<Rightarrow> bool" where
  "is_ok r \<longleftrightarrow> (case r of Inl _ \<Rightarrow> False | Inr _ \<Rightarrow> True)"

named_theorems model_simps \<open>unfolding of the shared combinators on constructors\<close>

lemma res_bind_simps [simp, model_simps]:
  "res_bind (Inl e) f = Inl e" "res_bind (Inr a) f = f a"
  by (simp_all add: res_bind_def)

lemma map_err_simps [simp, model_simps]:
  "map_err h (Inl e) = Inl (h e)" "map_err h (Inr a) = Inr a"
  by (simp_all add: map_err_def)

lemma is_ok_simps [simp, model_simps]: "\<not> is_ok (Inl e)" "is_ok (Inr a)"
  by (simp_all add: is_ok_def)

lemma res_bind_eq_Inr [model_simps]:
  "res_bind r f = Inr b \<longleftrightarrow> (\<exists>a. r = Inr a \<and> f a = Inr b)"
  by (cases r) auto

lemma map_err_eq_Inr [simp]: "map_err h r = Inr a \<longleftrightarrow> r = Inr a"
  by (cases r) auto

text \<open>A loop whose body may fail with \<open>?\<close> or an early \<open>return Err\<close>.\<close>

fun try_all :: "('a \<Rightarrow> ('e, unit) result) \<Rightarrow> 'a list \<Rightarrow> ('e, unit) result" where
  "try_all f [] = Inr ()"
| "try_all f (x # xs) = res_bind (f x) (\<lambda>_. try_all f xs)"

lemma try_all_ok: "try_all f xs = Inr () \<longleftrightarrow> (\<forall>x \<in> set xs. f x = Inr ())"
  by (induction xs) (auto simp: res_bind_eq_Inr)

lemma try_all_err:
  "try_all f xs = Inl e \<Longrightarrow> \<exists>ys x zs. xs = ys @ x # zs \<and> (\<forall>y \<in> set ys. f y = Inr ()) \<and> f x = Inl e"
proof (induction xs)
  case (Cons x xs)
  show ?case
  proof (cases "f x")
    case (Inl d)
    with Cons.prems have "x # xs = [] @ x # xs \<and> (\<forall>y \<in> set []. f y = Inr ()) \<and> f x = Inl e"
      by simp
    then show ?thesis by blast
  next
    case (Inr u)
    with Cons obtain ys z zs where "xs = ys @ z # zs" "\<forall>y \<in> set ys. f y = Inr ()" "f z = Inl e"
      by auto
    with Inr have "x # xs = (x # ys) @ z # zs \<and> (\<forall>y \<in> set (x # ys). f y = Inr ()) \<and> f z = Inl e"
      by simp
    then show ?thesis by blast
  qed
qed simp

section \<open>Strings\<close>

definition starts_with :: "string \<Rightarrow> string \<Rightarrow> bool" where
  "starts_with s p \<longleftrightarrow> take (length p) s = p"

definition ends_with :: "string \<Rightarrow> string \<Rightarrow> bool" where
  "ends_with s p \<longleftrightarrow> starts_with (rev s) (rev p)"

fun contains_str :: "string \<Rightarrow> string \<Rightarrow> bool" where
  "contains_str [] p \<longleftrightarrow> p = []"
| "contains_str (c # cs) p \<longleftrightarrow> starts_with (c # cs) p \<or> contains_str cs p"

lemma starts_with_append [simp]: "starts_with (p @ s) p"
  by (simp add: starts_with_def)

lemma starts_with_Nil [simp]: "starts_with s []"
  by (simp add: starts_with_def)

lemma starts_withE: "starts_with s p \<Longrightarrow> \<exists>r. s = p @ r"
  by (metis append_take_drop_id starts_with_def)

lemma starts_with_iff: "starts_with s p \<longleftrightarrow> (\<exists>r. s = p @ r)"
  by (auto dest: starts_withE)

lemma contains_str_iff: "contains_str s p \<longleftrightarrow> (\<exists>a b. s = a @ p @ b)"
proof (induction s)
  case (Cons c cs)
  show ?case
  proof
    assume "contains_str (c # cs) p"
    then show "\<exists>a b. c # cs = a @ p @ b"
    proof (simp, elim disjE)
      assume "starts_with (c # cs) p"
      then have "\<exists>r. c # cs = [] @ p @ r" by (auto dest: starts_withE)
      then show ?thesis by blast
    next
      assume "contains_str cs p"
      with Cons obtain a b where "cs = a @ p @ b" by blast
      then have "c # cs = (c # a) @ p @ b" by simp
      then show ?thesis by blast
    qed
  next
    assume "\<exists>a b. c # cs = a @ p @ b"
    then obtain a b where ab: "c # cs = a @ p @ b" by blast
    show "contains_str (c # cs) p"
    proof (cases a)
      case Nil
      with ab have "starts_with (c # cs) p" by simp
      then show ?thesis by simp
    next
      case (Cons d ds)
      with ab have "cs = ds @ p @ b" by simp
      with Cons.IH show ?thesis by auto
    qed
  qed
qed auto

lemma contains_str_append1: "contains_str s p \<Longrightarrow> contains_str (s @ t) p"
  by (auto simp: contains_str_iff) (metis append.assoc)

lemma contains_str_append2: "contains_str t p \<Longrightarrow> contains_str (s @ t) p"
  by (auto simp: contains_str_iff) (metis append.assoc)

lemma contains_str_concat: "s \<in> set ss \<Longrightarrow> contains_str s p \<Longrightarrow> contains_str (concat ss) p"
  by (induction ss) (auto intro: contains_str_append1 contains_str_append2)

lemma contains_str_mid: "contains_str (s @ p @ t) p"
  by (auto simp: contains_str_iff)

lemmas contains_str_intros = contains_str_append1 contains_str_append2 contains_str_concat contains_str_mid

definition ascii_lower :: "char \<Rightarrow> char" where
  "ascii_lower c = (let n = (of_char c :: nat) in if 65 \<le> n \<and> n \<le> 90 then char_of (n + 32) else c)"

definition ascii_upper :: "char \<Rightarrow> char" where
  "ascii_upper c = (let n = (of_char c :: nat) in if 97 \<le> n \<and> n \<le> 122 then char_of (n - 32) else c)"

definition to_lowercase :: "string \<Rightarrow> string" where
  "to_lowercase s = List.map ascii_lower s"

definition to_uppercase :: "string \<Rightarrow> string" where
  "to_uppercase s = List.map ascii_upper s"

definition is_lower :: "char \<Rightarrow> bool" where
  "is_lower c \<longleftrightarrow> 97 \<le> (of_char c :: nat) \<and> (of_char c :: nat) \<le> 122"

definition is_upper :: "char \<Rightarrow> bool" where
  "is_upper c \<longleftrightarrow> 65 \<le> (of_char c :: nat) \<and> (of_char c :: nat) \<le> 90"

definition is_digit :: "char \<Rightarrow> bool" where
  "is_digit c \<longleftrightarrow> 48 \<le> (of_char c :: nat) \<and> (of_char c :: nat) \<le> 57"

definition is_alphanumeric :: "char \<Rightarrow> bool" where
  "is_alphanumeric c \<longleftrightarrow> is_lower c \<or> is_upper c \<or> is_digit c"

definition is_space :: "char \<Rightarrow> bool" where
  "is_space c \<longleftrightarrow> (let n = (of_char c :: nat) in n = 32 \<or> (9 \<le> n \<and> n \<le> 13))"

definition trim :: "string \<Rightarrow> string" where
  "trim s = rev (dropWhile is_space (rev (dropWhile is_space s)))"

lemma ascii_lower_idem [simp]: "ascii_lower (ascii_lower c) = ascii_lower c"
proof (cases "65 \<le> (of_char c :: nat) \<and> (of_char c :: nat) \<le> 90")
  case True
  then have "(of_char (ascii_lower c) :: nat) = of_char c + 32"
    by (simp add: ascii_lower_def Let_def)
  with True show ?thesis by (simp add: ascii_lower_def [of "ascii_lower c"] Let_def)
next
  case False
  then show ?thesis by (auto simp: ascii_lower_def Let_def)
qed

lemma to_lowercase_idem [simp]: "to_lowercase (to_lowercase s) = to_lowercase s"
  by (simp add: to_lowercase_def)

text \<open>\<open>str::split\<close> by a character and by a non-empty string, and \<open>join\<close>.\<close>

fun split_on :: "char \<Rightarrow> string \<Rightarrow> string list" where
  "split_on c [] = [[]]"
| "split_on c (x # xs) =
     (if x = c then [] # split_on c xs
      else (case split_on c xs of [] \<Rightarrow> [[x]] | y # ys \<Rightarrow> (x # y) # ys))"

function (sequential) split_from :: "string \<Rightarrow> string \<Rightarrow> string \<Rightarrow> string list" where
  "split_from sep acc [] = [rev acc]"
| "split_from sep acc (x # xs) =
     (if sep \<noteq> [] \<and> starts_with (x # xs) sep
      then rev acc # split_from sep [] (drop (length sep) (x # xs))
      else split_from sep (x # acc) xs)"
  by pat_completeness auto
termination
  by (relation "measure (\<lambda>(sep, acc, s). length s)") (auto simp: length_greater_0_conv)

definition split_str :: "string \<Rightarrow> string \<Rightarrow> string list" where
  "split_str sep s = split_from sep [] s"

fun join :: "string \<Rightarrow> string list \<Rightarrow> string" where
  "join sep [] = []"
| "join sep [s] = s"
| "join sep (s # t # ts) = s @ sep @ join sep (t # ts)"

lemma join_Cons: "join sep (s # ts) = s @ (if ts = [] then [] else sep @ join sep ts)"
  by (cases ts) auto

lemma split_on_not_Nil [simp]: "split_on c s \<noteq> []"
  by (induction s) (auto split: list.splits)

lemma join_split_on: "join [c] (split_on c s) = s"
proof (induction s)
  case (Cons x xs)
  then show ?case
    by (cases "split_on c xs") (auto simp: join_Cons)
qed simp

lemma split_on_id: "c \<notin> set s \<Longrightarrow> split_on c s = [s]"
  by (induction s) auto

text \<open>\<open>str::replace\<close>.\<close>

definition replace_all :: "string \<Rightarrow> string \<Rightarrow> string \<Rightarrow> string" where
  "replace_all old new s = join new (split_str old s)"

text \<open>The first occurrence of a text: what is before and what is after it.\<close>

fun cut_at :: "string \<Rightarrow> string \<Rightarrow> (string \<times> string) option" where
  "cut_at p [] = (if p = [] then Some ([], []) else None)"
| "cut_at p (c # cs) =
     (if starts_with (c # cs) p then Some ([], drop (length p) (c # cs))
      else map_option (\<lambda>(a, b). (c # a, b)) (cut_at p cs))"

definition trim_end :: "string \<Rightarrow> string" where
  "trim_end s = rev (dropWhile is_space (rev s))"

text \<open>\<open>trim_start_matches\<close> takes every repetition off.\<close>

function trim_start_matches :: "string \<Rightarrow> string \<Rightarrow> string" where
  "trim_start_matches p s = (if p \<noteq> [] \<and> starts_with s p then trim_start_matches p (drop (length p) s) else s)"
  by pat_completeness auto
termination
proof (relation "measure (\<lambda>(p, s). length s)", goal_cases)
  case (2 p s)
  then show ?case by (cases p) (auto dest!: starts_withE)
qed simp

declare trim_start_matches.simps [simp del]

text \<open>\<open>str::lines\<close>.\<close>

definition lines_of :: "string \<Rightarrow> string list" where
  "lines_of s =
     (let ls = split_on (CHR 0x0A) s;
          strip = (\<lambda>l. if l \<noteq> [] \<and> last l = CHR 0x0D then butlast l else l)
      in case rev ls of [] # rest \<Rightarrow> List.map strip (rev rest) | l # rest \<Rightarrow> List.map strip (rev rest) @ [l] | [] \<Rightarrow> [])"

text \<open>Decimal rendering of a number (\<open>Display\<close> of the unsigned integers).\<close>

definition digit_char :: "nat \<Rightarrow> char" where
  "digit_char d = char_of (48 + d)"

fun nat_str :: "nat \<Rightarrow> string" where
  "nat_str n = (if n < 10 then [digit_char n] else nat_str (n div 10) @ [digit_char (n mod 10)])"

declare nat_str.simps [simp del]

section \<open>Maps\<close>

text \<open>The interface the code uses of a map: create, insert (replacing), look up.\<close>

locale keyed_map =
  fixes emp :: "'m"
    and ins :: "'k \<Rightarrow> 'v \<Rightarrow> 'm \<Rightarrow> 'm"
    and look :: "'m \<Rightarrow> 'k \<Rightarrow> 'v option"
    and invar :: "'m \<Rightarrow> bool"
  assumes look_emp: "look emp k = None"
    and look_ins: "invar m \<Longrightarrow> look (ins k v m) k' = (if k' = k then Some v else look m k')"
    and invar_emp: "invar emp"
    and invar_ins: "invar m \<Longrightarrow> invar (ins k v m)"
begin

text \<open>A loop that inserts a list of entries: the last entry of a key wins.\<close>

lemma invar_fold: "invar m \<Longrightarrow> invar (fold (\<lambda>(k, v). ins k v) kvs m)"
  by (induction kvs arbitrary: m) (auto simp: invar_ins)

lemma look_fold:
  "invar m \<Longrightarrow> look (fold (\<lambda>(k, v). ins k v) kvs m) k =
     (case map_of (rev kvs) k of None \<Rightarrow> look m k | Some v \<Rightarrow> Some v)"
proof (induction kvs arbitrary: m)
  case (Cons kv kvs)
  obtain k' v where "kv = (k', v)" by (cases kv)
  with Cons show ?case
    by (auto simp: invar_ins look_ins map_add_def split: option.splits)
qed simp

lemma look_collect: "look (fold (\<lambda>(k, v). ins k v) kvs emp) k = map_of (rev kvs) k"
  by (simp add: look_fold invar_emp look_emp split: option.split)

lemma look_collect_Some:
  "look (fold (\<lambda>(k, v). ins k v) kvs emp) k = Some v \<Longrightarrow> (k, v) \<in> set kvs"
  by (auto simp: look_collect dest: map_of_SomeD)

lemma look_collect_None:
  "look (fold (\<lambda>(k, v). ins k v) kvs emp) k = None \<longleftrightarrow> k \<notin> fst ` set kvs"
  by (simp add: look_collect map_of_eq_None_iff)

end

text \<open>A map whose iteration follows the order of the keys.\<close>

locale ordered_map = keyed_map emp ins look invar
  for emp :: "'m" and ins :: "'k::linorder \<Rightarrow> 'v \<Rightarrow> 'm \<Rightarrow> 'm" and look and invar +
  fixes entries :: "'m \<Rightarrow> ('k \<times> 'v) list"
  assumes entries_sorted: "invar m \<Longrightarrow> sorted_wrt (<) (List.map fst (entries m))"
    and entries_look: "invar m \<Longrightarrow> (k, v) \<in> set (entries m) \<longleftrightarrow> look m k = Some v"
begin

lemma entries_distinct: "invar m \<Longrightarrow> distinct (List.map fst (entries m))"
  using entries_sorted strict_sorted_iff by blast

lemma entries_collect:
  "set (entries (fold (\<lambda>(k, v). ins k v) kvs emp)) = {(k, v). map_of (rev kvs) k = Some v}"
  by (auto simp: entries_look invar_fold invar_emp look_collect)

end

subsection \<open>\<open>BTreeMap\<close>\<close>

type_synonym ('k, 'v) btree = "('k \<times> 'v) list"

fun bt_insert :: "'k::linorder \<Rightarrow> 'v \<Rightarrow> ('k, 'v) btree \<Rightarrow> ('k, 'v) btree" where
  "bt_insert k v [] = [(k, v)]"
| "bt_insert k v ((k', v') # m) =
     (if k < k' then (k, v) # (k', v') # m
      else if k = k' then (k, v) # m
      else (k', v') # bt_insert k v m)"

definition bt_wf :: "('k::linorder, 'v) btree \<Rightarrow> bool" where
  "bt_wf m \<longleftrightarrow> sorted_wrt (<) (List.map fst m)"

abbreviation bt_of_list :: "('k::linorder \<times> 'v) list \<Rightarrow> ('k, 'v) btree" where
  "bt_of_list kvs \<equiv> fold (\<lambda>(k, v). bt_insert k v) kvs []"

lemma map_of_bt_insert [simp]: "bt_wf m \<Longrightarrow> map_of (bt_insert k v m) = (map_of m)(k \<mapsto> v)"
proof (induction m)
  case (Cons kv m)
  obtain k' v' where kv: "kv = (k', v')" by (cases kv)
  have "k < k' \<Longrightarrow> map_of m k = None"
    using Cons.prems kv by (force simp: bt_wf_def map_of_eq_None_iff)
  with Cons kv show ?case by (auto simp: bt_wf_def)
qed simp

lemma keys_bt_insert: "fst ` set (bt_insert k v m) = insert k (fst ` set m)"
  by (induction k v m rule: bt_insert.induct) (simp_all add: insert_commute)

lemma bt_wf_insert [simp]: "bt_wf m \<Longrightarrow> bt_wf (bt_insert k v m)"
proof (induction m)
  case (Cons kv m)
  obtain k' v' where kv: "kv = (k', v')" by (cases kv)
  have "set (List.map fst (bt_insert k v m)) = insert k (set (List.map fst m))"
    using keys_bt_insert [of k v m] by simp
  with Cons kv show ?case by (auto simp: bt_wf_def)
qed (simp add: bt_wf_def)

lemma bt_wf_Nil [simp]: "bt_wf []"
  by (simp add: bt_wf_def)

lemma bt_wf_Cons: "bt_wf ((k, v) # m) \<longleftrightarrow> bt_wf m \<and> (\<forall>k' \<in> fst ` set m. k < k')"
  by (auto simp: bt_wf_def)

lemma bt_wf_distinct: "bt_wf m \<Longrightarrow> distinct (List.map fst m)"
  by (simp add: bt_wf_def strict_sorted_iff)

lemma bt_wf_filter: "bt_wf m \<Longrightarrow> bt_wf (filter P m)"
proof (induction m)
  case (Cons kv m)
  then show ?case by (cases kv) (auto simp: bt_wf_Cons)
qed simp

interpretation bt: ordered_map "[] :: ('k::linorder, 'v) btree" bt_insert map_of bt_wf "\<lambda>m. m"
proof (unfold_locales, goal_cases)
  case (5 m)
  then show ?case by (simp add: bt_wf_def)
next
  case (6 m k v)
  then show ?case by (metis bt_wf_distinct map_of_eq_Some_iff)
qed auto

lemma bt_ext: "bt_wf m \<Longrightarrow> bt_wf m' \<Longrightarrow> map_of m = map_of m' \<Longrightarrow> m = m'"
proof -
  assume wf: "bt_wf m" "bt_wf m'" and eq: "map_of m = map_of m'"
  have "set m = set m'"
    using wf eq by (auto simp: bt.entries_look)
  moreover have "sorted (List.map fst m)" "sorted (List.map fst m')"
    using wf by (simp_all add: bt_wf_def strict_sorted_imp_sorted)
  moreover have "inj_on fst (set m \<union> set m')"
    using bt_wf_distinct [OF wf(1)] \<open>set m = set m'\<close> by (simp add: distinct_map)
  ultimately show "m = m'"
    using map_sorted_distinct_set_unique bt_wf_distinct wf by blast
qed

subsection \<open>\<open>HashMap\<close>\<close>

text \<open>
  The order of the list is the iteration order, which Rust leaves unspecified: where the code
  iterates over a map it built, the model takes the order as an argument and the theorems hold
  for every order.
\<close>

type_synonym ('k, 'v) hash_map = "('k \<times> 'v) list"

fun hm_insert :: "'k \<Rightarrow> 'v \<Rightarrow> ('k, 'v) hash_map \<Rightarrow> ('k, 'v) hash_map" where
  "hm_insert k v [] = [(k, v)]"
| "hm_insert k v ((k', v') # m) = (if k = k' then (k, v) # m else (k', v') # hm_insert k v m)"

definition hm_wf :: "('k, 'v) hash_map \<Rightarrow> bool" where
  "hm_wf m \<longleftrightarrow> distinct (List.map fst m)"

definition hm_contains :: "('k, 'v) hash_map \<Rightarrow> 'k \<Rightarrow> bool" where
  "hm_contains m k \<longleftrightarrow> map_of m k \<noteq> None"

lemma map_of_hm_insert [simp]: "map_of (hm_insert k v m) = (map_of m)(k \<mapsto> v)"
  by (induction m) auto

lemma keys_hm_insert: "fst ` set (hm_insert k v m) = insert k (fst ` set m)"
  by (induction k v m rule: hm_insert.induct) (simp_all add: insert_commute)

lemma hm_wf_insert [simp]: "hm_wf m \<Longrightarrow> hm_wf (hm_insert k v m)"
proof (induction m)
  case (Cons kv m)
  have "set (List.map fst (hm_insert k v m)) = insert k (set (List.map fst m))"
    using keys_hm_insert [of k v m] by simp
  with Cons show ?case by (cases kv) (auto simp: hm_wf_def)
qed (simp add: hm_wf_def)

lemma hm_wf_Nil [simp]: "hm_wf []"
  by (simp add: hm_wf_def)

interpretation hm: keyed_map "[] :: ('k, 'v) hash_map" hm_insert map_of hm_wf
  by unfold_locales auto

end
