(* ===== verification/Json.thy ===== *)
theory Json
  imports Prelude "HOL-Library.Word"
begin

text \<open>
  The values of \<open>serde_json\<close> as the code uses them. An object is the crate's default
  \<open>BTreeMap\<close> (the workspace does not enable \<open>preserve_order\<close>), so it is a sorted association
  list, and \<open>json_wf\<close> says so at every depth. Numbers keep their width; a float is kept as
  its decimal text.
\<close>

datatype number = PosInt "64 word" | NegInt "64 word" | Float string

datatype json =
    JNull
  | JBool bool
  | JNumber number
  | JString string
  | JArray "json list"
  | JObject "(string \<times> json) list"

lemma json_induct [case_names JNull JBool JNumber JString JArray JObject]:
  assumes "P JNull" "\<And>b. P (JBool b)" "\<And>n. P (JNumber n)" "\<And>s. P (JString s)"
    and "\<And>xs. (\<And>x. x \<in> set xs \<Longrightarrow> P x) \<Longrightarrow> P (JArray xs)"
    and "\<And>kvs. (\<And>k x. (k, x) \<in> set kvs \<Longrightarrow> P x) \<Longrightarrow> P (JObject kvs)"
  shows "P v"
proof (induction v)
  case (JObject kvs)
  show ?case
  proof (rule assms(6))
    fix k x
    assume "(k, x) \<in> set kvs"
    then show "P x" by (rule JObject) simp
  qed
qed (use assms in auto)

fun json_wf :: "json \<Rightarrow> bool" where
  "json_wf (JArray xs) \<longleftrightarrow> (\<forall>x \<in> set xs. json_wf x)"
| "json_wf (JObject kvs) \<longleftrightarrow> bt_wf kvs \<and> (\<forall>(k, x) \<in> set kvs. json_wf x)"
| "json_wf _ \<longleftrightarrow> True"

lemma json_wf_lookup: "json_wf (JObject kvs) \<Longrightarrow> map_of kvs k = Some v \<Longrightarrow> json_wf v"
  by (auto dest: map_of_SomeD)

subsection \<open>Accessors\<close>

fun as_str :: "json \<Rightarrow> string option" where
  "as_str (JString s) = Some s"
| "as_str _ = None"

fun as_bool :: "json \<Rightarrow> bool option" where
  "as_bool (JBool b) = Some b"
| "as_bool _ = None"

fun as_array :: "json \<Rightarrow> json list option" where
  "as_array (JArray xs) = Some xs"
| "as_array _ = None"

fun as_object :: "json \<Rightarrow> (string \<times> json) list option" where
  "as_object (JObject kvs) = Some kvs"
| "as_object _ = None"

fun as_u64 :: "json \<Rightarrow> 64 word option" where
  "as_u64 (JNumber (PosInt n)) = Some n"
| "as_u64 _ = None"

fun as_i64 :: "json \<Rightarrow> int option" where
  "as_i64 (JNumber (PosInt n)) = (if uint n < 2 ^ 63 then Some (uint n) else None)"
| "as_i64 (JNumber (NegInt n)) = Some (sint n)"
| "as_i64 _ = None"

text \<open>\<open>Value::get\<close> with a string key.\<close>

fun jget :: "json \<Rightarrow> string \<Rightarrow> json option" where
  "jget (JObject kvs) k = map_of kvs k"
| "jget _ k = None"

definition is_object :: "json \<Rightarrow> bool" where
  "is_object v \<longleftrightarrow> (case v of JObject _ \<Rightarrow> True | _ \<Rightarrow> False)"

definition is_array :: "json \<Rightarrow> bool" where
  "is_array v \<longleftrightarrow> (case v of JArray _ \<Rightarrow> True | _ \<Rightarrow> False)"

lemma is_object_simps [simp]:
  "is_object (JObject kvs)" "\<not> is_object (JArray xs)" "\<not> is_object JNull"
  "\<not> is_object (JBool b)" "\<not> is_object (JNumber n)" "\<not> is_object (JString s)"
  by (simp_all add: is_object_def)

lemma is_array_simps [simp]:
  "is_array (JArray xs)" "\<not> is_array (JObject kvs)" "\<not> is_array JNull"
  "\<not> is_array (JBool b)" "\<not> is_array (JNumber n)" "\<not> is_array (JString s)"
  by (simp_all add: is_array_def)

lemma is_objectE: "is_object v \<Longrightarrow> (\<And>kvs. v = JObject kvs \<Longrightarrow> P) \<Longrightarrow> P"
  by (cases v) auto

lemma as_object_eq_Some [simp]: "as_object v = Some kvs \<longleftrightarrow> v = JObject kvs"
  by (cases v) auto

lemma as_str_eq_Some [simp]: "as_str v = Some s \<longleftrightarrow> v = JString s"
  by (cases v) auto

lemma as_array_eq_Some [simp]: "as_array v = Some xs \<longleftrightarrow> v = JArray xs"
  by (cases v) auto

lemma as_bool_eq_Some [simp]: "as_bool v = Some b \<longleftrightarrow> v = JBool b"
  by (cases v) auto

text \<open>An object literal of the \<open>json!\<close> macro.\<close>

definition jobj :: "(string \<times> json) list \<Rightarrow> json" where
  "jobj kvs = JObject (bt_of_list kvs)"

lemma bt_of_list_set: "set (bt_of_list kvs) \<subseteq> set kvs"
proof
  fix kv
  assume "kv \<in> set (bt_of_list kvs)"
  moreover have "bt_wf (bt_of_list kvs)"
    by (rule bt.invar_fold) simp
  ultimately have "map_of (bt_of_list kvs) (fst kv) = Some (snd kv)"
    by (metis bt.entries_look prod.collapse)
  then show "kv \<in> set kvs"
    using bt.look_collect_Some by fastforce
qed

lemma jobj_wf: "(\<forall>(k, v) \<in> set kvs. json_wf v) \<Longrightarrow> json_wf (jobj kvs)"
  using bt_of_list_set [of kvs] by (auto simp: jobj_def intro!: bt.invar_fold)

subsection \<open>Sizes of components, for terminating recursions\<close>

lemma size_object_entry [termination_simp]:
  "map_of kvs k = Some v \<Longrightarrow> size v < Suc (size_list (size_prod (\<lambda>_. 0) size) kvs)"
proof (induction kvs)
  case (Cons kv kvs)
  then show ?case by (cases kv) (auto split: if_splits)
qed simp

lemma size_object_member [termination_simp]:
  "(k, v) \<in> set kvs \<Longrightarrow> size v < Suc (size_list (size_prod (\<lambda>_. 0) size) kvs)"
proof (induction kvs)
  case (Cons kv kvs)
  then show ?case by (cases kv) auto
qed simp

text \<open>Rendering of numbers and booleans (\<open>Display\<close>).\<close>

fun number_str :: "number \<Rightarrow> string" where
  "number_str (PosInt n) = nat_str (unat n)"
| "number_str (NegInt n) = (if sint n < 0 then ''-'' @ nat_str (nat (- sint n)) else nat_str (nat (sint n)))"
| "number_str (Float s) = s"

definition bool_str :: "bool \<Rightarrow> string" where
  "bool_str b = (if b then ''true'' else ''false'')"

end
