(* ===== verification/Deployment.thy ===== *)
theory Deployment
  imports Json "HOL-Library.Monad_Syntax"
begin

text \<open>
  \<open>defs/src/deployment.rs\<close>, \<open>defs/src/infra.rs\<close> and the records they contain: the status of a
  deployment and its classification, the identifier every table key is built from, and the
  deployment record with its JSON form (\<open>serde\<close>'s derived \<open>Serialize\<close> and \<open>Deserialize\<close>, and
  the hand-written deserialiser of the two flags that a database returns as 0 and 1).

  An \<open>u128\<close> is a 128-bit word; an \<open>i128\<close> is one too, read with \<open>sint\<close>.
\<close>

section \<open>Status\<close>

datatype deployment_status =
    Requested | Initiated | Successful | Failed | Error
  | FailedInit | FailedValidate | FailedPlan | FailedShowPlan | FailedOutput
  | FailedPrepare | FailedIntegrityCheck | FailedPolicy
  | WaitingOnDependency | HasDependants | FailedGraph

fun status_str :: "deployment_status \<Rightarrow> string" where
  "status_str Requested = ''requested''"
| "status_str Initiated = ''initiated''"
| "status_str Successful = ''successful''"
| "status_str Failed = ''failed''"
| "status_str Error = ''error''"
| "status_str FailedInit = ''failed_init''"
| "status_str FailedValidate = ''failed_validate''"
| "status_str FailedPlan = ''failed_plan''"
| "status_str FailedShowPlan = ''failed_show_plan''"
| "status_str FailedOutput = ''failed_output''"
| "status_str FailedPrepare = ''failed_prepare''"
| "status_str FailedIntegrityCheck = ''failed_integrity_check''"
| "status_str FailedPolicy = ''failed_policy''"
| "status_str WaitingOnDependency = ''waiting-on-dependency''"
| "status_str HasDependants = ''has-dependants''"
| "status_str FailedGraph = ''failed_graph''"

definition all_statuses :: "deployment_status list" where
  "all_statuses =
     [Requested, Initiated, Successful, Failed, Error, FailedInit, FailedValidate, FailedPlan,
      FailedShowPlan, FailedOutput, FailedPrepare, FailedIntegrityCheck, FailedPolicy,
      WaitingOnDependency, HasDependants, FailedGraph]"

text \<open>The derived \<open>Deserialize\<close>: the variant whose \<open>rename\<close> is the text.\<close>

definition status_of_str :: "string \<Rightarrow> deployment_status option" where
  "status_of_str s = List.find (\<lambda>st. status_str st = s) all_statuses"

fun is_final :: "deployment_status \<Rightarrow> bool" where
  "is_final Successful = True"
| "is_final Failed = True"
| "is_final Error = True"
| "is_final FailedInit = True"
| "is_final FailedValidate = True"
| "is_final FailedPlan = True"
| "is_final FailedShowPlan = True"
| "is_final FailedOutput = True"
| "is_final FailedPrepare = True"
| "is_final FailedIntegrityCheck = True"
| "is_final FailedPolicy = True"
| "is_final WaitingOnDependency = True"
| "is_final HasDependants = True"
| "is_final FailedGraph = True"
| "is_final _ = False"

fun is_busy :: "deployment_status \<Rightarrow> bool" where
  "is_busy Requested = True"
| "is_busy Initiated = True"
| "is_busy _ = False"

fun is_failure :: "deployment_status \<Rightarrow> bool" where
  "is_failure Failed = True"
| "is_failure Error = True"
| "is_failure FailedInit = True"
| "is_failure FailedValidate = True"
| "is_failure FailedPlan = True"
| "is_failure FailedShowPlan = True"
| "is_failure FailedOutput = True"
| "is_failure FailedPrepare = True"
| "is_failure FailedIntegrityCheck = True"
| "is_failure FailedPolicy = True"
| "is_failure FailedGraph = True"
| "is_failure _ = False"

lemma all_statuses_complete [simp]: "st \<in> set all_statuses"
  by (cases st) (simp_all add: all_statuses_def)

lemma status_of_str_str [simp]: "status_of_str (status_str st) = Some st"
  by (cases st) (simp_all add: status_of_str_def all_statuses_def)

lemma status_of_str_Some: "status_of_str s = Some st \<Longrightarrow> status_str st = s"
  by (auto simp: status_of_str_def find_Some_iff)

lemma inj_status_str: "status_str a = status_str b \<longleftrightarrow> a = b"
  by (metis option.inject status_of_str_str)

lemma busy_iff_not_final: "is_busy st \<longleftrightarrow> \<not> is_final st"
  by (cases st) simp_all

lemma failure_is_final: "is_failure st \<Longrightarrow> is_final st"
  by (cases st) simp_all

section \<open>Identifiers\<close>

text \<open>
  The first test makes the second branch unreachable: with an empty environment the deployment
  id is always left out.
\<close>

definition get_deployment_identifier :: "string \<Rightarrow> string \<Rightarrow> string \<Rightarrow> string \<Rightarrow> string" where
  "get_deployment_identifier project_id region deployment_id environment =
     (if environment = [] then project_id @ ''::'' @ region
      else if environment = [] \<and> deployment_id = [] then project_id @ ''::'' @ region @ ''::'' @ environment
      else project_id @ ''::'' @ region @ ''::'' @ environment @ ''::'' @ deployment_id)"

text \<open>\<open>get_event_identifier\<close> and \<open>get_change_record_identifier\<close> have the same body.\<close>

definition get_event_identifier :: "string \<Rightarrow> string \<Rightarrow> string \<Rightarrow> string \<Rightarrow> string" where
  "get_event_identifier project_id region deployment_id environment =
     project_id @ ''::'' @ region @ ''::'' @ environment @ ''::'' @ deployment_id"

definition get_change_record_identifier :: "string \<Rightarrow> string \<Rightarrow> string \<Rightarrow> string \<Rightarrow> string" where
  "get_change_record_identifier project_id region deployment_id environment =
     project_id @ ''::'' @ region @ ''::'' @ environment @ ''::'' @ deployment_id"

abbreviation no_colon :: "string \<Rightarrow> bool" where
  "no_colon s \<equiv> CHR '':'' \<notin> set s"

lemma split_at_char:
  "x @ c # y = x' @ c # y' \<Longrightarrow> c \<notin> set x \<Longrightarrow> c \<notin> set x' \<Longrightarrow> x = x' \<and> y = y'"
proof (induction x arbitrary: x')
  case Nil
  then show ?case by (cases x') auto
next
  case (Cons a x)
  then show ?case by (cases x') auto
qed

lemma identifier_parts:
  assumes "p @ ''::'' @ x = p' @ ''::'' @ x'" "no_colon p" "no_colon p'"
  shows "p = p' \<and> x = x'"
  using split_at_char [of p "CHR '':''" "'':'' @ x" p' "'':'' @ x'"] assms by simp

text \<open>The common prefix of every key of a region.\<close>

lemma identifier_region [simp]: "get_deployment_identifier p r d [] = p @ ''::'' @ r"
  by (simp add: get_deployment_identifier_def)

section \<open>Records\<close>

record webhook =
  wh_url :: "string option"

record drift_detection =
  dd_enabled :: bool
  dd_interval :: string
  dd_auto_remediate :: bool
  dd_webhooks :: "webhook list"

record dependency =
  dep_project_id :: string
  dep_region :: string
  dep_deployment_id :: string
  dep_environment :: string

record dependent =
  dpt_project_id :: string
  dpt_region :: string
  dpt_dependent_id :: string
  dpt_environment :: string

record policy_result =
  pr_policy :: string
  pr_version :: string
  pr_environment :: string
  pr_description :: string
  pr_policy_name :: string
  pr_failed :: bool
  pr_violations :: json

record deployment_resp =
  dr_epoch :: "128 word"
  dr_deployment_id :: string
  dr_status :: deployment_status
  dr_job_id :: string
  dr_environment :: string
  dr_project_id :: string
  dr_region :: string
  dr_module :: string
  dr_module_version :: string
  dr_module_type :: string
  dr_module_track :: string
  dr_drift_detection :: drift_detection
  dr_next_drift_check_epoch :: "128 word"
  dr_has_drifted :: bool
  dr_variables :: json
  dr_output :: json
  dr_policy_results :: "policy_result list"
  dr_error_text :: string
  dr_deleted :: bool
  dr_dependencies :: "dependency list"
  dr_initiated_by :: string
  dr_cpu :: string
  dr_memory :: string
  dr_reference :: string
  dr_tf_resources :: "string list option"

definition DEFAULT_DRIFT_DETECTION_INTERVAL :: string where
  "DEFAULT_DRIFT_DETECTION_INTERVAL = ''15m''"

section \<open>JSON form\<close>

subsection \<open>Numbers\<close>

text \<open>\<open>to_value\<close> of a wide integer: one that fits neither \<open>u64\<close> nor \<open>i64\<close> is an error.\<close>

definition u128_json :: "128 word \<Rightarrow> json option" where
  "u128_json w = (if unat w < 2 ^ 64 then Some (JNumber (PosInt (ucast w))) else None)"

definition i128_json :: "128 word \<Rightarrow> json option" where
  "i128_json w =
     (if 0 \<le> sint w \<and> sint w < 2 ^ 64 then Some (JNumber (PosInt (word_of_int (sint w))))
      else if - (2 ^ 63) \<le> sint w \<and> sint w < 0 then Some (JNumber (NegInt (word_of_int (sint w))))
      else None)"

fun u128_of_json :: "json \<Rightarrow> 128 word option" where
  "u128_of_json (JNumber (PosInt w)) = Some (ucast w)"
| "u128_of_json (JNumber (NegInt w)) = (if 0 \<le> sint w then Some (scast w) else None)"
| "u128_of_json _ = None"

fun i128_of_json :: "json \<Rightarrow> 128 word option" where
  "i128_of_json (JNumber (PosInt w)) = Some (ucast w)"
| "i128_of_json (JNumber (NegInt w)) = Some (scast w)"
| "i128_of_json _ = None"

lemma u128_round: "u128_json w = Some v \<Longrightarrow> u128_of_json v = Some w"
proof -
  assume "u128_json w = Some v"
  then have w: "unat w < 2 ^ 64" and v: "v = JNumber (PosInt (ucast w))"
    by (auto simp: u128_json_def split: if_splits)
  have "unat (ucast (ucast w :: 64 word) :: 128 word) = unat w"
    using w by (simp add: unsigned_ucast_eq unsigned_take_bit_eq take_bit_eq_mod unat_mod_distrib)
  then show ?thesis by (simp add: v word_unat_eq_iff)
qed

lemma i128_round: "i128_json w = Some v \<Longrightarrow> i128_of_json v = Some w"
proof -
  assume a: "i128_json w = Some v"
  show ?thesis
  proof (cases "0 \<le> sint w \<and> sint w < 2 ^ 64")
    case True
    then have v: "v = JNumber (PosInt (word_of_int (sint w)))"
      using a by (simp add: i128_json_def)
    have u: "uint (word_of_int (sint w) :: 64 word) = sint w"
      using True by (simp add: uint_word_of_int_eq take_bit_eq_mod del: of_int_sint)
    have "ucast (word_of_int (sint w) :: 64 word) = w"
      unfolding ucast_eq u by simp
    then show ?thesis by (simp add: v)
  next
    case False
    then have v: "v = JNumber (NegInt (word_of_int (sint w)))" and b: "- (2 ^ 63) \<le> sint w" "sint w < 0"
      using a by (auto simp: i128_json_def split: if_splits)
    have u: "sint (word_of_int (sint w) :: 64 word) = sint w"
      using b by (simp add: signed_of_int signed_take_bit_int_eq_self del: of_int_sint)
    have "scast (word_of_int (sint w) :: 64 word) = w"
      unfolding scast_eq u by simp
    then show ?thesis by (simp add: v)
  qed
qed

subsection \<open>Values\<close>

text \<open>
  \<open>deserialize_bool_from_int\<close>: DynamoDB has no booleans in an index, so the flags come back as
  0 and 1 (or as text).
\<close>

fun deserialize_bool_from_int :: "json \<Rightarrow> (string, bool) result" where
  "deserialize_bool_from_int (JBool b) = Inr b"
| "deserialize_bool_from_int (JNumber n) =
     (case as_i64 (JNumber n) of
        Some i \<Rightarrow> Inr (i \<noteq> 0)
      | None \<Rightarrow> Inl ''expected boolean or integer'')"
| "deserialize_bool_from_int (JString s) =
     (if s = ''true'' \<or> s = ''1'' then Inr True
      else if s = ''false'' \<or> s = ''0'' then Inr False
      else Inl ''expected boolean, integer, or boolean string'')"
| "deserialize_bool_from_int _ = Inl ''expected boolean or integer''"

fun opt_str_json :: "string option \<Rightarrow> json" where
  "opt_str_json None = JNull"
| "opt_str_json (Some s) = JString s"

definition webhook_json :: "webhook \<Rightarrow> json" where
  "webhook_json w = jobj [(''url'', opt_str_json (wh_url w))]"

definition drift_detection_json :: "drift_detection \<Rightarrow> json" where
  "drift_detection_json d = jobj
     [(''enabled'', JBool (dd_enabled d)), (''interval'', JString (dd_interval d)),
      (''autoRemediate'', JBool (dd_auto_remediate d)), (''webhooks'', JArray (List.map webhook_json (dd_webhooks d)))]"

definition dependency_json :: "dependency \<Rightarrow> json" where
  "dependency_json d = jobj
     [(''project_id'', JString (dep_project_id d)), (''region'', JString (dep_region d)),
      (''deployment_id'', JString (dep_deployment_id d)), (''environment'', JString (dep_environment d))]"

definition policy_result_json :: "policy_result \<Rightarrow> json" where
  "policy_result_json p = jobj
     [(''policy'', JString (pr_policy p)), (''version'', JString (pr_version p)),
      (''environment'', JString (pr_environment p)), (''description'', JString (pr_description p)),
      (''policy_name'', JString (pr_policy_name p)), (''failed'', JBool (pr_failed p)),
      (''violations'', pr_violations p)]"

fun opt_strs_json :: "string list option \<Rightarrow> json" where
  "opt_strs_json None = JNull"
| "opt_strs_json (Some ss) = JArray (List.map JString ss)"

text \<open>The fields of a deployment; the two wide integers are converted first.\<close>

definition deployment_fields :: "deployment_resp \<Rightarrow> json \<Rightarrow> json \<Rightarrow> (string \<times> json) list" where
  "deployment_fields d epoch next_check =
     [(''epoch'', epoch), (''deployment_id'', JString (dr_deployment_id d)),
      (''status'', JString (status_str (dr_status d))), (''job_id'', JString (dr_job_id d)),
      (''environment'', JString (dr_environment d)), (''project_id'', JString (dr_project_id d)),
      (''region'', JString (dr_region d)), (''module'', JString (dr_module d)),
      (''module_version'', JString (dr_module_version d)), (''module_type'', JString (dr_module_type d)),
      (''module_track'', JString (dr_module_track d)),
      (''drift_detection'', drift_detection_json (dr_drift_detection d)),
      (''next_drift_check_epoch'', next_check), (''has_drifted'', JBool (dr_has_drifted d)),
      (''variables'', dr_variables d), (''output'', dr_output d),
      (''policy_results'', JArray (List.map policy_result_json (dr_policy_results d))),
      (''error_text'', JString (dr_error_text d)), (''deleted'', JBool (dr_deleted d)),
      (''dependencies'', JArray (List.map dependency_json (dr_dependencies d))),
      (''initiated_by'', JString (dr_initiated_by d)), (''cpu'', JString (dr_cpu d)),
      (''memory'', JString (dr_memory d)), (''reference'', JString (dr_reference d)),
      (''tf_resources'', opt_strs_json (dr_tf_resources d))]"

text \<open>\<open>serde_json::to_value(deployment)\<close>; \<open>None\<close> is the error of an out-of-range integer.\<close>

definition deployment_json :: "deployment_resp \<Rightarrow> json option" where
  "deployment_json d = do {
     epoch \<leftarrow> u128_json (dr_epoch d);
     next_check \<leftarrow> i128_json (dr_next_drift_check_epoch d);
     Some (jobj (deployment_fields d epoch next_check))
   }"

subsection \<open>Reading\<close>

text \<open>A required field, an optional one (missing and null both read as \<open>None\<close>), one with a default.\<close>

definition req :: "(string \<times> json) list \<Rightarrow> string \<Rightarrow> (json \<Rightarrow> 'a option) \<Rightarrow> 'a option" where
  "req kvs k f = Option.bind (map_of kvs k) f"

definition opt_field :: "(string \<times> json) list \<Rightarrow> string \<Rightarrow> (json \<Rightarrow> 'a option) \<Rightarrow> 'a option option" where
  "opt_field kvs k f =
     (case map_of kvs k of None \<Rightarrow> Some None | Some JNull \<Rightarrow> Some None
      | Some v \<Rightarrow> map_option Some (f v))"

definition default_field :: "(string \<times> json) list \<Rightarrow> string \<Rightarrow> 'a \<Rightarrow> (json \<Rightarrow> 'a option) \<Rightarrow> 'a option" where
  "default_field kvs k d f = (case map_of kvs k of None \<Rightarrow> Some d | Some v \<Rightarrow> f v)"

fun read_list :: "(json \<Rightarrow> 'a option) \<Rightarrow> json list \<Rightarrow> 'a list option" where
  "read_list f [] = Some []"
| "read_list f (x # xs) = do { y \<leftarrow> f x; ys \<leftarrow> read_list f xs; Some (y # ys) }"

definition read_array :: "(json \<Rightarrow> 'a option) \<Rightarrow> json \<Rightarrow> 'a list option" where
  "read_array f v = Option.bind (as_array v) (read_list f)"

fun read_flag :: "json \<Rightarrow> bool option" where
  "read_flag v = (case deserialize_bool_from_int v of Inl _ \<Rightarrow> None | Inr b \<Rightarrow> Some b)"

fun read_status :: "json \<Rightarrow> deployment_status option" where
  "read_status (JString s) = status_of_str s"
| "read_status (JObject [(k, JNull)]) = status_of_str k"
| "read_status _ = None"

definition read_webhook :: "json \<Rightarrow> webhook option" where
  "read_webhook v = do {
     kvs \<leftarrow> as_object v;
     u \<leftarrow> opt_field kvs ''url'' as_str;
     Some \<lparr>wh_url = u\<rparr>
   }"

definition read_drift_detection :: "json \<Rightarrow> drift_detection option" where
  "read_drift_detection v = do {
     kvs \<leftarrow> as_object v;
     e \<leftarrow> default_field kvs ''enabled'' False as_bool;
     i \<leftarrow> default_field kvs ''interval'' DEFAULT_DRIFT_DETECTION_INTERVAL as_str;
     a \<leftarrow> default_field kvs ''autoRemediate'' False as_bool;
     w \<leftarrow> default_field kvs ''webhooks'' [] (read_array read_webhook);
     Some \<lparr>dd_enabled = e, dd_interval = i, dd_auto_remediate = a, dd_webhooks = w\<rparr>
   }"

definition read_dependency :: "json \<Rightarrow> dependency option" where
  "read_dependency v = do {
     kvs \<leftarrow> as_object v;
     p \<leftarrow> req kvs ''project_id'' as_str;
     r \<leftarrow> req kvs ''region'' as_str;
     d \<leftarrow> req kvs ''deployment_id'' as_str;
     e \<leftarrow> req kvs ''environment'' as_str;
     Some \<lparr>dep_project_id = p, dep_region = r, dep_deployment_id = d, dep_environment = e\<rparr>
   }"

definition read_dependent :: "json \<Rightarrow> dependent option" where
  "read_dependent v = do {
     kvs \<leftarrow> as_object v;
     p \<leftarrow> req kvs ''project_id'' as_str;
     r \<leftarrow> req kvs ''region'' as_str;
     d \<leftarrow> req kvs ''dependent_id'' as_str;
     e \<leftarrow> req kvs ''environment'' as_str;
     Some \<lparr>dpt_project_id = p, dpt_region = r, dpt_dependent_id = d, dpt_environment = e\<rparr>
   }"

definition read_policy_result :: "json \<Rightarrow> policy_result option" where
  "read_policy_result v = do {
     kvs \<leftarrow> as_object v;
     p \<leftarrow> req kvs ''policy'' as_str;
     ver \<leftarrow> default_field kvs ''version'' [] as_str;
     e \<leftarrow> req kvs ''environment'' as_str;
     d \<leftarrow> req kvs ''description'' as_str;
     n \<leftarrow> req kvs ''policy_name'' as_str;
     f \<leftarrow> req kvs ''failed'' as_bool;
     x \<leftarrow> req kvs ''violations'' Some;
     Some \<lparr>pr_policy = p, pr_version = ver, pr_environment = e, pr_description = d,
           pr_policy_name = n, pr_failed = f, pr_violations = x\<rparr>
   }"

definition read_deployment :: "json \<Rightarrow> deployment_resp option" where
  "read_deployment v = do {
     kvs \<leftarrow> as_object v;
     epoch \<leftarrow> req kvs ''epoch'' u128_of_json;
     deployment_id \<leftarrow> req kvs ''deployment_id'' as_str;
     status \<leftarrow> req kvs ''status'' read_status;
     job_id \<leftarrow> req kvs ''job_id'' as_str;
     environment \<leftarrow> req kvs ''environment'' as_str;
     project_id \<leftarrow> req kvs ''project_id'' as_str;
     region \<leftarrow> req kvs ''region'' as_str;
     module \<leftarrow> req kvs ''module'' as_str;
     module_version \<leftarrow> req kvs ''module_version'' as_str;
     module_type \<leftarrow> req kvs ''module_type'' as_str;
     module_track \<leftarrow> req kvs ''module_track'' as_str;
     drift_detection \<leftarrow> req kvs ''drift_detection'' read_drift_detection;
     next_check \<leftarrow> req kvs ''next_drift_check_epoch'' i128_of_json;
     has_drifted \<leftarrow> req kvs ''has_drifted'' read_flag;
     variables \<leftarrow> req kvs ''variables'' Some;
     output \<leftarrow> req kvs ''output'' Some;
     policy_results \<leftarrow> req kvs ''policy_results'' (read_array read_policy_result);
     error_text \<leftarrow> req kvs ''error_text'' as_str;
     deleted \<leftarrow> req kvs ''deleted'' read_flag;
     dependencies \<leftarrow> req kvs ''dependencies'' (read_array read_dependency);
     initiated_by \<leftarrow> req kvs ''initiated_by'' as_str;
     cpu \<leftarrow> req kvs ''cpu'' as_str;
     memory \<leftarrow> req kvs ''memory'' as_str;
     reference \<leftarrow> req kvs ''reference'' as_str;
     tf_resources \<leftarrow> opt_field kvs ''tf_resources'' (read_array as_str);
     Some \<lparr>dr_epoch = epoch, dr_deployment_id = deployment_id, dr_status = status, dr_job_id = job_id,
       dr_environment = environment, dr_project_id = project_id, dr_region = region, dr_module = module,
       dr_module_version = module_version, dr_module_type = module_type, dr_module_track = module_track,
       dr_drift_detection = drift_detection, dr_next_drift_check_epoch = next_check,
       dr_has_drifted = has_drifted, dr_variables = variables, dr_output = output,
       dr_policy_results = policy_results, dr_error_text = error_text, dr_deleted = deleted,
       dr_dependencies = dependencies, dr_initiated_by = initiated_by, dr_cpu = cpu, dr_memory = memory,
       dr_reference = reference, dr_tf_resources = tf_resources\<rparr>
   }"

subsection \<open>Round trips\<close>

named_theorems serde_round \<open>reading back what a serialiser wrote\<close>

lemma map_of_jobj: "map_of (bt_of_list kvs) k = map_of (rev kvs) k"
  by (rule bt.look_collect)

lemma read_list_round: "(\<And>x. x \<in> set xs \<Longrightarrow> f (g x) = Some x) \<Longrightarrow> read_list f (List.map g xs) = Some xs"
  by (induction xs) auto

lemma webhook_round [serde_round]: "read_webhook (webhook_json w) = Some w"
  by (cases w; cases "wh_url w")
    (simp_all add: read_webhook_def webhook_json_def jobj_def map_of_jobj opt_field_def)

lemma drift_detection_round [serde_round]: "read_drift_detection (drift_detection_json d) = Some d"
  by (cases d) (simp add: read_drift_detection_def drift_detection_json_def jobj_def map_of_jobj
      default_field_def read_array_def read_list_round serde_round)

lemma dependency_round [serde_round]: "read_dependency (dependency_json d) = Some d"
  by (cases d) (simp add: read_dependency_def dependency_json_def jobj_def map_of_jobj req_def)

lemma policy_result_round [serde_round]: "read_policy_result (policy_result_json p) = Some p"
  by (cases p) (simp add: read_policy_result_def policy_result_json_def jobj_def map_of_jobj
      req_def default_field_def)

end
