(* ===== verification/Effects.thy ===== *)
theory Effects
  imports Deployment
begin

text \<open>
  The effects of the asynchronous code. A computation takes a state and returns an outcome (a
  value, an \<open>anyhow\<close> error, a panic or a process exit) with the new state. Whatever is not code
  of the repository (the cloud provider's functions, the database behind them, the clock, the
  \<open>terraform\<close> and \<open>opa\<close> commands, files, webhooks) is reached by a \<open>call\<close>: every call is
  appended to the history in the state, and its answer is a parameter, a function of the history
  so far, so that nothing is assumed about what the environment answers or how it changes.

  The second half is a small program logic: triples over the outcome and the state, and the
  predicate \<open>logs\<close> on the calls that a computation adds to the history.
\<close>

section \<open>Outcomes\<close>

datatype 'a outcome = Ok 'a | Err string | Panic string | Exit

type_synonym ('s, 'a) eff = "'s \<Rightarrow> 'a outcome \<times> 's"

definition ret :: "'a \<Rightarrow> ('s, 'a) eff" where
  "ret a s = (Ok a, s)"

definition fail :: "string \<Rightarrow> ('s, 'a) eff" where
  "fail e s = (Err e, s)"

definition panic :: "string \<Rightarrow> ('s, 'a) eff" where
  "panic e s = (Panic e, s)"

definition exit_process :: "('s, 'a) eff" where
  "exit_process s = (Exit, s)"

definition modify :: "('s \<Rightarrow> 's) \<Rightarrow> ('s, unit) eff" where
  "modify f s = (Ok (), f s)"

definition gets :: "('s \<Rightarrow> 'a) \<Rightarrow> ('s, 'a) eff" where
  "gets f s = (Ok (f s), s)"

definition bnd :: "('s, 'a) eff \<Rightarrow> ('a \<Rightarrow> ('s, 'b) eff) \<Rightarrow> ('s, 'b) eff" where
  "bnd m f s =
     (case m s of
        (Ok a, s') \<Rightarrow> f a s'
      | (Err e, s') \<Rightarrow> (Err e, s')
      | (Panic e, s') \<Rightarrow> (Panic e, s')
      | (Exit, s') \<Rightarrow> (Exit, s'))"

definition seq :: "('s, unit) eff \<Rightarrow> ('s, 'b) eff \<Rightarrow> ('s, 'b) eff" where
  "seq m n = bnd m (\<lambda>_. n)"

text \<open>A block of statements that return nothing; each may end the block early.\<close>

fun block :: "('s, unit) eff list \<Rightarrow> ('s, unit) eff" where
  "block [] = ret ()"
| "block (m # ms) = seq m (block ms)"

text \<open>\<open>let _ = m.await\<close> and a \<open>match\<close> on the result: an error becomes a value; a panic does not.\<close>

definition attempt :: "('s, 'a) eff \<Rightarrow> ('s, (string, 'a) result) eff" where
  "attempt m s =
     (case m s of
        (Ok a, s') \<Rightarrow> (Ok (Inr a), s')
      | (Err e, s') \<Rightarrow> (Ok (Inl e), s')
      | (Panic e, s') \<Rightarrow> (Panic e, s')
      | (Exit, s') \<Rightarrow> (Exit, s'))"

text \<open>\<open>catch_unwind\<close>: a panic becomes a value as well; an exit of the process does not.\<close>

definition catch_unwind :: "('s, 'a) eff \<Rightarrow> ('s, (string, (string, 'a) result) result) eff" where
  "catch_unwind m s =
     (case m s of
        (Ok a, s') \<Rightarrow> (Ok (Inr (Inr a)), s')
      | (Err e, s') \<Rightarrow> (Ok (Inr (Inl e)), s')
      | (Panic e, s') \<Rightarrow> (Ok (Inl e), s')
      | (Exit, s') \<Rightarrow> (Exit, s'))"

definition of_result :: "(string, 'a) result \<Rightarrow> ('s, 'a) eff" where
  "of_result r = (case r of Inl e \<Rightarrow> fail e | Inr a \<Rightarrow> ret a)"

definition unwrap_opt :: "string \<Rightarrow> 'a option \<Rightarrow> ('s, 'a) eff" where
  "unwrap_opt e v = (case v of None \<Rightarrow> panic e | Some a \<Rightarrow> ret a)"

definition unwrap_res :: "(string, 'a) result \<Rightarrow> ('s, 'a) eff" where
  "unwrap_res r =
     (case r of Inl e \<Rightarrow> panic (''called `Result::unwrap()` on an `Err` value: '' @ e) | Inr a \<Rightarrow> ret a)"

fun for_each :: "('a \<Rightarrow> ('s, unit) eff) \<Rightarrow> 'a list \<Rightarrow> ('s, unit) eff" where
  "for_each f [] = ret ()"
| "for_each f (x # xs) = seq (f x) (for_each f xs)"

text \<open>A loop that carries a value.\<close>

fun fold_eff :: "('a \<Rightarrow> 'b \<Rightarrow> ('s, 'b) eff) \<Rightarrow> 'a list \<Rightarrow> 'b \<Rightarrow> ('s, 'b) eff" where
  "fold_eff f [] b = ret b"
| "fold_eff f (x # xs) b = bnd (f x b) (fold_eff f xs)"

section \<open>A program logic\<close>

definition triple :: "('s \<Rightarrow> bool) \<Rightarrow> ('s, 'a) eff \<Rightarrow> ('a outcome \<Rightarrow> 's \<Rightarrow> bool) \<Rightarrow> bool" where
  "triple P m Q \<longleftrightarrow> (\<forall>s. P s \<longrightarrow> (case m s of (r, s') \<Rightarrow> Q r s'))"

named_theorems triple_rules \<open>one rule per combinator\<close>

lemma tripleI: "(\<And>s r s'. P s \<Longrightarrow> m s = (r, s') \<Longrightarrow> Q r s') \<Longrightarrow> triple P m Q"
  by (auto simp: triple_def)

lemma tripleD: "triple P m Q \<Longrightarrow> P s \<Longrightarrow> m s = (r, s') \<Longrightarrow> Q r s'"
  by (auto simp: triple_def)

lemma triple_pre: "triple P m Q \<Longrightarrow> (\<And>s. P' s \<Longrightarrow> P s) \<Longrightarrow> triple P' m Q"
  by (auto simp: triple_def)

lemma triple_post: "triple P m Q \<Longrightarrow> (\<And>r s. Q r s \<Longrightarrow> Q' r s) \<Longrightarrow> triple P m Q'"
  by (auto simp: triple_def split: prod.splits)

lemma triple_bnd:
  assumes "triple P m (\<lambda>r s. case r of Ok a \<Rightarrow> R a s | Err e \<Rightarrow> Q (Err e) s | Panic e \<Rightarrow> Q (Panic e) s | Exit \<Rightarrow> Q Exit s)"
    and "\<And>a. triple (R a) (f a) Q"
  shows "triple P (bnd m f) Q"
proof (rule tripleI)
  fix s r s'
  assume P: "P s" and run: "bnd m f s = (r, s')"
  obtain o1 s1 where m: "m s = (o1, s1)" by (cases "m s")
  have "case o1 of Ok a \<Rightarrow> R a s1 | Err e \<Rightarrow> Q (Err e) s1 | Panic e \<Rightarrow> Q (Panic e) s1 | Exit \<Rightarrow> Q Exit s1"
    using tripleD [OF assms(1) P m] .
  then show "Q r s'"
    using run m assms(2) by (cases o1) (auto simp: bnd_def dest: tripleD)
qed

lemma triple_ret: "triple (\<lambda>s. Q (Ok a) s) (ret a) Q"
  by (simp add: triple_def ret_def)

lemma bnd_Ok: "bnd m f s = (Ok b, s'') \<longleftrightarrow> (\<exists>a s'. m s = (Ok a, s') \<and> f a s' = (Ok b, s''))"
  by (auto simp: bnd_def split: prod.splits outcome.splits)

lemma unwrap_Ok:
  "unwrap_res r s = (Ok a, s') \<longleftrightarrow> r = Inr a \<and> s' = s"
  "unwrap_opt e v s = (Ok a, s') \<longleftrightarrow> v = Some a \<and> s' = s"
  "of_result r s = (Ok a, s') \<longleftrightarrow> r = Inr a \<and> s' = s"
  by (auto simp: unwrap_res_def unwrap_opt_def of_result_def panic_def fail_def ret_def
      split: sum.splits option.splits)

lemma seq_Ok: "seq m n s = (Ok b, s'') \<longleftrightarrow> (\<exists>s'. m s = (Ok (), s') \<and> n s' = (Ok b, s''))"
  by (auto simp: seq_def bnd_Ok)

subsection \<open>Running a computation\<close>

named_theorems eff_simps \<open>how each combinator runs\<close>

lemma ret_run [simp, eff_simps]: "ret a s = (Ok a, s)"
  by (simp add: ret_def)

lemma fail_run [simp, eff_simps]: "fail e s = (Err e, s)"
  by (simp add: fail_def)

lemma panic_run [simp, eff_simps]: "panic e s = (Panic e, s)"
  by (simp add: panic_def)

lemma exit_run [simp, eff_simps]: "exit_process s = (Exit, s)"
  by (simp add: exit_process_def)

lemma modify_run [simp, eff_simps]: "modify f s = (Ok (), f s)"
  by (simp add: modify_def)

lemma gets_run [simp, eff_simps]: "gets f s = (Ok (f s), s)"
  by (simp add: gets_def)

lemma of_result_run [simp, eff_simps]:
  "of_result (Inl e) = fail e" "of_result (Inr a) = ret a"
  by (simp_all add: of_result_def)

lemma unwrap_opt_run [simp, eff_simps]: "unwrap_opt e None = panic e" "unwrap_opt e (Some a) = ret a"
  by (simp_all add: unwrap_opt_def)

lemma unwrap_res_run [simp, eff_simps]:
  "unwrap_res (Inl e) = panic (''called `Result::unwrap()` on an `Err` value: '' @ e)" "unwrap_res (Inr a) = ret a"
  by (simp_all add: unwrap_res_def)

end
