(* ===== verification/Module.thy ===== *)
theory Module
  imports Deployment
begin

text \<open>
  \<open>defs/src/module.rs\<close> with the records it contains (\<open>tfvariable.rs\<close>, \<open>tfoutput.rs\<close>,
  \<open>tfprovider.rs\<close>, \<open>oci.rs\<close>): modules, stacks and their manifests as the registry stores them,
  the validation of a manifest's names, and when a variable must be given.
\<close>

section \<open>Data\<close>

datatype yaml =
    YNull
  | YBool bool
  | YNumber number
  | YString string
  | YSeq "yaml list"
  | YMap "(yaml \<times> yaml) list"
  | YTagged string yaml

record tf_validation =
  tv_expression :: string
  tv_message :: string

record stack_module =
  sm_module :: string
  sm_version :: string
  sm_s3_key :: string
  sm_track :: string

record module_stack_data =
  sd_modules :: "stack_module list"

record tf_required_provider =
  rp_name :: string
  rp_version :: string
  rp_source :: string

record tf_lock_provider =
  lp_source :: string
  lp_version :: string

record module_diff_addition =
  da_path :: string
  da_value :: json

record module_diff_removal =
  drm_path :: string
  drm_value :: json

record module_diff_change =
  dch_path :: string
  dch_old_value :: json
  dch_new_value :: json

record module_version_diff =
  vd_added :: "module_diff_addition list"
  vd_changed :: "module_diff_change list"
  vd_removed :: "module_diff_removal list"
  vd_previous_version :: string

record tf_variable =
  tfv_name :: string
  tfv_type :: json
  tfv_default :: "json option"
  tfv_description :: string
  tfv_nullable :: bool
  tfv_sensitive :: bool

record tf_output =
  tfo_name :: string
  tfo_value :: string
  tfo_description :: string
  tfo_sensitive :: "bool option"

record metadata =
  md_name :: string

record provider_spec =
  ps_provider :: string
  ps_alias :: "string option"
  ps_version :: "string option"
  ps_description :: string
  ps_reference :: string

record provider_manifest =
  pm_metadata :: metadata
  pm_api_version :: string
  pm_kind :: string
  pm_spec :: provider_spec

record provider_resp =
  pv_name :: string
  pv_version :: string
  pv_timestamp :: string
  pv_description :: string
  pv_reference :: string
  pv_manifest :: provider_manifest
  pv_tf_variables :: "tf_variable list"
  pv_tf_extra_environment_variables :: "string list"
  pv_s3_key :: string

record oci_artifact_set =
  oci_artifact_path :: string
  oci_digest :: string
  oci_tag_main :: string
  oci_tag_signature :: "string option"
  oci_tag_attestation :: "string option"

record module_provider =
  mp_name :: string

record module_example =
  me_name :: string
  me_description :: string
  me_variables :: yaml

record module_spec =
  ms_module_name :: string
  ms_version :: "string option"
  ms_description :: string
  ms_reference :: string
  ms_examples :: "module_example list option"
  ms_cpu :: "string option"
  ms_memory :: "string option"
  ms_providers :: "module_provider list"

record module_manifest =
  mm_metadata :: metadata
  mm_api_version :: string
  mm_kind :: string
  mm_spec :: module_spec

record module_resp =
  mr_track :: string
  mr_track_version :: string
  mr_version :: string
  mr_timestamp :: string
  mr_module_name :: string
  mr_module :: string
  mr_module_type :: string
  mr_description :: string
  mr_reference :: string
  mr_manifest :: module_manifest
  mr_tf_variables :: "tf_variable list"
  mr_tf_outputs :: "tf_output list"
  mr_tf_providers :: "provider_resp list"
  mr_tf_required_providers :: "tf_required_provider list"
  mr_tf_lock_providers :: "tf_lock_provider list"
  mr_tf_extra_environment_variables :: "string list"
  mr_s3_key :: string
  mr_oci_artifact_set :: "oci_artifact_set option"
  mr_stack_data :: "module_stack_data option"
  mr_version_diff :: "module_version_diff option"
  mr_cpu :: string
  mr_memory :: string
  mr_deprecated :: bool
  mr_deprecated_message :: "string option"

definition get_module_identifier :: "string \<Rightarrow> string \<Rightarrow> string" where
  "get_module_identifier module track = track @ ''::'' @ module"

text \<open>\<open>ProviderSpec::configuration_name\<close>.\<close>

definition configuration_name :: "provider_spec \<Rightarrow> string" where
  "configuration_name s =
     (case ps_alias s of Some alias \<Rightarrow> ps_provider s @ ''.'' @ alias | None \<Rightarrow> ps_provider s)"

section \<open>Variables\<close>

text \<open>\<open>TfVariable::required\<close>: no default, or a null default on a variable that may not be null.\<close>

definition required :: "tf_variable \<Rightarrow> bool" where
  "required v =
     (if tfv_default v = None then True
      else if \<not> tfv_nullable v \<and> tfv_default v = Some JNull then True
      else False)"

definition tf_variable_default :: tf_variable where
  "tf_variable_default =
     \<lparr>tfv_name = [], tfv_type = JString ''any'', tfv_default = None, tfv_description = [],
      tfv_nullable = True, tfv_sensitive = False\<rparr>"

section \<open>Validating a manifest\<close>

definition validate_name :: "metadata \<Rightarrow> (string, unit) result" where
  "validate_name m =
     (let name = md_name m;
          bad = Inl (''Module name '' @ name @ '' must only use lowercase characters and numbers.'')
      in if length name < 2 then bad
         else if \<not> is_lower (hd name) then bad
         else if \<not> list_all (\<lambda>c. is_lower c \<or> is_digit c) (tl name) then bad
         else Inr ())"

definition validate_module_name :: "module_spec \<Rightarrow> (string, unit) result" where
  "validate_module_name s =
     (let module_name = ms_module_name s
      in if module_name \<noteq> [] \<and> \<not> is_upper (hd module_name)
         then Inl (''The moduleName '' @ module_name @ '' must start with an uppercase character.'')
         else if \<not> list_all is_alphanumeric module_name
         then Inl (''The moduleName '' @ module_name
               @ '' must only contain alphanumeric characters (no hyphens, underscores, or special characters).'')
         else Inr ())"

definition validate_name_consistency :: "module_manifest \<Rightarrow> (string, unit) result" where
  "validate_name_consistency m =
     (if to_lowercase (ms_module_name (mm_spec m)) \<noteq> md_name (mm_metadata m)
      then Inl (''The name '' @ md_name (mm_metadata m)
             @ '' must exactly match lowercase of the moduleName specified under spec ''
             @ ms_module_name (mm_spec m) @ ''.'')
      else Inr ())"

definition validate_kind :: "module_manifest \<Rightarrow> (string, unit) result" where
  "validate_kind m =
     (if mm_kind m \<noteq> ''Module''
      then Inl (''The kind field in module.yaml must be 'Module', but found ''
             @ [CHR 0x27] @ mm_kind m @ [CHR 0x27] @ ''.'')
      else Inr ())"

definition validate_all :: "module_manifest \<Rightarrow> (string, unit) result" where
  "validate_all m =
     res_bind (validate_name (mm_metadata m)) (\<lambda>_.
     res_bind (validate_module_name (mm_spec m)) (\<lambda>_.
     res_bind (validate_name_consistency m) (\<lambda>_.
     res_bind (validate_kind m) (\<lambda>_. Inr ()))))"

lemma validate_name_ok:
  "validate_name m = Inr () \<longleftrightarrow>
     2 \<le> length (md_name m) \<and> is_lower (hd (md_name m)) \<and> (\<forall>c \<in> set (md_name m). is_lower c \<or> is_digit c)"
  by (cases "md_name m"; cases "tl (md_name m)") (auto simp: validate_name_def Let_def list_all_iff)

section \<open>A module\<close>

text \<open>A published module without variables, for the witnesses of the theorems.\<close>

definition demo_module :: module_resp where
  "demo_module =
     \<lparr>mr_track = ''t'', mr_track_version = ''1'', mr_version = ''1'', mr_timestamp = [], mr_module_name = ''M'',
      mr_module = ''m'', mr_module_type = ''module'', mr_description = [], mr_reference = [],
      mr_manifest = \<lparr>mm_metadata = \<lparr>md_name = ''m''\<rparr>, mm_api_version = [], mm_kind = ''Module'',
        mm_spec = \<lparr>ms_module_name = ''M'', ms_version = None, ms_description = [], ms_reference = [],
          ms_examples = None, ms_cpu = None, ms_memory = None, ms_providers = []\<rparr>\<rparr>,
      mr_tf_variables = [], mr_tf_outputs = [], mr_tf_providers = [], mr_tf_required_providers = [],
      mr_tf_lock_providers = [], mr_tf_extra_environment_variables = [], mr_s3_key = ''k'',
      mr_oci_artifact_set = None, mr_stack_data = None, mr_version_diff = None, mr_cpu = ''1'', mr_memory = ''2'',
      mr_deprecated = False, mr_deprecated_message = None\<rparr>"

end
