(* ===== verification/Resource_Change.thy ===== *)
theory Resource_Change
  imports Json "HOL-Library.Monad_Syntax"
begin

text \<open>
  \<open>defs/src/resource_change.rs\<close>: the sanitised record of what a Terraform plan changes, kept for
  audit. \<open>sanitize_values\<close> drops what Terraform marks sensitive from a full state,
  \<open>diff_values_with_sensitivity\<close> builds the attribute diff of an update, \<open>from_terraform_json\<close>
  parses one plan entry and \<open>pretty_print_resource_changes\<close> renders a list of them.
\<close>

section \<open>Data\<close>

datatype resource_mode = Managed | Data

datatype resource_action = Create | Update | Delete | Replace | NoOp

record dependency_change =
  dc_added :: "string list"
  dc_removed :: "string list"
  dc_unchanged :: "string list"

record sanitized_change =
  rc_address :: string
  rc_resource_type :: string
  rc_name :: string
  rc_mode :: resource_mode
  rc_provider :: "string option"
  rc_action :: resource_action
  rc_action_reason :: "string option"
  rc_index :: "json option"
  rc_depends_on :: "dependency_change option"
  rc_before :: "json option"
  rc_after :: "json option"
  rc_changes :: "(string, json) btree option"

text \<open>
  \<open>serde_json::from_value\<close> at a unit-variant enum renamed to lower case: the variant's name as a
  string, or an object with that one key and a null.
\<close>

fun mode_of_name :: "string \<Rightarrow> resource_mode option" where
  "mode_of_name s = (if s = ''managed'' then Some Managed else if s = ''data'' then Some Data else None)"

fun mode_of_json :: "json \<Rightarrow> resource_mode option" where
  "mode_of_json (JString s) = mode_of_name s"
| "mode_of_json (JObject [(k, JNull)]) = mode_of_name k"
| "mode_of_json _ = None"

section \<open>Dropping sensitive values\<close>

text \<open>
  \<open>sanitize_values\<close> on present arguments; the loop over an object's entries and the zip over an
  array's elements are the two companions. \<open>sanitize_opt\<close> is the function with its optional
  arguments.
\<close>

fun sanitize_values :: "json \<Rightarrow> json \<Rightarrow> json option"
and sanitize_object :: "(string \<times> json) list \<Rightarrow> (string \<times> json) list \<Rightarrow> (string, json) btree \<Rightarrow> (string, json) btree"
and sanitize_array :: "json list \<Rightarrow> json list \<Rightarrow> json list" where
  "sanitize_values v m =
     (if as_bool m = Some True then None
      else (case (v, m) of
         (JObject val_map, JObject sens_map) \<Rightarrow>
           (let sanitized = sanitize_object val_map sens_map []
            in if sanitized = [] then None else Some (JObject sanitized))
       | (JArray val_arr, JArray sens_arr) \<Rightarrow>
           (let sanitized = sanitize_array val_arr sens_arr
            in if sanitized = [] then None else Some (JArray sanitized))
       | (val, JBool False) \<Rightarrow> (if \<not> is_object val \<and> \<not> is_array val then Some val else None)
       | (val, JObject _) \<Rightarrow> (if \<not> is_object val \<and> \<not> is_array val then Some val else None)
       | _ \<Rightarrow> None))"
| "sanitize_object [] sens_map acc = acc"
| "sanitize_object ((key, val) # rest) sens_map acc =
     (case map_of sens_map key of
        Some sens_val \<Rightarrow>
          (if as_bool sens_val = Some True then sanitize_object rest sens_map acc
           else (case sanitize_values val sens_val of
                   Some sanitized_val \<Rightarrow> sanitize_object rest sens_map (bt_insert key sanitized_val acc)
                 | None \<Rightarrow> sanitize_object rest sens_map acc))
      | None \<Rightarrow> sanitize_object rest sens_map (bt_insert key val acc))"
| "sanitize_array [] ms = []"
| "sanitize_array (v # vs) [] = []"
| "sanitize_array (v # vs) (m # ms) =
     (case sanitize_values v m of
        Some x \<Rightarrow> x # sanitize_array vs ms
      | None \<Rightarrow> sanitize_array vs ms)"

declare sanitize_values.simps [simp del]

definition sanitize_opt :: "json option \<Rightarrow> json option \<Rightarrow> json option" where
  "sanitize_opt values sensitive_markers = do {
     v \<leftarrow> values;
     m \<leftarrow> sensitive_markers;
     sanitize_values v m
   }"

text \<open>
  Two states that agree wherever the markers do not say \<open>true\<close>: what an observer who may see
  everything but the sensitive values can not tell apart.
\<close>

fun low_eq :: "json \<Rightarrow> json \<Rightarrow> json \<Rightarrow> bool"
and low_eq_fields :: "(string \<times> json) list \<Rightarrow> (string \<times> json) list \<Rightarrow> (string \<times> json) list \<Rightarrow> bool"
and low_eq_items :: "json list \<Rightarrow> json list \<Rightarrow> json list \<Rightarrow> bool" where
  "low_eq m v w \<longleftrightarrow> m = JBool True \<or>
     (case (v, w, m) of
        (JObject vs, JObject ws, JObject ms) \<Rightarrow> low_eq_fields ms vs ws
      | (JArray vs, JArray ws, JArray ms) \<Rightarrow> low_eq_items ms vs ws
      | _ \<Rightarrow> v = w)"
| "low_eq_fields ms [] ws \<longleftrightarrow> ws = []"
| "low_eq_fields ms ((k, v) # vs) ws \<longleftrightarrow>
     (case ws of
        [] \<Rightarrow> False
      | (k', w) # ws' \<Rightarrow> k = k' \<and>
          (case map_of ms k of None \<Rightarrow> v = w | Some m \<Rightarrow> low_eq m v w) \<and> low_eq_fields ms vs ws')"
| "low_eq_items ms [] ws \<longleftrightarrow> ws = []"
| "low_eq_items ms (v # vs) ws \<longleftrightarrow>
     (case ws of
        [] \<Rightarrow> False
      | w # ws' \<Rightarrow> (case ms of [] \<Rightarrow> low_eq_items [] vs ws' | m # ms' \<Rightarrow> low_eq m v w \<and> low_eq_items ms' vs ws'))"

declare low_eq.simps [simp del]

lemma sanitize_array_Nil [simp]: "sanitize_array vs [] = []"
  by (cases vs) auto

lemma sanitize_low_eq:
  shows "low_eq m v w \<Longrightarrow> sanitize_values v m = sanitize_values w m"
    and "low_eq_fields ms vs ws \<Longrightarrow> sanitize_object vs ms acc = sanitize_object ws ms acc"
    and "low_eq_items ms' vs' ws' \<Longrightarrow> sanitize_array vs' ms' = sanitize_array ws' ms'"
proof (induction m v w and ms vs ws and ms' vs' ws' arbitrary: and acc and
    rule: low_eq_low_eq_fields_low_eq_items.induct)
  case (1 m v w)
  from "1.prems" show ?case
    by (auto simp: low_eq.simps [of m v w] sanitize_values.simps [of _ m] "1.IH"
        split: json.splits)
next
  case (3 ms k v vs ws)
  then show ?case
    by (auto split: list.splits option.splits)
next
  case (5 ms v vs ws)
  then show ?case
    by (auto split: list.splits option.splits)
qed auto

section \<open>Dependency changes\<close>

text \<open>The strings of an optional array; every other element is skipped.\<close>

definition string_items :: "json option \<Rightarrow> string list" where
  "string_items v =
     (case Option.bind v as_array of None \<Rightarrow> [] | Some arr \<Rightarrow> List.map_filter as_str arr)"

definition compute_dependency_change :: "json option \<Rightarrow> json option \<Rightarrow> dependency_change option" where
  "compute_dependency_change before_depends_on after_depends_on =
     (let before_deps = string_items before_depends_on;
          after_deps = string_items after_depends_on
      in if before_deps = [] \<and> after_deps = [] then None
         else
           (let added = filter (\<lambda>d. d \<notin> set before_deps) after_deps;
                removed = filter (\<lambda>d. d \<notin> set after_deps) before_deps;
                unchanged = filter (\<lambda>d. d \<in> set before_deps) after_deps
            in if added = [] \<and> removed = [] \<and> unchanged = [] then None
               else Some \<lparr>dc_added = added, dc_removed = removed, dc_unchanged = unchanged\<rparr>))"

text \<open>The second emptiness test of the code can never fire.\<close>

lemma compute_dependency_change_None:
  "compute_dependency_change b a = None \<longleftrightarrow> string_items b = [] \<and> string_items a = []"
  by (auto simp: compute_dependency_change_def Let_def filter_empty_conv)

section \<open>The attribute diff of an update\<close>

definition is_sensitive :: "json option \<Rightarrow> bool" where
  "is_sensitive sensitive_markers \<longleftrightarrow> sensitive_markers = Some (JBool True)"

definition redacted :: json where
  "redacted = JString ''[REDACTED]''"

definition change_entry :: "json \<Rightarrow> json \<Rightarrow> bool \<Rightarrow> json" where
  "change_entry b a u = jobj [(''before'', b), (''after'', a), (''after_unknown'', JBool u)]"

definition child_path :: "string \<Rightarrow> string \<Rightarrow> string" where
  "child_path path key = (if path = [] then key else path @ ''.'' @ key)"

definition marker_at :: "json option \<Rightarrow> string \<Rightarrow> json option" where
  "marker_at m key = do { v \<leftarrow> m; mp \<leftarrow> as_object v; map_of mp key }"

text \<open>
  The keys of both objects are collected in a \<open>HashSet\<close>; \<open>iter\<close> is its iteration order (it
  receives the keys in some order and returns them in the order of the loop).
\<close>

function diff_values_with_sensitivity ::
  "(string list \<Rightarrow> string list) \<Rightarrow> string \<Rightarrow> json \<Rightarrow> json \<Rightarrow> json option \<Rightarrow> json option \<Rightarrow> json option \<Rightarrow>
   (string, json) btree \<Rightarrow> (string, json) btree" where
  "diff_values_with_sensitivity iter path before after before_sens after_sens after_unk changes =
     (let sens = is_sensitive before_sens \<or> is_sensitive after_sens;
          unk = is_sensitive after_unk
      in case (before, after) of
        (JObject before_map, JObject after_map) \<Rightarrow>
          fold (\<lambda>key ch.
            let new_path = child_path path key;
                key_before_sens = marker_at before_sens key;
                key_after_sens = marker_at after_sens key;
                key_after_unk = marker_at after_unk key
            in case (map_of before_map key, map_of after_map key) of
                 (Some before_val, Some after_val) \<Rightarrow>
                   (if before_val \<noteq> after_val
                    then diff_values_with_sensitivity iter new_path before_val after_val
                           key_before_sens key_after_sens key_after_unk ch
                    else ch)
               | (Some before_val, None) \<Rightarrow>
                   bt_insert new_path
                     (change_entry (if is_sensitive key_before_sens then redacted else before_val) JNull False) ch
               | (None, Some after_val) \<Rightarrow>
                   bt_insert new_path
                     (change_entry JNull (if is_sensitive key_after_sens then redacted else after_val)
                        (is_sensitive key_after_unk)) ch
               | (None, None) \<Rightarrow> ch)
            (iter (remdups (List.map fst before_map @ List.map fst after_map))) changes
      | (JArray before_arr, JArray after_arr) \<Rightarrow>
          (if before_arr \<noteq> after_arr
           then bt_insert path
                  (if sens then change_entry redacted redacted unk
                   else change_entry (JArray before_arr) (JArray after_arr) unk) changes
           else changes)
      | _ \<Rightarrow>
          (if before \<noteq> after
           then bt_insert path
                  (if sens then change_entry redacted redacted unk else change_entry before after unk) changes
           else changes))"
  by pat_completeness auto
termination
  by (relation "measure (\<lambda>(iter, path, b, rest). size b)") (auto simp: size_object_entry)

declare diff_values_with_sensitivity.simps [simp del]

definition compute_changes_with_sensitivity ::
  "(string list \<Rightarrow> string list) \<Rightarrow> json option \<Rightarrow> json option \<Rightarrow> json option \<Rightarrow> json option \<Rightarrow> json option \<Rightarrow>
   (string, json) btree option" where
  "compute_changes_with_sensitivity iter before after before_sens after_sens after_unk = do {
     before_val \<leftarrow> before;
     after_val \<leftarrow> after;
     let changes = diff_values_with_sensitivity iter [] before_val after_val before_sens after_sens after_unk [];
     if changes = [] then None else Some changes
   }"

section \<open>Parsing one plan entry\<close>

definition action_of :: "string list \<Rightarrow> resource_action" where
  "action_of actions =
     (if ''delete'' \<in> set actions \<and> ''create'' \<in> set actions then Replace
      else if ''delete'' \<in> set actions then Delete
      else if ''create'' \<in> set actions then Create
      else if ''update'' \<in> set actions then Update
      else NoOp)"

definition from_terraform_json :: "(string list \<Rightarrow> string list) \<Rightarrow> json \<Rightarrow> sanitized_change option" where
  "from_terraform_json iter resource = do {
     address \<leftarrow> Option.bind (jget resource ''address'') as_str;
     resource_type \<leftarrow> Option.bind (jget resource ''type'') as_str;
     name \<leftarrow> Option.bind (jget resource ''name'') as_str;
     let mode = (case Option.bind (jget resource ''mode'') mode_of_json of Some m \<Rightarrow> m | None \<Rightarrow> Managed);
     let provider = Option.bind (jget resource ''provider_name'') as_str;
     change \<leftarrow> jget resource ''change'';
     action_arr \<leftarrow> Option.bind (jget change ''actions'') as_array;
     let action = action_of (List.map_filter as_str action_arr);
     let action_reason = Option.bind (jget resource ''action_reason'') as_str;
     let index = jget resource ''index'';
     let depends_on = compute_dependency_change (jget change ''before_depends_on'') (jget change ''after_depends_on'');
     let (before, after, changes) = (case action of
         Update \<Rightarrow> (None, None, compute_changes_with_sensitivity iter (jget change ''before'') (jget change ''after'')
                      (jget change ''before_sensitive'') (jget change ''after_sensitive'') (jget change ''after_unknown''))
       | Replace \<Rightarrow> (None, None, compute_changes_with_sensitivity iter (jget change ''before'') (jget change ''after'')
                      (jget change ''before_sensitive'') (jget change ''after_sensitive'') (jget change ''after_unknown''))
       | Create \<Rightarrow> (None, sanitize_opt (jget change ''after'') (jget change ''after_sensitive''), None)
       | Delete \<Rightarrow> (sanitize_opt (jget change ''before'') (jget change ''before_sensitive''), None, None)
       | NoOp \<Rightarrow> (None, None, None));
     Some \<lparr>rc_address = address, rc_resource_type = resource_type, rc_name = name, rc_mode = mode,
           rc_provider = provider, rc_action = action, rc_action_reason = action_reason, rc_index = index,
           rc_depends_on = depends_on, rc_before = before, rc_after = after, rc_changes = changes\<rparr>
   }"

definition sanitize_resource_changes :: "(string list \<Rightarrow> string list) \<Rightarrow> json \<Rightarrow> sanitized_change list" where
  "sanitize_resource_changes iter resource_changes =
     (case as_array resource_changes of
        None \<Rightarrow> []
      | Some changes \<Rightarrow> List.map_filter (from_terraform_json iter) changes)"

definition sanitize_resource_changes_from_plan ::
  "(string list \<Rightarrow> string list) \<Rightarrow> json \<Rightarrow> bool \<Rightarrow> sanitized_change list" where
  "sanitize_resource_changes_from_plan iter plan_json refresh_only =
     (let key = (if refresh_only then ''resource_drift'' else ''resource_changes'')
      in case jget plan_json key of
           None \<Rightarrow> []
         | Some v \<Rightarrow> sanitize_resource_changes iter v)"

section \<open>What the diff records\<close>

text \<open>
  The specification of the diff: an entry is recorded for a leaf that differs (redacted when
  either side is marked), for a key that was removed or added, and nothing else.
\<close>

inductive diff_entry ::
  "string \<Rightarrow> json \<Rightarrow> json \<Rightarrow> json option \<Rightarrow> json option \<Rightarrow> json option \<Rightarrow> string \<Rightarrow> json \<Rightarrow> bool" where
  leaf: "b \<noteq> a \<Longrightarrow> \<not> (is_object b \<and> is_object a) \<Longrightarrow> \<not> is_sensitive bs \<Longrightarrow> \<not> is_sensitive as \<Longrightarrow>
     diff_entry path b a bs as u path (change_entry b a (is_sensitive u))"
| leaf_redacted: "b \<noteq> a \<Longrightarrow> \<not> (is_object b \<and> is_object a) \<Longrightarrow> is_sensitive bs \<or> is_sensitive as \<Longrightarrow>
     diff_entry path b a bs as u path (change_entry redacted redacted (is_sensitive u))"
| removed: "map_of bm k = Some v \<Longrightarrow> map_of am k = None \<Longrightarrow>
     diff_entry path (JObject bm) (JObject am) bs as u (child_path path k)
       (change_entry (if is_sensitive (marker_at bs k) then redacted else v) JNull False)"
| added: "map_of bm k = None \<Longrightarrow> map_of am k = Some w \<Longrightarrow>
     diff_entry path (JObject bm) (JObject am) bs as u (child_path path k)
       (change_entry JNull (if is_sensitive (marker_at as k) then redacted else w) (is_sensitive (marker_at u k)))"
| nested: "map_of bm k = Some v \<Longrightarrow> map_of am k = Some w \<Longrightarrow> v \<noteq> w \<Longrightarrow>
     diff_entry (child_path path k) v w (marker_at bs k) (marker_at as k) (marker_at u k) p e \<Longrightarrow>
     diff_entry path (JObject bm) (JObject am) bs as u p e"

inductive_cases diff_entry_objectE: "diff_entry path (JObject bm) (JObject am) bs as u p e"

lemma diff_leaf:
  "\<not> (is_object b \<and> is_object a) \<Longrightarrow>
   diff_values_with_sensitivity iter path b a bs as u ch =
     (if b = a then ch
      else bt_insert path
        (if is_sensitive bs \<or> is_sensitive as then change_entry redacted redacted (is_sensitive u)
         else change_entry b a (is_sensitive u)) ch)"
  by (cases b; cases a; simp add: diff_values_with_sensitivity.simps Let_def)

text \<open>The body of the loop over the keys.\<close>

definition diff_key ::
  "(string list \<Rightarrow> string list) \<Rightarrow> string \<Rightarrow> (string \<times> json) list \<Rightarrow> (string \<times> json) list \<Rightarrow>
   json option \<Rightarrow> json option \<Rightarrow> json option \<Rightarrow> string \<Rightarrow> (string, json) btree \<Rightarrow> (string, json) btree" where
  "diff_key iter path bm am bs as u key ch =
     (case (map_of bm key, map_of am key) of
        (Some v, Some w) \<Rightarrow>
          (if v \<noteq> w then diff_values_with_sensitivity iter (child_path path key) v w
                          (marker_at bs key) (marker_at as key) (marker_at u key) ch
           else ch)
      | (Some v, None) \<Rightarrow>
          bt_insert (child_path path key)
            (change_entry (if is_sensitive (marker_at bs key) then redacted else v) JNull False) ch
      | (None, Some w) \<Rightarrow>
          bt_insert (child_path path key)
            (change_entry JNull (if is_sensitive (marker_at as key) then redacted else w)
               (is_sensitive (marker_at u key))) ch
      | (None, None) \<Rightarrow> ch)"

lemma diff_object:
  "diff_values_with_sensitivity iter path (JObject bm) (JObject am) bs as u ch =
     fold (diff_key iter path bm am bs as u) (iter (remdups (List.map fst bm @ List.map fst am))) ch"
  by (subst diff_values_with_sensitivity.simps) (simp add: Let_def diff_key_def [abs_def])

text \<open>One round of the loop: nothing, one recorded entry, or the recursive call.\<close>

lemma diff_keyE:
  obtains (same) "diff_key iter path bm am bs as u k c = c"
  | (ins) e where "diff_key iter path bm am bs as u k c = bt_insert (child_path path k) e c"
      "diff_entry path (JObject bm) (JObject am) bs as u (child_path path k) e"
  | (rec) v w where "map_of bm k = Some v" "map_of am k = Some w" "v \<noteq> w"
      "diff_key iter path bm am bs as u k c =
         diff_values_with_sensitivity iter (child_path path k) v w (marker_at bs k) (marker_at as k) (marker_at u k) c"
proof (cases "map_of bm k"; cases "map_of am k")
  assume "map_of bm k = None" "map_of am k = None"
  then show thesis by (intro same) (simp add: diff_key_def)
next
  fix w assume "map_of bm k = None" "map_of am k = Some w"
  then show thesis by (intro ins) (auto simp: diff_key_def intro: diff_entry.added)
next
  fix v assume "map_of bm k = Some v" "map_of am k = None"
  then show thesis by (intro ins) (auto simp: diff_key_def intro: diff_entry.removed)
next
  fix v w assume vw: "map_of bm k = Some v" "map_of am k = Some w"
  show thesis
  proof (cases "v = w")
    case True
    with vw show thesis by (intro same) (simp add: diff_key_def)
  next
    case False
    with vw show thesis by (intro rec) (simp_all add: diff_key_def)
  qed
qed

lemma diff_entry_leaf:
  "\<not> (is_object b \<and> is_object a) \<Longrightarrow> b \<noteq> a \<Longrightarrow>
   diff_entry path b a bs as u path
     (if is_sensitive bs \<or> is_sensitive as then change_entry redacted redacted (is_sensitive u)
      else change_entry b a (is_sensitive u))"
  by (auto intro: diff_entry.leaf diff_entry.leaf_redacted)

lemma set_bt_insert: "set (bt_insert k v m) \<subseteq> insert (k, v) (set m)"
  by (induction k v m rule: bt_insert.induct) auto

lemma diff_leaf_bound:
  "\<not> (is_object b \<and> is_object a) \<Longrightarrow>
   set (diff_values_with_sensitivity iter path b a bs as u ch) \<subseteq>
     set ch \<union> {(p, e). diff_entry path b a bs as u p e}"
  using set_bt_insert [of path "if is_sensitive bs \<or> is_sensitive as
      then change_entry redacted redacted (is_sensitive u) else change_entry b a (is_sensitive u)" ch]
    diff_entry_leaf [of b a path bs as u]
  by (cases "b = a") (auto simp: diff_leaf)

lemma diff_leaf_keys:
  "\<not> (is_object b \<and> is_object a) \<Longrightarrow>
   fst ` set ch \<subseteq> fst ` set (diff_values_with_sensitivity iter path b a bs as u ch)"
  by (auto simp: diff_leaf keys_bt_insert)

lemma fold_set_bound:
  assumes "\<And>k c. set (f k c) \<subseteq> set c \<union> S"
  shows "set (fold f ks ch) \<subseteq> set ch \<union> S"
proof (induction ks arbitrary: ch)
  case (Cons k ks)
  show ?case using Cons [of "f k ch"] assms [of k ch] by auto
qed simp

lemma diff_values_sound:
  "set (diff_values_with_sensitivity iter path b a bs as u ch) \<subseteq>
     set ch \<union> {(p, e). diff_entry path b a bs as u p e}"
proof (induction b arbitrary: path a bs as u ch rule: json_induct)
  case (JObject bm)
  show ?case
  proof (cases "is_object a")
    case True
    then obtain am where a: "a = JObject am" by (rule is_objectE)
    let ?S = "{(p, e). diff_entry path (JObject bm) (JObject am) bs as u p e}"
    have "set (diff_key iter path bm am bs as u k c) \<subseteq> set c \<union> ?S" for k c
    proof (cases rule: diff_keyE [of iter path bm am bs as u k c])
      case (ins e)
      then show ?thesis using set_bt_insert [of "child_path path k" e c] by auto
    next
      case (rec v w)
      from JObject.IH [OF map_of_SomeD [OF rec(1)], of "child_path path k" w "marker_at bs k"
          "marker_at as k" "marker_at u k" c]
      show ?thesis using rec(4) diff_entry.nested [OF rec(1-3), of path bs as u] by auto
    qed simp
    then show ?thesis
      using fold_set_bound [of "diff_key iter path bm am bs as u" ?S] unfolding a diff_object by blast
  qed (simp add: diff_leaf_bound)
qed (simp_all add: diff_leaf_bound)

text \<open>Conversely every change the specification names is recorded under its path.\<close>

lemma fold_keys_mono:
  assumes "\<And>k c. fst ` set c \<subseteq> fst ` set (f k c)"
  shows "fst ` set ch \<subseteq> fst ` set (fold f ks ch)"
proof (induction ks arbitrary: ch)
  case (Cons k ks)
  show ?case using subset_trans [OF assms [of ch k] Cons [of "f k ch"]] by simp
qed simp

lemma fold_keys_step:
  assumes mono: "\<And>k c. fst ` set c \<subseteq> fst ` set (f k c)"
    and hit: "\<And>c. p \<in> fst ` set (f k c)" and k: "k \<in> set ks"
  shows "p \<in> fst ` set (fold f ks ch)"
proof -
  obtain xs ys where "ks = xs @ k # ys" using k by (auto simp: in_set_conv_decomp)
  moreover have "p \<in> fst ` set (fold f ys (f k (fold f xs ch)))"
    by (rule subsetD [OF fold_keys_mono [of f, OF mono] hit])
  ultimately show ?thesis by simp
qed

lemma diff_values_mono:
  "fst ` set ch \<subseteq> fst ` set (diff_values_with_sensitivity iter path b a bs as u ch)"
proof (induction b arbitrary: path a bs as u ch rule: json_induct)
  case (JObject bm)
  have step: "fst ` set c \<subseteq> fst ` set (diff_key iter path bm am bs as u k c)" for am k c
  proof (cases rule: diff_keyE [of iter path bm am bs as u k c])
    case (rec v w)
    then show ?thesis
      using JObject.IH [OF map_of_SomeD [OF rec(1)]] by simp
  qed (simp_all add: keys_bt_insert subset_insertI)
  show ?case
  proof (cases "is_object a")
    case True
    then obtain am where "a = JObject am" by (rule is_objectE)
    then show ?thesis
      using fold_keys_mono [of "diff_key iter path bm am bs as u", OF step] by (simp add: diff_object)
  qed (simp add: diff_leaf_keys)
qed (simp_all add: diff_leaf_keys)

lemma diff_key_mono:
  "fst ` set c \<subseteq> fst ` set (diff_key iter path bm am bs as u k c)"
proof (cases rule: diff_keyE [of iter path bm am bs as u k c])
  case (rec v w)
  then show ?thesis using diff_values_mono by simp
qed (simp_all add: keys_bt_insert subset_insertI)

lemma diff_values_complete:
  assumes iter: "\<And>ks. set (iter ks) = set ks"
  shows "diff_entry path b a bs as u p e \<Longrightarrow>
           p \<in> fst ` set (diff_values_with_sensitivity iter path b a bs as u ch)"
proof (induction arbitrary: ch rule: diff_entry.induct)
  case (removed bm k v am path bs as u)
  then have "k \<in> set (iter (remdups (List.map fst bm @ List.map fst am)))"
    by (auto simp: iter dest!: map_of_SomeD intro: rev_image_eqI)
  with removed show ?case unfolding diff_object
    by (intro fold_keys_step [OF diff_key_mono]) (auto simp: diff_key_def keys_bt_insert)
next
  case (added bm k am w path bs as u)
  then have "k \<in> set (iter (remdups (List.map fst bm @ List.map fst am)))"
    by (auto simp: iter dest!: map_of_SomeD intro: rev_image_eqI)
  with added show ?case unfolding diff_object
    by (intro fold_keys_step [OF diff_key_mono]) (auto simp: diff_key_def keys_bt_insert)
next
  case (nested bm k v am w path bs as u p e)
  then have "k \<in> set (iter (remdups (List.map fst bm @ List.map fst am)))"
    by (auto simp: iter dest!: map_of_SomeD intro: rev_image_eqI)
  with nested show ?case unfolding diff_object
    by (intro fold_keys_step [OF diff_key_mono]) (simp_all add: diff_key_def)
qed (simp_all add: diff_leaf keys_bt_insert)

lemma fold_wf:
  assumes "\<And>k c. bt_wf c \<Longrightarrow> bt_wf (f k c)"
  shows "bt_wf ch \<Longrightarrow> bt_wf (fold f ks ch)"
  by (induction ks arbitrary: ch) (simp_all add: assms)

lemma diff_values_wf:
  "bt_wf ch \<Longrightarrow> bt_wf (diff_values_with_sensitivity iter path b a bs as u ch)"
proof (induction b arbitrary: path a bs as u ch rule: json_induct)
  case (JObject bm)
  have step: "bt_wf c \<Longrightarrow> bt_wf (diff_key iter path bm am bs as u k c)" for am k c
  proof (cases rule: diff_keyE [of iter path bm am bs as u k c])
    case (rec v w)
    then show "bt_wf c \<Longrightarrow> ?thesis"
      using JObject.IH [OF map_of_SomeD [OF rec(1)]] by simp
  qed simp_all
  show ?case
  proof (cases "is_object a")
    case True
    then obtain am where "a = JObject am" by (rule is_objectE)
    then show ?thesis
      using JObject.prems fold_wf [of "diff_key iter path bm am bs as u", OF step] by (simp add: diff_object)
  qed (simp add: JObject.prems diff_leaf)
qed (simp_all add: diff_leaf)

text \<open>Different well-formed values differ somewhere the diff sees.\<close>

lemma diff_entry_exists:
  "json_wf b \<Longrightarrow> json_wf a \<Longrightarrow> b \<noteq> a \<Longrightarrow> \<exists>p e. diff_entry path b a bs as u p e"
proof (induction b arbitrary: path a bs as u rule: json_induct)
  case (JObject bm)
  show ?case
  proof (cases "is_object a")
    case True
    then obtain am where a: "a = JObject am" by (rule is_objectE)
    with JObject.prems have "map_of bm \<noteq> map_of am"
      by (auto dest: bt_ext)
    then obtain k where k: "map_of bm k \<noteq> map_of am k" by blast
    show ?thesis
    proof (cases "map_of bm k"; cases "map_of am k")
      fix v w
      assume v: "map_of bm k = Some v" and w: "map_of am k = Some w"
      with k have "v \<noteq> w" by simp
      moreover have "json_wf v" "json_wf w"
        using JObject.prems a v w json_wf_lookup by blast+
      ultimately obtain p e where
        "diff_entry (child_path path k) v w (marker_at bs k) (marker_at as k) (marker_at u k) p e"
        using JObject.IH [OF map_of_SomeD [OF v]] by blast
      with v w \<open>v \<noteq> w\<close> a show ?thesis by (blast intro: diff_entry.nested)
    qed (use k a in \<open>auto intro: diff_entry.removed diff_entry.added\<close>)
  next
    case False
    with JObject.prems show ?thesis using diff_entry_leaf [of "JObject bm" a] by blast
  qed
qed (rule exI, rule exI, rule diff_entry_leaf, simp, assumption)+

section \<open>Rendering\<close>

definition nl :: string where
  "nl = [char_of (10 :: nat)]"

fun format_value :: "json \<Rightarrow> string" where
  "format_value (JString s) = [CHR 0x22] @ s @ [CHR 0x22]"
| "format_value (JNumber n) = number_str n"
| "format_value (JBool b) = bool_str b"
| "format_value JNull = ''null''"
| "format_value (JArray arr) =
     (if arr = [] then ''[]''
      else if length arr \<le> 3 then ''['' @ join '', '' (List.map format_value arr) @ '']''
      else ''[... '' @ nat_str (length arr) @ '' items ...]'')"
| "format_value (JObject obj) =
     (if obj = [] then ''{}'' else ''{... '' @ nat_str (length obj) @ '' fields ...}'')"

definition format_change_value :: "json option \<Rightarrow> bool \<Rightarrow> string" where
  "format_change_value value is_after_unknown =
     (case value of
        Some v \<Rightarrow> (if v \<noteq> JNull then format_value v
                   else if is_after_unknown then ''(known after apply)'' else ''null'')
      | None \<Rightarrow> (if is_after_unknown then ''(known after apply)'' else ''null''))"

text \<open>The loop over the change map collects concrete changes and the keys known after apply.\<close>

fun format_changes_from_map :: "(string, json) btree \<Rightarrow> string list \<times> string list" where
  "format_changes_from_map [] = ([], [])"
| "format_changes_from_map ((key, value) # rest) =
     (let (concrete_changes, known_after_apply) = format_changes_from_map rest
      in case as_object value of
           None \<Rightarrow> (concrete_changes, known_after_apply)
         | Some obj \<Rightarrow>
             (let is_unknown = (case Option.bind (map_of obj ''after_unknown'') as_bool of
                                  Some u \<Rightarrow> u | None \<Rightarrow> False)
              in if is_unknown then (concrete_changes, key # known_after_apply)
                 else ((key @ '': '' @ format_change_value (map_of obj ''before'') False @ '' -> ''
                          @ format_change_value (map_of obj ''after'') is_unknown) # concrete_changes,
                       known_after_apply)))"

definition known_after_apply_line :: "string list \<Rightarrow> string" where
  "known_after_apply_line known =
     (if known = [] then []
      else if length known \<le> 5 then ''      (known after apply: '' @ join '', '' known @ '')'' @ nl
      else ''      (known after apply: '' @ join '', '' (take 5 known) @ '', ... and ''
             @ nat_str (length known - 5) @ '' more)'' @ nl)"

definition change_details :: "(string, json) btree option \<Rightarrow> string" where
  "change_details changes =
     (case changes of
        None \<Rightarrow> []
      | Some changes_map \<Rightarrow>
          (let (concrete_changes, known_after_apply) = format_changes_from_map changes_map
           in concat (List.map (\<lambda>c. ''      ~ '' @ c @ nl) concrete_changes)
              @ known_after_apply_line known_after_apply))"

definition resource_line :: "string \<Rightarrow> sanitized_change \<Rightarrow> string" where
  "resource_line sign c = sign @ rc_address c @ '' ('' @ rc_resource_type c @ '')'' @ nl"

definition summary_line :: "string \<Rightarrow> 'a list \<Rightarrow> string" where
  "summary_line label cs = (if cs = [] then [] else label @ nat_str (length cs) @ nl)"

definition detail_section :: "string \<Rightarrow> (sanitized_change \<Rightarrow> string) \<Rightarrow> sanitized_change list \<Rightarrow> string" where
  "detail_section title line cs = (if cs = [] then [] else title @ nl @ concat (List.map line cs) @ nl)"

definition pretty_print_resource_changes :: "sanitized_change list \<Rightarrow> string" where
  "pretty_print_resource_changes changes =
     (if changes = [] then ''No resource changes.''
      else
        (let creates = filter (\<lambda>c. rc_action c = Create) changes;
             updates = filter (\<lambda>c. rc_action c = Update) changes;
             deletes = filter (\<lambda>c. rc_action c = Delete) changes;
             replaces = filter (\<lambda>c. rc_action c = Replace) changes;
             no_ops = filter (\<lambda>c. rc_action c = NoOp) changes
         in concat
              [''Total changes: '' @ nat_str (length changes) @ nl @ nl,
               ''Summary:'' @ nl,
               summary_line ''  + Create: '' creates,
               summary_line ''  ~ Update: '' updates,
               summary_line ''  +/- Replace: '' replaces,
               summary_line ''  - Delete: '' deletes,
               summary_line ''  = No-op: '' no_ops,
               nl,
               detail_section ''Resources to create:'' (resource_line ''  + '') creates,
               detail_section ''Resources to update:''
                 (\<lambda>c. resource_line ''  ~ '' c @ change_details (rc_changes c)) updates,
               detail_section ''Resources to replace:''
                 (\<lambda>c. resource_line ''  +/- '' c
                      @ (case rc_action_reason c of None \<Rightarrow> [] | Some r \<Rightarrow> ''      Reason: '' @ r @ nl)
                      @ change_details (rc_changes c)) replaces,
               detail_section ''Resources to delete:'' (resource_line ''  - '') deletes,
               detail_section ''Resources with no changes:'' (resource_line ''  = '') no_ops]))"

lemma detail_section_contains:
  "c \<in> set cs \<Longrightarrow> contains_str (line c) p \<Longrightarrow> contains_str (detail_section title line cs) p"
proof -
  assume "c \<in> set cs" "contains_str (line c) p"
  then have "contains_str (concat (List.map line cs)) p"
    by (auto intro: contains_str_concat [of "line c"])
  then have "contains_str ((title @ nl) @ concat (List.map line cs) @ nl) p"
    by (intro contains_str_append2 contains_str_append1)
  then show ?thesis
    using \<open>c \<in> set cs\<close> by (auto simp: detail_section_def)
qed

lemma resource_line_contains:
  "contains_str (resource_line sign c) (rc_address c @ '' ('' @ rc_resource_type c @ '')'')"
  using contains_str_mid [of sign "rc_address c @ '' ('' @ rc_resource_type c @ '')''" nl]
  by (simp add: resource_line_def)

section \<open>Properties\<close>

text \<open>
  C12: the record kept of a created or deleted resource (any action but update and replace) does
  not depend on a value Terraform marks sensitive: two plan entries that agree outside the
  before and after states, and whose states agree wherever the sensitivity markers do not say
  true, give the same record.
\<close>

definition low_opt :: "json option \<Rightarrow> json option \<Rightarrow> json option \<Rightarrow> bool" where
  "low_opt m v w \<longleftrightarrow>
     (case (m, v, w) of
        (Some m', Some v', Some w') \<Rightarrow> low_eq m' v' w'
      | (Some _, None, None) \<Rightarrow> True
      | (None, _, _) \<Rightarrow> True
      | _ \<Rightarrow> False)"

lemma sanitize_opt_low: "low_opt m v w \<Longrightarrow> sanitize_opt v m = sanitize_opt w m"
  by (auto simp: low_opt_def sanitize_opt_def sanitize_low_eq(1) Option.bind_eq_None_conv split: option.splits)

definition entry_action :: "json \<Rightarrow> resource_action" where
  "entry_action change = action_of (List.map_filter as_str
     (case Option.bind (jget change ''actions'') as_array of None \<Rightarrow> [] | Some arr \<Rightarrow> arr))"

theorem record_noninterference:
  assumes same: "\<And>k. k \<noteq> ''change'' \<Longrightarrow> jget r k = jget r' k"
    and c: "jget r ''change'' = Some c" "jget r' ''change'' = Some c'"
    and rest: "\<And>k. k \<notin> {''before'', ''after''} \<Longrightarrow> jget c k = jget c' k"
    and action: "entry_action c \<notin> {Update, Replace}"
    and low: "low_opt (jget c ''after_sensitive'') (jget c ''after'') (jget c' ''after'')"
      "low_opt (jget c ''before_sensitive'') (jget c ''before'') (jget c' ''before'')"
  shows "from_terraform_json iter r = from_terraform_json iter r'"
proof -
  note agree = same [of "''address''"] same [of "''type''"] same [of "''name''"] same [of "''mode''"]
    same [of "''provider_name''"] same [of "''action_reason''"] same [of "''index''"]
    rest [of "''actions''"] rest [of "''before_depends_on''"] rest [of "''after_depends_on''"]
    rest [of "''after_sensitive''"] rest [of "''before_sensitive''"]
  show ?thesis
    using c action sanitize_opt_low [OF low(1)] sanitize_opt_low [OF low(2)] agree
    unfolding from_terraform_json_def
    by (auto simp: entry_action_def Let_def intro!: Option.bind_cong split: resource_action.splits)
qed

definition demo_change :: "string \<Rightarrow> json" where
  "demo_change secret = jobj
     [(''actions'', JArray [JString ''create'']),
      (''after'', jobj [(''id'', JString ''db1''), (''password'', JString secret)]),
      (''after_sensitive'', jobj [(''password'', JBool True)])]"

definition demo_entry :: "json \<Rightarrow> json" where
  "demo_entry change = jobj
     [(''address'', JString ''aws_db.x''), (''type'', JString ''aws_db''), (''name'', JString ''x''),
      (''change'', change)]"

lemma record_noninterference_witness:
  "from_terraform_json (\<lambda>ks. ks) (demo_entry (demo_change ''hunter2''))
     = from_terraform_json (\<lambda>ks. ks) (demo_entry (demo_change ''12345''))"
  by (rule record_noninterference [where c = "demo_change ''hunter2''" and c' = "demo_change ''12345''"])
    (simp_all add: demo_entry_def demo_change_def jobj_def entry_action_def action_of_def
      List.map_filter_simps low_opt_def low_eq.simps)

definition demo_before :: json where
  "demo_before = jobj [(''id'', JString ''db1''), (''password'', JString ''old''), (''size'', JString ''s'')]"

definition demo_after :: json where
  "demo_after = jobj [(''id'', JString ''db1''), (''password'', JString ''new''), (''zone'', JString ''a'')]"

lemma demo_diff:
  "compute_changes_with_sensitivity (\<lambda>ks. ks) (Some demo_before) (Some demo_after)
     (Some (jobj [(''password'', JBool True)])) None None =
   Some [(''password'', change_entry redacted redacted False),
         (''size'', change_entry (JString ''s'') JNull False),
         (''zone'', change_entry JNull (JString ''a'') False)]"
  by (simp add: compute_changes_with_sensitivity_def demo_before_def demo_after_def jobj_def
      diff_object diff_key_def diff_leaf marker_at_def is_sensitive_def child_path_def)

text \<open>
  C18: the diff of an update is exact. Whatever the iteration order of the key set, the recorded
  map is a well-formed \<open>BTreeMap\<close>, every entry in it is one the specification \<open>diff_entry\<close>
  allows, and every change the specification names is recorded under its path. What the
  specification says of redaction: two different values that are not both objects are recorded
  redacted when one of the markers read for their path is \<open>true\<close>; a key that was removed (added) is
  recorded with its whole value, redacted only when the earlier (later) marker of the key itself is
  \<open>true\<close>. It does not look for markers inside a removed or an added value, nor at a marker above a
  key: see the end for what is then recorded in clear.
\<close>

theorem compute_changes_spec:
  assumes iter: "\<And>ks. set (iter ks) = set ks"
    and changes: "compute_changes_with_sensitivity iter (Some b) (Some a) bs as u = Some ch"
  shows "bt_wf ch \<and> (\<forall>p e. (p, e) \<in> set ch \<longrightarrow> diff_entry [] b a bs as u p e)
    \<and> (\<forall>p e. diff_entry [] b a bs as u p e \<longrightarrow> p \<in> fst ` set ch)"
proof -
  have ch: "ch = diff_values_with_sensitivity iter [] b a bs as u []"
    using changes by (auto simp: compute_changes_with_sensitivity_def Let_def split: if_splits)
  show ?thesis
    using diff_values_sound [of iter "[]" b a bs as u "[]"] diff_values_wf [of "[]" iter "[]" b a bs as u]
      diff_values_complete [of iter, OF iter] by (auto simp: ch)
qed

lemma compute_changes_spec_witness:
  "diff_entry [] demo_before demo_after (Some (jobj [(''password'', JBool True)])) None None
     ''password'' (change_entry redacted redacted False)"
  using compute_changes_spec [OF _ demo_diff] by simp

text \<open>
  A change is never dropped and never invented: on well-formed states the diff is empty
  exactly when the two states are equal.
\<close>

theorem compute_changes_None_iff:
  assumes iter: "\<And>ks. set (iter ks) = set ks" and wf: "json_wf b" "json_wf a"
  shows "compute_changes_with_sensitivity iter (Some b) (Some a) bs as u = None \<longleftrightarrow> b = a"
proof -
  have same: "diff_values_with_sensitivity iter [] b a bs as u [] = []" if "b = a"
  proof -
    have "\<not> diff_entry [] b a bs as u p e" for p e
      using that by (auto elim: diff_entry.cases)
    then show ?thesis
      using diff_values_sound [of iter "[]" b a bs as u "[]"] by auto
  qed
  have "diff_values_with_sensitivity iter [] b a bs as u [] \<noteq> []" if "b \<noteq> a"
    using diff_entry_exists [OF wf that, of "[]" bs as u]
      diff_values_complete [of iter, OF iter, of "[]" b a bs as u _ _ "[]"] by force
  with same show ?thesis
    by (auto simp: compute_changes_with_sensitivity_def Let_def)
qed

lemma compute_changes_None_iff_witness:
  "compute_changes_with_sensitivity rev (Some demo_before) (Some demo_after) None None None \<noteq> None"
proof -
  have "json_wf demo_before" "json_wf demo_after"
    by (simp_all add: demo_before_def demo_after_def jobj_wf)
  moreover have "demo_before \<noteq> demo_after"
    by (simp add: demo_before_def demo_after_def jobj_def)
  ultimately show ?thesis
    using compute_changes_None_iff [of rev demo_before demo_after None None None] by simp
qed

text \<open>
  What a record stores follows from its action: an update or a replacement stores the diff
  only, a creation only the state after, a deletion only the state before, and a no-op nothing;
  the action itself is decided by the plan's action list.
\<close>

theorem record_shape:
  assumes rec: "from_terraform_json iter r = Some c" and change: "jget r ''change'' = Some ch"
  shows "rc_action c = entry_action ch
    \<and> (rc_action c \<in> {Update, Replace} \<longrightarrow> rc_before c = None \<and> rc_after c = None)
    \<and> (rc_action c = Create \<longrightarrow> rc_before c = None \<and> rc_changes c = None)
    \<and> (rc_action c = Delete \<longrightarrow> rc_after c = None \<and> rc_changes c = None)
    \<and> (rc_action c = NoOp \<longrightarrow> rc_before c = None \<and> rc_after c = None \<and> rc_changes c = None)"
  using rec change unfolding from_terraform_json_def
  by (auto simp: Let_def entry_action_def Option.bind_eq_Some_conv split: prod.splits resource_action.splits)

lemma record_shape_witness:
  "\<exists>c. from_terraform_json (\<lambda>ks. ks) (demo_entry (demo_change ''pw'')) = Some c \<and> rc_action c = Create
     \<and> rc_changes c = None"
proof -
  let ?r = "demo_entry (demo_change ''pw'')"
  have "from_terraform_json (\<lambda>ks. ks) ?r \<noteq> None"
    by (simp add: from_terraform_json_def demo_entry_def demo_change_def jobj_def Let_def split: prod.split)
  then obtain c where c: "from_terraform_json (\<lambda>ks. ks) ?r = Some c" by blast
  have ch: "jget ?r ''change'' = Some (demo_change ''pw'')"
    by (simp add: demo_entry_def jobj_def)
  have "entry_action (demo_change ''pw'') = Create"
    by (simp add: demo_change_def jobj_def entry_action_def action_of_def List.map_filter_simps)
  with c record_shape [OF c ch] show ?thesis by auto
qed

text \<open>
  A dependency change partitions the two lists: what was added and what stayed make up the
  new dependencies, what was removed is exactly what the new list lost, and the three parts are
  disjoint.
\<close>

theorem dependency_change_partition:
  assumes "compute_dependency_change b a = Some d"
  shows "set (dc_added d) \<union> set (dc_unchanged d) = set (string_items a)
    \<and> set (dc_removed d) \<union> set (dc_unchanged d) = set (string_items b)
    \<and> set (dc_added d) \<inter> set (string_items b) = {}
    \<and> set (dc_removed d) \<inter> set (string_items a) = {}
    \<and> length (dc_added d) + length (dc_unchanged d) = length (string_items a)"
proof -
  have d: "d = \<lparr>dc_added = filter (\<lambda>d. d \<notin> set (string_items b)) (string_items a),
      dc_removed = filter (\<lambda>d. d \<notin> set (string_items a)) (string_items b),
      dc_unchanged = filter (\<lambda>d. d \<in> set (string_items b)) (string_items a)\<rparr>"
    using assms by (simp add: compute_dependency_change_def Let_def split: if_splits)
  have "length (filter (\<lambda>d. d \<notin> set (string_items b)) (string_items a))
      + length (filter (\<lambda>d. d \<in> set (string_items b)) (string_items a)) = length (string_items a)"
    using sum_length_filter_compl [of "\<lambda>d. d \<in> set (string_items b)" "string_items a"] by simp
  then show ?thesis by (auto simp: d)
qed

lemma dependency_change_partition_witness:
  "\<exists>d. compute_dependency_change (Some (JArray [JString ''a'', JNull])) (Some (JArray [JString ''b'', JString ''a''])) = Some d
     \<and> set (dc_removed d) \<union> set (dc_unchanged d) = {''a''}"
proof -
  obtain d where d: "compute_dependency_change (Some (JArray [JString ''a'', JNull]))
      (Some (JArray [JString ''b'', JString ''a''])) = Some d"
    by (simp add: compute_dependency_change_def string_items_def List.map_filter_simps)
  from dependency_change_partition [OF d] d show ?thesis
    by (simp add: string_items_def List.map_filter_simps)
qed

text \<open>
  The printed report leaves no change out: whatever its action, the address and type of every
  recorded change appear in the text.
\<close>

theorem every_change_printed:
  assumes "c \<in> set changes"
  shows "contains_str (pretty_print_resource_changes changes)
           (rc_address c @ '' ('' @ rc_resource_type c @ '')'')"
proof -
  let ?p = "rc_address c @ '' ('' @ rc_resource_type c @ '')''"
  have line: "contains_str (resource_line sign c) ?p"
    "contains_str (resource_line sign c @ rest) ?p" for sign rest
    using resource_line_contains contains_str_append1 by blast+
  have sec: "contains_str (detail_section title f (filter (\<lambda>c. rc_action c = act) changes)) ?p"
    if "rc_action c = act" "contains_str (f c) ?p" for title f act
    using detail_section_contains [of c "filter (\<lambda>c. rc_action c = act) changes" f ?p title] that assms by simp
  have ne: "changes \<noteq> []" using assms by auto
  have hit: "detail_section title (resource_line sign) (filter (\<lambda>x. rc_action x = rc_action c) changes) \<in> set parts \<Longrightarrow>
      contains_str (concat parts) ?p"
    "detail_section title (\<lambda>c. resource_line sign c @ rest c) (filter (\<lambda>x. rc_action x = rc_action c) changes) \<in> set parts \<Longrightarrow>
      contains_str (concat parts) ?p" for title sign rest parts
    by (erule contains_str_concat, rule sec [OF refl], rule line)+
  show ?thesis
  proof (cases "rc_action c")
    case Create
    then show ?thesis unfolding pretty_print_resource_changes_def Let_def if_not_P [OF ne]
      by (intro hit(1) [of "''Resources to create:''" "''  + ''"]) simp
  next
    case Update
    then show ?thesis unfolding pretty_print_resource_changes_def Let_def if_not_P [OF ne]
      by (intro hit(2) [of "''Resources to update:''" "''  ~ ''" "\<lambda>c. change_details (rc_changes c)"]) simp
  next
    case Delete
    then show ?thesis unfolding pretty_print_resource_changes_def Let_def if_not_P [OF ne]
      by (intro hit(1) [of "''Resources to delete:''" "''  - ''"]) simp
  next
    case Replace
    then show ?thesis unfolding pretty_print_resource_changes_def Let_def if_not_P [OF ne]
      by (intro hit(2) [of "''Resources to replace:''" "''  +/- ''"
          "\<lambda>c. (case rc_action_reason c of None \<Rightarrow> [] | Some r \<Rightarrow> ''      Reason: '' @ r @ nl)
                @ change_details (rc_changes c)"]) simp
  next
    case NoOp
    then show ?thesis unfolding pretty_print_resource_changes_def Let_def if_not_P [OF ne]
      by (intro hit(1) [of "''Resources with no changes:''" "''  = ''"]) simp
  qed
qed

lemma every_change_printed_witness:
  "contains_str (pretty_print_resource_changes
      [\<lparr>rc_address = ''m.a'', rc_resource_type = ''aws_x'', rc_name = ''a'', rc_mode = Managed, rc_provider = None,
        rc_action = Replace, rc_action_reason = Some ''forced'', rc_index = None, rc_depends_on = None,
        rc_before = None, rc_after = None, rc_changes = None\<rparr>]) ''m.a (aws_x)''"
  using every_change_printed [of _ "[\<lparr>rc_address = ''m.a'', rc_resource_type = ''aws_x'', rc_name = ''a'',
      rc_mode = Managed, rc_provider = None, rc_action = Replace, rc_action_reason = Some ''forced'',
      rc_index = None, rc_depends_on = None, rc_before = None, rc_after = None, rc_changes = None\<rparr>]"]
  by simp

text \<open>
  Where redaction stops. When a whole object attribute is marked (the marker at its key is
  \<open>true\<close>, as Terraform writes it for a sensitive map), an update of a key inside it is recorded
  with both values in clear: the marker is read as an object of markers for the keys below and
  none is found.
\<close>

theorem object_marker_not_inherited:
  assumes "old \<noteq> new" and iter: "iter [''token''] = [''token'']" "iter [''tags''] = [''tags'']"
  shows "compute_changes_with_sensitivity iter
       (Some (jobj [(''tags'', jobj [(''token'', JString old)])]))
       (Some (jobj [(''tags'', jobj [(''token'', JString new)])]))
       (Some (jobj [(''tags'', JBool True)])) (Some (jobj [(''tags'', JBool True)])) None
     = Some [(''tags.token'', change_entry (JString old) (JString new) False)]"
  using assms
  by (simp add: compute_changes_with_sensitivity_def jobj_def diff_object diff_key_def diff_leaf
      marker_at_def is_sensitive_def child_path_def)

lemma object_marker_not_inherited_witness:
  "compute_changes_with_sensitivity (\<lambda>ks. ks)
       (Some (jobj [(''tags'', jobj [(''token'', JString ''s3cret'')])]))
       (Some (jobj [(''tags'', jobj [(''token'', JString ''s4cret'')])]))
       (Some (jobj [(''tags'', JBool True)])) (Some (jobj [(''tags'', JBool True)])) None
     = Some [(''tags.token'', change_entry (JString ''s3cret'') (JString ''s4cret'') False)]"
  by (rule object_marker_not_inherited) simp_all

text \<open>
  A removed or an added object is recorded whole: the marker of a field inside it is not looked at, so
  a marked password is recorded in clear.
\<close>

lemma marked_field_of_removed_object:
  assumes iter: "iter [''db''] = [''db'']"
  shows "compute_changes_with_sensitivity iter (Some (jobj [(''db'', jobj [(''password'', JString secret)])])) (Some (jobj []))
       (Some (jobj [(''db'', jobj [(''password'', JBool True)])])) None None
     = Some [(''db'', change_entry (jobj [(''password'', JString secret)]) JNull False)]"
    "compute_changes_with_sensitivity iter (Some (jobj [])) (Some (jobj [(''db'', jobj [(''password'', JString secret)])]))
       None (Some (jobj [(''db'', jobj [(''password'', JBool True)])])) None
     = Some [(''db'', change_entry JNull (jobj [(''password'', JString secret)]) False)]"
  using assms
  by (simp_all add: compute_changes_with_sensitivity_def jobj_def diff_object diff_key_def marker_at_def is_sensitive_def child_path_def)

end
