(* ===== verification/World.thy ===== *)
theory World
  imports Effects Module Resource_Change
begin

text \<open>
  The boundary of the program: the calls that leave it, the parameter record \<open>env\<close> with their
  answers, and the state that remembers them. \<open>env\<close> stands for code that is not in the
  repository (cloud services and the database, the clock, the operating system, \<open>terraform\<close>,
  \<open>opa\<close>, and the libraries \<open>serde_json\<close>, \<open>humantime\<close>, \<open>base64\<close>, \<open>deunicode\<close>). An answer
  depends on the whole history, so two equal calls may be answered differently.
\<close>

section \<open>Records that cross the boundary\<close>

record policy_spec =
  psp_policy_name :: string
  psp_version :: string
  psp_description :: string
  psp_reference :: string
  psp_data :: json

record policy_manifest =
  pmf_metadata :: metadata
  pmf_api_version :: string
  pmf_kind :: string
  pmf_spec :: policy_spec

record policy_resp =
  po_environment :: string
  po_environment_version :: string
  po_version :: string
  po_timestamp :: string
  po_policy_name :: string
  po_policy :: string
  po_description :: string
  po_reference :: string
  po_data :: json
  po_manifest :: policy_manifest
  po_s3_key :: string

record job_details =
  jd_region :: string
  jd_environment :: string
  jd_deployment_id :: string
  jd_job_id :: string
  jd_change_type :: string
  jd_file_path :: string
  jd_status :: string
  jd_error_text :: string

record git_user =
  gu_email :: string
  gu_name :: string
  gu_username :: string
  gu_profile_url :: string

record git_repository =
  gr_owner_login :: string
  gr_name :: string
  gr_full_name :: string

record check_run_annotation =
  an_path :: string
  an_start_line :: "64 word"
  an_end_line :: "64 word"
  an_annotation_level :: string
  an_message :: string

record check_run_output =
  co_title :: string
  co_summary :: string
  co_text :: "string option"
  co_annotations :: "check_run_annotation list option"

record check_run =
  cr_head_sha :: string
  cr_status :: string
  cr_name :: string
  cr_conclusion :: "string option"
  cr_started_at :: "string option"
  cr_completed_at :: "string option"
  cr_details_url :: "string option"
  cr_output :: "check_run_output option"

record github_check_run =
  gh_installation_id :: "64 word"
  gh_app_id :: string
  gh_repository :: git_repository
  gh_check_run :: check_run
  gh_job_details :: job_details
  gh_user :: git_user

record gitlab_project =
  gp_id :: "64 word"
  gp_name :: string
  gp_path_with_namespace :: string

record gitlab_pipeline =
  gpl_id :: "64 word"
  gpl_sha :: string
  gpl_status :: string
  gpl_web_url :: string
  gpl_created_at :: string
  gpl_updated_at :: string

record gitlab_check_run =
  gl_project :: gitlab_project
  gl_pipeline :: gitlab_pipeline
  gl_job_details :: job_details

datatype extra_data = GitHub github_check_run | GitLab gitlab_check_run | NoExtra

record api_infra_payload =
  pl_command :: string
  pl_flags :: "string list"
  pl_module :: string
  pl_module_version :: string
  pl_module_type :: string
  pl_module_track :: string
  pl_name :: string
  pl_environment :: string
  pl_deployment_id :: string
  pl_project_id :: string
  pl_region :: string
  pl_drift_detection :: drift_detection
  pl_next_drift_check_epoch :: "128 word"
  pl_annotations :: json
  pl_dependencies :: "dependency list"
  pl_initiated_by :: string
  pl_cpu :: string
  pl_memory :: string
  pl_reference :: string
  pl_extra_data :: extra_data

record payload_with_variables =
  pv_payload :: api_infra_payload
  pv_variables :: json

text \<open>What a child process printed and, when it failed, its exit status as text.\<close>

record command_output =
  co_stdout_lines :: "string list"
  co_stderr_lines :: "string list"
  co_exit_status :: "string option"

section \<open>Calls\<close>

datatype call =
    Clock
  | Timestamp
  | Run_Function json
  | Get_Deployment string string bool
  | Get_Plan_Deployment string string string
  | Get_Dependents string string
  | Get_Deployment_And_Dependents string string bool
  | Get_Current_Job_Id
  | Get_Job_Status string
  | Get_User_Id
  | Get_Module_Version string string string
  | Get_Stack_Version string string string
  | Get_All_Policies string
  | Presigned_Url string string
  | Policy_Url string
  | Download string string
  | Unzip string string
  | Verify_Oci oci_artifact_set
  | Set_Up_Provider_Mirror "tf_lock_provider list" string
  | Terraform "string list" bool "(string, string) hash_map"
  | Opa "string list" policy_resp
  | Write_File string string
  | Read_File string
  | Remove_File string
  | List_Rego_Files
  | Post_Webhook string json
  | Http string json

text \<open>
  The answers. A \<open>bool\<close> says whether a file operation succeeded; the process environment
  (\<open>en_env_var\<close>) does not change while the program runs. \<open>en_parse\<close> is
  \<open>serde_json::from_str\<close> and \<open>en_text\<close> \<open>serde_json::to_string\<close>; \<open>en_duration\<close> is \<open>humantime\<close>'s
  \<open>parse_duration\<close> in milliseconds; \<open>en_order\<close> is the iteration order of a \<open>HashSet\<close> of strings.
\<close>

record env =
  en_clock :: "call list \<Rightarrow> 128 word"
  en_timestamp :: "call list \<Rightarrow> string"
  en_run :: "call list \<Rightarrow> json \<Rightarrow> (string, json) result"
  en_get_deployment :: "call list \<Rightarrow> string \<Rightarrow> string \<Rightarrow> bool \<Rightarrow> (string, deployment_resp option) result"
  en_get_plan_deployment :: "call list \<Rightarrow> string \<Rightarrow> string \<Rightarrow> string \<Rightarrow> (string, deployment_resp option) result"
  en_get_dependents :: "call list \<Rightarrow> string \<Rightarrow> string \<Rightarrow> (string, dependent list) result"
  en_get_deployment_and_dependents ::
    "call list \<Rightarrow> string \<Rightarrow> string \<Rightarrow> bool \<Rightarrow> (string, deployment_resp option \<times> dependent list) result"
  en_get_current_job_id :: "call list \<Rightarrow> (string, string) result"
  en_get_job_running :: "call list \<Rightarrow> string \<Rightarrow> (string, bool option) result"
  en_get_user_id :: "call list \<Rightarrow> (string, string) result"
  en_get_module_version :: "call list \<Rightarrow> string \<Rightarrow> string \<Rightarrow> string \<Rightarrow> (string, module_resp option) result"
  en_get_stack_version :: "call list \<Rightarrow> string \<Rightarrow> string \<Rightarrow> string \<Rightarrow> (string, module_resp option) result"
  en_get_all_policies :: "call list \<Rightarrow> string \<Rightarrow> (string, policy_resp list) result"
  en_presigned_url :: "call list \<Rightarrow> string \<Rightarrow> string \<Rightarrow> (string, string) result"
  en_policy_url :: "call list \<Rightarrow> string \<Rightarrow> (string, string) result"
  en_download :: "call list \<Rightarrow> string \<Rightarrow> string \<Rightarrow> (string, unit) result"
  en_unzip :: "call list \<Rightarrow> string \<Rightarrow> string \<Rightarrow> (string, unit) result"
  en_verify_oci :: "call list \<Rightarrow> oci_artifact_set \<Rightarrow> (string, module_resp) result"
  en_provider_mirror :: "call list \<Rightarrow> tf_lock_provider list \<Rightarrow> string \<Rightarrow> (string, unit) result"
  en_terraform :: "call list \<Rightarrow> string list \<Rightarrow> bool \<Rightarrow> (string, string) hash_map \<Rightarrow> (string, command_output) result"
  en_opa :: "call list \<Rightarrow> string list \<Rightarrow> policy_resp \<Rightarrow> (string, command_output) result"
  en_write_file :: "call list \<Rightarrow> string \<Rightarrow> string \<Rightarrow> bool"
  en_read_file :: "call list \<Rightarrow> string \<Rightarrow> string option"
  en_remove_file :: "call list \<Rightarrow> string \<Rightarrow> bool"
  en_rego_files :: "call list \<Rightarrow> string list"
  en_env_var :: "string \<Rightarrow> string option"
  en_webhook :: "call list \<Rightarrow> string \<Rightarrow> json \<Rightarrow> (string, unit) result"
  en_parse :: "string \<Rightarrow> (string, json) result"
  en_text :: "json \<Rightarrow> string"
  en_duration :: "string \<Rightarrow> (string, nat) result"
  en_base64 :: "string \<Rightarrow> string"
  en_deunicode :: "string \<Rightarrow> string"
  en_order :: "string list \<Rightarrow> string list"
  en_module_json :: "module_resp \<Rightarrow> json"
  en_storage_basepath :: string
  en_backend_provider :: string

section \<open>The history\<close>

record world =
  w_calls :: "call list"

definition ask :: "call \<Rightarrow> (call list \<Rightarrow> 'b) \<Rightarrow> ('z world_scheme, 'b) eff" where
  "ask c f s = (Ok (f (w_calls s)), w_calls_update (\<lambda>cs. cs @ [c]) s)"

lemma ask_run [simp, eff_simps]:
  "ask c f s = (Ok (f (w_calls s)), w_calls_update (\<lambda>cs. cs @ [c]) s)"
  by (simp add: ask_def)

text \<open>
  \<open>logs G m\<close>: every call that \<open>m\<close> adds satisfies \<open>G\<close>, which also sees the history before it;
  \<open>logs_ok\<close> asks for it only when \<open>m\<close> returns a value.
\<close>

definition logs :: "(call list \<Rightarrow> call \<Rightarrow> bool) \<Rightarrow> ('z world_scheme, 'a) eff \<Rightarrow> bool" where
  "logs G m \<longleftrightarrow> (\<forall>s. \<exists>cs. w_calls (snd (m s)) = w_calls s @ cs
     \<and> (\<forall>i < length cs. G (w_calls s @ take i cs) (cs ! i)))"

definition logs_ok :: "(call list \<Rightarrow> call \<Rightarrow> bool) \<Rightarrow> ('z world_scheme, 'a) eff \<Rightarrow> bool" where
  "logs_ok G m \<longleftrightarrow> (\<forall>s a s'. m s = (Ok a, s') \<longrightarrow> (\<exists>cs. w_calls s' = w_calls s @ cs
     \<and> (\<forall>i < length cs. G (w_calls s @ take i cs) (cs ! i))))"

abbreviation never :: "(call \<Rightarrow> bool) \<Rightarrow> ('z world_scheme, 'a) eff \<Rightarrow> bool" where
  "never W m \<equiv> logs (\<lambda>_ c. \<not> W c) m"

named_theorems logs_intros \<open>one rule per combinator and per operation\<close>

definition extends :: "(call list \<Rightarrow> call \<Rightarrow> bool) \<Rightarrow> call list \<Rightarrow> call list \<Rightarrow> bool" where
  "extends G h h' \<longleftrightarrow> (\<exists>cs. h' = h @ cs \<and> (\<forall>i < length cs. G (h @ take i cs) (cs ! i)))"

lemma logs_alt: "logs G m \<longleftrightarrow> (\<forall>s r s'. m s = (r, s') \<longrightarrow> extends G (w_calls s) (w_calls s'))"
  by (metis (mono_tags, lifting) extends_def logs_def prod.collapse snd_conv)

lemma logs_ok_alt: "logs_ok G m \<longleftrightarrow> (\<forall>s a s'. m s = (Ok a, s') \<longrightarrow> extends G (w_calls s) (w_calls s'))"
  by (simp add: logs_ok_def extends_def)

lemma logsD: "logs G m \<Longrightarrow> m s = (r, s') \<Longrightarrow> extends G (w_calls s) (w_calls s')"
  by (auto simp: logs_alt)

lemma logs_okD: "logs_ok G m \<Longrightarrow> m s = (Ok a, s') \<Longrightarrow> extends G (w_calls s) (w_calls s')"
  by (auto simp: logs_ok_alt)

lemma logs_imp_ok: "logs G m \<Longrightarrow> logs_ok G m"
  by (simp add: logs_alt logs_ok_alt)

lemma extends_refl [simp]: "extends G h h"
  by (simp add: extends_def)

lemma extends_snoc: "G h c \<Longrightarrow> extends G h (h @ [c])"
  by (auto simp: extends_def)

lemma extends_trans: "extends G h h' \<Longrightarrow> extends G h' h'' \<Longrightarrow> extends G h h''"
proof -
  assume "extends G h h'" "extends G h' h''"
  then obtain cs ds where cs: "h' = h @ cs" "\<forall>i < length cs. G (h @ take i cs) (cs ! i)"
    and ds: "h'' = h' @ ds" "\<forall>i < length ds. G (h' @ take i ds) (ds ! i)"
    by (auto simp: extends_def)
  have "G (h @ take i (cs @ ds)) ((cs @ ds) ! i)" if "i < length (cs @ ds)" for i
  proof (cases "i < length cs")
    case True
    with cs show ?thesis by (simp add: nth_append)
  next
    case False
    then have "i - length cs < length ds" using that by simp
    with ds(2) cs(1) have "G (h @ cs @ take (i - length cs) ds) (ds ! (i - length cs))" by simp
    with False show ?thesis by (simp add: nth_append)
  qed
  with cs ds show ?thesis unfolding extends_def by (intro exI [of _ "cs @ ds"]) simp
qed

lemma extends_mono: "extends G h h' \<Longrightarrow> (\<And>k c. G k c \<Longrightarrow> G' k c) \<Longrightarrow> extends G' h h'"
  unfolding extends_def by blast

lemma extends_prefix: "extends G h h' \<Longrightarrow> \<exists>cs. h' = h @ cs"
  by (auto simp: extends_def)

lemma extends_set: "extends (\<lambda>_ c. \<not> W c) h h' \<Longrightarrow> c \<in> set h' \<Longrightarrow> W c \<Longrightarrow> c \<in> set h"
  by (auto simp: extends_def in_set_conv_nth nth_append)

lemma logs_ret [logs_intros]: "logs G (ret a)"
  by (simp add: logs_alt)

lemma logs_fail [logs_intros]: "logs G (fail e)"
  by (simp add: logs_alt)

lemma logs_panic [logs_intros]: "logs G (panic e)"
  by (simp add: logs_alt)

lemma logs_exit [logs_intros]: "logs G exit_process"
  by (simp add: logs_alt)

lemma logs_gets [logs_intros]: "logs G (gets f)"
  by (simp add: logs_alt)

lemma logs_modify [logs_intros]: "(\<And>s. w_calls (f s) = w_calls s) \<Longrightarrow> logs G (modify f)"
  by (auto simp: logs_alt)

lemma logs_of_result [logs_intros]: "logs G (of_result r)"
  by (cases r) (auto intro: logs_intros)

lemma logs_unwrap [logs_intros]: "logs G (unwrap_opt e v)" "logs G (unwrap_res r)"
  by (cases v; auto intro: logs_intros) (cases r; auto intro: logs_intros)

lemma logs_ask: "(\<And>h. G h c) \<Longrightarrow> logs G (ask c f)"
  by (auto simp: logs_alt intro: extends_snoc)

lemma logs_bnd [logs_intros]: "logs G m \<Longrightarrow> (\<And>a. logs G (f a)) \<Longrightarrow> logs G (bnd m f)"
  unfolding logs_alt bnd_def
  by (fastforce intro: extends_trans split: prod.splits outcome.splits)

lemma logs_seq [logs_intros]: "logs G m \<Longrightarrow> logs G n \<Longrightarrow> logs G (seq m n)"
  by (simp add: seq_def logs_bnd)

lemma logs_block [logs_intros]:
  "logs G (block [])" "logs G m \<Longrightarrow> logs G (block ms) \<Longrightarrow> logs G (block (m # ms))"
  by (simp_all add: logs_ret logs_seq)

lemma logs_attempt [logs_intros]: "logs G m \<Longrightarrow> logs G (attempt m)"
  unfolding logs_alt attempt_def by (fastforce split: prod.splits outcome.splits)

lemma logs_catch [logs_intros]: "logs G m \<Longrightarrow> logs G (catch_unwind m)"
  unfolding logs_alt catch_unwind_def by (fastforce split: prod.splits outcome.splits)

lemma logs_for_each [logs_intros]: "(\<And>x. x \<in> set xs \<Longrightarrow> logs G (f x)) \<Longrightarrow> logs G (for_each f xs)"
  by (induction xs) (auto intro: logs_intros)

lemma logs_fold_eff [logs_intros]: "(\<And>x b. x \<in> set xs \<Longrightarrow> logs G (f x b)) \<Longrightarrow> logs G (fold_eff f xs b)"
  by (induction xs arbitrary: b) (auto intro: logs_intros)

lemma logs_if [logs_intros]: "(b \<Longrightarrow> logs G m) \<Longrightarrow> (\<not> b \<Longrightarrow> logs G n) \<Longrightarrow> logs G (if b then m else n)"
  by simp

lemma logs_case_sum [logs_intros]:
  "(\<And>e. r = Inl e \<Longrightarrow> logs G (f e)) \<Longrightarrow> (\<And>a. r = Inr a \<Longrightarrow> logs G (g a)) \<Longrightarrow>
   logs G (case r of Inl e \<Rightarrow> f e | Inr a \<Rightarrow> g a)"
  by (cases r) auto

lemma logs_case_option [logs_intros]:
  "(v = None \<Longrightarrow> logs G m) \<Longrightarrow> (\<And>a. v = Some a \<Longrightarrow> logs G (g a)) \<Longrightarrow>
   logs G (case v of None \<Rightarrow> m | Some a \<Rightarrow> g a)"
  by (cases v) auto

lemma logs_case_prod [logs_intros]:
  "(\<And>a b. p = (a, b) \<Longrightarrow> logs G (f a b)) \<Longrightarrow> logs G (case p of (a, b) \<Rightarrow> f a b)"
  by (cases p) auto

lemma logs_Let [logs_intros]: "logs G (f a) \<Longrightarrow> logs G (Let a f)"
  by simp

lemma logs_ok_bnd: "logs_ok G m \<Longrightarrow> (\<And>a. logs_ok G (f a)) \<Longrightarrow> logs_ok G (bnd m f)"
  unfolding logs_ok_alt bnd_Ok by (blast intro: extends_trans)

lemma logs_ok_seq: "logs_ok G m \<Longrightarrow> logs_ok G n \<Longrightarrow> logs_ok G (seq m n)"
  by (simp add: seq_def logs_ok_bnd)

end
