(* ===== verification/Deployment_Store.thy ===== *)
theory Deployment_Store
  imports World
begin

text \<open>
  \<open>env_common/src/logic/api_deployment.rs\<close>: how a deployment is written to the \<open>deployments\<close>
  table. \<open>get_payload\<close> builds the item with the composite keys of the indices, \<open>set_deployment\<close>
  writes it in one transaction with the \<open>DEPENDENT#\<close> items that index who depends on whom. With
  it the readers of \<open>utils/src/provider_util.rs\<close> and the event builders of \<open>defs/src/events.rs\<close>.
\<close>

section \<open>Events for the cloud functions\<close>

definition upload_file_base64_event :: "string \<Rightarrow> string \<Rightarrow> string \<Rightarrow> json" where
  "upload_file_base64_event key bucket base64_content = jobj
     [(''event'', JString ''upload_file_base64''),
      (''data'', jobj [(''key'', JString key), (''bucket_name'', JString bucket),
                       (''base64_content'', JString base64_content)])]"

definition transact_write_event :: "json list \<Rightarrow> json" where
  "transact_write_event items = jobj [(''event'', JString ''transact_write''), (''items'', JArray items)]"

definition insert_db_event :: "string \<Rightarrow> json \<Rightarrow> json" where
  "insert_db_event table data =
     jobj [(''event'', JString ''insert_db''), (''table'', JString table), (''data'', data)]"

definition start_runner_event :: "json \<Rightarrow> json" where
  "start_runner_event data = jobj [(''event'', JString ''start_runner''), (''data'', data)]"

definition publish_notification_event :: "json \<Rightarrow> json" where
  "publish_notification_event data = jobj [(''event'', JString ''publish_notification''), (''data'', data)]"

definition run_function :: "env \<Rightarrow> json \<Rightarrow> ('z world_scheme, (string, json) result) eff" where
  "run_function en payload = ask (Run_Function payload) (\<lambda>h. en_run en h payload)"

section \<open>The item\<close>

fun merge_json_dicts :: "json \<Rightarrow> json \<Rightarrow> json" where
  "merge_json_dicts (JObject m1) (JObject m2) = JObject (fold (\<lambda>(k, v). bt_insert k v) m2 m1)"
| "merge_json_dicts v _ = v"

text \<open>\<open>value[key] = v\<close> on an object.\<close>

fun json_set :: "string \<Rightarrow> json \<Rightarrow> json \<Rightarrow> json" where
  "json_set k v (JObject m) = JObject (bt_insert k v m)"
| "json_set k v x = x"

definition deployment_pk :: "deployment_resp \<Rightarrow> bool \<Rightarrow> string" where
  "deployment_pk d is_plan =
     (if is_plan then ''PLAN'' else ''DEPLOYMENT'') @ ''#''
     @ get_deployment_identifier (dr_project_id d) (dr_region d) (dr_deployment_id d) (dr_environment d)"

text \<open>The composite keys.\<close>

definition key_fields :: "deployment_resp \<Rightarrow> bool \<Rightarrow> (string \<times> json) list" where
  "key_fields d is_plan =
     (let pk = deployment_pk d is_plan;
          sk = (if is_plan then dr_job_id d else ''METADATA'');
          deleted = (if dr_deleted d then ''1'' else ''0'')
      in [(''PK'', JString pk), (''SK'', JString sk), (''deleted_PK'', JString (deleted @ ''|'' @ pk)),
          (''deleted_PK_base'', JString (join ''::'' (take 2 (split_str ''::'' (deleted @ ''|'' @ pk))))),
          (''deleted_SK_base'', JString (deleted @ ''|'' @ sk @ ''#''
             @ get_deployment_identifier (dr_project_id d) (dr_region d) [] [])),
          (''module_PK_base'', JString (''MODULE#''
             @ get_deployment_identifier (dr_project_id d) (dr_region d) [] [] @ ''#'' @ dr_module d))])"

definition get_payload :: "deployment_resp \<Rightarrow> bool \<Rightarrow> json option" where
  "get_payload d is_plan =
     map_option (\<lambda>deployment_value.
         json_set ''deleted'' (JNumber (PosInt (if dr_deleted d then 1 else 0)))
           (merge_json_dicts (jobj (key_fields d is_plan)) deployment_value))
       (deployment_json d)"

section \<open>The transaction\<close>

definition put_item :: "json \<Rightarrow> json" where
  "put_item item = jobj [(''Put'', jobj [(''TableName'', JString ''deployments''), (''Item'', item)])]"

definition delete_item :: "string \<Rightarrow> string \<Rightarrow> json" where
  "delete_item pk sk = jobj [(''Delete'', jobj
     [(''TableName'', JString ''deployments''), (''Key'', jobj [(''PK'', JString pk), (''SK'', JString sk)])])]"

definition dependency_pk :: "dependency \<Rightarrow> string" where
  "dependency_pk d = ''DEPLOYMENT#''
     @ get_deployment_identifier (dep_project_id d) (dep_region d) (dep_deployment_id d) (dep_environment d)"

definition dependent_sk :: "deployment_resp \<Rightarrow> string" where
  "dependent_sk d = ''DEPENDENT#''
     @ get_deployment_identifier (dr_project_id d) (dr_region d) (dr_deployment_id d) (dr_environment d)"

definition dependent_sk_of :: "dependent \<Rightarrow> string" where
  "dependent_sk_of d = ''DEPENDENT#''
     @ get_deployment_identifier (dpt_project_id d) (dpt_region d) (dpt_dependent_id d) (dpt_environment d)"

definition dependent_item :: "deployment_resp \<Rightarrow> string \<Rightarrow> json" where
  "dependent_item d pk = jobj
     [(''PK'', JString pk), (''SK'', JString (dependent_sk d)),
      (''dependent_id'', JString (dr_deployment_id d)), (''module'', JString (dr_module d)),
      (''environment'', JString (dr_environment d)), (''project_id'', JString (dr_project_id d)),
      (''region'', JString (dr_region d))]"

text \<open>Deleting: the items under the deployment's own key, and its items under its dependencies.\<close>

definition deletion_items :: "deployment_resp \<Rightarrow> dependency list \<Rightarrow> dependent list \<Rightarrow> json list" where
  "deletion_items d existing_dependencies dependents =
     List.map (\<lambda>x. delete_item (deployment_pk d False) (dependent_sk_of x)) dependents
     @ List.map (\<lambda>x. delete_item (dependency_pk x) (dependent_sk d)) existing_dependencies"

text \<open>Updating: the difference of the old and the new set of dependencies, in iteration order.\<close>

definition update_items :: "(string list \<Rightarrow> string list) \<Rightarrow> deployment_resp \<Rightarrow> dependency list \<Rightarrow> json list" where
  "update_items order d existing_dependencies =
     (let old_set = List.map dependency_pk existing_dependencies;
          new_set = List.map dependency_pk (dr_dependencies d);
          to_add = filter (\<lambda>k. k \<notin> set old_set) (order (remdups new_set));
          to_remove = filter (\<lambda>k. k \<notin> set new_set) (order (remdups old_set))
      in List.map (\<lambda>k. put_item (dependent_item d k)) to_add
         @ List.map (\<lambda>k. delete_item k (dependent_sk d)) to_remove)"

definition set_deployment :: "env \<Rightarrow> deployment_resp \<Rightarrow> bool \<Rightarrow> ('z world_scheme, unit) eff" where
  "set_deployment en d is_plan =
     bnd (ask (Get_Deployment (dr_deployment_id d) (dr_environment d) False)
            (\<lambda>h. en_get_deployment en h (dr_deployment_id d) (dr_environment d) False)) (\<lambda>r.
     case r of
       Inl e \<Rightarrow> fail (''Failed to get deployment to find dependents: '' @ e)
     | Inr existing \<Rightarrow>
         let existing_dependencies = (case existing of Some x \<Rightarrow> dr_dependencies x | None \<Rightarrow> []) in
         bnd (unwrap_opt ''number out of range'' (get_payload d is_plan)) (\<lambda>deployment_payload.
         bnd (if is_plan then ret []
              else if dr_deleted d then
                bnd (ask (Get_Dependents (dr_deployment_id d) (dr_environment d))
                       (\<lambda>h. en_get_dependents en h (dr_deployment_id d) (dr_environment d))) (\<lambda>r.
                bnd (of_result r) (\<lambda>dependents.
                ret (deletion_items d existing_dependencies dependents)))
              else ret (update_items (en_order en) d existing_dependencies)) (\<lambda>items.
         bnd (run_function en (transact_write_event (put_item deployment_payload # items))) (\<lambda>w.
         case w of
           Inl e \<Rightarrow> fail (''Failed to update deployment: '' @ e)
         | Inr _ \<Rightarrow>
             if is_plan \<and> dr_has_drifted d
             then bnd (unwrap_opt ''number out of range'' (get_payload d False)) (\<lambda>updated.
                  bnd (run_function en (insert_db_event ''deployments'' updated)) (\<lambda>w.
                  case w of
                    Inl e \<Rightarrow> fail (''Failed to update deployment: '' @ e)
                  | Inr _ \<Rightarrow> ret ()))
             else ret ()))))"

section \<open>Reading the table\<close>

text \<open>\<open>value["deleted"].as_f64().unwrap() != 0.0\<close>; \<open>None\<close> is the panic.\<close>

fun nonzero :: "json \<Rightarrow> bool option" where
  "nonzero (JNumber (PosInt w)) = Some (w \<noteq> 0)"
| "nonzero (JNumber (NegInt w)) = Some (w \<noteq> 0)"
| "nonzero (JNumber (Float s)) = Some (s \<noteq> ''0.0'' \<and> s \<noteq> ''-0.0'')"
| "nonzero _ = None"

definition json_default :: "string \<Rightarrow> string \<Rightarrow> json \<Rightarrow> json" where
  "json_default k d v =
     (case jget v k of None \<Rightarrow> json_set k (JString d) v | Some JNull \<Rightarrow> json_set k (JString d) v | Some _ \<Rightarrow> v)"

definition deployment_add_missing_fields :: "json \<Rightarrow> json" where
  "deployment_add_missing_fields v =
     json_default ''reference'' [] (json_default ''memory'' ''2048'' (json_default ''cpu'' ''1024'' v))"

text \<open>
  One item of a query's answer, as \<open>_get_deployment_and_dependents\<close> sorts it; \<open>None\<close> is a panic
  (a missing sort key, a missing \<open>deleted\<close>, an item that does not parse).
\<close>

definition read_item :: "json \<Rightarrow> (dependent + deployment_resp) option" where
  "read_item e = do {
     sk \<leftarrow> Option.bind (jget e ''SK'') as_str;
     if starts_with sk ''DEPENDENT#'' then map_option Inl (read_dependent e)
     else do {
       b \<leftarrow> Option.bind (jget e ''deleted'') nonzero;
       map_option Inr (read_deployment (deployment_add_missing_fields (json_set ''deleted'' (JBool b) e)))
     }
   }"

fun read_items :: "json list \<Rightarrow> (deployment_resp list \<times> dependent list) option" where
  "read_items [] = Some ([], [])"
| "read_items (e # es) = do {
     x \<leftarrow> read_item e;
     (ds, ps) \<leftarrow> read_items es;
     Some (case x of Inl p \<Rightarrow> (ds, p # ps) | Inr d \<Rightarrow> (d # ds, ps))
   }"

definition get_deployment_and_dependents :: "json list \<Rightarrow> (deployment_resp option \<times> dependent list) option" where
  "get_deployment_and_dependents items = do {
     (ds, ps) \<leftarrow> read_items items;
     Some (case ds of [] \<Rightarrow> (None, ps) | d # _ \<Rightarrow> (Some d, ps))
   }"

section \<open>Objects as lists of fields\<close>

lemma bt_of_list_append: "bt_of_list (a @ b) = fold (\<lambda>(k, v). bt_insert k v) b (bt_of_list a)"
  by simp

lemma merge_jobj: "merge_json_dicts (jobj a) (jobj b) = jobj (a @ b)"
proof -
  have wf: "bt_wf (bt_of_list a)" "bt_wf (bt_of_list b)"
    by (simp_all add: bt.invar_fold)
  have "map_of (rev (bt_of_list b)) = map_of (bt_of_list b)"
    using bt_wf_distinct [OF wf(2)] by (subst map_of_inject_set) (simp_all add: rev_map [symmetric])
  then have rev_b: "map_of (rev (bt_of_list b)) k = map_of (rev b) k" for k
    by (simp add: bt.look_collect)
  have "map_of (fold (\<lambda>(k, v). bt_insert k v) (bt_of_list b) (bt_of_list a)) = map_of (bt_of_list (a @ b))"
    by (rule ext) (simp only: bt.look_fold [OF wf(1)] bt_of_list_append rev_b)
  then have "fold (\<lambda>(k, v). bt_insert k v) (bt_of_list b) (bt_of_list a) = bt_of_list (a @ b)"
    by (intro bt_ext) (simp_all only: bt.invar_fold wf bt_of_list_append)
  then show ?thesis by (simp add: jobj_def)
qed

lemma json_set_jobj: "json_set k v (jobj a) = jobj (a @ [(k, v)])"
  by (simp add: jobj_def)

lemma jget_jobj: "jget (jobj a) k = map_of (rev a) k"
  by (simp add: jobj_def map_of_jobj)

lemma as_object_jobj: "as_object (jobj a) = Some (bt_of_list a)"
  by (simp add: jobj_def)

section \<open>What is written is read back\<close>

lemma get_payload_fields:
  "get_payload d is_plan = Some item \<longleftrightarrow>
     (\<exists>epoch next_check. u128_json (dr_epoch d) = Some epoch \<and> i128_json (dr_next_drift_check_epoch d) = Some next_check
        \<and> item = jobj (key_fields d is_plan @ deployment_fields d epoch next_check
             @ [(''deleted'', JNumber (PosInt (if dr_deleted d then 1 else 0)))]))"
  by (auto simp: get_payload_def deployment_json_def bind_eq_Some_conv merge_jobj json_set_jobj)

text \<open>Reading an object that has every field of a deployment.\<close>

lemma read_deployment_lookup:
  assumes "\<And>k v. (k, v) \<in> set (deployment_fields d epoch next_check) \<Longrightarrow> k \<noteq> ''deleted'' \<Longrightarrow> map_of kvs k = Some v"
    and "map_of kvs ''deleted'' = Some (JBool (dr_deleted d))"
    and "u128_of_json epoch = Some (dr_epoch d)" "i128_of_json next_check = Some (dr_next_drift_check_epoch d)"
  shows "read_deployment (JObject kvs) = Some d"
proof -
  note fields = assms(1) [unfolded deployment_fields_def list.set, simplified]
  have tf: "opt_field kvs ''tf_resources'' (read_array as_str) = Some (dr_tf_resources d)"
    by (cases "dr_tf_resources d") (simp_all add: opt_field_def fields read_array_def read_list_round)
  show ?thesis
    by (simp add: read_deployment_def req_def fields assms(2-4) tf read_array_def read_list_round serde_round)
qed

lemma deployment_fields_lookup:
  "(k, v) \<in> set (deployment_fields d epoch next_check) \<Longrightarrow>
   map_of (rev (deployment_fields d epoch next_check)) k = Some v"
  by (rule map_of_is_SomeI) (simp add: deployment_fields_def, simp)

lemma sk_lookup:
  "get_payload d is_plan = Some item \<Longrightarrow>
   jget item ''SK'' = Some (JString (if is_plan then dr_job_id d else ''METADATA''))"
  by (auto simp: get_payload_fields jget_jobj key_fields_def deployment_fields_def Let_def)

lemma pk_lookup:
  "get_payload d is_plan = Some item \<Longrightarrow> jget item ''PK'' = Some (JString (deployment_pk d is_plan))"
  by (auto simp: get_payload_fields jget_jobj key_fields_def deployment_fields_def Let_def)

lemma status_lookup:
  "get_payload d is_plan = Some item \<Longrightarrow> jget item ''status'' = Some (JString (status_str (dr_status d)))"
  by (auto simp: get_payload_fields jget_jobj key_fields_def deployment_fields_def Let_def)

lemma deleted_lookup:
  "get_payload d is_plan = Some item \<Longrightarrow>
   jget item ''deleted'' = Some (JNumber (PosInt (if dr_deleted d then 1 else 0)))"
  by (auto simp: get_payload_fields jget_jobj)

text \<open>
  C23: an item of the table is read back as the deployment it was written for, every field of it,
  although the database keeps the \<open>deleted\<close> flag as a number and the epochs at 64 bits: the
  conversions of the writer and of the reader are inverse. (The sort key of a plan is its job id,
  which must not look like the key of a dependent.)
\<close>

theorem stored_deployment_read_back:
  assumes item: "get_payload d is_plan = Some item"
    and sk: "is_plan \<Longrightarrow> \<not> starts_with (dr_job_id d) ''DEPENDENT#''"
  shows "read_item item = Some (Inr d)"
proof -
  obtain epoch next_check where w: "u128_json (dr_epoch d) = Some epoch"
    "i128_json (dr_next_drift_check_epoch d) = Some next_check"
    and i: "item = jobj (key_fields d is_plan @ deployment_fields d epoch next_check
             @ [(''deleted'', JNumber (PosInt (if dr_deleted d then 1 else 0)))])"
    using item by (auto simp: get_payload_fields)
  let ?f = "key_fields d is_plan @ deployment_fields d epoch next_check
             @ [(''deleted'', JNumber (PosInt (if dr_deleted d then 1 else 0)))] @ [(''deleted'', JBool (dr_deleted d))]"
  have ns: "\<not> starts_with (if is_plan then dr_job_id d else ''METADATA'') ''DEPENDENT#''"
    using sk by (simp add: starts_with_def)
  have set: "json_set ''deleted'' (JBool (dr_deleted d)) item = jobj ?f"
    unfolding i json_set_jobj by simp
  have fields: "map_of (bt_of_list ?f) k = Some v"
    if "(k, v) \<in> set (deployment_fields d epoch next_check)" "k \<noteq> ''deleted''" for k v
    using deployment_fields_lookup [OF that(1)] that(2) unfolding map_of_jobj by (simp add: map_add_Some_iff)
  have missing: "deployment_add_missing_fields (jobj ?f) = jobj ?f"
    by (simp add: deployment_add_missing_fields_def json_default_def jget_jobj deployment_fields_def)
  have flag': "map_of (bt_of_list ?f) ''deleted'' = Some (JBool (dr_deleted d))"
    unfolding map_of_jobj by simp
  have r: "read_deployment (jobj ?f) = Some d"
    unfolding jobj_def
    by (rule read_deployment_lookup [OF fields flag' u128_round [OF w(1)] i128_round [OF w(2)]])
  have "read_item item = map_option Inr (read_deployment
      (deployment_add_missing_fields (json_set ''deleted'' (JBool (dr_deleted d)) item)))"
    using ns by (cases "dr_deleted d") (simp_all add: read_item_def sk_lookup [OF item] deleted_lookup [OF item])
  then show ?thesis
    by (simp only: set missing r option.map)
qed

definition demo_deployment :: deployment_resp where
  "demo_deployment =
     \<lparr>dr_epoch = 1700000000000, dr_deployment_id = ''s3bucket/b1'', dr_status = Successful, dr_job_id = ''job-1'',
      dr_environment = ''cli/dev'', dr_project_id = ''p1'', dr_region = ''eu-1'', dr_module = ''s3bucket'',
      dr_module_version = ''0.1.2'', dr_module_type = ''module'', dr_module_track = ''stable'',
      dr_drift_detection = \<lparr>dd_enabled = True, dd_interval = ''15m'', dd_auto_remediate = False, dd_webhooks = []\<rparr>,
      dr_next_drift_check_epoch = - 1, dr_has_drifted = False, dr_variables = JNull, dr_output = JNull,
      dr_policy_results = [], dr_error_text = [], dr_deleted = False,
      dr_dependencies = [\<lparr>dep_project_id = ''p1'', dep_region = ''eu-1'', dep_deployment_id = ''vpc/v1'',
                          dep_environment = ''cli/dev''\<rparr>],
      dr_initiated_by = ''me'', dr_cpu = ''1024'', dr_memory = ''2048'', dr_reference = [],
      dr_tf_resources = Some [''aws_s3_bucket.b'']\<rparr>"

lemma demo_deployment_payload: "\<exists>item. get_payload demo_deployment p = Some item"
  by (simp add: get_payload_fields demo_deployment_def u128_json_def i128_json_def)

lemma stored_deployment_read_back_witness:
  "\<exists>item. get_payload demo_deployment False = Some item \<and> read_item item = Some (Inr demo_deployment)"
  using demo_deployment_payload [of False] stored_deployment_read_back [of demo_deployment False] by blast

section \<open>The index of dependents\<close>

text \<open>
  \<open>transact_write_direct\<close> of \<open>env_aws_direct/src/direct_impl.rs\<close> turns an item of the payload
  into an operation of the database: a \<open>Put\<close> of an item or a \<open>Delete\<close> of a key. \<open>None\<close> is the
  error of a malformed or unknown operation.
\<close>

type_synonym table_op = "(string \<times> string) \<times> json option"

definition item_op :: "json \<Rightarrow> table_op option" where
  "item_op item =
     (case jget item ''Put'' of
        Some p \<Rightarrow> do {
          _ \<leftarrow> Option.bind (jget p ''TableName'') as_str;
          i \<leftarrow> jget p ''Item'';
          pk \<leftarrow> Option.bind (jget i ''PK'') as_str;
          sk \<leftarrow> Option.bind (jget i ''SK'') as_str;
          Some ((pk, sk), Some i)
        }
      | None \<Rightarrow>
          (case jget item ''Delete'' of
             Some d \<Rightarrow> do {
               _ \<leftarrow> Option.bind (jget d ''TableName'') as_str;
               k \<leftarrow> jget d ''Key'';
               pk \<leftarrow> Option.bind (jget k ''PK'') as_str;
               sk \<leftarrow> Option.bind (jget k ''SK'') as_str;
               Some ((pk, sk), None)
             }
           | None \<Rightarrow> None))"

text \<open>
  What the database documents of a transaction: it is refused when two operations address the
  same item, and when it is accepted every operation has been applied and nothing else has
  changed.
\<close>

definition transact_contract ::
  "((string \<times> string \<Rightarrow> json option) \<Rightarrow> table_op list \<Rightarrow> (string \<times> string \<Rightarrow> json option) option) \<Rightarrow> bool" where
  "transact_contract transact \<longleftrightarrow>
     (\<forall>t ops t'. transact t ops = Some t' \<longrightarrow> distinct (List.map fst ops)
        \<and> (\<forall>k. t' k = (case map_of ops k of Some v \<Rightarrow> v | None \<Rightarrow> t k)))"

text \<open>The items of the transaction of \<open>set_deployment\<close> (see \<open>set_deployment_sends\<close>).\<close>

definition deployment_transaction ::
  "(string list \<Rightarrow> string list) \<Rightarrow> deployment_resp \<Rightarrow> bool \<Rightarrow> dependency list \<Rightarrow> dependent list \<Rightarrow> json \<Rightarrow> json list" where
  "deployment_transaction order d is_plan existing dependents payload =
     put_item payload #
       (if is_plan then []
        else if dr_deleted d then deletion_items d existing dependents
        else update_items order d existing)"

lemma read_list_map: "(\<And>x. x \<in> set xs \<Longrightarrow> f (g x) = Some (h x)) \<Longrightarrow> read_list f (List.map g xs) = Some (List.map h xs)"
  by (induction xs) auto

lemma read_list_append:
  "read_list f xs = Some as \<Longrightarrow> read_list f ys = Some bs \<Longrightarrow> read_list f (xs @ ys) = Some (as @ bs)"
  by (induction xs arbitrary: as) (auto simp: bind_eq_Some_conv)

lemma item_op_delete [simp]: "item_op (delete_item pk sk) = Some ((pk, sk), None)"
  by (simp add: item_op_def delete_item_def jget_jobj)

lemma item_op_put:
  "jget i ''PK'' = Some (JString pk) \<Longrightarrow> jget i ''SK'' = Some (JString sk) \<Longrightarrow>
   item_op (put_item i) = Some ((pk, sk), Some i)"
  by (simp add: item_op_def put_item_def jget_jobj)

lemma item_op_dependent [simp]:
  "item_op (put_item (dependent_item d k)) = Some ((k, dependent_sk d), Some (dependent_item d k))"
  by (rule item_op_put) (simp_all add: dependent_item_def jget_jobj)

lemma item_op_payload:
  "get_payload d False = Some i \<Longrightarrow> item_op (put_item i) = Some ((deployment_pk d False, ''METADATA''), Some i)"
  by (rule item_op_put) (simp_all add: pk_lookup sk_lookup)

definition update_ops :: "(string list \<Rightarrow> string list) \<Rightarrow> deployment_resp \<Rightarrow> dependency list \<Rightarrow> table_op list" where
  "update_ops order d existing =
     (let olds = List.map dependency_pk existing; news = List.map dependency_pk (dr_dependencies d)
      in List.map (\<lambda>k. ((k, dependent_sk d), Some (dependent_item d k)))
           (filter (\<lambda>k. k \<notin> set olds) (order (remdups news)))
         @ List.map (\<lambda>k. ((k, dependent_sk d), None)) (filter (\<lambda>k. k \<notin> set news) (order (remdups olds))))"

definition deletion_ops :: "deployment_resp \<Rightarrow> dependency list \<Rightarrow> dependent list \<Rightarrow> table_op list" where
  "deletion_ops d existing dependents =
     List.map (\<lambda>x. ((deployment_pk d False, dependent_sk_of x), None)) dependents
     @ List.map (\<lambda>x. ((dependency_pk x, dependent_sk d), None)) existing"

lemma transaction_ops:
  assumes "get_payload d False = Some i"
  shows "read_list item_op (deployment_transaction order d False existing dependents i) =
    Some (((deployment_pk d False, ''METADATA''), Some i) #
      (if dr_deleted d then deletion_ops d existing dependents else update_ops order d existing))"
  using item_op_payload [OF assms]
  by (simp add: deployment_transaction_def deletion_items_def deletion_ops_def update_items_def update_ops_def
      Let_def read_list_append read_list_map)

lemma dependent_sk_not_metadata: "dependent_sk d \<noteq> ''METADATA''"
  by (simp add: dependent_sk_def)

lemma index_kept:
  assumes service: "transact_contract transact" and order: "\<And>ks. set (order ks) = set ks"
    and item: "get_payload d False = Some i"
    and index: "\<And>k. t (k, dependent_sk d) \<noteq> None \<longleftrightarrow> k \<in> dependency_pk ` set existing"
    and ops: "read_list item_op (deployment_transaction order d False existing dependents i) = Some ops"
    and written: "transact t ops = Some t'"
  shows "t' (deployment_pk d False, ''METADATA'') = Some i
    \<and> (\<forall>k. t' (k, dependent_sk d) \<noteq> None \<longleftrightarrow>
         \<not> dr_deleted d \<and> k \<in> dependency_pk ` set (dr_dependencies d))"
proof -
  let ?rest = "if dr_deleted d then deletion_ops d existing dependents else update_ops order d existing"
  have o: "ops = ((deployment_pk d False, ''METADATA''), Some i) # ?rest"
    using transaction_ops [OF item, of order existing dependents] ops by simp
  have t': "t' k = (case map_of ops k of Some v \<Rightarrow> v | None \<Rightarrow> t k)" and dist: "distinct (List.map fst ops)" for k
    using service written unfolding transact_contract_def by blast+
  have look: "map_of ops (k, dependent_sk d) = map_of ?rest (k, dependent_sk d)" for k
    using dependent_sk_not_metadata [of d] by (simp add: o)
  have distr: "distinct (List.map fst ?rest)"
    using dist by (simp add: o)
  have "t' (k, dependent_sk d) \<noteq> None \<longleftrightarrow> \<not> dr_deleted d \<and> k \<in> dependency_pk ` set (dr_dependencies d)" for k
  proof (cases "dr_deleted d")
    case True
    have "t' (k, dependent_sk d) = None"
    proof (cases "k \<in> dependency_pk ` set existing")
      case True
      then have "((k, dependent_sk d), None) \<in> set ?rest"
        using \<open>dr_deleted d\<close> by (auto simp: deletion_ops_def)
      then have "map_of ?rest (k, dependent_sk d) = Some None"
        using distr by (simp add: map_of_eq_Some_iff)
      then show ?thesis by (simp add: t' look)
    next
      case False
      then have none: "t (k, dependent_sk d) = None" using index by blast
      have "v = None" if "map_of ?rest (k, dependent_sk d) = Some v" for v
        using map_of_SomeD [OF that] True by (auto simp: deletion_ops_def)
      then show ?thesis using none by (auto simp: t' look split: option.split)
    qed
    with True show ?thesis by simp
  next
    case False
    let ?olds = "dependency_pk ` set existing" and ?news = "dependency_pk ` set (dr_dependencies d)"
    have mem: "((k, dependent_sk d), v) \<in> set ?rest \<longleftrightarrow>
        k \<in> ?news - ?olds \<and> v = Some (dependent_item d k) \<or> k \<in> ?olds - ?news \<and> v = None" for v
      using False by (auto simp: update_ops_def Let_def order)
    have "map_of ?rest (k, dependent_sk d) =
        (if k \<in> ?news - ?olds then Some (Some (dependent_item d k))
         else if k \<in> ?olds - ?news then Some None else None)"
    proof -
      have iff: "map_of ?rest (k, dependent_sk d) = Some v \<longleftrightarrow>
          k \<in> ?news - ?olds \<and> v = Some (dependent_item d k) \<or> k \<in> ?olds - ?news \<and> v = None" for v
        using mem [of v] map_of_eq_Some_iff [OF distr] by blast
      show ?thesis
        using iff by (cases "map_of ?rest (k, dependent_sk d)") auto
    qed
    with False index [of k] show ?thesis by (auto simp: t' look)
  qed
  moreover have "t' (deployment_pk d False, ''METADATA'') = Some i"
    by (simp add: t' o)
  ultimately show ?thesis by blast
qed

text \<open>What \<open>set_deployment\<close> sends: after its look-ups the transaction, after that at most the item of a drifted plan.\<close>

definition transacts :: "call \<Rightarrow> bool" where
  "transacts c \<longleftrightarrow> (\<exists>items. c = Run_Function (transact_write_event items))"

lemma transacts_simps [simp]:
  "transacts (Run_Function (transact_write_event items))" "\<not> transacts (Run_Function (insert_db_event table v))"
  "\<not> transacts (Get_Deployment i e del)" "\<not> transacts (Get_Dependents i e)"
  by (auto simp: transacts_def transact_write_event_def insert_db_event_def dest!: arg_cong [where f = "\<lambda>v. jget v ''event''"] simp: jget_jobj)

lemma transact_write_event_inj: "transact_write_event xs = transact_write_event ys \<longleftrightarrow> xs = ys"
  by (auto simp: transact_write_event_def jget_jobj dest!: arg_cong [where f = "\<lambda>v. jget v ''items''"])

definition recorded_dependencies :: "deployment_resp option \<Rightarrow> dependency list" where
  "recorded_dependencies r = (case r of Some x \<Rightarrow> dr_dependencies x | None \<Rightarrow> [])"

lemma bnd_ask: "bnd (ask c f) g s = g (f (w_calls s)) (w_calls_update (\<lambda>cs. cs @ [c]) s)"
  by (simp add: bnd_def)

lemma answered_Ok: "(case w of Inl e \<Rightarrow> fail (f e) | Inr x \<Rightarrow> ret ()) s = (Ok (), s') \<longleftrightarrow> (\<exists>x. w = Inr x) \<and> s' = s"
  by (cases w) (auto simp: fail_def ret_def)

lemma set_deployment_sends:
  assumes "set_deployment en d is_plan s = (Ok (), s')"
    and "en_get_deployment en (w_calls s) (dr_deployment_id d) (dr_environment d) False = Inr r"
  shows "\<exists>i dependents. get_payload d is_plan = Some i
    \<and> filter transacts (drop (length (w_calls s)) (w_calls s'))
      = [Run_Function (transact_write_event (deployment_transaction (en_order en) d is_plan (recorded_dependencies r) dependents i))]"
proof -
  let ?existing = "recorded_dependencies r"
  let ?s1 = "w_calls_update (\<lambda>cs. cs @ [Get_Deployment (dr_deployment_id d) (dr_environment d) False]) s"
  let ?items = "if is_plan then ret []
      else if dr_deleted d then
        bnd (ask (Get_Dependents (dr_deployment_id d) (dr_environment d))
               (\<lambda>h. en_get_dependents en h (dr_deployment_id d) (dr_environment d))) (\<lambda>r.
        bnd (of_result r) (\<lambda>dependents. ret (deletion_items d ?existing dependents)))
      else ret (update_items (en_order en) d ?existing)"
  let ?more = "if is_plan \<and> dr_has_drifted d
      then bnd (unwrap_opt ''number out of range'' (get_payload d False)) (\<lambda>updated.
           bnd (run_function en (insert_db_event ''deployments'' updated)) (\<lambda>w.
           case w of Inl e \<Rightarrow> fail (''Failed to update deployment: '' @ e) | Inr _ \<Rightarrow> ret ()))
      else ret ()"
  let ?send = "\<lambda>payload items. bnd (run_function en (transact_write_event (put_item payload # items))) (\<lambda>w.
      case w of Inl e \<Rightarrow> fail (''Failed to update deployment: '' @ e) | Inr _ \<Rightarrow> ?more)"
  have "bnd (unwrap_opt ''number out of range'' (get_payload d is_plan)) (\<lambda>payload. bnd ?items (?send payload)) ?s1 = (Ok (), s')"
    using assms(1) by (simp only: set_deployment_def bnd_ask assms(2) sum.case recorded_dependencies_def Let_def)
  from this [THEN bnd_Ok [THEN iffD1]] obtain i s1 where
    p: "unwrap_opt ''number out of range'' (get_payload d is_plan) ?s1 = (Ok i, s1)" "bnd ?items (?send i) s1 = (Ok (), s')"
    by (elim exE conjE)
  from p(1) have i: "get_payload d is_plan = Some i" and s1: "s1 = ?s1" by (simp_all add: unwrap_Ok)
  from p(2) [unfolded s1, THEN bnd_Ok [THEN iffD1]] obtain items s2 where
    items: "?items ?s1 = (Ok items, s2)" and send: "?send i items s2 = (Ok (), s')"
    by (elim exE conjE)
  from items have "\<exists>dependents. put_item i # items = deployment_transaction (en_order en) d is_plan ?existing dependents i"
    and reads: "\<exists>cs. w_calls s2 = w_calls s @ cs \<and> filter transacts cs = []"
    by (auto simp: bnd_Ok unwrap_Ok deployment_transaction_def split: if_splits)
  moreover have "\<exists>cs. w_calls s' = w_calls s2 @ Run_Function (transact_write_event (put_item i # items)) # cs \<and> filter transacts cs = []"
  proof -
    let ?s3 = "w_calls_update (\<lambda>cs. cs @ [Run_Function (transact_write_event (put_item i # items))]) s2"
    have "?more ?s3 = (Ok (), s')"
      using send by (cases "en_run en (w_calls s2) (transact_write_event (put_item i # items))")
        (simp_all add: bnd_def run_function_def fail_def)
    then have "\<exists>cs. w_calls s' = w_calls ?s3 @ cs \<and> filter transacts cs = []"
    proof (cases "is_plan \<and> dr_has_drifted d")
      case True
      from \<open>?more ?s3 = (Ok (), s')\<close> have "bnd (unwrap_opt ''number out of range'' (get_payload d False)) (\<lambda>updated.
          bnd (run_function en (insert_db_event ''deployments'' updated)) (\<lambda>w.
          case w of Inl e \<Rightarrow> fail (''Failed to update deployment: '' @ e) | Inr _ \<Rightarrow> ret ())) ?s3 = (Ok (), s')"
        by (simp only: if_P [OF True])
      then obtain u w where "run_function en (insert_db_event ''deployments'' u) ?s3 = (Ok (Inr w), s')"
        unfolding bnd_Ok unwrap_Ok answered_Ok by blast
      then show ?thesis by (auto simp: run_function_def)
    qed (simp add: ret_def)
    then show ?thesis by simp
  qed
  ultimately show ?thesis using i by fastforce
qed

lemma plan_transaction:
  assumes "get_payload d True = Some i"
  shows "read_list item_op (deployment_transaction order d True existing dependents i)
    = Some [((deployment_pk d True, dr_job_id d), Some i)]"
proof -
  have "item_op (put_item i) = Some ((deployment_pk d True, dr_job_id d), Some i)"
    by (rule item_op_put) (simp_all add: pk_lookup [OF assms] sk_lookup [OF assms])
  then show ?thesis by (simp add: deployment_transaction_def)
qed

text \<open>
  C24: a write of a deployment keeps the index of its dependencies exact. Suppose that before the write
  the \<open>DEPENDENT#\<close> items of the deployment stand under exactly the keys of the dependencies of the record
  that \<open>set_deployment\<close> then reads. A write that returns has sent exactly one transaction, every item of
  which the database can read. When the database accepts it, the deployment's own item is the one
  written and its \<open>DEPENDENT#\<close> items stand under exactly the keys of its new dependencies, and under none
  if it was deleted; the transaction of a plan changes the item of the plan and nothing else.
\<close>

theorem dependents_index_exact:
  assumes run: "set_deployment en d is_plan s = (Ok (), s')"
    and recorded: "en_get_deployment en (w_calls s) (dr_deployment_id d) (dr_environment d) False = Inr r"
    and index: "\<And>k. t (k, dependent_sk d) \<noteq> None \<longleftrightarrow> k \<in> dependency_pk ` set (recorded_dependencies r)"
    and order: "\<And>ks. set (en_order en ks) = set ks" and service: "transact_contract transact"
  shows "\<exists>i items ops. get_payload d is_plan = Some i
    \<and> filter transacts (drop (length (w_calls s)) (w_calls s')) = [Run_Function (transact_write_event items)]
    \<and> read_list item_op items = Some ops
    \<and> (\<forall>t'. transact t ops = Some t' \<longrightarrow>
         (if is_plan then \<forall>k. t' k = (if k = (deployment_pk d True, dr_job_id d) then Some i else t k)
          else t' (deployment_pk d False, ''METADATA'') = Some i
            \<and> (\<forall>k. t' (k, dependent_sk d) \<noteq> None \<longleftrightarrow> \<not> dr_deleted d \<and> k \<in> dependency_pk ` set (dr_dependencies d))))"
proof -
  from set_deployment_sends [OF run recorded] obtain i dependents where i: "get_payload d is_plan = Some i"
    and sent: "filter transacts (drop (length (w_calls s)) (w_calls s'))
      = [Run_Function (transact_write_event (deployment_transaction (en_order en) d is_plan (recorded_dependencies r) dependents i))]"
    by blast
  show ?thesis
  proof (cases is_plan)
    case True
    with i have "get_payload d True = Some i" by simp
    note plan = plan_transaction [OF this, of "en_order en" "recorded_dependencies r" dependents]
    have step: "t' k = (if k = (deployment_pk d True, dr_job_id d) then Some i else t k)"
      if "transact t [((deployment_pk d True, dr_job_id d), Some i)] = Some t'" for t' k
    proof -
      have "t' k = (case map_of [((deployment_pk d True, dr_job_id d), Some i)] k of Some v \<Rightarrow> v | None \<Rightarrow> t k)"
        using that service unfolding transact_contract_def by blast
      then show ?thesis by simp
    qed
    from True have p: "is_plan = True" by simp
    show ?thesis using plan sent i step unfolding p if_True by blast
  next
    case False
    with i have j: "get_payload d False = Some i" by simp
    from transaction_ops [OF j, of "en_order en"] obtain ops where
      ops: "read_list item_op (deployment_transaction (en_order en) d False (recorded_dependencies r) dependents i) = Some ops"
      by blast
    from index_kept [OF service order j index ops] sent i False ops show ?thesis by fastforce
  qed
qed

text \<open>A database that keeps its contract.\<close>

definition demo_transact ::
  "(string \<times> string \<Rightarrow> json option) \<Rightarrow> table_op list \<Rightarrow> (string \<times> string \<Rightarrow> json option) option" where
  "demo_transact t ops =
     (if distinct (List.map fst ops)
      then Some (\<lambda>k. case map_of ops k of Some v \<Rightarrow> v | None \<Rightarrow> t k) else None)"

lemma demo_transact_contract: "transact_contract demo_transact"
  by (auto simp: transact_contract_def demo_transact_def split: if_splits)

text \<open>
  A dependency listed twice makes a deployment undeletable. The deletion transaction has one
  \<open>Delete\<close> per recorded dependency, not per distinct one (the update path compares sets), so with
  a repeated dependency two operations address the same item and the database refuses the
  transaction, whatever it holds.
\<close>

theorem repeated_dependency_blocks_deletion:
  assumes service: "transact_contract transact" and item: "get_payload d False = Some i"
    and deleted: "dr_deleted d" and repeated: "\<not> distinct (List.map dependency_pk existing)"
    and ops: "read_list item_op (deployment_transaction order d False existing dependents i) = Some ops"
  shows "transact t ops = None"
proof (rule ccontr)
  assume "transact t ops \<noteq> None"
  then have "distinct (List.map fst ops)"
    using service unfolding transact_contract_def by blast
  moreover have "ops = ((deployment_pk d False, ''METADATA''), Some i) # deletion_ops d existing dependents"
    using transaction_ops [OF item, of order existing dependents] ops deleted by simp
  ultimately have "distinct (List.map (\<lambda>x. (dependency_pk x, dependent_sk d)) existing)"
    by (simp add: deletion_ops_def comp_def)
  then have "distinct (List.map (\<lambda>k. (k, dependent_sk d)) (List.map dependency_pk existing))"
    by (simp add: comp_def)
  with repeated show False by (metis distinct_map)
qed

lemma repeated_dependency_blocks_deletion_witness:
  "\<exists>ops. read_list item_op (deployment_transaction rev (demo_deployment\<lparr>dr_deleted := True\<rparr>) False
         (dr_dependencies demo_deployment @ dr_dependencies demo_deployment) []
         (the (get_payload (demo_deployment\<lparr>dr_deleted := True\<rparr>) False))) = Some ops
     \<and> demo_transact (\<lambda>_. None) ops = None"
proof -
  let ?d = "demo_deployment\<lparr>dr_deleted := True\<rparr>"
  let ?e = "dr_dependencies demo_deployment @ dr_dependencies demo_deployment"
  obtain i where i: "get_payload ?d False = Some i"
    by (simp add: get_payload_fields demo_deployment_def u128_json_def i128_json_def)
  obtain ops where ops: "read_list item_op (deployment_transaction rev ?d False ?e [] i) = Some ops"
    using transaction_ops [OF i, of rev ?e "[]"] by blast
  have "demo_transact (\<lambda>_. None) ops = None"
    by (rule repeated_dependency_blocks_deletion [OF demo_transact_contract i _ _ ops])
      (simp_all add: demo_deployment_def)
  with ops show ?thesis by (simp add: i)
qed

section \<open>Keys\<close>

lemma identifier_inj:
  assumes "no_colon p" "no_colon r" "no_colon e" "no_colon p'" "no_colon r'" "no_colon e'" "e \<noteq> []" "e' \<noteq> []"
    and eq: "get_deployment_identifier p r d e = get_deployment_identifier p' r' d' e'"
  shows "p = p' \<and> r = r' \<and> e = e' \<and> d = d'"
proof -
  have "p @ ''::'' @ (r @ ''::'' @ e @ ''::'' @ d) = p' @ ''::'' @ (r' @ ''::'' @ e' @ ''::'' @ d')"
    using assms by (simp add: get_deployment_identifier_def)
  then have p: "p = p'" and "r @ ''::'' @ (e @ ''::'' @ d) = r' @ ''::'' @ (e' @ ''::'' @ d')"
    using assms identifier_parts by blast+
  then have r: "r = r'" and "e @ ''::'' @ d = e' @ ''::'' @ d'"
    using assms identifier_parts by blast+
  then show ?thesis using assms p r identifier_parts by blast
qed

text \<open>
  Two deployments with the same identifier are the same deployment, as long as the
  environment is present and no colon occurs in the project, the region and the environment (the
  deployment id is free); without an environment the identifier forgets the deployment id.
\<close>

theorem deployment_identifier_injective:
  "(\<forall>p r e d p' r' e' d'. no_colon p \<and> no_colon r \<and> no_colon e \<and> no_colon p' \<and> no_colon r' \<and> no_colon e'
       \<and> e \<noteq> [] \<and> e' \<noteq> [] \<and> get_deployment_identifier p r d e = get_deployment_identifier p' r' d' e'
       \<longrightarrow> p = p' \<and> r = r' \<and> e = e' \<and> d = d')
   \<and> (\<forall>p r d d'. get_deployment_identifier p r d [] = get_deployment_identifier p r d' [])"
proof (rule conjI)
  show "\<forall>p r e d p' r' e' d'. no_colon p \<and> no_colon r \<and> no_colon e \<and> no_colon p' \<and> no_colon r' \<and> no_colon e'
       \<and> e \<noteq> [] \<and> e' \<noteq> [] \<and> get_deployment_identifier p r d e = get_deployment_identifier p' r' d' e'
       \<longrightarrow> p = p' \<and> r = r' \<and> e = e' \<and> d = d'"
    by (intro allI impI, elim conjE, rule identifier_inj)
qed simp

lemma deployment_identifier_injective_witness:
  "get_deployment_identifier ''p1'' ''eu-1'' ''s3bucket/b1'' ''cli/dev''
     \<noteq> get_deployment_identifier ''p1'' ''eu-1'' ''s3bucket/b2'' ''cli/dev''"
proof
  assume eq: "get_deployment_identifier ''p1'' ''eu-1'' ''s3bucket/b1'' ''cli/dev''
     = get_deployment_identifier ''p1'' ''eu-1'' ''s3bucket/b2'' ''cli/dev''"
  have "''s3bucket/b1'' = ''s3bucket/b2''"
    by (rule deployment_identifier_injective [THEN conjunct1, rule_format,
          of "''p1''" "''eu-1''" "''cli/dev''" "''p1''" "''eu-1''" "''cli/dev''", THEN conjunct2, THEN conjunct2, THEN conjunct2])
      (use eq in simp_all)
  then show False by simp
qed

end
