(* ===== verification/Status_Handler.thy ===== *)
theory Status_Handler
  imports Deployment_Store
begin

text \<open>
  \<open>env_common/src/interface/deployment_status_handler.rs\<close>: the object through which a job reports
  what it is doing. Its setters change the record; \<open>send_event\<close> appends an event (a failure is
  only logged), \<open>send_deployment\<close> writes the deployment and, at the end of a drift check, the
  deployment that was checked as well. With it \<open>insert_event\<close> (\<open>logic/api_event.rs\<close>).
\<close>

section \<open>State\<close>

record status_handler =
  sh_command :: string
  sh_module :: string
  sh_module_version :: string
  sh_module_type :: string
  sh_module_track :: string
  sh_status :: deployment_status
  sh_environment :: string
  sh_deployment_id :: string
  sh_project_id :: string
  sh_region :: string
  sh_error_text :: string
  sh_job_id :: string
  sh_name :: string
  sh_variables :: json
  sh_drift_detection :: drift_detection
  sh_next_drift_check_epoch :: "128 word"
  sh_has_drifted :: bool
  sh_is_drift_check :: bool
  sh_deleted :: bool
  sh_dependencies :: "dependency list"
  sh_output :: json
  sh_policy_results :: "policy_result list"
  sh_initiated_by :: string
  sh_last_event_epoch :: "128 word"
  sh_event_duration :: "128 word"
  sh_cpu :: string
  sh_memory :: string
  sh_reference :: string
  sh_tf_resources :: "string list option"

record job = world +
  j_handler :: status_handler

type_synonym 'a job_eff = "(job, 'a) eff"

text \<open>A setter of the handler.\<close>

definition upd :: "(status_handler \<Rightarrow> status_handler) \<Rightarrow> unit job_eff" where
  "upd f = modify (j_handler_update f)"

definition set_status :: "deployment_status \<Rightarrow> unit job_eff" where
  "set_status status = upd (sh_status_update (\<lambda>_. status))"

definition set_command :: "string \<Rightarrow> unit job_eff" where
  "set_command command = upd (sh_command_update (\<lambda>_. command))"

definition set_output :: "json \<Rightarrow> unit job_eff" where
  "set_output output = upd (sh_output_update (\<lambda>_. output))"

definition set_error_text :: "string \<Rightarrow> unit job_eff" where
  "set_error_text error_text = upd (sh_error_text_update (\<lambda>_. error_text))"

definition set_job_id :: "string \<Rightarrow> unit job_eff" where
  "set_job_id job_id = upd (sh_job_id_update (\<lambda>_. job_id))"

definition set_deleted :: "bool \<Rightarrow> unit job_eff" where
  "set_deleted deleted = upd (sh_deleted_update (\<lambda>_. deleted))"

definition set_policy_results :: "policy_result list \<Rightarrow> unit job_eff" where
  "set_policy_results results = upd (sh_policy_results_update (\<lambda>_. results))"

definition set_drift_has_occurred :: "bool \<Rightarrow> unit job_eff" where
  "set_drift_has_occurred b = upd (sh_has_drifted_update (\<lambda>_. b))"

definition set_is_drift_check :: "unit job_eff" where
  "set_is_drift_check = upd (sh_is_drift_check_update (\<lambda>_. True))"

definition set_resources :: "string list option \<Rightarrow> unit job_eff" where
  "set_resources tf_resources = upd (sh_tf_resources_update (\<lambda>_. tf_resources))"

definition set_variables :: "json \<Rightarrow> unit job_eff" where
  "set_variables variables = upd (sh_variables_update (\<lambda>_. variables))"

definition get_epoch :: "env \<Rightarrow> ('z world_scheme, 128 word) eff" where
  "get_epoch en = ask Clock (en_clock en)"

definition set_last_event_epoch :: "env \<Rightarrow> unit job_eff" where
  "set_last_event_epoch en = bnd (get_epoch en) (\<lambda>epoch. upd (sh_last_event_epoch_update (\<lambda>_. epoch)))"

text \<open>The subtraction wraps when the clock has gone back (the binaries are release builds).\<close>

definition set_event_duration :: "env \<Rightarrow> unit job_eff" where
  "set_event_duration en =
     bnd (get_epoch en) (\<lambda>epoch. upd (\<lambda>h. h\<lparr>sh_event_duration := epoch - sh_last_event_epoch h\<rparr>))"

section \<open>Events\<close>

record event_data =
  ev_deployment_id :: string
  ev_project_id :: string
  ev_region :: string
  ev_environment :: string
  ev_event :: string
  ev_epoch :: "128 word"
  ev_error_text :: string
  ev_id :: string
  ev_job_id :: string
  ev_metadata :: json
  ev_drift_detection :: drift_detection
  ev_next_drift_check_epoch :: "128 word"
  ev_has_drifted :: bool
  ev_module :: string
  ev_module_version :: string
  ev_name :: string
  ev_status :: deployment_status
  ev_timestamp :: string
  ev_output :: json
  ev_policy_results :: "policy_result list"
  ev_initiated_by :: string
  ev_event_duration :: "128 word"

definition event_json :: "event_data \<Rightarrow> json option" where
  "event_json e = do {
     epoch \<leftarrow> u128_json (ev_epoch e);
     next_check \<leftarrow> i128_json (ev_next_drift_check_epoch e);
     duration \<leftarrow> u128_json (ev_event_duration e);
     Some (jobj
       [(''deployment_id'', JString (ev_deployment_id e)), (''project_id'', JString (ev_project_id e)),
        (''region'', JString (ev_region e)), (''environment'', JString (ev_environment e)),
        (''event'', JString (ev_event e)), (''epoch'', epoch), (''error_text'', JString (ev_error_text e)),
        (''id'', JString (ev_id e)), (''job_id'', JString (ev_job_id e)), (''metadata'', ev_metadata e),
        (''drift_detection'', drift_detection_json (ev_drift_detection e)),
        (''next_drift_check_epoch'', next_check), (''has_drifted'', JBool (ev_has_drifted e)),
        (''module'', JString (ev_module e)), (''module_version'', JString (ev_module_version e)),
        (''name'', JString (ev_name e)), (''status'', JString (status_str (ev_status e))),
        (''timestamp'', JString (ev_timestamp e)), (''output'', ev_output e),
        (''policy_results'', JArray (List.map policy_result_json (ev_policy_results e))),
        (''initiated_by'', JString (ev_initiated_by e)), (''event_duration'', duration)])
   }"

definition insert_event :: "env \<Rightarrow> event_data \<Rightarrow> ('z world_scheme, string) eff" where
  "insert_event en event =
     (let id = ''EVENT#'' @ get_event_identifier (ev_project_id event) (ev_region event)
                (ev_deployment_id event) (ev_environment event);
          pk_base_region = ''EVENT#'' @ ev_region event
      in bnd (get_epoch en) (\<lambda>epoch.
         bnd (unwrap_opt ''number out of range'' (event_json event)) (\<lambda>event_value.
         let event_payload = merge_json_dicts
               (jobj [(''PK'', JString id), (''SK'', JString (nat_str (unat epoch))),
                      (''PK_base_region'', JString pk_base_region)]) event_value
         in bnd (run_function en (insert_db_event ''events'' event_payload)) (\<lambda>r.
            case r of
              Inl e \<Rightarrow> fail (''Failed to insert event: '' @ e)
            | Inr _ \<Rightarrow> ret []))))"

definition send_event :: "env \<Rightarrow> unit job_eff" where
  "send_event en =
     bnd (get_epoch en) (\<lambda>epoch.
     bnd (gets j_handler) (\<lambda>h.
     bnd (ask Timestamp (en_timestamp en)) (\<lambda>timestamp.
     bnd (attempt (insert_event en
       \<lparr>ev_deployment_id = sh_deployment_id h, ev_project_id = sh_project_id h, ev_region = sh_region h,
        ev_environment = sh_environment h, ev_event = sh_command h, ev_epoch = epoch,
        ev_error_text = sh_error_text h,
        ev_id = sh_module h @ ''-'' @ sh_deployment_id h @ ''-'' @ nat_str (unat epoch) @ ''-''
          @ sh_command h @ ''-'' @ status_str (sh_status h),
        ev_job_id = sh_job_id h, ev_metadata = JNull, ev_drift_detection = sh_drift_detection h,
        ev_next_drift_check_epoch = sh_next_drift_check_epoch h, ev_has_drifted = sh_has_drifted h,
        ev_module = sh_module h, ev_module_version = sh_module_version h, ev_name = sh_name h,
        ev_status = sh_status h, ev_timestamp = timestamp, ev_output = sh_output h,
        ev_policy_results = sh_policy_results h, ev_initiated_by = sh_initiated_by h,
        ev_event_duration = sh_event_duration h\<rparr>)) (\<lambda>_. ret ()))))"

section \<open>Deployments\<close>

definition is_plan :: "status_handler \<Rightarrow> bool" where
  "is_plan h \<longleftrightarrow> sh_command h = ''plan''"

definition is_final_update :: "status_handler \<Rightarrow> bool" where
  "is_final_update h \<longleftrightarrow> is_final (sh_status h)"

text \<open>
  The next drift check: none (\<open>-1\<close>) unless detection is on, this is a final update of something
  other than a destroy and the interval parses. The conversion of the clock to \<open>i128\<close> panics at
  \<open>2 ^ 127\<close>.
\<close>

definition get_next_drift_check_epoch :: "env \<Rightarrow> status_handler \<Rightarrow> ('z world_scheme, 128 word) eff" where
  "get_next_drift_check_epoch en h =
     (if \<not> dd_enabled (sh_drift_detection h) \<or> dd_interval (sh_drift_detection h) = [] then ret (- 1)
      else if \<not> is_final_update h then ret (- 1)
      else if sh_command h = ''destroy'' then ret (- 1)
      else (case en_duration en (dd_interval (sh_drift_detection h)) of
              Inl _ \<Rightarrow> ret (- 1)
            | Inr millis \<Rightarrow>
                bnd (get_epoch en) (\<lambda>epoch.
                if sint epoch < 0 then panic ''out of range integral type conversion attempted''
                else ret (epoch + of_nat millis))))"

definition deployment_of :: "status_handler \<Rightarrow> 128 word \<Rightarrow> 128 word \<Rightarrow> deployment_resp" where
  "deployment_of h epoch next_check =
     \<lparr>dr_epoch = epoch, dr_deployment_id = sh_deployment_id h, dr_status = sh_status h,
      dr_job_id = sh_job_id h, dr_environment = sh_environment h, dr_project_id = sh_project_id h,
      dr_region = sh_region h, dr_module = sh_module h, dr_module_version = sh_module_version h,
      dr_module_type = sh_module_type h, dr_module_track = sh_module_track h,
      dr_drift_detection = sh_drift_detection h, dr_next_drift_check_epoch = next_check,
      dr_has_drifted = sh_has_drifted h, dr_variables = sh_variables h, dr_output = sh_output h,
      dr_policy_results = sh_policy_results h, dr_error_text = sh_error_text h, dr_deleted = sh_deleted h,
      dr_dependencies = sh_dependencies h, dr_initiated_by = sh_initiated_by h, dr_cpu = sh_cpu h,
      dr_memory = sh_memory h, dr_reference = sh_reference h, dr_tf_resources = sh_tf_resources h\<rparr>"

definition send_deployment :: "env \<Rightarrow> unit job_eff" where
  "send_deployment en =
     bnd (get_epoch en) (\<lambda>epoch.
     bnd (gets j_handler) (\<lambda>h.
     bnd (get_next_drift_check_epoch en h) (\<lambda>next_check.
     let deployment = deployment_of h epoch next_check in
     bnd (attempt (set_deployment en deployment (is_plan h))) (\<lambda>r.
     case r of
       Inl e \<Rightarrow> fail (''Error inserting deployment: '' @ e)
     | Inr _ \<Rightarrow>
         if sh_is_drift_check h \<and> is_final_update h
         then bnd (attempt (set_deployment en deployment False)) (\<lambda>r.
              case r of
                Inl e \<Rightarrow> fail (''Error inserting drifted deployment: '' @ e)
              | Inr _ \<Rightarrow> ret ())
         else ret ()))))"

text \<open>The constructor reads the clock for the first event.\<close>

definition new_handler ::
  "string \<Rightarrow> string \<Rightarrow> string \<Rightarrow> string \<Rightarrow> string \<Rightarrow> deployment_status \<Rightarrow> string \<Rightarrow> string \<Rightarrow> string \<Rightarrow> string \<Rightarrow>
   string \<Rightarrow> string \<Rightarrow> string \<Rightarrow> json \<Rightarrow> drift_detection \<Rightarrow> 128 word \<Rightarrow> dependency list \<Rightarrow> json \<Rightarrow>
   policy_result list \<Rightarrow> string \<Rightarrow> string \<Rightarrow> string \<Rightarrow> string \<Rightarrow> 128 word \<Rightarrow> status_handler" where
  "new_handler command module module_version module_type module_track status environment deployment_id
     project_id region error_text job_id name variables drift_detection next_drift_check_epoch dependencies
     output policy_results initiated_by cpu memory reference epoch =
     \<lparr>sh_command = command, sh_module = module, sh_module_version = module_version,
      sh_module_type = module_type, sh_module_track = module_track, sh_status = status,
      sh_environment = environment, sh_deployment_id = deployment_id, sh_project_id = project_id,
      sh_region = region, sh_error_text = error_text, sh_job_id = job_id, sh_name = name,
      sh_variables = variables, sh_drift_detection = drift_detection,
      sh_next_drift_check_epoch = next_drift_check_epoch, sh_has_drifted = False, sh_is_drift_check = False,
      sh_deleted = False, sh_dependencies = dependencies, sh_output = output,
      sh_policy_results = policy_results, sh_initiated_by = initiated_by, sh_last_event_epoch = epoch,
      sh_event_duration = 0, sh_cpu = cpu, sh_memory = memory, sh_reference = reference,
      sh_tf_resources = None\<rparr>"

end
