(* ===== verification/Runner_Steps.thy ===== *)
theory Runner_Steps
  imports Status_Handler
begin

text \<open>
  The steps of a terraform run (\<open>terraform_runner/src/cmd.rs\<close>, \<open>terraform.rs\<close>, \<open>opa.rs\<close>,
  \<open>module.rs\<close>, \<open>deployment.rs\<close>) with the writers they use (\<open>env_common/src/logic/api_change_record.rs\<close>)
  and \<open>get_extra_environment_variables\<close> of \<open>utils/src/terraform.rs\<close>. Every step runs a command or
  asks the cloud, and on failure reports a status of its own through the handler before it returns
  the error.
\<close>

section \<open>Running a command\<close>

text \<open>The loop over the lines keeps a queue of at most \<open>max\<close> of them.\<close>

definition push_bounded :: "nat \<Rightarrow> string \<Rightarrow> string list \<Rightarrow> string list" where
  "push_bounded max_lines line queue =
     (let q = queue @ [line] in if length q > max_lines then tl q else q)"

definition last_lines :: "nat \<Rightarrow> string list \<Rightarrow> string list" where
  "last_lines max_lines lines = fold (push_bounded max_lines) lines []"

definition lines_text :: "string list \<Rightarrow> string" where
  "lines_text lines = concat (List.map (\<lambda>l. l @ nl) lines)"

definition run_generic_command :: "nat \<Rightarrow> command_output \<Rightarrow> (string, string) result" where
  "run_generic_command max_output_lines out =
     (let stderr_text = lines_text (last_lines max_output_lines (co_stderr_lines out));
          stdout_text = lines_text (last_lines max_output_lines (co_stdout_lines out))
      in case co_exit_status out of
           Some status \<Rightarrow>
             Inl (if trim stderr_text \<noteq> [] then stderr_text
                  else if trim stdout_text \<noteq> [] then stdout_text
                  else ''Command exited with status '' @ status)
         | None \<Rightarrow> Inr stdout_text)"

definition terraform_args ::
  "string \<Rightarrow> bool \<Rightarrow> bool \<Rightarrow> bool \<Rightarrow> bool \<Rightarrow> bool \<Rightarrow> bool \<Rightarrow> bool \<Rightarrow> bool \<Rightarrow> string list" where
  "terraform_args command refresh_only no_lock_flag destroy_flag auto_approve_flag no_input_flag json_flag
     plan_out plan_in =
     [command, ''-no-color'']
     @ (if refresh_only then [''-refresh-only''] else [])
     @ (if no_input_flag then [''-input=false''] else [])
     @ (if auto_approve_flag then [''-auto-approve''] else [])
     @ (if destroy_flag then [''-destroy''] else [])
     @ (if json_flag then [''-json''] else [])
     @ (if plan_in then [''planfile''] else [])
     @ (if plan_out then [''-out=planfile''] else [])
     @ (if no_lock_flag then [''-lock=false''] else [])"

text \<open>
  The command runs with \<open>TF_VAR_\<close> variables in its environment; with \<open>init\<close> the provider adds its
  backend arguments to it.
\<close>

definition run_terraform_command ::
  "env \<Rightarrow> string \<Rightarrow> bool \<Rightarrow> bool \<Rightarrow> bool \<Rightarrow> bool \<Rightarrow> bool \<Rightarrow> bool \<Rightarrow> bool \<Rightarrow> bool \<Rightarrow> bool \<Rightarrow> nat \<Rightarrow>
   (string, string) hash_map \<Rightarrow> ('z world_scheme, (string, string) result) eff" where
  "run_terraform_command en command refresh_only no_lock_flag destroy_flag auto_approve_flag no_input_flag
     json_flag plan_out plan_in init max_output_lines extra_environment_variables =
     (let args = terraform_args command refresh_only no_lock_flag destroy_flag auto_approve_flag no_input_flag
                   json_flag plan_out plan_in;
          vars = List.map (\<lambda>(k, v). (''TF_VAR_'' @ k, v)) extra_environment_variables
      in bnd (ask (Terraform args init vars) (\<lambda>h. en_terraform en h args init vars)) (\<lambda>r.
         ret (res_bind r (run_generic_command max_output_lines))))"

section \<open>Variables for terraform\<close>

definition get_extra_environment_variables_all ::
  "env \<Rightarrow> string \<Rightarrow> string \<Rightarrow> string \<Rightarrow> string \<Rightarrow> string \<Rightarrow> string \<Rightarrow> drift_detection \<Rightarrow> extra_data \<Rightarrow>
   (string, string) hash_map" where
  "get_extra_environment_variables_all en deployment_id environment reference module_version module_type
     module_track drift_detection extra =
     fold (\<lambda>(k, v). hm_insert k v)
       ([(''INFRAWEAVE_DEPLOYMENT_ID'', deployment_id), (''INFRAWEAVE_ENVIRONMENT'', environment),
         (''INFRAWEAVE_REFERENCE'', reference), (''INFRAWEAVE_MODULE_VERSION'', module_version),
         (''INFRAWEAVE_MODULE_TYPE'', module_type), (''INFRAWEAVE_MODULE_TRACK'', module_track),
         (''INFRAWEAVE_DRIFT_DETECTION'', if dd_enabled drift_detection then ''enabled'' else ''disabled''),
         (''INFRAWEAVE_DRIFT_DETECTION_INTERVAL'',
            if dd_enabled drift_detection then dd_interval drift_detection else ''N/A'')]
        @ (case extra of
             GitHub g \<Rightarrow>
               [(''INFRAWEAVE_GIT_COMMITTER_EMAIL'', gu_email (gh_user g)),
                (''INFRAWEAVE_GIT_COMMITTER_NAME'',
                   if en_env_var en ''INFRAWEAVE_ALLOW_UNICODE_IN_ENV'' \<noteq> None then gu_name (gh_user g)
                   else en_deunicode en (gu_name (gh_user g))),
                (''INFRAWEAVE_GIT_ACTOR_USERNAME'', gu_username (gh_user g)),
                (''INFRAWEAVE_GIT_ACTOR_PROFILE_URL'', gu_profile_url (gh_user g)),
                (''INFRAWEAVE_GIT_REPOSITORY_NAME'', gr_full_name (gh_repository g)),
                (''INFRAWEAVE_GIT_REPOSITORY_PATH'', jd_file_path (gh_job_details g)),
                (''INFRAWEAVE_GIT_COMMIT_SHA'', cr_head_sha (gh_check_run g))]
           | GitLab g \<Rightarrow> [(''INFRAWEAVE_GIT_REPOSITORY_PATH'', jd_file_path (gl_job_details g))]
           | NoExtra \<Rightarrow> []))
       []"

definition get_extra_environment_variables :: "env \<Rightarrow> api_infra_payload \<Rightarrow> (string, string) hash_map" where
  "get_extra_environment_variables en payload =
     get_extra_environment_variables_all en (pl_deployment_id payload) (pl_environment payload)
       (pl_reference payload) (pl_module_version payload) (pl_module_type payload) (pl_module_track payload)
       (pl_drift_detection payload) (pl_extra_data payload)"

section \<open>Change records\<close>

record infra_change_record =
  ic_deployment_id :: string
  ic_project_id :: string
  ic_region :: string
  ic_job_id :: string
  ic_module :: string
  ic_environment :: string
  ic_change_type :: string
  ic_module_version :: string
  ic_epoch :: "128 word"
  ic_timestamp :: string
  ic_plan_std_output :: string
  ic_plan_raw_json_key :: string
  ic_resource_changes :: "sanitized_change list"
  ic_variables :: json

fun mode_str :: "resource_mode \<Rightarrow> string" where
  "mode_str Managed = ''managed''"
| "mode_str Data = ''data''"

fun action_str :: "resource_action \<Rightarrow> string" where
  "action_str Create = ''create''"
| "action_str Update = ''update''"
| "action_str Delete = ''delete''"
| "action_str Replace = ''replace''"
| "action_str NoOp = ''no-op''"

text \<open>A field with \<open>skip_serializing_if\<close>.\<close>

definition skip_none :: "string \<Rightarrow> ('a \<Rightarrow> json) \<Rightarrow> 'a option \<Rightarrow> (string \<times> json) list" where
  "skip_none k f v = (case v of None \<Rightarrow> [] | Some x \<Rightarrow> [(k, f x)])"

definition skip_empty :: "string \<Rightarrow> ('a \<Rightarrow> json) \<Rightarrow> 'a list \<Rightarrow> (string \<times> json) list" where
  "skip_empty k f xs = (if xs = [] then [] else [(k, JArray (List.map f xs))])"

definition dependency_change_json :: "dependency_change \<Rightarrow> json" where
  "dependency_change_json d = jobj
     (skip_empty ''added'' JString (dc_added d) @ skip_empty ''removed'' JString (dc_removed d)
      @ skip_empty ''unchanged'' JString (dc_unchanged d))"

definition sanitized_change_json :: "sanitized_change \<Rightarrow> json" where
  "sanitized_change_json c = jobj
     ([(''address'', JString (rc_address c)), (''resource_type'', JString (rc_resource_type c)),
       (''name'', JString (rc_name c)), (''mode'', JString (mode_str (rc_mode c)))]
      @ skip_none ''provider'' JString (rc_provider c)
      @ [(''action'', JString (action_str (rc_action c)))]
      @ skip_none ''action_reason'' JString (rc_action_reason c)
      @ skip_none ''index'' (\<lambda>v. v) (rc_index c)
      @ skip_none ''depends_on'' dependency_change_json (rc_depends_on c)
      @ skip_none ''before'' (\<lambda>v. v) (rc_before c)
      @ skip_none ''after'' (\<lambda>v. v) (rc_after c)
      @ skip_none ''changes'' JObject (rc_changes c))"

definition infra_change_record_json :: "infra_change_record \<Rightarrow> json option" where
  "infra_change_record_json r = map_option (\<lambda>epoch. jobj
     ([(''deployment_id'', JString (ic_deployment_id r)), (''project_id'', JString (ic_project_id r)),
       (''region'', JString (ic_region r)), (''job_id'', JString (ic_job_id r)),
       (''module'', JString (ic_module r)), (''environment'', JString (ic_environment r)),
       (''change_type'', JString (ic_change_type r)), (''module_version'', JString (ic_module_version r)),
       (''epoch'', epoch), (''timestamp'', JString (ic_timestamp r)),
       (''plan_std_output'', JString (ic_plan_std_output r)),
       (''plan_raw_json_key'', JString (ic_plan_raw_json_key r))]
      @ skip_empty ''resource_changes'' sanitized_change_json (ic_resource_changes r)
      @ [(''variables'', ic_variables r)])) (u128_json (ic_epoch r))"

definition change_record_pk :: "infra_change_record \<Rightarrow> string" where
  "change_record_pk r =
     (if ic_change_type r = ''apply'' \<or> ic_change_type r = ''destroy'' then ''MUTATE''
      else if ic_change_type r = ''plan'' then ''PLAN'' else ''UNKNOWN'') @ ''#''
     @ get_change_record_identifier (ic_project_id r) (ic_region r) (ic_deployment_id r) (ic_environment r)"

definition insert_infra_change_record :: "env \<Rightarrow> infra_change_record \<Rightarrow> ('z world_scheme, string) eff" where
  "insert_infra_change_record en r =
     bnd (unwrap_opt ''number out of range'' (infra_change_record_json r)) (\<lambda>value.
     let payload = merge_json_dicts
           (jobj [(''PK'', JString (change_record_pk r)), (''SK'', JString (ic_job_id r))]) value
     in bnd (run_function en (insert_db_event ''change_records'' payload)) (\<lambda>w.
        case w of
          Inl e \<Rightarrow> fail (''Failed to insert event: '' @ e)
        | Inr _ \<Rightarrow> ret []))"

definition upload_file_to_change_records :: "env \<Rightarrow> string \<Rightarrow> string \<Rightarrow> ('z world_scheme, string) eff" where
  "upload_file_to_change_records en key content =
     bnd (run_function en (upload_file_base64_event key ''change_records'' (en_base64 en content))) (\<lambda>w.
     case w of
       Inl e \<Rightarrow> fail (''Failed to upload file: '' @ e)
     | Inr _ \<Rightarrow> ret [])"

text \<open>\<open>std::fs::write(path, content).expect(message)\<close>.\<close>

definition write_file :: "env \<Rightarrow> string \<Rightarrow> string \<Rightarrow> string \<Rightarrow> ('z world_scheme, unit) eff" where
  "write_file en path content message =
     bnd (ask (Write_File path content) (\<lambda>h. en_write_file en h path content)) (\<lambda>ok.
     if ok then ret () else panic message)"

section \<open>Reporting a failure\<close>

text \<open>
  The statements every failing step shares: the status, the duration and the error text are set,
  the event is sent, and the deployment is written (an error of the write ends the step).
\<close>

definition report :: "env \<Rightarrow> deployment_status \<Rightarrow> string \<Rightarrow> unit job_eff" where
  "report en status error_text = block
     [set_status status, set_event_duration en, set_error_text error_text, send_event en, send_deployment en]"

section \<open>Terraform steps\<close>

definition terraform_init :: "env \<Rightarrow> api_infra_payload \<Rightarrow> unit job_eff" where
  "terraform_init en payload =
     bnd (run_terraform_command en ''init'' False False False False False False False False True 50 []) (\<lambda>r.
     case r of
       Inr _ \<Rightarrow> ret ()
     | Inl e \<Rightarrow> seq (report en FailedInit e) (fail (''Error running terraform init: '' @ e)))"

definition terraform_validate :: "env \<Rightarrow> api_infra_payload \<Rightarrow> unit job_eff" where
  "terraform_validate en payload =
     bnd (run_terraform_command en ''validate'' False False False False False False False False False 50 []) (\<lambda>r.
     case r of
       Inr _ \<Rightarrow> ret ()
     | Inl e \<Rightarrow> seq (report en FailedValidate e)
                  (seq (set_error_text []) (fail (''Error running terraform validate: '' @ e))))"

definition storage_key :: "env \<Rightarrow> api_infra_payload \<Rightarrow> string \<Rightarrow> string \<Rightarrow> string" where
  "storage_key en payload job_id suffix =
     en_storage_basepath en @ pl_environment payload @ ''/'' @ pl_deployment_id payload @ ''/'' @ job_id @ ''_'' @ suffix"

definition terraform_graph :: "env \<Rightarrow> api_infra_payload \<Rightarrow> string \<Rightarrow> unit job_eff" where
  "terraform_graph en payload job_id =
     bnd (run_terraform_command en ''graph'' False False False False False False False False False (2 ^ 64 - 1) []) (\<lambda>r.
     case r of
       Inr stdout \<Rightarrow>
         seq (write_file en ''./graph.dot'' stdout ''Unable to write to file'')
           (bnd (attempt (upload_file_to_change_records en (storage_key en payload job_id ''graph.dot'') stdout))
              (\<lambda>_. ret ()))
     | Inl e \<Rightarrow> seq (report en FailedGraph e)
                  (seq (set_error_text []) (fail (''Error running \"terraform graph\" command: '' @ e))))"

definition has_flag :: "api_infra_payload \<Rightarrow> string \<Rightarrow> bool" where
  "has_flag payload f \<longleftrightarrow> f \<in> set (pl_flags payload)"

definition terraform_plan :: "env \<Rightarrow> api_infra_payload \<Rightarrow> string job_eff" where
  "terraform_plan en payload =
     (let command = pl_command payload;
          refresh_only = has_flag payload ''-refresh-only'';
          destroy_flag = has_flag payload ''-destroy'';
          no_lock_flag = has_flag payload ''-no-lock''
      in bnd (run_terraform_command en ''plan'' refresh_only (no_lock_flag \<or> command = ''plan'')
                (destroy_flag \<or> command = ''destroy'') False True False True False False 500
                (get_extra_environment_variables en payload)) (\<lambda>r.
         case r of
           Inr stdout \<Rightarrow> ret stdout
         | Inl e \<Rightarrow> seq (report en FailedPlan e)
                      (seq (set_error_text []) (fail (''Error running terraform plan: '' @ e)))))"

text \<open>\<open>post_webhook\<close>: a failure is only logged, and so is a webhook without an address.\<close>

definition post_webhook :: "env \<Rightarrow> string \<Rightarrow> string \<Rightarrow> ('z world_scheme, (string, unit) result) eff" where
  "post_webhook en url message =
     (let body = jobj [(''text'', JString message)]
      in ask (Post_Webhook url body) (\<lambda>h. en_webhook en h url body))"

definition notify_drift :: "env \<Rightarrow> api_infra_payload \<Rightarrow> webhook \<Rightarrow> unit job_eff" where
  "notify_drift en payload w =
     (case wh_url w of
        Some url \<Rightarrow> bnd (post_webhook en url (''Drift has occurred for '' @ pl_deployment_id payload @ '' in ''
                           @ pl_environment payload)) (\<lambda>_. ret ())
      | None \<Rightarrow> ret ())"

definition change_record ::
  "api_infra_payload \<Rightarrow> string \<Rightarrow> module_resp \<Rightarrow> 128 word \<Rightarrow> string \<Rightarrow> string \<Rightarrow> string \<Rightarrow> string \<Rightarrow>
   sanitized_change list \<Rightarrow> json \<Rightarrow> infra_change_record" where
  "change_record payload job_id module epoch timestamp std_output raw_json_key change_type resource_changes variables =
     \<lparr>ic_deployment_id = pl_deployment_id payload, ic_project_id = pl_project_id payload,
      ic_region = pl_region payload, ic_job_id = job_id, ic_module = mr_module module,
      ic_environment = pl_environment payload, ic_change_type = change_type,
      ic_module_version = mr_version module, ic_epoch = epoch, ic_timestamp = timestamp,
      ic_plan_std_output = std_output, ic_plan_raw_json_key = raw_json_key,
      ic_resource_changes = resource_changes, ic_variables = variables\<rparr>"

text \<open>The part of \<open>terraform_show\<close> that looks for drift, only in a refresh-only plan.\<close>

definition check_drift :: "env \<Rightarrow> api_infra_payload \<Rightarrow> json \<Rightarrow> unit job_eff" where
  "check_drift en payload content =
     (if pl_command payload = ''plan'' \<and> has_flag payload ''-refresh-only''
      then bnd (unwrap_opt ''called `Option::unwrap()` on a `None` value''
                  (as_array (case jget content ''resource_drift'' of None \<Rightarrow> JArray [] | Some v \<Rightarrow> v))) (\<lambda>drift.
           let drift_has_occurred = drift \<noteq> [] in
           seq (set_drift_has_occurred drift_has_occurred)
             (if drift_has_occurred
              then for_each (notify_drift en payload) (dd_webhooks (pl_drift_detection payload))
              else ret ()))
      else ret ())"

definition terraform_show ::
  "env \<Rightarrow> api_infra_payload \<Rightarrow> string \<Rightarrow> module_resp \<Rightarrow> string \<Rightarrow> bool \<Rightarrow> unit job_eff" where
  "terraform_show en payload job_id module plan_std_output use_planfile =
     (let refresh_only = has_flag payload ''-refresh-only''
      in bnd (run_terraform_command en ''show'' False False False False False True False use_planfile False 5000 []) (\<lambda>r.
         case r of
           Inr output_json \<Rightarrow>
             (let (output_filename, upload_suffix) =
                    (if use_planfile then (''tf_plan.json'', ''plan_output.json'')
                     else (''tf_state.json'', ''state_output.json''))
              in seq (write_file en output_filename output_json ''Unable to write to file'')
                 (bnd (unwrap_res (en_parse en output_json)) (\<lambda>content.
                  let output_json_key = storage_key en payload job_id upload_suffix in
                  bnd (attempt (upload_file_to_change_records en output_json_key output_json)) (\<lambda>_.
                  seq (check_drift en payload content)
                    (if use_planfile
                     then bnd (get_epoch en) (\<lambda>epoch.
                          bnd (ask Timestamp (en_timestamp en)) (\<lambda>timestamp.
                          bnd (gets (\<lambda>s. sh_variables (j_handler s))) (\<lambda>variables.
                          bnd (attempt (insert_infra_change_record en
                                 (change_record payload job_id module epoch timestamp plan_std_output output_json_key
                                    ''plan'' (sanitize_resource_changes_from_plan (en_order en) content refresh_only)
                                    variables))) (\<lambda>_. ret ()))))
                     else ret ())))))
         | Inl e \<Rightarrow> seq (report en FailedShowPlan e)
                      (seq (set_error_text []) (fail (''Error running terraform show: '' @ e)))))"

definition record_apply_destroy_changes ::
  "env \<Rightarrow> api_infra_payload \<Rightarrow> string \<Rightarrow> module_resp \<Rightarrow> string \<Rightarrow> unit job_eff" where
  "record_apply_destroy_changes en payload job_id module apply_output =
     bnd (ask (Read_File ''./tf_plan.json'') (\<lambda>h. en_read_file en h ''./tf_plan.json'')) (\<lambda>file.
     let (resource_changes, raw_plan_json) =
           (case file of
              Some plan_content \<Rightarrow>
                (case en_parse en plan_content of
                   Inr content \<Rightarrow> (sanitize_resource_changes_from_plan (en_order en) content False, plan_content)
                 | Inl _ \<Rightarrow> ([], []))
            | None \<Rightarrow> ([], []));
         mutate_raw_json_key = storage_key en payload job_id ''mutate_output.json''
     in bnd (attempt (upload_file_to_change_records en mutate_raw_json_key raw_plan_json)) (\<lambda>_.
        bnd (get_epoch en) (\<lambda>epoch.
        bnd (ask Timestamp (en_timestamp en)) (\<lambda>timestamp.
        bnd (gets (\<lambda>s. sh_variables (j_handler s))) (\<lambda>variables.
        bnd (attempt (insert_infra_change_record en
               (change_record payload job_id module epoch timestamp apply_output mutate_raw_json_key
                  (pl_command payload) resource_changes variables))) (\<lambda>r.
        case r of
          Inl _ \<Rightarrow> fail ''Failed to insert infra change record after apply/destroy''
        | Inr _ \<Rightarrow> ret ()))))))"

definition terraform_apply_destroy :: "env \<Rightarrow> api_infra_payload \<Rightarrow> string job_eff" where
  "terraform_apply_destroy en payload =
     (let cmd = pl_command payload
      in seq (set_command cmd)
         (bnd (run_terraform_command en cmd False False False True True False False False False 50
                 (get_extra_environment_variables en payload)) (\<lambda>r.
          case r of
            Inr stdout \<Rightarrow> seq (if cmd = ''destroy'' then set_deleted True else ret ()) (ret stdout)
          | Inl e \<Rightarrow> seq (report en Error e)
                       (seq (set_error_text []) (fail (''Error running terraform '' @ cmd @ '': '' @ e))))))"

text \<open>Outputs marked sensitive keep their entry but lose their value.\<close>

fun sanitize_output_entry :: "json \<Rightarrow> json" where
  "sanitize_output_entry (JObject val_map) =
     (case map_of val_map ''sensitive'' of
        Some sensitive \<Rightarrow>
          (if as_bool sensitive = Some True
           then JObject (bt_insert ''value'' (JString ''(output sanitized)'') val_map)
           else JObject val_map)
      | None \<Rightarrow> JObject val_map)"
| "sanitize_output_entry v = v"

fun sanitize_terraform_output :: "json \<Rightarrow> json" where
  "sanitize_terraform_output (JObject m) = JObject (List.map (\<lambda>(k, v). (k, sanitize_output_entry v)) m)"
| "sanitize_terraform_output v = v"

definition terraform_output :: "env \<Rightarrow> api_infra_payload \<Rightarrow> unit job_eff" where
  "terraform_output en payload =
     bnd (run_terraform_command en ''output'' False False False False False True False False False 10000 []) (\<lambda>r.
     case r of
       Inr stdout \<Rightarrow>
         (case en_parse en stdout of
            Inr json \<Rightarrow> block [set_status Successful, set_output (sanitize_terraform_output json), send_deployment en]
          | Inl e \<Rightarrow> fail (''Could not parse the terraform output json from stdout: '' @ e @ nl
                            @ ''String was:'' @ [CHR 0x27] @ stdout @ [CHR 0x27]))
     | Inl e \<Rightarrow>
         seq (block [set_status FailedOutput, set_event_duration en, set_last_event_epoch en, set_error_text e,
                     send_event en, send_deployment en])
           (fail (''Error running terraform output: '' @ e)))"

definition terraform_state_list :: "env \<Rightarrow> ('z world_scheme, string list option) eff" where
  "terraform_state_list en =
     (let args = [''state'', ''list'', ''-no-color'']
      in bnd (ask (Terraform args False []) (\<lambda>h. en_terraform en h args False [])) (\<lambda>r.
         case res_bind r (run_generic_command 10000) of
           Inr stdout \<Rightarrow> ret (Some (filter (\<lambda>s. s \<noteq> []) (List.map trim (split_on (CHR 0x0A) stdout))))
         | Inl _ \<Rightarrow> ret None))"

section \<open>Policies\<close>

text \<open>
  The verdict on one evaluation: the packages whose \<open>deny\<close> is not empty, and whether there is one.
  \<open>None\<close> is a panic (the result is not an object, a \<open>deny\<close> is not an array).
\<close>

fun deny_entries :: "(string \<times> json) list \<Rightarrow> (string \<times> json) list option" where
  "deny_entries [] = Some []"
| "deny_entries ((package, v) # rest) =
     (case jget v ''deny'' of
        Some violations \<Rightarrow> do {
          xs \<leftarrow> as_array violations;
          ds \<leftarrow> deny_entries rest;
          Some (if xs \<noteq> [] then (package, violations) # ds else ds)
        }
      | None \<Rightarrow> deny_entries rest)"

definition opa_verdict :: "json \<Rightarrow> (bool \<times> json) option" where
  "opa_verdict opa_result = do {
     kvs \<leftarrow> as_object opa_result;
     ds \<leftarrow> deny_entries kvs;
     Some (ds \<noteq> [], jobj ds)
   }"

definition policy_result_of :: "policy_resp \<Rightarrow> bool \<Rightarrow> json \<Rightarrow> policy_result" where
  "policy_result_of policy failed violations =
     \<lparr>pr_policy = po_policy policy, pr_version = po_version policy, pr_environment = po_environment policy,
      pr_description = po_description policy, pr_policy_name = po_policy_name policy, pr_failed = failed,
      pr_violations = violations\<rparr>"

definition store_env_as_json :: "env \<Rightarrow> ('z world_scheme, unit) eff" where
  "store_env_as_json en =
     (let var = (\<lambda>k. case en_env_var en k of None \<Rightarrow> [] | Some v \<Rightarrow> v);
          env_vars = jobj [(''env'', jobj
            [(''AWS_DEFAULT_REGION'', JString (var ''AWS_DEFAULT_REGION'')), (''AWS_REGION'', JString (var ''AWS_REGION''))])]
      in write_file en ''./env_data.json'' (en_text en env_vars) ''could not write env_data.json'')"

definition download_policy :: "env \<Rightarrow> policy_resp \<Rightarrow> ('z world_scheme, unit) eff" where
  "download_policy en policy =
     bnd (ask (Policy_Url (po_s3_key policy)) (\<lambda>h. en_policy_url en h (po_s3_key policy))) (\<lambda>r.
     case r of
       Inl e \<Rightarrow> panic (''Error: '' @ e)
     | Inr url \<Rightarrow>
         bnd (ask (Download url ''policy.zip'') (\<lambda>h. en_download en h url ''policy.zip'')) (\<lambda>r.
         case r of
           Inl e \<Rightarrow> panic (''Error: '' @ e)
         | Inr _ \<Rightarrow>
             bnd (ask (Unzip ''policy.zip'' ''./'') (\<lambda>h. en_unzip en h ''policy.zip'' ''./'')) (\<lambda>r.
             case r of
               Inl e \<Rightarrow> panic (''Error: '' @ e)
             | Inr _ \<Rightarrow> ret ())))"

definition opa_args :: "string list \<Rightarrow> string list" where
  "opa_args rego_files =
     [''eval'', ''--format'', ''pretty''] @ concat (List.map (\<lambda>f. [''--data'', f]) rego_files)
     @ [''--input'', ''./tf_plan.json'', ''--data'', ''./env_data.json'', ''--data'', ''./policy_input.json'',
        ''data.infraweave'']"

definition run_opa_command :: "env \<Rightarrow> nat \<Rightarrow> policy_resp \<Rightarrow> string list \<Rightarrow> ('z world_scheme, (string, string) result) eff" where
  "run_opa_command en max_output_lines policy rego_files =
     (let args = opa_args rego_files
      in bnd (ask (Opa args policy) (\<lambda>h. en_opa en h args policy)) (\<lambda>r.
         ret (res_bind r (run_generic_command max_output_lines))))"

text \<open>One round of the loop over the policies; the value carried is the list of results and the flag.\<close>

definition check_policy ::
  "env \<Rightarrow> policy_resp \<Rightarrow> policy_result list \<times> bool \<Rightarrow> (policy_result list \<times> bool) job_eff" where
  "check_policy en policy acc =
     (let (policy_results, failed_policy_evaluation) = acc
      in seq (download_policy en policy)
         (seq (write_file en ''./policy_input.json'' (en_text en (po_data policy)) ''could not write policy_input.json'')
         (bnd (ask List_Rego_Files (en_rego_files en)) (\<lambda>rego_files.
          bnd (run_opa_command en 500 policy rego_files) (\<lambda>r.
          bnd (case r of
                 Inr stdout \<Rightarrow>
                   (case en_parse en stdout of
                      Inl e \<Rightarrow> panic (''Could not parse the opa output json from stdout: '' @ e)
                    | Inr opa_result \<Rightarrow>
                        bnd (unwrap_opt ''called `Option::unwrap()` on a `None` value'' (opa_verdict opa_result))
                          (\<lambda>(failed, violations).
                           ret (policy_results @ [policy_result_of policy failed violations],
                                failed_policy_evaluation \<or> failed)))
               | Inl e \<Rightarrow> seq (report en FailedPolicy e) (seq (set_error_text []) exit_process)) (\<lambda>acc'.
          seq (for_each (\<lambda>f. bnd (ask (Remove_File f) (\<lambda>h. en_remove_file en h f)) (\<lambda>ok.
                 if ok then ret () else panic ''called `Result::unwrap()` on an `Err` value'')) rego_files)
            (ret acc')))))))"

definition run_opa_policy_checks :: "env \<Rightarrow> unit job_eff" where
  "run_opa_policy_checks en =
     seq (store_env_as_json en)
     (bnd (ask (Get_All_Policies ''stable'') (\<lambda>h. en_get_all_policies en h ''stable'')) (\<lambda>r.
      bnd (unwrap_res r) (\<lambda>policies.
      bnd (fold_eff (check_policy en) policies ([], False)) (\<lambda>(policy_results, failed_policy_evaluation).
      seq (set_policy_results policy_results)
        (if failed_policy_evaluation
         then seq (report en FailedPolicy ''OPA Policy evaluation found policy violations'')
                (fail ''OPA Policy evaluation found policy violations'')
         else ret ())))))"

section \<open>The module\<close>

text \<open>\<open>check_module_deprecation\<close> of \<open>env_common/src/logic/api_infra.rs\<close>.\<close>

definition check_module_deprecation ::
  "env \<Rightarrow> module_resp \<Rightarrow> bool \<Rightarrow> string \<Rightarrow> string \<Rightarrow> string \<Rightarrow> string \<Rightarrow> ('z world_scheme, unit) eff" where
  "check_module_deprecation en module_resp is_stack module module_version deployment_id environment =
     (if \<not> mr_deprecated module_resp then ret ()
      else bnd (ask (Get_Deployment deployment_id environment False)
                  (\<lambda>h. en_get_deployment en h deployment_id environment False)) (\<lambda>r.
           bnd (of_result r) (\<lambda>existing_deployment.
           case existing_deployment of
             Some _ \<Rightarrow> ret ()
           | None \<Rightarrow>
               fail ((if is_stack then ''Stack'' else ''Module'') @ '' '' @ module @ '' version '' @ module_version
                 @ '' has been deprecated and cannot be used for new deployments.''
                 @ (case mr_deprecated_message module_resp of None \<Rightarrow> [] | Some msg \<Rightarrow> nl @ ''Reason: '' @ msg)
                 @ nl @ ''Please use a different version.''))))"

definition get_module :: "env \<Rightarrow> api_infra_payload \<Rightarrow> module_resp job_eff" where
  "get_module en payload =
     (let track = pl_module_track payload;
          is_stack = (pl_module_type payload = ''stack'')
      in bnd (ask (Get_Module_Version (pl_module payload) track (pl_module_version payload))
                (\<lambda>h. en_get_module_version en h (pl_module payload) track (pl_module_version payload))) (\<lambda>r.
         case r of
           Inr None \<Rightarrow>
             seq (report en FailedInit ''Module does not exist'') (fail ''Module does not exist'')
         | Inr (Some module) \<Rightarrow>
             bnd (attempt (check_module_deprecation en module is_stack (pl_module payload)
                    (pl_module_version payload) (pl_deployment_id payload) (pl_environment payload))) (\<lambda>r.
             case r of
               Inr _ \<Rightarrow> ret module
             | Inl e \<Rightarrow> seq (report en FailedInit e) (fail e))
         | Inl e \<Rightarrow> seq (report en FailedInit e) (fail ''Failed to get module'')))"

definition get_modules_download_url :: "env \<Rightarrow> string \<Rightarrow> ('z world_scheme, string) eff" where
  "get_modules_download_url en key =
     bnd (ask (Presigned_Url key ''modules'') (\<lambda>h. en_presigned_url en h key ''modules'')) (\<lambda>r.
     case r of
       Inr url \<Rightarrow> ret url
     | Inl e \<Rightarrow> fail (''Failed to read db: '' @ e))"

text \<open>An error passed on as \<open>anyhow!("Error: {:?}", e)\<close>.\<close>

definition or_error :: "('s, 'a) eff \<Rightarrow> ('s, 'a) eff" where
  "or_error m = bnd (attempt m) (\<lambda>r. case r of Inl e \<Rightarrow> fail (''Error: '' @ e) | Inr a \<Rightarrow> ret a)"

definition download :: "env \<Rightarrow> string \<Rightarrow> string \<Rightarrow> ('z world_scheme, unit) eff" where
  "download en url path = bnd (ask (Download url path) (\<lambda>h. en_download en h url path)) of_result"

definition unzip :: "env \<Rightarrow> string \<Rightarrow> string \<Rightarrow> ('z world_scheme, unit) eff" where
  "unzip en path dest = bnd (ask (Unzip path dest) (\<lambda>h. en_unzip en h path dest)) of_result"

definition download_module_zip :: "env \<Rightarrow> string \<Rightarrow> string \<Rightarrow> ('z world_scheme, unit) eff" where
  "download_module_zip en s3_key destination =
     bnd (or_error (get_modules_download_url en s3_key)) (\<lambda>url.
     seq (or_error (download en url ''module.zip''))
       (or_error (unzip en ''module.zip'' destination)))"

fun trim_end_slash :: "string \<Rightarrow> string" where
  "trim_end_slash s = rev (dropWhile (\<lambda>c. c = CHR ''/'') (rev s))"

text \<open>
  The OCI path downloads the artifact with its signature and attestation, and then verifies and
  unpacks them (\<open>Verify_Oci\<close>: the signature check, the module zip and the manifest inside it).
\<close>

definition download_module_oci :: "env \<Rightarrow> oci_artifact_set \<Rightarrow> string \<Rightarrow> ('z world_scheme, module_resp) eff" where
  "download_module_oci en artifact destination =
     bnd (unwrap_opt ''called `Option::unwrap()` on a `None` value'' (oci_tag_signature artifact)) (\<lambda>signature.
     bnd (unwrap_opt ''called `Option::unwrap()` on a `None` value'' (oci_tag_attestation artifact)) (\<lambda>attestation.
     seq (for_each (\<lambda>file.
            let file_path = trim_end_slash (oci_artifact_path artifact) @ ''/'' @ file @ ''.tar.gz''
            in bnd (or_error (get_modules_download_url en file_path)) (\<lambda>url.
               or_error (download en url (destination @ ''/'' @ file @ ''.tar.gz''))))
            [oci_tag_main artifact, signature, attestation])
       (bnd (ask (Verify_Oci artifact) (\<lambda>h. en_verify_oci en h artifact)) (\<lambda>r.
        case r of
          Inl e \<Rightarrow> fail (''Error verifying OCI artifacts: '' @ e)
        | Inr module \<Rightarrow> ret module))))"

fun json_remove :: "string \<Rightarrow> json \<Rightarrow> json" where
  "json_remove k (JObject m) = JObject (filter (\<lambda>(k', _). k' \<noteq> k) m)"
| "json_remove k v = v"

definition compare_module_integrity :: "env \<Rightarrow> module_resp \<Rightarrow> module_resp \<Rightarrow> bool job_eff" where
  "compare_module_integrity en module_oci module_from_db =
     (let strip = (\<lambda>v. json_remove ''version_diff'' (json_remove ''oci_artifact_set'' (json_remove ''timestamp'' v)));
          oci_value = strip (en_module_json en module_oci);
          db_value = strip (en_module_json en module_from_db)
      in if oci_value = db_value then ret True
         else seq (report en FailedIntegrityCheck
                     (''Error when checking module integrity; '' @ en_text en oci_value @ '' != '' @ en_text en db_value))
                (fail ''Error when checking module integrity''))"

definition download_module :: "env \<Rightarrow> module_resp \<Rightarrow> unit job_eff" where
  "download_module en module_from_db =
     (if en_env_var en ''OCI_ARTIFACT_MODE'' \<noteq> None
      then bnd (unwrap_opt ''called `Option::unwrap()` on a `None` value'' (mr_oci_artifact_set module_from_db)) (\<lambda>artifact.
           bnd (attempt (download_module_oci en artifact ''./'')) (\<lambda>r.
           bnd (case r of
                  Inr module \<Rightarrow> ret module
                | Inl e \<Rightarrow> seq (report en FailedPrepare e) (fail (''Error running terraform init: '' @ e))) (\<lambda>module_oci.
           bnd (compare_module_integrity en module_oci module_from_db) (\<lambda>same.
           if same then ret ()
           else fail (''Integrity error! The module metadata from OCI registry does not match the module in the database: ''
                  @ nl @ en_text en (en_module_json en module_oci) @ nl @ ''!='' @ nl
                  @ en_text en (en_module_json en module_from_db))))))
      else download_module_zip en (mr_s3_key module_from_db) ''./'')"

text \<open>\<open>get_initial_deployment\<close> (\<open>deployment.rs\<close>).\<close>

definition get_initial_deployment :: "env \<Rightarrow> api_infra_payload \<Rightarrow> ('z world_scheme, deployment_resp option) eff" where
  "get_initial_deployment en payload =
     bnd (ask (Get_Deployment (pl_deployment_id payload) (pl_environment payload) False)
            (\<lambda>h. en_get_deployment en h (pl_deployment_id payload) (pl_environment payload) False)) (\<lambda>r.
     case r of
       Inr d \<Rightarrow> ret d
     | Inl e \<Rightarrow> fail (''Error getting initial deployment: '' @ e))"

end
