(* ===== verification/Runner.thy ===== *)
theory Runner
  imports Runner_Steps
begin

text \<open>
  \<open>terraform_runner/src/runner.rs\<close>: the job that a claim starts. \<open>run_runner_inner\<close> fetches the
  variables, checks the job id, announces the start and runs \<open>terraform_flow\<close>; it runs under
  \<open>catch_unwind\<close>, after which \<open>finish_runner_flow\<close> makes sure a terminal status is recorded and the
  result is published.
\<close>

section \<open>Preparation\<close>

text \<open>\<open>store_tf_vars_json\<close> and \<open>store_backend_file\<close> (\<open>utils/src/terraform.rs\<close>) exit on failure.\<close>

definition store_tf_vars_json :: "env \<Rightarrow> json \<Rightarrow> string \<Rightarrow> ('z world_scheme, unit) eff" where
  "store_tf_vars_json en tf_vars folder_path =
     (let path = folder_path @ ''/terraform.tfvars.json''; content = en_text en tf_vars
      in bnd (ask (Write_File path content) (\<lambda>h. en_write_file en h path content)) (\<lambda>ok.
         if ok then ret () else exit_process))"

definition backend_file_content :: "env \<Rightarrow> string \<Rightarrow> json \<Rightarrow> string" where
  "backend_file_content en backend_provider extras_map =
     nl @ ''terraform {'' @ nl @ ''    backend \"'' @ backend_provider @ ''\" {''
     @ (case as_object extras_map of
          None \<Rightarrow> []
        | Some extras \<Rightarrow> concat (List.map (\<lambda>(k, v). nl @ ''        '' @ k @ '' = '' @ en_text en v) extras))
     @ (if extras_map \<noteq> JObject [] then nl @ ''    '' else [])
     @ ''}'' @ nl @ ''}''"

definition store_backend_file :: "env \<Rightarrow> string \<Rightarrow> string \<Rightarrow> json \<Rightarrow> ('z world_scheme, unit) eff" where
  "store_backend_file en backend_provider folder_path extras_map =
     (let path = folder_path @ ''/backend.tf''; content = backend_file_content en backend_provider extras_map
      in bnd (ask (Write_File path content) (\<lambda>h. en_write_file en h path content)) (\<lambda>ok.
         if ok then ret () else exit_process))"

definition fetch_deployment_variables :: "env \<Rightarrow> api_infra_payload \<Rightarrow> ('z world_scheme, json \<times> string) eff" where
  "fetch_deployment_variables en payload =
     bnd (if pl_command payload = ''plan''
          then bnd (ask Get_Current_Job_Id (en_get_current_job_id en)) (\<lambda>r.
               case r of
                 Inl e \<Rightarrow> fail (''Error getting current job id for plan: '' @ e)
               | Inr job_id \<Rightarrow>
                   ask (Get_Plan_Deployment (pl_deployment_id payload) (pl_environment payload) job_id)
                     (\<lambda>h. en_get_plan_deployment en h (pl_deployment_id payload) (pl_environment payload) job_id))
          else ask (Get_Deployment (pl_deployment_id payload) (pl_environment payload) False)
                 (\<lambda>h. en_get_deployment en h (pl_deployment_id payload) (pl_environment payload) False)) (\<lambda>r.
     case r of
       Inr (Some d) \<Rightarrow> ret (dr_variables d, dr_job_id d)
     | Inr None \<Rightarrow> fail (''Deployment not found: '' @ pl_deployment_id payload @ '' in '' @ pl_environment payload)
     | Inl e \<Rightarrow> fail (''Error getting deployment: '' @ e))"

definition get_current_job_id :: "env \<Rightarrow> string job_eff" where
  "get_current_job_id en =
     bnd (ask Get_Current_Job_Id (en_get_current_job_id en)) (\<lambda>r.
     case r of
       Inr job_id \<Rightarrow> seq (set_job_id job_id) (ret job_id)
     | Inl e \<Rightarrow>
         seq (block [set_error_text ''The job failed to fetch the job id, please retry again.'', set_status Failed,
                     set_event_duration en, send_event en])
           (bnd (attempt (send_deployment en)) (\<lambda>_. fail (''Failed to fetch current job id: '' @ e))))"

definition ensure_valid_job_id :: "env \<Rightarrow> string \<Rightarrow> string \<Rightarrow> unit job_eff" where
  "ensure_valid_job_id en job_id job_id_for_variables =
     (if job_id \<noteq> job_id_for_variables
      then let error_text = ''Job ID does not match the one in the database, which means that the variables cannot be trusted: ''
                 @ job_id @ '' != '' @ job_id_for_variables
           in seq (block [set_error_text error_text, set_status Failed, set_event_duration en, send_event en])
                (bnd (attempt (send_deployment en)) (\<lambda>_. fail error_text))
      else ret ())"

definition check_dependency_status :: "env \<Rightarrow> dependency \<Rightarrow> ('z world_scheme, unit) eff" where
  "check_dependency_status en dep =
     bnd (ask (Get_Deployment (dep_deployment_id dep) (dep_environment dep) False)
            (\<lambda>h. en_get_deployment en h (dep_deployment_id dep) (dep_environment dep) False)) (\<lambda>r.
     case r of
       Inr (Some d) \<Rightarrow> if dr_status d = Successful then ret () else fail ''Dependency not finished''
     | Inr None \<Rightarrow> panic ''Deployment could not describe since it was not found''
     | Inl e \<Rightarrow> panic ''Error getting deployment status'')"

definition check_dependencies :: "env \<Rightarrow> api_infra_payload \<Rightarrow> unit job_eff" where
  "check_dependencies en payload =
     bnd (fold_eff (\<lambda>dep unfinished.
            bnd (attempt (check_dependency_status en dep)) (\<lambda>r.
            ret (case r of Inr _ \<Rightarrow> unfinished | Inl _ \<Rightarrow> unfinished @ [dep]))) (pl_dependencies payload) []) (\<lambda>unfinished.
     if unfinished \<noteq> []
     then seq (block [set_status WaitingOnDependency, set_event_duration en, send_event en, send_deployment en])
            (fail ''Dependencies not finished'')
     else ret ())"

definition has_dependants_text :: string where
  "has_dependants_text =
     ''This deployment has other deployments depending on it, and hence cannot be removed until they are removed''"

definition check_dependants :: "env \<Rightarrow> api_infra_payload \<Rightarrow> unit job_eff" where
  "check_dependants en payload =
     bnd (ask (Get_Deployment_And_Dependents (pl_deployment_id payload) (pl_environment payload) False)
            (\<lambda>h. en_get_deployment_and_dependents en h (pl_deployment_id payload) (pl_environment payload) False)) (\<lambda>r.
     case r of
       Inl e \<Rightarrow>
         seq (block [set_error_text (''Error getting deployment and dependants: '' @ e), set_status Error,
                     set_event_duration en, send_event en, send_deployment en])
           (fail ''Error getting deployment and dependants'')
     | Inr (_, dependants) \<Rightarrow>
         if dependants \<noteq> []
         then seq (block [set_status HasDependants, set_error_text has_dependants_text, set_event_duration en,
                          send_event en, send_deployment en])
                (fail ''This deployment has dependants'')
         else ret ())"

section \<open>The flow\<close>

text \<open>Everything up to and including the policy checks.\<close>

definition prepare_flow :: "env \<Rightarrow> api_infra_payload \<Rightarrow> string \<Rightarrow> (module_resp \<times> string) job_eff" where
  "prepare_flow en payload job_id =
     (let command = pl_command payload
      in seq (if command = ''apply'' then check_dependencies en payload
              else if command = ''destroy'' then check_dependants en payload
              else ret ())
         (bnd (get_module en payload) (\<lambda>module.
          bnd (ask (Set_Up_Provider_Mirror (mr_tf_lock_providers module) ''linux_arm64'')
                 (\<lambda>h. en_provider_mirror en h (mr_tf_lock_providers module) ''linux_arm64'')) (\<lambda>_.
          seq (download_module en module)
         (seq (terraform_init en payload)
         (seq (terraform_validate en payload)
         (bnd (terraform_plan en payload) (\<lambda>plan_std_output.
          seq (terraform_show en payload job_id module plan_std_output True)
         (seq (terraform_graph en payload job_id)
         (seq (run_opa_policy_checks en)
          (ret (module, plan_std_output))))))))))))"

text \<open>Applying or destroying, and what is recorded afterwards.\<close>

definition mutate_flow :: "env \<Rightarrow> api_infra_payload \<Rightarrow> string \<Rightarrow> module_resp \<Rightarrow> string \<Rightarrow> unit job_eff" where
  "mutate_flow en payload job_id module plan_std_output =
     (let command = pl_command payload
      in bnd (attempt (terraform_apply_destroy en payload)) (\<lambda>apply_result.
         seq (terraform_show en payload job_id module plan_std_output False)
        (bnd (terraform_state_list en) (\<lambda>tf_resources.
         seq (set_resources tf_resources)
        (let apply_output_str = (case apply_result of Inr s \<Rightarrow> s | Inl _ \<Rightarrow> []) in
         bnd (attempt (record_apply_destroy_changes en payload job_id module apply_output_str)) (\<lambda>_.
         seq (case apply_result of
                Inr _ \<Rightarrow> ret ()
              | Inl e \<Rightarrow>
                  if command = ''destroy'' \<and> (case tf_resources of Some r \<Rightarrow> r = [] | None \<Rightarrow> False)
                  then set_deleted True
                  else fail e)
           (if command = ''apply'' then terraform_output en payload else ret ())))))))"

definition terraform_flow :: "env \<Rightarrow> api_infra_payload \<Rightarrow> string \<Rightarrow> unit job_eff" where
  "terraform_flow en payload job_id =
     (let command = pl_command payload
      in bnd (prepare_flow en payload job_id) (\<lambda>(module, plan_std_output).
         seq (if command = ''apply'' \<or> command = ''destroy''
              then mutate_flow en payload job_id module plan_std_output
              else ret ())
           (block [set_status Successful, set_event_duration en, set_last_event_epoch en, send_event en,
                   send_deployment en])))"

definition start_flow :: "env \<Rightarrow> api_infra_payload \<Rightarrow> string job_eff" where
  "start_flow en payload =
     bnd (fetch_deployment_variables en payload) (\<lambda>(variables, job_id_for_variables).
     seq (set_variables variables)
    (seq (store_tf_vars_json en variables ''.'')
    (seq (store_backend_file en (en_backend_provider en) ''.'' (JObject []))
    (let command = pl_command payload; refresh_only = has_flag payload ''-refresh-only'' in
     bnd (get_initial_deployment en payload) (\<lambda>initial_deployment.
     seq (case initial_deployment of
            Some d \<Rightarrow> block [set_output (dr_output d), set_policy_results (dr_policy_results d)]
          | None \<Rightarrow> ret ())
    (bnd (get_current_job_id en) (\<lambda>job_id.
     seq (ensure_valid_job_id en job_id job_id_for_variables)
    (seq (if command = ''plan'' \<and> refresh_only then set_is_drift_check else ret ())
    (seq (send_event en)
    (seq (send_deployment en)
     (ret job_id)))))))))))"

definition run_runner_inner :: "env \<Rightarrow> api_infra_payload \<Rightarrow> unit job_eff" where
  "run_runner_inner en payload = bnd (start_flow en payload) (terraform_flow en payload)"

section \<open>The guard\<close>

definition run_runner_flow_crash_guarded ::
  "env \<Rightarrow> api_infra_payload \<Rightarrow> ((string, unit) result) job_eff" where
  "run_runner_flow_crash_guarded en payload =
     bnd (catch_unwind (run_runner_inner en payload)) (\<lambda>outcome.
     ret (case outcome of
            Inr r \<Rightarrow> r
          | Inl panic_message \<Rightarrow> Inl (''Terraform runner panicked: '' @ panic_message)))"

definition flush_failed_status_if_needed :: "env \<Rightarrow> string \<Rightarrow> unit job_eff" where
  "flush_failed_status_if_needed en error_text =
     bnd (gets (\<lambda>s. sh_status (j_handler s))) (\<lambda>status.
     if is_final status then ret ()
     else seq (block [set_status Failed, set_error_text error_text, set_event_duration en, send_event en])
            (bnd (attempt (send_deployment en)) (\<lambda>_. ret ())))"

record runner_completion =
  rn_status :: string
  rn_error_text :: string

definition finish_runner_flow :: "env \<Rightarrow> (string, unit) result \<Rightarrow> runner_completion job_eff" where
  "finish_runner_flow en flow_result =
     (case flow_result of
        Inr _ \<Rightarrow> ret \<lparr>rn_status = ''success'', rn_error_text = []\<rparr>
      | Inl e \<Rightarrow> seq (flush_failed_status_if_needed en e)
                   (ret \<lparr>rn_status = ''failure'', rn_error_text = e\<rparr>))"

text \<open>The job details that are published; the other parts of the extra data pass through.\<close>

definition completed_job ::
  "api_infra_payload \<Rightarrow> string \<Rightarrow> runner_completion \<Rightarrow> job_details \<Rightarrow> job_details" where
  "completed_job payload job_id completion old =
     \<lparr>jd_region = pl_region payload, jd_environment = pl_environment payload,
      jd_deployment_id = pl_deployment_id payload, jd_job_id = job_id,
      jd_change_type = to_uppercase (pl_command payload), jd_file_path = jd_file_path old,
      jd_status = rn_status completion, jd_error_text = rn_error_text completion\<rparr>"

definition completed_extra_data ::
  "api_infra_payload \<Rightarrow> string \<Rightarrow> runner_completion \<Rightarrow> extra_data" where
  "completed_extra_data payload job_id completion =
     (case pl_extra_data payload of
        GitHub g \<Rightarrow> GitHub (g\<lparr>gh_job_details := completed_job payload job_id completion (gh_job_details g)\<rparr>)
      | GitLab g \<Rightarrow> GitLab (g\<lparr>gl_job_details := completed_job payload job_id completion (gl_job_details g)\<rparr>)
      | NoExtra \<Rightarrow> NoExtra)"

section \<open>The notification\<close>

definition job_details_json :: "job_details \<Rightarrow> json" where
  "job_details_json j = jobj
     [(''region'', JString (jd_region j)), (''environment'', JString (jd_environment j)),
      (''deployment_id'', JString (jd_deployment_id j)), (''job_id'', JString (jd_job_id j)),
      (''change_type'', JString (jd_change_type j)), (''file_path'', JString (jd_file_path j)),
      (''status'', JString (jd_status j)), (''error_text'', JString (jd_error_text j))]"

text \<open>\<open>u64\<close> and \<open>i64\<close> numbers.\<close>

definition u64_json :: "64 word \<Rightarrow> json" where
  "u64_json w = JNumber (PosInt w)"

definition i64_json :: "64 word \<Rightarrow> json" where
  "i64_json w = JNumber (if sint w < 0 then NegInt w else PosInt w)"

definition annotation_json :: "check_run_annotation \<Rightarrow> json" where
  "annotation_json a = jobj
     [(''path'', JString (an_path a)), (''start_line'', i64_json (an_start_line a)),
      (''end_line'', i64_json (an_end_line a)), (''annotation_level'', JString (an_annotation_level a)),
      (''message'', JString (an_message a))]"

definition check_run_output_json :: "check_run_output \<Rightarrow> json" where
  "check_run_output_json c = jobj
     ([(''title'', JString (co_title c)), (''summary'', JString (co_summary c))]
      @ skip_none ''text'' JString (co_text c)
      @ skip_none ''annotations'' (\<lambda>as. JArray (List.map annotation_json as)) (co_annotations c))"

definition check_run_json :: "check_run \<Rightarrow> json" where
  "check_run_json c = jobj
     ([(''head_sha'', JString (cr_head_sha c)), (''status'', JString (cr_status c)), (''name'', JString (cr_name c))]
      @ skip_none ''conclusion'' JString (cr_conclusion c)
      @ skip_none ''started_at'' JString (cr_started_at c)
      @ skip_none ''completed_at'' JString (cr_completed_at c)
      @ skip_none ''details_url'' JString (cr_details_url c)
      @ skip_none ''output'' check_run_output_json (cr_output c))"

definition repository_json :: "git_repository \<Rightarrow> json" where
  "repository_json r = jobj
     [(''owner'', jobj [(''login'', JString (gr_owner_login r))]), (''name'', JString (gr_name r)),
      (''full_name'', JString (gr_full_name r))]"

definition user_json :: "git_user \<Rightarrow> json" where
  "user_json u = jobj
     [(''email'', JString (gu_email u)), (''name'', JString (gu_name u)), (''username'', JString (gu_username u)),
      (''profile_url'', JString (gu_profile_url u))]"

fun extra_data_json :: "extra_data \<Rightarrow> json" where
  "extra_data_json (GitHub g) = jobj
     [(''installation'', jobj [(''id'', u64_json (gh_installation_id g))]), (''app_id'', JString (gh_app_id g)),
      (''repository'', repository_json (gh_repository g)), (''check_run'', check_run_json (gh_check_run g)),
      (''job_details'', job_details_json (gh_job_details g)), (''user'', user_json (gh_user g))]"
| "extra_data_json (GitLab g) = jobj
     [(''project'', jobj [(''id'', i64_json (gp_id (gl_project g))), (''name'', JString (gp_name (gl_project g))),
        (''path_with_namespace'', JString (gp_path_with_namespace (gl_project g)))]),
      (''pipeline'', jobj [(''id'', i64_json (gpl_id (gl_pipeline g))), (''sha'', JString (gpl_sha (gl_pipeline g))),
        (''status'', JString (gpl_status (gl_pipeline g))), (''web_url'', JString (gpl_web_url (gl_pipeline g))),
        (''created_at'', JString (gpl_created_at (gl_pipeline g))),
        (''updated_at'', JString (gpl_updated_at (gl_pipeline g)))]),
      (''job_details'', job_details_json (gl_job_details g))]"
| "extra_data_json NoExtra = JNull"

definition publish_notification :: "env \<Rightarrow> string \<Rightarrow> json \<Rightarrow> ('z world_scheme, string) eff" where
  "publish_notification en subject message =
     bnd (run_function en (publish_notification_event
            (jobj [(''subject'', JString subject), (''message'', message)]))) (\<lambda>w.
     case w of
       Inl e \<Rightarrow> fail (''Failed to publish notification: '' @ e)
     | Inr _ \<Rightarrow> ret [])"

definition publish_runner_notification ::
  "env \<Rightarrow> api_infra_payload \<Rightarrow> runner_completion \<Rightarrow> unit job_eff" where
  "publish_runner_notification en payload completion =
     bnd (gets (\<lambda>s. sh_job_id (j_handler s))) (\<lambda>job_id.
     bnd (publish_notification en ''runner_event''
            (extra_data_json (completed_extra_data payload job_id completion))) (\<lambda>_. ret ()))"

section \<open>The whole job\<close>

definition initiate_deployment_status_handler ::
  "deployment_resp option \<Rightarrow> payload_with_variables \<Rightarrow> 128 word \<Rightarrow> status_handler" where
  "initiate_deployment_status_handler initial_deployment pv epoch =
     (let payload = pv_payload pv
      in new_handler (pl_command payload) (pl_module payload) (pl_module_version payload) (pl_module_type payload)
           (pl_module_track payload) Initiated (pl_environment payload) (pl_deployment_id payload)
           (pl_project_id payload) (pl_region payload) [] ''unknown_jobid'' (pl_name payload)
           (pv_variables pv) (pl_drift_detection payload) (pl_next_drift_check_epoch payload)
           (pl_dependencies payload)
           (case initial_deployment of Some d \<Rightarrow> dr_output d | None \<Rightarrow> JNull)
           (case initial_deployment of Some d \<Rightarrow> dr_policy_results d | None \<Rightarrow> [])
           (pl_initiated_by payload) (pl_cpu payload) (pl_memory payload) (pl_reference payload) epoch)"

text \<open>
  \<open>run_terraform_runner\<close> after the payload has been parsed: the job starts with the handler of
  \<open>initial_job\<close>, whose clock reading is the first call.
\<close>

definition initial_job :: "env \<Rightarrow> api_infra_payload \<Rightarrow> job" where
  "initial_job en payload =
     \<lparr>w_calls = [Clock],
      j_handler = initiate_deployment_status_handler None
        \<lparr>pv_payload = payload, pv_variables = JNull\<rparr> (en_clock en [])\<rparr>"

definition run_terraform_runner :: "env \<Rightarrow> api_infra_payload \<Rightarrow> unit job_eff" where
  "run_terraform_runner en payload =
     bnd (run_runner_flow_crash_guarded en payload) (\<lambda>flow_result.
     bnd (finish_runner_flow en flow_result) (\<lambda>completion.
     publish_runner_notification en payload completion))"

end
