(* ===== verification/Runner_Safety.thy ===== *)
theory Runner_Safety
  imports Runner
begin

text \<open>
  What a run may do, and when. The locale \<open>watch\<close> is the interface between the bookkeeping
  operations (handler, records, files) and a class of watched calls; it is interpreted for the
  commands that change infrastructure and for the policy evaluations. On it rest the gates: no
  infrastructure is changed before the dependencies, the dependents, the job id and every policy
  have been checked.
\<close>

section \<open>Watched calls\<close>

fun is_command :: "call \<Rightarrow> bool" where
  "is_command (Terraform args init vars) = True"
| "is_command (Opa args policy) = True"
| "is_command _ = False"

locale watch =
  fixes watched :: "call \<Rightarrow> bool"
  assumes watched_command: "watched c \<Longrightarrow> is_command c"
begin

lemma unwatched:
  "\<not> watched Clock" "\<not> watched Timestamp" "\<not> watched (Run_Function p)" "\<not> watched (Get_Deployment i e d)"
  "\<not> watched (Get_Plan_Deployment i e j)" "\<not> watched (Get_Dependents i e)"
  "\<not> watched (Get_Deployment_And_Dependents i e d)" "\<not> watched Get_Current_Job_Id"
  "\<not> watched (Get_Job_Status j)" "\<not> watched Get_User_Id" "\<not> watched (Http u pb)" "\<not> watched (Get_Module_Version m t v)" "\<not> watched (Get_Stack_Version m t v)"
  "\<not> watched (Get_All_Policies pe)" "\<not> watched (Presigned_Url k b)" "\<not> watched (Policy_Url k)"
  "\<not> watched (Download u pa)" "\<not> watched (Unzip pa de)" "\<not> watched (Verify_Oci oc)"
  "\<not> watched (Set_Up_Provider_Mirror ps ta)" "\<not> watched (Write_File pa co)" "\<not> watched (Read_File pa)"
  "\<not> watched (Remove_File pa)" "\<not> watched List_Rego_Files" "\<not> watched (Post_Webhook u wb)"
  using watched_command by force+

lemma never_ask: "\<not> watched c \<Longrightarrow> never watched (ask c f)"
  by (rule logs_ask) simp

lemmas quiet_intros = logs_intros never_ask unwatched

lemma never_upd: "never watched (upd f)"
  unfolding upd_def by (intro logs_modify) simp

lemma never_setters:
  "never watched (set_status st)" "never watched (set_command cmd)" "never watched (set_output out)"
  "never watched (set_error_text txt)" "never watched (set_job_id job)" "never watched (set_deleted del)"
  "never watched (set_policy_results results)" "never watched (set_drift_has_occurred drift)"
  "never watched set_is_drift_check" "never watched (set_resources resources)" "never watched (set_variables vars)"
  by (simp_all add: set_status_def set_command_def set_output_def set_error_text_def set_job_id_def
      set_deleted_def set_policy_results_def set_drift_has_occurred_def set_is_drift_check_def
      set_resources_def set_variables_def never_upd)

lemma never_clock: "never watched (get_epoch en)"
  unfolding get_epoch_def by (intro quiet_intros)

lemma never_run_function: "never watched (run_function en p)"
  unfolding run_function_def by (intro quiet_intros)

lemma never_set_deployment: "never watched (set_deployment en d plan)"
  unfolding set_deployment_def
  by (intro quiet_intros never_run_function)

lemma never_insert_event: "never watched (insert_event en ev)"
  unfolding insert_event_def
  by (intro quiet_intros never_run_function never_clock)

lemma never_send_event: "never watched (send_event en)"
  unfolding send_event_def
  by (intro quiet_intros never_insert_event never_clock)

lemma never_next_check: "never watched (get_next_drift_check_epoch en h)"
  unfolding get_next_drift_check_epoch_def
  by (intro quiet_intros never_clock)

lemma never_send_deployment: "never watched (send_deployment en)"
  unfolding send_deployment_def
  by (intro quiet_intros never_set_deployment never_next_check never_clock)

lemma never_durations: "never watched (set_event_duration en)" "never watched (set_last_event_epoch en)"
  unfolding set_event_duration_def set_last_event_epoch_def
  by (intro quiet_intros never_upd never_clock)+

lemmas never_handler = never_setters never_durations never_clock never_run_function never_set_deployment
  never_insert_event never_send_event never_next_check never_send_deployment

lemma never_report: "never watched (report en st txt)"
  unfolding report_def by (intro quiet_intros never_handler)

lemma never_files:
  "never watched (write_file en path content message)"
  "never watched (upload_file_to_change_records en key content)"
  "never watched (insert_infra_change_record en r)"
  unfolding write_file_def upload_file_to_change_records_def insert_infra_change_record_def
  by (intro quiet_intros never_handler)+

lemma never_check_drift: "never watched (check_drift en payload content)"
  unfolding check_drift_def notify_drift_def post_webhook_def
  by (intro quiet_intros never_handler)

lemma never_record: "never watched (record_apply_destroy_changes en payload job module out)"
  unfolding record_apply_destroy_changes_def
  by (intro quiet_intros never_handler never_files)

lemma never_check_module: "never watched (check_module_deprecation en m st mo ve de ev)"
  unfolding check_module_deprecation_def by (intro quiet_intros)

lemma never_get_module: "never watched (get_module en payload)"
  unfolding get_module_def
  by (intro quiet_intros never_report never_check_module)

lemma never_or_error: "never watched m \<Longrightarrow> never watched (or_error m)"
  unfolding or_error_def by (intro quiet_intros)

lemma never_fetch:
  "never watched (get_modules_download_url en key)" "never watched (download en url path)"
  "never watched (unzip en path dest)"
  unfolding get_modules_download_url_def download_def unzip_def
  by (intro quiet_intros)+

lemma never_download_oci: "never watched (download_module_oci en artifact dest)"
  unfolding download_module_oci_def
  by (intro quiet_intros never_or_error never_fetch)

lemma never_integrity: "never watched (compare_module_integrity en m m')"
  unfolding compare_module_integrity_def by (intro quiet_intros never_report)

lemma never_download_module: "never watched (download_module en m)"
  unfolding download_module_def download_module_zip_def
  by (intro quiet_intros never_report never_download_oci never_integrity never_or_error never_fetch)

lemma never_download_policy: "never watched (download_policy en policy)"
  unfolding download_policy_def by (intro quiet_intros)

lemma never_check_dependencies: "never watched (check_dependencies en payload)"
  unfolding check_dependencies_def check_dependency_status_def
  by (intro quiet_intros never_handler)

lemma never_check_dependants: "never watched (check_dependants en payload)"
  unfolding check_dependants_def
  by (intro quiet_intros never_handler)

lemma never_start_flow: "never watched (start_flow en payload)"
  unfolding start_flow_def fetch_deployment_variables_def store_tf_vars_json_def store_backend_file_def
    get_initial_deployment_def get_current_job_id_def ensure_valid_job_id_def
  by (intro quiet_intros never_handler)

lemma never_flush: "never watched (flush_failed_status_if_needed en txt)"
  unfolding flush_failed_status_if_needed_def
  by (intro quiet_intros never_handler)

lemma never_finish: "never watched (finish_runner_flow en res)"
  unfolding finish_runner_flow_def by (intro quiet_intros never_flush)

lemma never_notification: "never watched (publish_runner_notification en payload completion)"
  unfolding publish_runner_notification_def publish_notification_def
  by (intro quiet_intros never_handler)

lemma never_terraform:
  "(\<And>args init vars. \<not> watched (Terraform (command # args) init vars)) \<Longrightarrow>
   never watched (run_terraform_command en command ro lk de aa ni js po pi init ml vars)"
  unfolding run_terraform_command_def terraform_args_def Let_def
  by (intro quiet_intros) simp

end

text \<open>Watching changes only: reading commands and policy evaluations are not watched either.\<close>

locale watch_changes = watch +
  assumes reading: "command \<noteq> ''apply'' \<Longrightarrow> command \<noteq> ''destroy'' \<Longrightarrow> \<not> watched (Terraform (command # args) init vars)"
    and evaluating: "\<not> watched (Opa opa_arguments policy)"
begin

lemma never_reading:
  "command \<noteq> ''apply'' \<Longrightarrow> command \<noteq> ''destroy'' \<Longrightarrow>
   never watched (run_terraform_command en command ro lk de aa ni js po pi init ml vars)"
  by (rule never_terraform) (rule reading)

lemmas step_intros = quiet_intros never_handler never_report never_files

lemma never_init: "never watched (terraform_init en payload)"
  unfolding terraform_init_def by (intro step_intros never_reading) simp_all

lemma never_validate: "never watched (terraform_validate en payload)"
  unfolding terraform_validate_def by (intro step_intros never_reading) simp_all

lemma never_graph: "never watched (terraform_graph en payload job)"
  unfolding terraform_graph_def by (intro step_intros never_reading) simp_all

lemma never_plan: "never watched (terraform_plan en payload)"
  unfolding terraform_plan_def by (intro step_intros never_reading) simp_all

lemma never_show: "never watched (terraform_show en payload job module out use_planfile)"
  unfolding terraform_show_def by (intro step_intros never_check_drift never_reading) simp_all

lemma never_output: "never watched (terraform_output en payload)"
  unfolding terraform_output_def by (intro step_intros never_reading) simp_all

lemma never_state_list: "never watched (terraform_state_list en)"
  unfolding terraform_state_list_def Let_def by (intro step_intros) (simp_all add: reading)

lemma never_check_policy: "never watched (check_policy en policy acc)"
  unfolding check_policy_def run_opa_command_def
  by (intro step_intros never_download_policy evaluating)

lemma never_policies: "never watched (run_opa_policy_checks en)"
  unfolding run_opa_policy_checks_def store_env_as_json_def
  by (intro step_intros never_check_policy)

lemma never_prepare: "never watched (prepare_flow en payload job)"
  unfolding prepare_flow_def
  by (intro step_intros never_check_dependencies never_check_dependants never_get_module never_download_module
      never_init never_validate never_plan never_show never_graph never_policies)

end

text \<open>The commands that change infrastructure; and the empty class, which says that histories only grow.\<close>

fun mutates :: "call \<Rightarrow> bool" where
  "mutates (Terraform args init vars) \<longleftrightarrow> (case args of c # _ \<Rightarrow> c = ''apply'' \<or> c = ''destroy'' | [] \<Rightarrow> False)"
| "mutates _ \<longleftrightarrow> False"

interpretation mut: watch_changes mutates
proof (unfold_locales, goal_cases)
  case (1 c)
  then show ?case by (cases c) auto
qed simp_all

interpretation grow: watch_changes "\<lambda>_. False"
  by unfold_locales simp_all

abbreviation grows :: "('z world_scheme, 'a) eff \<Rightarrow> bool" where
  "grows m \<equiv> logs (\<lambda>_ _. \<not> False) m"

lemma grows_apply_destroy: "grows (terraform_apply_destroy en payload)"
  unfolding terraform_apply_destroy_def by (intro grow.step_intros grow.never_terraform)

lemma grows_mutate_flow: "grows (mutate_flow en payload job module out)"
  unfolding mutate_flow_def
  by (intro grow.step_intros grows_apply_destroy grow.never_show grow.never_state_list grow.never_record
      grow.never_output)

lemma grows_terraform_flow: "grows (terraform_flow en payload job)"
  unfolding terraform_flow_def by (intro grow.step_intros grow.never_prepare grows_mutate_flow)

lemma grows_run: "grows (run_terraform_runner en payload)"
  unfolding run_terraform_runner_def run_runner_flow_crash_guarded_def run_runner_inner_def
  by (intro grow.step_intros grow.never_start_flow grows_terraform_flow grow.never_finish grow.never_notification)

section \<open>Reaching a watched call\<close>

lemma extends_never:
  "extends (\<lambda>_ c. \<not> W c) h h' \<Longrightarrow> j < length h' \<Longrightarrow> length h \<le> j \<Longrightarrow> \<not> W (h' ! j)"
  by (auto simp: extends_def nth_append)

text \<open>A watched call made by a sequence whose first part makes none is made by the second part.\<close>

lemma reach_bnd:
  assumes run: "bnd m f s = (r, s')" and first: "never W m" and rest: "\<And>a. grows (f a)"
    and j: "j < length (w_calls s')" "length (w_calls s) \<le> j" "W (w_calls s' ! j)"
  obtains a s1 where "m s = (Ok a, s1)" "f a s1 = (r, s')" "length (w_calls s) \<le> length (w_calls s1)"
    "length (w_calls s1) \<le> j" "\<exists>cs. w_calls s' = w_calls s1 @ cs"
proof -
  obtain o1 s1 where m: "m s = (o1, s1)" by (cases "m s")
  have e: "extends (\<lambda>_ c. \<not> W c) (w_calls s) (w_calls s1)"
    using logsD [OF first m] .
  show thesis
  proof (cases "\<exists>a. o1 = Ok a")
    case True
    then obtain a where a: "o1 = Ok a" by blast
    with run m have fa: "f a s1 = (r, s')" by (simp add: bnd_def)
    obtain cs where cs: "w_calls s' = w_calls s1 @ cs"
      using extends_prefix [OF logsD [OF rest fa]] by blast
    have "length (w_calls s1) \<le> j"
    proof (rule ccontr)
      assume "\<not> length (w_calls s1) \<le> j"
      then have "\<not> W (w_calls s1 ! j)" "w_calls s' ! j = w_calls s1 ! j"
        using extends_never [OF e _ j(2)] by (auto simp: cs nth_append)
      with j(3) show False by simp
    qed
    moreover have "length (w_calls s) \<le> length (w_calls s1)"
      using extends_prefix [OF e] by auto
    ultimately show thesis using that m a fa cs by blast
  next
    case False
    with run m have "s' = s1" by (cases o1) (auto simp: bnd_def)
    with extends_never [OF e] j show thesis by blast
  qed
qed

section \<open>What a returned value establishes\<close>

text \<open>
  \<open>establishes P m\<close>: when \<open>m\<close> returns a value, the history satisfies \<open>P\<close>. For a property that a
  growing history keeps, one part of a sequence suffices.
\<close>

definition lasting :: "(call list \<Rightarrow> bool) \<Rightarrow> bool" where
  "lasting P \<longleftrightarrow> (\<forall>h cs. P h \<longrightarrow> P (h @ cs))"

definition establishes :: "(call list \<Rightarrow> bool) \<Rightarrow> ('z world_scheme, 'a) eff \<Rightarrow> bool" where
  "establishes P m \<longleftrightarrow> (\<forall>s a s'. m s = (Ok a, s') \<longrightarrow> P (w_calls s'))"

lemma lasting_grows: "lasting P \<Longrightarrow> grows m \<Longrightarrow> P (w_calls s) \<Longrightarrow> m s = (r, s') \<Longrightarrow> P (w_calls s')"
  using extends_prefix [OF logsD] unfolding lasting_def by metis

lemma establishes_first: "lasting P \<Longrightarrow> establishes P m \<Longrightarrow> (\<And>a. grows (f a)) \<Longrightarrow> establishes P (bnd m f)"
proof -
  assume P: "lasting P" and m: "establishes P m" and f: "\<And>a. grows (f a)"
  have "P (w_calls s')" if "m s = (Ok a, s1)" "f a s1 = (Ok b, s')" for s a s1 b s'
    using lasting_grows [OF P f _ that(2)] m that(1) unfolding establishes_def by blast
  then show ?thesis unfolding establishes_def bnd_Ok by blast
qed

lemma establishes_later: "(\<And>a. establishes P (f a)) \<Longrightarrow> establishes P (bnd m f)"
  unfolding establishes_def bnd_Ok by blast

lemma establishes_seq:
  "lasting P \<Longrightarrow> establishes P m \<Longrightarrow> grows n \<Longrightarrow> establishes P (seq m n)"
  "establishes P n \<Longrightarrow> establishes P (seq m n)"
  unfolding seq_def by (blast intro: establishes_first establishes_later)+

lemma establishes_fail: "establishes P (fail e)" "establishes P (panic e)"
  by (simp_all add: establishes_def)

lemma lasting_ex: "(\<And>x. lasting (P x)) \<Longrightarrow> lasting (\<lambda>h. \<exists>x. P x h)"
  unfolding lasting_def by blast

lemma lasting_all: "(\<And>x. lasting (P x)) \<Longrightarrow> lasting (\<lambda>h. \<forall>x \<in> A. P x h)"
  unfolding lasting_def by blast

lemma lasting_and: "lasting P \<Longrightarrow> lasting Q \<Longrightarrow> lasting (\<lambda>h. P h \<and> Q h)"
  unfolding lasting_def by blast

text \<open>An answered call: the call at some place in the history, with its answer there.\<close>

definition answered :: "(call list \<Rightarrow> call \<Rightarrow> bool) \<Rightarrow> call list \<Rightarrow> bool" where
  "answered A h \<longleftrightarrow> (\<exists>i < length h. A (take i h) (h ! i))"

lemma lasting_answered: "lasting (answered A)"
  unfolding lasting_def answered_def by (auto simp: nth_append intro: less_le_trans)

lemma answered_last: "A h c \<Longrightarrow> answered A (h @ [c])"
  unfolding answered_def by (intro exI [of _ "length h"]) simp

text \<open>A dependency that was found finished.\<close>

definition dependency_done :: "env \<Rightarrow> dependency \<Rightarrow> call list \<Rightarrow> bool" where
  "dependency_done en dep = answered (\<lambda>h c.
     c = Get_Deployment (dep_deployment_id dep) (dep_environment dep) False
     \<and> (\<exists>d. en_get_deployment en h (dep_deployment_id dep) (dep_environment dep) False = Inr (Some d)
          \<and> dr_status d = Successful))"

lemma lasting_dependency_done: "lasting (dependency_done en dep)"
  unfolding dependency_done_def by (rule lasting_answered)

lemma check_dependency_status_establishes:
  "establishes (dependency_done en dep) (check_dependency_status en dep)"
  unfolding establishes_def
proof (intro allI impI)
  fix s u s'
  assume run: "check_dependency_status en dep s = (Ok u, s')"
  let ?c = "Get_Deployment (dep_deployment_id dep) (dep_environment dep) False"
  let ?a = "en_get_deployment en (w_calls s) (dep_deployment_id dep) (dep_environment dep) False"
  have s': "w_calls s' = w_calls s @ [?c]" and ans: "\<exists>d. ?a = Inr (Some d) \<and> dr_status d = Successful"
    using run by (auto simp: check_dependency_status_def bnd_Ok split: sum.splits option.splits if_splits)
  show "dependency_done en dep (w_calls s')"
    unfolding dependency_done_def s' by (rule answered_last) (use ans in simp)
qed

lemma grows_check_dependency_status: "grows (check_dependency_status en dep)"
  unfolding check_dependency_status_def by (intro grow.quiet_intros)

lemma check_dependencies_establishes:
  "establishes (\<lambda>h. \<forall>dep \<in> set (pl_dependencies payload). dependency_done en dep h) (check_dependencies en payload)"
proof -
  let ?step = "\<lambda>dep unfinished. bnd (attempt (check_dependency_status en dep)) (\<lambda>r.
            ret (case r of Inr _ \<Rightarrow> unfinished | Inl _ \<Rightarrow> unfinished @ [dep]))"
  have loop: "fold_eff ?step deps acc s = (Ok [], s') \<Longrightarrow>
      acc = [] \<and> (\<forall>dep \<in> set deps. dependency_done en dep (w_calls s'))" for deps acc and s s' :: job
  proof (induction deps arbitrary: acc s)
    case (Cons dep deps)
    then obtain a s1 where a: "?step dep acc s = (Ok a, s1)" and rest: "fold_eff ?step deps a s1 = (Ok [], s')"
      unfolding fold_eff.simps bnd_Ok [of "?step dep acc"] by blast
    have "a = []" and fin: "\<forall>dep \<in> set deps. dependency_done en dep (w_calls s')"
      using Cons.IH [OF rest] by blast+
    with a obtain u where ok: "check_dependency_status en dep s = (Ok u, s1)" and "acc = []"
      by (auto simp: bnd_Ok attempt_def split: prod.splits outcome.splits)
    have d: "dependency_done en dep (w_calls s1)"
      using check_dependency_status_establishes ok unfolding establishes_def by blast
    have g: "grows (fold_eff ?step deps a)"
      by (intro grow.quiet_intros grows_check_dependency_status)
    have "dependency_done en dep (w_calls s')"
      by (rule lasting_grows [where m = "fold_eff ?step deps a" and s = s1, OF lasting_dependency_done g d rest])
    with fin \<open>acc = []\<close> show ?case by simp
  qed simp
  show ?thesis
    unfolding establishes_def
  proof (intro allI impI)
    fix s u s'
    assume "check_dependencies en payload s = (Ok u, s')"
    then obtain s1 where "fold_eff ?step (pl_dependencies payload) [] s = (Ok [], s1)" and "s' = s1"
      by (auto simp: check_dependencies_def bnd_Ok seq_Ok split: if_splits)
    with loop show "\<forall>dep \<in> set (pl_dependencies payload). dependency_done en dep (w_calls s')" by blast
  qed
qed

text \<open>A look at the dependents that found none.\<close>

definition no_dependants :: "env \<Rightarrow> api_infra_payload \<Rightarrow> call list \<Rightarrow> bool" where
  "no_dependants en payload = answered (\<lambda>h c.
     c = Get_Deployment_And_Dependents (pl_deployment_id payload) (pl_environment payload) False
     \<and> (\<exists>d. en_get_deployment_and_dependents en h (pl_deployment_id payload) (pl_environment payload) False = Inr (d, [])))"

lemma lasting_no_dependants: "lasting (no_dependants en payload)"
  unfolding no_dependants_def by (rule lasting_answered)

lemma check_dependants_establishes: "establishes (no_dependants en payload) (check_dependants en payload)"
  unfolding establishes_def
proof (intro allI impI)
  fix s u s'
  assume run: "check_dependants en payload s = (Ok u, s')"
  let ?c = "Get_Deployment_And_Dependents (pl_deployment_id payload) (pl_environment payload) False"
  let ?a = "en_get_deployment_and_dependents en (w_calls s) (pl_deployment_id payload) (pl_environment payload) False"
  have s': "w_calls s' = w_calls s @ [?c]" and ans: "\<exists>d. ?a = Inr (d, [])"
    using run by (auto simp: check_dependants_def bnd_Ok seq_Ok split: sum.splits prod.splits if_splits)
  show "no_dependants en payload (w_calls s')"
    unfolding no_dependants_def s' by (rule answered_last) (use ans in simp)
qed

text \<open>A policy that was evaluated without a violation.\<close>

definition policy_passed :: "env \<Rightarrow> policy_resp \<Rightarrow> call list \<Rightarrow> bool" where
  "policy_passed en policy = answered (\<lambda>h c. \<exists>args. c = Opa args policy
     \<and> (\<exists>stdout opa_result violations.
          res_bind (en_opa en h args policy) (run_generic_command 500) = Inr stdout
          \<and> en_parse en stdout = Inr opa_result \<and> opa_verdict opa_result = Some (False, violations)))"

definition policies_passed :: "env \<Rightarrow> call list \<Rightarrow> bool" where
  "policies_passed en h \<longleftrightarrow> (\<exists>policies. (\<forall>policy \<in> set policies. policy_passed en policy h)
     \<and> answered (\<lambda>k c. c = Get_All_Policies ''stable'' \<and> en_get_all_policies en k ''stable'' = Inr policies) h)"

lemma lasting_policy_passed: "lasting (policy_passed en policy)"
  unfolding policy_passed_def by (rule lasting_answered)

lemma lasting_policies_passed: "lasting (policies_passed en)"
proof -
  have "lasting (\<lambda>h. \<exists>policies. (\<forall>policy \<in> set policies. policy_passed en policy h)
     \<and> answered (\<lambda>k c. c = Get_All_Policies ''stable'' \<and> en_get_all_policies en k ''stable'' = Inr policies) h)"
    by (intro lasting_ex lasting_and lasting_all lasting_answered lasting_policy_passed)
  then show ?thesis unfolding policies_passed_def [abs_def] .
qed

lemma check_policy_establishes:
  assumes run: "check_policy en policy (rs, flag) s = (Ok (rs', False), s')"
  shows "\<not> flag \<and> policy_passed en policy (w_calls s')"
proof -
  obtain s1 s2 s3 r s4 acc s5 where a: "download_policy en policy s = (Ok (), s1)"
    and b: "write_file en ''./policy_input.json'' (en_text en (po_data policy)) ''could not write policy_input.json'' s1 = (Ok (), s2)"
    and c: "s3 = w_calls_update (\<lambda>cs. cs @ [List_Rego_Files]) s2"
    and d: "run_opa_command en 500 policy (en_rego_files en (w_calls s2)) s3 = (Ok r, s4)"
    and e: "(case r of
                 Inr stdout \<Rightarrow>
                   (case en_parse en stdout of
                      Inl e \<Rightarrow> panic (''Could not parse the opa output json from stdout: '' @ e)
                    | Inr opa_result \<Rightarrow>
                        bnd (unwrap_opt ''called `Option::unwrap()` on a `None` value'' (opa_verdict opa_result))
                          (\<lambda>(failed, violations).
                           ret (rs @ [policy_result_of policy failed violations], flag \<or> failed)))
               | Inl e \<Rightarrow> seq (report en FailedPolicy e) (seq (set_error_text []) exit_process)) s4 = (Ok acc, s5)"
    and f: "seq (for_each (\<lambda>f. bnd (ask (Remove_File f) (\<lambda>h. en_remove_file en h f)) (\<lambda>ok.
                 if ok then ret () else panic ''called `Result::unwrap()` on an `Err` value''))
               (en_rego_files en (w_calls s2))) (ret acc) s5 = (Ok (rs', False), s')"
    using run unfolding check_policy_def Let_def split seq_Ok bnd_Ok ask_run prod.inject outcome.inject by blast
  have acc: "acc = (rs', False)"
    using f by (auto simp: seq_Ok)
  let ?args = "opa_args (en_rego_files en (w_calls s2))"
  have r: "r = res_bind (en_opa en (w_calls s3) ?args policy) (run_generic_command 500)"
    and s4: "w_calls s4 = w_calls s3 @ [Opa ?args policy]"
    using d by (auto simp: run_opa_command_def Let_def bnd_Ok)
  obtain stdout opa_result violations where v: "r = Inr stdout" "en_parse en stdout = Inr opa_result"
      "opa_verdict opa_result = Some (False, violations)" and flag: "\<not> flag" and s5: "s5 = s4"
    using e acc by (auto simp: bnd_Ok seq_Ok unwrap_opt_def split: sum.splits option.splits)
  have "res_bind (en_opa en (w_calls s3) ?args policy) (run_generic_command 500) = Inr stdout"
    using r v(1) by simp
  then have "policy_passed en policy (w_calls s4)"
    unfolding policy_passed_def s4 by (intro answered_last exI conjI) (rule refl v(2,3) | assumption)+
  then have p: "policy_passed en policy (w_calls s5)"
    by (simp add: s5)
  let ?rm = "seq (for_each (\<lambda>f. bnd (ask (Remove_File f) (\<lambda>h. en_remove_file en h f)) (\<lambda>ok.
                 if ok then ret () else panic ''called `Result::unwrap()` on an `Err` value''))
               (en_rego_files en (w_calls s2))) (ret acc) :: (policy_result list \<times> bool) job_eff"
  have "grows ?rm"
    by (intro grow.quiet_intros)
  then have "policy_passed en policy (w_calls s')"
    by (rule lasting_grows [where m = ?rm and s = s5, OF lasting_policy_passed _ p f])
  with flag show ?thesis by simp
qed

lemma check_policy_failed: "check_policy en policy (rs, True) s = (Ok (rs', flag'), s') \<Longrightarrow> flag'"
  using check_policy_establishes [of en policy rs True s rs' s'] by (cases flag') auto

lemma grows_check_policies: "grows (fold_eff (check_policy en) policies acc)"
  by (intro grow.quiet_intros grow.never_check_policy)

lemma check_policies_establish:
  "fold_eff (check_policy en) policies (rs, flag) s = (Ok (rs', False), s') \<Longrightarrow>
   \<not> flag \<and> (\<forall>policy \<in> set policies. policy_passed en policy (w_calls s'))"
proof (induction policies arbitrary: rs flag s)
  case (Cons policy policies)
  then obtain acc s1 where first: "check_policy en policy (rs, flag) s = (Ok acc, s1)"
    and rest: "fold_eff (check_policy en) policies acc s1 = (Ok (rs', False), s')"
    unfolding fold_eff.simps bnd_Ok by blast
  obtain rs1 flag1 where acc: "acc = (rs1, flag1)" by (cases acc)
  have ih: "\<not> flag1" "\<forall>p \<in> set policies. policy_passed en p (w_calls s')"
    using Cons.IH [OF rest [unfolded acc]] by blast+
  then have f: "\<not> flag" "policy_passed en policy (w_calls s1)"
    using check_policy_establishes [of en policy rs flag s rs1 s1] first acc by simp_all
  have "policy_passed en policy (w_calls s')"
    by (rule lasting_grows [where m = "fold_eff (check_policy en) policies acc",
          OF lasting_policy_passed grows_check_policies f(2) rest])
  with f ih show ?case by simp
qed simp

lemma run_opa_policy_checks_establishes: "establishes (policies_passed en) (run_opa_policy_checks en)"
  unfolding establishes_def
proof (intro allI impI)
  fix s u s'
  assume run: "run_opa_policy_checks en s = (Ok u, s')"
  let ?c = "Get_All_Policies ''stable''"
  obtain s1 policies rs flag s3 where
    fold: "fold_eff (check_policy en) policies ([], False) (w_calls_update (\<lambda>cs. cs @ [?c]) s1) = (Ok (rs, flag), s3)"
    and policies: "en_get_all_policies en (w_calls s1) ''stable'' = Inr policies"
    and last: "seq (set_policy_results rs)
        (if flag
         then seq (report en FailedPolicy ''OPA Policy evaluation found policy violations'')
                (fail ''OPA Policy evaluation found policy violations'')
         else ret ()) s3 = (Ok u, s')"
    using run by (auto simp: run_opa_policy_checks_def seq_Ok [of "store_env_as_json en"] bnd_Ok unwrap_Ok
        split: prod.splits)
  have "flag = False"
    using last by (auto simp: seq_Ok split: if_splits)
  then have passed: "\<forall>policy \<in> set policies. policy_passed en policy (w_calls s3)"
    using check_policies_establish [of en policies "[]" False] fold by simp
  have "answered (\<lambda>k c. c = ?c \<and> en_get_all_policies en k ''stable'' = Inr policies) (w_calls s1 @ [?c])"
    by (rule answered_last) (simp add: policies)
  then have "answered (\<lambda>k c. c = ?c \<and> en_get_all_policies en k ''stable'' = Inr policies)
      (w_calls (w_calls_update (\<lambda>cs. cs @ [?c]) s1))"
    by simp
  then have "answered (\<lambda>k c. c = ?c \<and> en_get_all_policies en k ''stable'' = Inr policies) (w_calls s3)"
    by (rule lasting_grows [where m = "fold_eff (check_policy en) policies ([], False)",
          OF lasting_answered grows_check_policies _ fold])
  with passed have "policies_passed en (w_calls s3)"
    unfolding policies_passed_def by blast
  moreover have "grows (seq (set_policy_results rs)
        (if flag
         then seq (report en FailedPolicy ''OPA Policy evaluation found policy violations'')
                (fail ''OPA Policy evaluation found policy violations'')
         else ret ()))" (is "grows ?m")
    by (intro grow.step_intros)
  ultimately show "policies_passed en (w_calls s')"
    using lasting_grows [where m = ?m and s = s3, OF lasting_policies_passed _ _ last] by blast
qed

text \<open>The variables come from the deployment that this very job was started for.\<close>

definition job_trusted :: "env \<Rightarrow> api_infra_payload \<Rightarrow> call list \<Rightarrow> bool" where
  "job_trusted en payload h \<longleftrightarrow> (\<exists>d.
     answered (\<lambda>k c. c = Get_Deployment (pl_deployment_id payload) (pl_environment payload) False
       \<and> en_get_deployment en k (pl_deployment_id payload) (pl_environment payload) False = Inr (Some d)) h
     \<and> answered (\<lambda>k c. c = Get_Current_Job_Id \<and> en_get_current_job_id en k = Inr (dr_job_id d)) h)"

lemma lasting_job_trusted: "lasting (job_trusted en payload)"
proof -
  have "lasting (\<lambda>h. \<exists>d.
     answered (\<lambda>k c. c = Get_Deployment (pl_deployment_id payload) (pl_environment payload) False
       \<and> en_get_deployment en k (pl_deployment_id payload) (pl_environment payload) False = Inr (Some d)) h
     \<and> answered (\<lambda>k c. c = Get_Current_Job_Id \<and> en_get_current_job_id en k = Inr (dr_job_id d)) h)"
    by (intro lasting_ex lasting_and lasting_answered)
  then show ?thesis unfolding job_trusted_def [abs_def] .
qed

lemma fetch_establishes:
  assumes "pl_command payload \<noteq> ''plan''"
    and run: "fetch_deployment_variables en payload s = (Ok (v, jid), s')"
  shows "\<exists>d. jid = dr_job_id d \<and>
     answered (\<lambda>k c. c = Get_Deployment (pl_deployment_id payload) (pl_environment payload) False
       \<and> en_get_deployment en k (pl_deployment_id payload) (pl_environment payload) False = Inr (Some d)) (w_calls s')"
proof -
  let ?c = "Get_Deployment (pl_deployment_id payload) (pl_environment payload) False"
  obtain d where "en_get_deployment en (w_calls s) (pl_deployment_id payload) (pl_environment payload) False = Inr (Some d)"
      "jid = dr_job_id d" "w_calls s' = w_calls s @ [?c]"
    using assms by (auto simp: fetch_deployment_variables_def bnd_Ok split: sum.splits option.splits)
  then show ?thesis by (auto intro!: exI [of _ d] answered_last)
qed

lemma get_job_id_establishes:
  "get_current_job_id en s = (Ok job, s') \<Longrightarrow>
   answered (\<lambda>k c. c = Get_Current_Job_Id \<and> en_get_current_job_id en k = Inr job) (w_calls s')"
  by (auto simp: get_current_job_id_def bnd_Ok seq_Ok set_job_id_def upd_def split: sum.splits
      intro!: answered_last)

lemma job_id_checked:
  assumes "\<And>job. grows (X job)"
  shows "establishes (answered (\<lambda>k c. c = Get_Current_Job_Id \<and> en_get_current_job_id en k = Inr jid))
    (bnd (get_current_job_id en) (\<lambda>job. seq (ensure_valid_job_id en job jid) (X job)))"
  unfolding establishes_def
proof (intro allI impI)
  fix s a s'
  assume "bnd (get_current_job_id en) (\<lambda>job. seq (ensure_valid_job_id en job jid) (X job)) s = (Ok a, s')"
  then obtain job s1 s2 where get: "get_current_job_id en s = (Ok job, s1)"
    and valid: "ensure_valid_job_id en job jid s1 = (Ok (), s2)" and rest: "X job s2 = (Ok a, s')"
    unfolding bnd_Ok seq_Ok by blast
  have "job = jid" "s2 = s1"
    using valid by (auto simp: ensure_valid_job_id_def Let_def seq_Ok bnd_Ok split: if_splits)
  then show "answered (\<lambda>k c. c = Get_Current_Job_Id \<and> en_get_current_job_id en k = Inr jid) (w_calls s')"
    using lasting_grows [where m = "X job", OF lasting_answered assms _ rest] get_job_id_establishes [OF get] by simp
qed

lemma start_flow_establishes:
  assumes "pl_command payload \<noteq> ''plan''"
  shows "establishes (job_trusted en payload) (start_flow en payload)"
  unfolding establishes_def
proof (intro allI impI)
  fix s job s'
  assume run: "start_flow en payload s = (Ok job, s')"
  let ?tail = "\<lambda>jid job_id. seq (if pl_command payload = ''plan'' \<and> has_flag payload ''-refresh-only''
         then set_is_drift_check else ret ())
      (seq (send_event en) (seq (send_deployment en) (ret job_id)))"
  let ?rest = "\<lambda>v jid. seq (set_variables v)
    (seq (store_tf_vars_json en v ''.'')
    (seq (store_backend_file en (en_backend_provider en) ''.'' (JObject []))
    (bnd (get_initial_deployment en payload) (\<lambda>initial_deployment.
     seq (case initial_deployment of
            Some d \<Rightarrow> block [set_output (dr_output d), set_policy_results (dr_policy_results d)]
          | None \<Rightarrow> ret ())
    (bnd (get_current_job_id en) (\<lambda>job_id. seq (ensure_valid_job_id en job_id jid) (?tail jid job_id)))))))"
  obtain v jid s1 where f: "fetch_deployment_variables en payload s = (Ok (v, jid), s1)"
    and rest: "?rest v jid s1 = (Ok job, s')"
    using run unfolding start_flow_def Let_def bnd_Ok [of "fetch_deployment_variables en payload"] split_paired_Ex split by blast
  obtain d where d: "jid = dr_job_id d" and ans:
     "answered (\<lambda>k c. c = Get_Deployment (pl_deployment_id payload) (pl_environment payload) False
       \<and> en_get_deployment en k (pl_deployment_id payload) (pl_environment payload) False = Inr (Some d)) (w_calls s1)"
    using fetch_establishes [OF assms f] by blast
  have "establishes (answered (\<lambda>k c. c = Get_Current_Job_Id \<and> en_get_current_job_id en k = Inr jid)) (?rest v jid)"
    unfolding seq_def [of "set_variables v"] seq_def [of "store_tf_vars_json en v ''.''"]
      seq_def [of "store_backend_file en b p x" for b p x]
      seq_def [of "case i of Some d \<Rightarrow> block [set_output (dr_output d), set_policy_results (dr_policy_results d)] | None \<Rightarrow> ret ()" for i]
    by (intro establishes_later job_id_checked) (intro grow.quiet_intros grow.never_handler)
  then have "answered (\<lambda>k c. c = Get_Current_Job_Id \<and> en_get_current_job_id en k = Inr jid) (w_calls s')"
    using rest unfolding establishes_def by blast
  moreover have "grows (?rest v jid)"
    unfolding store_tf_vars_json_def store_backend_file_def get_initial_deployment_def get_current_job_id_def
      ensure_valid_job_id_def
    by (intro grow.quiet_intros grow.never_handler)
  then have "answered (\<lambda>k c. c = Get_Deployment (pl_deployment_id payload) (pl_environment payload) False
       \<and> en_get_deployment en k (pl_deployment_id payload) (pl_environment payload) False = Inr (Some d)) (w_calls s')"
    by (rule lasting_grows [where m = "?rest v jid" and s = s1, OF lasting_answered _ ans rest])
  ultimately show "job_trusted en payload (w_calls s')"
    unfolding job_trusted_def using d by blast
qed

end
