(* ===== verification/Runner_Gates.thy ===== *)
theory Runner_Gates
  imports Runner_Safety
begin

text \<open>
  The gates of a run: no command that changes infrastructure is started before the dependencies
  (or dependents), the job id and every policy have been checked, and a plan never starts one.
\<close>

section \<open>Guarded computations\<close>

abbreviation guarded :: "(call \<Rightarrow> bool) \<Rightarrow> (call list \<Rightarrow> bool) \<Rightarrow> ('z world_scheme, 'a) eff \<Rightarrow> bool" where
  "guarded W P m \<equiv> logs (\<lambda>h c. W c \<longrightarrow> P h) m"

lemma logs_mono: "logs G m \<Longrightarrow> (\<And>h c. G h c \<Longrightarrow> G' h c) \<Longrightarrow> logs G' m"
  unfolding logs_def by blast

lemma guarded_never: "never W m \<Longrightarrow> guarded W P m"
  by (erule logs_mono) simp

lemma extends_lasting:
  assumes "lasting P" "P h" "extends G h h'"
  shows "extends (\<lambda>k c. P k) h h'"
  using assms unfolding extends_def lasting_def by blast

text \<open>A check that must have succeeded guards whatever follows it.\<close>

lemma guarded_check:
  assumes P: "lasting P" and check: "establishes P m" and quiet: "never W m" and rest: "\<And>a. grows (f a)"
  shows "guarded W P (bnd m f)"
  unfolding logs_alt
proof (intro allI impI)
  fix s r s'
  assume run: "bnd m f s = (r, s')"
  obtain o1 s1 where m: "m s = (o1, s1)" by (cases "m s")
  have first: "extends (\<lambda>h c. W c \<longrightarrow> P h) (w_calls s) (w_calls s1)"
    by (rule extends_mono [OF logsD [OF quiet m]]) simp
  show "extends (\<lambda>h c. W c \<longrightarrow> P h) (w_calls s) (w_calls s')"
  proof (cases o1)
    case (Ok a)
    with m check have "P (w_calls s1)" unfolding establishes_def by blast
    moreover have "f a s1 = (r, s')" using run m Ok by (simp add: bnd_def)
    ultimately have "extends (\<lambda>k c. P k) (w_calls s1) (w_calls s')"
      using extends_lasting [OF P _ logsD [OF rest]] by blast
    then have "extends (\<lambda>h c. W c \<longrightarrow> P h) (w_calls s1) (w_calls s')"
      by (rule extends_mono) simp
    with first show ?thesis by (rule extends_trans)
  qed (use run m first in \<open>auto simp: bnd_def\<close>)
qed

lemma guardedD:
  assumes "guarded W P m" "m s = (r, s')" "length (w_calls s) \<le> j" "j < length (w_calls s')" "W (w_calls s' ! j)"
  shows "P (take j (w_calls s'))"
proof -
  obtain cs where cs: "w_calls s' = w_calls s @ cs"
    and g: "\<And>i. i < length cs \<Longrightarrow> W (cs ! i) \<longrightarrow> P (w_calls s @ take i cs)"
    using logsD [OF assms(1,2)] by (auto simp: extends_def)
  then show ?thesis using assms(3-5) g [of "j - length (w_calls s)"] by (auto simp: nth_append)
qed

section \<open>The gates of the flow\<close>

text \<open>What \<open>prepare_flow\<close> has established when it returns.\<close>

lemma prepare_establishes_dependencies:
  assumes "pl_command payload = ''apply''"
  shows "establishes (\<lambda>h. \<forall>dep \<in> set (pl_dependencies payload). dependency_done en dep h) (prepare_flow en payload job)"
  unfolding prepare_flow_def Let_def assms
  apply (rule establishes_seq(1))
  apply (intro lasting_all lasting_dependency_done)
  apply (simp add: check_dependencies_establishes)
  apply (intro grow.step_intros grow.never_get_module grow.never_download_module
      grow.never_init grow.never_validate grow.never_plan grow.never_show grow.never_graph grow.never_policies)
  done

lemma prepare_establishes_no_dependants:
  assumes "pl_command payload = ''destroy''"
  shows "establishes (no_dependants en payload) (prepare_flow en payload job)"
  unfolding prepare_flow_def Let_def assms
  apply (rule establishes_seq(1))
  apply (rule lasting_no_dependants)
  apply (simp add: check_dependants_establishes)
  apply (intro grow.step_intros grow.never_get_module grow.never_download_module
      grow.never_init grow.never_validate grow.never_plan grow.never_show grow.never_graph grow.never_policies)
  done

lemma prepare_establishes_policies: "establishes (policies_passed en) (prepare_flow en payload job)"
  unfolding prepare_flow_def Let_def
  by (rule establishes_seq(1) [OF lasting_policies_passed run_opa_policy_checks_establishes]
      establishes_seq(2) establishes_later)+ (intro grow.quiet_intros)

lemma flow_guarded:
  assumes "lasting P" "\<And>job. establishes P (prepare_flow en payload job)"
  shows "guarded mutates P (terraform_flow en payload job)"
  unfolding terraform_flow_def Let_def
  by (rule guarded_check [OF assms mut.never_prepare])
    (intro grow.step_intros grows_mutate_flow)

text \<open>A gate of the flow, or of the start before it, is a gate of the whole job.\<close>

lemma job_guarded:
  assumes "guarded mutates P (run_runner_inner en payload)"
  shows "guarded mutates P (run_terraform_runner en payload)"
  unfolding run_terraform_runner_def run_runner_flow_crash_guarded_def
  by (intro logs_intros assms guarded_never [OF mut.never_finish] guarded_never [OF mut.never_notification])

lemma flow_gate:
  assumes "lasting P" "\<And>job. establishes P (prepare_flow en payload job)"
  shows "guarded mutates P (run_terraform_runner en payload)"
  by (rule job_guarded, unfold run_runner_inner_def)
    (intro logs_intros flow_guarded [OF assms] guarded_never [OF mut.never_start_flow])

lemma start_gate:
  assumes "lasting P" "establishes P (start_flow en payload)"
  shows "guarded mutates P (run_terraform_runner en payload)"
  by (rule job_guarded, unfold run_runner_inner_def)
    (rule guarded_check [OF assms mut.never_start_flow grows_terraform_flow])

lemma initial_not_mutating: "w_calls (initial_job en payload) = [Clock]"
  by (simp add: initial_job_def)

lemma gateD:
  assumes "guarded mutates P (run_terraform_runner en payload)"
    and "run_terraform_runner en payload (initial_job en payload) = (r, s')"
    and "j < length (w_calls s')" "mutates (w_calls s' ! j)"
  shows "P (take j (w_calls s'))"
proof -
  obtain cs where "w_calls s' = Clock # cs"
    using extends_prefix [OF logsD [OF assms(1,2)]] by (auto simp: initial_not_mutating)
  then have "length (w_calls (initial_job en payload)) \<le> j"
    using assms(4) by (cases j) (auto simp: initial_not_mutating)
  with guardedD assms show ?thesis by blast
qed

end
