(* ===== verification/Runner_Demo.thy ===== *)
theory Runner_Demo
  imports Runner
begin

text \<open>
  A concrete environment in which every call succeeds, with one dependency, one policy and one
  module, and the payload of a job in it. The witnesses of the run properties use it.
\<close>

definition demo_payload :: "string \<Rightarrow> api_infra_payload" where
  "demo_payload command =
     \<lparr>pl_command = command, pl_flags = [], pl_module = ''m'', pl_module_version = ''1'', pl_module_type = ''module'',
      pl_module_track = ''t'', pl_name = ''n'', pl_environment = ''e'', pl_deployment_id = ''d'',
      pl_project_id = ''p'', pl_region = ''r'',
      pl_drift_detection = \<lparr>dd_enabled = False, dd_interval = [], dd_auto_remediate = False, dd_webhooks = []\<rparr>,
      pl_next_drift_check_epoch = - 1, pl_annotations = JNull,
      pl_dependencies = [\<lparr>dep_project_id = ''p'', dep_region = ''r'', dep_deployment_id = ''v'', dep_environment = ''e''\<rparr>],
      pl_initiated_by = ''i'', pl_cpu = ''1'', pl_memory = ''2'', pl_reference = [], pl_extra_data = NoExtra\<rparr>"

definition demo_policy :: policy_resp where
  "demo_policy =
     \<lparr>po_environment = ''stable'', po_environment_version = ''1'', po_version = ''1'', po_timestamp = [],
      po_policy_name = ''P'', po_policy = ''p'', po_description = [], po_reference = [], po_data = JNull,
      po_manifest = \<lparr>pmf_metadata = \<lparr>md_name = ''p''\<rparr>, pmf_api_version = [], pmf_kind = ''Policy'',
        pmf_spec = \<lparr>psp_policy_name = ''P'', psp_version = ''1'', psp_description = [], psp_reference = [], psp_data = JNull\<rparr>\<rparr>,
      po_s3_key = ''q''\<rparr>"

definition demo_recorded :: deployment_resp where
  "demo_recorded = demo_deployment\<lparr>dr_job_id := ''j'', dr_dependencies := [], dr_variables := JObject []\<rparr>"

definition demo_output :: command_output where
  "demo_output = \<lparr>co_stdout_lines = [], co_stderr_lines = [], co_exit_status = None\<rparr>"

definition demo_env :: env where
  "demo_env =
     \<lparr>en_clock = (\<lambda>_. 5), en_timestamp = (\<lambda>_. ''now''), en_run = (\<lambda>_ _. Inr JNull),
      en_get_deployment = (\<lambda>_ _ _ _. Inr (Some demo_recorded)),
      en_get_plan_deployment = (\<lambda>_ _ _ _. Inr (Some demo_recorded)),
      en_get_dependents = (\<lambda>_ _ _. Inr []),
      en_get_deployment_and_dependents = (\<lambda>_ _ _ _. Inr (Some demo_recorded, [])),
      en_get_current_job_id = (\<lambda>_. Inr ''j''), en_get_job_running = (\<lambda>_ _. Inr (Some False)),
      en_get_user_id = (\<lambda>_. Inr ''user''),
      en_get_module_version = (\<lambda>_ _ _ _. Inr (Some demo_module)),
      en_get_stack_version = (\<lambda>_ _ _ _. Inr None), en_get_all_policies = (\<lambda>_ _. Inr [demo_policy]),
      en_presigned_url = (\<lambda>_ _ _. Inr ''u''), en_policy_url = (\<lambda>_ _. Inr ''u''),
      en_download = (\<lambda>_ _ _. Inr ()), en_unzip = (\<lambda>_ _ _. Inr ()), en_verify_oci = (\<lambda>_ _. Inr demo_module),
      en_provider_mirror = (\<lambda>_ _ _. Inr ()), en_terraform = (\<lambda>_ _ _ _. Inr demo_output),
      en_opa = (\<lambda>_ _ _. Inr demo_output), en_write_file = (\<lambda>_ _ _. True), en_read_file = (\<lambda>_ _. Some []),
      en_remove_file = (\<lambda>_ _. True), en_rego_files = (\<lambda>_. [''f.rego'']), en_env_var = (\<lambda>_. None),
      en_webhook = (\<lambda>_ _ _. Inr ()), en_parse = (\<lambda>_. Inr (JObject [])), en_text = (\<lambda>_. []),
      en_duration = (\<lambda>_. Inr 900000), en_base64 = (\<lambda>s. s), en_deunicode = (\<lambda>s. s), en_order = (\<lambda>xs. xs),
      en_module_json = (\<lambda>_. JNull), en_storage_basepath = [], en_backend_provider = ''s3''\<rparr>"

text \<open>A first write of a deployment with one dependency.\<close>

lemma dependents_index_exact_witness:
  "\<exists>(s' :: world) (i :: json) t'. set_deployment demo_env demo_deployment False \<lparr>w_calls = []\<rparr> = (Ok (), s')
     \<and> t' (deployment_pk demo_deployment False, ''METADATA'') = Some i
     \<and> (\<forall>k. t' (k, dependent_sk demo_deployment) \<noteq> None \<longleftrightarrow> k = ''DEPLOYMENT#p1::eu-1::cli/dev::vpc/v1'')"
proof -
  let ?d = "demo_deployment" and ?s = "\<lparr>w_calls = []\<rparr> :: world"
  obtain j where j: "get_payload ?d False = Some j" using demo_deployment_payload by blast
  have d: "\<not> dr_deleted ?d" by (simp add: demo_deployment_def)
  obtain s' where run: "set_deployment demo_env ?d False ?s = (Ok (), s')"
    by (simp add: set_deployment_def bnd_def demo_env_def unwrap_opt_def j d run_function_def Let_def)
  have r: "en_get_deployment demo_env (w_calls ?s) (dr_deployment_id ?d) (dr_environment ?d) False = Inr (Some demo_recorded)"
    "recorded_dependencies (Some demo_recorded) = []" "set (en_order demo_env ks) = set ks" for ks
    by (simp_all add: demo_env_def recorded_dependencies_def demo_recorded_def)
  have index: "((\<lambda>_. None) :: string \<times> string \<Rightarrow> json option) (k, dependent_sk ?d) \<noteq> None
      \<longleftrightarrow> k \<in> dependency_pk ` set (recorded_dependencies (Some demo_recorded))" for k
    by (simp add: r(2))
  from dependents_index_exact [OF run r(1) index r(3) demo_transact_contract] obtain i items ops where
    sent: "filter transacts (drop (length (w_calls ?s)) (w_calls s')) = [Run_Function (transact_write_event items)]"
    and ops: "read_list item_op items = Some ops"
    and res: "\<And>t'. demo_transact (\<lambda>_. None) ops = Some t' \<Longrightarrow> t' (deployment_pk ?d False, ''METADATA'') = Some i
      \<and> (\<forall>k. t' (k, dependent_sk ?d) \<noteq> None \<longleftrightarrow> \<not> dr_deleted ?d \<and> k \<in> dependency_pk ` set (dr_dependencies ?d))"
    by auto
  from set_deployment_sends [OF run r(1)] sent j obtain dependents where
    "items = deployment_transaction (en_order demo_env) ?d False [] dependents j"
    by (auto simp: transact_write_event_inj r(2))
  with ops transaction_ops [OF j] d have o: "ops = ((deployment_pk ?d False, ''METADATA''), Some j) # update_ops (en_order demo_env) ?d []"
    by simp
  have "distinct (List.map fst ops)"
    using dependent_sk_not_metadata [of ?d] by (simp add: o update_ops_def Let_def demo_deployment_def demo_env_def)
  then obtain t' where t': "demo_transact (\<lambda>_. None) ops = Some t'" by (simp add: demo_transact_def)
  have dep: "dependency_pk ` set (dr_dependencies ?d) = {''DEPLOYMENT#p1::eu-1::cli/dev::vpc/v1''}"
    by (simp add: demo_deployment_def dependency_pk_def get_deployment_identifier_def)
  from res [OF t'] have "t' (deployment_pk ?d False, ''METADATA'') = Some i
      \<and> (\<forall>k. t' (k, dependent_sk ?d) \<noteq> None \<longleftrightarrow> k = ''DEPLOYMENT#p1::eu-1::cli/dev::vpc/v1'')"
    by (simp only: d dep singleton_iff not_False_eq_True simp_thms)
  from conjI [OF run this] show ?thesis by (intro exI)
qed

end
