(* ===== verification/Runner_Liveness.thy ===== *)
theory Runner_Liveness
  imports Runner_Gates Runner_Demo
begin

text \<open>
  A run in an environment where every call succeeds: it returns, the deployment ends as
  successful, and a run that applies or destroys has started the command.
\<close>

section \<open>Total correctness\<close>

text \<open>From a state with \<open>I\<close>, the computation returns a value with \<open>Q\<close> and keeps \<open>I\<close>.\<close>

definition completes :: "('s \<Rightarrow> bool) \<Rightarrow> ('s, 'a) eff \<Rightarrow> ('a \<Rightarrow> bool) \<Rightarrow> bool" where
  "completes I m Q \<longleftrightarrow> (\<forall>s. I s \<longrightarrow> (\<exists>a s'. m s = (Ok a, s') \<and> I s' \<and> Q a))"

named_theorems completes_rules \<open>one rule per combinator\<close>

lemma completes_ret [completes_rules]: "Q a \<Longrightarrow> completes I (ret a) Q"
  by (simp add: completes_def)

lemma completes_bnd: "completes I m R \<Longrightarrow> (\<And>a. R a \<Longrightarrow> completes I (f a) Q) \<Longrightarrow> completes I (bnd m f) Q"
  unfolding completes_def bnd_def by fastforce

lemma completes_seq: "completes I m (\<lambda>_. True) \<Longrightarrow> completes I n Q \<Longrightarrow> completes I (seq m n) Q"
  unfolding seq_def by (rule completes_bnd)

lemma completes_block [completes_rules]:
  "completes I (block []) (\<lambda>_. True)"
  "completes I m (\<lambda>_. True) \<Longrightarrow> completes I (block ms) (\<lambda>_. True) \<Longrightarrow> completes I (block (m # ms)) (\<lambda>_. True)"
  by (simp_all add: completes_ret completes_seq)

lemma completes_modify: "(\<And>s. I s \<Longrightarrow> I (f s)) \<Longrightarrow> completes I (modify f) (\<lambda>_. True)"
  by (simp add: completes_def)

lemma completes_gets: "(\<And>s. I s \<Longrightarrow> Q (f s)) \<Longrightarrow> completes I (gets f) Q"
  by (simp add: completes_def)

lemma completes_attempt:
  "completes I m (\<lambda>_. True) \<Longrightarrow> completes I (attempt m) (\<lambda>r. \<exists>a. r = Inr a)"
  unfolding completes_def attempt_def by fastforce

lemma completes_weaken: "completes I m R \<Longrightarrow> (\<And>a. R a \<Longrightarrow> Q a) \<Longrightarrow> completes I m Q"
  unfolding completes_def by blast

lemma completes_for_each: "(\<And>x. x \<in> set xs \<Longrightarrow> completes I (f x) (\<lambda>_. True)) \<Longrightarrow> completes I (for_each f xs) (\<lambda>_. True)"
  by (induction xs) (simp_all add: completes_ret completes_seq)

lemma completes_fold:
  "(\<And>x b. x \<in> set xs \<Longrightarrow> Q b \<Longrightarrow> completes I (f x b) Q) \<Longrightarrow> Q b \<Longrightarrow> completes I (fold_eff f xs b) Q"
  by (induction xs arbitrary: b) (auto intro!: completes_ret completes_bnd)

lemma completes_call:
  "completes I m (\<lambda>r. \<exists>v. r = Inr v) \<Longrightarrow> (\<And>v. completes I (g v) Q) \<Longrightarrow>
   completes I (bnd m (case_sum f g)) Q"
  by (erule completes_bnd) auto

lemma completes_unit: "completes I m (\<lambda>_. True) \<Longrightarrow> (\<And>a. completes I (f a) Q) \<Longrightarrow> completes I (bnd m f) Q"
  by (rule completes_bnd)

lemma completes_try:
  "completes I m (\<lambda>_. True) \<Longrightarrow> (\<And>v. completes I (g v) Q) \<Longrightarrow> completes I (bnd (attempt m) (case_sum f g)) Q"
  unfolding completes_def bnd_def attempt_def by fastforce

lemma completes_ignore:
  "completes I m (\<lambda>_. True) \<Longrightarrow> (\<And>r. completes I (g r) Q) \<Longrightarrow> completes I (bnd (attempt m) g) Q"
  unfolding completes_def bnd_def attempt_def by fastforce

lemma completes_if: "(b \<Longrightarrow> completes I m Q) \<Longrightarrow> (\<not> b \<Longrightarrow> completes I n Q) \<Longrightarrow> completes I (if b then m else n) Q"
  by simp

lemma completes_Let: "completes I (f a) Q \<Longrightarrow> completes I (Let a f) Q"
  by simp

lemma completes_option:
  "(v = None \<Longrightarrow> completes I m Q) \<Longrightarrow> (\<And>a. v = Some a \<Longrightarrow> completes I (g a) Q) \<Longrightarrow>
   completes I (case v of None \<Rightarrow> m | Some a \<Rightarrow> g a) Q"
  by (cases v) auto

lemma completes_prod: "(\<And>a b. p = (a, b) \<Longrightarrow> completes I (f a b) Q) \<Longrightarrow> completes I (case p of (a, b) \<Rightarrow> f a b) Q"
  by (cases p) auto

lemma bnd_ret [simp]: "bnd (ret a) f = f a"
  by (rule ext) (simp add: bnd_def)

lemma completes_True: "completes I m Q \<Longrightarrow> completes I m (\<lambda>_. True)"
  by (erule completes_weaken) simp

section \<open>Environments in which every call succeeds\<close>

definition steady_clock :: "env \<Rightarrow> bool" where
  "steady_clock en \<longleftrightarrow> (\<forall>h cs. en_clock en h \<le> en_clock en (h @ cs)) \<and> (\<forall>h. unat (en_clock en h) < 2 ^ 63)
     \<and> (\<forall>t ms. en_duration en t = Inr ms \<longrightarrow> ms < 2 ^ 62)"

definition writes_succeed :: "env \<Rightarrow> bool" where
  "writes_succeed en \<longleftrightarrow> (\<forall>h p. \<exists>v. en_run en h p = Inr v)
     \<and> (\<forall>h i e d. \<exists>x. en_get_deployment en h i e d = Inr x) \<and> (\<forall>h i e. \<exists>x. en_get_dependents en h i e = Inr x)"

text \<open>The state of the bookkeeping: what \<open>send_event\<close> and \<open>send_deployment\<close> serialise is in range.\<close>

definition in_range :: "env \<Rightarrow> job \<Rightarrow> bool" where
  "in_range en s \<longleftrightarrow> sh_last_event_epoch (j_handler s) \<le> en_clock en (w_calls s)
     \<and> unat (sh_event_duration (j_handler s)) < 2 ^ 64
     \<and> i128_json (sh_next_drift_check_epoch (j_handler s)) \<noteq> None"

lemma in_range_cong:
  "in_range en s \<Longrightarrow> w_calls s' = w_calls s @ cs \<Longrightarrow> steady_clock en \<Longrightarrow>
   sh_last_event_epoch (j_handler s') = sh_last_event_epoch (j_handler s) \<Longrightarrow>
   sh_event_duration (j_handler s') = sh_event_duration (j_handler s) \<Longrightarrow>
   sh_next_drift_check_epoch (j_handler s') = sh_next_drift_check_epoch (j_handler s) \<Longrightarrow> in_range en s'"
  unfolding in_range_def steady_clock_def by (metis order_trans)

lemma in_range_snoc:
  assumes "steady_clock en" "in_range en s"
  shows "in_range en (w_calls_update (\<lambda>cs. cs @ [c]) s)"
  by (rule in_range_cong [where s = s and cs = "[c]", OF assms(2) _ assms(1)]) simp_all

lemma completes_ask:
  assumes "steady_clock en" "\<And>h. Q (f h)"
  shows "completes (in_range en) (ask c f) Q"
  unfolding completes_def ask_run
  by (simp add: assms in_range_snoc)

lemma completes_upd:
  assumes "\<And>h. sh_last_event_epoch (f h) = sh_last_event_epoch h" "\<And>h. sh_event_duration (f h) = sh_event_duration h"
    "\<And>h. sh_next_drift_check_epoch (f h) = sh_next_drift_check_epoch h"
  shows "completes (in_range en) (upd f) (\<lambda>_. True)"
  unfolding upd_def by (rule completes_modify) (simp add: in_range_def assms)

lemma completes_setters [completes_rules]:
  "completes (in_range en) (set_status st) (\<lambda>_. True)" "completes (in_range en) (set_command cmd) (\<lambda>_. True)"
  "completes (in_range en) (set_output out) (\<lambda>_. True)" "completes (in_range en) (set_error_text txt) (\<lambda>_. True)"
  "completes (in_range en) (set_job_id jid) (\<lambda>_. True)" "completes (in_range en) (set_deleted del) (\<lambda>_. True)"
  "completes (in_range en) (set_policy_results results) (\<lambda>_. True)"
  "completes (in_range en) (set_drift_has_occurred drift) (\<lambda>_. True)"
  "completes (in_range en) set_is_drift_check (\<lambda>_. True)"
  "completes (in_range en) (set_resources resources) (\<lambda>_. True)"
  "completes (in_range en) (set_variables vars) (\<lambda>_. True)"
  by (simp_all add: set_status_def set_command_def set_output_def set_error_text_def set_job_id_def
      set_deleted_def set_policy_results_def set_drift_has_occurred_def set_is_drift_check_def
      set_resources_def set_variables_def completes_upd)

lemma completes_epoch:
  "steady_clock en \<Longrightarrow> completes (in_range en) (get_epoch en) (\<lambda>e. unat e < 2 ^ 63)"
  unfolding get_epoch_def by (rule completes_ask) (auto simp: steady_clock_def)

lemma word_diff_small: "(a :: 128 word) \<le> b \<Longrightarrow> unat b < 2 ^ 63 \<Longrightarrow> unat (b - a) < 2 ^ 64"
  by (simp add: unat_sub)

lemma completes_durations [completes_rules]:
  assumes "steady_clock en"
  shows "completes (in_range en) (set_event_duration en) (\<lambda>_. True)"
    and "completes (in_range en) (set_last_event_epoch en) (\<lambda>_. True)"
proof -
  have c: "en_clock en h \<le> en_clock en (h @ [Clock])" "unat (en_clock en h) < 2 ^ 63" for h
    using assms by (auto simp: steady_clock_def)
  show "completes (in_range en) (set_event_duration en) (\<lambda>_. True)"
    unfolding completes_def set_event_duration_def get_epoch_def upd_def bnd_def in_range_def
    using c by (auto intro: order_trans word_diff_small [simplified])
  show "completes (in_range en) (set_last_event_epoch en) (\<lambda>_. True)"
    unfolding completes_def set_last_event_epoch_def get_epoch_def upd_def bnd_def in_range_def
    using c by auto
qed

section \<open>Reporting\<close>

lemma completes_ask_result:
  "steady_clock en \<Longrightarrow> (\<And>h. \<exists>v. f h = Inr v) \<Longrightarrow> completes (in_range en) (ask c f) (\<lambda>r. \<exists>v. r = Inr v)"
  by (rule completes_ask)

lemma completes_run_function:
  "steady_clock en \<Longrightarrow> writes_succeed en \<Longrightarrow> completes (in_range en) (run_function en p) (\<lambda>r. \<exists>v. r = Inr v)"
  unfolding run_function_def by (rule completes_ask_result) (auto simp: writes_succeed_def)

lemmas completes_intros = completes_seq completes_ret completes_if completes_Let completes_option completes_prod
  completes_block completes_setters completes_try completes_ignore completes_call TrueI

lemma completes_set_deployment:
  assumes "steady_clock en" "writes_succeed en" "\<And>p. get_payload d p \<noteq> None"
  shows "completes (in_range en) (set_deployment en d plan) (\<lambda>_. True)"
proof -
  have g: "\<exists>x. get_payload d p = Some x" for p using assms(3) [of p] by auto
  obtain x y where x: "get_payload d plan = Some x" and y: "get_payload d False = Some y" using g by blast
  have w: "\<And>h i e d. \<exists>v. en_get_deployment en h i e d = Inr v"
    "\<And>h i e. \<exists>v. en_get_dependents en h i e = Inr v"
    using assms(2) by (simp_all add: writes_succeed_def)
  have l: "completes (in_range en) (bnd (ask c r') (\<lambda>r. bnd (of_result r) (\<lambda>dependents. ret (f dependents)))) (\<lambda>_. True)"
    if "\<And>h. \<exists>v. r' h = Inr v" for r' c and f :: "dependent list \<Rightarrow> json list"
    by (rule completes_bnd [OF completes_ask_result [OF assms(1) that]], elim exE)
      (simp only: of_result_run bnd_ret completes_ret)
  show ?thesis
    unfolding set_deployment_def x y unwrap_opt_run bnd_ret
    by (intro completes_call completes_ask_result [OF assms(1) w(1)] completes_Let
        completes_unit [OF completes_if [where Q = "\<lambda>_. True"]] l
        completes_run_function [OF assms(1,2)] completes_if completes_ret w TrueI)
qed

lemma small_json:
  "unat w < 2 ^ 64 \<Longrightarrow> u128_json w \<noteq> None" "unat w < 2 ^ 63 \<Longrightarrow> u128_json w \<noteq> None"
  by (simp_all add: u128_json_def)

lemma completes_epoch_result: "steady_clock en \<Longrightarrow> completes (in_range en) (get_epoch en) (\<lambda>e. u128_json e \<noteq> None)"
  by (rule completes_weaken [OF completes_epoch]) (simp_all add: small_json)

lemma completes_insert_event:
  assumes "steady_clock en" "writes_succeed en" "event_json e \<noteq> None"
  shows "completes (in_range en) (insert_event en e) (\<lambda>_. True)"
proof -
  obtain j where j: "event_json e = Some j" using assms(3) by blast
  show ?thesis
    unfolding insert_event_def j unwrap_opt_run bnd_ret
    by (intro completes_Let completes_unit [OF completes_True [OF completes_epoch [OF assms(1)]]] completes_call
        completes_run_function [OF assms(1,2)] completes_ret TrueI)
qed

lemma completes_send_event:
  assumes "steady_clock en" "writes_succeed en"
  shows "completes (in_range en) (send_event en) (\<lambda>_. True)"
  unfolding send_event_def
  apply (rule completes_bnd [OF completes_epoch_result [OF assms(1)]])
  apply (rule completes_bnd [OF completes_gets [where Q = "\<lambda>h. u128_json (sh_event_duration h) \<noteq> None
           \<and> i128_json (sh_next_drift_check_epoch h) \<noteq> None"]])
   apply (simp add: in_range_def small_json)
  apply (rule completes_unit [OF completes_ask [OF assms(1)]], rule TrueI)
  apply (rule completes_ignore)
   apply (rule completes_insert_event [OF assms])
   apply (auto simp: event_json_def)[1]
  apply (rule completes_ret, rule TrueI)
  done

lemma sint_small: "uint (w :: 128 word) < 2 ^ 65 \<Longrightarrow> sint w = uint w"
proof -
  assume a: "uint w < 2 ^ 65"
  have "- (2 ^ 127) \<le> uint w" by (rule order_trans [OF _ uint_ge_0]) simp
  moreover have "uint w < 2 ^ 127" using a by simp
  ultimately show ?thesis
    by (simp only: sint_uint signed_take_bit_int_eq_self_iff) simp
qed

lemma uint_small: "unat (w :: 128 word) < 2 ^ 63 \<Longrightarrow> uint w < 2 ^ 63"
proof -
  assume "unat w < 2 ^ 63"
  then have "int (unat w) < int (2 ^ 63)" by (simp only: of_nat_less_iff)
  then show ?thesis by simp
qed

lemma next_check_json:
  assumes "unat (epoch :: 128 word) < 2 ^ 63" "ms < 2 ^ 62"
  shows "i128_json (epoch + of_nat ms) \<noteq> None"
proof -
  have e: "uint epoch < 2 ^ 63" by (rule uint_small [OF assms(1)])
  have m: "int ms < 2 ^ 62" using assms(2) by simp
  have s: "0 \<le> uint epoch + int ms" "uint epoch + int ms < 2 ^ 64" using e m by simp_all
  have "uint (epoch + of_nat ms) = (uint epoch + int ms) mod 2 ^ 128"
    using assms(2) by (simp add: uint_word_ariths uint_word_of_int_eq take_bit_eq_mod mod_simps unsigned_of_nat)
  also have "\<dots> = uint epoch + int ms"
    using s by (intro mod_pos_pos_trivial) simp_all
  finally have u: "uint (epoch + of_nat ms) = uint epoch + int ms" .
  then have "sint (epoch + of_nat ms) = uint epoch + int ms"
    using s(2) by (subst sint_small) simp_all
  with s show ?thesis by (simp add: i128_json_def)
qed

lemma completes_next_check:
  assumes "steady_clock en"
  shows "completes (in_range en) (get_next_drift_check_epoch en h) (\<lambda>v. i128_json v \<noteq> None)"
proof -
  have m: "i128_json (- 1) \<noteq> None" by (simp add: i128_json_def)
  have s: "\<not> sint epoch < 0" if "unat epoch < 2 ^ 63" for epoch :: "128 word"
  proof -
    have "sint epoch = uint epoch"
      using uint_small [OF that] by (intro sint_small) simp
    then show ?thesis by simp
  qed
  show ?thesis
    unfolding get_next_drift_check_epoch_def
  proof (intro completes_if completes_ret m)
    show "completes (in_range en) (case_sum (\<lambda>_. ret (- 1)) (\<lambda>millis. bnd (get_epoch en) (\<lambda>epoch.
        if sint epoch < 0 then panic ''out of range integral type conversion attempted''
        else ret (epoch + of_nat millis))) (en_duration en (dd_interval (sh_drift_detection h)))) (\<lambda>v. i128_json v \<noteq> None)"
    proof (cases "en_duration en (dd_interval (sh_drift_detection h))")
      case (Inl e)
      show ?thesis unfolding Inl sum.case by (rule completes_ret) (rule m)
    next
      case (Inr ms)
      then have "ms < 2 ^ 62" using assms by (auto simp: steady_clock_def)
      then show ?thesis unfolding Inr sum.case
        by (intro completes_bnd [OF completes_epoch [OF assms]] completes_if completes_ret next_check_json)
          (use s in blast)+
    qed
  qed
qed

lemma completes_send_deployment:
  assumes "steady_clock en" "writes_succeed en"
  shows "completes (in_range en) (send_deployment en) (\<lambda>_. True)"
  unfolding send_deployment_def
  apply (rule completes_bnd [OF completes_epoch_result [OF assms(1)]])
  apply (rule completes_unit [OF completes_gets], rule TrueI)
  apply (rule completes_bnd [OF completes_next_check [OF assms(1)]])
  apply (intro completes_Let completes_try completes_if completes_ret TrueI completes_set_deployment [OF assms])
   apply (auto simp: get_payload_def deployment_json_def deployment_of_def)
  done

lemmas reporting = completes_send_event completes_send_deployment completes_durations

section \<open>The steps\<close>

text \<open>Every call of the run succeeds, for the payload of the run.\<close>

definition cloud_answers :: "env \<Rightarrow> api_infra_payload \<Rightarrow> bool" where
  "cloud_answers en payload \<longleftrightarrow>
     (\<exists>d. (\<forall>h. en_get_current_job_id en h = Inr (dr_job_id d))
        \<and> (\<forall>h. en_get_deployment en h (pl_deployment_id payload) (pl_environment payload) False = Inr (Some d))
        \<and> (\<forall>h. en_get_plan_deployment en h (pl_deployment_id payload) (pl_environment payload) (dr_job_id d) = Inr (Some d)))
     \<and> (\<forall>dep \<in> set (pl_dependencies payload). \<forall>h. \<exists>d. dr_status d = Successful
          \<and> en_get_deployment en h (dep_deployment_id dep) (dep_environment dep) False = Inr (Some d))
     \<and> (\<forall>h. \<exists>d. en_get_deployment_and_dependents en h (pl_deployment_id payload) (pl_environment payload) False = Inr (d, []))
     \<and> (\<exists>m. \<not> mr_deprecated m \<and> (\<forall>h. en_get_module_version en h (pl_module payload) (pl_module_track payload)
           (pl_module_version payload) = Inr (Some m)))"

definition downloads_succeed :: "env \<Rightarrow> bool" where
  "downloads_succeed en \<longleftrightarrow> en_env_var en ''OCI_ARTIFACT_MODE'' = None
     \<and> (\<forall>h. \<exists>ps. en_get_all_policies en h ''stable'' = Inr ps)
     \<and> (\<forall>h k b. \<exists>u. en_presigned_url en h k b = Inr u) \<and> (\<forall>h k. \<exists>u. en_policy_url en h k = Inr u)
     \<and> (\<forall>h u p. \<exists>x. en_download en h u p = Inr x) \<and> (\<forall>h p d. \<exists>x. en_unzip en h p d = Inr x)"

definition commands_succeed :: "env \<Rightarrow> bool" where
  "commands_succeed en \<longleftrightarrow>
     (\<forall>h args i vars. \<exists>out. en_terraform en h args i vars = Inr out \<and> co_exit_status out = None)
     \<and> (\<forall>h args p. \<exists>out text r v. en_opa en h args p = Inr out \<and> run_generic_command 500 out = Inr text
          \<and> en_parse en text = Inr r \<and> opa_verdict r = Some (False, v))
     \<and> (\<forall>t. \<exists>v. en_parse en t = Inr v
          \<and> (case jget v ''resource_drift'' of None \<Rightarrow> True | Some x \<Rightarrow> as_array x \<noteq> None))
     \<and> (\<forall>h p c. en_write_file en h p c) \<and> (\<forall>h p. en_remove_file en h p)"

definition smooth :: "env \<Rightarrow> api_infra_payload \<Rightarrow> bool" where
  "smooth en payload \<longleftrightarrow> steady_clock en \<and> writes_succeed en \<and> cloud_answers en payload \<and> downloads_succeed en
     \<and> commands_succeed en \<and> i128_json (pl_next_drift_check_epoch payload) \<noteq> None"

lemma smoothD:
  "smooth en payload \<Longrightarrow> steady_clock en" "smooth en payload \<Longrightarrow> writes_succeed en"
  "smooth en payload \<Longrightarrow> cloud_answers en payload" "smooth en payload \<Longrightarrow> downloads_succeed en"
  "smooth en payload \<Longrightarrow> commands_succeed en"
  by (simp_all add: smooth_def)

lemma completes_write_file:
  assumes "steady_clock en" "commands_succeed en"
  shows "completes (in_range en) (write_file en path content message) (\<lambda>_. True)"
  unfolding write_file_def
  by (rule completes_bnd [OF completes_ask [OF assms(1)], where R = "\<lambda>ok. ok"], use assms(2) in \<open>simp add: commands_succeed_def\<close>)
    (simp only: if_True completes_ret)

lemma completes_terraform:
  assumes "steady_clock en" "commands_succeed en"
  shows "completes (in_range en) (run_terraform_command en command ro lk de aa ni js po pi init ml vars) (\<lambda>r. \<exists>v. r = Inr v)"
proof -
  have e: "\<exists>v. res_bind (en_terraform en h args init vs) (run_generic_command ml) = Inr v" for h args vs
  proof -
    obtain out where "en_terraform en h args init vs = Inr out" "co_exit_status out = None"
      using assms(2) unfolding commands_succeed_def by blast
    then show ?thesis by (simp add: run_generic_command_def Let_def)
  qed
  show ?thesis
    unfolding run_terraform_command_def Let_def
    by (rule completes_bnd [OF completes_ask [OF assms(1)], where R = "\<lambda>r. \<exists>v. res_bind r (run_generic_command ml) = Inr v"])
      (intro e completes_ret | assumption)+
qed

lemma completes_upload:
  assumes "steady_clock en" "writes_succeed en"
  shows "completes (in_range en) (upload_file_to_change_records en key content) (\<lambda>_. True)"
  unfolding upload_file_to_change_records_def
  by (intro completes_call completes_run_function assms completes_ret TrueI)

lemma completes_record:
  assumes "steady_clock en" "writes_succeed en" "unat (ic_epoch r) < 2 ^ 63"
  shows "completes (in_range en) (insert_infra_change_record en r) (\<lambda>_. True)"
proof -
  obtain j where j: "infra_change_record_json r = Some j"
    using small_json(2) [OF assms(3)] by (auto simp: infra_change_record_json_def)
  show ?thesis
    unfolding insert_infra_change_record_def j unwrap_opt_run bnd_ret
    by (intro completes_Let completes_call completes_run_function assms(1,2) completes_ret TrueI)
qed

lemma completes_gets_any: "completes I (gets f) (\<lambda>_. True)"
  by (rule completes_gets) simp

lemma completes_ask_any: "steady_clock en \<Longrightarrow> completes (in_range en) (ask c f) (\<lambda>_. True)"
  by (rule completes_ask) simp_all

lemma completes_const_case: "completes I (case r of Inl e \<Rightarrow> ret (f e) | Inr v \<Rightarrow> ret (g v)) (\<lambda>_. True)"
  by (cases r) (simp_all only: sum.case completes_ret)

lemmas plain_intros = completes_seq completes_if completes_Let completes_prod completes_block completes_setters
  completes_ret TrueI completes_ignore completes_call

lemma completes_check_drift:
  assumes "steady_clock en" "case jget content ''resource_drift'' of None \<Rightarrow> True | Some x \<Rightarrow> as_array x \<noteq> None"
  shows "completes (in_range en) (check_drift en payload content) (\<lambda>_. True)"
proof -
  obtain xs where xs: "as_array (case jget content ''resource_drift'' of None \<Rightarrow> JArray [] | Some v \<Rightarrow> v) = Some xs"
    using assms(2) by (cases "jget content ''resource_drift''") auto
  have n: "completes (in_range en) (notify_drift en payload w) (\<lambda>_. True)" for w
    unfolding notify_drift_def post_webhook_def Let_def
    by (intro completes_option completes_unit [OF completes_ask_any [OF assms(1)]] completes_ret TrueI)
  show ?thesis
    unfolding check_drift_def xs unwrap_opt_run bnd_ret
    by (intro plain_intros completes_for_each n)
qed

lemma completes_terraform_steps:
  assumes "steady_clock en" "writes_succeed en" "commands_succeed en"
  shows "completes (in_range en) (terraform_init en payload) (\<lambda>_. True)"
    and "completes (in_range en) (terraform_validate en payload) (\<lambda>_. True)"
    and "completes (in_range en) (terraform_graph en payload job) (\<lambda>_. True)"
    and "completes (in_range en) (terraform_plan en payload) (\<lambda>_. True)"
    and "completes (in_range en) (terraform_apply_destroy en payload) (\<lambda>_. True)"
    and "completes (in_range en) (terraform_state_list en) (\<lambda>_. True)"
proof -
  note tf = completes_terraform [OF assms(1,3)] and wf = completes_write_file [OF assms(1,3)]
    and up = completes_upload [OF assms(1,2)]
  show "completes (in_range en) (terraform_init en payload) (\<lambda>_. True)"
    unfolding terraform_init_def by (intro plain_intros tf)
  show "completes (in_range en) (terraform_validate en payload) (\<lambda>_. True)"
    unfolding terraform_validate_def by (intro plain_intros tf)
  show "completes (in_range en) (terraform_graph en payload job) (\<lambda>_. True)"
    unfolding terraform_graph_def by (intro plain_intros tf wf up)
  show "completes (in_range en) (terraform_plan en payload) (\<lambda>_. True)"
    unfolding terraform_plan_def by (intro plain_intros tf)
  show "completes (in_range en) (terraform_apply_destroy en payload) (\<lambda>_. True)"
    unfolding terraform_apply_destroy_def by (intro plain_intros tf)
  show "completes (in_range en) (terraform_state_list en) (\<lambda>_. True)"
    unfolding terraform_state_list_def Let_def
    by (intro completes_unit [OF completes_ask_any [OF assms(1)]] completes_const_case)
qed

lemma completes_parse:
  "commands_succeed en \<Longrightarrow> (\<And>v. (case jget v ''resource_drift'' of None \<Rightarrow> True | Some x \<Rightarrow> as_array x \<noteq> None) \<Longrightarrow>
     completes I (f v) Q) \<Longrightarrow> completes I (bnd (unwrap_res (en_parse en t)) f) Q"
proof -
  assume a: "commands_succeed en"
    and f: "\<And>v. (case jget v ''resource_drift'' of None \<Rightarrow> True | Some x \<Rightarrow> as_array x \<noteq> None) \<Longrightarrow> completes I (f v) Q"
  obtain v where v: "en_parse en t = Inr v" and d: "case jget v ''resource_drift'' of None \<Rightarrow> True | Some x \<Rightarrow> as_array x \<noteq> None"
    using a unfolding commands_succeed_def by blast
  show ?thesis unfolding v unwrap_res_run bnd_ret by (rule f [OF d])
qed

lemma completes_show:
  assumes "steady_clock en" "writes_succeed en" "commands_succeed en"
  shows "completes (in_range en) (terraform_show en payload job module out use_planfile) (\<lambda>_. True)"
proof -
  have r: "completes (in_range en) (bnd (get_epoch en) (\<lambda>epoch.
                          bnd (ask Timestamp (en_timestamp en)) (\<lambda>timestamp.
                          bnd (gets (\<lambda>s. sh_variables (j_handler s))) (\<lambda>variables.
                          bnd (attempt (insert_infra_change_record en
                                 (change_record payload job module epoch timestamp out key ct rcs variables)))
                              (\<lambda>_. ret ()))))) (\<lambda>_. True)" for key ct rcs
    by (intro completes_bnd [OF completes_epoch [OF assms(1)]] completes_unit [OF completes_ask_any [OF assms(1)]]
        completes_unit [OF completes_gets_any] completes_ignore completes_record assms completes_ret TrueI)
      (simp add: change_record_def)
  show ?thesis
    unfolding terraform_show_def
    by (intro plain_intros completes_terraform completes_write_file completes_upload completes_parse
        completes_check_drift r assms) assumption+
qed

lemma completes_output:
  assumes "steady_clock en" "writes_succeed en" "commands_succeed en"
  shows "completes (in_range en) (terraform_output en payload) (\<lambda>_. True)"
proof -
  have p: "\<exists>v. en_parse en t = Inr v" for t
    using assms(3) unfolding commands_succeed_def by blast
  have c: "completes (in_range en) (case en_parse en t of Inl e \<Rightarrow> f e
      | Inr json \<Rightarrow> block [set_status Successful, set_output (sanitize_terraform_output json), send_deployment en]) (\<lambda>_. True)" for t f
  proof -
    obtain v where v: "en_parse en t = Inr v" using p by blast
    show ?thesis unfolding v sum.case
      by (intro completes_block completes_setters completes_send_deployment assms)
  qed
  show ?thesis
    unfolding terraform_output_def by (intro completes_call completes_terraform assms c)
qed

lemma completes_record_changes:
  assumes "steady_clock en" "writes_succeed en"
  shows "completes (in_range en) (record_apply_destroy_changes en payload job module out) (\<lambda>_. True)"
proof -
  have r: "completes (in_range en) (bnd (attempt (upload_file_to_change_records en k c)) (\<lambda>_.
        bnd (get_epoch en) (\<lambda>epoch.
        bnd (ask Timestamp (en_timestamp en)) (\<lambda>timestamp.
        bnd (gets (\<lambda>s. sh_variables (j_handler s))) (\<lambda>variables.
        bnd (attempt (insert_infra_change_record en
               (change_record payload job module epoch timestamp out k (pl_command payload) rcs variables))) (\<lambda>r.
        case r of
          Inl _ \<Rightarrow> fail ''Failed to insert infra change record after apply/destroy''
        | Inr _ \<Rightarrow> ret ())))))) (\<lambda>_. True)" for k c rcs
    by (intro completes_ignore completes_upload completes_bnd [OF completes_epoch [OF assms(1)]]
        completes_unit [OF completes_ask_any [OF assms(1)]]
        completes_unit [OF completes_gets_any] completes_try completes_record assms completes_ret TrueI)
      (simp add: change_record_def)
  show ?thesis
    unfolding record_apply_destroy_changes_def
    by (intro completes_unit [OF completes_ask_any [OF assms(1)]] completes_Let completes_prod r)
qed

lemma completes_policies:
  assumes "steady_clock en" "writes_succeed en" "downloads_succeed en" "commands_succeed en"
  shows "completes (in_range en) (run_opa_policy_checks en) (\<lambda>_. True)"
proof -
  have d: "completes (in_range en) (download_policy en policy) (\<lambda>_. True)" for policy
    unfolding download_policy_def
    by (intro completes_call completes_ask_result assms completes_ret TrueI)
      (use assms(3) in \<open>simp_all add: downloads_succeed_def\<close>)
  have rm: "completes (in_range en) (bnd (ask (Remove_File f) (\<lambda>h. en_remove_file en h f)) (\<lambda>ok.
                 if ok then ret () else panic ''called `Result::unwrap()` on an `Err` value'')) (\<lambda>_. True)" for f
    by (rule completes_bnd [OF completes_ask [OF assms(1)], where R = "\<lambda>ok. ok"], use assms(4) in \<open>simp add: commands_succeed_def\<close>)
      (simp only: if_True completes_ret)
  have opa: "completes (in_range en) (run_opa_command en 500 policy files)
      (\<lambda>r. \<exists>text v opa_result. r = Inr text \<and> en_parse en text = Inr opa_result \<and> opa_verdict opa_result = Some (False, v))"
    (is "completes _ _ ?ok") for policy files
  proof -
    have e: "?ok (res_bind (en_opa en h args policy) (run_generic_command 500))" for h args
    proof -
      obtain o1 stdout r v where "en_opa en h args policy = Inr o1" "run_generic_command 500 o1 = Inr stdout"
          "en_parse en stdout = Inr r" "opa_verdict r = Some (False, v)"
        using assms(4) unfolding commands_succeed_def by blast
      then show ?thesis by simp
    qed
    show ?thesis
      unfolding run_opa_command_def Let_def
      by (rule completes_bnd [OF completes_ask [OF assms(1)], where R = "\<lambda>r. ?ok (res_bind r (run_generic_command 500))"])
        (intro e completes_ret | assumption)+
  qed
  have verdict: "completes (in_range en) (case r of
                 Inr stdout \<Rightarrow>
                   (case en_parse en stdout of
                      Inl e \<Rightarrow> panic (''Could not parse the opa output json from stdout: '' @ e)
                    | Inr opa_result \<Rightarrow>
                        bnd (unwrap_opt ''called `Option::unwrap()` on a `None` value'' (opa_verdict opa_result))
                          (\<lambda>(failed, violations).
                           ret (policy_results @ [policy_result_of policy failed violations],
                                False \<or> failed)))
               | Inl e \<Rightarrow> seq (report en FailedPolicy e) (seq (set_error_text []) exit_process)) (\<lambda>acc. \<not> snd acc)"
    if "\<exists>text v opa_result. r = Inr text \<and> en_parse en text = Inr opa_result \<and> opa_verdict opa_result = Some (False, v)"
    for r policy policy_results
  proof -
    from that obtain stdout v opa_result where r: "r = Inr stdout" "en_parse en stdout = Inr opa_result" "opa_verdict opa_result = Some (False, v)"
      by blast
    show ?thesis unfolding r sum.case unwrap_opt_run bnd_ret split by (rule completes_ret) simp
  qed
  have check: "completes (in_range en) (check_policy en policy acc) (\<lambda>acc. \<not> snd acc)" if "\<not> snd acc" for policy acc
  proof -
    have acc: "acc = (fst acc, False)" using that by (cases acc) simp
    show ?thesis
      apply (subst acc)
      unfolding check_policy_def Let_def split
      apply (intro completes_seq d completes_write_file assms completes_unit [OF completes_ask_any [OF assms(1)]])
      apply (rule completes_bnd [OF opa])
      apply (rule completes_bnd [OF verdict], assumption)
      apply (intro completes_seq completes_for_each rm completes_ret)
      apply assumption
      done
  qed
  show ?thesis
    unfolding run_opa_policy_checks_def store_env_as_json_def Let_def
    apply (intro completes_seq completes_write_file assms)
    apply (rule completes_bnd [OF completes_ask_result [OF assms(1)]])
    using assms(3) apply (simp add: downloads_succeed_def)
    apply (elim exE)
    apply (simp only: unwrap_res_run bnd_ret)
    apply (rule completes_bnd [OF completes_fold [where Q = "\<lambda>acc. \<not> snd acc"]], erule check, simp)
    apply (clarsimp simp del: ret_run)
    apply (intro completes_seq completes_setters completes_ret TrueI)
    done
qed

lemma completes_module:
  assumes "steady_clock en" "cloud_answers en payload" "downloads_succeed en"
  shows "completes (in_range en) (get_module en payload) (\<lambda>_. True)"
    and "completes (in_range en) (download_module en module) (\<lambda>_. True)"
proof -
  obtain m where m: "\<not> mr_deprecated m" "\<And>h. en_get_module_version en h (pl_module payload) (pl_module_track payload)
           (pl_module_version payload) = Inr (Some m)"
    using assms(2) unfolding cloud_answers_def by blast
  have c: "completes (in_range en) (check_module_deprecation en m st mo ve de ev) (\<lambda>_. True)" for st mo ve de ev
    using m(1) by (simp add: check_module_deprecation_def completes_ret del: ret_run)
  show "completes (in_range en) (get_module en payload) (\<lambda>_. True)"
    unfolding get_module_def Let_def m(2)
    apply (rule completes_bnd [OF completes_ask [OF assms(1), where Q = "\<lambda>r. r = Inr (Some m)"]], simp)
    apply (simp only: sum.case option.case)
    apply (rule completes_try [OF c], rule completes_ret, rule TrueI)
    done
  have p: "\<And>h k b. \<exists>u. en_presigned_url en h k b = Inr u" "\<And>h u p. \<exists>x. en_download en h u p = Inr x"
      "\<And>h p d. \<exists>x. en_unzip en h p d = Inr x"
    using assms(3) unfolding downloads_succeed_def by blast+
  have o: "completes (in_range en) (or_error mm) (\<lambda>_. True)"
    if "completes (in_range en) mm (\<lambda>_. True)" for mm :: "'z job_eff"
    unfolding or_error_def by (intro completes_try [OF that] completes_ret TrueI)
  have q: "completes (in_range en) (bnd (ask ca f) of_result) (\<lambda>_. True)"
    if "\<And>h. \<exists>x. f h = Inr x" for ca and f :: "call list \<Rightarrow> (string, unit) result"
    by (rule completes_bnd [OF completes_ask_result [OF assms(1) that]], elim exE)
      (simp only: of_result_run completes_ret)
  show "completes (in_range en) (download_module en module) (\<lambda>_. True)"
    using assms(3) unfolding downloads_succeed_def download_module_def
    apply (simp only: not_True_eq_False if_False simp_thms)
    unfolding download_module_zip_def get_modules_download_url_def download_def unzip_def
    by (intro completes_unit [OF o] o completes_seq completes_call completes_ask_result assms(1) p q completes_ret TrueI)
qed

lemma completes_checks:
  assumes "steady_clock en" "cloud_answers en payload"
  shows "completes (in_range en) (check_dependencies en payload) (\<lambda>_. True)"
    and "completes (in_range en) (check_dependants en payload) (\<lambda>_. True)"
proof -
  have s: "completes (in_range en) (check_dependency_status en dep) (\<lambda>_. True)" if "dep \<in> set (pl_dependencies payload)" for dep
  proof -
    have "\<exists>d. dr_status d = Successful
          \<and> en_get_deployment en h (dep_deployment_id dep) (dep_environment dep) False = Inr (Some d)" for h
      using assms(2) that unfolding cloud_answers_def by blast
    then show ?thesis
      unfolding check_dependency_status_def
      apply (intro completes_bnd [OF completes_ask [OF assms(1),
          where Q = "\<lambda>r. \<exists>d. dr_status d = Successful \<and> r = Inr (Some d)"]])
       apply simp
      apply (elim exE conjE)
      apply (simp only: sum.case option.case simp_thms if_True completes_ret)
      done
  qed
  show "completes (in_range en) (check_dependencies en payload) (\<lambda>_. True)"
    unfolding check_dependencies_def
    apply (rule completes_bnd [OF completes_fold [where Q = "\<lambda>u. u = []"]])
      apply (rule completes_bnd [OF completes_attempt [OF s]], assumption)
      apply (elim exE)
      apply (simp only: sum.case completes_ret)
     apply simp
    apply (simp only: simp_thms if_False completes_ret)
    done
  have n: "\<exists>d. en_get_deployment_and_dependents en h (pl_deployment_id payload) (pl_environment payload) False = Inr (d, [])" for h
    using assms(2) unfolding cloud_answers_def by blast
  show "completes (in_range en) (check_dependants en payload) (\<lambda>_. True)"
    unfolding check_dependants_def
    apply (rule completes_bnd [OF completes_ask [OF assms(1), where Q = "\<lambda>r. \<exists>d. r = Inr (d, [])"]], rule n)
    apply (elim exE)
    apply (simp only: sum.case split simp_thms if_False completes_ret)
    done
qed

lemma completes_start:
  assumes "smooth en payload"
  shows "completes (in_range en) (start_flow en payload) (\<lambda>_. True)"
proof -
  note a = smoothD [OF assms]
  obtain d where job: "\<And>h. en_get_current_job_id en h = Inr (dr_job_id d)"
    and get: "\<And>h. en_get_deployment en h (pl_deployment_id payload) (pl_environment payload) False = Inr (Some d)"
    and plan: "\<And>h. en_get_plan_deployment en h (pl_deployment_id payload) (pl_environment payload) (dr_job_id d) = Inr (Some d)"
    using a(3) unfolding cloud_answers_def by blast
  have fetch: "completes (in_range en) (fetch_deployment_variables en payload) (\<lambda>r. snd r = dr_job_id d)"
    unfolding fetch_deployment_variables_def
    apply (rule completes_bnd [where R = "\<lambda>r. r = Inr (Some d)"])
     apply (intro completes_if)
      apply (rule completes_bnd [OF completes_ask [OF a(1), where Q = "\<lambda>r. r = Inr (dr_job_id d)"]], simp add: job)
      apply (simp only: sum.case)
      apply (rule completes_ask [OF a(1)], simp add: plan)
     apply (rule completes_ask [OF a(1)], simp add: get)
    apply (simp only: sum.case option.case)
    apply (rule completes_ret, simp)
    done
  have wr: "completes (in_range en) (bnd (ask (Write_File p c) (\<lambda>h. en_write_file en h p c)) (\<lambda>ok.
         if ok then ret () else exit_process)) (\<lambda>_. True)" for p c
    by (rule completes_bnd [OF completes_ask [OF a(1)], where R = "\<lambda>ok. ok"], use a(5) in \<open>simp add: commands_succeed_def\<close>)
      (simp only: if_True completes_ret)
  have current: "completes (in_range en) (get_current_job_id en) (\<lambda>j. j = dr_job_id d)"
    unfolding get_current_job_id_def
    apply (rule completes_bnd [OF completes_ask [OF a(1), where Q = "\<lambda>r. r = Inr (dr_job_id d)"]], simp add: job)
    apply (simp only: sum.case)
    apply (intro completes_seq completes_setters completes_ret refl)
    done
  have initial: "completes (in_range en) (get_initial_deployment en payload) (\<lambda>_. True)"
    unfolding get_initial_deployment_def
    by (intro completes_call completes_ask_result [OF a(1)] completes_ret TrueI) (simp add: get)
  show ?thesis
    unfolding start_flow_def store_tf_vars_json_def store_backend_file_def Let_def
    apply (rule completes_bnd [OF fetch])
    apply (simp only: split_beta)
    apply (intro completes_seq completes_setters wr completes_unit [OF initial] completes_option completes_block
        completes_ret TrueI)
     apply (rule completes_bnd [OF current])
     apply (intro completes_seq completes_if completes_setters completes_send_event completes_send_deployment a
        completes_ret TrueI)
     apply (simp add: ensure_valid_job_id_def completes_ret del: ret_run)
    done
qed

section \<open>Parts of the handler that an operation keeps\<close>

definition keeps :: "(status_handler \<Rightarrow> 'b) \<Rightarrow> 'a job_eff \<Rightarrow> bool" where
  "keeps g m \<longleftrightarrow> (\<forall>s. g (j_handler (snd (m s))) = g (j_handler s))"

named_theorems status_intros \<open>one rule per combinator and per operation\<close>

lemma keeps_simple [status_intros]:
  "keeps g (ret a)" "keeps g (fail e)" "keeps g (panic e)" "keeps g exit_process"
  "keeps g (gets f)" "keeps g (ask c f')" "keeps g (of_result r)" "keeps g (unwrap_opt e v)"
  "keeps g (unwrap_res r)"
  by (simp_all add: keeps_def of_result_def unwrap_opt_def unwrap_res_def split: sum.split option.split)

lemma keeps_bnd [status_intros]: "keeps g m \<Longrightarrow> (\<And>a. keeps g (f a)) \<Longrightarrow> keeps g (bnd m f)"
  unfolding keeps_def bnd_def by (auto split: prod.split outcome.split) (metis snd_conv)+

lemma keeps_seq [status_intros]: "keeps g m \<Longrightarrow> keeps g n \<Longrightarrow> keeps g (seq m n)"
  by (simp add: seq_def keeps_bnd)

lemma keeps_block [status_intros]:
  "keeps g (block [])" "keeps g m \<Longrightarrow> keeps g (block ms) \<Longrightarrow> keeps g (block (m # ms))"
  unfolding block.simps by (intro keeps_simple keeps_seq; assumption)+

lemma keeps_attempt [status_intros]: "keeps g m \<Longrightarrow> keeps g (attempt m)"
  unfolding keeps_def attempt_def by (auto split: prod.split outcome.split) (metis snd_conv)+

lemma keeps_cases [status_intros]:
  "(b \<Longrightarrow> keeps g m) \<Longrightarrow> (\<not> b \<Longrightarrow> keeps g n) \<Longrightarrow> keeps g (if b then m else n)"
  "(\<And>e. keeps g (f e)) \<Longrightarrow> (\<And>a. keeps g (f' a)) \<Longrightarrow> keeps g (case_sum f f' r)"
  "keeps g m \<Longrightarrow> (\<And>a. keeps g (k a)) \<Longrightarrow> keeps g (case_option m k v)"
  "keeps g (h x) \<Longrightarrow> keeps g (Let x h)"
  "(\<And>a b. keeps g (c a b)) \<Longrightarrow> keeps g (case_prod c p)"
  by (auto split: sum.split option.split prod.split)

lemma keeps_upd [status_intros]:
  "(\<And>h. g (f h) = g h) \<Longrightarrow> keeps g (upd f)"
  by (simp add: keeps_def upd_def)

lemma keeps_handler [status_intros]: "keeps g (send_event en)" "keeps g (send_deployment en)"
  unfolding send_event_def insert_event_def send_deployment_def
    set_deployment_def run_function_def get_epoch_def get_next_drift_check_epoch_def
  by (intro status_intros; simp)+

lemma keeps_reports [status_intros]:
  "keeps sh_status (set_event_duration en)" "keeps sh_status (set_last_event_epoch en)"
  "keeps sh_status (set_error_text txt)"
  unfolding set_event_duration_def set_last_event_epoch_def get_epoch_def set_error_text_def
  by (intro status_intros; simp)+

lemma keepsD: "keeps g m \<Longrightarrow> m s = (r, s') \<Longrightarrow> g (j_handler s') = g (j_handler s)"
  unfolding keeps_def by (metis snd_conv)

lemma terraform_flow_successful:
  assumes "terraform_flow en payload job s = (Ok u, s')"
  shows "sh_status (j_handler s') = Successful"
proof -
  let ?rest = "block [set_event_duration en, set_last_event_epoch en, send_event en, send_deployment en]"
  obtain s1 where "seq (set_status Successful) ?rest s1 = (Ok u, s')"
    using assms unfolding terraform_flow_def Let_def bnd_Ok split_beta seq_Ok block.simps(2) [of "set_status Successful"]
    by blast
  then obtain s2 where "set_status Successful s1 = (Ok (), s2)" and r: "?rest s2 = (Ok u, s')"
    unfolding seq_Ok by blast
  then have "sh_status (j_handler s2) = Successful"
    by (auto simp: set_status_def upd_def)
  moreover have "keeps sh_status ?rest"
    by (intro status_intros)
  ultimately show ?thesis using keepsD [where m = ?rest and s = s2 and g = sh_status, OF _ r] by simp
qed

text \<open>A command that changes infrastructure, for the payload's command.\<close>

definition command_started :: "string \<Rightarrow> call list \<Rightarrow> bool" where
  "command_started command h \<longleftrightarrow> (\<exists>args i vars. Terraform (command # args) i vars \<in> set h)"

lemma lasting_started: "lasting (command_started command)"
  unfolding lasting_def command_started_def by auto

lemma terraform_flow_started:
  assumes cmd: "pl_command payload = ''apply'' \<or> pl_command payload = ''destroy''"
    and run: "terraform_flow en payload job s = (Ok u, s')"
  shows "command_started (pl_command payload) (w_calls s')"
proof -
  let ?c = "pl_command payload"
  have a: "command_started ?c (w_calls s2)"
    if "attempt (terraform_apply_destroy en payload) s1 = (Ok r, s2)" for s1 r s2
  proof -
    from that obtain r' where t: "terraform_apply_destroy en payload s1 = (r', s2)"
      by (cases "terraform_apply_destroy en payload s1") (auto simp: attempt_def split: outcome.splits)
    obtain args where hd: "terraform_args ?c False False False True True False False False = ?c # args"
      by (simp add: terraform_args_def)
    let ?vars = "List.map (\<lambda>(k, v). (''TF_VAR_'' @ k, v)) (get_extra_environment_variables en payload)"
    let ?s = "w_calls_update (\<lambda>cs. cs @ [Terraform (?c # args) False ?vars]) (snd (set_command ?c s1))"
    let ?r = "res_bind (en_terraform en (w_calls s1) (?c # args) False ?vars) (run_generic_command 50)"
    let ?rest = "\<lambda>r. case r of
            Inr stdout \<Rightarrow> seq (if ?c = ''destroy'' then set_deleted True else ret ()) (ret stdout)
          | Inl e \<Rightarrow> seq (report en Error e)
                       (seq (set_error_text []) (fail (''Error running terraform '' @ ?c @ '': '' @ e)))"
    have step: "terraform_apply_destroy en payload s1 = ?rest ?r ?s"
      unfolding terraform_apply_destroy_def run_terraform_command_def Let_def hd seq_def [of "set_command ?c"] bnd_def
      by (simp add: set_command_def upd_def)
    have "grows (?rest ?r)"
      by (intro grow.step_intros)
    then have "\<exists>cs. w_calls s2 = w_calls ?s @ cs"
      by (rule extends_prefix [OF logsD]) (use t step in simp)
    then have "Terraform (?c # args) False ?vars \<in> set (w_calls s2)"
      by (auto simp del: list.map)
    then show ?thesis
      unfolding command_started_def by (intro exI)
  qed
  have m: "establishes (command_started ?c) (mutate_flow en payload job module out)" for module out
    unfolding mutate_flow_def Let_def
    apply (rule establishes_first [OF lasting_started])
     apply (unfold establishes_def, intro allI impI, erule a)
    apply (intro grow.step_intros grow.never_show grow.never_state_list grow.never_record grow.never_output)
    done
  have "establishes (command_started ?c) (terraform_flow en payload job)"
    unfolding terraform_flow_def Let_def simp_thms if_P [OF cmd]
    by (rule establishes_later, simp only: split_beta, rule establishes_seq(1) [OF lasting_started m])
      (intro grow.step_intros)
  with run show ?thesis unfolding establishes_def by blast
qed

lemma completes_flow:
  assumes "smooth en payload"
  shows "completes (in_range en) (terraform_flow en payload job) (\<lambda>_. True)"
proof -
  note a = smoothD [OF assms]
  note steps = completes_terraform_steps [OF a(1,2,5)] completes_show [OF a(1,2,5)] completes_output [OF a(1,2,5)]
    completes_policies [OF a(1,2,4,5)] completes_module [OF a(1,3,4)] completes_checks [OF a(1,3)]
    completes_record_changes [OF a(1,2)] completes_send_event [OF a(1,2)] completes_send_deployment [OF a(1,2)]
    completes_durations [OF a(1)] completes_ask_any [OF a(1)]
  have p: "completes (in_range en) (prepare_flow en payload job) (\<lambda>_. True)"
    unfolding prepare_flow_def Let_def
    by (intro completes_seq completes_if completes_unit steps completes_ret TrueI)
  have m: "completes (in_range en) (mutate_flow en payload job module out) (\<lambda>_. True)" for module out
    unfolding mutate_flow_def Let_def
    apply (rule completes_bnd [OF completes_attempt [OF steps(5)]])
    apply (elim exE)
    apply (simp only: sum.case)
    apply (intro completes_ignore completes_seq completes_if completes_unit completes_setters steps completes_ret TrueI)
    done
  show ?thesis
    unfolding terraform_flow_def Let_def
    by (rule completes_unit [OF p]) (intro completes_prod completes_seq completes_if completes_block completes_setters m steps
        completes_ret TrueI)
qed

lemma completesD: "completes I m Q \<Longrightarrow> I s \<Longrightarrow> \<exists>a s'. m s = (Ok a, s') \<and> I s' \<and> Q a"
  unfolding completes_def by blast

lemma initial_in_range: "smooth en payload \<Longrightarrow> in_range en (initial_job en payload)"
proof -
  assume s: "smooth en payload"
  have "en_clock en [] \<le> en_clock en ([] @ [Clock])"
    using smoothD(1) [OF s] unfolding steady_clock_def by blast
  then show ?thesis
    using s by (simp add: in_range_def initial_job_def initiate_deployment_status_handler_def new_handler_def smooth_def)
qed

lemma smooth_run:
  assumes "smooth en payload"
  shows "\<exists>s'. run_terraform_runner en payload (initial_job en payload) = (Ok (), s')
     \<and> sh_status (j_handler s') = Successful
     \<and> (pl_command payload = ''apply'' \<or> pl_command payload = ''destroy'' \<longrightarrow> command_started (pl_command payload) (w_calls s'))
     \<and> (\<exists>h. w_calls s' = h @ [Run_Function (publish_notification_event (jobj
           [(''subject'', JString ''runner_event''),
            (''message'', extra_data_json (completed_extra_data payload (sh_job_id (j_handler s'))
                \<lparr>rn_status = ''success'', rn_error_text = []\<rparr>))]))])"
proof -
  note a = smoothD [OF assms]
  have "completes (in_range en) (run_runner_inner en payload) (\<lambda>_. True)"
    unfolding run_runner_inner_def by (rule completes_unit [OF completes_start [OF assms] completes_flow [OF assms]])
  from completesD [OF this initial_in_range [OF assms]]
  obtain s1 where inner: "run_runner_inner en payload (initial_job en payload) = (Ok (), s1)"
    by (elim exE conjE) simp
  then obtain job s0 where flow: "terraform_flow en payload job s0 = (Ok (), s1)"
    unfolding run_runner_inner_def bnd_Ok by blast
  let ?event = "publish_notification_event (jobj
           [(''subject'', JString ''runner_event''),
            (''message'', extra_data_json (completed_extra_data payload (sh_job_id (j_handler s1))
                \<lparr>rn_status = ''success'', rn_error_text = []\<rparr>))])"
  let ?s = "w_calls_update (\<lambda>cs. cs @ [Run_Function ?event]) s1"
  obtain v where v: "en_run en (w_calls s1) ?event = Inr v"
    using a(2) unfolding writes_succeed_def by blast
  let ?done = "\<lparr>rn_status = ''success'', rn_error_text = []\<rparr>"
  have g: "run_runner_flow_crash_guarded en payload (initial_job en payload) = (Ok (Inr ()), s1)"
    unfolding run_runner_flow_crash_guarded_def bnd_def catch_unwind_def inner by simp
  have f: "finish_runner_flow en (Inr ()) s1 = (Ok ?done, s1)"
    by (simp add: finish_runner_flow_def)
  have p: "publish_runner_notification en payload ?done s1 = (Ok (), ?s)"
    unfolding publish_runner_notification_def publish_notification_def run_function_def bnd_def gets_run
      prod.case outcome.case ask_run v sum.case ret_run ..
  have "run_terraform_runner en payload (initial_job en payload) = (Ok (), ?s)"
    unfolding run_terraform_runner_def bnd_def g prod.case outcome.case f p ..
  moreover have "sh_status (j_handler ?s) = Successful"
    using terraform_flow_successful [OF flow] by simp
  moreover have "pl_command payload = ''apply'' \<or> pl_command payload = ''destroy'' \<longrightarrow> command_started (pl_command payload) (w_calls ?s)"
    using terraform_flow_started [OF _ flow] lasting_started unfolding lasting_def by simp
  ultimately show ?thesis by (intro exI [of _ ?s]) simp_all
qed

text \<open>The demonstration environment is one of these.\<close>

lemma demo_smooth: "smooth demo_env (demo_payload command)"
proof -
  have v: "opa_verdict (JObject []) = Some (False, jobj [])"
    by (simp add: opa_verdict_def)
  have "cloud_answers demo_env (demo_payload command)"
    unfolding cloud_answers_def
    by (intro conjI exI [of _ demo_recorded] exI [of _ demo_module] ballI allI)
      (simp_all add: demo_env_def demo_recorded_def demo_deployment_def demo_module_def)
  then show ?thesis
    by (simp add: smooth_def steady_clock_def writes_succeed_def downloads_succeed_def commands_succeed_def
        demo_env_def demo_output_def run_generic_command_def v demo_payload_def i128_json_def)
qed

end
