(* ===== verification/Runner_Properties.thy ===== *)
theory Runner_Properties
  imports Runner_Liveness
begin

text \<open>
  The properties of a run as a whole: what has been checked before infrastructure is changed, that
  a plan changes nothing, and that a run in which every call succeeds succeeds. The witnesses run
  in the concrete environment of \<open>Runner_Demo\<close>.
\<close>

text \<open>
  A run of the demonstration that starts its command: the place of the call in the history.
\<close>

lemma demo_run_mutates:
  assumes "command = ''apply'' \<or> command = ''destroy''"
  shows "\<exists>s' j. run_terraform_runner demo_env (demo_payload command) (initial_job demo_env (demo_payload command)) = (Ok (), s')
     \<and> j < length (w_calls s') \<and> mutates (w_calls s' ! j)"
proof -
  have c: "pl_command (demo_payload command) = command"
    by (simp add: demo_payload_def)
  obtain s' where run: "run_terraform_runner demo_env (demo_payload command) (initial_job demo_env (demo_payload command)) = (Ok (), s')"
    and "command_started command (w_calls s')"
    using smooth_run [OF demo_smooth [of command]] assms unfolding c by blast
  then obtain args i vars where "Terraform (command # args) i vars \<in> set (w_calls s')"
    unfolding command_started_def by blast
  then obtain j where "j < length (w_calls s')" "w_calls s' ! j = Terraform (command # args) i vars"
    by (auto simp: in_set_conv_nth)
  with run show ?thesis
    using assms by (intro exI [of _ s'] exI [of _ j]) auto
qed

text \<open>
  C4: no infrastructure is changed before every policy has passed. Before any command that
  changes infrastructure is started, the policies have been fetched, and each of them has been
  evaluated on the plan with no violation, whatever the environment answers.
\<close>

theorem policy_gate:
  assumes "run_terraform_runner en payload (initial_job en payload) = (r, s')"
    and "j < length (w_calls s')" "mutates (w_calls s' ! j)"
  shows "policies_passed en (take j (w_calls s'))"
  by (rule gateD [OF flow_gate [OF lasting_policies_passed prepare_establishes_policies] assms])

lemma policy_gate_witness:
  "\<exists>s' j. run_terraform_runner demo_env (demo_payload ''apply'') (initial_job demo_env (demo_payload ''apply'')) = (Ok (), s')
     \<and> j < length (w_calls s') \<and> mutates (w_calls s' ! j) \<and> policies_passed demo_env (take j (w_calls s'))"
proof -
  obtain s' j where r: "run_terraform_runner demo_env (demo_payload ''apply'') (initial_job demo_env (demo_payload ''apply'')) = (Ok (), s')"
      "j < length (w_calls s')" "mutates (w_calls s' ! j)"
    using demo_run_mutates [OF disjI1 [OF refl]] by blast
  show ?thesis using r policy_gate [OF r] by blast
qed

text \<open>
  C19: an apply waits for its dependencies. Before an applying run starts the command, every
  dependency named in the payload has been read and found successful.
\<close>

theorem dependency_gate:
  assumes "run_terraform_runner en payload (initial_job en payload) = (r, s')"
    and "pl_command payload = ''apply''"
    and "j < length (w_calls s')" "mutates (w_calls s' ! j)"
  shows "\<forall>dep \<in> set (pl_dependencies payload). dependency_done en dep (take j (w_calls s'))"
  by (rule gateD [OF flow_gate [OF lasting_all [OF lasting_dependency_done] prepare_establishes_dependencies [OF assms(2)]]
        assms(1,3,4)])

lemma dependency_gate_witness:
  "\<exists>s' j. run_terraform_runner demo_env (demo_payload ''apply'') (initial_job demo_env (demo_payload ''apply'')) = (Ok (), s')
     \<and> j < length (w_calls s') \<and> mutates (w_calls s' ! j)
     \<and> dependency_done demo_env \<lparr>dep_project_id = ''p'', dep_region = ''r'', dep_deployment_id = ''v'', dep_environment = ''e''\<rparr>
         (take j (w_calls s'))"
proof -
  obtain s' j where r: "run_terraform_runner demo_env (demo_payload ''apply'') (initial_job demo_env (demo_payload ''apply'')) = (Ok (), s')"
      "j < length (w_calls s')" "mutates (w_calls s' ! j)"
    using demo_run_mutates [OF disjI1 [OF refl]] by blast
  have "\<forall>dep \<in> set (pl_dependencies (demo_payload ''apply'')). dependency_done demo_env dep (take j (w_calls s'))"
    by (rule dependency_gate [OF r(1) _ r(2,3)]) (simp add: demo_payload_def)
  with r show ?thesis by (auto simp: demo_payload_def)
qed

text \<open>
  C20: a destroy is refused while something depends on the deployment. Before a destroying run
  starts the command, the deployment's dependents have been read and there were none.
\<close>

theorem dependants_gate:
  assumes "run_terraform_runner en payload (initial_job en payload) = (r, s')"
    and "pl_command payload = ''destroy''"
    and "j < length (w_calls s')" "mutates (w_calls s' ! j)"
  shows "no_dependants en payload (take j (w_calls s'))"
  by (rule gateD [OF flow_gate [OF lasting_no_dependants prepare_establishes_no_dependants [OF assms(2)]] assms(1,3,4)])

lemma dependants_gate_witness:
  "\<exists>s' j. run_terraform_runner demo_env (demo_payload ''destroy'') (initial_job demo_env (demo_payload ''destroy'')) = (Ok (), s')
     \<and> j < length (w_calls s') \<and> mutates (w_calls s' ! j)
     \<and> no_dependants demo_env (demo_payload ''destroy'') (take j (w_calls s'))"
proof -
  obtain s' j where r: "run_terraform_runner demo_env (demo_payload ''destroy'') (initial_job demo_env (demo_payload ''destroy'')) = (Ok (), s')"
      "j < length (w_calls s')" "mutates (w_calls s' ! j)"
    using demo_run_mutates [OF disjI2 [OF refl]] by blast
  have "no_dependants demo_env (demo_payload ''destroy'') (take j (w_calls s'))"
    by (rule dependants_gate [OF r(1) _ r(2,3)]) (simp add: demo_payload_def)
  with r show ?thesis by blast
qed

text \<open>
  C21: the record belongs to the job that runs. Before any command that changes infrastructure is
  started in a job other than a plan, the recorded deployment has been read, and the cloud has reported
  for the running job the very job id that was read; otherwise the variables are not trusted.
\<close>

theorem job_id_gate:
  assumes "run_terraform_runner en payload (initial_job en payload) = (r, s')"
    and "pl_command payload \<noteq> ''plan''"
    and "j < length (w_calls s')" "mutates (w_calls s' ! j)"
  shows "job_trusted en payload (take j (w_calls s'))"
  by (rule gateD [OF start_gate [OF lasting_job_trusted start_flow_establishes [OF assms(2)]] assms(1,3,4)])

lemma job_id_gate_witness:
  "\<exists>s' j. run_terraform_runner demo_env (demo_payload ''apply'') (initial_job demo_env (demo_payload ''apply'')) = (Ok (), s')
     \<and> j < length (w_calls s') \<and> mutates (w_calls s' ! j)
     \<and> job_trusted demo_env (demo_payload ''apply'') (take j (w_calls s'))"
proof -
  obtain s' j where r: "run_terraform_runner demo_env (demo_payload ''apply'') (initial_job demo_env (demo_payload ''apply'')) = (Ok (), s')"
      "j < length (w_calls s')" "mutates (w_calls s' ! j)"
    using demo_run_mutates [OF disjI1 [OF refl]] by blast
  have "job_trusted demo_env (demo_payload ''apply'') (take j (w_calls s'))"
    by (rule job_id_gate [OF r(1) _ r(2,3)]) (simp add: demo_payload_def)
  with r show ?thesis by blast
qed

lemma other_command_changes_nothing:
  assumes "pl_command payload \<noteq> ''apply''" "pl_command payload \<noteq> ''destroy''"
  shows "\<not> list_ex mutates (w_calls (snd (run_terraform_runner en payload (initial_job en payload))))"
proof -
  have flow: "never mutates (terraform_flow en payload job)" for job
    unfolding terraform_flow_def Let_def using assms
    by (intro logs_bnd mut.never_prepare logs_case_prod logs_seq logs_if mut.step_intros) simp
  have "never mutates (run_terraform_runner en payload)"
    unfolding run_terraform_runner_def run_runner_flow_crash_guarded_def run_runner_inner_def
    by (intro logs_intros mut.never_start_flow flow mut.never_finish mut.never_notification)
  from logsD [OF this surjective_pairing] have "\<not> mutates c"
    if "c \<in> set (w_calls (snd (run_terraform_runner en payload (initial_job en payload))))" for c
    using extends_set that by (fastforce simp: initial_job_def)
  then show ?thesis by (auto simp: list_ex_iff)
qed

text \<open>
  A run of a command other than \<open>apply\<close> and \<open>destroy\<close>, such as a plan or a drift check,
  never starts a command that changes infrastructure, whatever happens in it.
\<close>

theorem plan_changes_nothing:
  assumes "pl_command payload \<noteq> ''apply''" "pl_command payload \<noteq> ''destroy''"
    and "run_terraform_runner en payload (initial_job en payload) = (r, s')"
  shows "\<not> list_ex mutates (w_calls s')"
  using other_command_changes_nothing [OF assms(1,2), of en] by (simp add: assms(3))

lemma plan_changes_nothing_witness:
  "\<exists>s'. run_terraform_runner demo_env (demo_payload ''plan'') (initial_job demo_env (demo_payload ''plan'')) = (Ok (), s')
     \<and> \<not> list_ex mutates (w_calls s')"
proof -
  obtain s' where r: "run_terraform_runner demo_env (demo_payload ''plan'') (initial_job demo_env (demo_payload ''plan'')) = (Ok (), s')"
    using smooth_run [OF demo_smooth [of "''plan''"]] by blast
  have "\<not> list_ex mutates (w_calls s')"
    by (rule plan_changes_nothing [OF _ _ r]) (simp_all add: demo_payload_def)
  with r show ?thesis by blast
qed

text \<open>
  C22: a run succeeds when every call succeeds. From its initial state the job returns, its
  deployment is successful, the last call is the notification of the success, and a run that
  applies or destroys has started the command.
\<close>

theorem smooth_run_succeeds:
  assumes "smooth en payload"
  shows "\<exists>s'. run_terraform_runner en payload (initial_job en payload) = (Ok (), s')
     \<and> sh_status (j_handler s') = Successful
     \<and> (pl_command payload = ''apply'' \<or> pl_command payload = ''destroy'' \<longrightarrow> command_started (pl_command payload) (w_calls s'))
     \<and> (\<exists>h. w_calls s' = h @ [Run_Function (publish_notification_event (jobj
           [(''subject'', JString ''runner_event''),
            (''message'', extra_data_json (completed_extra_data payload (sh_job_id (j_handler s'))
                \<lparr>rn_status = ''success'', rn_error_text = []\<rparr>))]))])"
  by (rule smooth_run [OF assms])

lemma smooth_run_succeeds_witness:
  "\<exists>s'. run_terraform_runner demo_env (demo_payload ''destroy'') (initial_job demo_env (demo_payload ''destroy'')) = (Ok (), s')
     \<and> sh_status (j_handler s') = Successful \<and> command_started ''destroy'' (w_calls s')"
proof -
  have c: "pl_command (demo_payload ''destroy'') = ''destroy''"
    by (simp add: demo_payload_def)
  show ?thesis using smooth_run_succeeds [OF demo_smooth [of "''destroy''"]] unfolding c by blast
qed

end
