(* ===== verification/Runner_Records.thy ===== *)
theory Runner_Records
  imports Runner_Liveness
begin

text \<open>
  What the table says when a run ends. Whatever goes wrong in a run, as long as the database can be
  written and the clock does not go back, the last deployment written carries the final status of
  the job. The invariant \<open>settled\<close> says so between the steps; \<open>settles\<close> is a step that ends in it
  although it changes the status, because it writes the deployment afterwards.
\<close>

section \<open>The last write\<close>

fun is_write :: "call \<Rightarrow> bool" where
  "is_write (Run_Function p) \<longleftrightarrow> jget p ''event'' = Some (JString ''transact_write'')"
| "is_write _ \<longleftrightarrow> False"

text \<open>The last transaction of the history puts the item of this deployment.\<close>

definition written :: "deployment_resp \<Rightarrow> bool \<Rightarrow> call list \<Rightarrow> bool" where
  "written d p h \<longleftrightarrow> filter is_write h \<noteq> [] \<and> (\<exists>item items.
     last (filter is_write h) = Run_Function (transact_write_event (put_item item # items))
     \<and> get_payload d p = Some item)"

text \<open>It is the item of the job's deployment with its status.\<close>

definition recorded :: "status_handler \<Rightarrow> call list \<Rightarrow> bool" where
  "recorded hdl h \<longleftrightarrow> (\<exists>d p. written d p h \<and> dr_status d = sh_status hdl
     \<and> dr_deployment_id d = sh_deployment_id hdl \<and> dr_environment d = sh_environment hdl)"

definition settled :: "env \<Rightarrow> api_infra_payload \<Rightarrow> job \<Rightarrow> bool" where
  "settled en payload s \<longleftrightarrow> in_range en s
     \<and> sh_deployment_id (j_handler s) = pl_deployment_id payload
     \<and> sh_environment (j_handler s) = pl_environment payload
     \<and> (is_final (sh_status (j_handler s)) \<longrightarrow> recorded (j_handler s) (w_calls s))"

definition identified :: "env \<Rightarrow> api_infra_payload \<Rightarrow> job \<Rightarrow> bool" where
  "identified en payload s \<longleftrightarrow> in_range en s
     \<and> sh_deployment_id (j_handler s) = pl_deployment_id payload
     \<and> sh_environment (j_handler s) = pl_environment payload"

definition stable :: "env \<Rightarrow> api_infra_payload \<Rightarrow> 'a job_eff \<Rightarrow> bool" where
  "stable en payload m \<longleftrightarrow> (\<forall>s. settled en payload s \<longrightarrow> settled en payload (snd (m s)))"

definition settles :: "env \<Rightarrow> api_infra_payload \<Rightarrow> 'a job_eff \<Rightarrow> bool" where
  "settles en payload m \<longleftrightarrow> (\<forall>s. identified en payload s \<longrightarrow> settled en payload (snd (m s)))"

lemma settled_identified: "settled en payload s \<Longrightarrow> identified en payload s"
  by (simp add: settled_def identified_def)

named_theorems stable_intros \<open>one rule per combinator and per operation\<close>

lemma stable_simple [stable_intros]:
  "stable en payload (ret a)" "stable en payload (fail e)" "stable en payload (panic e)"
  "stable en payload exit_process" "stable en payload (gets f)" "stable en payload (of_result r)"
  "stable en payload (unwrap_opt e v)" "stable en payload (unwrap_res r)"
  by (simp_all add: stable_def of_result_def unwrap_opt_def unwrap_res_def split: sum.split option.split)

lemma stable_bnd [stable_intros]:
  "stable en payload m \<Longrightarrow> (\<And>a. stable en payload (f a)) \<Longrightarrow> stable en payload (bnd m f)"
  unfolding stable_def bnd_def by (auto split: prod.split outcome.split)

lemma stable_seq [stable_intros]: "stable en payload m \<Longrightarrow> stable en payload n \<Longrightarrow> stable en payload (seq m n)"
  by (simp add: seq_def stable_bnd)

lemma stable_attempt [stable_intros]: "stable en payload m \<Longrightarrow> stable en payload (attempt m)"
  unfolding stable_def attempt_def by (auto split: prod.split outcome.split)

lemma stable_catch [stable_intros]: "stable en payload m \<Longrightarrow> stable en payload (catch_unwind m)"
  unfolding stable_def catch_unwind_def by (auto split: prod.split outcome.split)

lemma stable_cases [stable_intros]:
  "(b \<Longrightarrow> stable en payload m) \<Longrightarrow> (\<not> b \<Longrightarrow> stable en payload n) \<Longrightarrow> stable en payload (if b then m else n)"
  "(\<And>e. stable en payload (f e)) \<Longrightarrow> (\<And>a. stable en payload (g a)) \<Longrightarrow> stable en payload (case_sum f g r)"
  "stable en payload m \<Longrightarrow> (\<And>a. stable en payload (k a)) \<Longrightarrow> stable en payload (case_option m k v)"
  "stable en payload (h x) \<Longrightarrow> stable en payload (Let x h)"
  "(\<And>a b. stable en payload (c a b)) \<Longrightarrow> stable en payload (case_prod c p)"
  by (auto split: sum.split option.split prod.split)

lemma stable_for_each [stable_intros]: "(\<And>x. stable en payload (f x)) \<Longrightarrow> stable en payload (for_each f xs)"
  by (induction xs) (simp_all add: stable_intros del: ret_run)

lemma stable_fold [stable_intros]: "(\<And>x b. stable en payload (f x b)) \<Longrightarrow> stable en payload (fold_eff f xs b)"
  by (induction xs arbitrary: b) (simp_all add: stable_intros del: ret_run)

lemma stable_block [stable_intros]:
  "stable en payload (block [])"
  "stable en payload m \<Longrightarrow> stable en payload (block ms) \<Longrightarrow> stable en payload (block (m # ms))"
  unfolding block.simps by (intro stable_simple stable_seq; assumption)+

lemma written_quiet: "\<not> is_write c \<Longrightarrow> written d p (h @ [c]) \<longleftrightarrow> written d p h"
  by (simp add: written_def)

lemma recorded_quiet: "\<not> is_write c \<Longrightarrow> recorded hdl (h @ [c]) \<longleftrightarrow> recorded hdl h"
  by (simp add: recorded_def written_quiet)

lemma stable_ask:
  assumes "steady_clock en" "\<not> is_write c"
  shows "stable en payload (ask c f)"
  unfolding stable_def ask_run using assms
  by (simp add: settled_def in_range_snoc recorded_quiet)

lemma recorded_cong:
  "sh_status h1 = sh_status h2 \<Longrightarrow> sh_deployment_id h1 = sh_deployment_id h2 \<Longrightarrow>
   sh_environment h1 = sh_environment h2 \<Longrightarrow> recorded h1 h = recorded h2 h"
  by (simp add: recorded_def)

lemma stable_upd:
  assumes "\<And>h. sh_last_event_epoch (f h) = sh_last_event_epoch h" "\<And>h. sh_event_duration (f h) = sh_event_duration h"
    "\<And>h. sh_next_drift_check_epoch (f h) = sh_next_drift_check_epoch h" "\<And>h. sh_status (f h) = sh_status h"
    "\<And>h. sh_deployment_id (f h) = sh_deployment_id h" "\<And>h. sh_environment (f h) = sh_environment h"
  shows "stable en payload (upd f)"
  unfolding stable_def upd_def modify_run
  using recorded_cong [OF assms(4-6)] by (simp add: settled_def in_range_def assms)

lemma stable_setters [stable_intros]:
  "stable en payload (set_command cmd)" "stable en payload (set_output out)" "stable en payload (set_error_text txt)"
  "stable en payload (set_job_id jid)" "stable en payload (set_deleted del)"
  "stable en payload (set_policy_results results)" "stable en payload (set_drift_has_occurred drift)"
  "stable en payload set_is_drift_check" "stable en payload (set_resources resources)"
  "stable en payload (set_variables vars)"
  by (simp_all add: set_command_def set_output_def set_error_text_def set_job_id_def
      set_deleted_def set_policy_results_def set_drift_has_occurred_def set_is_drift_check_def
      set_resources_def set_variables_def stable_upd)

section \<open>Reporting settles\<close>

lemma stable_run_function [stable_intros]:
  "steady_clock en \<Longrightarrow> jget p ''event'' \<noteq> Some (JString ''transact_write'') \<Longrightarrow> stable en payload (run_function en p)"
  unfolding run_function_def by (rule stable_ask) simp_all

lemma stable_clock: "steady_clock en \<Longrightarrow> stable en payload (get_epoch en)"
  unfolding get_epoch_def by (rule stable_ask) simp_all

lemma event_kinds:
  "jget (insert_db_event table v) ''event'' \<noteq> Some (JString ''transact_write'')"
  "jget (upload_file_base64_event k b c) ''event'' \<noteq> Some (JString ''transact_write'')"
  "jget (publish_notification_event v) ''event'' \<noteq> Some (JString ''transact_write'')"
  by (simp_all add: insert_db_event_def upload_file_base64_event_def publish_notification_event_def jget_jobj)

lemma write_event: "is_write (Run_Function (transact_write_event items))"
  by (simp add: transact_write_event_def jget_jobj)

lemma stable_durations [stable_intros]:
  assumes "steady_clock en"
  shows "stable en payload (set_event_duration en)" and "stable en payload (set_last_event_epoch en)"
proof -
  have g: "settled en payload (snd (m s))"
    if c: "completes (in_range en) m (\<lambda>_. True)" and k: "w_calls (snd (m s)) = w_calls s @ [Clock]"
      "keeps (\<lambda>h. (sh_status h, sh_deployment_id h, sh_environment h)) m" and s: "settled en payload s" for m :: "unit job_eff" and s
  proof -
    have "in_range en (snd (m s))"
      using completesD [OF c, of s] s by (auto simp: settled_def)
    moreover have "sh_status (j_handler (snd (m s))) = sh_status (j_handler s)"
      "sh_deployment_id (j_handler (snd (m s))) = sh_deployment_id (j_handler s)"
      "sh_environment (j_handler (snd (m s))) = sh_environment (j_handler s)"
      using k(2) unfolding keeps_def by auto
    moreover have "recorded (j_handler (snd (m s))) (w_calls (snd (m s))) = recorded (j_handler s) (w_calls s)"
      unfolding k(1) recorded_cong [OF calculation(2-4)] by (rule recorded_quiet) simp
    ultimately show ?thesis using s by (simp add: settled_def)
  qed
  show "stable en payload (set_event_duration en)"
    unfolding stable_def
    by (intro allI impI g completes_durations assms)
      (simp_all add: set_event_duration_def get_epoch_def bnd_def upd_def keeps_def)
  show "stable en payload (set_last_event_epoch en)"
    unfolding stable_def
    by (intro allI impI g completes_durations assms)
      (simp_all add: set_last_event_epoch_def get_epoch_def bnd_def upd_def keeps_def)
qed

lemma stable_send_event [stable_intros]:
  assumes "steady_clock en"
  shows "stable en payload (send_event en)"
  unfolding send_event_def insert_event_def
  by (intro stable_intros stable_clock stable_ask event_kinds assms) simp_all

lemma bnd_case_Ok:
  "bnd m (case_sum (\<lambda>e. fail (f e)) g) s = (Ok b, s') \<longleftrightarrow> (\<exists>v s1. m s = (Ok (Inr v), s1) \<and> g v s1 = (Ok b, s'))"
proof -
  have "case_sum (\<lambda>e. fail (f e)) g a s1 = (Ok b, s') \<longleftrightarrow> (\<exists>v. a = Inr v \<and> g v s1 = (Ok b, s'))" for a s1
    by (cases a) simp_all
  then show ?thesis
    unfolding bnd_Ok by (simp only:) (rule iffI; elim exE conjE; (hypsubst)?; intro exI conjI; (rule refl | assumption)+)
qed

lemma attempt_Inr: "attempt m s = (Ok (Inr a), s') \<longleftrightarrow> m s = (Ok a, s')"
  by (cases "m s"; cases "fst (m s)") (auto simp: attempt_def)

text \<open>After a deployment has been sent, the last transaction carries the fields of the handler.\<close>

lemma set_deployment_written:
  assumes run: "set_deployment en d plan s = (Ok u, s')"
  shows "written d plan (w_calls s')"
proof -
  obtain existing item s1 items s2 v s3 where i: "get_payload d plan = Some item"
    and s3: "run_function en (transact_write_event (put_item item # items)) s2 = (Ok (Inr v), s3)"
    and fin: "(if plan \<and> dr_has_drifted d
             then bnd (unwrap_opt ''number out of range'' (get_payload d False)) (\<lambda>updated.
                  bnd (run_function en (insert_db_event ''deployments'' updated)) (\<lambda>w.
                  case w of
                    Inl e \<Rightarrow> fail (''Failed to update deployment: '' @ e)
                  | Inr _ \<Rightarrow> ret ()))
             else ret ()) s3 = (Ok u, s')"
    using run unfolding set_deployment_def Let_def bnd_case_Ok bnd_Ok [of "unwrap_opt e v" for e v]
      bnd_Ok [of "if b then m else n" for b m n] unwrap_Ok
    by blast
  have "w_calls s3 = w_calls s2 @ [Run_Function (transact_write_event (put_item item # items))]"
    using s3 by (auto simp: run_function_def)
  then have r: "written d plan (w_calls s3)"
    unfolding written_def using i by (auto simp: write_event simp del: is_write.simps)
  show ?thesis
  proof (cases "plan \<and> dr_has_drifted d")
    case True
    then obtain p where "w_calls s' = w_calls s3 @ [Run_Function (insert_db_event ''deployments'' p)]"
      using fin unfolding if_P [OF True] bnd_case_Ok bnd_Ok [of "unwrap_opt e v" for e v] unwrap_Ok
      by (auto simp: run_function_def)
    with r show ?thesis by (simp add: written_quiet event_kinds)
  next
    case False
    with fin r show ?thesis by auto
  qed
qed

lemma send_deployment_written:
  assumes run: "send_deployment en s = (Ok u, s')"
  shows "\<exists>epoch next_check p. written (deployment_of (j_handler s) epoch next_check) p (w_calls s')"
proof -
  obtain epoch s1 next_check s2 s3 where
    first: "set_deployment en (deployment_of (j_handler s1) epoch next_check) (is_plan (j_handler s1)) s2 = (Ok (), s3)"
    and rest: "(if sh_is_drift_check (j_handler s1) \<and> is_final_update (j_handler s1)
         then bnd (attempt (set_deployment en (deployment_of (j_handler s1) epoch next_check) False)) (\<lambda>r.
              case r of
                Inl e \<Rightarrow> fail (''Error inserting drifted deployment: '' @ e)
              | Inr _ \<Rightarrow> ret ())
         else ret ()) s3 = (Ok u, s')"
    and e: "get_epoch en s = (Ok epoch, s1)"
    using run unfolding send_deployment_def Let_def bnd_case_Ok bnd_Ok [of "get_epoch en"] bnd_Ok [of "gets j_handler"]
      bnd_Ok [of "get_next_drift_check_epoch en h" for h] gets_run attempt_Inr
    by (auto simp del: if_split)
  have h1: "j_handler s1 = j_handler s"
    using e by (auto simp: get_epoch_def)
  show ?thesis
  proof (cases "sh_is_drift_check (j_handler s1) \<and> is_final_update (j_handler s1)")
    case True
    then obtain u' where "set_deployment en (deployment_of (j_handler s1) epoch next_check) False s3 = (Ok u', s')"
      using rest unfolding if_P [OF True] bnd_case_Ok attempt_Inr by auto
    from set_deployment_written [OF this] show ?thesis unfolding h1 by blast
  next
    case False
    with rest have "s' = s3" by auto
    then show ?thesis using set_deployment_written [OF first] unfolding h1 by blast
  qed
qed

lemma settles_send_deployment:
  assumes "steady_clock en" "writes_succeed en"
  shows "settles en payload (send_deployment en)"
  unfolding settles_def
proof (intro allI impI)
  fix s
  assume s: "identified en payload s"
  have "in_range en s" using s by (simp add: identified_def)
  from completesD [OF completes_send_deployment [OF assms] this]
  obtain u s' where run: "send_deployment en s = (Ok u, s')" and range: "in_range en s'"
    by blast
  have k: "j_handler s' = j_handler s"
    using keepsD [where g = "\<lambda>h. h", OF keeps_handler(2) run] .
  have "recorded (j_handler s) (w_calls s')"
    using send_deployment_written [OF run] unfolding recorded_def deployment_of_def by fastforce
  then show "settled en payload (snd (send_deployment en s))"
    using s range by (simp add: run k settled_def identified_def)
qed

lemma settles_stable: "settles en payload m \<Longrightarrow> stable en payload m"
  unfolding settles_def stable_def using settled_identified by blast

lemmas stable_send_deployment = settles_send_deployment [THEN settles_stable]

text \<open>A sequence of steps that complete and keep the identity, and then settle.\<close>

definition prepares :: "env \<Rightarrow> api_infra_payload \<Rightarrow> 'a job_eff \<Rightarrow> bool" where
  "prepares en payload m \<longleftrightarrow> (\<forall>s. identified en payload s \<longrightarrow> (\<exists>a s'. m s = (Ok a, s') \<and> identified en payload s'))"

lemma preparesI:
  assumes "completes (in_range en) m (\<lambda>_. True)" "keeps sh_deployment_id m" "keeps sh_environment m"
  shows "prepares en payload m"
  unfolding prepares_def
proof (intro allI impI)
  fix s assume s: "identified en payload s"
  then have "in_range en s" by (simp add: identified_def)
  from completesD [OF assms(1) this] obtain a s' where m: "m s = (Ok a, s')" and "in_range en s'" by blast
  with s show "\<exists>a s'. m s = (Ok a, s') \<and> identified en payload s'"
    using keepsD [OF assms(2) m] keepsD [OF assms(3) m] by (auto simp: identified_def)
qed

lemma settles_seq:
  "prepares en payload m \<Longrightarrow> settles en payload n \<Longrightarrow> settles en payload (seq m n)"
  unfolding prepares_def settles_def seq_def bnd_def by fastforce

lemma settles_then:
  "settles en payload m \<Longrightarrow> (\<And>a. stable en payload (f a)) \<Longrightarrow> settles en payload (bnd m f)"
  unfolding settles_def stable_def bnd_def by (auto split: prod.split outcome.split)

lemma settles_block:
  "settles en payload m \<Longrightarrow> settles en payload (block [m])"
  "prepares en payload m \<Longrightarrow> settles en payload (block (m' # ms)) \<Longrightarrow> settles en payload (block (m # m' # ms))"
proof -
  show "settles en payload m \<Longrightarrow> settles en payload (block [m])"
    unfolding block.simps seq_def by (rule settles_then, assumption) (rule stable_simple)
  show "prepares en payload m \<Longrightarrow> settles en payload (block (m' # ms)) \<Longrightarrow> settles en payload (block (m # m' # ms))"
    unfolding block.simps(2) [of m] by (rule settles_seq)
qed

lemma settles_attempt: "settles en payload m \<Longrightarrow> settles en payload (attempt m)"
  unfolding settles_def attempt_def by (auto split: prod.split outcome.split)

lemma prepares_block:
  "prepares en payload (block [])"
  "prepares en payload m \<Longrightarrow> prepares en payload (block ms) \<Longrightarrow> prepares en payload (block (m # ms))"
  unfolding prepares_def block.simps seq_def bnd_def by fastforce+

lemma keeps_identity [status_intros]:
  "keeps sh_deployment_id (set_status st)" "keeps sh_environment (set_status st)"
  "keeps sh_deployment_id (set_error_text txt)" "keeps sh_environment (set_error_text txt)"
  "keeps sh_deployment_id (set_output out)" "keeps sh_environment (set_output out)"
  "keeps sh_deployment_id (set_event_duration en)" "keeps sh_environment (set_event_duration en)"
  "keeps sh_deployment_id (set_last_event_epoch en)" "keeps sh_environment (set_last_event_epoch en)"
  unfolding set_event_duration_def set_last_event_epoch_def get_epoch_def set_error_text_def set_status_def set_output_def
  by (intro status_intros; simp)+

lemma prepares_reports:
  assumes "steady_clock en" "writes_succeed en"
  shows "prepares en payload (set_status st)" "prepares en payload (set_error_text txt)" "prepares en payload (set_output out)"
    "prepares en payload (set_event_duration en)" "prepares en payload (set_last_event_epoch en)"
    "prepares en payload (send_event en)"
  by (intro preparesI completes_setters completes_durations completes_send_event status_intros assms)+

section \<open>Every step keeps the invariant\<close>

lemma settles_report:
  assumes "steady_clock en" "writes_succeed en"
  shows "settles en payload (report en st txt)"
  unfolding report_def
  by (intro settles_block settles_send_deployment prepares_reports assms)

lemmas stable_report = settles_report [THEN settles_stable]

lemma stable_terraform:
  "steady_clock en \<Longrightarrow> stable en payload (run_terraform_command en command ro lk de aa ni js po pi init ml vars)"
  unfolding run_terraform_command_def Let_def by (intro stable_intros stable_ask) simp_all

lemma stable_files:
  assumes "steady_clock en"
  shows "stable en payload (write_file en path content message)"
    and "stable en payload (upload_file_to_change_records en key content)"
    and "stable en payload (insert_infra_change_record en r)"
  unfolding write_file_def upload_file_to_change_records_def insert_infra_change_record_def Let_def
  by (intro stable_intros stable_ask event_kinds assms; simp)+

lemma stable_steps:
  assumes "steady_clock en" "writes_succeed en"
  shows "stable en payload (terraform_init en payload)" "stable en payload (terraform_validate en payload)"
    "stable en payload (terraform_graph en payload jid)" "stable en payload (terraform_plan en payload)"
    "stable en payload (terraform_show en payload jid module out up)" "stable en payload (terraform_apply_destroy en payload)"
    "stable en payload (terraform_state_list en)" "stable en payload (terraform_output en payload)"
    "stable en payload (record_apply_destroy_changes en payload jid module out)"
proof -
  note intros = stable_intros stable_terraform stable_files stable_report stable_clock assms
  show "stable en payload (terraform_init en payload)" unfolding terraform_init_def by (intro intros)
  show "stable en payload (terraform_validate en payload)" unfolding terraform_validate_def by (intro intros)
  show "stable en payload (terraform_graph en payload jid)" unfolding terraform_graph_def by (intro intros)
  show "stable en payload (terraform_plan en payload)" unfolding terraform_plan_def by (intro intros)
  show "stable en payload (terraform_apply_destroy en payload)" unfolding terraform_apply_destroy_def by (intro intros)
  show "stable en payload (terraform_show en payload jid module out up)"
    unfolding terraform_show_def check_drift_def notify_drift_def post_webhook_def
    by (intro intros stable_ask; simp)
  show "stable en payload (terraform_state_list en)"
    unfolding terraform_state_list_def Let_def by (intro intros stable_ask; simp)
  show "stable en payload (record_apply_destroy_changes en payload jid module out)"
    unfolding record_apply_destroy_changes_def by (intro intros stable_ask; simp)
  have "settles en payload (block [set_status Successful, set_output v, send_deployment en])" for v
    by (intro settles_block settles_send_deployment prepares_reports assms)
  then have o: "stable en payload (block [set_status Successful, set_output v, send_deployment en])" for v
    by (rule settles_stable)
  have "settles en payload (block [set_status FailedOutput, set_event_duration en, set_last_event_epoch en, set_error_text e,
                     send_event en, send_deployment en])" for e
    by (intro settles_block settles_send_deployment prepares_reports assms)
  then have f: "stable en payload (block [set_status FailedOutput, set_event_duration en, set_last_event_epoch en, set_error_text e,
                     send_event en, send_deployment en])" for e
    by (rule settles_stable)
  show "stable en payload (terraform_output en payload)"
    unfolding terraform_output_def by (intro o f intros)
qed

lemma stable_preparation:
  assumes "steady_clock en" "writes_succeed en"
  shows "stable en payload (run_opa_policy_checks en)" "stable en payload (get_module en payload)"
    "stable en payload (download_module en module)" "stable en payload (check_dependencies en payload)"
    "stable en payload (check_dependants en payload)"
proof -
  note intros = stable_intros stable_files stable_report stable_clock assms
  show "stable en payload (run_opa_policy_checks en)"
    unfolding run_opa_policy_checks_def store_env_as_json_def check_policy_def download_policy_def run_opa_command_def
    by (intro intros stable_ask; simp)
  show "stable en payload (get_module en payload)"
    unfolding get_module_def check_module_deprecation_def
    by (intro intros stable_ask; simp)
  show "stable en payload (download_module en module)"
    unfolding download_module_def download_module_zip_def download_module_oci_def compare_module_integrity_def
      get_modules_download_url_def download_def unzip_def or_error_def
    by (intro intros stable_ask; simp)
  have "settles en payload (block [set_status WaitingOnDependency, set_event_duration en, send_event en, send_deployment en])"
    by (intro settles_block settles_send_deployment prepares_reports assms)
  note w = settles_stable [OF this]
  show "stable en payload (check_dependencies en payload)"
    unfolding check_dependencies_def check_dependency_status_def
    by (intro w intros stable_ask; simp)
  have "settles en payload (block [set_error_text e, set_status Error, set_event_duration en, send_event en, send_deployment en])" for e
    by (intro settles_block settles_send_deployment prepares_reports assms)
  note e = settles_stable [OF this]
  have "settles en payload (block [set_status HasDependants, set_error_text has_dependants_text, set_event_duration en,
                          send_event en, send_deployment en])"
    by (intro settles_block settles_send_deployment prepares_reports assms)
  note d = settles_stable [OF this]
  show "stable en payload (check_dependants en payload)"
    unfolding check_dependants_def
    by (intro e d intros stable_ask; simp)
qed

lemma settles_failing:
  assumes "steady_clock en" "writes_succeed en"
  shows "settles en payload (seq (block [set_error_text e, set_status Failed, set_event_duration en, send_event en])
           (bnd (attempt (send_deployment en)) (\<lambda>_. fail msg)))"
    and "settles en payload (seq (block [set_status Failed, set_error_text e, set_event_duration en, send_event en])
           (bnd (attempt (send_deployment en)) (\<lambda>_. ret ())))"
  by (intro settles_seq prepares_block prepares_reports settles_then settles_attempt settles_send_deployment
      stable_simple assms)+

lemma stable_start:
  assumes "steady_clock en" "writes_succeed en"
  shows "stable en payload (start_flow en payload)"
proof -
  note intros = stable_intros stable_clock settles_failing [THEN settles_stable] stable_send_deployment assms
  have j: "stable en payload (get_current_job_id en)" "stable en payload (ensure_valid_job_id en job jid)" for job jid
    unfolding get_current_job_id_def ensure_valid_job_id_def
    by (intro settles_failing [THEN settles_stable] intros stable_ask; simp)+
  show ?thesis
    unfolding start_flow_def fetch_deployment_variables_def store_tf_vars_json_def store_backend_file_def
      get_initial_deployment_def
    by (intro j intros stable_ask; simp)
qed

lemma stable_flow:
  assumes "steady_clock en" "writes_succeed en"
  shows "stable en payload (terraform_flow en payload job)"
proof -
  note intros = stable_intros stable_preparation [OF assms] stable_steps [OF assms] assms
  have p: "stable en payload (prepare_flow en payload job)"
    unfolding prepare_flow_def by (intro intros stable_ask; simp)
  have m: "stable en payload (mutate_flow en payload job module out)" for module out
    unfolding mutate_flow_def by (intro intros)
  have "settles en payload (block [set_status Successful, set_event_duration en, set_last_event_epoch en, send_event en,
                   send_deployment en])"
    by (intro settles_block settles_send_deployment prepares_reports assms)
  note s = settles_stable [OF this]
  show ?thesis
    unfolding terraform_flow_def by (intro p m s intros)
qed

lemma stable_inner:
  "steady_clock en \<Longrightarrow> writes_succeed en \<Longrightarrow> stable en payload (run_runner_inner en payload)"
  unfolding run_runner_inner_def by (intro stable_bnd stable_start stable_flow)

lemma initial_settled:
  assumes "steady_clock en" "i128_json (pl_next_drift_check_epoch payload) \<noteq> None"
  shows "settled en payload (initial_job en payload)"
proof -
  have "en_clock en [] \<le> en_clock en ([] @ [Clock])"
    using assms(1) unfolding steady_clock_def by blast
  then show ?thesis
    using assms(2) by (simp add: settled_def in_range_def initial_job_def initiate_deployment_status_handler_def
        new_handler_def)
qed

text \<open>The end of a run: the flow's result and the bookkeeping after it.\<close>

lemma guard_run:
  "run_runner_inner en payload s = (o1, s1) \<Longrightarrow> run_runner_flow_crash_guarded en payload s =
     (case o1 of Ok u \<Rightarrow> (Ok (Inr u), s1) | Err e \<Rightarrow> (Ok (Inl e), s1)
      | Panic e \<Rightarrow> (Ok (Inl (''Terraform runner panicked: '' @ e)), s1) | Exit \<Rightarrow> (Exit, s1))"
  unfolding run_runner_flow_crash_guarded_def bnd_def catch_unwind_def by (simp split: outcome.split)

lemma set_status_first:
  "seq (block (set_status st # ms)) n s = seq (block ms) n (j_handler_update (sh_status_update (\<lambda>_. st)) s)"
  by (simp add: seq_def bnd_def set_status_def upd_def)

lemma flush_finishes:
  assumes "steady_clock en" "writes_succeed en" "settled en payload s"
    and run: "flush_failed_status_if_needed en e s = (r, s')"
  shows "settled en payload s' \<and> is_final (sh_status (j_handler s'))"
proof (cases "is_final (sh_status (j_handler s))")
  case True
  with run have "s' = s"
    unfolding flush_failed_status_if_needed_def by (simp add: bnd_def)
  with True assms(3) show ?thesis by simp
next
  case False
  let ?b = "\<lambda>ms. seq (block (set_status Failed # ms)) (bnd (attempt (send_deployment en)) (\<lambda>_. ret ()))"
  let ?ms = "[set_error_text e, set_event_duration en, send_event en]"
  have m: "?b ?ms s = (r, s')"
    using run False unfolding flush_failed_status_if_needed_def bnd_def [of "gets f" for f] by simp
  have "settled en payload s'"
    using settles_failing(2) [OF assms(1,2), of payload e] settled_identified [OF assms(3)] m
    unfolding settles_def by (metis snd_conv)
  moreover have k: "keeps sh_status (seq (block ?ms) (bnd (attempt (send_deployment en)) (\<lambda>_. ret ())))"
    by (intro status_intros)
  have "sh_status (j_handler s') = Failed"
    using keepsD [OF k m [unfolded set_status_first]] by simp
  ultimately show ?thesis by simp
qed

lemma finish_finishes:
  assumes "steady_clock en" "writes_succeed en" "settled en payload s"
    and "\<And>u. res = Inr u \<Longrightarrow> is_final (sh_status (j_handler s))"
    and run: "finish_runner_flow en res s = (r, s')"
  shows "settled en payload s' \<and> is_final (sh_status (j_handler s'))"
proof (cases res)
  case (Inl e)
  obtain o1 s1 where f: "flush_failed_status_if_needed en e s = (o1, s1)"
    by (cases "flush_failed_status_if_needed en e s")
  with run have "s' = s1"
    unfolding Inl finish_runner_flow_def sum.case seq_def bnd_def by (cases o1) auto
  with flush_finishes [OF assms(1-3) f] show ?thesis by simp
next
  case (Inr u)
  with run assms(3,4) show ?thesis by (simp add: finish_runner_flow_def)
qed

lemma publish_keeps:
  assumes "steady_clock en" "settled en payload s" "is_final (sh_status (j_handler s))"
    and run: "publish_runner_notification en payload c s = (r, s')"
  shows "settled en payload s' \<and> is_final (sh_status (j_handler s'))"
proof -
  have "stable en payload (publish_runner_notification en payload c)"
    unfolding publish_runner_notification_def publish_notification_def
    by (intro stable_intros event_kinds assms)
  then have "settled en payload s'"
    using assms(2) run unfolding stable_def by (metis snd_conv)
  moreover have k: "keeps sh_status (publish_runner_notification en payload c)"
    unfolding publish_runner_notification_def publish_notification_def run_function_def
    by (intro status_intros)
  ultimately show ?thesis using keepsD [OF k run] assms(3) by simp
qed

lemma run_finishes:
  assumes "steady_clock en" "writes_succeed en" "settled en payload s"
    and run: "run_terraform_runner en payload s = (r, s')" and "r \<noteq> Exit"
  shows "settled en payload s' \<and> is_final (sh_status (j_handler s'))"
proof -
  obtain o1 s1 where inner: "run_runner_inner en payload s = (o1, s1)"
    by (cases "run_runner_inner en payload s")
  have s1: "settled en payload s1"
    using stable_inner [OF assms(1,2), of payload] assms(3) inner unfolding stable_def by (metis snd_conv)
  have fin: "is_final (sh_status (j_handler s1))" if o: "o1 = Ok u" for u
  proof -
    obtain job s0 where "terraform_flow en payload job s0 = (Ok u, s1)"
      using inner unfolding o run_runner_inner_def bnd_Ok by blast
    from terraform_flow_successful [OF this] show ?thesis by simp
  qed
  have "\<exists>res. (\<forall>u. res = Inr u \<longrightarrow> is_final (sh_status (j_handler s1)))
     \<and> bnd (finish_runner_flow en res) (publish_runner_notification en payload) s1 = (r, s')"
    using run guard_run [OF inner] fin \<open>r \<noteq> Exit\<close>
    unfolding run_terraform_runner_def bnd_def [of "run_runner_flow_crash_guarded en payload"]
    by (cases o1) auto
  then obtain res where res: "\<And>u. res = Inr u \<Longrightarrow> is_final (sh_status (j_handler s1))"
    and rest: "bnd (finish_runner_flow en res) (publish_runner_notification en payload) s1 = (r, s')"
    by blast
  obtain o2 s2 where f: "finish_runner_flow en res s1 = (o2, s2)"
    by (cases "finish_runner_flow en res s1")
  have s2: "settled en payload s2 \<and> is_final (sh_status (j_handler s2))"
    by (rule finish_finishes [OF assms(1,2) s1 res f])
  show ?thesis
  proof (cases o2)
    case (Ok c)
    with rest f have "publish_runner_notification en payload c s2 = (r, s')"
      by (simp add: bnd_def)
    with s2 publish_keeps [OF assms(1)] show ?thesis by blast
  qed (use rest f s2 in \<open>auto simp: bnd_def\<close>)
qed

text \<open>
  C8: no run leaves its deployment in a busy state. Whatever the environment answers, as long as
  the database can be written and read, the clock does not go back and drift intervals are below
  \<open>2 ^ 62\<close> milliseconds, a run that returns (it is not ended by an exit of the process) has a final
  status, and the last transaction it wrote puts exactly that status for its own deployment, even
  after a failed command, a failed policy or a panic.
\<close>

theorem final_status_recorded:
  assumes "steady_clock en" "writes_succeed en" "i128_json (pl_next_drift_check_epoch payload) \<noteq> None"
    and "run_terraform_runner en payload (initial_job en payload) = (r, s')" and "r \<noteq> Exit"
  shows "is_final (sh_status (j_handler s')) \<and> recorded (j_handler s') (w_calls s')
     \<and> sh_deployment_id (j_handler s') = pl_deployment_id payload
     \<and> sh_environment (j_handler s') = pl_environment payload"
  using run_finishes [OF assms(1,2) initial_settled [OF assms(1,3)] assms(4,5)] by (simp add: settled_def)

lemma final_status_recorded_witness:
  "\<exists>s'. run_terraform_runner demo_env (demo_payload ''apply'') (initial_job demo_env (demo_payload ''apply'')) = (Ok (), s')
     \<and> is_final (sh_status (j_handler s')) \<and> recorded (j_handler s') (w_calls s')
     \<and> sh_deployment_id (j_handler s') = ''d''"
proof -
  have s: "smooth demo_env (demo_payload ''apply'')" by (rule demo_smooth)
  obtain s' where run: "run_terraform_runner demo_env (demo_payload ''apply'') (initial_job demo_env (demo_payload ''apply'')) = (Ok (), s')"
    using smooth_run [OF s] by blast
  have i: "i128_json (pl_next_drift_check_epoch (demo_payload ''apply'')) \<noteq> None"
    and d: "pl_deployment_id (demo_payload ''apply'') = ''d''"
    by (simp_all add: demo_payload_def i128_json_def)
  have "Ok () \<noteq> Exit" by simp
  from final_status_recorded [OF smoothD(1,2) [OF s] i run this] run d show ?thesis by auto
qed

end
