(* ===== verification/Authz.thy ===== *)
theory Authz
  imports Json
begin

text \<open>
  Who may do what through the HTTP interface: \<open>internal-api/src/http_authz.rs\<close>, the publish
  authorization of \<open>publish_auth/\<close>, the claim keys of \<open>auth_handler.rs\<close>, and the part of
  \<open>main_aws_unified.rs\<close> that builds the request headers from an API Gateway event. The process
  environment, base64 with JSON, the header syntax and the Rego engine are parameters; the
  compile-time feature \<open>local\<close> is a flag.
\<close>

section \<open>Parameters\<close>

record auth_env =
  ae_var :: "string \<Rightarrow> string option"
  ae_local :: bool
  ae_encode :: "json \<Rightarrow> string"
  ae_decode :: "string \<Rightarrow> json option"
  ae_valid_header :: "string \<Rightarrow> string \<Rightarrow> bool"
  ae_as_f64 :: "number \<Rightarrow> string option"

text \<open>Headers: names in lower case, in the order they were added; \<open>get\<close> returns the first.\<close>

type_synonym headers = "(string \<times> string) list"

definition get_header :: "headers \<Rightarrow> string \<Rightarrow> string option" where
  "get_header h name = map_of h name"

definition unauthorized :: "string \<Rightarrow> nat \<times> json" where
  "unauthorized msg = (401, jobj [(''error'', JString msg)])"

definition forbidden :: "string \<Rightarrow> nat \<times> json" where
  "forbidden msg = (403, jobj [(''error'', JString msg)])"

section \<open>Claims\<close>

definition allowed_projects_claim_key :: "auth_env \<Rightarrow> string" where
  "allowed_projects_claim_key ae =
     (case ae_var ae ''AUTH_ALLOWED_PROJECTS_CLAIM'' of Some v \<Rightarrow> v | None \<Rightarrow> ''custom:allowed_projects'')"

text \<open>A comma-separated list with blanks trimmed and empty items dropped.\<close>

definition comma_list :: "string \<Rightarrow> string list" where
  "comma_list s = filter (\<lambda>x. x \<noteq> []) (List.map trim (split_on (CHR '','') s))"

definition username_claim_keys :: "auth_env \<Rightarrow> string list" where
  "username_claim_keys ae = comma_list
     (case ae_var ae ''AUTH_USERNAME_CLAIMS'' of Some v \<Rightarrow> v | None \<Rightarrow> ''sub,cognito:username,email'')"

definition local_allowed_projects :: "auth_env \<Rightarrow> string list option" where
  "local_allowed_projects ae =
     (case ae_var ae ''LOCAL_ALLOWED_PROJECTS'' of
        Some v \<Rightarrow> let trimmed = trim v in if trimmed = [] \<or> trimmed = ''*'' then None else Some (comma_list trimmed)
      | None \<Rightarrow> None)"

definition local_project_allowed :: "auth_env \<Rightarrow> string \<Rightarrow> bool" where
  "local_project_allowed ae project_id =
     (case local_allowed_projects ae of None \<Rightarrow> True | Some ps \<Rightarrow> project_id \<in> set ps)"

definition extract_verified_claims :: "auth_env \<Rightarrow> headers \<Rightarrow> json option" where
  "extract_verified_claims ae h = Option.bind (get_header h ''x-infraweave-verified-claims'') (ae_decode ae)"

definition strip_prefix :: "string \<Rightarrow> string \<Rightarrow> string option" where
  "strip_prefix p s = (if starts_with s p then Some (drop (length p) s) else None)"

definition extract_jwt_claims :: "auth_env \<Rightarrow> headers \<Rightarrow> json option" where
  "extract_jwt_claims ae h =
     (case extract_verified_claims ae h of
        Some claims \<Rightarrow> Some claims
      | None \<Rightarrow>
          (case get_header h ''authorization'' of
             None \<Rightarrow> None
           | Some auth_header \<Rightarrow>
               (case (case strip_prefix ''Bearer '' auth_header of
                        Some t \<Rightarrow> Some t | None \<Rightarrow> strip_prefix ''bearer '' auth_header) of
                  None \<Rightarrow> None
                | Some token \<Rightarrow>
                    let parts = split_on (CHR ''.'') token in
                    if length parts \<noteq> 3 then None else ae_decode ae (parts ! 1))))"

section \<open>Access to projects\<close>

definition ensure_access :: "auth_env \<Rightarrow> headers \<Rightarrow> string \<Rightarrow> (nat \<times> json, unit) result" where
  "ensure_access ae h project_id =
     (case get_header h ''x-auth-user'' of
        Some _ \<Rightarrow>
          (case Option.bind (extract_jwt_claims ae h)
                  (\<lambda>claims. Option.bind (jget claims (allowed_projects_claim_key ae)) as_str) of
             Some allowed_projects_str \<Rightarrow>
               if project_id \<in> set (comma_list allowed_projects_str) then Inr ()
               else Inl (forbidden ''Access denied to this project'')
           | None \<Rightarrow> Inl (forbidden ''Access denied: no allowed_projects claim found in token''))
      | None \<Rightarrow>
          if ae_local ae
          then if local_project_allowed ae project_id then Inr ()
               else Inl (forbidden ''Access denied: project not in LOCAL_ALLOWED_PROJECTS'')
          else Inl (unauthorized ''Missing authentication user context''))"

definition ensure_authenticated_user :: "auth_env \<Rightarrow> headers \<Rightarrow> (nat \<times> json, unit) result" where
  "ensure_authenticated_user ae h =
     (if get_header h ''x-auth-user'' \<noteq> None \<or> ae_local ae then Inr ()
      else Inl (unauthorized ''Missing authentication user context''))"

text \<open>The middleware: an error is the response, otherwise the request goes on.\<close>

definition auth_middleware ::
  "auth_env \<Rightarrow> headers \<Rightarrow> (string, string) hash_map \<Rightarrow> (nat \<times> json, unit) result" where
  "auth_middleware ae h params =
     res_bind (ensure_authenticated_user ae h) (\<lambda>_.
     case map_of params ''project'' of
       None \<Rightarrow> Inr ()
     | Some project_param \<Rightarrow>
         try_all (\<lambda>project. let p = trim project in if p \<noteq> [] then ensure_access ae h p else Inr ())
           (split_on (CHR '','') project_param))"

section \<open>The request built from an API Gateway event\<close>

definition eq_ignore_ascii_case :: "string \<Rightarrow> string \<Rightarrow> bool" where
  "eq_ignore_ascii_case a b \<longleftrightarrow> to_lowercase a = to_lowercase b"

text \<open>The client's headers, without the two internal ones; a value that is not a string is dropped.\<close>

definition client_headers :: "json \<Rightarrow> headers" where
  "client_headers payload =
     (case Option.bind (jget payload ''headers'') as_object of
        None \<Rightarrow> []
      | Some hs \<Rightarrow> concat (List.map (\<lambda>(key, v).
          if eq_ignore_ascii_case key ''x-auth-user'' \<or> eq_ignore_ascii_case key ''x-infraweave-verified-claims''
          then [] else (case as_str v of Some s \<Rightarrow> [(key, s)] | None \<Rightarrow> [])) hs))"

definition authorizer_claims :: "json \<Rightarrow> json option" where
  "authorizer_claims auth =
     (case jget auth ''claims'' of
        Some c \<Rightarrow> Some c
      | None \<Rightarrow> (case jget auth ''jwt'' of Some jwt \<Rightarrow> jget jwt ''claims'' | None \<Rightarrow> None))"

fun first_string :: "json \<Rightarrow> string list \<Rightarrow> string option" where
  "first_string c [] = None"
| "first_string c (k # ks) =
     (case Option.bind (jget c k) as_str of Some v \<Rightarrow> Some v | None \<Rightarrow> first_string c ks)"

definition is_token_route :: "json \<Rightarrow> bool" where
  "is_token_route payload \<longleftrightarrow>
     (case Option.bind (case jget payload ''path'' of Some p \<Rightarrow> Some p | None \<Rightarrow> jget payload ''rawPath'') as_str of
        Some p \<Rightarrow> p = ''/api/v1/auth/token'' | None \<Rightarrow> False)"

text \<open>The headers the service adds from the request context.\<close>

definition context_headers :: "auth_env \<Rightarrow> json \<Rightarrow> headers" where
  "context_headers ae payload =
     (case jget payload ''requestContext'' of
        None \<Rightarrow> []
      | Some ctx \<Rightarrow>
          let claims = Option.bind (jget ctx ''authorizer'') authorizer_claims
          in case Option.bind claims (\<lambda>c. first_string c (username_claim_keys ae)) of
               Some user \<Rightarrow>
                 [(''x-auth-user'', user)]
                 @ (case Option.bind claims (\<lambda>c. Option.bind (jget c (allowed_projects_claim_key ae)) as_str) of
                      Some ps \<Rightarrow> [(''x-allowed-projects'', ps)] | None \<Rightarrow> [])
                 @ (case claims of Some c \<Rightarrow> [(''x-infraweave-verified-claims'', ae_encode ae c)] | None \<Rightarrow> [])
             | None \<Rightarrow>
                 if is_token_route payload
                 then (case Option.bind (jget ctx ''authorizer'') (\<lambda>a. jget a ''iam'') of
                         None \<Rightarrow> []
                       | Some iam \<Rightarrow>
                           (case Option.bind (case jget iam ''userArn'' of Some v \<Rightarrow> Some v | None \<Rightarrow> jget iam ''userId'') as_str of
                              Some user \<Rightarrow> [(''x-auth-user'', user)]
                            | None \<Rightarrow> []))
                 else [])"

text \<open>
  The request builder lower-cases the names and fails as a whole when one header is not well
  formed.
\<close>

definition request_headers :: "auth_env \<Rightarrow> json \<Rightarrow> (string, headers) result" where
  "request_headers ae payload =
     (let hs = client_headers payload @ context_headers ae payload
      in if \<forall>(k, v) \<in> set hs. ae_valid_header ae k v
         then Inr (List.map (\<lambda>(k, v). (to_lowercase k, v)) hs)
         else Inl ''Failed to build request'')"

section \<open>Publishing: identities\<close>

datatype identity_provider = GitHubOidc | Raw

fun provider_str :: "identity_provider \<Rightarrow> string" where
  "provider_str GitHubOidc = ''github_oidc''"
| "provider_str Raw = ''raw''"

definition GITHUB_ACTIONS_ISSUER :: string where
  "GITHUB_ACTIONS_ISSUER = ''https://token.actions.githubusercontent.com''"

definition detect :: "json \<Rightarrow> identity_provider" where
  "detect claims =
     (let issuer = (case Option.bind (jget claims ''iss'') as_str of Some s \<Rightarrow> s | None \<Rightarrow> [])
      in if issuer = GITHUB_ACTIONS_ISSUER then GitHubOidc else Raw)"

definition copy_claim :: "json \<Rightarrow> string \<Rightarrow> string \<Rightarrow> (string, json) btree \<Rightarrow> (string, json) btree" where
  "copy_claim claims claim_key target_key target =
     (case jget claims claim_key of Some v \<Rightarrow> bt_insert target_key v target | None \<Rightarrow> target)"

text \<open>\<open>split_once\<close>, by a separator string.\<close>

fun split_once :: "string \<Rightarrow> string \<Rightarrow> (string \<times> string) option" where
  "split_once sep [] = (if sep = [] then Some ([], []) else None)"
| "split_once sep (c # cs) =
     (if starts_with (c # cs) sep then Some ([], drop (length sep) (c # cs))
      else map_option (\<lambda>(a, b). (c # a, b)) (split_once sep cs))"

definition strip_suffix :: "string \<Rightarrow> string \<Rightarrow> string option" where
  "strip_suffix p s = (if ends_with s p then Some (take (length s - length p) s) else None)"

definition workflow_name_from_claims :: "json \<Rightarrow> string option" where
  "workflow_name_from_claims claims =
     Option.bind (Option.bind (jget claims ''job_workflow_ref'') as_str) (\<lambda>raw.
     let path = hd (split_on (CHR ''@'') raw);
         file = last (split_on (CHR ''/'') path);
         stem = (case strip_suffix ''.yml'' file of Some s \<Rightarrow> s
                 | None \<Rightarrow> (case strip_suffix ''.yaml'' file of Some s \<Rightarrow> s | None \<Rightarrow> file))
     in if stem = [] then None else Some stem)"

definition extract_github :: "json \<Rightarrow> (string, json) btree option" where
  "extract_github claims =
     Option.bind (Option.bind (jget claims ''repository'') as_str) (\<lambda>repository.
     Option.bind (split_once ''/'' repository) (\<lambda>(owner, name).
     if name = [] then None
     else
       let context = (case Option.bind (jget claims ''ref'') as_str of
                        Some r \<Rightarrow> Some r
                      | None \<Rightarrow> Option.bind (Option.bind (jget claims ''sub'') as_str)
                                 (\<lambda>sub. map_option snd (split_once '':ref:'' sub)));
           tenant = (case Option.bind (jget claims ''repository_owner'') as_str of Some t \<Rightarrow> t | None \<Rightarrow> owner);
           facts1 = copy_claim claims ''iss'' ''issuer'' [];
           facts2 = bt_insert ''repository_owner'' (JString tenant)
                      (bt_insert ''repository_name'' (JString name) (bt_insert ''repository'' (JString repository) facts1));
           facts3 = (case context of Some c \<Rightarrow> bt_insert ''ref'' (JString c) facts2 | None \<Rightarrow> facts2);
           facts4 = (case workflow_name_from_claims claims of
                       Some w \<Rightarrow> bt_insert ''workflow_name'' (JString w) facts3 | None \<Rightarrow> facts3)
       in Some (copy_claim claims ''environment'' ''environment''
                  (copy_claim claims ''job_workflow_ref'' ''workflow_ref'' facts4))))"

definition extract_raw :: "json \<Rightarrow> (string, json) btree option" where
  "extract_raw claims =
     map_option (\<lambda>claims_object.
       copy_claim claims ''email'' ''email'' (copy_claim claims ''aud'' ''audience''
         (copy_claim claims ''sub'' ''subject'' (copy_claim claims ''iss'' ''issuer''
           (bt_insert ''claims'' (JObject claims_object) []))))) (as_object claims)"

fun extract_identity :: "identity_provider \<Rightarrow> json \<Rightarrow> (string, json) btree option" where
  "extract_identity GitHubOidc claims = extract_github claims"
| "extract_identity Raw claims = extract_raw claims"

section \<open>Publishing: the policy\<close>

definition publish_rego_input ::
  "identity_provider \<Rightarrow> (string, json) btree \<Rightarrow> string \<Rightarrow> string \<Rightarrow> string option \<Rightarrow> json" where
  "publish_rego_input provider facts resource_type resource_name track =
     (let identity_facts = fold (\<lambda>(k, v). bt_insert k v) facts
            (bt_insert ''provider'' (JString (provider_str provider)) []);
          request = [(''action'', JString ''publish''), (''resource_type'', JString resource_type),
                     (''resource_name'', JString resource_name)]
            @ (case track of Some t \<Rightarrow> [(''track'', JString t)] | None \<Rightarrow> [])
      in jobj [(''identity'', JObject identity_facts), (''request'', jobj request)])"

datatype rego_value =
    RegoNull
  | RegoBool bool
  | RegoNumber string
  | RegoString string
  | RegoArray "rego_value list"
  | RegoObject "(string \<times> rego_value) list"

fun json_to_rego_value :: "auth_env \<Rightarrow> json \<Rightarrow> (string, rego_value) result"
  and json_to_rego_list :: "auth_env \<Rightarrow> json list \<Rightarrow> (string, rego_value list) result"
  and json_to_rego_fields :: "auth_env \<Rightarrow> (string \<times> json) list \<Rightarrow> (string, (string \<times> rego_value) list) result" where
  "json_to_rego_value ae JNull = Inr RegoNull"
| "json_to_rego_value ae (JBool b) = Inr (RegoBool b)"
| "json_to_rego_value ae (JNumber n) =
     (case ae_as_f64 ae n of Some f \<Rightarrow> Inr (RegoNumber f) | None \<Rightarrow> Inl ''invalid JSON number for Rego input'')"
| "json_to_rego_value ae (JString s) = Inr (RegoString s)"
| "json_to_rego_value ae (JArray xs) = res_bind (json_to_rego_list ae xs) (\<lambda>ys. Inr (RegoArray ys))"
| "json_to_rego_value ae (JObject kvs) = res_bind (json_to_rego_fields ae kvs) (\<lambda>ys. Inr (RegoObject ys))"
| "json_to_rego_list ae [] = Inr []"
| "json_to_rego_list ae (x # xs) =
     res_bind (json_to_rego_value ae x) (\<lambda>y. res_bind (json_to_rego_list ae xs) (\<lambda>ys. Inr (y # ys)))"
| "json_to_rego_fields ae [] = Inr []"
| "json_to_rego_fields ae ((k, x) # xs) =
     res_bind (json_to_rego_value ae x) (\<lambda>y. res_bind (json_to_rego_fields ae xs) (\<lambda>ys. Inr (bt_insert k y ys)))"

text \<open>
  Time is in seconds; the cache lives in the process. A time to live so large that the sum with the
  current time leaves the range of the clock panics in the code and is outside the model.
\<close>

record cached_policy =
  cp_parameter_name :: string
  cp_policy :: string
  cp_expires_at :: nat

fun parse_digits :: "nat \<Rightarrow> string \<Rightarrow> nat option" where
  "parse_digits n [] = Some n"
| "parse_digits n (c # cs) = (if is_digit c then parse_digits (10 * n + (of_char c - 48)) cs else None)"

text \<open>\<open>str::parse::<u64>\<close>: an optional plus sign, at least one digit, in range.\<close>

definition parse_u64 :: "string \<Rightarrow> nat option" where
  "parse_u64 s =
     (let ds = (case s of c # cs \<Rightarrow> if c = CHR ''+'' then cs else s | [] \<Rightarrow> [])
      in if ds = [] then None
         else Option.bind (parse_digits 0 ds) (\<lambda>n. if n < 2 ^ 64 then Some n else None))"

definition policy_cache_ttl :: "auth_env \<Rightarrow> nat" where
  "policy_cache_ttl ae =
     (case Option.bind (ae_var ae ''AUTH_PUBLISH_REGO_POLICY_CACHE_TTL_SECONDS'') parse_u64 of
        Some n \<Rightarrow> n | None \<Rightarrow> 300)"

definition lookup_cached_policy :: "cached_policy option \<Rightarrow> nat \<Rightarrow> string \<Rightarrow> string option" where
  "lookup_cached_policy cache now parameter_name =
     (case cache of
        None \<Rightarrow> None
      | Some cached \<Rightarrow>
          if cp_parameter_name cached = parameter_name \<and> now < cp_expires_at cached
          then Some (cp_policy cached) else None)"

definition quote_name :: "string \<Rightarrow> string" where
  "quote_name s = [CHR 0x27] @ s @ [CHR 0x27]"

text \<open>
  \<open>read\<close> is \<open>read_config_parameter\<close>, the read from the cloud's parameter store; the result comes
  with the new cache. The code asks the clock at the look-up and again when it stores the policy; one
  time \<open>now\<close> stands for both here.
\<close>

definition publish_rego_policy ::
  "auth_env \<Rightarrow> (string \<Rightarrow> (string, string) result) \<Rightarrow> nat \<Rightarrow> cached_policy option \<Rightarrow>
   (string, string) result \<times> cached_policy option" where
  "publish_rego_policy ae read now cache =
     (case ae_var ae ''AUTH_PUBLISH_REGO_POLICY_PARAMETER'' of
        None \<Rightarrow> (Inl ''AUTH_PUBLISH_REGO_POLICY_PARAMETER must be set'', cache)
      | Some parameter_name \<Rightarrow>
          (case lookup_cached_policy cache now parameter_name of
             Some policy \<Rightarrow> (Inr policy, cache)
           | None \<Rightarrow>
               (case read parameter_name of
                  Inl e \<Rightarrow> (Inl (''failed to read publish Rego policy parameter '' @ quote_name parameter_name @ '': '' @ e), cache)
                | Inr policy \<Rightarrow>
                    if trim policy = [] then (Inl (''publish Rego policy parameter '' @ quote_name parameter_name @ '' is empty''), cache)
                    else (Inr policy, Some \<lparr>cp_parameter_name = parameter_name, cp_policy = policy,
                                            cp_expires_at = now + policy_cache_ttl ae\<rparr>))))"

text \<open>
  \<open>rego\<close> is the engine: the value of \<open>data.infraweave.publish.allow\<close> for a policy and an input
  (\<open>None\<close> when it is undefined), or an error of the policy.
\<close>

definition check_publish_with_rego ::
  "auth_env \<Rightarrow> (string \<Rightarrow> rego_value \<Rightarrow> (string, rego_value option) result) \<Rightarrow> (string \<Rightarrow> (string, string) result) \<Rightarrow>
   nat \<Rightarrow> cached_policy option \<Rightarrow> identity_provider \<Rightarrow> (string, json) btree \<Rightarrow> string \<Rightarrow> string \<Rightarrow> string option \<Rightarrow>
   (string, bool) result \<times> cached_policy option" where
  "check_publish_with_rego ae rego read now cache provider facts resource_type resource_name track =
     (case publish_rego_policy ae read now cache of
        (Inl e, cache') \<Rightarrow> (Inl e, cache')
      | (Inr policy, cache') \<Rightarrow>
          (res_bind (json_to_rego_value ae (publish_rego_input provider facts resource_type resource_name track)) (\<lambda>input.
           res_bind (rego policy input) (\<lambda>value.
           case value of
             None \<Rightarrow> Inr False
           | Some (RegoBool allowed) \<Rightarrow> Inr allowed
           | Some _ \<Rightarrow> Inl ''publish policy returned non-boolean allow value'')), cache'))"

definition check_publish ::
  "auth_env \<Rightarrow> (string \<Rightarrow> rego_value \<Rightarrow> (string, rego_value option) result) \<Rightarrow> (string \<Rightarrow> (string, string) result) \<Rightarrow>
   nat \<Rightarrow> cached_policy option \<Rightarrow> json \<Rightarrow> string \<Rightarrow> string \<Rightarrow> string option \<Rightarrow> bool \<times> cached_policy option" where
  "check_publish ae rego read now cache claims resource_type resource_name track =
     (if ae_var ae ''AUTH_PUBLISH_REGO_POLICY_PARAMETER'' = None then (False, cache)
      else
        let provider = detect claims in
        case extract_identity provider claims of
          None \<Rightarrow> (False, cache)
        | Some facts \<Rightarrow>
            (case check_publish_with_rego ae rego read now cache provider facts resource_type resource_name track of
               (Inr allowed, cache') \<Rightarrow> (allowed, cache')
             | (Inl _, cache') \<Rightarrow> (False, cache')))"

definition resource_desc :: "string \<Rightarrow> string \<Rightarrow> string option \<Rightarrow> string" where
  "resource_desc resource_type resource_name track =
     resource_type @ ''/'' @ resource_name @ (case track of Some t \<Rightarrow> ''/'' @ t | None \<Rightarrow> [])"

definition ensure_publish_access ::
  "auth_env \<Rightarrow> (string \<Rightarrow> rego_value \<Rightarrow> (string, rego_value option) result) \<Rightarrow> (string \<Rightarrow> (string, string) result) \<Rightarrow>
   nat \<Rightarrow> cached_policy option \<Rightarrow> headers \<Rightarrow> string \<Rightarrow> string \<Rightarrow> string option \<Rightarrow>
   (nat \<times> json, unit) result \<times> cached_policy option" where
  "ensure_publish_access ae rego read now cache h resource_type resource_name track =
     (case extract_verified_claims ae h of
        Some claims \<Rightarrow>
          (case check_publish ae rego read now cache claims resource_type resource_name track of
             (True, cache') \<Rightarrow> (Inr (), cache')
           | (False, cache') \<Rightarrow>
               (Inl (forbidden (''You do not have permission to publish '' @ resource_desc resource_type resource_name track
                  @ ''. Configure AUTH_PUBLISH_REGO_POLICY_PARAMETER with the Rego publish policy.'')), cache'))
      | None \<Rightarrow>
          (if ae_local ae then Inr () else Inl (unauthorized ''Missing authentication user context''), cache))"

section \<open>Access\<close>

lemma ensure_access_granted:
  assumes "ensure_access ae h p = Inr ()" "\<not> ae_local ae"
  shows "\<exists>claims allowed. extract_jwt_claims ae h = Some claims
     \<and> jget claims (allowed_projects_claim_key ae) = Some (JString allowed) \<and> p \<in> set (comma_list allowed)"
  using assms by (auto simp: ensure_access_def bind_eq_Some_conv split: option.splits if_splits)

lemma ensure_access_user: "ensure_access ae h p = Inr () \<Longrightarrow> \<not> ae_local ae \<Longrightarrow> get_header h ''x-auth-user'' \<noteq> None"
  by (auto simp: ensure_access_def split: option.splits if_splits)

text \<open>
  C7: a request for projects passes the middleware only with a grant for every one of them.
  Outside local builds there is an authenticated user, and every project named in the path, each
  item of a comma-separated list, is in the token's list of allowed projects, exactly as written
  there up to blanks.
\<close>

theorem middleware_requires_grants:
  assumes "auth_middleware ae h params = Inr ()" "\<not> ae_local ae" "map_of params ''project'' = Some p"
  shows "get_header h ''x-auth-user'' \<noteq> None \<and>
    (\<forall>q \<in> set (comma_list p). \<exists>claims allowed. extract_jwt_claims ae h = Some claims
       \<and> jget claims (allowed_projects_claim_key ae) = Some (JString allowed) \<and> q \<in> set (comma_list allowed))"
proof (intro conjI ballI)
  show "get_header h ''x-auth-user'' \<noteq> None"
    using assms(1,2) by (auto simp: auth_middleware_def ensure_authenticated_user_def res_bind_eq_Inr split: if_splits)
  fix q
  assume "q \<in> set (comma_list p)"
  then obtain x where x: "x \<in> set (split_on (CHR '','') p)" "q = trim x" "q \<noteq> []"
    by (auto simp: comma_list_def)
  have "\<forall>x \<in> set (split_on (CHR '','') p). (let p = trim x in if p \<noteq> [] then ensure_access ae h p else Inr ()) = Inr ()"
    using assms(1,3) by (simp add: auth_middleware_def res_bind_eq_Inr try_all_ok)
  with x have "ensure_access ae h q = Inr ()"
    by (auto simp: Let_def)
  then show "\<exists>claims allowed. extract_jwt_claims ae h = Some claims
       \<and> jget claims (allowed_projects_claim_key ae) = Some (JString allowed) \<and> q \<in> set (comma_list allowed)"
    by (rule ensure_access_granted [OF _ assms(2)])
qed

subsection \<open>A concrete service\<close>

text \<open>An encoding that is enough for one document, and the request of one user.\<close>

definition demo_claims :: json where
  "demo_claims = JObject [(''custom:allowed_projects'', JString ''p1, p2''), (''sub'', JString ''u'')]"

definition demo_auth :: auth_env where
  "demo_auth = \<lparr>ae_var = (\<lambda>k. if k = ''AUTH_PUBLISH_REGO_POLICY_PARAMETER'' then Some ''/policy'' else None),
     ae_local = False, ae_encode = (\<lambda>_. ''c''), ae_decode = (\<lambda>s. if s = ''c'' then Some demo_claims else None),
     ae_valid_header = (\<lambda>_ _. True), ae_as_f64 = (\<lambda>_. None)\<rparr>"

definition demo_headers :: headers where
  "demo_headers = [(''x-auth-user'', ''u''), (''x-infraweave-verified-claims'', ''c'')]"

lemma middleware_requires_grants_witness:
  "auth_middleware demo_auth demo_headers [(''project'', ''p2,p1'')] = Inr ()
   \<and> (\<exists>claims allowed. extract_jwt_claims demo_auth demo_headers = Some claims
       \<and> jget claims (allowed_projects_claim_key demo_auth) = Some (JString allowed) \<and> ''p1'' \<in> set (comma_list allowed))
   \<and> auth_middleware demo_auth demo_headers [(''project'', ''p3'')] = Inl (forbidden ''Access denied to this project'')"
proof -
  have r: "auth_middleware demo_auth demo_headers [(''project'', ''p2,p1'')] = Inr ()"
    by code_simp
  have "get_header demo_headers ''x-auth-user'' \<noteq> None \<and>
    (\<forall>q \<in> set (comma_list ''p2,p1''). \<exists>claims allowed. extract_jwt_claims demo_auth demo_headers = Some claims
       \<and> jget claims (allowed_projects_claim_key demo_auth) = Some (JString allowed) \<and> q \<in> set (comma_list allowed))"
    by (rule middleware_requires_grants [OF r]) (simp_all add: demo_auth_def)
  moreover have "''p1'' \<in> set (comma_list ''p2,p1'')"
    by code_simp
  moreover have "auth_middleware demo_auth demo_headers [(''project'', ''p3'')] = Inl (forbidden ''Access denied to this project'')"
    by code_simp
  ultimately show ?thesis using r by blast
qed

section \<open>Identity headers cannot be injected\<close>

definition lower_names :: "headers \<Rightarrow> headers" where
  "lower_names hs = List.map (\<lambda>(k, v). (to_lowercase k, v)) hs"

lemma client_headers_names:
  "(k, v) \<in> set (client_headers payload) \<Longrightarrow>
   to_lowercase k \<noteq> ''x-auth-user'' \<and> to_lowercase k \<noteq> ''x-infraweave-verified-claims''"
proof -
  have l: "to_lowercase ''x-auth-user'' = ''x-auth-user''"
    "to_lowercase ''x-infraweave-verified-claims'' = ''x-infraweave-verified-claims''"
    by code_simp+
  assume "(k, v) \<in> set (client_headers payload)"
  then have "\<not> eq_ignore_ascii_case k ''x-auth-user'' \<and> \<not> eq_ignore_ascii_case k ''x-infraweave-verified-claims''"
    by (auto simp: client_headers_def split: option.splits if_splits)
  then show ?thesis by (simp add: eq_ignore_ascii_case_def l)
qed

lemma client_headers_silent:
  "map_of (lower_names (client_headers payload)) ''x-auth-user'' = None"
  "map_of (lower_names (client_headers payload)) ''x-infraweave-verified-claims'' = None"
  using client_headers_names by (fastforce simp: lower_names_def map_of_eq_None_iff)+

lemma context_headers_names: "lower_names (context_headers ae payload) = context_headers ae payload"
proof -
  have l: "to_lowercase ''x-auth-user'' = ''x-auth-user''"
    "to_lowercase ''x-infraweave-verified-claims'' = ''x-infraweave-verified-claims''"
    "to_lowercase ''x-allowed-projects'' = ''x-allowed-projects''"
    by code_simp+
  show ?thesis
    by (auto simp: lower_names_def context_headers_def Let_def l split: option.split)
qed

lemma request_header:
  assumes "request_headers ae payload = Inr h"
  shows "get_header h ''x-auth-user'' = map_of (context_headers ae payload) ''x-auth-user''"
    and "get_header h ''x-infraweave-verified-claims'' = map_of (context_headers ae payload) ''x-infraweave-verified-claims''"
proof -
  have h: "h = lower_names (client_headers payload) @ context_headers ae payload"
    using assms context_headers_names [of ae payload]
    by (auto simp: request_headers_def Let_def lower_names_def split: if_splits)
  show "get_header h ''x-auth-user'' = map_of (context_headers ae payload) ''x-auth-user''"
    "get_header h ''x-infraweave-verified-claims'' = map_of (context_headers ae payload) ''x-infraweave-verified-claims''"
    unfolding h get_header_def map_of_append by (simp_all only: map_add_def client_headers_silent option.case)
qed

definition gateway_claims :: "json \<Rightarrow> json option" where
  "gateway_claims payload =
     Option.bind (Option.bind (jget payload ''requestContext'') (\<lambda>ctx. jget ctx ''authorizer'')) authorizer_claims"

lemma context_user:
  assumes "map_of (context_headers ae payload) ''x-auth-user'' = Some u" "\<not> is_token_route payload"
  shows "\<exists>claims. gateway_claims payload = Some claims
     \<and> map_of (context_headers ae payload) ''x-infraweave-verified-claims'' = Some (ae_encode ae claims)"
  using assms by (auto simp: context_headers_def gateway_claims_def Let_def bind_eq_Some_conv split: option.splits)

text \<open>
  C25: what a client writes in its headers gives it no access. When a request built from an API
  Gateway event passes the project check, on any route but the token route, the claims that grant
  the project are the ones the gateway has put in the request context.
\<close>

theorem no_injected_access:
  assumes codec: "\<And>claims. gateway_claims payload = Some claims \<Longrightarrow> ae_decode ae (ae_encode ae claims) = Some claims"
    and "request_headers ae payload = Inr h" "ensure_access ae h p = Inr ()" "\<not> ae_local ae" "\<not> is_token_route payload"
  shows "\<exists>claims allowed. gateway_claims payload = Some claims
     \<and> jget claims (allowed_projects_claim_key ae) = Some (JString allowed) \<and> p \<in> set (comma_list allowed)"
proof -
  obtain u where "get_header h ''x-auth-user'' = Some u"
    using ensure_access_user [OF assms(3,4)] by blast
  then have "map_of (context_headers ae payload) ''x-auth-user'' = Some u"
    using request_header(1) [OF assms(2)] by simp
  from context_user [OF this assms(5)] obtain claims where c: "gateway_claims payload = Some claims"
    and e: "map_of (context_headers ae payload) ''x-infraweave-verified-claims'' = Some (ae_encode ae claims)"
    by blast
  have "extract_verified_claims ae h = Some claims"
    using request_header(2) [OF assms(2)] e codec [OF c] by (simp add: extract_verified_claims_def)
  then have "extract_jwt_claims ae h = Some claims"
    by (simp add: extract_jwt_claims_def)
  with ensure_access_granted [OF assms(3,4)] c show ?thesis by auto
qed

text \<open>An event whose client claims to be someone else.\<close>

definition demo_event :: json where
  "demo_event = JObject [(''headers'', JObject [(''X-Auth-User'', JString ''root'')]),
     (''path'', JString ''/api/v1/deployments/p1/r''),
     (''requestContext'', JObject [(''authorizer'', JObject [(''jwt'', JObject [(''claims'', demo_claims)])])])]"

lemma no_injected_access_witness:
  "\<exists>h. request_headers demo_auth demo_event = Inr h \<and> get_header h ''x-auth-user'' = Some ''u''
     \<and> (\<exists>claims allowed. gateway_claims demo_event = Some claims
          \<and> jget claims (allowed_projects_claim_key demo_auth) = Some (JString allowed) \<and> ''p2'' \<in> set (comma_list allowed))"
proof -
  let ?h = "[(''x-auth-user'', ''u''), (''x-allowed-projects'', ''p1, p2''), (''x-infraweave-verified-claims'', ''c'')]"
  have h: "request_headers demo_auth demo_event = Inr ?h"
    by code_simp
  have g: "gateway_claims demo_event = Some demo_claims"
    by (simp add: gateway_claims_def demo_event_def authorizer_claims_def)
  have a: "ensure_access demo_auth ?h ''p2'' = Inr ()" "\<not> is_token_route demo_event"
    by code_simp+
  have "\<exists>claims allowed. gateway_claims demo_event = Some claims
          \<and> jget claims (allowed_projects_claim_key demo_auth) = Some (JString allowed) \<and> ''p2'' \<in> set (comma_list allowed)"
    by (rule no_injected_access [OF _ h a(1) _ a(2)]) (simp_all add: g demo_auth_def)
  moreover have "get_header ?h ''x-auth-user'' = Some ''u''"
    by code_simp
  ultimately show ?thesis using h by blast
qed

section \<open>Publishing\<close>

definition lacks :: "string \<Rightarrow> (string, json) btree \<Rightarrow> bool" where
  "lacks k m \<longleftrightarrow> k \<notin> fst ` set m"

lemma lacks_intros:
  "lacks k []" "k \<noteq> k' \<Longrightarrow> lacks k m \<Longrightarrow> lacks k (bt_insert k' v m)"
  "k \<noteq> k' \<Longrightarrow> lacks k m \<Longrightarrow> lacks k (copy_claim claims c k' m)"
  "lacks k m \<Longrightarrow> (\<And>x. lacks k (f x)) \<Longrightarrow> lacks k (case w of None \<Rightarrow> m | Some x \<Rightarrow> f x)"
  by (auto simp: lacks_def copy_claim_def keys_bt_insert split: option.splits)

lemma identity_lacks_provider:
  assumes "extract_identity provider claims = Some facts"
  shows "lacks ''provider'' facts"
proof (cases provider)
  case Raw
  then show ?thesis
    using assms by (auto simp: extract_raw_def simp del: bt_insert.simps intro!: lacks_intros)
next
  case GitHubOidc
  have l: "lacks ''provider'' (copy_claim claims ''environment'' ''environment''
      (copy_claim claims ''job_workflow_ref'' ''workflow_ref''
        (case w of Some w \<Rightarrow> bt_insert ''workflow_name'' (JString w)
            (case c of Some c \<Rightarrow> bt_insert ''ref'' (JString c)
               (bt_insert ''repository_owner'' a (bt_insert ''repository_name'' b (bt_insert ''repository'' d
                  (copy_claim claims ''iss'' ''issuer'' []))))
             | None \<Rightarrow> bt_insert ''repository_owner'' a (bt_insert ''repository_name'' b (bt_insert ''repository'' d
                  (copy_claim claims ''iss'' ''issuer'' []))))
          | None \<Rightarrow> (case c of Some c \<Rightarrow> bt_insert ''ref'' (JString c)
               (bt_insert ''repository_owner'' a (bt_insert ''repository_name'' b (bt_insert ''repository'' d
                  (copy_claim claims ''iss'' ''issuer'' []))))
             | None \<Rightarrow> bt_insert ''repository_owner'' a (bt_insert ''repository_name'' b (bt_insert ''repository'' d
                  (copy_claim claims ''iss'' ''issuer'' [])))))))" for w c a b d
    by (intro lacks_intros) simp_all
  show ?thesis
    using assms l unfolding GitHubOidc extract_identity.simps extract_github_def Let_def bind_eq_Some_conv
    by (auto simp del: bt_insert.simps split: if_splits prod.splits)
qed

lemma input_identity:
  "jget (publish_rego_input provider facts resource_type resource_name track) ''identity''
     = Some (JObject (fold (\<lambda>(k, v). bt_insert k v) facts (bt_insert ''provider'' (JString (provider_str provider)) [])))"
  "jget (publish_rego_input provider facts resource_type resource_name track) ''request''
     = Some (jobj ([(''action'', JString ''publish''), (''resource_type'', JString resource_type),
                     (''resource_name'', JString resource_name)]
            @ (case track of Some t \<Rightarrow> [(''track'', JString t)] | None \<Rightarrow> [])))"
  by (simp_all add: publish_rego_input_def jobj_def Let_def)

lemma fold_keeps_key:
  assumes "lacks k facts" "bt_wf m"
  shows "map_of (fold (\<lambda>(k, v). bt_insert k v) facts m) k = map_of m k"
  using assms by (induction facts arbitrary: m) (auto simp: lacks_def)

text \<open>
  C26: publishing fails closed. Outside local builds a publish is allowed only when the verified
  claims of the request yield an identity and the configured policy evaluates to true, exactly, on
  an input that names this resource and, whatever claims the token holds, the provider that was
  detected from its issuer.
\<close>

theorem publish_fails_closed:
  assumes "ensure_publish_access ae rego read now cache h resource_type resource_name track = (Inr (), cache')"
    and "\<not> ae_local ae"
  shows "\<exists>claims facts policy input. extract_verified_claims ae h = Some claims
     \<and> extract_identity (detect claims) claims = Some facts
     \<and> publish_rego_policy ae read now cache = (Inr policy, cache')
     \<and> json_to_rego_value ae (publish_rego_input (detect claims) facts resource_type resource_name track) = Inr input
     \<and> rego policy input = Inr (Some (RegoBool True))
     \<and> Option.bind (jget (publish_rego_input (detect claims) facts resource_type resource_name track) ''identity'')
          (\<lambda>i. jget i ''provider'') = Some (JString (provider_str (detect claims)))"
proof -
  obtain claims where c: "extract_verified_claims ae h = Some claims"
    and k: "check_publish ae rego read now cache claims resource_type resource_name track = (True, cache')"
    using assms by (auto simp: ensure_publish_access_def split: option.splits prod.splits bool.splits if_splits)
  obtain facts where f: "extract_identity (detect claims) claims = Some facts"
    and r: "check_publish_with_rego ae rego read now cache (detect claims) facts resource_type resource_name track = (Inr True, cache')"
    using k by (auto simp: check_publish_def Let_def split: if_splits option.splits sum.splits prod.splits)
  obtain policy where p: "publish_rego_policy ae read now cache = (Inr policy, cache')"
    and e: "res_bind (json_to_rego_value ae (publish_rego_input (detect claims) facts resource_type resource_name track)) (\<lambda>input.
           res_bind (rego policy input) (\<lambda>value.
           case value of
             None \<Rightarrow> Inr False
           | Some (RegoBool allowed) \<Rightarrow> Inr allowed
           | Some _ \<Rightarrow> Inl ''publish policy returned non-boolean allow value'')) = Inr True"
    using r by (auto simp: check_publish_with_rego_def split: sum.splits prod.splits)
  obtain input v where i: "json_to_rego_value ae (publish_rego_input (detect claims) facts resource_type resource_name track) = Inr input"
    and v: "rego policy input = Inr v"
    and t: "(case v of None \<Rightarrow> Inr False | Some (RegoBool allowed) \<Rightarrow> Inr allowed
           | Some _ \<Rightarrow> Inl ''publish policy returned non-boolean allow value'') = Inr True"
    using e unfolding res_bind_eq_Inr by blast
  have "v = Some (RegoBool True)"
    using t by (auto split: option.splits rego_value.splits)
  moreover have "Option.bind (jget (publish_rego_input (detect claims) facts resource_type resource_name track) ''identity'')
          (\<lambda>i. jget i ''provider'') = Some (JString (provider_str (detect claims)))"
    using fold_keeps_key [OF identity_lacks_provider [OF f], of "bt_insert ''provider'' (JString (provider_str (detect claims))) []"]
    by (simp add: input_identity bt_wf_Cons)
  ultimately show ?thesis using c f p i v by blast
qed

text \<open>A policy that lets one subject publish, as the value of its rule on the input.\<close>

definition demo_rego :: "string \<Rightarrow> rego_value \<Rightarrow> (string, rego_value option) result" where
  "demo_rego policy input = (if policy = ''allow'' then Inr (Some (RegoBool True)) else Inr None)"

lemma publish_fails_closed_witness:
  "fst (ensure_publish_access demo_auth demo_rego (\<lambda>_. Inr ''allow'') 7 None demo_headers ''module'' ''m'' (Some ''stable'')) = Inr ()
   \<and> fst (ensure_publish_access demo_auth demo_rego (\<lambda>_. Inr ''deny'') 7 None demo_headers ''module'' ''m'' (Some ''stable'')) \<noteq> Inr ()
   \<and> (\<exists>facts policy input cache'. publish_rego_policy demo_auth (\<lambda>_. Inr ''allow'') 7 None = (Inr policy, cache')
        \<and> json_to_rego_value demo_auth (publish_rego_input Raw facts ''module'' ''m'' (Some ''stable'')) = Inr input
        \<and> demo_rego policy input = Inr (Some (RegoBool True)))"
proof -
  let ?cache = "Some \<lparr>cp_parameter_name = ''/policy'', cp_policy = ''allow'', cp_expires_at = 307\<rparr>"
  have a: "ensure_publish_access demo_auth demo_rego (\<lambda>_. Inr ''allow'') 7 None demo_headers ''module'' ''m'' (Some ''stable'')
      = (Inr (), ?cache)"
    by code_simp
  have d: "detect demo_claims = Raw" "extract_verified_claims demo_auth demo_headers = Some demo_claims"
    by code_simp+
  have l: "\<not> ae_local demo_auth"
    by (simp add: demo_auth_def)
  obtain claims facts policy input where "extract_verified_claims demo_auth demo_headers = Some claims"
      and p: "publish_rego_policy demo_auth (\<lambda>_. Inr ''allow'') 7 None = (Inr policy, ?cache)"
      and i: "json_to_rego_value demo_auth (publish_rego_input (detect claims) facts ''module'' ''m'' (Some ''stable'')) = Inr input"
      and r: "demo_rego policy input = Inr (Some (RegoBool True))"
    using publish_fails_closed [OF a l] by (elim exE conjE) blast
  then have "claims = demo_claims" using d by simp
  moreover have "fst (ensure_publish_access demo_auth demo_rego (\<lambda>_. Inr ''deny'') 7 None demo_headers ''module'' ''m'' (Some ''stable'')) \<noteq> Inr ()"
    by code_simp
  ultimately show ?thesis using a p i r d by auto
qed

section \<open>The policy cache over time\<close>

text \<open>The successful read of a request, if it makes one: the time, the parameter and the policy.\<close>

definition policy_read ::
  "auth_env \<Rightarrow> (string \<Rightarrow> (string, string) result) \<Rightarrow> nat \<Rightarrow> cached_policy option \<Rightarrow> (nat \<times> string \<times> string) list" where
  "policy_read ae read now cache =
     (case ae_var ae ''AUTH_PUBLISH_REGO_POLICY_PARAMETER'' of
        None \<Rightarrow> []
      | Some p \<Rightarrow>
          if lookup_cached_policy cache now p \<noteq> None then []
          else (case read p of Inl _ \<Rightarrow> [] | Inr policy \<Rightarrow> [(now, p, policy)]))"

text \<open>
  The process serves requests one after the other while time passes; the parameter store may
  answer every read differently. The last component remembers the reads.
\<close>

inductive policy_run :: "auth_env \<Rightarrow> nat \<Rightarrow> cached_policy option \<Rightarrow> (nat \<times> string \<times> string) list \<Rightarrow> bool" for ae where
  start: "policy_run ae 0 None []"
| wait: "policy_run ae t cache reads \<Longrightarrow> t \<le> t' \<Longrightarrow> policy_run ae t' cache reads"
| serve: "policy_run ae t cache reads \<Longrightarrow>
    policy_run ae t (snd (publish_rego_policy ae read t cache)) (policy_read ae read t cache @ reads)"

inductive_cases policy_runE: "policy_run ae t (Some c) reads"

lemma cache_comes_from_read:
  "policy_run ae t cache reads \<Longrightarrow> cache = Some c \<Longrightarrow>
   \<exists>t0 \<le> t. (t0, cp_parameter_name c, cp_policy c) \<in> set reads \<and> cp_expires_at c = t0 + policy_cache_ttl ae"
proof (induction arbitrary: c rule: policy_run.induct)
  case (wait t cache reads t')
  obtain t0 where "t0 \<le> t" "(t0, cp_parameter_name c, cp_policy c) \<in> set reads"
      "cp_expires_at c = t0 + policy_cache_ttl ae"
    using wait.IH [OF wait.prems] by blast
  moreover have "t0 \<le> t'" using \<open>t0 \<le> t\<close> wait.hyps(2) by (rule order_trans)
  ultimately show ?case by blast
next
  case (serve t cache reads read)
  show ?case
  proof (cases "snd (publish_rego_policy ae read t cache) = cache")
    case True
    with serve.prems have "cache = Some c" by simp
    with serve.IH show ?thesis by fastforce
  next
    case False
    with serve.prems have "(t, cp_parameter_name c, cp_policy c) \<in> set (policy_read ae read t cache)
       \<and> cp_expires_at c = t + policy_cache_ttl ae"
      unfolding publish_rego_policy_def policy_read_def
      by (simp split: option.splits sum.splits if_splits) auto
    then show ?thesis by (intro exI [of _ t]) simp
  qed
qed simp

text \<open>
  C27: a policy is never used for longer than its time to live. In every state the process can
  reach, the policy a request is checked against was read from the configured parameter, by this
  request or by one less than the cache's time to live ago.
\<close>

theorem policy_is_fresh:
  assumes "policy_run ae t cache reads" "publish_rego_policy ae read t cache = (Inr policy, cache')"
  shows "\<exists>p t0. ae_var ae ''AUTH_PUBLISH_REGO_POLICY_PARAMETER'' = Some p
     \<and> (t0, p, policy) \<in> set (policy_read ae read t cache @ reads) \<and> t0 \<le> t
     \<and> (t0 = t \<or> t < t0 + policy_cache_ttl ae)"
proof -
  obtain p where p: "ae_var ae ''AUTH_PUBLISH_REGO_POLICY_PARAMETER'' = Some p"
    using assms(2) by (auto simp: publish_rego_policy_def split: option.splits)
  show ?thesis
  proof (cases "lookup_cached_policy cache t p")
    case None
    then have "(t, p, policy) \<in> set (policy_read ae read t cache)"
      using assms(2) p by (auto simp: publish_rego_policy_def policy_read_def split: sum.splits if_splits)
    with p show ?thesis by auto
  next
    case (Some pol)
    then obtain c where c: "cache = Some c" "cp_parameter_name c = p" "t < cp_expires_at c" "pol = cp_policy c"
      by (auto simp: lookup_cached_policy_def split: option.splits if_splits)
    have "policy = pol"
      using assms(2) p Some by (simp add: publish_rego_policy_def)
    with cache_comes_from_read [OF assms(1) c(1)] c p show ?thesis by auto
  qed
qed

lemma policy_is_fresh_witness:
  "\<exists>p t0. ae_var demo_auth ''AUTH_PUBLISH_REGO_POLICY_PARAMETER'' = Some p
     \<and> (t0, p, ''old'') \<in> set [(5, ''/policy'', ''old'')] \<and> (9::nat) < t0 + policy_cache_ttl demo_auth"
proof -
  let ?c = "Some \<lparr>cp_parameter_name = ''/policy'', cp_policy = ''old'', cp_expires_at = 305\<rparr>"
  have p: "publish_rego_policy demo_auth (\<lambda>_. Inr ''old'') 5 None = (Inr ''old'', ?c)"
    "policy_read demo_auth (\<lambda>_. Inr ''old'') 5 None = [(5, ''/policy'', ''old'')]"
    by code_simp+
  have "policy_run demo_auth 5 ?c [(5, ''/policy'', ''old'')]"
    using serve [OF wait [OF start], of 5 demo_auth "\<lambda>_. Inr ''old''"] by (simp add: p)
  then have r: "policy_run demo_auth 9 ?c [(5, ''/policy'', ''old'')]"
    by (rule wait) simp
  have q: "publish_rego_policy demo_auth (\<lambda>_. Inr ''new'') 9 ?c = (Inr ''old'', ?c)"
    "policy_read demo_auth (\<lambda>_. Inr ''new'') 9 ?c = []"
    by code_simp+
  show ?thesis
    using policy_is_fresh [OF r q(1)] q(2) by auto
qed

end
