(* ===== verification/Variables.thy ===== *)
theory Variables
  imports Module
begin

text \<open>
  The variables of a claim: \<open>DeploymentManifest\<close> of \<open>defs/src/deployment.rs\<close>, the verification
  of \<open>utils/src/variables.rs\<close> and the conversion of keys of \<open>utils/src/json.rs\<close>. The case
  conversions are the crate \<open>heck\<close> and a claim is parsed by \<open>serde_yaml\<close>: both are parameters,
  the record \<open>text_lib\<close>. References \<open>{{ Kind::claim::field }}\<close> are found by the regular
  expression of the code, written out as a scanner.
\<close>

section \<open>Claims\<close>

record deployment_metadata =
  dm_name :: string
  dm_namespace :: "string option"
  dm_annotations :: "(yaml \<times> yaml) list option"
  dm_labels :: "(yaml \<times> yaml) list option"

record dependency_spec =
  dsp_deployment_id :: string
  dsp_environment :: string

record deployment_spec =
  dsc_module_version :: "string option"
  dsc_stack_version :: "string option"
  dsc_region :: string
  dsc_reference :: "string option"
  dsc_variables :: "(yaml \<times> yaml) list"
  dsc_dependencies :: "dependency_spec list option"
  dsc_drift_detection :: "drift_detection option"

record deployment_manifest =
  dmf_metadata :: deployment_metadata
  dmf_api_version :: string
  dmf_kind :: string
  dmf_spec :: deployment_spec

text \<open>
  \<open>tl_snake\<close> and \<open>tl_camel\<close> are \<open>heck\<close>'s conversions, \<open>tl_json\<close> is \<open>serde_json::to_value\<close> on a
  YAML mapping.
\<close>

record text_lib =
  tl_snake :: "string \<Rightarrow> string"
  tl_camel :: "string \<Rightarrow> string"
  tl_json :: "(yaml \<times> yaml) list \<Rightarrow> (string, json) result"

definition to_snake_case :: "text_lib \<Rightarrow> string \<Rightarrow> string" where
  "to_snake_case lib s = tl_snake lib s"

definition to_camel_case :: "text_lib \<Rightarrow> string \<Rightarrow> string" where
  "to_camel_case lib s = tl_camel lib s"

text \<open>The variables of a claim as JSON; an empty mapping is not converted.\<close>

definition provided_variables :: "text_lib \<Rightarrow> deployment_manifest \<Rightarrow> (string, json) result" where
  "provided_variables lib claim =
     (if dsc_variables (dmf_spec claim) = [] then Inr (JObject []) else tl_json lib (dsc_variables (dmf_spec claim)))"

text \<open>\<open>yaml[key]\<close> and \<open>as_str\<close> of \<open>serde_yaml\<close>.\<close>

fun yaml_get :: "string \<Rightarrow> yaml \<Rightarrow> yaml" where
  "yaml_get key (YMap kvs) = (case map_of kvs (YString key) of Some v \<Rightarrow> v | None \<Rightarrow> YNull)"
| "yaml_get key (YTagged t v) = yaml_get key v"
| "yaml_get key _ = YNull"

fun yaml_str :: "yaml \<Rightarrow> string option" where
  "yaml_str (YString s) = Some s"
| "yaml_str (YTagged t v) = yaml_str v"
| "yaml_str _ = None"

section \<open>References\<close>

text \<open>\<open>\{\{\s*(\w+)::(\w+)::(\w+)\s*\}\}\<close>: at the start of the text, and every match in it.\<close>

definition is_word :: "char \<Rightarrow> bool" where
  "is_word c \<longleftrightarrow> is_alphanumeric c \<or> c = CHR ''_''"

definition match_word :: "string \<Rightarrow> (string \<times> string) option" where
  "match_word s = (if takeWhile is_word s = [] then None else Some (takeWhile is_word s, dropWhile is_word s))"

definition match_lit :: "string \<Rightarrow> string \<Rightarrow> string option" where
  "match_lit p s = (if starts_with s p then Some (drop (length p) s) else None)"

definition match_ref :: "string \<Rightarrow> ((string \<times> string \<times> string) \<times> string) option" where
  "match_ref s =
     Option.bind (match_lit ''{{'' s) (\<lambda>s1.
     Option.bind (match_word (dropWhile is_space s1)) (\<lambda>(kind, s2).
     Option.bind (match_lit ''::'' s2) (\<lambda>s3.
     Option.bind (match_word s3) (\<lambda>(claim, s4).
     Option.bind (match_lit ''::'' s4) (\<lambda>s5.
     Option.bind (match_word s5) (\<lambda>(field, s6).
     Option.bind (match_lit ''}}'' (dropWhile is_space s6)) (\<lambda>s7.
     Some ((kind, claim, field), s7))))))))"

lemma match_lit_shorter: "match_lit p s = Some r \<Longrightarrow> length r \<le> length s"
  by (auto simp: match_lit_def split: if_splits)

lemma match_word_shorter: "match_word s = Some (w, r) \<Longrightarrow> length r < length s"
proof -
  assume "match_word s = Some (w, r)"
  then have "r = dropWhile is_word s" "takeWhile is_word s \<noteq> []"
    by (auto simp: match_word_def split: if_splits)
  then have "s = takeWhile is_word s @ r" "takeWhile is_word s \<noteq> []"
    by simp_all
  then show ?thesis by (metis add_less_cancel_right length_append length_greater_0_conv add_0)
qed

lemma drop_space_shorter: "length (dropWhile is_space s) \<le> length s"
  by (rule length_dropWhile_le)

lemma match_ref_shorter: "match_ref s = Some (r, rest) \<Longrightarrow> length rest < length s"
proof -
  assume "match_ref s = Some (r, rest)"
  then obtain s1 k s2 s3 c s4 s5 f s6 where
    m: "match_lit ''{{'' s = Some s1" "match_word (dropWhile is_space s1) = Some (k, s2)"
      "match_lit ''::'' s2 = Some s3" "match_word s3 = Some (c, s4)" "match_lit ''::'' s4 = Some s5"
      "match_word s5 = Some (f, s6)" "match_lit ''}}'' (dropWhile is_space s6) = Some rest"
    unfolding match_ref_def by (auto simp: bind_eq_Some_conv split: prod.splits)
  from m(1) have "length s1 \<le> length s" by (rule match_lit_shorter)
  moreover from m(2) have "length s2 < length s1"
    using match_word_shorter drop_space_shorter less_le_trans by blast
  moreover from m(3) have "length s3 \<le> length s2" by (rule match_lit_shorter)
  moreover from m(4) have "length s4 < length s3" by (rule match_word_shorter)
  moreover from m(5) have "length s5 \<le> length s4" by (rule match_lit_shorter)
  moreover from m(6) have "length s6 < length s5" by (rule match_word_shorter)
  moreover from m(7) have "length rest \<le> length s6"
    using match_lit_shorter drop_space_shorter le_trans by blast
  ultimately show ?thesis by linarith
qed

text \<open>\<open>captures_iter\<close>: from left to right, without overlaps.\<close>

function (sequential) find_refs :: "string \<Rightarrow> (string \<times> string \<times> string) list" where
  "find_refs [] = []"
| "find_refs (c # cs) =
     (case match_ref (c # cs) of Some (r, rest) \<Rightarrow> r # find_refs rest | None \<Rightarrow> find_refs cs)"
  by pat_completeness auto
termination
  by (relation "measure length") (auto dest: match_ref_shorter)

definition is_reference :: "json \<Rightarrow> bool" where
  "is_reference v \<longleftrightarrow> (case as_str v of Some s \<Rightarrow> find_refs s \<noteq> [] | None \<Rightarrow> False)"

section \<open>Verification\<close>

definition verify_variable_claim_casing :: "text_lib \<Rightarrow> deployment_manifest \<Rightarrow> json \<Rightarrow> (string, unit) result" where
  "verify_variable_claim_casing lib claim provided =
     (case as_object provided of
        None \<Rightarrow> Inr ()
      | Some vars \<Rightarrow>
          try_all (\<lambda>(name, _).
            if name \<noteq> to_camel_case lib name
            then Inl (''Variable name casing mismatch in claim '' @ [CHR 0x27] @ dm_name (dmf_metadata claim)
                   @ [CHR 0x27] @ '': Provided '' @ [CHR 0x27] @ name @ [CHR 0x27] @ '', expected '' @ [CHR 0x27]
                   @ to_camel_case lib name @ [CHR 0x27])
            else Inr ()) vars)"

fun value_type :: "json \<Rightarrow> string" where
  "value_type (JString _) = ''string''"
| "value_type (JNumber _) = ''number''"
| "value_type (JBool _) = ''bool''"
| "value_type (JArray _) = ''list''"
| "value_type JNull = ''null''"
| "value_type (JObject _) = ''object''"

fun declared_type :: "json \<Rightarrow> string" where
  "declared_type (JBool _) = ''bool''"
| "declared_type (JNumber _) = ''number''"
| "declared_type (JString val) =
     (if starts_with val ''map('' \<or> starts_with val ''object('' then ''object''
      else if starts_with val ''list('' \<or> starts_with val ''set('' then ''list''
      else val)"
| "declared_type (JArray _) = ''list''"
| "declared_type (JObject _) = ''object''"
| "declared_type JNull = ''null''"

text \<open>The variables of a module, then those of its providers.\<close>

definition known_variables :: "module_resp \<Rightarrow> tf_variable list" where
  "known_variables m = mr_tf_variables m @ concat (List.map pv_tf_variables (mr_tf_providers m))"

definition quoted :: "string \<Rightarrow> string" where
  "quoted s = [CHR 0x22] @ s @ [CHR 0x22]"

definition variable_errors :: "module_resp \<Rightarrow> string \<times> json \<Rightarrow> string list" where
  "variable_errors m kv = (case kv of (key, val) \<Rightarrow>
     (case find (\<lambda>v. tfv_name v = key) (known_variables m) of
        Some var \<Rightarrow>
          if declared_type (tfv_type var) = ''any'' then []
          else if value_type val \<noteq> declared_type (tfv_type var) then
            if is_reference val then []
            else if value_type val = ''null'' \<and> tfv_nullable var then []
            else [''Variable '' @ quoted key @ '' is of type '' @ value_type val @ '' but should be of type ''
                    @ declared_type (tfv_type var)]
          else []
      | None \<Rightarrow>
          [''Variable '' @ quoted key @ '' not found in this '' @ mr_module_type m @ '' version ('' @ mr_version m
             @ ''). Please check the documentation for available variables'']))"

definition verify_variable_existence_and_type :: "module_resp \<Rightarrow> json \<Rightarrow> (string, unit) result" where
  "verify_variable_existence_and_type m variables =
     (case as_object variables of
        None \<Rightarrow> Inl ''Expected variables to be a JSON object''
      | Some vars \<Rightarrow>
          let errors = concat (List.map (variable_errors m) vars)
          in if errors = [] then Inr () else Inl (join ''; '' errors))"

text \<open>\<open>sort_by_key\<close> is stable; \<open>dedup_by_key\<close> keeps the first of equal neighbours.\<close>

definition insert_variable :: "tf_variable \<Rightarrow> tf_variable list \<Rightarrow> tf_variable list" where
  "insert_variable v vs = takeWhile (\<lambda>w. tfv_name w < tfv_name v) vs @ v # dropWhile (\<lambda>w. tfv_name w < tfv_name v) vs"

fun sort_by_name :: "tf_variable list \<Rightarrow> tf_variable list" where
  "sort_by_name [] = []"
| "sort_by_name (v # vs) = insert_variable v (sort_by_name vs)"

fun dedup_by_name :: "tf_variable list \<Rightarrow> tf_variable list" where
  "dedup_by_name [] = []"
| "dedup_by_name [v] = [v]"
| "dedup_by_name (v # w # vs) =
     (if tfv_name v = tfv_name w then dedup_by_name (v # vs) else v # dedup_by_name (w # vs))"

definition must_be_set :: "tf_variable \<Rightarrow> bool" where
  "must_be_set v =
     (if tfv_nullable v \<and> tfv_default v = Some JNull then False
      else if tfv_default v \<noteq> None \<and> tfv_default v \<noteq> Some JNull then False
      else True)"

text \<open>\<open>as_object().unwrap()\<close>: a value that is no object panics, here the outer \<open>None\<close>.\<close>

definition verify_required_variables_are_set :: "module_resp \<Rightarrow> json \<Rightarrow> (string, unit) result option" where
  "verify_required_variables_are_set m variables =
     (case as_object variables of
        None \<Rightarrow> None
      | Some vars \<Rightarrow>
          let provider_variables = dedup_by_name (sort_by_name (concat (List.map pv_tf_variables (mr_tf_providers m))));
              missing = List.map tfv_name (filter (\<lambda>v. must_be_set v \<and> map_of vars (tfv_name v) = None)
                          (mr_tf_variables m @ provider_variables))
          in Some (if missing \<noteq> []
                   then Inl (''Missing required variable'' @ (if length missing > 1 then ''s'' else []) @ '': ''
                          @ quoted (join ([CHR 0x22] @ '', '' @ [CHR 0x22]) missing))
                   else Inr ()))"

definition roundtrip_error :: "text_lib \<Rightarrow> string \<Rightarrow> string \<Rightarrow> string list" where
  "roundtrip_error lib msg name =
     (if name \<noteq> to_snake_case lib (to_camel_case lib name) then [msg] else [])"

definition roundtrip_text :: "text_lib \<Rightarrow> string \<Rightarrow> string \<Rightarrow> string list \<Rightarrow> string \<Rightarrow> string" where
  "roundtrip_text lib what plural examples name =
     (let q = (\<lambda>s. [CHR 0x27] @ s @ [CHR 0x27]); camel = to_camel_case lib name
      in what @ '' '' @ q name @ '' fails roundtrip case conversion: '' @ q name @ '' -> '' @ q camel @ '' -> ''
         @ q (to_snake_case lib camel) @ ''. '' @ plural @ '' must use snake_case naming (e.g., '' @ join '', '' (List.map q examples)
         @ '') to ensure proper conversion to camelCase for the API.'')"

definition verify_variable_name_roundtrip :: "text_lib \<Rightarrow> tf_variable list \<Rightarrow> (string, unit) result" where
  "verify_variable_name_roundtrip lib vs =
     (let errors = concat (List.map (\<lambda>v.
            if starts_with (tfv_name v) ''INFRAWEAVE_'' then []
            else roundtrip_error lib (roundtrip_text lib ''Variable'' ''Variables'' [''my_variable'', ''user_count''] (tfv_name v)) (tfv_name v)) vs)
      in if errors = [] then Inr ()
         else Inl (''Variable name roundtrip verification failed:'' @ [CHR 0x0A] @ join [CHR 0x0A] errors))"

definition verify_output_name_roundtrip :: "text_lib \<Rightarrow> tf_output list \<Rightarrow> (string, unit) result" where
  "verify_output_name_roundtrip lib outs =
     (let errors = concat (List.map (\<lambda>out.
            roundtrip_error lib (roundtrip_text lib ''Output'' ''Outputs'' [''my_output'', ''bucket_arn''] (tfo_name out)) (tfo_name out)) outs)
      in if errors = [] then Inr ()
         else Inl (''Output name roundtrip verification failed:'' @ [CHR 0x0A] @ join [CHR 0x0A] errors))"

section \<open>Conversion of keys\<close>

fun convert_first_level_keys_to_snake_case :: "text_lib \<Rightarrow> json \<Rightarrow> json" where
  "convert_first_level_keys_to_snake_case lib (JObject kvs) =
     JObject (bt_of_list (List.map (\<lambda>(key, val). (to_snake_case lib key, val)) kvs))"
| "convert_first_level_keys_to_snake_case lib (JArray xs) =
     JArray (List.map (convert_first_level_keys_to_snake_case lib) xs)"
| "convert_first_level_keys_to_snake_case lib v = v"

definition flat_entries :: "text_lib \<Rightarrow> string \<Rightarrow> string list \<Rightarrow> string \<times> json \<Rightarrow> (string \<times> json) list" where
  "flat_entries lib prefix dont_flatten kv = (case kv of (key, val) \<Rightarrow>
     let snake_key = to_snake_case lib key;
         path = (\<lambda>k. if prefix = [] then k else prefix @ ''__'' @ k)
     in if key \<in> set dont_flatten then [(snake_key, val)]
        else (case as_object val of
                Some children \<Rightarrow>
                  List.map (\<lambda>(k, v). (path (snake_key @ ''__'' @ to_snake_case lib k), v)) children
              | None \<Rightarrow> [(path snake_key, val)]))"

definition flatten_and_convert_first_level_keys_to_snake_case ::
  "text_lib \<Rightarrow> json \<Rightarrow> string \<Rightarrow> string list \<Rightarrow> json" where
  "flatten_and_convert_first_level_keys_to_snake_case lib v prefix dont_flatten =
     (case as_object v of
        Some kvs \<Rightarrow> JObject (bt_of_list (concat (List.map (flat_entries lib prefix dont_flatten) kvs)))
      | None \<Rightarrow> JObject [])"

section \<open>What is accepted\<close>

definition compatible :: "json \<Rightarrow> tf_variable \<Rightarrow> bool" where
  "compatible x v \<longleftrightarrow> declared_type (tfv_type v) \<in> {''any'', value_type x} \<or> is_reference x
     \<or> (x = JNull \<and> tfv_nullable v)"

lemma value_type_null [simp]: "value_type x = ''null'' \<longleftrightarrow> x = JNull"
  by (cases x) auto

lemma variable_errors_Nil:
  "variable_errors m (k, x) = [] \<longleftrightarrow>
     (\<exists>v. find (\<lambda>v. tfv_name v = k) (known_variables m) = Some v \<and> compatible x v)"
  by (simp add: variable_errors_def compatible_def split: option.split)

lemma existence_and_type_ok:
  "verify_variable_existence_and_type m x = Inr () \<longleftrightarrow>
     (\<exists>vars. x = JObject vars \<and> (\<forall>(k, y) \<in> set vars. variable_errors m (k, y) = []))"
  by (cases x) (auto simp: verify_variable_existence_and_type_def Let_def)

lemma must_be_set_required: "must_be_set v \<longleftrightarrow> required v"
  by (auto simp: must_be_set_def required_def)

subsection \<open>Sorting and removing duplicates keeps the first of each name\<close>

abbreviation first_named :: "string \<Rightarrow> tf_variable list \<Rightarrow> tf_variable option" where
  "first_named n vs \<equiv> find (\<lambda>v. tfv_name v = n) vs"

abbreviation by_name :: "tf_variable list \<Rightarrow> bool" where
  "by_name vs \<equiv> sorted (List.map tfv_name vs)"

lemma find_append: "find P (xs @ ys) = (case find P xs of Some x \<Rightarrow> Some x | None \<Rightarrow> find P ys)"
  by (induction xs) auto

lemma insert_variable_split:
  obtains as bs where "vs = as @ bs" "insert_variable v vs = as @ v # bs"
    "\<forall>w \<in> set as. tfv_name w < tfv_name v"
proof
  show "vs = takeWhile (\<lambda>w. tfv_name w < tfv_name v) vs @ dropWhile (\<lambda>w. tfv_name w < tfv_name v) vs"
    by simp
qed (auto simp: insert_variable_def dest: set_takeWhileD)

lemma set_sort_by_name [simp]: "set (sort_by_name vs) = set vs"
proof (induction vs)
  case (Cons v vs)
  then show ?case by (cases rule: insert_variable_split [of "sort_by_name vs" v]) auto
qed simp

lemma by_name_sort: "by_name (sort_by_name vs)"
proof (induction vs)
  case (Cons v vs)
  define as where "as = takeWhile (\<lambda>w. tfv_name w < tfv_name v) (sort_by_name vs)"
  define bs where bs: "bs = dropWhile (\<lambda>w. tfv_name w < tfv_name v) (sort_by_name vs)"
  have s: "sort_by_name vs = as @ bs" "insert_variable v (sort_by_name vs) = as @ v # bs"
    by (simp_all add: as_def bs insert_variable_def)
  have lt: "\<forall>w \<in> set as. tfv_name w < tfv_name v"
    by (auto simp: as_def dest: set_takeWhileD)
  have "\<forall>w \<in> set bs. tfv_name v \<le> tfv_name w"
  proof (cases bs)
    case (Cons b bs')
    have "\<not> tfv_name b < tfv_name v"
      using bs Cons dropWhile_eq_Cons_conv by metis
    with Cons.IH s(1) Cons show ?thesis by (auto simp: sorted_append not_less)
  qed simp
  with Cons.IH s lt show ?case by (auto simp: sorted_append)
qed simp

lemma first_named_sort [simp]: "first_named n (sort_by_name vs) = first_named n vs"
proof (induction vs)
  case (Cons v vs)
  obtain as bs where "sort_by_name vs = as @ bs" "insert_variable v (sort_by_name vs) = as @ v # bs"
    "\<forall>w \<in> set as. tfv_name w < tfv_name v"
    by (rule insert_variable_split)
  moreover from this(3) have "tfv_name v = n \<Longrightarrow> find (\<lambda>w. tfv_name w = n) as = None"
    by (auto simp: find_None_iff)
  ultimately show ?case using Cons.IH by (auto simp: find_append split: option.split)
qed simp

lemma in_dedup: "by_name vs \<Longrightarrow> w \<in> set (dedup_by_name vs) \<longleftrightarrow> first_named (tfv_name w) vs = Some w"
proof (induction vs rule: dedup_by_name.induct)
  case (3 v v' vs)
  have none: "tfv_name v < tfv_name v' \<Longrightarrow> by_name (v' # vs) \<Longrightarrow> find (\<lambda>u. tfv_name u = tfv_name v) (v' # vs) = None"
    unfolding find_None_iff by auto
  from 3 show ?case
  proof (cases "tfv_name v = tfv_name v'")
    case False
    with 3(3) have "tfv_name v < tfv_name v'" by (auto intro: order.not_eq_order_implies_strict)
    then have "w \<in> set (dedup_by_name (v' # vs)) \<Longrightarrow> tfv_name w \<noteq> tfv_name v"
      using none 3 False by (metis list.simps(9) option.distinct(1) sorted_simps(2))
    with 3 False show ?thesis by auto
  qed auto
qed auto

lemma first_named_name: "first_named n vs = Some v \<Longrightarrow> tfv_name v = n"
  by (auto simp: find_Some_iff)

lemma ball_dedup:
  "(\<forall>v \<in> set (dedup_by_name (sort_by_name vs)). Q v) \<longleftrightarrow> (\<forall>n v. first_named n vs = Some v \<longrightarrow> Q v)"
proof -
  have "v \<in> set (dedup_by_name (sort_by_name vs)) \<longleftrightarrow> (\<exists>n. first_named n vs = Some v)" for v
    using in_dedup [OF by_name_sort, of v vs] first_named_name by (metis first_named_sort)
  then show ?thesis by blast
qed

lemma named_in:
  "(\<forall>n v. first_named n vs = Some v \<longrightarrow> required v \<longrightarrow> tfv_name v \<in> S)
     \<longleftrightarrow> (\<forall>n v. first_named n vs = Some v \<longrightarrow> required v \<longrightarrow> n \<in> S)"
  by (metis first_named_name)

definition provider_variables :: "module_resp \<Rightarrow> tf_variable list" where
  "provider_variables m = concat (List.map pv_tf_variables (mr_tf_providers m))"

lemma required_variables_ok:
  "verify_required_variables_are_set m x = Some (Inr ()) \<longleftrightarrow>
     (\<exists>vars. x = JObject vars
        \<and> (\<forall>v \<in> set (mr_tf_variables m). required v \<longrightarrow> tfv_name v \<in> fst ` set vars)
        \<and> (\<forall>n v. first_named n (provider_variables m) = Some v \<longrightarrow> required v \<longrightarrow> n \<in> fst ` set vars))"
proof (cases x)
  case (JObject vars)
  let ?P = "\<lambda>v. must_be_set v \<and> map_of vars (tfv_name v) = None"
  let ?ds = "dedup_by_name (sort_by_name (provider_variables m))"
  have p: "?P v \<longleftrightarrow> required v \<and> tfv_name v \<notin> fst ` set vars" for v
    by (simp add: must_be_set_required map_of_eq_None_iff)
  have "verify_required_variables_are_set m x = Some (Inr ()) \<longleftrightarrow> filter ?P (mr_tf_variables m @ ?ds) = []"
    by (simp add: verify_required_variables_are_set_def JObject Let_def provider_variables_def)
  also have "\<dots> \<longleftrightarrow> (\<forall>v \<in> set (mr_tf_variables m) \<union> set ?ds. required v \<longrightarrow> tfv_name v \<in> fst ` set vars)"
    unfolding filter_empty_conv p by auto
  also have "\<dots> \<longleftrightarrow> (\<forall>v \<in> set (mr_tf_variables m). required v \<longrightarrow> tfv_name v \<in> fst ` set vars)
        \<and> (\<forall>n v. first_named n (provider_variables m) = Some v \<longrightarrow> required v \<longrightarrow> n \<in> fst ` set vars)"
    unfolding ball_Un ball_dedup named_in ..
  finally show ?thesis using JObject by simp
qed (simp_all add: verify_required_variables_are_set_def)

text \<open>
  C30: which variables a claim may and must set. The two verifications accept a value exactly when
  it is an object in which every key is a variable of the module or of one of its providers, with
  a value of its type (or a reference, or a null that is allowed), and which sets every required
  variable of the module and, of each provider variable, what its first declaration requires.
\<close>

theorem accepted_variables:
  "verify_variable_existence_and_type m x = Inr () \<and> verify_required_variables_are_set m x = Some (Inr ()) \<longleftrightarrow>
     (\<exists>vars. x = JObject vars
        \<and> (\<forall>(k, y) \<in> set vars. \<exists>v. first_named k (known_variables m) = Some v \<and> compatible y v)
        \<and> (\<forall>v \<in> set (mr_tf_variables m). required v \<longrightarrow> tfv_name v \<in> fst ` set vars)
        \<and> (\<forall>n v. first_named n (provider_variables m) = Some v \<longrightarrow> required v \<longrightarrow> n \<in> fst ` set vars))"
  unfolding existence_and_type_ok required_variables_ok variable_errors_Nil by blast

text \<open>A module with a required variable of its own and one of a provider.\<close>

definition demo_provider :: provider_resp where
  "demo_provider = \<lparr>pv_name = ''aws'', pv_version = ''1.0.0'', pv_timestamp = [], pv_description = [], pv_reference = [],
     pv_manifest = \<lparr>pm_metadata = \<lparr>md_name = ''aws''\<rparr>, pm_api_version = [], pm_kind = ''Provider'',
       pm_spec = \<lparr>ps_provider = ''aws'', ps_alias = None, ps_version = None, ps_description = [], ps_reference = []\<rparr>\<rparr>,
     pv_tf_variables = [tf_variable_default\<lparr>tfv_name := ''region''\<rparr>], pv_tf_extra_environment_variables = [],
     pv_s3_key = ''aws''\<rparr>"

definition demo_typed_module :: module_resp where
  "demo_typed_module = demo_module\<lparr>
     mr_tf_variables := [tf_variable_default\<lparr>tfv_name := ''size'', tfv_type := JString ''number''\<rparr>],
     mr_tf_providers := [demo_provider]\<rparr>"

lemma accepted_variables_witness:
  "verify_required_variables_are_set demo_typed_module (JObject [(''region'', JNull), (''size'', JNumber (PosInt 3))]) = Some (Inr ())
   \<and> \<not> (verify_variable_existence_and_type demo_typed_module (JObject [(''region'', JNull)]) = Inr ()
        \<and> verify_required_variables_are_set demo_typed_module (JObject [(''region'', JNull)]) = Some (Inr ()))"
proof
  have p: "provider_variables demo_typed_module = [tf_variable_default\<lparr>tfv_name := ''region''\<rparr>]"
    and m: "mr_tf_variables demo_typed_module = [tf_variable_default\<lparr>tfv_name := ''size'', tfv_type := JString ''number''\<rparr>]"
    by (simp_all add: provider_variables_def demo_typed_module_def demo_provider_def)
  then have k: "known_variables demo_typed_module =
      [tf_variable_default\<lparr>tfv_name := ''size'', tfv_type := JString ''number''\<rparr>, tf_variable_default\<lparr>tfv_name := ''region''\<rparr>]"
    by (simp add: known_variables_def provider_variables_def)
  show "verify_required_variables_are_set demo_typed_module (JObject [(''region'', JNull), (''size'', JNumber (PosInt 3))]) = Some (Inr ())"
    by (rule accepted_variables [THEN iffD2, THEN conjunct2]) (simp add: k p m compatible_def tf_variable_default_def starts_with_def)
  show "\<not> (verify_variable_existence_and_type demo_typed_module (JObject [(''region'', JNull)]) = Inr ()
        \<and> verify_required_variables_are_set demo_typed_module (JObject [(''region'', JNull)]) = Some (Inr ()))"
    unfolding accepted_variables by (simp add: m required_def tf_variable_default_def)
qed

section \<open>Names survive the conversion\<close>

lemma if_errors: "(if b then Inr () else Inl e) = Inr () \<longleftrightarrow> b"
  by simp

lemma concat_map_Nil: "concat (List.map f xs) = [] \<longleftrightarrow> (\<forall>x \<in> set xs. f x = [])"
  by simp

lemma roundtrip_names:
  "verify_variable_name_roundtrip lib vs = Inr () \<longleftrightarrow>
     (\<forall>v \<in> set vs. \<not> starts_with (tfv_name v) ''INFRAWEAVE_'' \<longrightarrow>
        to_snake_case lib (to_camel_case lib (tfv_name v)) = tfv_name v)"
  unfolding verify_variable_name_roundtrip_def Let_def if_errors concat_map_Nil
  by (intro ball_cong refl) (simp add: roundtrip_error_def eq_commute)

lemma bt_of_list_wf [simp]: "bt_wf (bt_of_list kvs)"
  by (rule bt.invar_fold) simp

lemma map_of_distinct_rev: "distinct (List.map fst kvs) \<Longrightarrow> map_of (rev kvs) = map_of kvs"
  by (simp add: map_of_inject_set rev_map [symmetric])

lemma map_of_bt_of_list: "distinct (List.map fst kvs) \<Longrightarrow> map_of (bt_of_list kvs) = map_of kvs"
  by (rule ext) (simp add: bt.look_collect map_of_distinct_rev)

lemma bt_of_list_perm:
  "distinct (List.map fst kvs) \<Longrightarrow> distinct (List.map fst kvs') \<Longrightarrow> set kvs = set kvs' \<Longrightarrow> bt_of_list kvs = bt_of_list kvs'"
  by (rule bt_ext) (simp_all add: map_of_bt_of_list map_of_inject_set)

lemma set_bt_of_list: "distinct (List.map fst kvs) \<Longrightarrow> set (bt_of_list kvs) = set kvs"
  using bt_wf_distinct [OF bt_of_list_wf] map_of_inject_set map_of_bt_of_list by metis

text \<open>
  The check at publishing makes the names that users write exact. When the variable names of a
  module pass it, the camel-case names of different variables differ, and a claim that gives
  values under the camel-case names arrives at Terraform as the same values under the names of
  the variables, none lost and none merged.
\<close>

theorem claim_names_roundtrip:
  assumes "verify_variable_name_roundtrip lib vs = Inr ()"
    and "set names \<subseteq> {n \<in> tfv_name ` set vs. \<not> starts_with n ''INFRAWEAVE_''}" "distinct names"
  shows "convert_first_level_keys_to_snake_case lib (jobj (List.map (\<lambda>n. (to_camel_case lib n, f n)) names))
     = jobj (List.map (\<lambda>n. (n, f n)) names) \<and> inj_on (to_camel_case lib) (set names)"
proof -
  have conv: "to_snake_case lib (to_camel_case lib n) = n" if "n \<in> set names" for n
    using assms(1,2) that unfolding roundtrip_names by auto
  then have inj: "inj_on (to_camel_case lib) (set names)"
    by (metis inj_onI)
  let ?camel = "List.map (\<lambda>n. (to_camel_case lib n, f n)) names" and ?own = "List.map (\<lambda>n. (n, f n)) names"
  let ?snake = "\<lambda>(k, y). (to_snake_case lib k, y)"
  have dc: "distinct (List.map fst ?camel)" and d: "distinct (List.map fst ?own)"
    using assms(3) inj by (simp_all add: distinct_map o_def)
  have s: "?snake ` set (bt_of_list ?camel) = set ?own"
    unfolding set_bt_of_list [OF dc] using conv by force
  have "inj_on (fst \<circ> ?snake) (set (bt_of_list ?camel))"
    unfolding set_bt_of_list [OF dc] using conv by (auto simp: inj_on_def)
  then have "distinct (List.map fst (List.map ?snake (bt_of_list ?camel)))"
    using bt_wf_distinct [OF bt_of_list_wf [of ?camel]] by (simp add: distinct_map comp_inj_on_iff distinct_map)
  then have "bt_of_list (List.map ?snake (bt_of_list ?camel)) = bt_of_list ?own"
    using d s by (intro bt_of_list_perm) simp_all
  with inj show ?thesis by (simp add: jobj_def)
qed

text \<open>A module with two variables, and a toy conversion of cases that covers them.\<close>

definition demo_lib :: text_lib where
  "demo_lib = \<lparr>tl_snake = (\<lambda>s. if s = ''bucketName'' then ''bucket_name'' else s),
     tl_camel = (\<lambda>s. if s = ''bucket_name'' then ''bucketName'' else s), tl_json = (\<lambda>_. Inr (JObject []))\<rparr>"

definition demo_vars :: "tf_variable list" where
  "demo_vars = [tf_variable_default\<lparr>tfv_name := ''bucket_name''\<rparr>, tf_variable_default\<lparr>tfv_name := ''region''\<rparr>]"

lemma claim_names_roundtrip_witness:
  "convert_first_level_keys_to_snake_case demo_lib (jobj [(''bucketName'', JString ''b''), (''region'', JString ''b'')])
     = jobj [(''bucket_name'', JString ''b''), (''region'', JString ''b'')]"
proof -
  have v: "verify_variable_name_roundtrip demo_lib demo_vars = Inr ()"
    by code_simp
  have s: "set [''bucket_name'', ''region''] \<subseteq> {n \<in> tfv_name ` set demo_vars. \<not> starts_with n ''INFRAWEAVE_''}"
    by code_simp
  show ?thesis
    using conjunct1 [OF claim_names_roundtrip [OF v s, of "\<lambda>_. JString ''b''"]] by (simp add: demo_lib_def to_camel_case_def)
qed

end
