(* ===== verification/Versions.thy ===== *)
theory Versions
  imports Variables
begin

text \<open>
  Versions of modules, stacks, providers and policies: \<open>utils/src/versioning.rs\<close> and
  \<open>env_common/src/logic/utils.rs\<close>. Parsing is the crate \<open>semver\<close>, a parameter; the keys built
  from a version are strings that the database sorts, so the theorems here are about the order and
  the uniqueness of these strings.
\<close>

section \<open>Versions\<close>

record semver =
  sv_major :: "64 word"
  sv_minor :: "64 word"
  sv_patch :: "64 word"
  sv_pre :: string
  sv_build :: string

datatype ordering = Less | Equal | Greater

text \<open>
  \<open>sl_parse\<close> is \<open>semver::Version::parse\<close>; \<open>sl_pre_cmp\<close> is the order of \<open>semver::Prerelease\<close>.
\<close>

record semver_lib =
  sl_parse :: "string \<Rightarrow> (string, semver) result"
  sl_pre_cmp :: "string \<Rightarrow> string \<Rightarrow> ordering"

definition semver_parse :: "semver_lib \<Rightarrow> string \<Rightarrow> (string, semver) result" where
  "semver_parse sl ver_str = sl_parse sl ver_str"

definition strip_build_metadata :: "semver \<Rightarrow> semver" where
  "strip_build_metadata v = v\<lparr>sv_build := []\<rparr>"

definition semver_parse_without_build :: "semver_lib \<Rightarrow> string \<Rightarrow> (string, semver) result" where
  "semver_parse_without_build sl ver_str = res_bind (semver_parse sl ver_str) (\<lambda>v. Inr (strip_build_metadata v))"

text \<open>The derived order of \<open>Version\<close> on versions without build metadata: field by field.\<close>

definition word_cmp :: "64 word \<Rightarrow> 64 word \<Rightarrow> ordering" where
  "word_cmp a b = (if a < b then Less else if a = b then Equal else Greater)"

fun then_cmp :: "ordering \<Rightarrow> ordering \<Rightarrow> ordering" where
  "then_cmp Equal r = r"
| "then_cmp l r = l"

definition version_cmp :: "semver_lib \<Rightarrow> semver \<Rightarrow> semver \<Rightarrow> ordering" where
  "version_cmp sl a b =
     then_cmp (word_cmp (sv_major a) (sv_major b))
       (then_cmp (word_cmp (sv_minor a) (sv_minor b))
         (then_cmp (word_cmp (sv_patch a) (sv_patch b)) (sl_pre_cmp sl (sv_pre a) (sv_pre b))))"

text \<open>\<open>Display\<close> of a version.\<close>

definition version_suffix :: "semver \<Rightarrow> string" where
  "version_suffix v = (if sv_pre v = [] then [] else ''-'' @ sv_pre v) @ (if sv_build v = [] then [] else ''+'' @ sv_build v)"

definition version_str :: "semver \<Rightarrow> string" where
  "version_str v = nat_str (unat (sv_major v)) @ ''.'' @ nat_str (unat (sv_minor v)) @ ''.''
     @ nat_str (unat (sv_patch v)) @ version_suffix v"

text \<open>\<open>format!("{:0width$}")\<close>.\<close>

definition zero_pad :: "nat \<Rightarrow> nat \<Rightarrow> string" where
  "zero_pad w n = replicate (w - length (nat_str n)) (CHR ''0'') @ nat_str n"

definition padded_str :: "nat \<Rightarrow> semver \<Rightarrow> string" where
  "padded_str w v = zero_pad w (unat (sv_major v)) @ ''.'' @ zero_pad w (unat (sv_minor v)) @ ''.''
     @ zero_pad w (unat (sv_patch v)) @ version_suffix v"

definition zero_pad_semver :: "semver_lib \<Rightarrow> string \<Rightarrow> nat \<Rightarrow> (string, string) result" where
  "zero_pad_semver sl ver_str pad_length = res_bind (sl_parse sl ver_str) (\<lambda>version. Inr (padded_str pad_length version))"

definition get_version_track :: "semver_lib \<Rightarrow> string \<Rightarrow> (string, string) result" where
  "get_version_track sl ver_str =
     res_bind (sl_parse sl ver_str) (\<lambda>version. Inr (if sv_pre version = [] then ''stable'' else sv_pre version))"

section \<open>Tracks\<close>

datatype module_error =
    ModuleVersionExists string string
  | InvalidTrack string
  | InvalidTrackPrereleaseVersion string string
  | InvalidStableVersion
  | InvalidModuleSchema string
  | TerraformLockfileExists
  | TerraformNoLockfile string
  | TerraformLockfileEmpty
  | UploadModuleError string
  | ZipError string
  | InvalidExampleVariable string
  | ValidationError string
  | ModuleVersionNotSet string
  | StackModuleNamespaceIsSet string
  | OutputKeyNotFound string string string string string
  | StackClaimReferenceNotFound string string string string
  | DuplicateClaimNames string
  | CircularDependency "string list"
  | SelfReferencingClaim string string string
  | ModuleVersionMissing string
  | ModuleVersionNotFound string string
  | NoProvidersDefined string
  | NoRequiredProvidersDefined string
  | InvalidVariableNaming string
  | InvalidOutputNaming string
  | UnresolvedReference string string
  | InvalidReference string string
  | PublishError string
  | OtherError string

text \<open>The version has been parsed before; the outer \<open>None\<close> is the panic of \<open>unwrap\<close>.\<close>

definition ensure_track_matches_version :: "semver_lib \<Rightarrow> string \<Rightarrow> string \<Rightarrow> (module_error, unit) result option" where
  "ensure_track_matches_version sl track version =
     (case semver_parse sl version of
        Inl _ \<Rightarrow> None
      | Inr v \<Rightarrow> Some
          (if sv_pre v = track then
             if track = ''dev'' \<or> track = ''alpha'' \<or> track = ''beta'' \<or> track = ''rc'' then Inr ()
             else if track = ''stable'' then Inl InvalidStableVersion
             else Inl (InvalidTrack track)
           else if sv_pre v = [] \<and> track = ''stable'' then Inr ()
           else Inl (InvalidTrackPrereleaseVersion track (sv_pre v))))"

section \<open>Precedence\<close>

text \<open>What the code uses of a comparison: a total order up to \<open>Equal\<close>.\<close>

locale precedence =
  fixes cmp :: "'a \<Rightarrow> 'a \<Rightarrow> ordering"
  assumes refl: "cmp a a = Equal"
    and flip: "cmp a b = Less \<longleftrightarrow> cmp b a = Greater"
    and less_trans: "cmp a b = Less \<Longrightarrow> cmp b c = Less \<Longrightarrow> cmp a c = Less"
    and equal_cong: "cmp a b = Equal \<Longrightarrow> cmp a c = cmp b c"
begin

lemma sym: "cmp a b = Equal \<Longrightarrow> cmp b a = Equal"
  using flip by (metis ordering.exhaust ordering.distinct(1,3))

lemma le_less_trans: "cmp a b \<noteq> Greater \<Longrightarrow> cmp b c = Less \<Longrightarrow> cmp a c = Less"
  using less_trans equal_cong [of a b c] by (cases "cmp a b") auto

lemma le_greater_trans: "cmp a b \<noteq> Greater \<Longrightarrow> cmp c b = Greater \<Longrightarrow> cmp a c = Less"
  using le_less_trans flip by blast

end

interpretation word: precedence word_cmp
  by unfold_locales (auto simp: word_cmp_def split: if_splits)

lemma precedence_image: "precedence f \<Longrightarrow> precedence (\<lambda>a b. f (h a) (h b))"
  unfolding precedence_def by blast

lemma precedence_then:
  assumes "precedence f" "precedence g"
  shows "precedence (\<lambda>a b. then_cmp (f a b) (g a b))"
proof
  note f = precedence.refl [OF assms(1)] precedence.flip [OF assms(1)] precedence.less_trans [OF assms(1)]
      precedence.equal_cong [OF assms(1)] precedence.sym [OF assms(1)]
  note g = precedence.refl [OF assms(2)] precedence.flip [OF assms(2)] precedence.less_trans [OF assms(2)]
      precedence.equal_cong [OF assms(2)]
  fix a b c
  show "then_cmp (f a a) (g a a) = Equal" by (simp add: f(1) g(1))
  show "then_cmp (f a b) (g a b) = Less \<longleftrightarrow> then_cmp (f b a) (g b a) = Greater"
    using f(2) [of a b] f(2) [of b a] f(5) [of a b] f(5) [of b a] g(2) [of a b]
    by (cases "f a b"; cases "f b a") auto
  show "then_cmp (f a c) (g a c) = Less"
    if "then_cmp (f a b) (g a b) = Less" "then_cmp (f b c) (g b c) = Less"
  proof (cases "f a b")
    case Less
    have "f b c = Less \<or> f b c = Equal" using that(2) by (cases "f b c") auto
    then have "f a c = Less"
    proof
      assume "f b c = Equal"
      then have "f c b = Equal" by (rule f(5))
      then have "f c a = f b a" by (rule f(4))
      then show ?thesis using Less f(2) [of a b] f(2) [of a c] by simp
    qed (use Less f(3) in blast)
    then show ?thesis by simp
  next
    case Equal
    then show ?thesis using that f(4) [of a b c] g(3) by (cases "f b c") auto
  qed (use that in simp)
  show "then_cmp (f a c) (g a c) = then_cmp (f b c) (g b c)" if "then_cmp (f a b) (g a b) = Equal"
    using that f(4) [of a b c] g(4) [of a b c] by (cases "f a b") auto
qed

lemma version_precedence:
  assumes "precedence (sl_pre_cmp sl)"
  shows "precedence (version_cmp sl)"
proof -
  note field = precedence_image [OF word.precedence_axioms]
  have "version_cmp sl = (\<lambda>a b. then_cmp (word_cmp (sv_major a) (sv_major b))
       (then_cmp (word_cmp (sv_minor a) (sv_minor b))
         (then_cmp (word_cmp (sv_patch a) (sv_patch b)) (sl_pre_cmp sl (sv_pre a) (sv_pre b)))))"
    by (simp add: version_cmp_def fun_eq_iff)
  then show ?thesis
    using precedence_then [OF field [of sv_major] precedence_then [OF field [of sv_minor]
            precedence_then [OF field [of sv_patch] precedence_image [OF assms, of sv_pre]]]]
    by (simp only:)
qed

section \<open>Digits\<close>

lemma of_char_digit: "d < 10 \<Longrightarrow> (of_char (digit_char d) :: nat) = 48 + d"
  by (simp add: digit_char_def char_of_eq_iff)

lemma digit_char_less: "d < 10 \<Longrightarrow> e < 10 \<Longrightarrow> digit_char d < digit_char e \<longleftrightarrow> d < e"
  by (simp add: less_char_def of_char_digit)

lemma digit_char_eq: "d < 10 \<Longrightarrow> e < 10 \<Longrightarrow> digit_char d = digit_char e \<longleftrightarrow> d = e"
  using digit_char_less by (metis linorder_neqE_nat less_irrefl)

lemma is_digit_char: "d < 10 \<Longrightarrow> is_digit (digit_char d)"
  by (simp add: is_digit_def of_char_digit)

lemma digit_char_0: "digit_char 0 = CHR ''0''"
  by (simp add: digit_char_def char_of_eq_iff)

lemma nat_str_small: "n < 10 \<Longrightarrow> nat_str n = [digit_char n]"
  by (subst nat_str.simps) simp

lemma nat_str_big: "10 \<le> n \<Longrightarrow> nat_str n = nat_str (n div 10) @ [digit_char (n mod 10)]"
  by (subst nat_str.simps) simp

lemma nat_str_digits: "\<forall>c \<in> set (nat_str n). is_digit c"
proof (induction n rule: nat_str.induct)
  case (1 n)
  then show ?case
    by (cases "n < 10") (auto simp: nat_str_small nat_str_big is_digit_char not_less)
qed

text \<open>The lowest \<open>w\<close> digits of a number.\<close>

fun digits :: "nat \<Rightarrow> nat \<Rightarrow> string" where
  "digits 0 n = []"
| "digits (Suc w) n = digits w (n div 10) @ [digit_char (n mod 10)]"

lemma length_digits [simp]: "length (digits w n) = w"
  by (induction w n rule: digits.induct) auto

lemma digits_0: "digits w 0 = replicate w (CHR ''0'')"
  by (induction w) (simp_all add: digit_char_0 replicate_append_same)

lemma length_nat_str: "n < 10 ^ w \<Longrightarrow> 0 < w \<Longrightarrow> length (nat_str n) \<le> w"
proof (induction w arbitrary: n)
  case (Suc w)
  show ?case
  proof (cases "n < 10")
    case False
    then have "n div 10 < 10 ^ w" "0 < w" using Suc.prems by (auto simp: less_mult_imp_div_less intro: Suc.prems gr0I)
    with Suc.IH False show ?thesis by (simp add: nat_str_big not_less)
  qed (simp add: nat_str_small)
qed simp

lemma zero_pad_digits: "n < 10 ^ w \<Longrightarrow> 0 < w \<Longrightarrow> zero_pad w n = digits w n"
proof (induction w arbitrary: n)
  case (Suc w)
  show ?case
  proof (cases "n < 10")
    case True
    then show ?thesis by (simp add: zero_pad_def nat_str_small digits_0)
  next
    case False
    then have s: "n div 10 < 10 ^ w" "0 < w" using Suc.prems by (auto simp: less_mult_imp_div_less intro: gr0I)
    have "zero_pad (Suc w) n = zero_pad w (n div 10) @ [digit_char (n mod 10)]"
      using False by (simp add: zero_pad_def nat_str_big not_less)
    with Suc.IH [OF s] show ?thesis by simp
  qed
qed simp

lemma append_less:
  "length xs = length ys \<Longrightarrow> xs @ us < ys @ vs \<longleftrightarrow> xs < ys \<or> xs = ys \<and> us < (vs :: 'a :: linorder list)"
  by (induction xs ys rule: list_induct2) auto

lemma div_mod_less: "n div 10 < m div 10 \<or> n div 10 = m div 10 \<and> n mod 10 < m mod 10 \<longleftrightarrow> n < (m :: nat)"
proof -
  have "n = 10 * (n div 10) + n mod 10" "m = 10 * (m div 10) + m mod 10" "n mod 10 < 10" "m mod 10 < 10"
    by simp_all
  then show ?thesis by linarith
qed

lemma div_mod_same: "n div 10 = m div 10 \<and> n mod 10 = m mod 10 \<longleftrightarrow> n = (m :: nat)"
  by (metis div_mod_decomp)

lemma digits_less: "n < 10 ^ w \<Longrightarrow> m < 10 ^ w \<Longrightarrow> digits w n < digits w m \<longleftrightarrow> n < m"
  and digits_eq: "n < 10 ^ w \<Longrightarrow> m < 10 ^ w \<Longrightarrow> digits w n = digits w m \<longleftrightarrow> n = m"
proof (induction w arbitrary: n m)
  case (Suc w)
  {
    case 1
    have d: "n div 10 < 10 ^ w" "m div 10 < 10 ^ w" using 1 by (simp_all add: less_mult_imp_div_less)
    have "digits (Suc w) n < digits (Suc w) m \<longleftrightarrow> n div 10 < m div 10 \<or> n div 10 = m div 10 \<and> n mod 10 < m mod 10"
      using Suc.IH [OF d] by (simp add: append_less digit_char_less)
    then show ?case by (simp only: div_mod_less)
  next
    case 2
    have d: "n div 10 < 10 ^ w" "m div 10 < 10 ^ w" using 2 by (simp_all add: less_mult_imp_div_less)
    have "digits (Suc w) n = digits (Suc w) m \<longleftrightarrow> n div 10 = m div 10 \<and> n mod 10 = m mod 10"
      using Suc.IH [OF d] by (simp add: digit_char_eq)
    then show ?case by (simp only: div_mod_same)
  }
qed simp_all

lemma zero_pad_less: "n < 10 ^ w \<Longrightarrow> m < 10 ^ w \<Longrightarrow> 0 < w \<Longrightarrow> zero_pad w n < zero_pad w m \<longleftrightarrow> n < m"
  and zero_pad_eq: "n < 10 ^ w \<Longrightarrow> m < 10 ^ w \<Longrightarrow> 0 < w \<Longrightarrow> zero_pad w n = zero_pad w m \<longleftrightarrow> n = m"
  and length_zero_pad: "n < 10 ^ w \<Longrightarrow> 0 < w \<Longrightarrow> length (zero_pad w n) = w"
  by (simp_all add: zero_pad_digits digits_less digits_eq)

section \<open>The order of the keys\<close>

definition fits :: "nat \<Rightarrow> semver \<Rightarrow> bool" where
  "fits w v \<longleftrightarrow> unat (sv_major v) < 10 ^ w \<and> unat (sv_minor v) < 10 ^ w \<and> unat (sv_patch v) < 10 ^ w"

definition triple_less :: "semver \<Rightarrow> semver \<Rightarrow> bool" where
  "triple_less a b \<longleftrightarrow> sv_major a < sv_major b \<or> sv_major a = sv_major b
     \<and> (sv_minor a < sv_minor b \<or> sv_minor a = sv_minor b \<and> sv_patch a < sv_patch b)"

definition triple_eq :: "semver \<Rightarrow> semver \<Rightarrow> bool" where
  "triple_eq a b \<longleftrightarrow> sv_major a = sv_major b \<and> sv_minor a = sv_minor b \<and> sv_patch a = sv_patch b"

lemma padded_less:
  assumes "fits w a" "fits w b" "0 < w"
  shows "padded_str w a < padded_str w b \<longleftrightarrow> triple_less a b \<or> triple_eq a b \<and> version_suffix a < version_suffix b"
proof -
  let ?p = "\<lambda>n. zero_pad w (unat (n :: 64 word))"
  have l: "length (?p (sv_major a)) = length (?p (sv_major b))" "length (?p (sv_minor a)) = length (?p (sv_minor b))"
      "length (?p (sv_patch a)) = length (?p (sv_patch b))"
    using assms by (simp_all add: fits_def length_zero_pad)
  have c: "?p (sv_major a) < ?p (sv_major b) \<longleftrightarrow> sv_major a < sv_major b" "?p (sv_major a) = ?p (sv_major b) \<longleftrightarrow> sv_major a = sv_major b"
      "?p (sv_minor a) < ?p (sv_minor b) \<longleftrightarrow> sv_minor a < sv_minor b" "?p (sv_minor a) = ?p (sv_minor b) \<longleftrightarrow> sv_minor a = sv_minor b"
      "?p (sv_patch a) < ?p (sv_patch b) \<longleftrightarrow> sv_patch a < sv_patch b" "?p (sv_patch a) = ?p (sv_patch b) \<longleftrightarrow> sv_patch a = sv_patch b"
    using assms by (simp_all add: fits_def zero_pad_less zero_pad_eq word_less_nat_alt word_unat_eq_iff)
  show ?thesis
    unfolding padded_str_def triple_less_def triple_eq_def
    by (simp add: append_less l c) blast
qed

lemma version_cmp_same_track:
  assumes "sl_pre_cmp sl (sv_pre b) (sv_pre b) = Equal" "sv_pre a = sv_pre b"
  shows "version_cmp sl a b = Less \<longleftrightarrow> triple_less a b"
    and "version_cmp sl a b = Equal \<longleftrightarrow> triple_eq a b"
    and "version_cmp sl a b = Greater \<longleftrightarrow> triple_less b a"
  using assms by (auto simp: version_cmp_def word_cmp_def triple_less_def triple_eq_def)

text \<open>
  C29: padded versions sort like the versions they stand for. For two versions with the same
  pre-release and without build metadata whose numbers have at most as many digits as the padding,
  the order of the padded strings is the order of the versions, and equal strings are equal
  versions. With different pre-releases the order can be the reverse: 1.0.0-dev is before 1.0.0, its
  string after it.
\<close>

theorem padded_versions_sorted:
  assumes "sl_parse sl s = Inr a" "sl_parse sl t = Inr b" "fits w a" "fits w b" "0 < w"
    and "sv_pre a = sv_pre b" "sv_build a = []" "sv_build b = []" "sl_pre_cmp sl (sv_pre b) (sv_pre b) = Equal"
  shows "\<exists>k l. zero_pad_semver sl s w = Inr k \<and> zero_pad_semver sl t w = Inr l
     \<and> (k < l \<longleftrightarrow> version_cmp sl a b = Less) \<and> (k = l \<longleftrightarrow> version_cmp sl a b = Equal)"
proof -
  have suffix: "version_suffix a = version_suffix b"
    using assms by (simp add: version_suffix_def)
  have less: "padded_str w a < padded_str w b \<longleftrightarrow> version_cmp sl a b = Less"
    using assms suffix by (simp add: padded_less version_cmp_same_track)
  moreover have "padded_str w b < padded_str w a \<longleftrightarrow> version_cmp sl a b = Greater"
    using assms suffix by (simp add: padded_less version_cmp_same_track)
  ultimately have "padded_str w a = padded_str w b \<longleftrightarrow> version_cmp sl a b = Equal"
    by (cases "version_cmp sl a b"; cases "padded_str w a" "padded_str w b" rule: linorder_cases) auto
  with less show ?thesis using assms by (simp add: zero_pad_semver_def)
qed

text \<open>A parser for a few versions, with the order of strings on pre-releases.\<close>

definition demo_semver :: "64 word \<Rightarrow> 64 word \<Rightarrow> 64 word \<Rightarrow> string \<Rightarrow> string \<Rightarrow> semver" where
  "demo_semver a b c pre build = \<lparr>sv_major = a, sv_minor = b, sv_patch = c, sv_pre = pre, sv_build = build\<rparr>"

definition demo_semvers :: semver_lib where
  "demo_semvers = \<lparr>sl_parse = (\<lambda>s.
       if s = ''1.9.0'' then Inr (demo_semver 1 9 0 [] []) else if s = ''1.10.0'' then Inr (demo_semver 1 10 0 [] [])
       else if s = ''1.0.0-dev'' then Inr (demo_semver 1 0 0 ''dev'' [])
       else if s = ''1.0.0-dev+a'' then Inr (demo_semver 1 0 0 ''dev'' ''a'')
       else if s = ''1.0.0-dev+b'' then Inr (demo_semver 1 0 0 ''dev'' ''b'')
       else if s = ''999.0.0'' then Inr (demo_semver 999 0 0 [] []) else if s = ''1000.0.0'' then Inr (demo_semver 1000 0 0 [] [])
       else Inl ''unexpected character''),
     sl_pre_cmp = (\<lambda>a b. if a = b then Equal else if a < b then Less else Greater)\<rparr>"

lemma demo_parse [simp]:
  "sl_parse demo_semvers ''1.9.0'' = Inr (demo_semver 1 9 0 [] [])"
  "sl_parse demo_semvers ''1.10.0'' = Inr (demo_semver 1 10 0 [] [])"
  "sl_parse demo_semvers ''1.0.0-dev'' = Inr (demo_semver 1 0 0 ''dev'' [])"
  "sl_parse demo_semvers ''1.0.0-dev+a'' = Inr (demo_semver 1 0 0 ''dev'' ''a'')"
  "sl_parse demo_semvers ''1.0.0-dev+b'' = Inr (demo_semver 1 0 0 ''dev'' ''b'')"
  "sl_parse demo_semvers ''999.0.0'' = Inr (demo_semver 999 0 0 [] [])"
  "sl_parse demo_semvers ''1000.0.0'' = Inr (demo_semver 1000 0 0 [] [])"
  "sl_pre_cmp demo_semvers p p = Equal"
  by (simp_all add: demo_semvers_def)

lemma padded_versions_sorted_witness:
  "\<exists>k l. zero_pad_semver demo_semvers ''1.9.0'' 3 = Inr k \<and> zero_pad_semver demo_semvers ''1.10.0'' 3 = Inr l \<and> k < l"
proof -
  have "fits 3 (demo_semver 1 9 0 [] [])" "fits 3 (demo_semver 1 10 0 [] [])"
    by (simp_all add: fits_def demo_semver_def)
  from padded_versions_sorted [OF demo_parse(1) demo_parse(2) this]
  have "\<exists>k l. zero_pad_semver demo_semvers ''1.9.0'' 3 = Inr k \<and> zero_pad_semver demo_semvers ''1.10.0'' 3 = Inr l
     \<and> (k < l \<longleftrightarrow> version_cmp demo_semvers (demo_semver 1 9 0 [] []) (demo_semver 1 10 0 [] []) = Less)"
    by (auto simp: demo_semver_def)
  moreover have "version_cmp demo_semvers (demo_semver 1 9 0 [] []) (demo_semver 1 10 0 [] []) = Less"
    by (simp add: version_cmp_def word_cmp_def demo_semver_def)
  ultimately show ?thesis by auto
qed

text \<open>
  The padding of three digits that the code uses is not enough for every version: a version
  with a number of four digits sorts before older ones.
\<close>

theorem long_version_sorts_first:
  "\<exists>k l. zero_pad_semver demo_semvers ''999.0.0'' 3 = Inr k \<and> zero_pad_semver demo_semvers ''1000.0.0'' 3 = Inr l
     \<and> l < k \<and> version_cmp demo_semvers (demo_semver 999 0 0 [] []) (demo_semver 1000 0 0 [] []) = Less"
proof -
  have n: "nat_str 999 = ''999''" "nat_str 1000 = ''1000''"
    by code_simp+
  have "padded_str 3 (demo_semver 1000 0 0 [] []) < padded_str 3 (demo_semver 999 0 0 [] [])"
    by (simp add: padded_str_def demo_semver_def zero_pad_def n less_char_def)
  then show ?thesis
    by (simp add: zero_pad_semver_def version_cmp_def word_cmp_def demo_semver_def)
qed

section \<open>The keys determine the versions\<close>

text \<open>The identifiers of the semver grammar, the documented alphabet of a parsed version.\<close>

definition identifier_char :: "char \<Rightarrow> bool" where
  "identifier_char c \<longleftrightarrow> is_alphanumeric c \<or> c = CHR ''-'' \<or> c = CHR ''.''"

definition grammatical :: "semver \<Rightarrow> bool" where
  "grammatical v \<longleftrightarrow> list_all identifier_char (sv_pre v) \<and> list_all identifier_char (sv_build v)"

lemma zero_pad_all_digits: "\<forall>c \<in> set (zero_pad w n). is_digit c"
  using nat_str_digits [of n] by (auto simp: zero_pad_def is_digit_def)

fun value_of :: "nat \<Rightarrow> string \<Rightarrow> nat" where
  "value_of n [] = n"
| "value_of n (c # cs) = value_of (10 * n + (of_char c - 48)) cs"

lemma value_of_append: "value_of n (xs @ ys) = value_of (value_of n xs) ys"
  by (induction n xs rule: value_of.induct) auto

lemma value_of_nat_str: "value_of 0 (nat_str n) = n"
proof (induction n rule: nat_str.induct)
  case (1 n)
  show ?case
  proof (cases "n < 10")
    case False
    with 1 show ?thesis by (simp add: nat_str_big not_less value_of_append of_char_digit)
  qed (simp add: nat_str_small of_char_digit)
qed

lemma value_of_zero_pad [simp]: "value_of 0 (zero_pad w n) = n"
proof -
  have "value_of 0 (replicate k (CHR ''0'')) = 0" for k
    by (induction k) simp_all
  then show ?thesis by (simp add: zero_pad_def value_of_append value_of_nat_str)
qed

lemma zero_pad_inj: "zero_pad w n = zero_pad w m \<longleftrightarrow> n = m"
  by (metis value_of_zero_pad)

lemma split_at_nondigit:
  assumes "xs @ us = ys @ vs" "\<forall>c \<in> set xs. is_digit c" "\<forall>c \<in> set ys. is_digit c"
    and "us = [] \<or> \<not> is_digit (hd us)" "vs = [] \<or> \<not> is_digit (hd vs)"
  shows "xs = ys \<and> us = vs"
proof -
  have t: "takeWhile is_digit (zs @ ws) = zs" if "\<forall>c \<in> set zs. is_digit c" "ws = [] \<or> \<not> is_digit (hd ws)" for zs ws
    using that by (cases ws) (auto simp: takeWhile_append)
  show ?thesis using t [of xs us] t [of ys vs] assms by auto
qed

lemma suffix_inj:
  assumes "version_suffix a = version_suffix b" "grammatical a" "grammatical b"
  shows "sv_pre a = sv_pre b \<and> sv_build a = sv_build b"
proof -
  let ?plus = "\<lambda>v. if sv_build v = [] then [] else CHR ''+'' # sv_build v"
  have np: "takeWhile (\<lambda>c. c \<noteq> CHR ''+'') (sv_pre v @ ?plus v) = sv_pre v"
    and nd: "dropWhile (\<lambda>c. c \<noteq> CHR ''+'') (sv_pre v @ ?plus v) = ?plus v" if "grammatical v" for v
  proof -
    have "\<forall>c \<in> set (sv_pre v). c \<noteq> CHR ''+''"
      using that by (auto simp: grammatical_def list_all_iff identifier_char_def is_alphanumeric_def is_lower_def is_upper_def is_digit_def)
    then show "takeWhile (\<lambda>c. c \<noteq> CHR ''+'') (sv_pre v @ ?plus v) = sv_pre v"
      and "dropWhile (\<lambda>c. c \<noteq> CHR ''+'') (sv_pre v @ ?plus v) = ?plus v" by auto
  qed
  have e: "(sv_pre a = [] \<longleftrightarrow> sv_pre b = []) \<and> sv_pre a @ ?plus a = sv_pre b @ ?plus b"
    using assms(1) by (auto simp: version_suffix_def split: if_splits)
  then have "sv_pre a = sv_pre b" "?plus a = ?plus b"
    using np nd assms(2,3) by metis+
  then show ?thesis by (simp split: if_splits)
qed

lemma padded_str_inj:
  assumes "padded_str w a = padded_str w b" "grammatical a" "grammatical b"
  shows "a = b"
proof -
  have dot: "\<not> is_digit (CHR ''.'')" by (simp add: is_digit_def)
  have tail: "version_suffix v = [] \<or> \<not> is_digit (hd (version_suffix v))" for v
    by (auto simp: version_suffix_def is_digit_def)
  let ?p = "\<lambda>n. zero_pad w (unat (n :: 64 word))"
  have e: "?p (sv_major a) @ ''.'' @ ?p (sv_minor a) @ ''.'' @ ?p (sv_patch a) @ version_suffix a
      = ?p (sv_major b) @ ''.'' @ ?p (sv_minor b) @ ''.'' @ ?p (sv_patch b) @ version_suffix b"
    using assms(1) by (simp add: padded_str_def)
  note split = split_at_nondigit [OF _ zero_pad_all_digits zero_pad_all_digits]
  have 1: "?p (sv_major a) = ?p (sv_major b)" "?p (sv_minor a) @ ''.'' @ ?p (sv_patch a) @ version_suffix a
      = ?p (sv_minor b) @ ''.'' @ ?p (sv_patch b) @ version_suffix b"
    using split [OF e] dot by simp_all
  have 2: "?p (sv_minor a) = ?p (sv_minor b)" "?p (sv_patch a) @ version_suffix a = ?p (sv_patch b) @ version_suffix b"
    using split [OF 1(2)] dot by simp_all
  have 3: "?p (sv_patch a) = ?p (sv_patch b)" "version_suffix a = version_suffix b"
    using split [OF 2(2) tail tail] by simp_all
  from suffix_inj [OF 3(2) assms(2,3)] 1(1) 2(1) 3(1) show ?thesis
    by (cases a; cases b) (simp add: zero_pad_inj word_unat_eq_iff)
qed

text \<open>
  A key determines its version. Two texts have the same padded string exactly when they parse
  to the same version, whatever its size: no publication writes on the item of another version.
\<close>

theorem padded_version_injective:
  assumes "sl_parse sl s = Inr a" "sl_parse sl t = Inr b" "grammatical a" "grammatical b"
  shows "zero_pad_semver sl s w = zero_pad_semver sl t w \<longleftrightarrow> a = b"
proof
  assume "zero_pad_semver sl s w = zero_pad_semver sl t w"
  with assms show "a = b" by (intro padded_str_inj [of w]) (simp_all add: zero_pad_semver_def)
qed (use assms in \<open>simp add: zero_pad_semver_def\<close>)

lemma padded_version_injective_witness:
  "zero_pad_semver demo_semvers ''1.0.0-dev+b'' 3 \<noteq> zero_pad_semver demo_semvers ''1.0.0-dev+a'' 3"
proof -
  have "grammatical (demo_semver 1 0 0 ''dev'' ''b'')" "grammatical (demo_semver 1 0 0 ''dev'' ''a'')"
    by code_simp+
  from padded_version_injective [OF demo_parse(5,4) this] show ?thesis
    by (simp add: demo_semver_def)
qed

section \<open>Tracks\<close>

text \<open>
  A published version is found under the track it was published to. A track is accepted for a
  version exactly when it is one of the five tracks and is the track that a claim computes from
  the version.
\<close>

theorem track_of_version:
  assumes "sl_parse sl s = Inr v"
  shows "ensure_track_matches_version sl track s = Some (Inr ()) \<longleftrightarrow>
     track \<in> {''dev'', ''alpha'', ''beta'', ''rc'', ''stable''} \<and> sv_pre v \<noteq> ''stable'' \<and> get_version_track sl s = Inr track"
  using assms
  by (auto simp: ensure_track_matches_version_def semver_parse_def get_version_track_def)

lemma track_of_version_witness:
  "ensure_track_matches_version demo_semvers ''dev'' ''1.0.0-dev'' = Some (Inr ())
   \<and> ensure_track_matches_version demo_semvers ''stable'' ''1.0.0-dev'' \<noteq> Some (Inr ())"
  unfolding track_of_version [OF demo_parse(3)]
  by (simp add: get_version_track_def demo_semver_def)

end
