(* ===== verification/Registry.thy ===== *)
theory Registry
  imports Versions Deployment_Store
begin

text \<open>
  The module registry: publishing and deprecating modules and stacks on the server side, from
  \<open>env_common/src/logic/api_module.rs\<close> and \<open>api_stack.rs\<close>, with the keys and queries of
  \<open>env_aws_direct/src/api.rs\<close> and the reader of \<open>utils/src/provider_util.rs\<close>. The state is the
  table \<open>modules\<close> and the bucket \<open>modules\<close> of every region; which call fails is a parameter of
  every operation, so the theorems hold for every outage, between any two regions.
\<close>

section \<open>State and parameters\<close>

record registry =
  rg_items :: "string \<Rightarrow> string \<times> string \<Rightarrow> json option"
  rg_files :: "string \<Rightarrow> string \<Rightarrow> string option"

text \<open>The calls that can fail, with the region they are made in.\<close>

datatype registry_call =
    Read_Item string "string \<times> string"
  | Upload_File string string
  | Transact_Write string
  | Cache_Provider string tf_lock_provider

type_synonym outage = "registry_call \<Rightarrow> string option"

text \<open>
  \<open>rv_home\<close> is the region of the handler; \<open>rv_json\<close> and \<open>rv_read\<close> are the derived \<open>Serialize\<close>
  and \<open>Deserialize\<close> of \<open>ModuleResp\<close>.
\<close>

record registry_env =
  rv_semver :: semver_lib
  rv_home :: string
  rv_json :: "module_resp \<Rightarrow> json"
  rv_read :: "json \<Rightarrow> (string, module_resp) result"

section \<open>Keys\<close>

definition module_id :: "string \<Rightarrow> string \<Rightarrow> string" where
  "module_id module track = ''MODULE#'' @ get_module_identifier module track"

definition latest_key :: "string \<Rightarrow> string \<Rightarrow> string \<Rightarrow> string \<times> string" where
  "latest_key pk module track = (pk, module_id module track)"

definition version_sk :: "registry_env \<Rightarrow> string \<Rightarrow> (string, string) result" where
  "version_sk re version = res_bind (zero_pad_semver (rv_semver re) version 3) (\<lambda>s. Inr (''VERSION#'' @ s))"

section \<open>Reading\<close>

definition module_add_missing_fields :: "json \<Rightarrow> json" where
  "module_add_missing_fields v =
     json_default ''reference'' [] (json_default ''memory'' ''2048'' (json_default ''cpu'' ''1024'' v))"

fun read_modules :: "registry_env \<Rightarrow> json list \<Rightarrow> (string, module_resp list) result" where
  "read_modules re [] = Inr []"
| "read_modules re (i # is) =
     res_bind (map_err (\<lambda>e. ''Failed to map modules: '' @ e) (rv_read re (module_add_missing_fields i))) (\<lambda>m.
     res_bind (read_modules re is) (\<lambda>ms. Inr (m # ms)))"

text \<open>A query for one key (\<open>PK = :pk AND SK = :sk\<close>) in the region of the handler.\<close>

definition read_key :: "registry_env \<Rightarrow> outage \<Rightarrow> registry \<Rightarrow> string \<times> string \<Rightarrow> (string, json list) result" where
  "read_key re ou reg k =
     (case ou (Read_Item (rv_home re) k) of
        Some e \<Rightarrow> Inl e
      | None \<Rightarrow> Inr (case rg_items reg (rv_home re) k of Some i \<Rightarrow> [i] | None \<Rightarrow> []))"

definition get_module_optional :: "registry_env \<Rightarrow> outage \<Rightarrow> registry \<Rightarrow> string \<times> string \<Rightarrow> (string, module_resp option) result" where
  "get_module_optional re ou reg k =
     res_bind (read_key re ou reg k) (\<lambda>items.
     res_bind (read_modules re items) (\<lambda>ms. Inr (if ms = [] then None else Some (last ms))))"

definition get_latest_module_version :: "registry_env \<Rightarrow> outage \<Rightarrow> registry \<Rightarrow> string \<Rightarrow> string \<Rightarrow> (string, module_resp option) result" where
  "get_latest_module_version re ou reg module track = get_module_optional re ou reg (latest_key ''LATEST_MODULE'' module track)"

definition get_latest_stack_version :: "registry_env \<Rightarrow> outage \<Rightarrow> registry \<Rightarrow> string \<Rightarrow> string \<Rightarrow> (string, module_resp option) result" where
  "get_latest_stack_version re ou reg stack track = get_module_optional re ou reg (latest_key ''LATEST_STACK'' stack track)"

text \<open>
  The query of a version unwraps the padded version: the outer \<open>None\<close> is the panic on a version
  that does not parse. Stacks use the same query.
\<close>

definition get_module_version :: "registry_env \<Rightarrow> outage \<Rightarrow> registry \<Rightarrow> string \<Rightarrow> string \<Rightarrow> string \<Rightarrow> (string, module_resp option) result option" where
  "get_module_version re ou reg module track version =
     (case version_sk re version of
        Inl _ \<Rightarrow> None
      | Inr sk \<Rightarrow> Some (get_module_optional re ou reg (module_id module track, sk)))"

section \<open>Comparing with the latest version\<close>

datatype module_type = ModuleKind | StackKind

definition entity :: "module_type \<Rightarrow> string" where
  "entity t = (if t = ModuleKind then ''Module'' else ''Stack'')"

definition compare_latest_version ::
  "registry_env \<Rightarrow> outage \<Rightarrow> registry \<Rightarrow> string \<Rightarrow> string \<Rightarrow> string \<Rightarrow> module_type \<Rightarrow> (string, module_resp option) result" where
  "compare_latest_version re ou reg module version track t =
     (if starts_with version ''0.0.0'' then Inr None
      else
        case (case t of ModuleKind \<Rightarrow> get_latest_module_version re ou reg module track
                      | StackKind \<Rightarrow> get_latest_stack_version re ou reg module track) of
          Inl e \<Rightarrow> Inl (''An error occurred: '' @ e)
        | Inr None \<Rightarrow> Inr None
        | Inr (Some latest_module) \<Rightarrow>
            res_bind (semver_parse (rv_semver re) version) (\<lambda>manifest_version.
            res_bind (semver_parse (rv_semver re) (mr_version latest_module)) (\<lambda>latest_version.
            res_bind (semver_parse_without_build (rv_semver re) version) (\<lambda>manifest_no_build.
            res_bind (semver_parse_without_build (rv_semver re) (mr_version latest_module)) (\<lambda>latest_no_build.
            case version_cmp (rv_semver re) manifest_no_build latest_no_build of
              Equal \<Rightarrow>
                if sv_build manifest_version = sv_build latest_version
                then Inl (entity t @ '' version '' @ version_str manifest_version @ '' already exists in track '' @ track)
                else Inr (Some latest_module)
            | Less \<Rightarrow>
                Inl (entity t @ '' version '' @ version_str manifest_version @ '' is older than the latest version ''
                  @ version_str latest_version @ '' in track '' @ track)
            | Greater \<Rightarrow> Inr (Some latest_module))))))"

section \<open>Writing\<close>

definition put_module :: "json \<Rightarrow> json" where
  "put_module item = jobj [(''Put'', jobj [(''TableName'', JString ''modules''), (''Item'', item)])]"

definition module_item :: "registry_env \<Rightarrow> string \<Rightarrow> string \<Rightarrow> module_resp \<Rightarrow> json" where
  "module_item re pk sk m = merge_json_dicts (jobj [(''PK'', JString pk), (''SK'', JString sk)]) (rv_json re m)"

text \<open>
  A transaction of the database: all operations or none; two operations on one item are refused.
  The name of the table in another region is resolved by the backend: here the region selects the
  table.
\<close>

definition transact_write :: "outage \<Rightarrow> string \<Rightarrow> json list \<Rightarrow> registry \<Rightarrow> (string, unit) result \<times> registry" where
  "transact_write ou region items reg =
     (case ou (Transact_Write region) of
        Some e \<Rightarrow> (Inl e, reg)
      | None \<Rightarrow>
          (case read_list item_op items of
             None \<Rightarrow> (Inl ''Unknown operation type in transact_write'', reg)
           | Some ops \<Rightarrow>
               if \<not> distinct (List.map fst ops)
               then (Inl ''Transaction request cannot include multiple operations on one item'', reg)
               else (Inr (), reg\<lparr>rg_items := (rg_items reg)(region :=
                       fold (\<lambda>(k, v) t. t(k := v)) ops (rg_items reg region))\<rparr>)))"

definition insert_module :: "registry_env \<Rightarrow> outage \<Rightarrow> string \<Rightarrow> module_resp \<Rightarrow> registry \<Rightarrow> (string, unit) result \<times> registry" where
  "insert_module re ou region m reg =
     (case version_sk re (mr_version m) of
        Inl e \<Rightarrow> (Inl e, reg)
      | Inr sk \<Rightarrow>
          let pk = module_id (mr_module m) (mr_track m);
              latest_pk = (if mr_stack_data m \<noteq> None then ''LATEST_STACK'' else ''LATEST_MODULE'')
          in transact_write ou region
               [put_module (module_item re pk sk m), put_module (module_item re latest_pk pk m)] reg)"

definition upload_module ::
  "registry_env \<Rightarrow> outage \<Rightarrow> string \<Rightarrow> module_resp \<Rightarrow> string \<Rightarrow> registry \<Rightarrow> (string, unit) result \<times> registry" where
  "upload_module re ou region m archive reg =
     (case ou (Upload_File region (mr_s3_key m)) of
        Some e \<Rightarrow> (Inl (''Failed to upload to S3: '' @ e), reg)
      | None \<Rightarrow>
          insert_module re ou region m
            (reg\<lparr>rg_files := (rg_files reg)(region := (rg_files reg region)(mr_s3_key m \<mapsto> archive))\<rparr>))"

section \<open>Publishing\<close>

fun upload_regions ::
  "registry_env \<Rightarrow> outage \<Rightarrow> string \<Rightarrow> module_resp \<Rightarrow> string \<Rightarrow> string list \<Rightarrow> registry \<Rightarrow> (module_error, unit) result \<times> registry" where
  "upload_regions re ou what m archive [] reg = (Inr (), reg)"
| "upload_regions re ou what m archive (region # regions) reg =
     (case upload_module re ou region m archive reg of
        (Inl e, reg') \<Rightarrow> (Inl (UploadModuleError (''Failed to upload '' @ what @ '' to region '' @ region @ '': '' @ e)), reg')
      | (Inr _, reg') \<Rightarrow> upload_regions re ou what m archive regions reg')"

definition server_publish_module ::
  "registry_env \<Rightarrow> outage \<Rightarrow> module_resp \<Rightarrow> string \<Rightarrow> string list \<Rightarrow> registry \<Rightarrow> (module_error, unit) result \<times> registry" where
  "server_publish_module re ou m archive all_regions reg =
     (if all_regions = [] then (Inl (ValidationError ''At least one region is required to publish module''), reg)
      else case compare_latest_version re ou reg (mr_module m) (mr_version m) (mr_track m) ModuleKind of
        Inl e \<Rightarrow> (Inl (ModuleVersionExists (mr_version m) e), reg)
      | Inr _ \<Rightarrow>
          (case get_latest_stack_version re ou reg (mr_module m) '''' of
             Inr (Some _) \<Rightarrow>
               (Inl (ValidationError (''A stack with the name '' @ [CHR 0x27] @ mr_module m @ [CHR 0x27]
                  @ '' already exists. Modules and stacks cannot share the same name.'')), reg)
           | _ \<Rightarrow> upload_regions re ou ''module'' m archive all_regions reg))"

fun cache_providers :: "outage \<Rightarrow> string \<Rightarrow> tf_lock_provider list \<Rightarrow> (module_error, unit) result" where
  "cache_providers ou region [] = Inr ()"
| "cache_providers ou region (p # ps) =
     (case ou (Cache_Provider region p) of
        Some e \<Rightarrow> Inl (UploadModuleError (''Failed to upload provider cache '' @ lp_source p @ '' to region '' @ region @ '': '' @ e))
      | None \<Rightarrow> cache_providers ou region ps)"

definition server_publish_stack ::
  "registry_env \<Rightarrow> outage \<Rightarrow> module_resp \<Rightarrow> string \<Rightarrow> string list \<Rightarrow> registry \<Rightarrow> (module_error, unit) result \<times> registry" where
  "server_publish_stack re ou m archive all_regions reg =
     (if all_regions = [] then (Inl (ValidationError ''At least one region is required to publish stack''), reg)
      else case compare_latest_version re ou reg (mr_module m) (mr_version m) (mr_track m) StackKind of
        Inl e \<Rightarrow> (Inl (ModuleVersionExists (mr_version m) e), reg)
      | Inr _ \<Rightarrow>
          (case get_latest_module_version re ou reg (mr_module m) '''' of
             Inr (Some _) \<Rightarrow>
               (Inl (ValidationError (''A module with the name '' @ [CHR 0x27] @ mr_module m @ [CHR 0x27]
                  @ '' already exists. Modules and stacks cannot share the same name.'')), reg)
           | _ \<Rightarrow>
               (case upload_regions re ou ''stack'' m archive all_regions reg of
                  (Inl e, reg') \<Rightarrow> (Inl e, reg')
                | (Inr _, reg') \<Rightarrow>
                    (try_all (\<lambda>region. cache_providers ou region (mr_tf_lock_providers m)) all_regions, reg'))))"

section \<open>Deprecating\<close>

fun write_regions :: "outage \<Rightarrow> string \<Rightarrow> json list \<Rightarrow> string list \<Rightarrow> registry \<Rightarrow> (string, unit) result \<times> registry" where
  "write_regions ou what items [] reg = (Inr (), reg)"
| "write_regions ou what items (region # regions) reg =
     (case transact_write ou region items reg of
        (Inl e, reg') \<Rightarrow> (Inl (''Failed to deprecate '' @ what @ '' in region '' @ region @ '': '' @ e), reg')
      | (Inr _, reg') \<Rightarrow> write_regions ou what items regions reg')"

text \<open>
  The common body of \<open>deprecate_module\<close> and \<open>deprecate_stack\<close>: they differ in the words of their
  messages and in where the latest version is looked up. The outer \<open>None\<close> is a panic.
\<close>

definition deprecate_release ::
  "string \<Rightarrow> string \<Rightarrow> (module_resp \<Rightarrow> (string, module_resp option) result) \<Rightarrow>
   registry_env \<Rightarrow> outage \<Rightarrow> string \<Rightarrow> string \<Rightarrow> string \<Rightarrow> string option \<Rightarrow> string list \<Rightarrow> registry \<Rightarrow>
   ((string, unit) result \<times> registry) option" where
  "deprecate_release what What latest_of re ou name track version message all_regions reg =
     (if all_regions = [] then Some (Inl (''At least one region is required to deprecate '' @ what), reg)
      else case get_module_version re ou reg name track version of
        None \<Rightarrow> None
      | Some (Inl e) \<Rightarrow> Some (Inl e, reg)
      | Some (Inr None) \<Rightarrow>
          Some (Inl (What @ '' '' @ name @ '' version '' @ version @ '' not found in track '' @ track), reg)
      | Some (Inr (Some existing)) \<Rightarrow>
          if mr_deprecated existing
          then Some (Inl (What @ '' '' @ name @ '' version '' @ version @ '' is already deprecated''), reg)
          else (case latest_of existing of
                  Inl e \<Rightarrow> Some (Inl e, reg)
                | Inr latest \<Rightarrow>
                    if \<exists>l. latest = Some l \<and> mr_version l = version
                    then Some (Inl (''Cannot deprecate the latest version ('' @ version @ '') of '' @ what @ '' '' @ name
                           @ '' in track '' @ track @ ''.'' @ [CHR 0x0A]
                           @ ''Please publish a new version that resolves the issue before deprecating this version.''), reg)
                    else (case version_sk re version of
                            Inl e \<Rightarrow> Some (Inl e, reg)
                          | Inr sk \<Rightarrow>
                              Some (write_regions ou what
                                [put_module (module_item re (module_id name track) sk
                                   (existing\<lparr>mr_deprecated := True, mr_deprecated_message := message\<rparr>))] all_regions reg))))"

definition deprecate_module ::
  "registry_env \<Rightarrow> outage \<Rightarrow> string \<Rightarrow> string \<Rightarrow> string \<Rightarrow> string option \<Rightarrow> string list \<Rightarrow> registry \<Rightarrow>
   ((string, unit) result \<times> registry) option" where
  "deprecate_module re ou module track version message all_regions reg =
     deprecate_release ''module'' ''Module''
       (\<lambda>existing. if mr_stack_data existing \<noteq> None then get_latest_stack_version re ou reg module track
                   else get_latest_module_version re ou reg module track)
       re ou module track version message all_regions reg"

definition deprecate_stack ::
  "registry_env \<Rightarrow> outage \<Rightarrow> string \<Rightarrow> string \<Rightarrow> string \<Rightarrow> string option \<Rightarrow> string list \<Rightarrow> registry \<Rightarrow>
   ((string, unit) result \<times> registry) option" where
  "deprecate_stack re ou stack track version message all_regions reg =
     deprecate_release ''stack'' ''Stack'' (\<lambda>_. get_latest_stack_version re ou reg stack track)
       re ou stack track version message all_regions reg"

section \<open>Effect of the operations on a table\<close>

text \<open>
  Documented behaviour of the libraries: \<open>semver\<close> prints a parsed version as it was written and
  accepts only identifiers of its grammar; an item written from a module is read back, whatever
  keys stand beside it, as a module with the same release data.
\<close>

definition semver_contract :: "semver_lib \<Rightarrow> bool" where
  "semver_contract sl \<longleftrightarrow> (\<forall>s v. sl_parse sl s = Inr v \<longrightarrow> version_str v = s \<and> grammatical v)"

definition same_release :: "module_resp \<Rightarrow> module_resp \<Rightarrow> bool" where
  "same_release m m' \<longleftrightarrow> mr_version m' = mr_version m \<and> mr_deprecated m' = mr_deprecated m
     \<and> (mr_stack_data m' = None \<longleftrightarrow> mr_stack_data m = None)"

abbreviation read_item_as :: "registry_env \<Rightarrow> json \<Rightarrow> (string, module_resp) result" where
  "read_item_as re i \<equiv> rv_read re (module_add_missing_fields i)"

definition module_codec :: "registry_env \<Rightarrow> bool" where
  "module_codec re \<longleftrightarrow>
     (\<forall>m pk sk. jget (module_item re pk sk m) ''PK'' = Some (JString pk)
        \<and> jget (module_item re pk sk m) ''SK'' = Some (JString sk)
        \<and> (\<exists>m'. read_item_as re (module_item re pk sk m) = Inr m' \<and> same_release m m'))"

abbreviation release_pk :: "module_resp \<Rightarrow> string" where
  "release_pk m \<equiv> module_id (mr_module m) (mr_track m)"

abbreviation latest_pk :: "module_resp \<Rightarrow> string" where
  "latest_pk m \<equiv> (if mr_stack_data m \<noteq> None then ''LATEST_STACK'' else ''LATEST_MODULE'')"

definition release_put :: "registry_env \<Rightarrow> module_resp \<Rightarrow> string \<Rightarrow> (string \<times> string \<Rightarrow> json option) \<Rightarrow> string \<times> string \<Rightarrow> json option" where
  "release_put re m sk t = t((release_pk m, sk) := Some (module_item re (release_pk m) sk m),
     (latest_pk m, release_pk m) := Some (module_item re (latest_pk m) (release_pk m) m))"

lemma module_id_not_latest: "module_id a b \<noteq> latest_pk m"
  by (simp add: module_id_def)

lemma item_op_module: "module_codec re \<Longrightarrow> item_op (put_module (module_item re pk sk m)) = Some ((pk, sk), Some (module_item re pk sk m))"
  by (simp add: item_op_def put_module_def jget_jobj module_codec_def)

lemma transact_write_run:
  assumes "transact_write ou region items reg = (r, reg')"
  shows "r \<noteq> Inr () \<Longrightarrow> reg' = reg"
    and "r = Inr () \<Longrightarrow> read_list item_op items = Some ops \<Longrightarrow>
      rg_items reg' = (rg_items reg)(region := fold (\<lambda>(k, v) t. t(k := v)) ops (rg_items reg region))"
  using assms by (auto simp: transact_write_def split: option.splits if_splits)

lemma insert_module_run:
  assumes "module_codec re" "insert_module re ou region m reg = (r, reg')"
  shows "r \<noteq> Inr () \<Longrightarrow> rg_items reg' = rg_items reg"
    and "r = Inr () \<Longrightarrow> \<exists>sk. version_sk re (mr_version m) = Inr sk
      \<and> rg_items reg' = (rg_items reg)(region := release_put re m sk (rg_items reg region))"
proof -
  show "r \<noteq> Inr () \<Longrightarrow> rg_items reg' = rg_items reg"
    using assms(2) transact_write_run(1) by (fastforce simp: insert_module_def Let_def split: sum.splits)
  assume "r = Inr ()"
  then obtain sk where sk: "version_sk re (mr_version m) = Inr sk"
    and w: "transact_write ou region [put_module (module_item re (release_pk m) sk m),
              put_module (module_item re (latest_pk m) (release_pk m) m)] reg = (Inr (), reg')"
    using assms(2) by (auto simp: insert_module_def Let_def split: sum.splits)
  have "rg_items reg' = (rg_items reg)(region := release_put re m sk (rg_items reg region))"
    using transact_write_run(2) [OF w refl, of "[((release_pk m, sk), Some (module_item re (release_pk m) sk m)),
        ((latest_pk m, release_pk m), Some (module_item re (latest_pk m) (release_pk m) m))]"]
    by (simp add: item_op_module [OF assms(1)] release_put_def)
  with sk show "\<exists>sk. version_sk re (mr_version m) = Inr sk
      \<and> rg_items reg' = (rg_items reg)(region := release_put re m sk (rg_items reg region))" by blast
qed

lemma insert_module_ok:
  assumes "module_codec re" "version_sk re (mr_version m) = Inr sk" "ou (Transact_Write region) = None"
  shows "insert_module re ou region m reg
    = (Inr (), reg\<lparr>rg_items := (rg_items reg)(region := release_put re m sk (rg_items reg region))\<rparr>)"
proof -
  have ops: "read_list item_op [put_module (module_item re (release_pk m) sk m), put_module (module_item re (latest_pk m) (release_pk m) m)]
      = Some [((release_pk m, sk), Some (module_item re (release_pk m) sk m)),
        ((latest_pk m, release_pk m), Some (module_item re (latest_pk m) (release_pk m) m))]"
    by (simp add: item_op_module [OF assms(1)])
  show ?thesis
    unfolding insert_module_def assms(2) Let_def transact_write_def
    by (simp only: ops assms(3) sum.case option.case release_put_def) (simp add: module_id_def)
qed

lemma upload_module_ok:
  assumes "module_codec re" "version_sk re (mr_version m) = Inr sk" "ou (Transact_Write region) = None"
    and "ou (Upload_File region (mr_s3_key m)) = None"
  shows "\<exists>files. upload_module re ou region m archive reg
    = (Inr (), \<lparr>rg_items = (rg_items reg)(region := release_put re m sk (rg_items reg region)), rg_files = files\<rparr>)"
  by (cases reg) (simp add: upload_module_def assms(4) insert_module_ok [where ou = ou, OF assms(1-3)])

lemma upload_module_run:
  assumes "module_codec re" "upload_module re ou region m archive reg = (r, reg')"
  shows "r \<noteq> Inr () \<Longrightarrow> rg_items reg' = rg_items reg"
    and "r = Inr () \<Longrightarrow> \<exists>sk. version_sk re (mr_version m) = Inr sk
      \<and> rg_items reg' = (rg_items reg)(region := release_put re m sk (rg_items reg region))"
  using assms(2) insert_module_run [OF assms(1)]
  by (auto simp: upload_module_def split: option.splits) fastforce+

lemma release_put_idem: "release_put re m sk (release_put re m sk t) = release_put re m sk t"
  by (auto simp: release_put_def fun_eq_iff)

text \<open>What a loop over regions leaves in one region: nothing, or the release.\<close>

definition published_or_same ::
  "registry_env \<Rightarrow> module_resp \<Rightarrow> (string \<times> string \<Rightarrow> json option) \<Rightarrow> (string \<times> string \<Rightarrow> json option) \<Rightarrow> bool" where
  "published_or_same re m t t' \<longleftrightarrow> t' = t \<or> (\<exists>sk. version_sk re (mr_version m) = Inr sk \<and> t' = release_put re m sk t)"

lemma upload_regions_run:
  assumes "module_codec re"
  shows "upload_regions re ou what m archive regions reg = (r, reg') \<Longrightarrow>
    published_or_same re m (rg_items reg home) (rg_items reg' home)"
proof (induction regions arbitrary: reg)
  case Nil
  then show ?case by (simp add: published_or_same_def)
next
  case (Cons region regions)
  obtain r1 reg1 where u: "upload_module re ou region m archive reg = (r1, reg1)" by (cases "upload_module re ou region m archive reg")
  show ?case
  proof (cases r1)
    case (Inl e)
    with u Cons.prems upload_module_run(1) [OF assms u] show ?thesis by (simp add: published_or_same_def)
  next
    case (Inr x)
    then have "published_or_same re m (rg_items reg1 home) (rg_items reg' home)"
      using Cons u by simp
    moreover from Inr obtain sk where "version_sk re (mr_version m) = Inr sk"
      "rg_items reg1 = (rg_items reg)(region := release_put re m sk (rg_items reg region))"
      using upload_module_run(2) [OF assms u] by auto
    ultimately show ?thesis
      by (auto simp: published_or_same_def release_put_idem split: if_splits)
  qed
qed

lemma write_regions_run:
  assumes "read_list item_op items = Some [(k, v)]"
  shows "write_regions ou what items regions reg = (r, reg') \<Longrightarrow>
    rg_items reg' home \<in> {rg_items reg home, (rg_items reg home)(k := v)}"
proof (induction regions arbitrary: reg)
  case (Cons region regions)
  obtain r1 reg1 where u: "transact_write ou region items reg = (r1, reg1)" by (cases "transact_write ou region items reg")
  show ?case
  proof (cases r1)
    case (Inl e)
    with u Cons.prems transact_write_run(1) [OF u] show ?thesis by simp
  next
    case (Inr x)
    then have "write_regions ou what items regions reg1 = (r, reg')"
      using Cons.prems u by simp
    then have "rg_items reg' home \<in> {rg_items reg1 home, (rg_items reg1 home)(k := v)}"
      by (rule Cons.IH)
    moreover have "rg_items reg1 = (rg_items reg)(region := (rg_items reg region)(k := v))"
      using transact_write_run(2) [OF u _ assms] Inr by simp
    ultimately show ?thesis by (auto split: if_splits)
  qed
qed simp

section \<open>The registry over time\<close>

text \<open>
  What a name is used for: \<open>is_stack\<close> says of every identifier whether stacks or modules are
  published under it. A release is ordinary when it is not one of the unreleased \<open>0.0.0\<close>
  versions, which skip the comparison, and has a track and no build metadata.
\<close>

definition ordinary_release :: "registry_env \<Rightarrow> (string \<Rightarrow> bool) \<Rightarrow> module_resp \<Rightarrow> bool" where
  "ordinary_release re is_stack m \<longleftrightarrow> \<not> starts_with (mr_version m) ''0.0.0'' \<and> \<not> mr_deprecated m
     \<and> mr_track m \<noteq> [] \<and> (\<forall>v. sl_parse (rv_semver re) (mr_version m) = Inr v \<longrightarrow> sv_build v = [])
     \<and> (is_stack (release_pk m) \<longleftrightarrow> mr_stack_data m \<noteq> None)"

text \<open>
  The registry starts empty; publications and deprecations follow one another, each with an outage
  of its own.
\<close>

inductive registry_run :: "registry_env \<Rightarrow> (string \<Rightarrow> bool) \<Rightarrow> registry \<Rightarrow> bool" for re is_stack where
  empty: "registry_run re is_stack \<lparr>rg_items = (\<lambda>_ _. None), rg_files = (\<lambda>_ _. None)\<rparr>"
| publish_module: "registry_run re is_stack reg \<Longrightarrow> ordinary_release re is_stack m \<Longrightarrow> mr_stack_data m = None \<Longrightarrow>
    registry_run re is_stack (snd (server_publish_module re ou m archive regions reg))"
| publish_stack: "registry_run re is_stack reg \<Longrightarrow> ordinary_release re is_stack m \<Longrightarrow> mr_stack_data m \<noteq> None \<Longrightarrow>
    registry_run re is_stack (snd (server_publish_stack re ou m archive regions reg))"
| deprecate_module: "registry_run re is_stack reg \<Longrightarrow>
    deprecate_module re ou name track version message regions reg = Some (r, reg') \<Longrightarrow> registry_run re is_stack reg'"
| deprecate_stack: "registry_run re is_stack reg \<Longrightarrow> is_stack (module_id name track) \<Longrightarrow>
    deprecate_stack re ou name track version message regions reg = Some (r, reg') \<Longrightarrow> registry_run re is_stack reg'"

definition latest_of :: "(string \<Rightarrow> bool) \<Rightarrow> string \<Rightarrow> string \<times> string" where
  "latest_of is_stack rid = (if is_stack rid then ''LATEST_STACK'' else ''LATEST_MODULE'', rid)"

text \<open>An item that is a release with this parsed version, readable, without build metadata.\<close>

definition release_item :: "registry_env \<Rightarrow> json \<Rightarrow> module_resp \<Rightarrow> semver \<Rightarrow> string \<Rightarrow> bool" where
  "release_item re i m v sk \<longleftrightarrow> read_item_as re i = Inr m \<and> sl_parse (rv_semver re) (mr_version m) = Inr v
     \<and> sv_build v = [] \<and> version_sk re (mr_version m) = Inr sk"

text \<open>
  The invariant of the handler's table: every release under an identifier is at most the latest one,
  and the latest entry names a release that is not deprecated.
\<close>

definition registry_inv :: "registry_env \<Rightarrow> (string \<Rightarrow> bool) \<Rightarrow> (string \<times> string \<Rightarrow> json option) \<Rightarrow> bool" where
  "registry_inv re is_stack t \<longleftrightarrow>
     (\<forall>rid sk i. t (rid, sk) = Some i \<longrightarrow> starts_with rid ''MODULE#'' \<longrightarrow>
        (\<exists>m v l lv li lsk. release_item re i m v sk \<and> (is_stack rid \<longleftrightarrow> mr_stack_data m \<noteq> None)
           \<and> t (latest_of is_stack rid) = Some li \<and> release_item re li l lv lsk
           \<and> version_cmp (rv_semver re) v lv \<noteq> Greater))
     \<and> (\<forall>rid li. t (latest_of is_stack rid) = Some li \<longrightarrow>
        (\<exists>l lv sk i m. release_item re li l lv sk \<and> t (rid, sk) = Some i \<and> starts_with rid ''MODULE#''
           \<and> read_item_as re i = Inr m \<and> mr_version m = mr_version l \<and> \<not> mr_deprecated m))"

lemma inv_release:
  assumes "registry_inv re is_stack t" "t (rid, sk) = Some i" "starts_with rid ''MODULE#''"
  obtains m v l lv li lsk where "release_item re i m v sk" "is_stack rid \<longleftrightarrow> mr_stack_data m \<noteq> None"
    "t (latest_of is_stack rid) = Some li" "release_item re li l lv lsk" "version_cmp (rv_semver re) v lv \<noteq> Greater"
  using assms unfolding registry_inv_def by blast

lemma inv_latest:
  assumes "registry_inv re is_stack t" "t (latest_of is_stack rid) = Some li"
  obtains l lv sk i m where "release_item re li l lv sk" "t (rid, sk) = Some i" "starts_with rid ''MODULE#''"
    "read_item_as re i = Inr m" "mr_version m = mr_version l" "\<not> mr_deprecated m"
  using assms unfolding registry_inv_def by blast

lemma module_id_start [simp]: "starts_with (module_id a b) ''MODULE#''"
  by (simp add: module_id_def starts_with_def)

lemma latest_of_fst: "starts_with rid ''MODULE#'' \<Longrightarrow> latest_of is_stack rid' \<noteq> (rid, sk)"
  by (auto simp: latest_of_def starts_with_def)

lemma latest_of_inj [simp]: "latest_of is_stack a = latest_of is_stack b \<longleftrightarrow> a = b"
  by (auto simp: latest_of_def)

subsection \<open>Versions and their keys\<close>

lemma version_sk_parse: "version_sk re s = Inr sk \<Longrightarrow> \<exists>v. sl_parse (rv_semver re) s = Inr v"
  by (auto simp: version_sk_def zero_pad_semver_def res_bind_eq_Inr)

lemma version_sk_inj:
  assumes "semver_contract (rv_semver re)" "version_sk re s = Inr sk" "version_sk re s' = Inr sk"
  shows "s = s'"
proof -
  obtain v v' where v: "sl_parse (rv_semver re) s = Inr v" "sl_parse (rv_semver re) s' = Inr v'"
    using version_sk_parse assms(2,3) by blast
  obtain k where k: "zero_pad_semver (rv_semver re) s 3 = Inr k" "zero_pad_semver (rv_semver re) s' 3 = Inr k"
    using assms(2,3) by (auto simp: version_sk_def res_bind_eq_Inr)
  have g: "grammatical v" "grammatical v'" "version_str v = s" "version_str v' = s'"
    using assms(1) v by (auto simp: semver_contract_def)
  have "padded_str 3 v = padded_str 3 v'"
    using k v by (simp add: zero_pad_semver_def)
  then have "v = v'"
    using padded_str_inj g by blast
  then show ?thesis using g by simp
qed

lemma strip_no_build: "version_cmp sl (strip_build_metadata a) (strip_build_metadata b) = version_cmp sl a b"
  by (simp add: version_cmp_def strip_build_metadata_def)

subsection \<open>Publishing keeps the invariant\<close>

definition kind_of :: "module_resp \<Rightarrow> module_type" where
  "kind_of m = (if mr_stack_data m \<noteq> None then StackKind else ModuleKind)"

lemma latest_lookup:
  assumes "ordinary_release re is_stack m"
  shows "(case kind_of m of ModuleKind \<Rightarrow> get_latest_module_version re ou reg (mr_module m) (mr_track m)
            | StackKind \<Rightarrow> get_latest_stack_version re ou reg (mr_module m) (mr_track m))
       = get_module_optional re ou reg (latest_of is_stack (release_pk m))"
  using assms by (auto simp: kind_of_def get_latest_module_version_def get_latest_stack_version_def latest_key_def
      latest_of_def ordinary_release_def)

lemma optional_some:
  assumes "get_module_optional re ou reg k = Inr x" "rg_items reg (rv_home re) k = Some i" "read_item_as re i = Inr l"
  shows "x = Some l"
  using assms by (auto simp: get_module_optional_def read_key_def res_bind_eq_Inr split: option.splits)

lemma compare_passed:
  assumes "compare_latest_version re ou reg (mr_module m) (mr_version m) (mr_track m) (kind_of m) = Inr x"
    and m: "ordinary_release re is_stack m" "sl_parse (rv_semver re) (mr_version m) = Inr v"
    and l: "rg_items reg (rv_home re) (latest_of is_stack (release_pk m)) = Some li" "release_item re li l lv lsk"
  shows "version_cmp (rv_semver re) v lv = Greater"
proof -
  have not000: "\<not> starts_with (mr_version m) ''0.0.0''" and b: "sv_build v = []"
    using m by (auto simp: ordinary_release_def)
  have li: "read_item_as re li = Inr l" "sl_parse (rv_semver re) (mr_version l) = Inr lv" "sv_build lv = []"
    using l(2) by (auto simp: release_item_def)
  obtain y where y: "get_module_optional re ou reg (latest_of is_stack (release_pk m)) = Inr y"
    using assms(1) not000 unfolding compare_latest_version_def latest_lookup [OF m(1)]
    by (auto split: sum.splits)
  then have "y = Some l" by (rule optional_some [OF _ l(1) li(1)])
  then show ?thesis
    using assms(1) not000 y li m(2) b unfolding compare_latest_version_def latest_lookup [OF m(1)]
    by (simp add: semver_parse_def semver_parse_without_build_def strip_no_build split: ordering.splits)
qed

lemma published_item:
  assumes "module_codec re" "ordinary_release re is_stack m" "version_sk re (mr_version m) = Inr sk"
    "sl_parse (rv_semver re) (mr_version m) = Inr v"
  obtains m' where "release_item re (module_item re pk k m) m' v sk" "mr_version m' = mr_version m"
    "\<not> mr_deprecated m'" "is_stack (release_pk m) \<longleftrightarrow> mr_stack_data m' \<noteq> None"
proof -
  obtain m' where "read_item_as re (module_item re pk k m) = Inr m'" "same_release m m'"
    using assms(1) unfolding module_codec_def by blast
  then show thesis
    using assms that by (auto simp: release_item_def same_release_def ordinary_release_def)
qed

lemma release_put_other:
  "k \<noteq> (release_pk m, sk) \<Longrightarrow> k \<noteq> (latest_pk m, release_pk m) \<Longrightarrow> release_put re m sk t k = t k"
  by (simp add: release_put_def)

lemma release_put_at:
  "release_put re m sk t (release_pk m, sk) = Some (module_item re (release_pk m) sk m)"
  "release_put re m sk t (latest_pk m, release_pk m) = Some (module_item re (latest_pk m) (release_pk m) m)"
  by (simp_all add: release_put_def module_id_not_latest)

lemma latest_of_release: "ordinary_release re is_stack m \<Longrightarrow> latest_of is_stack (release_pk m) = (latest_pk m, release_pk m)"
  by (auto simp: latest_of_def ordinary_release_def)

lemma key_is_new:
  assumes c: "semver_contract (rv_semver re)" and inv: "registry_inv re is_stack t"
    and g: "\<And>li l lv lsk. t (latest_of is_stack (release_pk m)) = Some li \<Longrightarrow> release_item re li l lv lsk \<Longrightarrow>
        version_cmp (rv_semver re) v lv = Greater"
    and v: "sl_parse (rv_semver re) (mr_version m) = Inr v" "version_sk re (mr_version m) = Inr sk"
  shows "t (release_pk m, sk) = None"
proof (rule ccontr)
  assume "t (release_pk m, sk) \<noteq> None"
  then obtain i where "t (release_pk m, sk) = Some i" by blast
  from inv_release [OF inv this] obtain m' v' l lv li lsk where r: "release_item re i m' v' sk"
    and li: "t (latest_of is_stack (release_pk m)) = Some li" "release_item re li l lv lsk"
    and le: "version_cmp (rv_semver re) v' lv \<noteq> Greater"
    by (metis module_id_start)
  have "mr_version m' = mr_version m"
    using r v(2) version_sk_inj [OF c] by (auto simp: release_item_def)
  then have "v' = v" using r v(1) by (simp add: release_item_def)
  with le g [OF li] show False by simp
qed

lemma inv_publish:
  assumes codec: "module_codec re" and prec: "precedence (sl_pre_cmp (rv_semver re))"
    and inv: "registry_inv re is_stack t" and m: "ordinary_release re is_stack m"
    and g: "\<And>li l lv lsk. t (latest_of is_stack (release_pk m)) = Some li \<Longrightarrow> release_item re li l lv lsk \<Longrightarrow>
        version_cmp (rv_semver re) v lv = Greater"
    and v: "sl_parse (rv_semver re) (mr_version m) = Inr v" "version_sk re (mr_version m) = Inr sk"
  shows "registry_inv re is_stack (release_put re m sk t)"
proof -
  let ?t = "release_put re m sk t" and ?pk = "release_pk m"
  note cmp = version_precedence [OF prec]
  note at = release_put_at [of re m sk t] and lk = latest_of_release [OF m]
  obtain m' where m': "release_item re (module_item re ?pk sk m) m' v sk" "mr_version m' = mr_version m"
      "\<not> mr_deprecated m'" "is_stack ?pk \<longleftrightarrow> mr_stack_data m' \<noteq> None"
    by (rule published_item [OF codec m v(2,1)])
  obtain l' where l': "release_item re (module_item re (latest_pk m) ?pk m) l' v sk" "mr_version l' = mr_version m"
    by (rule published_item [OF codec m v(2,1)])
  have rel: "\<exists>m v l lv li lsk. release_item re i m v k \<and> (is_stack rid \<longleftrightarrow> mr_stack_data m \<noteq> None)
           \<and> ?t (latest_of is_stack rid) = Some li \<and> release_item re li l lv lsk
           \<and> version_cmp (rv_semver re) v lv \<noteq> Greater"
    if i: "?t (rid, k) = Some i" "starts_with rid ''MODULE#''" for rid k i
  proof (cases "rid = ?pk")
    case True
    show ?thesis
    proof (cases "k = sk")
      case True
      with \<open>rid = ?pk\<close> i at(1) have "i = module_item re ?pk sk m" by simp
      moreover have "version_cmp (rv_semver re) v v \<noteq> Greater" using precedence.refl [OF cmp] by simp
      ultimately show ?thesis using m' l' at(2) lk \<open>rid = ?pk\<close> True by metis
    next
      case False
      then have "t (?pk, k) = Some i"
        using i(1) \<open>rid = ?pk\<close> release_put_other [of "(?pk, k)" m sk re t] module_id_not_latest by auto
      from inv_release [OF inv this] obtain m1 v1 l lv li lsk where r: "release_item re i m1 v1 k"
        "is_stack ?pk \<longleftrightarrow> mr_stack_data m1 \<noteq> None" "t (latest_of is_stack ?pk) = Some li" "release_item re li l lv lsk"
        "version_cmp (rv_semver re) v1 lv \<noteq> Greater" by (metis module_id_start)
      have "version_cmp (rv_semver re) v1 v = Less"
        by (rule precedence.le_greater_trans [OF cmp r(5) g [OF r(3,4)]])
      then show ?thesis using r(1,2) l' at(2) lk \<open>rid = ?pk\<close> by (metis ordering.distinct(3))
    qed
  next
    case False
    then have "t (rid, k) = Some i"
      using i release_put_other [of "(rid, k)" m sk re t] latest_of_fst [OF i(2), of is_stack ?pk k] lk by auto
    from inv_release [OF inv this i(2)] obtain m1 v1 l lv li lsk where r: "release_item re i m1 v1 k"
      "is_stack rid \<longleftrightarrow> mr_stack_data m1 \<noteq> None" "t (latest_of is_stack rid) = Some li" "release_item re li l lv lsk"
      "version_cmp (rv_semver re) v1 lv \<noteq> Greater" .
    moreover have "?t (latest_of is_stack rid) = t (latest_of is_stack rid)"
      using False lk latest_of_fst [of ?pk is_stack rid sk] by (intro release_put_other) (auto simp: latest_of_def)
    ultimately show ?thesis by metis
  qed
  have lat: "\<exists>l lv k i m. release_item re li l lv k \<and> ?t (rid, k) = Some i \<and> starts_with rid ''MODULE#''
           \<and> read_item_as re i = Inr m \<and> mr_version m = mr_version l \<and> \<not> mr_deprecated m"
    if li: "?t (latest_of is_stack rid) = Some li" for rid li
  proof (cases "rid = ?pk")
    case True
    then have "li = module_item re (latest_pk m) ?pk m" using li at(2) lk by simp
    then show ?thesis using l' m' at(1) True unfolding release_item_def by (metis module_id_start)
  next
    case False
    then have "t (latest_of is_stack rid) = Some li"
      using li lk latest_of_fst [of ?pk is_stack rid sk] release_put_other [of "latest_of is_stack rid" m sk re t]
      by (auto simp: latest_of_def)
    from inv_latest [OF inv this] obtain l lv k i m1 where r: "release_item re li l lv k" "t (rid, k) = Some i"
      "starts_with rid ''MODULE#''" "read_item_as re i = Inr m1" "mr_version m1 = mr_version l" "\<not> mr_deprecated m1" .
    moreover have "?t (rid, k) = t (rid, k)"
      using False lk latest_of_fst [OF r(3), of is_stack ?pk k] by (intro release_put_other) auto
    ultimately show ?thesis by metis
  qed
  show ?thesis unfolding registry_inv_def using rel lat by blast
qed

subsection \<open>Deprecating keeps the invariant\<close>

definition deprecated_release :: "module_resp \<Rightarrow> string option \<Rightarrow> module_resp" where
  "deprecated_release m message = m\<lparr>mr_deprecated := True, mr_deprecated_message := message\<rparr>"

lemma deprecate_release_run:
  assumes "module_codec re" "deprecate_release what What look re ou name track version message regions reg = Some (r, reg')"
    and "rg_items reg' (rv_home re) \<noteq> rg_items reg (rv_home re)"
  obtains sk i m latest where "version_sk re version = Inr sk"
    "rg_items reg (rv_home re) (module_id name track, sk) = Some i" "read_item_as re i = Inr m"
    "look m = Inr latest" "\<forall>l. latest = Some l \<longrightarrow> mr_version l \<noteq> version"
    "rg_items reg' (rv_home re) = (rg_items reg (rv_home re))((module_id name track, sk) :=
       Some (module_item re (module_id name track) sk (deprecated_release m message)))"
proof -
  let ?t = "rg_items reg (rv_home re)"
  obtain sk where sk: "version_sk re version = Inr sk"
    using assms(2,3) by (auto simp: deprecate_release_def get_module_version_def split: if_splits sum.splits)
  obtain m where m: "get_module_optional re ou reg (module_id name track, sk) = Inr (Some m)"
    using assms(2,3) sk by (auto simp: deprecate_release_def get_module_version_def split: if_splits sum.splits option.splits)
  then obtain i where i: "?t (module_id name track, sk) = Some i" "read_item_as re i = Inr m"
    by (auto simp: get_module_optional_def read_key_def res_bind_eq_Inr split: option.splits if_splits)
  obtain latest where l: "look m = Inr latest" "\<forall>l. latest = Some l \<longrightarrow> mr_version l \<noteq> version"
    and w: "write_regions ou what [put_module (module_item re (module_id name track) sk (deprecated_release m message))] regions reg = (r, reg')"
    using assms(2,3) sk m unfolding deprecate_release_def get_module_version_def deprecated_release_def
    by (auto split: if_splits sum.splits option.splits)
  have "read_list item_op [put_module (module_item re (module_id name track) sk (deprecated_release m message))]
     = Some [((module_id name track, sk), Some (module_item re (module_id name track) sk (deprecated_release m message)))]"
    by (simp add: item_op_module [OF assms(1)])
  from write_regions_run [OF this w, of "rv_home re"] assms(3)
  have "rg_items reg' (rv_home re) = ?t((module_id name track, sk) :=
       Some (module_item re (module_id name track) sk (deprecated_release m message)))" by auto
  with sk i l that show ?thesis by blast
qed

lemma inv_deprecate:
  assumes codec: "module_codec re" and c: "semver_contract (rv_semver re)" and inv: "registry_inv re is_stack t"
    and i: "t (pk, sk) = Some i" "starts_with pk ''MODULE#''" "read_item_as re i = Inr m"
    and sk: "version_sk re version = Inr sk"
    and old: "\<And>li l. t (latest_of is_stack pk) = Some li \<Longrightarrow> read_item_as re li = Inr l \<Longrightarrow> mr_version l \<noteq> version"
  shows "registry_inv re is_stack (t((pk, sk) := Some (module_item re pk sk (deprecated_release m message))))"
proof -
  let ?new = "module_item re pk sk (deprecated_release m message)"
  let ?t = "t((pk, sk) := Some ?new)"
  obtain m' where m': "read_item_as re ?new = Inr m'" "same_release (deprecated_release m message) m'"
    using codec unfolding module_codec_def by blast
  have same: "?t (latest_of is_stack rid) = t (latest_of is_stack rid)" for rid
    using latest_of_fst [OF i(2), of is_stack rid sk] by simp
  have rel: "\<exists>m v l lv li lsk. release_item re i' m v k \<and> (is_stack rid \<longleftrightarrow> mr_stack_data m \<noteq> None)
           \<and> ?t (latest_of is_stack rid) = Some li \<and> release_item re li l lv lsk
           \<and> version_cmp (rv_semver re) v lv \<noteq> Greater"
    if i': "?t (rid, k) = Some i'" "starts_with rid ''MODULE#''" for rid k i'
  proof (cases "(rid, k) = (pk, sk)")
    case True
    from inv_release [OF inv i(1,2)] obtain m1 v1 l lv li lsk where r: "release_item re i m1 v1 sk"
      "is_stack pk \<longleftrightarrow> mr_stack_data m1 \<noteq> None" "t (latest_of is_stack pk) = Some li" "release_item re li l lv lsk"
      "version_cmp (rv_semver re) v1 lv \<noteq> Greater" .
    then have "m1 = m" using i(3) by (simp add: release_item_def)
    then have "release_item re ?new m' v1 sk" "is_stack pk \<longleftrightarrow> mr_stack_data m' \<noteq> None"
      using r(1,2) m' by (auto simp: release_item_def same_release_def deprecated_release_def)
    then show ?thesis using True i'(1) r(3-5) same by (metis fun_upd_same option.inject prod.inject)
  next
    case False
    then have "t (rid, k) = Some i'" using i' by (auto split: if_splits)
    from inv_release [OF inv this i'(2)] same show ?thesis by metis
  qed
  have lat: "\<exists>l lv k i m. release_item re li l lv k \<and> ?t (rid, k) = Some i \<and> starts_with rid ''MODULE#''
           \<and> read_item_as re i = Inr m \<and> mr_version m = mr_version l \<and> \<not> mr_deprecated m"
    if "?t (latest_of is_stack rid) = Some li" for rid li
  proof -
    have li: "t (latest_of is_stack rid) = Some li" using that same by simp
    from inv_latest [OF inv this] obtain l lv k i1 m1 where r: "release_item re li l lv k" "t (rid, k) = Some i1"
      "starts_with rid ''MODULE#''" "read_item_as re i1 = Inr m1" "mr_version m1 = mr_version l" "\<not> mr_deprecated m1" .
    have "(rid, k) \<noteq> (pk, sk)"
    proof
      assume e: "(rid, k) = (pk, sk)"
      then have "mr_version l = version"
        using r(1) sk version_sk_inj [OF c] by (auto simp: release_item_def)
      moreover have "mr_version l \<noteq> version"
        using old li e r(1) by (auto simp: release_item_def)
      ultimately show False by simp
    qed
    then have "?t (rid, k) = Some i1" using r(2) by auto
    with r show ?thesis by blast
  qed
  show ?thesis unfolding registry_inv_def using rel lat by blast
qed

lemma latest_not_version:
  assumes "get_module_optional re ou reg (latest_of is_stack pk) = Inr latest" "\<forall>l. latest = Some l \<longrightarrow> mr_version l \<noteq> version"
    and "rg_items reg (rv_home re) (latest_of is_stack pk) = Some li" "read_item_as re li = Inr l"
  shows "mr_version l \<noteq> version"
  using assms(2) optional_some [OF assms(1,3,4)] by simp

subsection \<open>Every run keeps the invariant\<close>

lemma server_publish_run:
  assumes codec: "module_codec re" and prec: "precedence (sl_pre_cmp (rv_semver re))" and c: "semver_contract (rv_semver re)"
    and inv: "registry_inv re is_stack (rg_items reg (rv_home re))" and m: "ordinary_release re is_stack m"
    and passed: "compare_latest_version re ou reg (mr_module m) (mr_version m) (mr_track m) (kind_of m) = Inr x"
    and up: "upload_regions re ou what m archive regions reg = (r, reg')"
    and changed: "rg_items reg' (rv_home re) \<noteq> rg_items reg (rv_home re)"
  shows "\<exists>sk v. version_sk re (mr_version m) = Inr sk \<and> sl_parse (rv_semver re) (mr_version m) = Inr v
      \<and> rg_items reg (rv_home re) (release_pk m, sk) = None
      \<and> rg_items reg' (rv_home re) = release_put re m sk (rg_items reg (rv_home re))
      \<and> registry_inv re is_stack (rg_items reg' (rv_home re))"
proof -
  let ?t = "rg_items reg (rv_home re)"
  obtain sk where sk: "version_sk re (mr_version m) = Inr sk" and t': "rg_items reg' (rv_home re) = release_put re m sk ?t"
    using upload_regions_run [OF codec up, of "rv_home re"] changed by (auto simp: published_or_same_def)
  obtain v where v: "sl_parse (rv_semver re) (mr_version m) = Inr v"
    using version_sk_parse [OF sk] by blast
  have g: "version_cmp (rv_semver re) v lv = Greater"
    if "?t (latest_of is_stack (release_pk m)) = Some li" "release_item re li l lv lsk" for li l lv lsk
    by (rule compare_passed [OF passed m v that])
  have "?t (release_pk m, sk) = None"
    by (rule key_is_new [OF c inv g v sk])
  moreover have "registry_inv re is_stack (release_put re m sk ?t)"
    by (rule inv_publish [OF codec prec inv m g v sk])
  ultimately show ?thesis using sk v t' by auto
qed

lemma publish_module_uploads:
  assumes "server_publish_module re ou m archive regions reg = (r, reg')" "rg_items reg' h \<noteq> rg_items reg h" "mr_stack_data m = None"
  obtains x r' where "compare_latest_version re ou reg (mr_module m) (mr_version m) (mr_track m) (kind_of m) = Inr x"
    "upload_regions re ou ''module'' m archive regions reg = (r', reg')"
  using assms by (auto simp: server_publish_module_def kind_of_def split: if_splits sum.splits option.splits)

lemma publish_stack_uploads:
  assumes "server_publish_stack re ou m archive regions reg = (r, reg')" "rg_items reg' h \<noteq> rg_items reg h" "mr_stack_data m \<noteq> None"
  obtains x r' where "compare_latest_version re ou reg (mr_module m) (mr_version m) (mr_track m) (kind_of m) = Inr x"
    "upload_regions re ou ''stack'' m archive regions reg = (r', reg')"
  using assms by (auto simp: server_publish_stack_def kind_of_def split: if_splits sum.splits option.splits prod.splits)

lemma run_inv:
  assumes codec: "module_codec re" and prec: "precedence (sl_pre_cmp (rv_semver re))" and c: "semver_contract (rv_semver re)"
  shows "registry_run re is_stack reg \<Longrightarrow> registry_inv re is_stack (rg_items reg (rv_home re))"
proof (induction rule: registry_run.induct)
  case empty
  show ?case by (simp add: registry_inv_def)
next
  case (publish_module reg m ou archive regions)
  obtain r reg' where p: "server_publish_module re ou m archive regions reg = (r, reg')" by fastforce
  show ?case
  proof (cases "rg_items reg' (rv_home re) = rg_items reg (rv_home re)")
    case False
    from publish_module_uploads [OF p False publish_module.hyps(3)] server_publish_run [OF codec prec c publish_module.IH publish_module.hyps(2) _ _ False]
    show ?thesis using p by (metis snd_conv)
  qed (use p publish_module.IH in simp)
next
  case (publish_stack reg m ou archive regions)
  obtain r reg' where p: "server_publish_stack re ou m archive regions reg = (r, reg')" by fastforce
  show ?case
  proof (cases "rg_items reg' (rv_home re) = rg_items reg (rv_home re)")
    case False
    from publish_stack_uploads [OF p False publish_stack.hyps(3)] server_publish_run [OF codec prec c publish_stack.IH publish_stack.hyps(2) _ _ False]
    show ?thesis using p by (metis snd_conv)
  qed (use p publish_stack.IH in simp)
next
  case (deprecate_module reg ou name track version message regions r reg')
  show ?case
  proof (cases "rg_items reg' (rv_home re) = rg_items reg (rv_home re)")
    case False
    from deprecate_release_run [OF codec deprecate_module.hyps(2) [unfolded deprecate_module_def] False]
    obtain sk i m latest where d: "version_sk re version = Inr sk"
      "rg_items reg (rv_home re) (module_id name track, sk) = Some i" "read_item_as re i = Inr m"
      "(if mr_stack_data m \<noteq> None then get_latest_stack_version re ou reg name track
        else get_latest_module_version re ou reg name track) = Inr latest"
      "\<forall>l. latest = Some l \<longrightarrow> mr_version l \<noteq> version"
      "rg_items reg' (rv_home re) = (rg_items reg (rv_home re))((module_id name track, sk) :=
         Some (module_item re (module_id name track) sk (deprecated_release m message)))" .
    from inv_release [OF deprecate_module.IH d(2) module_id_start] d(3)
    have "is_stack (module_id name track) \<longleftrightarrow> mr_stack_data m \<noteq> None"
      by (auto simp: release_item_def)
    then have "get_module_optional re ou reg (latest_of is_stack (module_id name track)) = Inr latest"
      using d(4) by (auto simp: latest_of_def get_latest_stack_version_def get_latest_module_version_def latest_key_def split: if_splits)
    from latest_not_version [OF this d(5)] inv_deprecate [OF codec c deprecate_module.IH d(2) module_id_start d(3,1)] d(6)
    show ?thesis by metis
  qed (use deprecate_module.IH in simp)
next
  case (deprecate_stack reg name track ou version message regions r reg')
  show ?case
  proof (cases "rg_items reg' (rv_home re) = rg_items reg (rv_home re)")
    case False
    from deprecate_release_run [OF codec deprecate_stack.hyps(3) [unfolded deprecate_stack_def] False]
    obtain sk i m latest where d: "version_sk re version = Inr sk"
      "rg_items reg (rv_home re) (module_id name track, sk) = Some i" "read_item_as re i = Inr m"
      "get_latest_stack_version re ou reg name track = Inr latest"
      "\<forall>l. latest = Some l \<longrightarrow> mr_version l \<noteq> version"
      "rg_items reg' (rv_home re) = (rg_items reg (rv_home re))((module_id name track, sk) :=
         Some (module_item re (module_id name track) sk (deprecated_release m message)))" .
    have "get_module_optional re ou reg (latest_of is_stack (module_id name track)) = Inr latest"
      using d(4) deprecate_stack.hyps(2) by (auto simp: latest_of_def get_latest_stack_version_def latest_key_def)
    from latest_not_version [OF this d(5)] inv_deprecate [OF codec c deprecate_stack.IH d(2) module_id_start d(3,1)] d(6)
    show ?thesis by metis
  qed (use deprecate_stack.IH in simp)
qed

end
