(* ===== verification/Registry_Properties.thy ===== *)
theory Registry_Properties
  imports Registry
begin

text \<open>
  What the registry promises of ordinary releases: they are immutable and grow, the latest one is
  never deprecated;
  and what it does not: a publication that stops between two regions cannot be completed, the
  check of names finds nothing, and a build that has been superseded by another build of the same
  version can be published again over itself.
\<close>

section \<open>A concrete registry\<close>

text \<open>Items hold the release data of a module, the rest is the one of \<open>demo_module\<close>.\<close>

definition demo_registry :: registry_env where
  "demo_registry = \<lparr>rv_semver = demo_semvers, rv_home = ''r'',
     rv_json = (\<lambda>m. jobj [(''version'', JString (mr_version m)), (''deprecated'', JBool (mr_deprecated m)),
                         (''stack'', JBool (mr_stack_data m \<noteq> None))]),
     rv_read = (\<lambda>i. case (jget i ''version'', jget i ''deprecated'', jget i ''stack'') of
        (Some (JString v), Some (JBool d), Some (JBool s)) \<Rightarrow>
          Inr (demo_module\<lparr>mr_version := v, mr_deprecated := d, mr_stack_data := (if s then Some \<lparr>sd_modules = []\<rparr> else None)\<rparr>)
      | _ \<Rightarrow> Inl ''missing field'')\<rparr>"

definition no_outage :: outage where
  "no_outage c = None"

lemma demo_codec: "module_codec demo_registry"
proof -
  have i: "module_item demo_registry pk sk m = jobj [(''PK'', JString pk), (''SK'', JString sk), (''version'', JString (mr_version m)),
      (''deprecated'', JBool (mr_deprecated m)), (''stack'', JBool (mr_stack_data m \<noteq> None))]" for pk sk m
    by (simp add: module_item_def demo_registry_def merge_jobj)
  have r: "rv_read demo_registry x = (case (jget x ''version'', jget x ''deprecated'', jget x ''stack'') of
        (Some (JString v), Some (JBool d), Some (JBool s)) \<Rightarrow>
          Inr (demo_module\<lparr>mr_version := v, mr_deprecated := d, mr_stack_data := (if s then Some \<lparr>sd_modules = []\<rparr> else None)\<rparr>)
      | _ \<Rightarrow> Inl ''missing field'')" for x
    by (simp add: demo_registry_def)
  show ?thesis
    unfolding module_codec_def i r
    by (simp add: jget_jobj module_add_missing_fields_def json_default_def json_set_jobj same_release_def)
qed

lemma demo_contract: "semver_contract demo_semvers"
  unfolding semver_contract_def
proof (intro allI impI)
  fix s v
  assume "sl_parse demo_semvers s = Inr v"
  then have "(s, v) \<in> set [(''1.9.0'', demo_semver 1 9 0 [] []), (''1.10.0'', demo_semver 1 10 0 [] []),
      (''1.0.0-dev'', demo_semver 1 0 0 ''dev'' []), (''1.0.0-dev+a'', demo_semver 1 0 0 ''dev'' ''a''),
      (''1.0.0-dev+b'', demo_semver 1 0 0 ''dev'' ''b''), (''999.0.0'', demo_semver 999 0 0 [] []),
      (''1000.0.0'', demo_semver 1000 0 0 [] [])]"
    by (simp add: demo_semvers_def split: if_splits)
  moreover have "\<forall>(s, v) \<in> set [(''1.9.0'', demo_semver 1 9 0 [] []), (''1.10.0'', demo_semver 1 10 0 [] []),
      (''1.0.0-dev'', demo_semver 1 0 0 ''dev'' []), (''1.0.0-dev+a'', demo_semver 1 0 0 ''dev'' ''a''),
      (''1.0.0-dev+b'', demo_semver 1 0 0 ''dev'' ''b''), (''999.0.0'', demo_semver 999 0 0 [] []),
      (''1000.0.0'', demo_semver 1000 0 0 [] [])]. version_str v = s \<and> grammatical v"
    by code_simp
  ultimately show "version_str v = s \<and> grammatical v" by blast
qed

lemma demo_pre: "precedence (sl_pre_cmp demo_semvers)"
  by unfold_locales (auto simp: demo_semvers_def split: if_splits)

lemma demo_registry_simps [simp]: "rv_semver demo_registry = demo_semvers" "rv_home demo_registry = ''r''"
  by (simp_all add: demo_registry_def)

lemma demo_pre': "precedence (sl_pre_cmp (rv_semver demo_registry))"
  and demo_contract': "semver_contract (rv_semver demo_registry)"
  by (simp_all add: demo_pre demo_contract)

definition demo_release :: "string \<Rightarrow> module_resp" where
  "demo_release v = demo_module\<lparr>mr_version := v, mr_track := ''stable''\<rparr>"

lemma demo_release_ordinary: "ordinary_release demo_registry (\<lambda>_. False) (demo_release ''1.9.0'')"
  by (simp add: ordinary_release_def demo_release_def demo_module_def starts_with_def demo_semver_def)

lemma no_outage [simp]: "no_outage c = None"
  by (simp add: no_outage_def)

definition empty_registry :: registry where
  "empty_registry = \<lparr>rg_items = (\<lambda>_ _. None), rg_files = (\<lambda>_ _. None)\<rparr>"

lemma empty_run: "registry_run re is_stack empty_registry"
  by (simp add: empty_registry_def registry_run.empty)

section \<open>Releases are immutable and grow\<close>

text \<open>
  C9: a publication of an ordinary release never touches another one. A release is ordinary when its
  version has no build metadata and does not start with 0.0.0, it is not deprecated as it is published,
  it has a track, and its name and track are those of modules only or of stacks only. Whatever
  ordinary releases have been published and whatever has been deprecated before (with the operation
  for stacks only what is a stack), and whichever calls fail, a publication of an ordinary module
  release that changes the handler's table writes it under a key that held nothing, changes no
  other item than that one and the entry of the latest version, and leaves every release of the name
  at most the latest one. Releases that are not ordinary can overwrite others: see the end.
\<close>

theorem releases_are_immutable:
  assumes "module_codec re" "precedence (sl_pre_cmp (rv_semver re))" "semver_contract (rv_semver re)"
    and "registry_run re is_stack reg" "ordinary_release re is_stack m" "mr_stack_data m = None"
    and "server_publish_module re ou m archive regions reg = (r, reg')"
    and "rg_items reg' (rv_home re) \<noteq> rg_items reg (rv_home re)"
  shows "\<exists>sk. version_sk re (mr_version m) = Inr sk
     \<and> rg_items reg (rv_home re) (module_id (mr_module m) (mr_track m), sk) = None
     \<and> (\<forall>k. k \<noteq> (module_id (mr_module m) (mr_track m), sk) \<longrightarrow> k \<noteq> latest_key ''LATEST_MODULE'' (mr_module m) (mr_track m) \<longrightarrow>
          rg_items reg' (rv_home re) k = rg_items reg (rv_home re) k)
     \<and> registry_inv re is_stack (rg_items reg' (rv_home re))"
proof -
  from publish_module_uploads [OF assms(7,8,6)] obtain x r' where
    "compare_latest_version re ou reg (mr_module m) (mr_version m) (mr_track m) (kind_of m) = Inr x"
    "upload_regions re ou ''module'' m archive regions reg = (r', reg')" .
  from server_publish_run [OF assms(1-3) run_inv [OF assms(1-4)] assms(5) this assms(8)] assms(6)
  show ?thesis by (fastforce simp: release_put_other latest_key_def)
qed

lemma empty_lookup [simp]: "get_module_optional re no_outage empty_registry k = Inr None"
  by (simp add: get_module_optional_def read_key_def empty_registry_def)

lemma first_publication:
  "rg_items (snd (server_publish_module demo_registry no_outage (demo_release ''1.9.0'') [] [''r''] empty_registry)) ''r''
     \<noteq> rg_items empty_registry ''r''"
proof -
  let ?m = "demo_release ''1.9.0''"
  obtain sk where sk: "version_sk demo_registry (mr_version ?m) = Inr sk"
    by (simp add: version_sk_def zero_pad_semver_def demo_release_def)
  have p: "server_publish_module demo_registry no_outage ?m [] [''r''] empty_registry
      = upload_regions demo_registry no_outage ''module'' ?m [] [''r''] empty_registry"
    by (simp add: server_publish_module_def compare_latest_version_def get_latest_module_version_def get_latest_stack_version_def)
  obtain files where "upload_module demo_registry no_outage ''r'' ?m [] empty_registry
      = (Inr (), \<lparr>rg_items = (rg_items empty_registry)(''r'' := release_put demo_registry ?m sk (rg_items empty_registry ''r'')), rg_files = files\<rparr>)"
    by (rule exE [OF upload_module_ok [where ou = no_outage and region = "''r''" and archive = "[]" and reg = empty_registry, OF demo_codec sk]]) simp_all
  then have "rg_items (snd (upload_regions demo_registry no_outage ''module'' ?m [] [''r''] empty_registry)) ''r'' (release_pk ?m, sk)
      = Some (module_item demo_registry (release_pk ?m) sk ?m)"
    by (simp add: release_put_at)
  then show ?thesis unfolding p by (auto simp: empty_registry_def fun_eq_iff)
qed

lemma releases_are_immutable_witness:
  "\<exists>sk. version_sk demo_registry ''1.9.0'' = Inr sk
     \<and> registry_inv demo_registry (\<lambda>_. False)
         (rg_items (snd (server_publish_module demo_registry no_outage (demo_release ''1.9.0'') [] [''r''] empty_registry)) ''r'')"
proof -
  obtain r reg' where p: "server_publish_module demo_registry no_outage (demo_release ''1.9.0'') [] [''r''] empty_registry = (r, reg')"
    by fastforce
  have s: "mr_stack_data (demo_release ''1.9.0'') = None" "mr_version (demo_release ''1.9.0'') = ''1.9.0''"
    by (simp_all add: demo_release_def demo_module_def)
  have c: "rg_items reg' (rv_home demo_registry) \<noteq> rg_items empty_registry (rv_home demo_registry)"
    using first_publication p by simp
  from releases_are_immutable [OF demo_codec demo_pre' demo_contract' empty_run demo_release_ordinary s(1) p c] s(2)
  show ?thesis unfolding p snd_conv demo_registry_simps by metis
qed

text \<open>
  C28: the latest release of a name is not deprecated, in the table of the handler's region and in
  every state that publications of ordinary releases (in the sense of the property before) and
  deprecations reach, where the operation that deprecates a stack is called with the name of a stack.
  Called with the name of a module it deprecates the module's latest release.
\<close>

theorem latest_release_not_deprecated:
  assumes "module_codec re" "precedence (sl_pre_cmp (rv_semver re))" "semver_contract (rv_semver re)"
    and "registry_run re is_stack reg" "rg_items reg (rv_home re) (latest_of is_stack rid) = Some li"
  shows "\<exists>l sk i m. read_item_as re li = Inr l \<and> version_sk re (mr_version l) = Inr sk
     \<and> rg_items reg (rv_home re) (rid, sk) = Some i \<and> read_item_as re i = Inr m
     \<and> mr_version m = mr_version l \<and> \<not> mr_deprecated m"
  by (rule inv_latest [OF run_inv [OF assms(1-4)] assms(5)]) (auto simp: release_item_def)

lemma latest_release_not_deprecated_witness:
  "\<exists>reg li l sk i m. registry_run demo_registry (\<lambda>_. False) reg
     \<and> rg_items reg ''r'' (latest_of (\<lambda>_. False) (module_id ''m'' ''stable'')) = Some li
     \<and> read_item_as demo_registry li = Inr l \<and> rg_items reg ''r'' (module_id ''m'' ''stable'', sk) = Some i
     \<and> read_item_as demo_registry i = Inr m \<and> mr_version m = mr_version l \<and> \<not> mr_deprecated m"
proof -
  let ?m = "demo_release ''1.9.0''"
  obtain r reg' where p: "server_publish_module demo_registry no_outage ?m [] [''r''] empty_registry = (r, reg')"
    by fastforce
  have s: "mr_stack_data ?m = None" "mr_module ?m = ''m''" "mr_track ?m = ''stable''"
    by (simp_all add: demo_release_def demo_module_def)
  have run: "registry_run demo_registry (\<lambda>_. False) reg'"
    using registry_run.publish_module [OF empty_run demo_release_ordinary s(1), of no_outage "[]" "[''r'']"] p by simp
  have "rg_items reg' ''r'' \<noteq> rg_items empty_registry ''r''" using first_publication p by simp
  moreover obtain r' where "upload_regions demo_registry no_outage ''module'' ?m [] [''r''] empty_registry = (r', reg')"
    using publish_module_uploads [OF p, of "''r''"] calculation s(1) by metis
  ultimately obtain sk where "rg_items reg' ''r'' = release_put demo_registry ?m sk (rg_items empty_registry ''r'')"
    using upload_regions_run [OF demo_codec, of no_outage "''module''" ?m "[]" "[''r'']" empty_registry r' reg' "''r''"]
    by (auto simp: published_or_same_def)
  then obtain li where li: "rg_items reg' ''r'' (latest_of (\<lambda>_. False) (module_id ''m'' ''stable'')) = Some li"
    using release_put_at(2) [of demo_registry ?m sk] latest_of_release [OF demo_release_ordinary] s by metis
  have "\<exists>l sk i m. read_item_as demo_registry li = Inr l \<and> version_sk demo_registry (mr_version l) = Inr sk
     \<and> rg_items reg' ''r'' (module_id ''m'' ''stable'', sk) = Some i \<and> read_item_as demo_registry i = Inr m
     \<and> mr_version m = mr_version l \<and> \<not> mr_deprecated m"
    using latest_release_not_deprecated [OF demo_codec demo_pre' demo_contract' run, unfolded demo_registry_simps, OF li] .
  with run li show ?thesis by blast
qed

section \<open>What the registry does not promise\<close>

text \<open>
  A publication that fails after the handler's own region has been written cannot be completed.
  Every later publication of the same release is refused without writing anything, whatever the
  regions it names and whichever calls then fail: the other regions never get the release.
\<close>

theorem partial_publication_is_final:
  assumes "module_codec re" "precedence (sl_pre_cmp (rv_semver re))" "ordinary_release re is_stack m" "mr_stack_data m = None"
    and "server_publish_module re ou m archive regions reg = (Inl e, reg')"
    and "rg_items reg' (rv_home re) \<noteq> rg_items reg (rv_home re)"
  shows "\<exists>e'. server_publish_module re ou' m archive' regions' reg' = (Inl e', reg')"
proof -
  from publish_module_uploads [OF assms(5,6,4)] obtain r' where
    "upload_regions re ou ''module'' m archive regions reg = (r', reg')" .
  from upload_regions_run [OF assms(1) this, of "rv_home re"] assms(6) obtain sk where
    sk: "version_sk re (mr_version m) = Inr sk" and t: "rg_items reg' (rv_home re) = release_put re m sk (rg_items reg (rv_home re))"
    by (auto simp: published_or_same_def)
  obtain v where v: "sl_parse (rv_semver re) (mr_version m) = Inr v" using version_sk_parse [OF sk] by blast
  obtain l where l: "release_item re (module_item re (latest_pk m) (release_pk m) m) l v sk"
    by (rule published_item [OF assms(1,3) sk v])
  have latest: "rg_items reg' (rv_home re) (latest_of is_stack (release_pk m)) = Some (module_item re (latest_pk m) (release_pk m) m)"
    using t release_put_at(2) latest_of_release [OF assms(3)] by simp
  have "version_cmp (rv_semver re) v v \<noteq> Greater"
    using precedence.refl [OF version_precedence [OF assms(2)]] by simp
  then have "\<And>x. compare_latest_version re ou' reg' (mr_module m) (mr_version m) (mr_track m) (kind_of m) \<noteq> Inr x"
    using compare_passed [OF _ assms(3) v latest l] by blast
  then obtain e' where "compare_latest_version re ou' reg' (mr_module m) (mr_version m) (mr_track m) ModuleKind = Inl e'"
    using assms(4) by (metis kind_of_def sumE)
  then show ?thesis by (auto simp: server_publish_module_def)
qed

text \<open>A second region that does not answer.\<close>

definition other_down :: outage where
  "other_down c = (if c = Transact_Write ''s'' then Some ''timeout'' else None)"

lemma other_down_simps [simp]: "other_down (Transact_Write ''s'') = Some ''timeout''" "other_down (Transact_Write ''r'') = None"
  "other_down (Read_Item a k) = None" "other_down (Upload_File a b) = None"
  by (simp_all add: other_down_def)

lemma partial_publication_is_final_witness:
  "\<exists>e' reg'. server_publish_module demo_registry no_outage (demo_release ''1.9.0'') [] [''s''] reg' = (Inl e', reg')
     \<and> rg_items reg' ''r'' \<noteq> rg_items reg' ''s''"
proof -
  let ?m = "demo_release ''1.9.0''"
  obtain sk where sk: "version_sk demo_registry (mr_version ?m) = Inr sk"
    by (simp add: version_sk_def zero_pad_semver_def demo_release_def)
  have s: "mr_stack_data ?m = None" by (simp add: demo_release_def demo_module_def)
  have look: "get_module_optional demo_registry other_down empty_registry k = Inr None" for k
    by (simp add: get_module_optional_def read_key_def empty_registry_def)
  have p: "server_publish_module demo_registry other_down ?m [] [''r'', ''s''] empty_registry
      = upload_regions demo_registry other_down ''module'' ?m [] [''r'', ''s''] empty_registry"
    by (simp add: server_publish_module_def compare_latest_version_def get_latest_module_version_def get_latest_stack_version_def look)
  obtain files where f: "upload_module demo_registry other_down ''r'' ?m [] empty_registry
      = (Inr (), \<lparr>rg_items = (rg_items empty_registry)(''r'' := release_put demo_registry ?m sk (rg_items empty_registry ''r'')), rg_files = files\<rparr>)"
    by (rule exE [OF upload_module_ok [where ou = other_down and region = "''r''" and archive = "[]" and reg = empty_registry, OF demo_codec sk]]) simp_all
  obtain e reg' where u: "upload_regions demo_registry other_down ''module'' ?m [] [''r'', ''s''] empty_registry = (Inl e, reg')"
    and t: "rg_items reg' = (rg_items empty_registry)(''r'' := release_put demo_registry ?m sk (rg_items empty_registry ''r''))"
    by (simp add: f upload_module_def [of _ _ "''s''"] insert_module_def sk Let_def transact_write_def)
  have t: "rg_items reg' ''r'' (release_pk ?m, sk) = Some (module_item demo_registry (release_pk ?m) sk ?m)" "rg_items reg' ''s'' = (\<lambda>_. None)"
    by (simp_all add: t release_put_at) (simp add: empty_registry_def)
  have c: "rg_items reg' (rv_home demo_registry) \<noteq> rg_items empty_registry (rv_home demo_registry)"
    using t(1) by (auto simp: empty_registry_def fun_eq_iff)
  have "\<exists>e'. server_publish_module demo_registry no_outage ?m [] [''s''] reg' = (Inl e', reg')"
    using partial_publication_is_final [OF demo_codec demo_pre' demo_release_ordinary s p [unfolded u] c] .
  moreover have "rg_items reg' ''r'' \<noteq> rg_items reg' ''s''"
    using t by auto
  ultimately show ?thesis by blast
qed

text \<open>Keys of latest entries are identifiers with a track.\<close>

definition tracked :: "(string \<times> string \<Rightarrow> json option) \<Rightarrow> bool" where
  "tracked t \<longleftrightarrow> (\<forall>pk rid. pk \<in> {''LATEST_STACK'', ''LATEST_MODULE''} \<longrightarrow> t (pk, rid) \<noteq> None \<longrightarrow>
     (\<exists>name track. track \<noteq> [] \<and> rid = module_id name track))"

lemma tracked_put: "tracked t \<Longrightarrow> mr_track m \<noteq> [] \<Longrightarrow> tracked (release_put re m sk t)"
  by (auto simp: tracked_def release_put_def module_id_def)

lemma tracked_published: "published_or_same re m t t' \<Longrightarrow> tracked t \<Longrightarrow> mr_track m \<noteq> [] \<Longrightarrow> tracked t'"
  by (auto simp: published_or_same_def tracked_put)

lemma tracked_deprecated: "tracked t \<Longrightarrow> tracked (t((module_id a b, sk) := v))"
  by (auto simp: tracked_def module_id_def)

lemma run_tracked:
  assumes codec: "module_codec re"
  shows "registry_run re is_stack reg \<Longrightarrow> tracked (rg_items reg (rv_home re))"
proof (induction rule: registry_run.induct)
  case empty
  show ?case by (simp add: tracked_def)
next
  case (publish_module reg m ou archive regions)
  obtain r reg' where p: "server_publish_module re ou m archive regions reg = (r, reg')" by fastforce
  show ?case
  proof (cases "rg_items reg' (rv_home re) = rg_items reg (rv_home re)")
    case False
    from publish_module_uploads [OF p False publish_module.hyps(3)]
    obtain r' where "upload_regions re ou ''module'' m archive regions reg = (r', reg')" .
    from tracked_published [OF upload_regions_run [OF codec this] publish_module.IH] publish_module.hyps(2) p
    show ?thesis by (simp add: ordinary_release_def)
  qed (use p publish_module.IH in simp)
next
  case (publish_stack reg m ou archive regions)
  obtain r reg' where p: "server_publish_stack re ou m archive regions reg = (r, reg')" by fastforce
  show ?case
  proof (cases "rg_items reg' (rv_home re) = rg_items reg (rv_home re)")
    case False
    from publish_stack_uploads [OF p False publish_stack.hyps(3)]
    obtain r' where "upload_regions re ou ''stack'' m archive regions reg = (r', reg')" .
    from tracked_published [OF upload_regions_run [OF codec this] publish_stack.IH] publish_stack.hyps(2) p
    show ?thesis by (simp add: ordinary_release_def)
  qed (use p publish_stack.IH in simp)
next
  case (deprecate_module reg ou name track version message regions r reg')
  show ?case
  proof (cases "rg_items reg' (rv_home re) = rg_items reg (rv_home re)")
    case False
    show ?thesis
      by (rule deprecate_release_run [OF codec deprecate_module.hyps(2) [unfolded deprecate_module_def] False])
         (simp only: tracked_deprecated deprecate_module.IH)
  qed (use deprecate_module.IH in simp)
next
  case (deprecate_stack reg name track ou version message regions r reg')
  show ?case
  proof (cases "rg_items reg' (rv_home re) = rg_items reg (rv_home re)")
    case False
    show ?thesis
      by (rule deprecate_release_run [OF codec deprecate_stack.hyps(3) [unfolded deprecate_stack_def] False])
         (simp only: tracked_deprecated deprecate_stack.IH)
  qed (use deprecate_stack.IH in simp)
qed

lemma empty_track_key:
  assumes "no_colon name" "module_id name [] = module_id name' track"
  shows "track = []"
proof (rule ccontr)
  assume t: "track \<noteq> []"
  have e: "''::'' @ name = track @ ''::'' @ name'"
    using assms(2) by (simp add: module_id_def get_module_identifier_def)
  obtain c cs where track: "track = c # cs" using t by (cases track) auto
  show False
  proof (cases cs)
    case Nil
    then show ?thesis using e track assms(1) by auto
  next
    case (Cons d ds)
    then have "name = ds @ ''::'' @ name'" using e track by simp
    then show ?thesis using assms(1) by simp
  qed
qed

lemma tracked_empty_track:
  "tracked t \<Longrightarrow> no_colon name \<Longrightarrow> pk \<in> {''LATEST_STACK'', ''LATEST_MODULE''} \<Longrightarrow> t (pk, module_id name []) = None"
  using empty_track_key unfolding tracked_def by blast

text \<open>
  The check that modules and stacks do not share a name finds nothing. Whatever stacks have
  been published, a module under the name of one passes: the check looks for the latest version in
  the empty track, under a key that no publication writes.
\<close>

theorem name_check_finds_nothing:
  assumes "module_codec re" "registry_run re is_stack reg" "no_colon (mr_module m)" "regions \<noteq> []"
    and "compare_latest_version re ou reg (mr_module m) (mr_version m) (mr_track m) ModuleKind = Inr x"
  shows "server_publish_module re ou m archive regions reg = upload_regions re ou ''module'' m archive regions reg"
proof -
  have "rg_items reg (rv_home re) (latest_key ''LATEST_STACK'' (mr_module m) []) = None"
    using tracked_empty_track [OF run_tracked [OF assms(1,2)] assms(3)] by (simp add: latest_key_def)
  then have "get_latest_stack_version re ou reg (mr_module m) [] \<noteq> Inr (Some l)" for l
    by (auto simp: get_latest_stack_version_def get_module_optional_def read_key_def split: option.splits)
  then show ?thesis
    using assms(4,5) by (auto simp: server_publish_module_def split: sum.splits option.splits)
qed

lemma name_check_finds_nothing_witness:
  "server_publish_module demo_registry no_outage (demo_release ''1.9.0'') [] [''r''] empty_registry
     = upload_regions demo_registry no_outage ''module'' (demo_release ''1.9.0'') [] [''r''] empty_registry"
proof (rule name_check_finds_nothing [OF demo_codec empty_run])
  show "no_colon (mr_module (demo_release ''1.9.0''))" by (simp add: demo_release_def demo_module_def)
  show "compare_latest_version demo_registry no_outage empty_registry (mr_module (demo_release ''1.9.0'')) (mr_version (demo_release ''1.9.0''))
      (mr_track (demo_release ''1.9.0'')) ModuleKind = Inr None"
    by (simp add: compare_latest_version_def get_latest_module_version_def)
qed simp

text \<open>
  A published build can be published again. When the latest version of a name differs from a
  version in its build metadata only, the comparison accepts the version, whether it has been
  published before or not: its item is then overwritten.
\<close>

theorem superseded_build_accepted_again:
  assumes "precedence (sl_pre_cmp (rv_semver re))" "\<not> starts_with version ''0.0.0''"
    and "get_latest_module_version re ou reg name track = Inr (Some l)"
    and "sl_parse (rv_semver re) version = Inr v" "sl_parse (rv_semver re) (mr_version l) = Inr lv"
    and "strip_build_metadata v = strip_build_metadata lv" "sv_build v \<noteq> sv_build lv"
  shows "compare_latest_version re ou reg name version track ModuleKind = Inr (Some l)"
  using assms precedence.refl [OF version_precedence [OF assms(1)]]
  by (simp add: compare_latest_version_def semver_parse_def semver_parse_without_build_def)

lemma superseded_build_accepted_again_witness:
  "\<exists>reg l. get_latest_module_version demo_registry no_outage reg ''m'' ''dev'' = Inr (Some l) \<and> mr_version l = ''1.0.0-dev+b''
     \<and> rg_items reg ''r'' (module_id ''m'' ''dev'', ''VERSION#001.000.000-dev+a'') \<noteq> None
     \<and> version_sk demo_registry ''1.0.0-dev+a'' = Inr ''VERSION#001.000.000-dev+a''
     \<and> compare_latest_version demo_registry no_outage reg ''m'' ''1.0.0-dev+a'' ''dev'' ModuleKind = Inr (Some l)"
proof -
  let ?item = "\<lambda>v. module_item demo_registry [] [] (demo_module\<lparr>mr_version := v\<rparr>)"
  let ?reg = "empty_registry\<lparr>rg_items := (\<lambda>_. [latest_key ''LATEST_MODULE'' ''m'' ''dev'' \<mapsto> ?item ''1.0.0-dev+b'',
      (module_id ''m'' ''dev'', ''VERSION#001.000.000-dev+a'') \<mapsto> ?item ''1.0.0-dev+a''])\<rparr>"
  obtain l where l: "read_item_as demo_registry (?item ''1.0.0-dev+b'') = Inr l" "mr_version l = ''1.0.0-dev+b''"
    using demo_codec unfolding module_codec_def same_release_def by fastforce
  then have g: "get_latest_module_version demo_registry no_outage ?reg ''m'' ''dev'' = Inr (Some l)"
    by (simp add: get_latest_module_version_def get_module_optional_def read_key_def latest_key_def module_id_def)
  have "compare_latest_version demo_registry no_outage ?reg ''m'' ''1.0.0-dev+a'' ''dev'' ModuleKind = Inr (Some l)"
    by (rule superseded_build_accepted_again [OF demo_pre' _ g, where v = "demo_semver 1 0 0 ''dev'' ''a''" and lv = "demo_semver 1 0 0 ''dev'' ''b''"])
       (simp_all add: l starts_with_def strip_build_metadata_def demo_semver_def)
  moreover have "version_sk demo_registry ''1.0.0-dev+a'' = Inr ''VERSION#001.000.000-dev+a''"
    unfolding version_sk_def demo_registry_simps zero_pad_semver_def demo_parse by code_simp
  ultimately show ?thesis using g l(2) by (intro exI [of _ ?reg] exI [of _ l]) simp
qed

end
