(* ===== verification/Stack_Graph.thy ===== *)
theory Stack_Graph
  imports Prelude
begin

text \<open>
  \<open>detect_cycle\<close> of \<open>env_common/src/logic/api_stack.rs\<close>: a depth-first search over the claims of
  a stack that reports the claims of a cycle. \<open>walk\<close> is the loop over the neighbours of a node,
  with the recursive call in place; the visited nodes, the nodes on the stack and the path are
  passed on as the code passes its mutable references. The search is proved to end, to report only
  cycles and to report one whenever there is one, for every order in which the hash map lists its
  keys.
\<close>

section \<open>The search\<close>

type_synonym graph = "(string, string list) hash_map"

definition neighbours :: "graph \<Rightarrow> string \<Rightarrow> string list" where
  "neighbours g n = (case map_of g n of Some ns \<Rightarrow> ns | None \<Rightarrow> [])"

fun position :: "string \<Rightarrow> string list \<Rightarrow> nat option" where
  "position x [] = None"
| "position x (y # ys) = (if y = x then Some 0 else map_option Suc (position x ys))"

text \<open>The nodes of a graph and those that have not been visited: what the recursion runs out of.\<close>

definition nodes :: "graph \<Rightarrow> string set" where
  "nodes g = fst ` set g \<union> (\<Union>ns \<in> snd ` set g. set ns)"

definition unvisited :: "graph \<Rightarrow> string set \<Rightarrow> nat" where
  "unvisited g vis = card (nodes g - vis)"

function (sequential) walk ::
  "graph \<Rightarrow> string list \<Rightarrow> string set \<Rightarrow> string set \<Rightarrow> string list \<Rightarrow> string list option \<times> string set \<times> string set \<times> string list" where
  "walk g [] vis st path = (None, vis, st, path)"
| "walk g (n # ns) vis st path =
     (if n \<notin> vis then
        (case walk g (neighbours g n) (insert n vis) (insert n st) (path @ [n]) of
           (Some c, vis', st', path') \<Rightarrow> (Some c, vis', st', path')
         | (None, vis', st', path') \<Rightarrow> walk g ns vis' (st' - {n}) (butlast path'))
      else if n \<in> st then
        (case position n path of
           Some i \<Rightarrow> (Some (drop i path), vis, st, path)
         | None \<Rightarrow> walk g ns vis st path)
      else walk g ns vis st path)"
  by pat_completeness auto

lemma walk_visits: "walk_dom (g, ns, vis, st, path) \<Longrightarrow> vis \<subseteq> fst (snd (walk g ns vis st path))"
proof (induction g ns vis st path rule: walk.pinduct)
  case (1 g vis st path)
  then show ?case by (simp add: walk.psimps)
next
  case (2 g n ns vis st path)
  obtain r vis1 st1 path1 where w: "walk g (neighbours g n) (insert n vis) (insert n st) (path @ [n]) = (r, vis1, st1, path1)"
    by (metis prod_cases4)
  show ?case
  proof (cases "n \<in> vis")
    case True
    with 2 show ?thesis by (cases "n \<in> st"; cases "position n path") (simp_all add: walk.psimps)
  next
    case False
    with 2(2) w have "vis \<subseteq> vis1" by simp
    with 2(1) False w 2(3) [OF False w [symmetric] _ refl refl] show ?thesis
      by (cases r) (auto simp: walk.psimps)
  qed
qed

lemma finite_nodes [simp]: "finite (nodes g)"
  by (auto simp: nodes_def)

lemma unvisited_mono: "vis \<subseteq> vis' \<Longrightarrow> unvisited g vis' \<le> unvisited g vis"
  unfolding unvisited_def by (rule card_mono) auto

lemma unvisited_less: "n \<in> nodes g \<Longrightarrow> n \<notin> vis \<Longrightarrow> unvisited g (insert n vis) < unvisited g vis"
  unfolding unvisited_def by (rule psubset_card_mono) auto

lemma neighbours_other: "n \<notin> nodes g \<Longrightarrow> neighbours g n = []"
  by (force simp: neighbours_def nodes_def dest: map_of_SomeD split: option.split)

termination walk
proof (relation "measures [\<lambda>(g, ns, vis, st, path). unvisited g vis, \<lambda>(g, ns, vis, st, path). length ns]", goal_cases)
  case (2 g n ns vis st path)
  show ?case
  proof (cases "n \<in> nodes g")
    case True
    with 2 show ?thesis by (simp add: unvisited_less)
  next
    case False
    then have "unvisited g (insert n vis) = unvisited g vis" by (simp add: unvisited_def)
    with False show ?thesis by (simp add: neighbours_other)
  qed
next
  case (3 g n ns vis st path x r vis' q st' path')
  then have "insert n vis \<subseteq> vis'"
    using walk_visits [OF 3(6)] by (metis fst_conv snd_conv)
  then have "unvisited g vis' \<le> unvisited g vis" by (intro unvisited_mono) blast
  then show ?case by auto
qed simp_all

text \<open>The function \<open>dfs\<close> on one node, and the loop over the keys of the graph.\<close>

definition dfs :: "graph \<Rightarrow> string \<Rightarrow> string set \<Rightarrow> string set \<Rightarrow> string list \<Rightarrow> string list option \<times> string set \<times> string set \<times> string list" where
  "dfs g node vis st path =
     (if node \<notin> vis then
        (case walk g (neighbours g node) (insert node vis) (insert node st) (path @ [node]) of
           (Some c, vis', st', path') \<Rightarrow> (Some c, vis', st', path')
         | (None, vis', st', path') \<Rightarrow> (None, vis', st' - {node}, butlast path'))
      else (None, vis, st - {node}, butlast path))"

lemma walk_is_loop_of_dfs:
  "walk g (n # ns) vis st path =
     (if n \<notin> vis then
        (case dfs g n vis st path of
           (Some c, s) \<Rightarrow> (Some c, s)
         | (None, vis', st', path') \<Rightarrow> walk g ns vis' st' path')
      else if n \<in> st then
        (case position n path of Some i \<Rightarrow> (Some (drop i path), vis, st, path) | None \<Rightarrow> walk g ns vis st path)
      else walk g ns vis st path)"
  by (simp add: dfs_def split: prod.split option.split)

fun detect_from :: "graph \<Rightarrow> string list \<Rightarrow> string set \<Rightarrow> string set \<Rightarrow> string list \<Rightarrow> string list option" where
  "detect_from g [] vis st path = None"
| "detect_from g (k # ks) vis st path =
     (case dfs g k vis st path of
        (Some c, _) \<Rightarrow> Some c
      | (None, vis', st', path') \<Rightarrow> detect_from g ks vis' st' path')"

text \<open>\<open>order\<close> is the iteration order of the hash map.\<close>

definition detect_cycle :: "(string list \<Rightarrow> string list) \<Rightarrow> graph \<Rightarrow> string list option" where
  "detect_cycle order g = detect_from g (order (List.map fst g)) {} {} []"

section \<open>What the search finds\<close>

definition edges :: "graph \<Rightarrow> (string \<times> string) set" where
  "edges g = {(a, b). b \<in> set (neighbours g a)}"

fun chain :: "(string \<times> string) set \<Rightarrow> string list \<Rightarrow> bool" where
  "chain E (a # b # p) \<longleftrightarrow> (a, b) \<in> E \<and> chain E (b # p)"
| "chain E _ \<longleftrightarrow> True"

text \<open>A closed walk along the edges.\<close>

definition is_cycle :: "(string \<times> string) set \<Rightarrow> string list \<Rightarrow> bool" where
  "is_cycle E c \<longleftrightarrow> c \<noteq> [] \<and> chain E c \<and> (last c, hd c) \<in> E"

lemma chain_append: "chain E (p @ q) \<longleftrightarrow> chain E p \<and> chain E q \<and> (p \<noteq> [] \<longrightarrow> q \<noteq> [] \<longrightarrow> (last p, hd q) \<in> E)"
  by (induction E p rule: chain.induct; cases q) auto

lemma chain_drop: "chain E p \<Longrightarrow> chain E (drop i p)"
  using chain_append [of E "take i p" "drop i p"] by simp

lemma chain_reach: "chain E p \<Longrightarrow> p \<noteq> [] \<Longrightarrow> (hd p, last p) \<in> E\<^sup>*"
  by (induction E p rule: chain.induct) (auto intro: converse_rtrancl_into_rtrancl)

lemma is_cycle_not_acyclic: "is_cycle E c \<Longrightarrow> \<not> acyclic E"
proof -
  assume "is_cycle E c"
  then have "(hd c, last c) \<in> E\<^sup>*" "(last c, hd c) \<in> E"
    by (auto simp: is_cycle_def chain_reach)
  then have "(last c, last c) \<in> E\<^sup>+" by (rule rtrancl_into_trancl2 [rotated])
  then show ?thesis by (auto simp: acyclic_def)
qed

lemma position_Some: "position x ys = Some i \<Longrightarrow> i < length ys \<and> ys ! i = x"
  by (induction ys arbitrary: i) (auto split: if_splits)

lemma position_None: "position x ys = None \<longleftrightarrow> x \<notin> set ys"
  by (induction ys) auto

text \<open>A set of finished nodes: no edge leaves it and there is no cycle in it.\<close>

definition finished :: "(string \<times> string) set \<Rightarrow> string set \<Rightarrow> bool" where
  "finished E F \<longleftrightarrow> E `` F \<subseteq> F \<and> acyclic (E \<inter> F \<times> F)"

lemma closed_trancl: "(a, b) \<in> (E \<inter> insert n F \<times> insert n F)\<^sup>+ \<Longrightarrow> a \<in> F \<Longrightarrow> E `` F \<subseteq> F \<Longrightarrow> (a, b) \<in> (E \<inter> F \<times> F)\<^sup>+ \<and> b \<in> F"
proof (induction rule: trancl_induct)
  case (base y)
  then show ?case by blast
next
  case (step y z)
  then have "(y, z) \<in> E \<inter> F \<times> F" by blast
  with step show ?case by (blast intro: trancl_into_trancl)
qed

lemma finished_insert:
  assumes "finished E F" "E `` {n} \<subseteq> F" "n \<notin> F"
  shows "finished E (insert n F)"
  unfolding finished_def
proof
  have closed: "E `` F \<subseteq> F" and ac: "acyclic (E \<inter> F \<times> F)" using assms(1) by (auto simp: finished_def)
  then show "E `` insert n F \<subseteq> insert n F" using assms(2) by blast
  show "acyclic (E \<inter> insert n F \<times> insert n F)"
    unfolding acyclic_def
  proof (intro allI notI)
    fix x
    assume x: "(x, x) \<in> (E \<inter> insert n F \<times> insert n F)\<^sup>+"
    show False
    proof (cases "x \<in> F")
      case True
      with closed_trancl [OF x _ closed] ac show False by (auto simp: acyclic_def)
    next
      case False
      from x obtain y where y: "(x, y) \<in> E \<inter> insert n F \<times> insert n F" "(y, x) \<in> (E \<inter> insert n F \<times> insert n F)\<^sup>*"
        by (meson tranclD)
      with False assms(2) have "x = n" "y \<in> F" by auto
      then have "y \<noteq> x" using False by blast
      with y(2) have "(y, x) \<in> (E \<inter> insert n F \<times> insert n F)\<^sup>+" by (meson rtranclD)
      with closed_trancl [OF this \<open>y \<in> F\<close> closed] False show False by blast
    qed
  qed
qed

lemma walk_correct:
  assumes "st = set path" "set path \<subseteq> vis" "chain (edges g) path" "finished (edges g) (vis - set path)"
    and "path \<noteq> [] \<longrightarrow> (\<forall>n \<in> set ns. (last path, n) \<in> edges g)"
  shows "case walk g ns vis st path of
      (Some c, _) \<Rightarrow> is_cycle (edges g) c
    | (None, vis', st', path') \<Rightarrow> st' = set path \<and> path' = path \<and> vis \<subseteq> vis' \<and> set ns \<subseteq> vis' - set path
        \<and> finished (edges g) (vis' - set path)"
  using assms
proof (induction g ns vis st path rule: walk.induct)
  case (1 g vis st path)
  then show ?case by simp
next
  case (2 g n ns vis st path)
  show ?case
  proof (cases "n \<in> vis")
    case False
    then have n: "n \<notin> set path" using "2.prems"(2) by blast
    obtain r vis1 st1 path1 where w: "walk g (neighbours g n) (insert n vis) (insert n st) (path @ [n]) = (r, vis1, st1, path1)"
      by (metis prod_cases4)
    have same: "insert n vis - set (path @ [n]) = vis - set path" using n False by auto
    have IH: "case (r, vis1, st1, path1) of
        (Some c, _) \<Rightarrow> is_cycle (edges g) c
      | (None, vis', st', path') \<Rightarrow> st' = set (path @ [n]) \<and> path' = path @ [n] \<and> insert n vis \<subseteq> vis'
          \<and> set (neighbours g n) \<subseteq> vis' - set (path @ [n]) \<and> finished (edges g) (vis' - set (path @ [n]))"
      unfolding w [symmetric]
    proof (rule "2.IH"(1) [OF _ _ _ _ _ _])
      show "insert n st = set (path @ [n])" "set (path @ [n]) \<subseteq> insert n vis" using "2.prems" by auto
      show "chain (edges g) (path @ [n])" using "2.prems"(3,5) by (simp add: chain_append)
      show "finished (edges g) (insert n vis - set (path @ [n]))" unfolding same by (rule "2.prems"(4))
      show "path @ [n] \<noteq> [] \<longrightarrow> (\<forall>m \<in> set (neighbours g n). (last (path @ [n]), m) \<in> edges g)" by (simp add: edges_def)
    qed (rule False)
    show ?thesis
    proof (cases r)
      case (Some c)
      with IH w False show ?thesis by simp
    next
      case None
      with IH have i: "st1 = insert n (set path)" "path1 = path @ [n]" "insert n vis \<subseteq> vis1"
        "set (neighbours g n) \<subseteq> vis1 - insert n (set path)" "finished (edges g) (vis1 - insert n (set path))" by auto
      have F: "vis1 - set path = insert n (vis1 - insert n (set path))" using i(3) n by auto
      have fin: "finished (edges g) (vis1 - set path)"
        unfolding F by (rule finished_insert [OF i(5)]) (use i(4) in \<open>auto simp: edges_def\<close>)
      have IH2: "case walk g ns vis1 (st1 - {n}) (butlast path1) of
          (Some c, _) \<Rightarrow> is_cycle (edges g) c
        | (None, vis', st', path') \<Rightarrow> st' = set (butlast path1) \<and> path' = butlast path1 \<and> vis1 \<subseteq> vis'
            \<and> set ns \<subseteq> vis' - set (butlast path1) \<and> finished (edges g) (vis' - set (butlast path1))"
      proof (rule "2.IH"(2) [OF False w [symmetric] None refl refl])
        show "st1 - {n} = set (butlast path1)" using i(1,2) n by auto
        show "set (butlast path1) \<subseteq> vis1" using i(2,3) "2.prems"(2) by auto
        show "chain (edges g) (butlast path1)" using i(2) "2.prems"(3) by simp
        show "finished (edges g) (vis1 - set (butlast path1))" using i(2) fin by simp
        show "butlast path1 \<noteq> [] \<longrightarrow> (\<forall>m \<in> set ns. (last (butlast path1), m) \<in> edges g)" using i(2) "2.prems"(5) by simp
      qed
      have run: "walk g (n # ns) vis st path = walk g ns vis1 (st1 - {n}) (butlast path1)"
        using False w None by simp
      show ?thesis unfolding run
        using IH2 i(2,3) n by (auto split: prod.splits option.splits)
    qed
  next
    case vis: True
    show ?thesis
    proof (cases "n \<in> st")
      case True
      then obtain j where j: "position n path = Some j"
        using "2.prems"(1) position_None [of n path] by (cases "position n path") auto
      have "is_cycle (edges g) (drop j path)"
        using position_Some [OF j] "2.prems"(3,5)
        by (auto simp: is_cycle_def chain_drop hd_drop_conv_nth)
      then show ?thesis using vis True j by simp
    next
      case False
      have "walk g (n # ns) vis st path = walk g ns vis st path" using vis False by simp
      moreover have "n \<in> vis - set path" using vis False "2.prems"(1) by simp
      ultimately show ?thesis
        using "2.IH"(4) [OF _ False "2.prems"(1-4)] vis "2.prems"(5) by (auto split: prod.splits option.splits)
    qed
  qed
qed

lemma dfs_correct:
  assumes "finished (edges g) vis"
  shows "case dfs g k vis {} [] of
      (Some c, _) \<Rightarrow> is_cycle (edges g) c
    | (None, vis', st', path') \<Rightarrow> st' = {} \<and> path' = [] \<and> vis \<subseteq> vis' \<and> k \<in> vis' \<and> finished (edges g) vis'"
proof (cases "k \<in> vis")
  case False
  have "case walk g [k] vis {} [] of
      (Some c, _) \<Rightarrow> is_cycle (edges g) c
    | (None, vis', st', path') \<Rightarrow> st' = set [] \<and> path' = [] \<and> vis \<subseteq> vis' \<and> set [k] \<subseteq> vis' - set []
        \<and> finished (edges g) (vis' - set [])"
    by (rule walk_correct) (use assms in auto)
  then show ?thesis
    using False by (auto simp: walk_is_loop_of_dfs split: prod.splits option.splits simp del: walk.simps(2))
qed (simp add: dfs_def assms)

lemma detect_from_correct:
  assumes "finished (edges g) vis" "detect_from g ks vis {} [] = r"
  shows "case r of Some c \<Rightarrow> is_cycle (edges g) c
    | None \<Rightarrow> \<exists>vis'. vis \<subseteq> vis' \<and> set ks \<subseteq> vis' \<and> finished (edges g) vis'"
  using assms
proof (induction ks arbitrary: vis)
  case (Cons k ks)
  obtain r1 vis1 st1 path1 where d: "dfs g k vis {} [] = (r1, vis1, st1, path1)" by (metis prod_cases4)
  show ?case
  proof (cases r1)
    case (Some c)
    with dfs_correct [OF Cons.prems(1), of k] d Cons.prems(2) show ?thesis by auto
  next
    case None
    with dfs_correct [OF Cons.prems(1), of k] d have i: "st1 = {}" "path1 = []" "vis \<subseteq> vis1" "k \<in> vis1" "finished (edges g) vis1"
      by auto
    have "case r of Some c \<Rightarrow> is_cycle (edges g) c
        | None \<Rightarrow> \<exists>vis'. vis1 \<subseteq> vis' \<and> set ks \<subseteq> vis' \<and> finished (edges g) vis'"
      by (rule Cons.IH [OF i(5)]) (use Cons.prems(2) d None i(1,2) in simp)
    then show ?thesis using i(3,4) by (auto split: option.splits)
  qed
qed auto

lemma edges_from_keys: "(a, b) \<in> edges g \<Longrightarrow> a \<in> fst ` set g"
  by (cases "map_of g a") (auto simp: edges_def neighbours_def dest!: map_of_SomeD intro: rev_image_eqI)

lemma detect_cycle_correct:
  assumes "\<And>ks. set (order ks) = set ks"
  shows "(detect_cycle order g = None \<longleftrightarrow> acyclic (edges g))
    \<and> (\<forall>c. detect_cycle order g = Some c \<longrightarrow> is_cycle (edges g) c)"
proof -
  have "finished (edges g) {}" by (simp add: finished_def acyclic_def)
  from detect_from_correct [OF this refl, of "order (List.map fst g)"]
  have r: "case detect_cycle order g of Some c \<Rightarrow> is_cycle (edges g) c
    | None \<Rightarrow> \<exists>vis. fst ` set g \<subseteq> vis \<and> finished (edges g) vis"
    unfolding detect_cycle_def by (simp add: assms split: option.splits)
  show ?thesis
  proof (cases "detect_cycle order g")
    case None
    with r obtain vis where v: "fst ` set g \<subseteq> vis" "finished (edges g) vis" by auto
    have "(a, b) \<in> vis \<times> vis" if e: "(a, b) \<in> edges g" for a b
    proof -
      have "a \<in> vis" using edges_from_keys [OF e] v(1) by (rule rev_subsetD)
      moreover have "b \<in> vis" using v(2) e calculation by (auto simp: finished_def)
      ultimately show ?thesis by simp
    qed
    then have "edges g \<inter> vis \<times> vis = edges g" by auto
    with v(2) None show ?thesis by (simp add: finished_def)
  next
    case (Some c)
    with r is_cycle_not_acyclic show ?thesis by auto
  qed
qed

lemma detect_cycle_ok: "(\<And>ks. set (order ks) = set ks) \<Longrightarrow> detect_cycle order g = None \<longleftrightarrow> acyclic (edges g)"
  and detect_cycle_sound: "(\<And>ks. set (order ks) = set ks) \<Longrightarrow> detect_cycle order g = Some c \<Longrightarrow> is_cycle (edges g) c"
  using detect_cycle_correct by blast+

text \<open>
  C31: the search is exact. For every order in which the map lists its keys, it reports a cycle
  exactly when the dependencies have one, and what it reports is a closed walk along them; it
  always ends.
\<close>

theorem detect_cycle_exact:
  assumes "\<And>ks. set (order ks) = set ks"
  shows "(detect_cycle order g = None \<longleftrightarrow> acyclic (edges g))
    \<and> (\<forall>c. detect_cycle order g = Some c \<longrightarrow> is_cycle (edges g) c)"
  by (rule detect_cycle_correct [OF assms])

lemma detect_cycle_exact_witness:
  "\<not> acyclic (edges [(''a'', [''b'']), (''b'', [''c'', ''a'']), (''c'', [])])
   \<and> acyclic (edges [(''a'', [''b'', ''c'']), (''b'', [''c'']), (''c'', [])])"
proof
  note exact = detect_cycle_exact [of "\<lambda>ks. ks", OF refl, THEN conjunct1]
  show "\<not> acyclic (edges [(''a'', [''b'']), (''b'', [''c'', ''a'']), (''c'', [])])"
    unfolding exact [symmetric] by (simp add: detect_cycle_def dfs_def neighbours_def)
  show "acyclic (edges [(''a'', [''b'', ''c'']), (''b'', [''c'']), (''c'', [])])"
    unfolding exact [symmetric] by (simp add: detect_cycle_def dfs_def neighbours_def)
qed

end
