(* ===== verification/Stack.thy ===== *)
theory Stack
  imports Stack_Graph Versions
begin

text \<open>
  Validation of the claims of a stack, \<open>validate_claim_modules\<close> of
  \<open>env_common/src/logic/api_stack.rs\<close>: names, versions and regions of the claims, the references
  between them, and the search for cycles. A claim comes with the module it deploys. The outer
  \<open>None\<close> of a result is a panic (\<open>unwrap\<close>).
\<close>

type_synonym claim_module = "deployment_manifest \<times> module_resp"

abbreviation claim_name :: "claim_module \<Rightarrow> string" where
  "claim_name cm \<equiv> dm_name (dmf_metadata (fst cm))"

section \<open>References\<close>

text \<open>
  The references in the strings of the variables: at the top level, in an array and in an object,
  one level deep.
\<close>

definition refs_in :: "text_lib \<Rightarrow> json \<Rightarrow> (string \<times> string \<times> string) list" where
  "refs_in lib v =
     (case as_str v of
        Some s \<Rightarrow> List.map (\<lambda>(kind, claim, field). (kind, claim, to_snake_case lib field)) (find_refs s)
      | None \<Rightarrow> [])"

fun value_deps :: "text_lib \<Rightarrow> json \<Rightarrow> (string \<times> string \<times> string) list" where
  "value_deps lib (JString s) = refs_in lib (JString s)"
| "value_deps lib (JArray xs) = concat (List.map (refs_in lib) xs)"
| "value_deps lib (JObject kvs) = concat (List.map (\<lambda>(k, v). refs_in lib v) kvs)"
| "value_deps lib _ = []"

definition extract_top_level_deps :: "text_lib \<Rightarrow> json \<Rightarrow> (string \<times> string \<times> string) list" where
  "extract_top_level_deps lib vars =
     (case as_object vars of
        Some kvs \<Rightarrow> concat (List.map (\<lambda>(k, v). value_deps lib v) kvs)
      | None \<Rightarrow> [])"

definition convert_vars_to_snake_json :: "text_lib \<Rightarrow> deployment_manifest \<Rightarrow> (string, json) result" where
  "convert_vars_to_snake_json lib claim =
     res_bind (provided_variables lib claim) (\<lambda>v. Inr (convert_first_level_keys_to_snake_case lib v))"

definition build_claim_module_map :: "claim_module list \<Rightarrow> (string, module_resp) hash_map" where
  "build_claim_module_map cms = fold (\<lambda>(n, m). hm_insert n m) (List.map (\<lambda>cm. (claim_name cm, snd cm)) cms) []"

definition claim_reference_exists :: "(string, module_resp) hash_map \<Rightarrow> string \<Rightarrow> string \<Rightarrow> string \<Rightarrow> bool" where
  "claim_reference_exists module_map kind_name name field_name =
     (case map_of module_map name of
        Some m \<Rightarrow> ((\<exists>out \<in> set (mr_tf_outputs m). tfo_name out = field_name)
                  \<or> (\<exists>v \<in> set (mr_tf_variables m). tfv_name v = field_name))
                 \<and> mr_module_name m = kind_name
      | None \<Rightarrow> False)"

definition is_stack_variable :: "string \<times> string \<times> string \<Rightarrow> bool" where
  "is_stack_variable r \<longleftrightarrow> fst r = ''Stack'' \<and> fst (snd r) = ''variables''"

definition check_reference ::
  "text_lib \<Rightarrow> (string, module_resp) hash_map \<Rightarrow> deployment_manifest \<Rightarrow> string \<times> string \<times> string \<Rightarrow> (module_error, unit) result" where
  "check_reference lib module_map claim r = (case r of (ref_kind, ref_claim, ref_field) \<Rightarrow>
     if is_stack_variable r then Inr ()
     else if dm_name (dmf_metadata claim) = ref_claim \<and> dmf_kind claim = ref_kind
     then Inl (SelfReferencingClaim (dmf_kind claim) (dm_name (dmf_metadata claim)) (to_camel_case lib ref_field))
     else if \<not> claim_reference_exists module_map ref_kind ref_claim ref_field
     then Inl (StackClaimReferenceNotFound (dm_name (dmf_metadata claim)) ref_kind ref_claim (to_camel_case lib ref_field))
     else Inr ())"

section \<open>The graph of the claims\<close>

definition hm_or_default :: "string \<Rightarrow> graph \<Rightarrow> graph" where
  "hm_or_default k g = (if hm_contains g k then g else hm_insert k [] g)"

definition push_edge :: "string \<Rightarrow> string \<Rightarrow> graph \<Rightarrow> graph" where
  "push_edge k n g = hm_insert k (neighbours (hm_or_default k g) k @ [n]) (hm_or_default k g)"

definition claim_edges :: "(string, module_resp) hash_map \<Rightarrow> (string \<times> string \<times> string) list \<Rightarrow> string list" where
  "claim_edges module_map refs =
     List.map (\<lambda>r. fst (snd r)) (filter (\<lambda>r. \<not> is_stack_variable r \<and> hm_contains module_map (fst (snd r))) refs)"

definition dependency_graph :: "(string, module_resp) hash_map \<Rightarrow> (string \<times> (string \<times> string \<times> string) list) list \<Rightarrow> graph" where
  "dependency_graph module_map claim_refs =
     fold (\<lambda>(name, refs) g. fold (push_edge name) (claim_edges module_map refs) g) claim_refs
       (fold (\<lambda>(name, refs) g. hm_or_default name g) claim_refs [])"

text \<open>The references of every claim; \<open>None\<close> is the panic of the conversion to JSON.\<close>

fun all_refs :: "text_lib \<Rightarrow> claim_module list \<Rightarrow> (claim_module \<times> (string \<times> string \<times> string) list) list option" where
  "all_refs lib [] = Some []"
| "all_refs lib (cm # cms) =
     (case convert_vars_to_snake_json lib (fst cm) of
        Inl _ \<Rightarrow> None
      | Inr vars \<Rightarrow> map_option ((#) (cm, extract_top_level_deps lib vars)) (all_refs lib cms))"

fun check_references ::
  "text_lib \<Rightarrow> (string, module_resp) hash_map \<Rightarrow> claim_module list \<Rightarrow> (module_error, unit) result option" where
  "check_references lib module_map [] = Some (Inr ())"
| "check_references lib module_map (cm # cms) =
     (case convert_vars_to_snake_json lib (fst cm) of
        Inl _ \<Rightarrow> None
      | Inr vars \<Rightarrow>
          (case try_all (check_reference lib module_map (fst cm)) (extract_top_level_deps lib vars) of
             Inl e \<Rightarrow> Some (Inl e)
           | Inr _ \<Rightarrow> check_references lib module_map cms))"

definition validate_dependencies ::
  "text_lib \<Rightarrow> (string list \<Rightarrow> string list) \<Rightarrow> claim_module list \<Rightarrow> (module_error, unit) result option" where
  "validate_dependencies lib order cms =
     (let module_map = build_claim_module_map cms
      in case check_references lib module_map cms of
           None \<Rightarrow> None
         | Some (Inl e) \<Rightarrow> Some (Inl e)
         | Some (Inr _) \<Rightarrow>
             (case all_refs lib cms of
                None \<Rightarrow> None
              | Some refs \<Rightarrow>
                  (case detect_cycle order (dependency_graph module_map (List.map (\<lambda>(cm, rs). (claim_name cm, rs)) refs)) of
                     Some cycle \<Rightarrow> Some (Inl (CircularDependency cycle))
                   | None \<Rightarrow> Some (Inr ()))))"

section \<open>Claims\<close>

definition validate_stack_module_claim_name :: "deployment_manifest \<Rightarrow> (module_error, unit) result" where
  "validate_stack_module_claim_name claim =
     (case dm_name (dmf_metadata claim) of
        c # d # cs \<Rightarrow> if is_lower c \<and> list_all (\<lambda>x. is_lower x \<or> is_digit x) (d # cs) then Inr ()
          else Inl (ValidationError (''Claim name '' @ dm_name (dmf_metadata claim) @ '' must only use lowercase characters and numbers.''))
      | _ \<Rightarrow> Inl (ValidationError (''Claim name '' @ dm_name (dmf_metadata claim) @ '' must only use lowercase characters and numbers.'')))"

definition validate_stack_module_claim_region_is_na :: "deployment_manifest \<Rightarrow> (module_error, unit) result" where
  "validate_stack_module_claim_region_is_na claim =
     (if to_uppercase (dsc_region (dmf_spec claim)) \<noteq> ''N/A''
      then Inl (ValidationError (''Claim '' @ dm_name (dmf_metadata claim) @ '' has the region ''
             @ quoted (dsc_region (dmf_spec claim)) @ '' but the value must be set to '' @ quoted ''N/A''
             @ '' when used inside stacks, since this value is overridden by the Stacks region parameter when deployed.''))
      else Inr ())"

text \<open>\<open>seen.insert\<close>: the names that occur again, in order.\<close>

fun repeated :: "string set \<Rightarrow> string list \<Rightarrow> string list" where
  "repeated seen [] = []"
| "repeated seen (n # ns) = (if n \<in> seen then n # repeated seen ns else repeated (insert n seen) ns)"

definition validate_claim_module :: "text_lib \<Rightarrow> claim_module \<Rightarrow> (module_error, unit) result option" where
  "validate_claim_module lib cm = (case cm of (claim, module) \<Rightarrow>
     (case provided_variables lib claim of
        Inl _ \<Rightarrow> None
      | Inr provided \<Rightarrow> Some (
          res_bind (map_err OtherError (verify_variable_claim_casing lib claim provided)) (\<lambda>_.
          res_bind (map_err OtherError (verify_variable_existence_and_type module
                     (convert_first_level_keys_to_snake_case lib provided))) (\<lambda>_.
          if dsc_module_version (dmf_spec claim) = None then Inl (ModuleVersionNotSet (dm_name (dmf_metadata claim)))
          else
            res_bind (validate_stack_module_claim_name claim) (\<lambda>_.
            res_bind (validate_stack_module_claim_region_is_na claim) (\<lambda>_.
            if dm_namespace (dmf_metadata claim) \<noteq> None then Inl (StackModuleNamespaceIsSet (dm_name (dmf_metadata claim)))
            else Inr ())))))))"

fun validate_each :: "text_lib \<Rightarrow> claim_module list \<Rightarrow> (module_error, unit) result option" where
  "validate_each lib [] = Some (Inr ())"
| "validate_each lib (cm # cms) =
     (case validate_claim_module lib cm of
        None \<Rightarrow> None | Some (Inl e) \<Rightarrow> Some (Inl e) | Some (Inr _) \<Rightarrow> validate_each lib cms)"

definition validate_claim_modules ::
  "text_lib \<Rightarrow> (string list \<Rightarrow> string list) \<Rightarrow> claim_module list \<Rightarrow> (module_error, unit) result option" where
  "validate_claim_modules lib order cms =
     (case repeated {} (List.map claim_name cms) of
        n # _ \<Rightarrow> Some (Inl (DuplicateClaimNames n))
      | [] \<Rightarrow>
          (case validate_each lib cms of
             None \<Rightarrow> None | Some (Inl e) \<Rightarrow> Some (Inl e) | Some (Inr _) \<Rightarrow> validate_dependencies lib order cms))"

section \<open>The graph holds the references\<close>

lemma repeated_Nil: "repeated seen ns = [] \<longleftrightarrow> distinct ns \<and> set ns \<inter> seen = {}"
  by (induction seen ns rule: repeated.induct) auto

lemma neighbours_default [simp]: "neighbours (hm_or_default k g) n = neighbours g n"
  by (auto simp: neighbours_def hm_or_default_def hm_contains_def split: option.split)

lemma neighbours_insert: "neighbours (hm_insert k v g) n = (if n = k then v else neighbours g n)"
  by (simp add: neighbours_def)

lemma neighbours_Nil: "neighbours [] n = []"
  by (simp add: neighbours_def)

lemma neighbours_push: "neighbours (push_edge k m g) n = (if n = k then neighbours g k @ [m] else neighbours g n)"
  by (simp add: push_edge_def neighbours_insert)

lemma neighbours_pushes: "neighbours (fold (push_edge k) ms g) n = (if n = k then neighbours g k @ ms else neighbours g n)"
  by (induction ms arbitrary: g) (simp_all add: neighbours_push)

lemma neighbours_graph_from:
  "set (neighbours (fold (\<lambda>(name, refs) g. fold (push_edge name) (claim_edges mm refs) g) crs g) n)
     = set (neighbours g n) \<union> {m. \<exists>refs. (n, refs) \<in> set crs \<and> m \<in> set (claim_edges mm refs)}"
  by (induction crs arbitrary: g) (auto simp: neighbours_pushes split: if_splits)

lemma neighbours_defaults: "neighbours (fold (\<lambda>(name, refs) g. hm_or_default name g) crs g) n = neighbours g n"
  by (induction crs arbitrary: g) auto

lemma edges_graph:
  "edges (dependency_graph mm crs) = {(n, m). \<exists>refs. (n, refs) \<in> set crs \<and> m \<in> set (claim_edges mm refs)}"
  unfolding edges_def dependency_graph_def neighbours_graph_from neighbours_defaults neighbours_Nil by simp

lemma map_of_claims: "distinct (List.map claim_name cms) \<Longrightarrow> cm \<in> set cms \<Longrightarrow>
    map_of (build_claim_module_map cms) (claim_name cm) = Some (snd cm)"
proof -
  assume d: "distinct (List.map claim_name cms)" and cm: "cm \<in> set cms"
  let ?kvs = "List.map (\<lambda>cm. (claim_name cm, snd cm)) cms"
  have "distinct (List.map fst ?kvs)" using d by (simp add: o_def)
  then have "map_of (rev ?kvs) (claim_name cm) = Some (snd cm)"
    using cm by (intro map_of_is_SomeI) (auto simp: rev_map [symmetric])
  then show ?thesis by (simp add: build_claim_module_map_def hm.look_collect)
qed

lemma map_of_claims_None: "map_of (build_claim_module_map cms) n = None \<longleftrightarrow> n \<notin> claim_name ` set cms"
  unfolding build_claim_module_map_def hm.look_collect_None by force

lemma check_references_ok:
  "check_references lib mm cms = Some (Inr ()) \<longleftrightarrow>
     (\<forall>cm \<in> set cms. \<exists>vars. convert_vars_to_snake_json lib (fst cm) = Inr vars
        \<and> (\<forall>r \<in> set (extract_top_level_deps lib vars). check_reference lib mm (fst cm) r = Inr ()))"
proof (induction cms)
  case (Cons cm cms)
  show ?case
  proof (cases "convert_vars_to_snake_json lib (fst cm)")
    case (Inr vars)
    show ?thesis
    proof (cases "try_all (check_reference lib mm (fst cm)) (extract_top_level_deps lib vars)")
      case (Inl e)
      then have "\<not> (\<forall>r \<in> set (extract_top_level_deps lib vars). check_reference lib mm (fst cm) r = Inr ())"
        unfolding try_all_ok [symmetric] by simp
      with Inl \<open>convert_vars_to_snake_json lib (fst cm) = Inr vars\<close> show ?thesis by simp
    next
      case (Inr u)
      then have "\<forall>r \<in> set (extract_top_level_deps lib vars). check_reference lib mm (fst cm) r = Inr ()"
        unfolding try_all_ok [symmetric] by simp
      with Inr \<open>convert_vars_to_snake_json lib (fst cm) = Inr vars\<close> Cons.IH show ?thesis by simp
    qed
  qed simp
qed simp

lemma all_refs_Some:
  "all_refs lib cms = Some refs \<Longrightarrow>
     (cm, rs) \<in> set refs \<longleftrightarrow> cm \<in> set cms \<and> (\<exists>vars. convert_vars_to_snake_json lib (fst cm) = Inr vars \<and> rs = extract_top_level_deps lib vars)"
  by (induction cms arbitrary: refs) (auto split: sum.splits)

section \<open>What a reference is\<close>

text \<open>
  The references are specified without the search: a reference stands somewhere in a text, with
  spaces allowed only inside its braces, and the texts are those that are the value of a variable, an
  element of a list or an entry of a mapping. A text that is nested deeper does not count.
\<close>

definition is_name :: "string \<Rightarrow> bool" where
  "is_name w \<longleftrightarrow> w \<noteq> [] \<and> list_all is_word w"

definition reference_text :: "string \<times> string \<times> string \<Rightarrow> string \<Rightarrow> bool" where
  "reference_text r t \<longleftrightarrow> (case r of (kind, claim, field) \<Rightarrow> is_name kind \<and> is_name claim \<and> is_name field
     \<and> (\<exists>sp1 sp2. list_all is_space sp1 \<and> list_all is_space sp2
          \<and> t = ''{{'' @ sp1 @ kind @ ''::'' @ claim @ ''::'' @ field @ sp2 @ ''}}''))"

definition stands_in :: "string \<times> string \<times> string \<Rightarrow> string \<Rightarrow> bool" where
  "stands_in r s \<longleftrightarrow> (\<exists>pre t post. s = pre @ t @ post \<and> reference_text r t)"

definition shallow_text :: "json \<Rightarrow> string \<Rightarrow> bool" where
  "shallow_text vars s \<longleftrightarrow> (\<exists>kvs key v. vars = JObject kvs \<and> (key, v) \<in> set kvs
     \<and> (v = JString s \<or> (\<exists>xs. v = JArray xs \<and> JString s \<in> set xs) \<or> (\<exists>es k. v = JObject es \<and> (k, JString s) \<in> set es)))"

text \<open>A claim refers to another when such a text of its variables holds a reference to it.\<close>

definition refers :: "text_lib \<Rightarrow> claim_module \<Rightarrow> string \<times> string \<times> string \<Rightarrow> bool" where
  "refers lib cm r \<longleftrightarrow> (\<exists>vars s kind claim field. convert_vars_to_snake_json lib (fst cm) = Inr vars \<and> shallow_text vars s
       \<and> stands_in (kind, claim, field) s \<and> r = (kind, claim, to_snake_case lib field))
     \<and> \<not> is_stack_variable r"

lemma match_lit_iff: "match_lit p s = Some r \<longleftrightarrow> s = p @ r"
  by (auto simp: match_lit_def starts_with_iff)

lemma match_word_iff: "match_word s = Some (w, r) \<longleftrightarrow> s = w @ r \<and> is_name w \<and> (r = [] \<or> \<not> is_word (hd r))"
proof
  assume "match_word s = Some (w, r)"
  then have m: "takeWhile is_word s = w" "dropWhile is_word s = r" "w \<noteq> []" by (auto simp: match_word_def split: if_splits)
  then have "s = w @ r" by (metis takeWhile_dropWhile_id)
  moreover have "is_name w" using m(1,3) by (auto simp: is_name_def list_all_iff dest: set_takeWhileD)
  moreover have "r = [] \<or> \<not> is_word (hd r)" using hd_dropWhile m(2) by metis
  ultimately show "s = w @ r \<and> is_name w \<and> (r = [] \<or> \<not> is_word (hd r))" by blast
next
  assume a: "s = w @ r \<and> is_name w \<and> (r = [] \<or> \<not> is_word (hd r))"
  then have "takeWhile is_word r = []" "dropWhile is_word r = r" by (cases r; simp)+
  with a show "match_word s = Some (w, r)"
    by (simp add: match_word_def is_name_def list_all_iff)
qed

lemma spaces_dropped: "list_all is_space sp \<Longrightarrow> t = [] \<or> \<not> is_space (hd t) \<Longrightarrow> dropWhile is_space (sp @ t) = t"
  by (cases t) (auto simp: list_all_iff)

lemma spaces_split: "\<exists>sp. list_all is_space sp \<and> s = sp @ dropWhile is_space s"
  by (rule exI [of _ "takeWhile is_space s"]) (auto simp: list_all_iff dest: set_takeWhileD)

lemma name_starts: "is_name w \<Longrightarrow> \<exists>c cs. w = c # cs \<and> is_word c"
  by (cases w) (auto simp: is_name_def)

lemma word_not_space: "is_word c \<Longrightarrow> \<not> is_space c"
  by (auto simp: is_word_def is_space_def is_alphanumeric_def is_lower_def is_upper_def is_digit_def Let_def)

lemma match_ref_iff: "match_ref s = Some (r, post) \<longleftrightarrow> (\<exists>t. s = t @ post \<and> reference_text r t)"
proof
  assume "match_ref s = Some (r, post)"
  then obtain s1 k s2 s3 c s4 s5 f s6 where m: "match_lit ''{{'' s = Some s1" "match_word (dropWhile is_space s1) = Some (k, s2)"
    "match_lit ''::'' s2 = Some s3" "match_word s3 = Some (c, s4)" "match_lit ''::'' s4 = Some s5" "match_word s5 = Some (f, s6)"
    "match_lit ''}}'' (dropWhile is_space s6) = Some post" "r = (k, c, f)"
    unfolding match_ref_def by (auto simp: bind_eq_Some_conv split: prod.splits)
  obtain sp1 sp2 where sp: "list_all is_space sp1" "s1 = sp1 @ dropWhile is_space s1" "list_all is_space sp2" "s6 = sp2 @ dropWhile is_space s6"
    using spaces_split by metis
  let ?t = "''{{'' @ sp1 @ k @ ''::'' @ c @ ''::'' @ f @ sp2 @ ''}}''"
  have "s = ?t @ post" using m sp unfolding match_lit_iff match_word_iff by (metis append.assoc)
  moreover have "reference_text r ?t" using m(2,4,6,8) sp(1,3) unfolding match_word_iff reference_text_def by auto
  ultimately show "\<exists>t. s = t @ post \<and> reference_text r t" by blast
next
  assume "\<exists>t. s = t @ post \<and> reference_text r t"
  then obtain k c f sp1 sp2 where r: "r = (k, c, f)" "is_name k" "is_name c" "is_name f" "list_all is_space sp1" "list_all is_space sp2"
    and s: "s = ''{{'' @ sp1 @ k @ ''::'' @ c @ ''::'' @ f @ sp2 @ ''}}'' @ post"
    by (cases r) (auto simp: reference_text_def)
  have w: "\<not> is_word (CHR '':'')" "\<not> is_word (CHR ''}'')" "\<not> is_space (CHR ''}'')"
    by (simp_all add: is_word_def is_alphanumeric_def is_lower_def is_upper_def is_digit_def is_space_def)
  obtain a as where k: "k = a # as" "is_word a" using name_starts [OF r(2)] by blast
  have d1: "dropWhile is_space (sp1 @ k @ x) = k @ x" for x
    using spaces_dropped [OF r(5), of "k @ x"] word_not_space k by simp
  have d2: "dropWhile is_space (sp2 @ ''}}'' @ post) = ''}}'' @ post"
    using spaces_dropped [OF r(6), of "''}}'' @ post"] w by simp
  have n2: "sp2 @ ''}}'' @ post = [] \<or> \<not> is_word (hd (sp2 @ ''}}'' @ post))"
    using r(6) w word_not_space by (cases sp2) auto
  have m: "match_word (k @ ''::'' @ x) = Some (k, ''::'' @ x)" "match_word (c @ ''::'' @ x) = Some (c, ''::'' @ x)" for x
    unfolding match_word_iff using r(2,3) w by simp_all
  have f: "match_word (f @ sp2 @ ''}}'' @ post) = Some (f, sp2 @ ''}}'' @ post)"
    unfolding match_word_iff using r(4) n2 by blast
  have l: "match_lit p (p @ x) = Some x" for p x by (simp add: match_lit_iff)
  show "match_ref s = Some (r, post)"
    unfolding match_ref_def s l bind.bind_lunit d1 m prod.case f d2 r(1) by simp
qed

text \<open>References do not overlap, so a search from left to right finds every one.\<close>

lemma no_overlap:
  assumes t: "reference_text r t" and t': "reference_text r' t'" and eq: "pre @ t' @ post' = t @ post" and pre: "pre \<noteq> []"
  shows "\<exists>u. post = u @ t' @ post'"
proof -
  obtain k c f sp1 sp2 where r: "r = (k, c, f)" "is_name k" "is_name c" "is_name f" "list_all is_space sp1" "list_all is_space sp2"
    and s: "t = ''{{'' @ sp1 @ k @ ''::'' @ c @ ''::'' @ f @ sp2 @ ''}}''"
    using t by (cases r) (auto simp: reference_text_def)
  define mid where "mid = sp1 @ k @ ''::'' @ c @ ''::'' @ f @ sp2 @ ''}}''"
  have tm: "t = CHR ''{'' # CHR ''{'' # mid" by (simp add: s mid_def)
  have brace: "\<not> is_word (CHR ''{'')" "\<not> is_space (CHR ''{'')"
    by (simp_all add: is_word_def is_alphanumeric_def is_lower_def is_upper_def is_digit_def is_space_def)
  then have no: "CHR ''{'' \<notin> set mid" and ne: "mid \<noteq> []"
    using r(2-6) by (auto simp: mid_def is_name_def list_all_iff)
  obtain x where t'x: "t' @ post' = CHR ''{'' # CHR ''{'' # x"
    using t' by (cases r') (auto simp: reference_text_def)
  from eq consider u where "post = u @ t' @ post'" | us where "t = pre @ us" "us \<noteq> []" "t' @ post' = us @ post"
    unfolding append_eq_append_conv2 [of pre "t' @ post'" t post] by (metis append_Nil append_Nil2)
  then show ?thesis
  proof cases
    case (2 us)
    obtain us' where us: "us = CHR ''{'' # us'" using 2(2,3) t'x by (cases us) auto
    show ?thesis
    proof (cases "tl pre")
      case Nil
      then obtain p where "pre = [p]" using pre by (cases pre) auto
      then have "us' = mid" using 2(1) tm us by simp
      then show ?thesis using 2(3) t'x us no ne by (cases mid) auto
    next
      case (Cons q qs)
      then obtain p where "pre = p # q # qs" using pre by (cases pre) auto
      then have "mid = qs @ us" using 2(1) tm by simp
      then show ?thesis using no us by simp
    qed
  qed blast
qed

lemma find_refs_exact: "r \<in> set (find_refs s) \<longleftrightarrow> stands_in r s"
proof (induction s rule: find_refs.induct)
  case 1
  then show ?case by (auto simp: stands_in_def reference_text_def split: prod.splits)
next
  case (2 c cs)
  show ?case
  proof (cases "match_ref (c # cs)")
    case None
    have "pre \<noteq> []" if "c # cs = pre @ t @ post" "reference_text r t" for pre t post
      using that None match_ref_iff [of "c # cs" r post] by auto
    then have "stands_in r (c # cs) \<longleftrightarrow> stands_in r cs"
      unfolding stands_in_def by (metis append_Cons list.inject neq_Nil_conv)
    with None 2(1) show ?thesis by simp
  next
    case (Some x)
    obtain r0 rest where x: "x = (r0, rest)" by (cases x)
    then obtain t0 where t0: "c # cs = t0 @ rest" "reference_text r0 t0" using Some match_ref_iff by blast
    have "stands_in r (c # cs) \<longleftrightarrow> r = r0 \<or> stands_in r rest"
    proof
      assume "stands_in r (c # cs)"
      then obtain pre t post where t: "c # cs = pre @ t @ post" "reference_text r t" unfolding stands_in_def by blast
      show "r = r0 \<or> stands_in r rest"
      proof (cases "pre = []")
        case True
        then have "match_ref (c # cs) = Some (r, post)" using t match_ref_iff by (metis append_Nil)
        with Some x show ?thesis by simp
      next
        case False
        with no_overlap [OF t0(2) t(2), of pre post rest] t t0(1) show ?thesis unfolding stands_in_def by metis
      qed
    next
      assume "r = r0 \<or> stands_in r rest"
      then show "stands_in r (c # cs)"
      proof
        assume "r = r0"
        then show ?thesis unfolding stands_in_def using t0 by (metis append_Nil)
      next
        assume "stands_in r rest"
        then show ?thesis unfolding stands_in_def t0(1) by (metis append.assoc)
      qed
    qed
    with Some x 2(2) show ?thesis by auto
  qed
qed

lemma refs_in_exact:
  "r \<in> set (refs_in lib v) \<longleftrightarrow> (\<exists>s kind claim field. v = JString s \<and> stands_in (kind, claim, field) s
     \<and> r = (kind, claim, to_snake_case lib field))"
  by (cases v) (auto simp: refs_in_def find_refs_exact [symmetric] image_iff intro: bexI [rotated])

lemma value_deps_exact:
  "r \<in> set (value_deps lib v) \<longleftrightarrow> (\<exists>s kind claim field. stands_in (kind, claim, field) s \<and> r = (kind, claim, to_snake_case lib field)
     \<and> (v = JString s \<or> (\<exists>xs. v = JArray xs \<and> JString s \<in> set xs) \<or> (\<exists>es k. v = JObject es \<and> (k, JString s) \<in> set es)))"
  by (cases v) (auto simp: refs_in_exact, blast+)

lemma extracted_exact:
  "r \<in> set (extract_top_level_deps lib vars) \<longleftrightarrow> (\<exists>s kind claim field. shallow_text vars s
     \<and> stands_in (kind, claim, field) s \<and> r = (kind, claim, to_snake_case lib field))"
proof -
  have "r \<in> set (extract_top_level_deps lib vars) \<longleftrightarrow> (\<exists>kvs key v. vars = JObject kvs \<and> (key, v) \<in> set kvs \<and> r \<in> set (value_deps lib v))"
    by (cases vars) (auto simp: extract_top_level_deps_def)
  then show ?thesis unfolding value_deps_exact shallow_text_def by blast
qed

lemma refers_found:
  "refers lib cm r \<longleftrightarrow> (\<exists>vars. convert_vars_to_snake_json lib (fst cm) = Inr vars \<and> r \<in> set (extract_top_level_deps lib vars))
     \<and> \<not> is_stack_variable r"
  unfolding refers_def extracted_exact by blast

section \<open>The graph of an accepted stack\<close>

definition needs :: "text_lib \<Rightarrow> claim_module list \<Rightarrow> (string \<times> string) set" where
  "needs lib cms = {(claim_name cm, fst (snd r)) | cm r. cm \<in> set cms \<and> refers lib cm r}"

lemma graph_needs:
  assumes "all_refs lib cms = Some refs"
    and "\<And>cm r. cm \<in> set cms \<Longrightarrow> refers lib cm r \<Longrightarrow> fst (snd r) \<in> claim_name ` set cms"
  shows "edges (dependency_graph (build_claim_module_map cms) (List.map (\<lambda>(cm, rs). (claim_name cm, rs)) refs)) = needs lib cms"
proof -
  have mem: "(n, m) \<in> needs lib cms \<longleftrightarrow>
      (\<exists>rs. (n, rs) \<in> set (List.map (\<lambda>(cm, rs). (claim_name cm, rs)) refs) \<and> m \<in> set (claim_edges (build_claim_module_map cms) rs))" for n m
  proof
    assume "(n, m) \<in> needs lib cms"
    then obtain cm r vars where r: "cm \<in> set cms" "n = claim_name cm" "m = fst (snd r)" "refers lib cm r"
      "convert_vars_to_snake_json lib (fst cm) = Inr vars" "r \<in> set (extract_top_level_deps lib vars)"
      by (auto simp: needs_def refers_found)
    then have in_refs: "(cm, extract_top_level_deps lib vars) \<in> set refs" using all_refs_Some [OF assms(1)] by blast
    have known: "hm_contains (build_claim_module_map cms) m"
      using assms(2) [OF r(1,4)] r(3) map_of_claims_None by (auto simp: hm_contains_def)
    show "\<exists>rs. (n, rs) \<in> set (List.map (\<lambda>(cm, rs). (claim_name cm, rs)) refs) \<and> m \<in> set (claim_edges (build_claim_module_map cms) rs)"
    proof (intro exI [of _ "extract_top_level_deps lib vars"] conjI)
      show "(n, extract_top_level_deps lib vars) \<in> set (List.map (\<lambda>(cm, rs). (claim_name cm, rs)) refs)"
        using in_refs r(2) by (metis (mono_tags, lifting) case_prod_conv imageI set_map)
      show "m \<in> set (claim_edges (build_claim_module_map cms) (extract_top_level_deps lib vars))"
        using r(3,4,6) known unfolding claim_edges_def refers_found by simp
    qed
  next
    assume "\<exists>rs. (n, rs) \<in> set (List.map (\<lambda>(cm, rs). (claim_name cm, rs)) refs) \<and> m \<in> set (claim_edges (build_claim_module_map cms) rs)"
    then obtain cm rs r where "(cm, rs) \<in> set refs" "n = claim_name cm" "r \<in> set rs" "m = fst (snd r)" "\<not> is_stack_variable r"
      by (auto simp: claim_edges_def)
    note found = this
    then obtain vars where "cm \<in> set cms" "convert_vars_to_snake_json lib (fst cm) = Inr vars" "rs = extract_top_level_deps lib vars"
      using all_refs_Some [OF assms(1), of cm rs] by blast
    with found have "cm \<in> set cms \<and> refers lib cm r" by (simp add: refers_found)
    then show "(n, m) \<in> needs lib cms"
      unfolding needs_def mem_Collect_eq using found(2,4) by (intro exI [of _ cm] exI [of _ r]) simp
  qed
  show ?thesis unfolding edges_graph
  proof (intro set_eqI)
    fix p
    show "p \<in> {(n, m). \<exists>rs. (n, rs) \<in> set (List.map (\<lambda>(cm, rs). (claim_name cm, rs)) refs) \<and> m \<in> set (claim_edges (build_claim_module_map cms) rs)}
        \<longleftrightarrow> p \<in> needs lib cms"
      by (cases p) (simp only: mem mem_Collect_eq case_prod_conv)
  qed
qed

section \<open>Stacks that are accepted\<close>

text \<open>Every acyclic relation on finitely many names has an order in which needs come first.\<close>

definition needs_first :: "(string \<times> string) set \<Rightarrow> string list \<Rightarrow> bool" where
  "needs_first E ord \<longleftrightarrow> (\<forall>i < length ord. \<forall>m. (ord ! i, m) \<in> E \<longrightarrow> m \<in> set (take i ord))"

lemma needs_first_snoc:
  "needs_first E (ord @ [z]) \<longleftrightarrow> needs_first E ord \<and> (\<forall>m. (z, m) \<in> E \<longrightarrow> m \<in> set ord)"
  by (auto simp: needs_first_def nth_append less_Suc_eq)

lemma topological_order:
  "finite V \<Longrightarrow> acyclic E \<Longrightarrow> E \<subseteq> V \<times> V \<Longrightarrow> \<exists>ord. set ord = V \<and> distinct ord \<and> needs_first E ord"
proof (induction "card V" arbitrary: V E)
  case 0
  then show ?case by (intro exI [of _ "[]"]) (simp add: needs_first_def)
next
  case (Suc n)
  have "finite E" using Suc.prems(1,3) finite_subset by blast
  then have wf: "wf E" using Suc.prems(2) by (rule finite_acyclic_wf)
  obtain z where z: "z \<in> V" "\<And>y. (y, z) \<in> E \<Longrightarrow> y \<notin> V"
    using wfE_min [OF wf] Suc.hyps(2) by (metis card_0_eq Suc.prems(1) all_not_in_conv nat.distinct(1))
  then have nobody: "(y, z) \<notin> E" for y using Suc.prems(3) by blast
  let ?E = "E \<inter> (V - {z}) \<times> (V - {z})"
  have "\<exists>ord. set ord = V - {z} \<and> distinct ord \<and> needs_first ?E ord"
  proof (rule Suc.hyps(1))
    show "n = card (V - {z})" using Suc.hyps(2) Suc.prems(1) z(1) by simp
    show "acyclic ?E" using Suc.prems(2) acyclic_subset by blast
  qed (use Suc.prems(1) in auto)
  then obtain ord where o: "set ord = V - {z}" "distinct ord" "needs_first ?E ord" by blast
  have "needs_first E ord"
    unfolding needs_first_def
  proof (intro allI impI)
    fix i m
    assume i: "i < length ord" "(ord ! i, m) \<in> E"
    then have "(ord ! i, m) \<in> ?E" using o(1) nobody Suc.prems(3) nth_mem by fastforce
    with o(3) i(1) show "m \<in> set (take i ord)" by (auto simp: needs_first_def)
  qed
  moreover have "(z, m) \<in> E \<Longrightarrow> m \<in> set ord" for m
    using o(1) nobody Suc.prems(3) by blast
  ultimately show ?case
    using o(1,2) z(1) by (intro exI [of _ "ord @ [z]"]) (auto simp: needs_first_snoc)
qed

text \<open>What a reference must find: a claim of that name whose module has that kind and field.\<close>

definition resolves :: "claim_module list \<Rightarrow> string \<times> string \<times> string \<Rightarrow> bool" where
  "resolves cms r \<longleftrightarrow> (\<exists>cm \<in> set cms. claim_name cm = fst (snd r) \<and> mr_module_name (snd cm) = fst r
     \<and> snd (snd r) \<in> tfo_name ` set (mr_tf_outputs (snd cm)) \<union> tfv_name ` set (mr_tf_variables (snd cm)))"

lemma reference_resolves:
  assumes "check_reference lib (build_claim_module_map cms) claim r = Inr ()" "\<not> is_stack_variable r"
    and "distinct (List.map claim_name cms)"
  shows "resolves cms r"
proof -
  obtain kind name field where r: "r = (kind, name, field)" by (cases r)
  have e: "claim_reference_exists (build_claim_module_map cms) kind name field"
    using assms(1,2) r by (auto simp: check_reference_def split: if_splits)
  then obtain m where m: "map_of (build_claim_module_map cms) name = Some m"
    by (auto simp: claim_reference_exists_def split: option.splits)
  then obtain cm where cm: "cm \<in> set cms" "claim_name cm = name"
    using map_of_claims_None [of cms name] by auto
  then have "m = snd cm" using map_of_claims [OF assms(3) cm(1)] m by simp
  with e m cm show ?thesis by (auto simp: resolves_def r claim_reference_exists_def)
qed

lemma accepted_parts:
  assumes "validate_claim_modules lib order cms = Some (Inr ())"
  shows "distinct (List.map claim_name cms)" "validate_each lib cms = Some (Inr ())"
    "validate_dependencies lib order cms = Some (Inr ())"
  using assms repeated_Nil [of "{}" "List.map claim_name cms"]
  by (auto simp: validate_claim_modules_def split: list.splits option.splits sum.splits)

lemma dependencies_checked:
  assumes "validate_dependencies lib order cms = Some r" "r \<in> {Inr (), Inl (CircularDependency c)}"
    and "distinct (List.map claim_name cms)"
  obtains refs where "all_refs lib cms = Some refs"
    "\<And>cm r. cm \<in> set cms \<Longrightarrow> refers lib cm r \<Longrightarrow> resolves cms r"
    "detect_cycle order (dependency_graph (build_claim_module_map cms) (List.map (\<lambda>(cm, rs). (claim_name cm, rs)) refs))
       = (case r of Inr _ \<Rightarrow> None | Inl _ \<Rightarrow> Some c)"
proof -
  have not_circular: "try_all (check_reference lib mm cl) rs \<noteq> Inl (CircularDependency c)" for mm cl rs
    using try_all_err [of "check_reference lib mm cl" rs "CircularDependency c"]
    unfolding check_reference_def by (auto split: if_splits prod.splits)
  have "check_references lib mm xs \<noteq> Some (Inl (CircularDependency c))" for mm xs
    using not_circular by (induction xs) (auto split: sum.splits)
  then have ok: "check_references lib (build_claim_module_map cms) cms = Some (Inr ())"
    and refs: "\<exists>refs. all_refs lib cms = Some refs \<and>
      detect_cycle order (dependency_graph (build_claim_module_map cms) (List.map (\<lambda>(cm, rs). (claim_name cm, rs)) refs))
       = (case r of Inr _ \<Rightarrow> None | Inl _ \<Rightarrow> Some c)"
    using assms(1,2) by (auto simp: validate_dependencies_def Let_def split: option.splits sum.splits)
  from ok have "resolves cms r" if "cm \<in> set cms" "refers lib cm r" for cm r
    using that reference_resolves [OF _ _ assms(3)] unfolding check_references_ok refers_found by fastforce
  with refs that show ?thesis by blast
qed

lemma resolves_name: "resolves cms r \<Longrightarrow> fst (snd r) \<in> claim_name ` set cms"
  unfolding resolves_def by (elim bexE conjE) (rule image_eqI, simp_all)

lemma needs_names:
  assumes "\<And>cm r. cm \<in> set cms \<Longrightarrow> refers lib cm r \<Longrightarrow> resolves cms r"
  shows "needs lib cms \<subseteq> claim_name ` set cms \<times> claim_name ` set cms"
proof
  fix p
  assume "p \<in> needs lib cms"
  then obtain cm r where "p = (claim_name cm, fst (snd r))" "cm \<in> set cms" "refers lib cm r"
    unfolding needs_def by blast
  then show "p \<in> claim_name ` set cms \<times> claim_name ` set cms"
    using resolves_name [OF assms] by simp
qed

text \<open>
  C13: the order of an accepted stack. The names of its claims differ; every reference (other than to
  a variable of the stack) in a text that is the value of a variable of a claim, an element of a list
  or an entry of a mapping finds the claim, kind and field it names; and there is an order of the
  claims in which each one comes after all the claims it refers to in this way. Texts that are nested
  deeper are not read by the validation, so nothing is promised of their references.
\<close>

theorem accepted_stack_has_order:
  assumes "\<And>ks. set (order ks) = set ks" "validate_claim_modules lib order cms = Some (Inr ())"
  shows "distinct (List.map claim_name cms)
    \<and> (\<forall>cm \<in> set cms. \<forall>r. refers lib cm r \<longrightarrow> resolves cms r)
    \<and> (\<exists>ord. set ord = claim_name ` set cms \<and> distinct ord \<and> needs_first (needs lib cms) ord)"
proof -
  note d = accepted_parts [OF assms(2)]
  from dependencies_checked [OF d(3) _ d(1)] obtain refs where refs: "all_refs lib cms = Some refs"
    and res: "\<And>cm r. cm \<in> set cms \<Longrightarrow> refers lib cm r \<Longrightarrow> resolves cms r"
    and det: "detect_cycle order (dependency_graph (build_claim_module_map cms) (List.map (\<lambda>(cm, rs). (claim_name cm, rs)) refs)) = None"
    by (metis (no_types, lifting) insertI1 sum.case(2))
  have e: "edges (dependency_graph (build_claim_module_map cms) (List.map (\<lambda>(cm, rs). (claim_name cm, rs)) refs)) = needs lib cms"
    by (rule graph_needs [OF refs]) (rule resolves_name [OF res])
  have "acyclic (needs lib cms)"
    using detect_cycle_ok [OF assms(1)] det e by metis
  from topological_order [OF _ this needs_names [OF res]] d(1) res show ?thesis by auto
qed

text \<open>
  A stack is rejected for a cycle only when its claims refer to each other in a circle, and the
  error names the claims of one.
\<close>

theorem reported_cycle_is_real:
  assumes "\<And>ks. set (order ks) = set ks" "validate_claim_modules lib order cms = Some (Inl (CircularDependency c))"
  shows "is_cycle (needs lib cms) c"
proof -
  have d: "distinct (List.map claim_name cms)"
    using assms(2) repeated_Nil [of "{}" "List.map claim_name cms"]
    by (auto simp: validate_claim_modules_def split: list.splits)
  have one: "validate_claim_module lib cm \<noteq> Some (Inl (CircularDependency c))" for cm
    by (auto simp: validate_claim_module_def res_bind_def map_err_def validate_stack_module_claim_name_def
        validate_stack_module_claim_region_is_na_def split: prod.splits sum.splits if_splits list.splits)
  have "validate_each lib xs \<noteq> Some (Inl (CircularDependency c))" for xs
    using one by (induction xs) (auto split: option.splits sum.splits)
  then have v: "validate_dependencies lib order cms = Some (Inl (CircularDependency c))"
    using assms(2) by (auto simp: validate_claim_modules_def split: list.splits option.splits sum.splits)
  from dependencies_checked [OF v _ d] obtain refs where refs: "all_refs lib cms = Some refs"
    and res: "\<And>cm r. cm \<in> set cms \<Longrightarrow> refers lib cm r \<Longrightarrow> resolves cms r"
    and det: "detect_cycle order (dependency_graph (build_claim_module_map cms) (List.map (\<lambda>(cm, rs). (claim_name cm, rs)) refs)) = Some c"
    by (metis (no_types, lifting) insertCI sum.case(1))
  have e: "edges (dependency_graph (build_claim_module_map cms) (List.map (\<lambda>(cm, rs). (claim_name cm, rs)) refs)) = needs lib cms"
    by (rule graph_needs [OF refs]) (rule resolves_name [OF res])
  show ?thesis using detect_cycle_sound [OF assms(1)] det e by metis
qed

section \<open>Two stacks\<close>

fun demo_yaml :: "yaml \<times> yaml \<Rightarrow> string \<times> json" where
  "demo_yaml (YString k, YString v) = (k, JString v)"
| "demo_yaml _ = ([], JNull)"

definition demo_stack_lib :: text_lib where
  "demo_stack_lib = \<lparr>tl_snake = (\<lambda>s. s), tl_camel = (\<lambda>s. s), tl_json = (\<lambda>kvs. Inr (JObject (List.map demo_yaml kvs)))\<rparr>"

definition demo_claim :: "string \<Rightarrow> (yaml \<times> yaml) list \<Rightarrow> claim_module" where
  "demo_claim n vars =
     (\<lparr>dmf_metadata = \<lparr>dm_name = n, dm_namespace = None, dm_annotations = None, dm_labels = None\<rparr>,
       dmf_api_version = [], dmf_kind = ''M'',
       dmf_spec = \<lparr>dsc_module_version = Some ''1'', dsc_stack_version = None, dsc_region = ''N/A'', dsc_reference = None,
         dsc_variables = vars, dsc_dependencies = None, dsc_drift_detection = None\<rparr>\<rparr>,
      demo_module\<lparr>mr_tf_variables := [tf_variable_default\<lparr>tfv_name := ''x''\<rparr>]\<rparr>)"

definition demo_stack :: "claim_module list" where
  "demo_stack = [demo_claim ''aa'' [(YString ''x'', YString ''{{ M::bb::x }}'')], demo_claim ''bb'' []]"

definition demo_circle :: "claim_module list" where
  "demo_circle = [demo_claim ''aa'' [(YString ''x'', YString ''{{ M::bb::x }}'')],
     demo_claim ''bb'' [(YString ''x'', YString ''-{{M::aa::x}}'')]]"

lemma accepted_stack_has_order_witness:
  "\<exists>ord. set ord = claim_name ` set demo_stack \<and> distinct ord \<and> needs_first (needs demo_stack_lib demo_stack) ord"
proof -
  have "validate_claim_modules demo_stack_lib (\<lambda>ks. ks) demo_stack = Some (Inr ())"
    by code_simp
  then show ?thesis
    using accepted_stack_has_order [of "\<lambda>ks. ks" demo_stack_lib demo_stack] by blast
qed

lemma reported_cycle_is_real_witness:
  "is_cycle (needs demo_stack_lib demo_circle) [''aa'', ''bb'']"
proof (rule reported_cycle_is_real [of "\<lambda>ks. ks"])
  show "validate_claim_modules demo_stack_lib (\<lambda>ks. ks) demo_circle = Some (Inl (CircularDependency [''aa'', ''bb'']))"
    by code_simp
qed simp

end
