(* ===== verification/Claims.thy ===== *)
theory Claims
  imports Runner_Records Runner_Properties Versions
begin

text \<open>
  \<open>env_common/src/logic/api_infra.rs\<close>: what the server does with a claim. A claim is parsed and
  checked against the module it names, turned into the payload of a job, and submitted: unless a
  job of the deployment is running, a runner is started and the deployment is recorded as
  requested. Destroying and drift checking submit a payload made from the recorded deployment.
  A client that talks to the server over HTTP sends the payload there instead.
\<close>

section \<open>Parameters\<close>

text \<open>
  \<open>ce_manifest\<close> is \<open>serde_yaml::from_value\<close>; the \<open>ce_http_\<close> fields are the answers of the server to a
  client in HTTP mode; \<open>ce_parse_error\<close> is the text of a failed \<open>serde_json::from_value\<close>.
\<close>

record claim_env =
  ce_env :: env
  ce_http :: bool
  ce_project_id :: string
  ce_region :: string
  ce_lib :: text_lib
  ce_semver :: semver_lib
  ce_manifest :: "yaml \<Rightarrow> (string, deployment_manifest) result"
  ce_http_version :: "call list \<Rightarrow> bool \<Rightarrow> string \<Rightarrow> string \<Rightarrow> string \<Rightarrow> (string, module_resp) result"
  ce_http_describe :: "call list \<Rightarrow> string \<Rightarrow> string \<Rightarrow> (string, json) result"
  ce_http_submit :: "call list \<Rightarrow> payload_with_variables \<Rightarrow> (string, string) result"
  ce_parse_error :: "json \<Rightarrow> string"

section \<open>Names\<close>

text \<open>\<open>^[a-z0-9](?:[-a-z0-9]{0,61}[a-z0-9])?$\<close>\<close>

definition name_end :: "char \<Rightarrow> bool" where
  "name_end c \<longleftrightarrow> is_lower c \<or> is_digit c"

fun name_matches :: "string \<Rightarrow> bool" where
  "name_matches [] \<longleftrightarrow> False"
| "name_matches (c # cs) \<longleftrightarrow> name_end c
     \<and> (cs = [] \<or> length (butlast cs) \<le> 61 \<and> list_all (\<lambda>x. x = CHR ''-'' \<or> name_end x) (butlast cs) \<and> name_end (last cs))"

definition validate_claim_name :: "string \<Rightarrow> (string, unit) result" where
  "validate_claim_name name =
     (if \<not> name_matches name
      then Inl (''Deployment name and namespace ('' @ name @ '') must be 1-63 characters long, contain only ''
        @ ''lowercase letters (a-z), digits (0-9), or hyphens (-), and must start and end with a lowercase letter or digit.'')
      else Inr ())"

definition validate_claim_kind :: "string \<Rightarrow> string \<Rightarrow> (string, unit) result" where
  "validate_claim_kind kind module_name =
     (if module_name \<noteq> kind
      then Inl (if to_lowercase module_name = to_lowercase kind
                then ''Kind '' @ kind @ '' not exist, did you mean '' @ module_name @ ''?''
                else ''Kind '' @ kind @ '' does not exist'')
      else Inr ())"

text \<open>The namespace of an environment \<open><launcher>/<namespace>\<close>.\<close>

definition namespace_of :: "string \<Rightarrow> string" where
  "namespace_of environment = join ''/'' (drop 1 (split_on (CHR ''/'') environment))"

definition get_deployment_details ::
  "string \<Rightarrow> deployment_manifest \<Rightarrow> (string, string \<times> string \<times> string \<times> string \<times> string) result" where
  "get_deployment_details environment manifest =
     (let kind = dmf_kind manifest;
          region = dsc_region (dmf_spec manifest);
          module = to_lowercase kind;
          name = dm_name (dmf_metadata manifest);
          deployment_id = module @ ''/'' @ name
      in res_bind (validate_claim_name (namespace_of environment)) (\<lambda>_.
         Inr (region, environment, deployment_id, module, name)))"

section \<open>From a claim to a payload\<close>

definition is_stack_claim :: "deployment_manifest \<Rightarrow> (string, bool) result" where
  "is_stack_claim manifest =
     (case (dsc_module_version (dmf_spec manifest), dsc_stack_version (dmf_spec manifest)) of
        (Some _, None) \<Rightarrow> Inr False
      | (None, Some _) \<Rightarrow> Inr True
      | (Some _, Some _) \<Rightarrow> Inl ''Both moduleVersion and stackVersion are set, only one should be set''
      | (None, None) \<Rightarrow> Inl ''Neither moduleVersion nor stackVersion are set, one should be set'')"

definition claim_dependencies :: "string \<Rightarrow> string \<Rightarrow> string \<Rightarrow> deployment_manifest \<Rightarrow> dependency list" where
  "claim_dependencies project_id region environment manifest =
     (case dsc_dependencies (dmf_spec manifest) of
        None \<Rightarrow> []
      | Some ds \<Rightarrow> List.map (\<lambda>d.
          \<lparr>dep_project_id = project_id, dep_region = region,
           dep_deployment_id = to_lowercase (dsp_deployment_id d) @ ''/'' @ to_lowercase (dsp_environment d),
           dep_environment = environment\<rparr>) ds)"

definition claim_drift_detection :: "deployment_manifest \<Rightarrow> drift_detection option" where
  "claim_drift_detection manifest =
     (case dsc_drift_detection (dmf_spec manifest) of
        None \<Rightarrow> read_drift_detection (JObject [])
      | Some d \<Rightarrow> Some \<lparr>dd_enabled = dd_enabled d, dd_interval = dd_interval d,
          dd_auto_remediate = dd_auto_remediate d, dd_webhooks = dd_webhooks d\<rparr>)"

definition claim_annotations :: "text_lib \<Rightarrow> deployment_manifest \<Rightarrow> (string, json) result" where
  "claim_annotations lib manifest =
     (case dm_annotations (dmf_metadata manifest) of
        None \<Rightarrow> Inr JNull
      | Some kvs \<Rightarrow> map_err (\<lambda>e. ''Failed to convert annotations YAML to JSON: '' @ e) (tl_json lib kvs))"

definition module_label :: "bool \<Rightarrow> string" where
  "module_label is_stack = (if is_stack then ''Stack'' else ''Module'')"

definition ask_version :: "env \<Rightarrow> bool \<Rightarrow> string \<Rightarrow> string \<Rightarrow> string \<Rightarrow> ('z world_scheme, (string, module_resp option) result) eff" where
  "ask_version en is_stack module track module_version =
     (if is_stack
      then ask (Get_Stack_Version module track module_version) (\<lambda>h. en_get_stack_version en h module track module_version)
      else ask (Get_Module_Version module track module_version) (\<lambda>h. en_get_module_version en h module track module_version))"

definition http_version :: "claim_env \<Rightarrow> bool \<Rightarrow> string \<Rightarrow> string \<Rightarrow> string \<Rightarrow> ('z world_scheme, (string, module_resp) result) eff" where
  "http_version ce is_stack track module module_version =
     ask (Http (if is_stack then ''http_get_stack_version'' else ''http_get_module_version'')
            (JArray [JString track, JString module, JString module_version]))
       (\<lambda>h. ce_http_version ce h is_stack track module module_version)"

definition find_module_version :: "claim_env \<Rightarrow> bool \<Rightarrow> string \<Rightarrow> string \<Rightarrow> string \<Rightarrow> ('z world_scheme, module_resp) eff" where
  "find_module_version ce is_stack module track module_version =
     (if ce_http ce
      then bnd (http_version ce is_stack track module module_version) (\<lambda>r.
           of_result (map_err (\<lambda>e. ''Failed to verify '' @ module_label is_stack @ '' version: '' @ e) r))
      else bnd (ask_version (ce_env ce) is_stack module track module_version) (\<lambda>r.
           case r of
             Inr (Some module_resp) \<Rightarrow> ret module_resp
           | Inr None \<Rightarrow> fail (module_label is_stack @ '' version does not exist: '' @ module_version)
           | Inl e \<Rightarrow> fail (''Failed to verify '' @ module_label is_stack @ '' version: '' @ e)))"

definition claim_variables :: "text_lib \<Rightarrow> module_resp \<Rightarrow> bool \<Rightarrow> json \<Rightarrow> json" where
  "claim_variables lib module_resp is_stack provided =
     (if is_stack
      then flatten_and_convert_first_level_keys_to_snake_case lib provided []
             (concat (List.map (\<lambda>p. List.map tfv_name (pv_tf_variables p)) (mr_tf_providers module_resp)))
      else convert_first_level_keys_to_snake_case lib provided)"

text \<open>The three checks of the variables, in their order.\<close>

definition check_claim_variables :: "text_lib \<Rightarrow> module_resp \<Rightarrow> deployment_manifest \<Rightarrow> json \<Rightarrow> json \<Rightarrow> ('z world_scheme, unit) eff" where
  "check_claim_variables lib module_resp claim provided variables =
     seq (of_result (verify_variable_existence_and_type module_resp variables))
       (seq (bnd (unwrap_opt ''called `Option::unwrap()` on a `None` value'' (verify_required_variables_are_set module_resp variables))
               of_result)
          (of_result (verify_variable_claim_casing lib claim provided)))"

definition get_user_id :: "env \<Rightarrow> ('z world_scheme, string) eff" where
  "get_user_id en = bnd (ask Get_User_Id (en_get_user_id en)) (\<lambda>r.
     ret (case r of Inl _ \<Rightarrow> ''cli'' | Inr user \<Rightarrow> user))"

definition API_VERSION :: string where
  "API_VERSION = ''infraweave.io/v1''"

definition parse_claim :: "claim_env \<Rightarrow> yaml \<Rightarrow> (string, deployment_manifest) result" where
  "parse_claim ce yaml =
     (let api_version = (case yaml_str (yaml_get ''apiVersion'' yaml) of None \<Rightarrow> [] | Some s \<Rightarrow> s)
      in if api_version \<noteq> API_VERSION then Inl (''Unsupported API version: '' @ api_version)
         else map_err (\<lambda>e. ''Failed to parse claim YAML to DeploymentManifest: '' @ e) (ce_manifest ce yaml))"

definition validate_and_prepare_claim ::
  "claim_env \<Rightarrow> yaml \<Rightarrow> string \<Rightarrow> string \<Rightarrow> string list \<Rightarrow> extra_data \<Rightarrow> string \<Rightarrow>
   ('z world_scheme, string \<times> payload_with_variables) eff" where
  "validate_and_prepare_claim ce yaml environment command flags extra_data reference_fallback =
     bnd (of_result (parse_claim ce yaml)) (\<lambda>claim.
     bnd (of_result (get_deployment_details environment claim)) (\<lambda>(region, environment, deployment_id, module, name).
     bnd (unwrap_opt ''called `Result::unwrap()` on an `Err` value'' (claim_drift_detection claim)) (\<lambda>drift_detection.
     bnd (of_result (provided_variables (ce_lib ce) claim)) (\<lambda>provided.
     bnd (of_result (is_stack_claim claim)) (\<lambda>is_stack.
     let dependencies = claim_dependencies (ce_project_id ce) region environment claim in
     bnd (unwrap_opt ''called `Option::unwrap()` on a `None` value''
            (if is_stack then dsc_stack_version (dmf_spec claim) else dsc_module_version (dmf_spec claim))) (\<lambda>module_version.
     let reference = (case dsc_reference (dmf_spec claim) of None \<Rightarrow> reference_fallback | Some reference \<Rightarrow> reference) in
     bnd (of_result (claim_annotations (ce_lib ce) claim)) (\<lambda>annotations.
     bnd (of_result (map_err (\<lambda>e. ''Failed to get track from version: '' @ e)
            (get_version_track (ce_semver ce) module_version))) (\<lambda>track.
     bnd (find_module_version ce is_stack module track module_version) (\<lambda>module_resp.
     seq (of_result (validate_claim_kind (dmf_kind claim) (mr_module_name module_resp)))
    (seq (if ce_http ce then ret ()
          else check_module_deprecation (ce_env ce) module_resp is_stack module module_version deployment_id environment)
     (let variables = claim_variables (ce_lib ce) module_resp is_stack provided in
     seq (check_claim_variables (ce_lib ce) module_resp claim provided variables)
    (bnd (get_user_id (ce_env ce)) (\<lambda>initiated_by.
     ret (deployment_id,
       \<lparr>pv_payload =
         \<lparr>pl_command = command, pl_flags = flags, pl_module = to_lowercase module,
          pl_module_version = module_version, pl_module_type = (if is_stack then ''stack'' else ''module''),
          pl_module_track = track, pl_name = name, pl_environment = environment,
          pl_deployment_id = deployment_id, pl_project_id = ce_project_id ce, pl_region = region,
          pl_drift_detection = drift_detection, pl_next_drift_check_epoch = - 1, pl_annotations = annotations,
          pl_dependencies = dependencies, pl_initiated_by = initiated_by, pl_cpu = mr_cpu module_resp,
          pl_memory = mr_memory module_resp, pl_reference = reference, pl_extra_data = extra_data\<rparr>,
        pv_variables = variables\<rparr>))))))))))))))"

section \<open>Submitting a payload\<close>

text \<open>\<open>serde_json::to_value\<close> of the payload; \<open>None\<close> when the epoch does not fit.\<close>

definition payload_json :: "api_infra_payload \<Rightarrow> json option" where
  "payload_json p =
     map_option (\<lambda>next_drift_check_epoch. jobj
       [(''command'', JString (pl_command p)), (''flags'', JArray (List.map JString (pl_flags p))),
        (''module'', JString (pl_module p)), (''module_version'', JString (pl_module_version p)),
        (''module_type'', JString (pl_module_type p)), (''module_track'', JString (pl_module_track p)),
        (''name'', JString (pl_name p)), (''environment'', JString (pl_environment p)),
        (''deployment_id'', JString (pl_deployment_id p)), (''project_id'', JString (pl_project_id p)),
        (''region'', JString (pl_region p)), (''drift_detection'', drift_detection_json (pl_drift_detection p)),
        (''next_drift_check_epoch'', next_drift_check_epoch), (''annotations'', pl_annotations p),
        (''dependencies'', JArray (List.map dependency_json (pl_dependencies p))),
        (''initiated_by'', JString (pl_initiated_by p)), (''cpu'', JString (pl_cpu p)),
        (''memory'', JString (pl_memory p)), (''reference'', JString (pl_reference p)),
        (''extra_data'', extra_data_json (pl_extra_data p))]) (i128_json (pl_next_drift_check_epoch p))"

definition mutate_infra :: "env \<Rightarrow> api_infra_payload \<Rightarrow> ('z world_scheme, json) eff" where
  "mutate_infra en payload =
     (case payload_json payload of
        None \<Rightarrow> fail ''number out of range''
      | Some payload_value \<Rightarrow>
          bnd (run_function en (start_runner_event payload_value)) (\<lambda>r.
          of_result (map_err (\<lambda>e. ''Failed to run mutate_infra: '' @ e) r)))"

definition is_deployment_in_progress ::
  "env \<Rightarrow> string \<Rightarrow> string \<Rightarrow> bool \<Rightarrow> bool \<Rightarrow>
   ('z world_scheme, bool \<times> string \<times> string \<times> deployment_resp option) eff" where
  "is_deployment_in_progress en deployment_id environment job_check include_deleted =
     bnd (ask (Get_Deployment deployment_id environment include_deleted)
            (\<lambda>h. en_get_deployment en h deployment_id environment include_deleted)) (\<lambda>r.
     case r of
       Inr (Some deployment) \<Rightarrow>
         let status = status_str (dr_status deployment);
             in_progress = ret (True, dr_job_id deployment, status, Some deployment)
         in if is_busy (dr_status deployment)
            then if job_check
                 then bnd (ask (Get_Job_Status (dr_job_id deployment))
                             (\<lambda>h. en_get_job_running en h (dr_job_id deployment))) (\<lambda>job_status.
                      case job_status of
                        Inr (Some is_running) \<Rightarrow>
                          if is_running then in_progress else ret (False, [], status, Some deployment)
                      | Inr None \<Rightarrow> in_progress
                      | Inl _ \<Rightarrow> in_progress)
                 else in_progress
            else ret (False, [], status, Some deployment)
     | Inr None \<Rightarrow> ret (False, [], [], None)
     | Inl _ \<Rightarrow> ret (False, [], [], None))"

definition is_deployment_plan_in_progress ::
  "env \<Rightarrow> string \<Rightarrow> string \<Rightarrow> string \<Rightarrow> ('z world_scheme, bool \<times> string \<times> deployment_resp option) eff" where
  "is_deployment_plan_in_progress en deployment_id environment job_id =
     (let job_id_short = last (split_on (CHR ''/'') job_id)
      in bnd (ask (Get_Plan_Deployment deployment_id environment job_id_short)
                (\<lambda>h. en_get_plan_deployment en h deployment_id environment job_id_short)) (\<lambda>r.
         case r of
           Inr (Some deployment) \<Rightarrow> ret (is_busy (dr_status deployment), dr_job_id deployment, Some deployment)
         | Inr None \<Rightarrow> ret (True, job_id_short, None)
         | Inl _ \<Rightarrow> ret (False, [], None)))"

definition request_handler :: "payload_with_variables \<Rightarrow> string \<Rightarrow> 128 word \<Rightarrow> status_handler" where
  "request_handler pv job_id epoch =
     (let payload = pv_payload pv
      in new_handler (pl_command payload) (pl_module payload) (pl_module_version payload)
           (pl_module_type payload) (pl_module_track payload) Requested (pl_environment payload)
           (pl_deployment_id payload) (pl_project_id payload) (pl_region payload) [] job_id (pl_name payload)
           (pv_variables pv) (pl_drift_detection payload) (pl_next_drift_check_epoch payload)
           (pl_dependencies payload) JNull [] (pl_initiated_by payload) (pl_cpu payload) (pl_memory payload)
           (pl_reference payload) epoch)"

text \<open>The handler lives as long as the request; the state holds it meanwhile.\<close>

definition insert_request_event :: "env \<Rightarrow> payload_with_variables \<Rightarrow> string \<Rightarrow> unit job_eff" where
  "insert_request_event en pv job_id =
     bnd (get_epoch en) (\<lambda>epoch.
     seq (modify (j_handler_update (\<lambda>_. request_handler pv job_id epoch)))
    (seq (send_event en) (send_deployment en)))"

definition in_progress_text :: "string \<Rightarrow> string" where
  "in_progress_text job_id = ''A job for this deployment is already in progress: '' @ job_id"

definition job_id_of :: "json \<Rightarrow> string option" where
  "job_id_of v = Option.bind (jget v ''job_id'') as_str"

text \<open>The part after the check: start the runner, then record the request.\<close>

definition start_and_record :: "env \<Rightarrow> payload_with_variables \<Rightarrow> string job_eff" where
  "start_and_record en pv =
     bnd (attempt (mutate_infra en (pv_payload pv))) (\<lambda>r.
     bnd (case r of
            Inr resp \<Rightarrow> unwrap_opt ''called `Option::unwrap()` on a `None` value'' (job_id_of resp)
          | Inl e \<Rightarrow> fail (''Failed to deploy claim: '' @ e)) (\<lambda>job_id.
     seq (insert_request_event en pv job_id) (ret job_id)))"

definition submit_claim_job :: "claim_env \<Rightarrow> payload_with_variables \<Rightarrow> string job_eff" where
  "submit_claim_job ce pv =
     (if ce_http ce
      then bnd (ask (Http ''http_submit_claim_job'' (pv_variables pv)) (\<lambda>h. ce_http_submit ce h pv)) (\<lambda>r.
           of_result (map_err (\<lambda>e. ''Failed to submit claim via HTTP: '' @ e) r))
      else bnd (is_deployment_in_progress (ce_env ce) (pl_deployment_id (pv_payload pv)) (pl_environment (pv_payload pv))
                  True False) (\<lambda>(in_progress, job_id, _, _).
           if in_progress then fail (in_progress_text job_id) else start_and_record (ce_env ce) pv))"

definition run_claim ::
  "claim_env \<Rightarrow> yaml \<Rightarrow> string \<Rightarrow> string \<Rightarrow> string list \<Rightarrow> extra_data \<Rightarrow> string \<Rightarrow>
   (string \<times> string \<times> payload_with_variables) job_eff" where
  "run_claim ce yaml environment command flags extra_data reference_fallback =
     bnd (validate_and_prepare_claim ce yaml environment command flags extra_data reference_fallback)
       (\<lambda>(deployment_id, pv).
     bnd (submit_claim_job ce pv) (\<lambda>job_id. ret (job_id, deployment_id, pv)))"

section \<open>Destroying and drift checking\<close>

definition describe_existing :: "claim_env \<Rightarrow> string \<Rightarrow> string \<Rightarrow> ('z world_scheme, deployment_resp) eff" where
  "describe_existing ce deployment_id environment =
     bnd (if ce_http ce
          then bnd (ask (Http ''http_describe_deployment''
                       (JArray [JString (ce_project_id ce), JString (ce_region ce), JString environment, JString deployment_id]))
                     (\<lambda>h. ce_http_describe ce h environment deployment_id)) (\<lambda>r.
               bnd (of_result (map_err (\<lambda>e. ''Failed to describe deployment: '' @ e) r)) (\<lambda>v.
               if v = JNull then ret None
               else (case read_deployment v of
                       Some d \<Rightarrow> ret (Some d)
                     | None \<Rightarrow> fail (''Failed to parse deployment: '' @ ce_parse_error ce v))))
          else bnd (ask (Get_Deployment deployment_id environment False)
                      (\<lambda>h. en_get_deployment (ce_env ce) h deployment_id environment False)) (\<lambda>r.
               of_result (map_err (\<lambda>e. ''Failed to describe deployment: '' @ e) r))) (\<lambda>deployment.
     of_result (case deployment of
       Some d \<Rightarrow> Inr d | None \<Rightarrow> Inl ''Failed to describe deployment, deployment was not found''))"

definition verify_module_version :: "claim_env \<Rightarrow> string \<Rightarrow> string \<Rightarrow> ('z world_scheme, unit) eff" where
  "verify_module_version ce module module_version =
     bnd (of_result (map_err (\<lambda>e. ''Failed to get track from version: '' @ e)
            (get_version_track (ce_semver ce) module_version))) (\<lambda>track.
     if ce_http ce
     then bnd (http_version ce False track module module_version) (\<lambda>r.
          bnd (of_result (map_err (\<lambda>e. ''Module version '' @ module_version @ '' does not exist or failed to verify: '' @ e) r))
            (\<lambda>_. ret ()))
     else bnd (ask_version (ce_env ce) False module track module_version) (\<lambda>r.
          case r of
            Inr (Some _) \<Rightarrow> ret ()
          | Inr None \<Rightarrow> fail (''Module version '' @ module_version @ '' does not exist'')
          | Inl e \<Rightarrow> fail (''Failed to verify module version: '' @ e)))"

text \<open>The payload that repeats a recorded deployment.\<close>

definition recorded_payload ::
  "deployment_resp \<Rightarrow> string \<Rightarrow> string \<Rightarrow> string list \<Rightarrow> string \<Rightarrow> string \<Rightarrow> extra_data \<Rightarrow> payload_with_variables" where
  "recorded_payload d deployment_id command flags module_version initiated_by extra_data =
     \<lparr>pv_payload =
       \<lparr>pl_command = command, pl_flags = flags, pl_module = to_lowercase (dr_module d),
        pl_module_version = module_version, pl_module_type = dr_module_type d,
        pl_module_track = dr_module_track d, pl_name = [], pl_environment = dr_environment d,
        pl_deployment_id = deployment_id, pl_project_id = dr_project_id d, pl_region = dr_region d,
        pl_drift_detection = dr_drift_detection d, pl_next_drift_check_epoch = - 1, pl_annotations = JObject [],
        pl_dependencies = dr_dependencies d, pl_initiated_by = initiated_by, pl_cpu = dr_cpu d,
        pl_memory = dr_memory d, pl_reference = dr_reference d, pl_extra_data = extra_data\<rparr>,
      pv_variables = dr_variables d\<rparr>"

definition destroy_infra :: "claim_env \<Rightarrow> string \<Rightarrow> string \<Rightarrow> extra_data \<Rightarrow> string option \<Rightarrow> string job_eff" where
  "destroy_infra ce deployment_id environment extra_data override_version =
     bnd (describe_existing ce deployment_id environment) (\<lambda>deployment.
     bnd (case override_version of
            Some version \<Rightarrow> seq (verify_module_version ce (dr_module deployment) version) (ret version)
          | None \<Rightarrow> ret (dr_module_version deployment)) (\<lambda>module_version.
     bnd (get_user_id (ce_env ce)) (\<lambda>initiated_by.
     submit_claim_job ce (recorded_payload deployment deployment_id ''destroy'' [] module_version initiated_by extra_data))))"

definition driftcheck_infra :: "claim_env \<Rightarrow> string \<Rightarrow> string \<Rightarrow> bool \<Rightarrow> extra_data \<Rightarrow> (string \<times> string) job_eff" where
  "driftcheck_infra ce deployment_id environment remediate extra_data =
     bnd (describe_existing ce deployment_id environment) (\<lambda>deployment.
     let flags = (if remediate then [] else [''-refresh-only'']);
         command = (if remediate then ''apply'' else ''plan'')
     in bnd (get_user_id (ce_env ce)) (\<lambda>initiated_by.
        let pv = recorded_payload deployment deployment_id command flags (dr_module_version deployment) initiated_by extra_data
        in bnd (submit_claim_job ce pv) (\<lambda>job_id. ret (job_id, pl_region (pv_payload pv)))))"

section \<open>What a prepared claim has passed\<close>

text \<open>The answers that a submission relies on, each at its place in the history.\<close>

definition version_found :: "env \<Rightarrow> bool \<Rightarrow> string \<Rightarrow> string \<Rightarrow> string \<Rightarrow> module_resp \<Rightarrow> call list \<Rightarrow> bool" where
  "version_found en is_stack module track module_version m = answered (\<lambda>h c.
     if is_stack
     then c = Get_Stack_Version module track module_version \<and> en_get_stack_version en h module track module_version = Inr (Some m)
     else c = Get_Module_Version module track module_version \<and> en_get_module_version en h module track module_version = Inr (Some m))"

definition deployment_exists :: "env \<Rightarrow> string \<Rightarrow> string \<Rightarrow> call list \<Rightarrow> bool" where
  "deployment_exists en deployment_id environment = answered (\<lambda>h c.
     c = Get_Deployment deployment_id environment False
     \<and> (\<exists>d. en_get_deployment en h deployment_id environment False = Inr (Some d)))"

text \<open>
  The claim is of a supported version, names one module or stack version that exists under the
  claim's kind, is not a new deployment of a deprecated one, and its variables fit.
\<close>

definition accepted_claim :: "claim_env \<Rightarrow> yaml \<Rightarrow> string \<Rightarrow> payload_with_variables \<Rightarrow> call list \<Rightarrow> bool" where
  "accepted_claim ce yaml environment pv h \<longleftrightarrow> (\<exists>claim is_stack m provided.
     parse_claim ce yaml = Inr claim \<and> name_matches (namespace_of environment)
     \<and> is_stack_claim claim = Inr is_stack
     \<and> (if is_stack then dsc_stack_version (dmf_spec claim) else dsc_module_version (dmf_spec claim))
         = Some (pl_module_version (pv_payload pv))
     \<and> get_version_track (ce_semver ce) (pl_module_version (pv_payload pv)) = Inr (pl_module_track (pv_payload pv))
     \<and> version_found (ce_env ce) is_stack (to_lowercase (dmf_kind claim)) (pl_module_track (pv_payload pv))
         (pl_module_version (pv_payload pv)) m h
     \<and> mr_module_name m = dmf_kind claim
     \<and> (mr_deprecated m \<longrightarrow> deployment_exists (ce_env ce) (pl_deployment_id (pv_payload pv)) environment h)
     \<and> provided_variables (ce_lib ce) claim = Inr provided
     \<and> pv_variables pv = claim_variables (ce_lib ce) m is_stack provided
     \<and> verify_variable_existence_and_type m (pv_variables pv) = Inr ()
     \<and> verify_required_variables_are_set m (pv_variables pv) = Some (Inr ())
     \<and> verify_variable_claim_casing (ce_lib ce) claim provided = Inr ())"

lemma lasting_found: "lasting (version_found en is_stack module track module_version m)"
  "lasting (deployment_exists en deployment_id environment)"
  unfolding version_found_def deployment_exists_def by (rule lasting_answered)+

lemma found_snoc: "lasting P \<Longrightarrow> P h \<Longrightarrow> P (h @ cs)"
  by (simp add: lasting_def)

lemma find_module_version_found:
  assumes "find_module_version ce is_stack module track module_version s = (Ok m, s')" "\<not> ce_http ce"
  shows "version_found (ce_env ce) is_stack module track module_version m (w_calls s')"
  using assms unfolding find_module_version_def ask_version_def version_found_def
  by (cases is_stack) (auto simp: bnd_Ok intro!: answered_last split: sum.splits option.splits)

lemma deprecation_checked:
  assumes "check_module_deprecation en m is_stack module module_version deployment_id environment s = (Ok u, s')"
    "mr_deprecated m"
  shows "deployment_exists en deployment_id environment (w_calls s')"
proof -
  have "w_calls s' = w_calls s @ [Get_Deployment deployment_id environment False]
      \<and> (\<exists>d. en_get_deployment en (w_calls s) deployment_id environment False = Inr (Some d))"
    using assms by (cases "en_get_deployment en (w_calls s) deployment_id environment False")
      (auto simp: check_module_deprecation_def bnd_Ok split: option.splits)
  then show ?thesis
    unfolding deployment_exists_def by (auto intro!: answered_last)
qed

lemma variables_checked:
  "check_claim_variables lib m claim provided variables s = (Ok u, s') \<longleftrightarrow>
     verify_variable_existence_and_type m variables = Inr ()
     \<and> verify_required_variables_are_set m variables = Some (Inr ())
     \<and> verify_variable_claim_casing lib claim provided = Inr () \<and> s' = s"
  by (auto simp: check_claim_variables_def seq_Ok bnd_Ok unwrap_Ok)

lemma named_claim:
  "validate_claim_kind kind name = Inr () \<longleftrightarrow> name = kind"
  "validate_claim_name name = Inr () \<longleftrightarrow> name_matches name"
  by (simp_all add: validate_claim_kind_def validate_claim_name_def)

lemma prepare_parts:
  assumes "validate_and_prepare_claim ce yaml environment command flags extra_data reference_fallback s = (Ok (did, pv), s')"
    and "\<not> ce_http ce"
  obtains claim provided is_stack m s1 s2 where
    "parse_claim ce yaml = Inr claim" "name_matches (namespace_of environment)"
    "provided_variables (ce_lib ce) claim = Inr provided" "is_stack_claim claim = Inr is_stack"
    "(if is_stack then dsc_stack_version (dmf_spec claim) else dsc_module_version (dmf_spec claim))
       = Some (pl_module_version (pv_payload pv))"
    "get_version_track (ce_semver ce) (pl_module_version (pv_payload pv)) = Inr (pl_module_track (pv_payload pv))"
    "find_module_version ce is_stack (to_lowercase (dmf_kind claim)) (pl_module_track (pv_payload pv))
       (pl_module_version (pv_payload pv)) s = (Ok m, s1)"
    "mr_module_name m = dmf_kind claim"
    "check_module_deprecation (ce_env ce) m is_stack (to_lowercase (dmf_kind claim)) (pl_module_version (pv_payload pv))
       (pl_deployment_id (pv_payload pv)) environment s1 = (Ok (), s2)"
    "check_claim_variables (ce_lib ce) m claim provided (pv_variables pv) s2 = (Ok (), s2)"
    "pv_variables pv = claim_variables (ce_lib ce) m is_stack provided"
    "get_user_id (ce_env ce) s2 = (Ok (pl_initiated_by (pv_payload pv)), s')"
    "did = pl_deployment_id (pv_payload pv)" "pl_command (pv_payload pv) = command"
    "pl_flags (pv_payload pv) = flags" "pl_environment (pv_payload pv) = environment"
  using assms unfolding validate_and_prepare_claim_def Let_def
  apply (simp add: bnd_Ok seq_Ok unwrap_Ok get_deployment_details_def Let_def res_bind_eq_Inr named_claim split_paired_Ex variables_checked)
  apply (elim exE conjE)
  apply hypsubst
  apply (rule that)
  apply (assumption | simp add: variables_checked)+
  done

lemma prepare_accepted:
  assumes run: "validate_and_prepare_claim ce yaml environment command flags extra_data reference_fallback s = (Ok (did, pv), s')"
    and http: "\<not> ce_http ce"
  shows "accepted_claim ce yaml environment pv (w_calls s')"
  using run http
proof (rule prepare_parts)
  fix claim provided is_stack m s1 s2
  let ?p = "pv_payload pv"
  assume p: "parse_claim ce yaml = Inr claim" "name_matches (namespace_of environment)"
    "provided_variables (ce_lib ce) claim = Inr provided" "is_stack_claim claim = Inr is_stack"
    "(if is_stack then dsc_stack_version (dmf_spec claim) else dsc_module_version (dmf_spec claim)) = Some (pl_module_version ?p)"
    "get_version_track (ce_semver ce) (pl_module_version ?p) = Inr (pl_module_track ?p)" "mr_module_name m = dmf_kind claim"
    "pv_variables pv = claim_variables (ce_lib ce) m is_stack provided"
    and found: "find_module_version ce is_stack (to_lowercase (dmf_kind claim)) (pl_module_track ?p) (pl_module_version ?p) s = (Ok m, s1)"
    and dep: "check_module_deprecation (ce_env ce) m is_stack (to_lowercase (dmf_kind claim)) (pl_module_version ?p)
       (pl_deployment_id ?p) environment s1 = (Ok (), s2)"
    and vars: "check_claim_variables (ce_lib ce) m claim provided (pv_variables pv) s2 = (Ok (), s2)"
    and user: "get_user_id (ce_env ce) s2 = (Ok (pl_initiated_by ?p), s')"
  have g: "grows (check_module_deprecation (ce_env ce) m is_stack (to_lowercase (dmf_kind claim)) (pl_module_version ?p)
       (pl_deployment_id ?p) environment)" "grows (get_user_id (ce_env ce))"
    unfolding get_user_id_def by (intro grow.quiet_intros grow.never_check_module)+
  have "version_found (ce_env ce) is_stack (to_lowercase (dmf_kind claim)) (pl_module_track ?p) (pl_module_version ?p) m (w_calls s')"
    using find_module_version_found [OF found http] lasting_grows [OF lasting_found(1) g(1) _ dep]
      lasting_grows [OF lasting_found(1) g(2) _ user] by blast
  moreover have "mr_deprecated m \<longrightarrow> deployment_exists (ce_env ce) (pl_deployment_id ?p) environment (w_calls s')"
    using deprecation_checked [OF dep] lasting_grows [OF lasting_found(2) g(2) _ user] by blast
  ultimately show ?thesis
    unfolding accepted_claim_def using p vars [unfolded variables_checked] by blast
qed

lemma prepare_fields:
  assumes "validate_and_prepare_claim ce yaml environment command flags extra_data reference_fallback s = (Ok (did, pv), s')"
    and "\<not> ce_http ce"
  shows "pl_command (pv_payload pv) = command \<and> pl_flags (pv_payload pv) = flags \<and> pl_environment (pv_payload pv) = environment
    \<and> did = pl_deployment_id (pv_payload pv)"
  using assms by (rule prepare_parts) simp

section \<open>What a submission does\<close>

definition starts_runner :: "call \<Rightarrow> bool" where
  "starts_runner c \<longleftrightarrow> (\<exists>v. c = Run_Function (start_runner_event v))"

text \<open>The recorded deployment was absent, unreadable or idle, or its job was found not running.\<close>

definition deployment_free :: "env \<Rightarrow> api_infra_payload \<Rightarrow> call list \<Rightarrow> bool" where
  "deployment_free en p = answered (\<lambda>h c.
     c = Get_Deployment (pl_deployment_id p) (pl_environment p) False
     \<and> (case en_get_deployment en h (pl_deployment_id p) (pl_environment p) False of
          Inr (Some d) \<Rightarrow> is_busy (dr_status d) \<longrightarrow> en_get_job_running en (h @ [c]) (dr_job_id d) = Inr (Some False)
        | _ \<Rightarrow> True))"

lemma lasting_free: "lasting (deployment_free en p)"
  unfolding deployment_free_def by (rule lasting_answered)

definition check_free :: "env \<Rightarrow> api_infra_payload \<Rightarrow> ('z world_scheme, unit) eff" where
  "check_free en p = bnd (is_deployment_in_progress en (pl_deployment_id p) (pl_environment p) True False)
     (\<lambda>(in_progress, job_id, _, _). if in_progress then fail (in_progress_text job_id) else ret ())"

lemma submit_checks_free:
  "\<not> ce_http ce \<Longrightarrow> submit_claim_job ce pv = seq (check_free (ce_env ce) (pv_payload pv)) (start_and_record (ce_env ce) pv)"
  unfolding submit_claim_job_def check_free_def seq_def bnd_def
  by (rule ext) (auto split: prod.splits outcome.splits)

lemma check_free_establishes: "establishes (deployment_free en p) (check_free en p)"
  unfolding establishes_def
proof (intro allI impI)
  fix s u s'
  let ?c = "Get_Deployment (pl_deployment_id p) (pl_environment p) False"
  let ?d = "en_get_deployment en (w_calls s) (pl_deployment_id p) (pl_environment p) False"
  assume run: "check_free en p s = (Ok u, s')"
  then have "(\<exists>cs. w_calls s' = (w_calls s @ [?c]) @ cs) \<and> (case ?d of
          Inr (Some d) \<Rightarrow> is_busy (dr_status d) \<longrightarrow> en_get_job_running en (w_calls s @ [?c]) (dr_job_id d) = Inr (Some False)
        | _ \<Rightarrow> True)"
    by (auto simp: check_free_def is_deployment_in_progress_def bnd_Ok Let_def split: sum.splits option.splits if_splits)
  then show "deployment_free en p (w_calls s')"
    unfolding deployment_free_def
    by (elim conjE exE) (simp only:, rule found_snoc [OF lasting_answered], rule answered_last, simp)
qed

subsection \<open>Which calls a request makes\<close>

text \<open>
  The interface between the parts of a request and a class of calls: the class is closed under the
  calls by which a deployment is read and recorded.
\<close>

locale request_calls =
  fixes allowed :: "call \<Rightarrow> bool"
  assumes read_calls: "allowed (Get_Deployment i e del)" "allowed (Get_Module_Version m t v)"
    "allowed (Get_Stack_Version m t v)" "allowed Get_User_Id" "allowed (Get_Job_Status jid)"
    and server_calls: "allowed (Http ''http_get_stack_version'' x)" "allowed (Http ''http_get_module_version'' x)"
    "allowed (Http ''http_describe_deployment'' x)"
begin

lemma ask_allowed: "allowed c \<Longrightarrow> logs (\<lambda>_ c. allowed c) (ask c f)"
  by (rule logs_ask) simp

lemmas request_intros = logs_intros ask_allowed read_calls server_calls

lemma find_allowed: "logs (\<lambda>_ c. allowed c) (find_module_version ce is_stack module track module_version)"
  unfolding find_module_version_def http_version_def ask_version_def
  by (intro request_intros ask_allowed) (simp add: server_calls)

lemma deprecation_allowed: "logs (\<lambda>_ c. allowed c) (check_module_deprecation en m st mo ve de ev)"
  unfolding check_module_deprecation_def by (intro request_intros)

lemma prepare_allowed:
  "logs (\<lambda>_ c. allowed c) (validate_and_prepare_claim ce yaml environment command flags extra_data reference_fallback)"
  unfolding validate_and_prepare_claim_def check_claim_variables_def get_user_id_def
  by (intro request_intros find_allowed deprecation_allowed)

lemma check_free_allowed: "logs (\<lambda>_ c. allowed c) (check_free en p)"
  unfolding check_free_def is_deployment_in_progress_def by (intro request_intros)

lemma describe_allowed: "logs (\<lambda>_ c. allowed c) (describe_existing ce deployment_id environment)"
  unfolding describe_existing_def by (intro request_intros)

lemma verify_allowed: "logs (\<lambda>_ c. allowed c) (verify_module_version ce module version)"
  unfolding verify_module_version_def http_version_def ask_version_def
  by (intro request_intros ask_allowed) (simp_all add: server_calls)

lemma user_allowed: "logs (\<lambda>_ c. allowed c) (get_user_id en)"
  unfolding get_user_id_def by (intro request_intros)

end

text \<open>A class that also has the calls by which a request is recorded.\<close>

locale recording_calls = request_calls +
  assumes clock_calls: "allowed Clock" "allowed Timestamp" "allowed (Get_Dependents i e)"
    and write_calls: "allowed (Run_Function (insert_db_event table v))" "allowed (Run_Function (transact_write_event items))"
begin

lemma run_allowed: "allowed (Run_Function p) \<Longrightarrow> logs (\<lambda>_ c. allowed c) (run_function en p)"
  unfolding run_function_def by (rule ask_allowed)

lemma epoch_allowed: "logs (\<lambda>_ c. allowed c) (get_epoch en)"
  unfolding get_epoch_def by (rule ask_allowed [OF clock_calls(1)])

lemma record_allowed: "logs (\<lambda>_ c. allowed c) (insert_request_event en pv job_id)"
proof -
  have e: "logs (\<lambda>_ c. allowed c) (send_event en)"
    unfolding send_event_def insert_event_def
    by (intro request_intros run_allowed clock_calls write_calls epoch_allowed)
  have d: "logs (\<lambda>_ c. allowed c) (set_deployment en d plan)" for d plan and en
    unfolding set_deployment_def by (intro request_intros run_allowed clock_calls write_calls)
  have "logs (\<lambda>_ c. allowed c) (send_deployment en)"
    unfolding send_deployment_def get_next_drift_check_epoch_def
    by (intro request_intros epoch_allowed d)
  with e show ?thesis
    unfolding insert_request_event_def
    by (intro request_intros epoch_allowed) simp_all
qed

end

text \<open>A class with the start of a runner: it has every call of a claim.\<close>

locale submitting_calls = recording_calls +
  assumes start_calls: "allowed (Run_Function (start_runner_event v))"
    and submit_calls: "allowed (Http ''http_submit_claim_job'' x)"
begin

lemma start_allowed: "logs (\<lambda>_ c. allowed c) (start_and_record en pv)"
  unfolding start_and_record_def mutate_infra_def by (intro request_intros run_allowed record_allowed start_calls)

lemma submit_allowed: "logs (\<lambda>_ c. allowed c) (submit_claim_job ce pv)"
  unfolding submit_claim_job_def is_deployment_in_progress_def by (intro request_intros start_allowed submit_calls)

lemma claim_allowed:
  "logs (\<lambda>_ c. allowed c) (run_claim ce yaml environment command flags extra_data reference_fallback)"
  unfolding run_claim_def by (intro request_intros prepare_allowed submit_allowed)

end

text \<open>Reading and recording start nothing.\<close>

lemma event_not_start: "\<not> starts_runner (Run_Function (insert_db_event table v))"
  "\<not> starts_runner (Run_Function (transact_write_event items))"
  by (auto simp: starts_runner_def insert_db_event_def transact_write_event_def start_runner_event_def
      dest!: arg_cong [where f = "\<lambda>v. jget v ''event''"] simp: jget_jobj)

interpretation reading: recording_calls "\<lambda>c. \<not> starts_runner c"
  by unfold_locales (simp_all add: event_not_start, simp_all add: starts_runner_def)

interpretation free_calls: submitting_calls "\<lambda>c. True"
  by unfold_locales simp_all

lemma silent: "never W m \<Longrightarrow> logs (\<lambda>_ c. W c \<longrightarrow> Q c) m"
  by (erule logs_mono) simp

lemma start_only_payload:
  "logs (\<lambda>_ c. starts_runner c \<longrightarrow> (\<exists>v. payload_json (pv_payload pv) = Some v \<and> c = Run_Function (start_runner_event v)))
     (start_and_record en pv)"
  unfolding start_and_record_def mutate_infra_def run_function_def
  by (intro logs_intros silent reading.record_allowed logs_ask) simp

lemma grows_record: "grows (start_and_record en pv)"
  unfolding start_and_record_def mutate_infra_def insert_request_event_def
  by (intro grow.quiet_intros grow.never_handler) simp_all

lemma submit_guarded:
  assumes "\<not> ce_http ce"
  shows "guarded starts_runner (deployment_free (ce_env ce) (pv_payload pv)) (submit_claim_job ce pv)"
  unfolding submit_checks_free [OF assms] seq_def
  by (rule guarded_check [OF lasting_free check_free_establishes reading.check_free_allowed grows_record])

lemma submit_only_payload:
  assumes "\<not> ce_http ce"
  shows "logs (\<lambda>_ c. starts_runner c \<longrightarrow> (\<exists>v. payload_json (pv_payload pv) = Some v \<and> c = Run_Function (start_runner_event v)))
     (submit_claim_job ce pv)"
  unfolding submit_checks_free [OF assms]
  by (intro logs_seq start_only_payload silent reading.check_free_allowed)

section \<open>Properties\<close>

text \<open>Every runner that a claim starts has the payload of the accepted claim.\<close>

lemma run_claim_starts:
  assumes run: "run_claim ce yaml environment command flags extra_data reference_fallback s = (r, s')"
    and http: "\<not> ce_http ce"
    and j: "length (w_calls s) \<le> j" "j < length (w_calls s')" "starts_runner (w_calls s' ! j)"
  shows "\<exists>pv v. accepted_claim ce yaml environment pv (take j (w_calls s'))
    \<and> deployment_free (ce_env ce) (pv_payload pv) (take j (w_calls s'))
    \<and> payload_json (pv_payload pv) = Some v \<and> w_calls s' ! j = Run_Function (start_runner_event v)
    \<and> pl_command (pv_payload pv) = command \<and> pl_flags (pv_payload pv) = flags \<and> pl_environment (pv_payload pv) = environment"
proof -
  let ?rest = "\<lambda>(did, pv). bnd (submit_claim_job ce pv) (\<lambda>job_id. ret (job_id, did, pv))"
  have run': "bnd (validate_and_prepare_claim ce yaml environment command flags extra_data reference_fallback) ?rest s = (r, s')"
    using run unfolding run_claim_def .
  have grow: "grows (?rest a)" for a
    by (cases a) (simp add: grow.never_ask submit_checks_free [OF http] logs_bnd logs_seq logs_ret
        free_calls.check_free_allowed [simplified] grows_record [simplified] del: ret_run)
  from reach_bnd [OF run' reading.prepare_allowed grow j(2,1,3)] obtain a s1 cs where
    va: "validate_and_prepare_claim ce yaml environment command flags extra_data reference_fallback s = (Ok a, s1)"
    and suba: "?rest a s1 = (r, s')" and len: "length (w_calls s1) \<le> j" and cs: "w_calls s' = w_calls s1 @ cs"
    by blast
  obtain did pv where a: "a = (did, pv)" by (cases a)
  have v: "validate_and_prepare_claim ce yaml environment command flags extra_data reference_fallback s = (Ok (did, pv), s1)"
    and sub: "bnd (submit_claim_job ce pv) (\<lambda>job_id. ret (job_id, did, pv)) s1 = (r, s')"
    using va suba by (simp_all add: a)
  have "accepted_claim ce yaml environment pv (w_calls s1)"
    by (rule prepare_accepted [OF v http])
  then have acc: "accepted_claim ce yaml environment pv (take j (w_calls s'))"
    unfolding cs accepted_claim_def take_append take_all [OF len]
    using found_snoc [OF lasting_found(1)] found_snoc [OF lasting_found(2)] by blast
  have "guarded starts_runner (deployment_free (ce_env ce) (pv_payload pv))
      (bnd (submit_claim_job ce pv) (\<lambda>job_id. ret (job_id, did, pv)))"
    by (intro logs_bnd submit_guarded [OF http] logs_ret)
  from guardedD [OF this sub len j(2,3)]
  have free: "deployment_free (ce_env ce) (pv_payload pv) (take j (w_calls s'))" .
  have "logs (\<lambda>_ c. starts_runner c \<longrightarrow> (\<exists>v. payload_json (pv_payload pv) = Some v \<and> c = Run_Function (start_runner_event v)))
      (bnd (submit_claim_job ce pv) (\<lambda>job_id. ret (job_id, did, pv)))"
    by (intro logs_bnd submit_only_payload [OF http] logs_ret)
  from logsD [OF this sub] have "\<exists>v. payload_json (pv_payload pv) = Some v \<and> w_calls s' ! j = Run_Function (start_runner_event v)"
    using len j(2,3) by (auto simp: extends_def nth_append)
  with acc free prepare_fields [OF v http] show ?thesis by blast
qed


text \<open>
  C32: one job at a time. While the recorded deployment is busy and its job is not known to have
  stopped (it runs, its status is missing, or the status cannot be read), a submission is refused
  with the id of that job; the two look-ups are its only calls.
\<close>

theorem running_job_blocks:
  assumes "\<not> ce_http ce"
    and "en_get_deployment (ce_env ce) (w_calls s) (pl_deployment_id (pv_payload pv)) (pl_environment (pv_payload pv)) False
      = Inr (Some d)"
    and "is_busy (dr_status d)"
    and "en_get_job_running (ce_env ce)
      (w_calls s @ [Get_Deployment (pl_deployment_id (pv_payload pv)) (pl_environment (pv_payload pv)) False]) (dr_job_id d)
      \<noteq> Inr (Some False)"
  shows "submit_claim_job ce pv s = (Err (in_progress_text (dr_job_id d)),
    s\<lparr>w_calls := w_calls s @ [Get_Deployment (pl_deployment_id (pv_payload pv)) (pl_environment (pv_payload pv)) False,
        Get_Job_Status (dr_job_id d)]\<rparr>)"
proof -
  let ?p = "pv_payload pv"
  let ?h = "w_calls s @ [Get_Deployment (pl_deployment_id ?p) (pl_environment ?p) False]"
  have "is_deployment_in_progress (ce_env ce) (pl_deployment_id ?p) (pl_environment ?p) True False s
      = (Ok (True, dr_job_id d, status_str (dr_status d), Some d), s\<lparr>w_calls := ?h @ [Get_Job_Status (dr_job_id d)]\<rparr>)"
  proof (cases "en_get_job_running (ce_env ce) ?h (dr_job_id d)")
    case (Inr x)
    then show ?thesis using assms by (cases x) (simp_all add: is_deployment_in_progress_def bnd_def Let_def)
  qed (use assms in \<open>simp add: is_deployment_in_progress_def bnd_def Let_def\<close>)
  then show ?thesis using assms(1) by (simp add: submit_claim_job_def bnd_def)
qed

lemma submission_written:
  assumes "submit_claim_job ce pv s = (Ok job_id, s')" "\<not> ce_http ce"
  shows "\<exists>d p. written d p (w_calls s') \<and> dr_status d = Requested \<and> dr_job_id d = job_id
    \<and> dr_deployment_id d = pl_deployment_id (pv_payload pv) \<and> dr_environment d = pl_environment (pv_payload pv)
    \<and> dr_variables d = pv_variables pv \<and> dr_module_version d = pl_module_version (pv_payload pv)
    \<and> dr_dependencies d = pl_dependencies (pv_payload pv) \<and> \<not> dr_deleted d"
proof -
  obtain s1 where "start_and_record (ce_env ce) pv s1 = (Ok job_id, s')"
    using assms by (auto simp: submit_checks_free seq_Ok)
  then obtain s2 where "insert_request_event (ce_env ce) pv job_id s2 = (Ok (), s')"
    by (auto simp: start_and_record_def bnd_Ok seq_Ok)
  then obtain epoch s3 s4 where
    ev: "send_event (ce_env ce) (s3\<lparr>j_handler := request_handler pv job_id epoch\<rparr>) = (Ok (), s4)"
    and dep: "send_deployment (ce_env ce) s4 = (Ok (), s')"
    by (auto simp: insert_request_event_def bnd_Ok seq_Ok)
  have k: "j_handler s4 = request_handler pv job_id epoch"
    using keepsD [where g = "\<lambda>h. h", OF keeps_handler(1) ev] by simp
  from send_deployment_written [OF dep] show ?thesis
    unfolding k by (auto simp: Let_def request_handler_def new_handler_def deployment_of_def)
qed

text \<open>
  C33: an accepted submission is on record. When a submission returns a job id, the last write of
  its history is the deployment with the status requested, that job id, and the payload's
  variables, version and dependencies.
\<close>

theorem submitted_job_recorded:
  assumes "submit_claim_job ce pv s = (Ok job_id, s')" "\<not> ce_http ce"
  shows "\<exists>d p. written d p (w_calls s') \<and> dr_status d = Requested \<and> dr_job_id d = job_id
    \<and> dr_deployment_id d = pl_deployment_id (pv_payload pv) \<and> dr_environment d = pl_environment (pv_payload pv)
    \<and> dr_variables d = pv_variables pv \<and> dr_module_version d = pl_module_version (pv_payload pv)
    \<and> dr_dependencies d = pl_dependencies (pv_payload pv) \<and> \<not> dr_deleted d"
  using assms by (rule submission_written)

lemma described:
  assumes "describe_existing ce deployment_id environment s = (Ok d, s')" "\<not> ce_http ce"
  shows "en_get_deployment (ce_env ce) (w_calls s) deployment_id environment False = Inr (Some d)"
  using assms by (auto simp: describe_existing_def bnd_Ok unwrap_Ok map_err_def split: option.splits sum.splits)

text \<open>
  C34: a drift check is harmless, where the cloud is called directly. When a drift check without
  remediation starts a runner, its first call read the recorded deployment, and the runner is given a
  plan (only a refresh) of exactly this record: its module, version, track, environment, region,
  dependencies and reference, with the variables of the record in what is written as the request. A
  run of such a payload changes no infrastructure, whatever the answers of its calls.
\<close>

theorem drift_check_changes_nothing:
  assumes run: "driftcheck_infra ce deployment_id environment False extra_data s = (r, s')"
    and http: "\<not> ce_http ce"
    and j: "length (w_calls s) \<le> j" "j < length (w_calls s')" "starts_runner (w_calls s' ! j)"
  shows "\<exists>d user v. en_get_deployment (ce_env ce) (w_calls s) deployment_id environment False = Inr (Some d)
    \<and> (let pv = recorded_payload d deployment_id ''plan'' [''-refresh-only''] (dr_module_version d) user extra_data
       in payload_json (pv_payload pv) = Some v \<and> w_calls s' ! j = Run_Function (start_runner_event v)
          \<and> (\<forall>job region. r = Ok (job, region) \<longrightarrow> (\<exists>d' p. written d' p (w_calls s')
                \<and> dr_deployment_id d' = deployment_id \<and> dr_job_id d' = job \<and> dr_variables d' = dr_variables d))
          \<and> (\<forall>en. \<not> list_ex mutates (w_calls (snd (run_terraform_runner en (pv_payload pv) (initial_job en (pv_payload pv)))))))"
proof -
  let ?pv = "\<lambda>d user. recorded_payload d deployment_id ''plan'' [''-refresh-only''] (dr_module_version d) user extra_data"
  let ?submit = "\<lambda>d user. bnd (submit_claim_job ce (?pv d user)) (\<lambda>job_id. ret (job_id, pl_region (pv_payload (?pv d user))))"
  have g: "grows (?submit d user)" for d user
    using free_calls.submit_allowed by (intro logs_bnd logs_ret) simp
  have gu: "grows (bnd (get_user_id (ce_env ce)) (?submit d))" for d
    using free_calls.user_allowed by (intro logs_bnd g) simp
  have run': "bnd (describe_existing ce deployment_id environment) (\<lambda>d. bnd (get_user_id (ce_env ce)) (?submit d)) s = (r, s')"
    using run by (simp add: driftcheck_infra_def Let_def)
  from reach_bnd [OF this reading.describe_allowed gu j(2,1,3)] obtain d s1 where
    d: "describe_existing ce deployment_id environment s = (Ok d, s1)"
    and s1: "bnd (get_user_id (ce_env ce)) (?submit d) s1 = (r, s')" "length (w_calls s1) \<le> j" by blast
  from reach_bnd [OF s1(1) reading.user_allowed g j(2) s1(2) j(3)] obtain user s2 where
    s2: "?submit d user s2 = (r, s')" "length (w_calls s2) \<le> j" by blast
  have "logs (\<lambda>_ c. starts_runner c \<longrightarrow> (\<exists>v. payload_json (pv_payload (?pv d user)) = Some v \<and> c = Run_Function (start_runner_event v)))
      (?submit d user)"
    by (intro logs_bnd submit_only_payload [OF http] logs_ret)
  from logsD [OF this s2(1)] have "\<exists>v. payload_json (pv_payload (?pv d user)) = Some v
      \<and> w_calls s' ! j = Run_Function (start_runner_event v)"
    using s2(2) j(2,3) by (auto simp: extends_def nth_append)
  then obtain v where
    v: "payload_json (pv_payload (?pv d user)) = Some v" "w_calls s' ! j = Run_Function (start_runner_event v)" by blast
  have safe: "\<not> list_ex mutates (w_calls (snd (run_terraform_runner en (pv_payload (?pv d user)) (initial_job en (pv_payload (?pv d user))))))"
    for en by (rule other_command_changes_nothing) (simp_all add: recorded_payload_def)
  have rec: "\<exists>d' p. written d' p (w_calls s') \<and> dr_deployment_id d' = deployment_id \<and> dr_job_id d' = job
      \<and> dr_variables d' = dr_variables d" if "r = Ok (job, region)" for job region
  proof -
    from s2(1) that have "submit_claim_job ce (?pv d user) s2 = (Ok job, s')" by (auto simp: bnd_Ok)
    from submission_written [OF this http] show ?thesis by (auto simp: recorded_payload_def)
  qed
  from described [OF d http] v safe rec show ?thesis unfolding Let_def by blast
qed

section \<open>Submissions that succeed\<close>

lemma record_completes:
  assumes "steady_clock en" "writes_succeed en" "i128_json (pl_next_drift_check_epoch (pv_payload pv)) \<noteq> None"
  shows "\<exists>s'. insert_request_event en pv job_id s = (Ok (), s')"
proof -
  let ?s = "w_calls_update (\<lambda>cs. cs @ [Clock]) s\<lparr>j_handler := request_handler pv job_id (en_clock en (w_calls s))\<rparr>"
  have "in_range en ?s"
    using assms(1,3) by (simp add: in_range_def request_handler_def new_handler_def Let_def steady_clock_def)
  from completesD [OF completes_seq [OF completes_send_event [OF assms(1,2)] completes_send_deployment [OF assms(1,2)]] this]
  show ?thesis by (auto simp: insert_request_event_def get_epoch_def bnd_def seq_def)
qed

lemma start_and_record_completes:
  assumes "steady_clock en" "writes_succeed en" "payload_json (pv_payload pv) = Some v"
    and "en_run en (w_calls s) (start_runner_event v) = Inr resp" "job_id_of resp = Some job_id"
  shows "\<exists>s' cs. start_and_record en pv s = (Ok job_id, s') \<and> w_calls s' = w_calls s @ Run_Function (start_runner_event v) # cs"
proof -
  let ?s = "w_calls_update (\<lambda>cs. cs @ [Run_Function (start_runner_event v)]) s"
  have "i128_json (pl_next_drift_check_epoch (pv_payload pv)) \<noteq> None"
    using assms(3) by (auto simp: payload_json_def)
  from record_completes [OF assms(1,2) this] obtain s' where s': "insert_request_event en pv job_id ?s = (Ok (), s')"
    by blast
  have "grows (insert_request_event en pv job_id)"
    unfolding insert_request_event_def by (intro grow.quiet_intros grow.never_handler) simp_all
  from extends_prefix [OF logsD [OF this s']] obtain cs where "w_calls s' = w_calls ?s @ cs" by blast
  moreover have "start_and_record en pv s = (Ok job_id, s')"
    using assms(3-5) s' by (simp add: start_and_record_def mutate_infra_def run_function_def attempt_def bnd_def seq_def)
  ultimately show ?thesis by simp
qed

section \<open>A concrete claim\<close>

definition demo_deployment_claim :: deployment_manifest where
  "demo_deployment_claim =
     \<lparr>dmf_metadata = \<lparr>dm_name = ''n'', dm_namespace = None, dm_annotations = None, dm_labels = None\<rparr>,
      dmf_api_version = API_VERSION, dmf_kind = ''M'',
      dmf_spec = \<lparr>dsc_module_version = Some ''1.9.0'', dsc_stack_version = None, dsc_region = ''r'', dsc_reference = None,
        dsc_variables = [], dsc_dependencies = None, dsc_drift_detection = None\<rparr>\<rparr>"

definition demo_claim_env :: claim_env where
  "demo_claim_env =
     \<lparr>ce_env = demo_env\<lparr>en_run := \<lambda>_ _. Inr (JObject [(''job_id'', JString ''j'')])\<rparr>, ce_http = False,
      ce_project_id = ''p'', ce_region = ''r'', ce_lib = demo_lib, ce_semver = demo_semvers,
      ce_manifest = (\<lambda>_. Inr demo_deployment_claim),
      ce_http_version = (\<lambda>_ _ _ _ _. Inl []), ce_http_describe = (\<lambda>_ _ _. Inl []), ce_http_submit = (\<lambda>_ _. Inl []),
      ce_parse_error = (\<lambda>_. [])\<rparr>"

definition demo_yaml_claim :: yaml where
  "demo_yaml_claim = YMap [(YString ''apiVersion'', YString API_VERSION)]"

definition demo_start :: job where
  "demo_start = \<lparr>w_calls = [], j_handler = request_handler \<lparr>pv_payload = demo_payload ''plan'', pv_variables = JNull\<rparr> [] 0\<rparr>"

definition demo_prepared_for :: "string \<Rightarrow> string \<Rightarrow> string \<Rightarrow> payload_with_variables" where
  "demo_prepared_for environment command reference =
     \<lparr>pv_payload =
       \<lparr>pl_command = command, pl_flags = [], pl_module = ''m'', pl_module_version = ''1.9.0'', pl_module_type = ''module'',
        pl_module_track = ''stable'', pl_name = ''n'', pl_environment = environment, pl_deployment_id = ''m/n'',
        pl_project_id = ''p'', pl_region = ''r'',
        pl_drift_detection = \<lparr>dd_enabled = False, dd_interval = ''15m'', dd_auto_remediate = False, dd_webhooks = []\<rparr>,
        pl_next_drift_check_epoch = - 1, pl_annotations = JNull, pl_dependencies = [], pl_initiated_by = ''user'',
        pl_cpu = ''1'', pl_memory = ''2'', pl_reference = reference, pl_extra_data = NoExtra\<rparr>,
      pv_variables = JObject []\<rparr>"

definition demo_prepared :: payload_with_variables where
  "demo_prepared = demo_prepared_for ''l/ns'' ''apply'' ''x''"

lemma demo_parts:
  "claim_drift_detection demo_deployment_claim
     = Some \<lparr>dd_enabled = False, dd_interval = ''15m'', dd_auto_remediate = False, dd_webhooks = []\<rparr>"
  "provided_variables demo_lib demo_deployment_claim = Inr (JObject [])"
  "is_stack_claim demo_deployment_claim = Inr False"
  "claim_annotations demo_lib demo_deployment_claim = Inr JNull"
  "claim_dependencies ''p'' ''r'' environment demo_deployment_claim = []"
  "dsc_module_version (dmf_spec demo_deployment_claim) = Some ''1.9.0''" "dsc_reference (dmf_spec demo_deployment_claim) = None"
  "get_version_track demo_semvers ''1.9.0'' = Inr ''stable''"
  "validate_claim_kind (dmf_kind demo_deployment_claim) (mr_module_name demo_module) = Inr ()"
  "claim_variables demo_lib demo_module False (JObject []) = JObject []"
  "verify_variable_existence_and_type demo_module (JObject []) = Inr ()"
  "verify_required_variables_are_set demo_module (JObject []) = Some (Inr ())"
  "verify_variable_claim_casing demo_lib demo_deployment_claim (JObject []) = Inr ()"
  "mr_deprecated demo_module = False" "mr_cpu demo_module = ''1''" "mr_memory demo_module = ''2''"
  "to_lowercase ''m'' = ''m''"
  by code_simp+

lemma demo_details:
  assumes "namespace_of environment = ''ns''"
  shows "get_deployment_details environment demo_deployment_claim = Inr (''r'', environment, ''m/n'', ''m'', ''n'')"
proof -
  have "validate_claim_name ''ns'' = Inr ()" "to_lowercase ''M'' = ''m''" by code_simp+
  with assms show ?thesis by (simp add: get_deployment_details_def demo_deployment_claim_def Let_def)
qed

lemma demo_parse_claim: "parse_claim demo_claim_env demo_yaml_claim = Inr demo_deployment_claim"
  by (simp add: parse_claim_def demo_yaml_claim_def demo_claim_env_def)

lemma demo_claim_env_simps:
  "ce_http demo_claim_env = False" "ce_project_id demo_claim_env = ''p''" "ce_lib demo_claim_env = demo_lib"
  "ce_semver demo_claim_env = demo_semvers"
  "en_get_module_version (ce_env demo_claim_env) h m t v = Inr (Some demo_module)"
  "en_get_user_id (ce_env demo_claim_env) h = Inr ''user''"
  by (simp_all add: demo_claim_env_def demo_env_def)

lemma demo_prepare_for:
  assumes "namespace_of environment = ''ns''"
  shows "validate_and_prepare_claim demo_claim_env demo_yaml_claim environment command [] NoExtra reference s
     = (Ok (''m/n'', demo_prepared_for environment command reference),
        w_calls_update (\<lambda>cs. cs @ [Get_Module_Version ''m'' ''stable'' ''1.9.0'', Get_User_Id]) s)"
  unfolding validate_and_prepare_claim_def find_module_version_def ask_version_def check_claim_variables_def
    check_module_deprecation_def get_user_id_def
  by (simp add: demo_parts demo_parse_claim demo_claim_env_simps bnd_def seq_def demo_prepared_for_def demo_details [OF assms])

lemma demo_prepare:
  "validate_and_prepare_claim demo_claim_env demo_yaml_claim ''l/ns'' ''apply'' [] NoExtra ''x'' demo_start
     = (Ok (''m/n'', demo_prepared), demo_start\<lparr>w_calls := [Get_Module_Version ''m'' ''stable'' ''1.9.0'', Get_User_Id]\<rparr>)"
proof -
  have "namespace_of ''l/ns'' = ''ns''" by code_simp
  from demo_prepare_for [OF this, of "''apply''" "''x''" demo_start] show ?thesis by (simp add: demo_prepared_def demo_start_def)
qed

lemma demo_claim_env_answers:
  "steady_clock (ce_env demo_claim_env)" "writes_succeed (ce_env demo_claim_env)"
  "en_run (ce_env demo_claim_env) h v = Inr (JObject [(''job_id'', JString ''j'')])"
  "en_get_deployment (ce_env demo_claim_env) h d e b = Inr (Some demo_recorded)"
  using demo_smooth by (simp_all add: smooth_def steady_clock_def writes_succeed_def demo_claim_env_def) (simp_all add: demo_env_def)

lemma demo_payload_json: "\<exists>v. payload_json (pv_payload (demo_prepared_for environment command reference)) = Some v"
  by (simp add: payload_json_def demo_prepared_for_def i128_json_def)

lemma demo_submit_for:
  "\<exists>s' v cs. submit_claim_job demo_claim_env (demo_prepared_for environment command reference) s = (Ok ''j'', s')
     \<and> w_calls s' = w_calls s @ Get_Deployment ''m/n'' environment False # Run_Function (start_runner_event v) # cs"
proof -
  let ?en = "ce_env demo_claim_env"
  let ?s = "w_calls_update (\<lambda>cs. cs @ [Get_Deployment ''m/n'' environment False]) s"
  have "check_free ?en (pv_payload (demo_prepared_for environment command reference)) s = (Ok (), ?s)"
    by (simp add: check_free_def is_deployment_in_progress_def bnd_def demo_claim_env_answers demo_recorded_def
        demo_deployment_def Let_def) (simp add: demo_prepared_for_def)
  moreover obtain v where v: "payload_json (pv_payload (demo_prepared_for environment command reference)) = Some v" using demo_payload_json by blast
  from start_and_record_completes [OF demo_claim_env_answers(1,2) v demo_claim_env_answers(3), of "''j''" ?s]
  obtain s' cs where "start_and_record ?en (demo_prepared_for environment command reference) ?s = (Ok ''j'', s')"
    "w_calls s' = w_calls ?s @ Run_Function (start_runner_event v) # cs"
    by (auto simp: job_id_of_def)
  ultimately show ?thesis
    by (simp add: submit_checks_free demo_claim_env_simps seq_def bnd_def) blast
qed

lemma demo_submit:
  "\<exists>s' v cs. submit_claim_job demo_claim_env demo_prepared s = (Ok ''j'', s')
     \<and> w_calls s' = w_calls s @ Get_Deployment ''m/n'' ''l/ns'' False # Run_Function (start_runner_event v) # cs"
  unfolding demo_prepared_def by (rule demo_submit_for)


definition demo_busy_env :: claim_env where
  "demo_busy_env = demo_claim_env\<lparr>ce_env := (ce_env demo_claim_env)
     \<lparr>en_get_deployment := \<lambda>_ _ _ _. Inr (Some (demo_recorded\<lparr>dr_status := Initiated\<rparr>)), en_get_job_running := \<lambda>_ _. Inr None\<rparr>\<rparr>"

lemma running_job_blocks_witness:
  "submit_claim_job demo_busy_env demo_prepared demo_start = (Err (in_progress_text ''j''),
     demo_start\<lparr>w_calls := [Get_Deployment ''m/n'' ''l/ns'' False, Get_Job_Status ''j'']\<rparr>)"
  using running_job_blocks [of demo_busy_env demo_start demo_prepared "demo_recorded\<lparr>dr_status := Initiated\<rparr>"]
  by (simp add: demo_busy_env_def demo_claim_env_simps demo_recorded_def demo_prepared_def demo_prepared_for_def demo_start_def)

lemma submitted_job_recorded_witness:
  "\<exists>s' d p. submit_claim_job demo_claim_env demo_prepared demo_start = (Ok ''j'', s')
     \<and> written d p (w_calls s') \<and> dr_status d = Requested \<and> dr_job_id d = ''j'' \<and> dr_deployment_id d = ''m/n''"
proof -
  obtain s' where r: "submit_claim_job demo_claim_env demo_prepared demo_start = (Ok ''j'', s')"
    using demo_submit by blast
  from submitted_job_recorded [OF r] r show ?thesis
    by (auto simp: demo_claim_env_simps) (auto simp: demo_prepared_def demo_prepared_for_def)
qed

lemma demo_drift_check:
  "\<exists>s'. driftcheck_infra demo_claim_env ''m/n'' ''l/ns'' False NoExtra demo_start = (Ok (''j'', dr_region demo_recorded), s')
     \<and> 3 < length (w_calls s') \<and> starts_runner (w_calls s' ! 3)"
proof -
  let ?en = "ce_env demo_claim_env"
  let ?pv = "recorded_payload demo_recorded ''m/n'' ''plan'' [''-refresh-only''] (dr_module_version demo_recorded) ''user'' NoExtra"
  let ?pre = "[Get_Deployment ''m/n'' ''l/ns'' False, Get_User_Id, Get_Deployment ''m/n'' (dr_environment demo_recorded) False]"
  let ?s = "demo_start\<lparr>w_calls := ?pre\<rparr>"
  have "check_free ?en (pv_payload ?pv) (demo_start\<lparr>w_calls := [Get_Deployment ''m/n'' ''l/ns'' False, Get_User_Id]\<rparr>) = (Ok (), ?s)"
    by (simp add: check_free_def is_deployment_in_progress_def bnd_def demo_claim_env_answers demo_recorded_def
        demo_deployment_def Let_def recorded_payload_def)
  moreover obtain v where v: "payload_json (pv_payload ?pv) = Some v"
    by (simp add: payload_json_def recorded_payload_def i128_json_def)
  from start_and_record_completes [OF demo_claim_env_answers(1,2) v demo_claim_env_answers(3), of "''j''" ?s]
  obtain s' cs where "start_and_record ?en ?pv ?s = (Ok ''j'', s')" "w_calls s' = ?pre @ Run_Function (start_runner_event v) # cs"
    by (auto simp: job_id_of_def)
  ultimately show ?thesis
    by (auto simp: driftcheck_infra_def describe_existing_def get_user_id_def demo_claim_env_simps demo_claim_env_answers
        submit_checks_free seq_def bnd_def Let_def demo_start_def starts_runner_def recorded_payload_def)
qed

lemma drift_check_changes_nothing_witness:
  "\<exists>s' d user v. driftcheck_infra demo_claim_env ''m/n'' ''l/ns'' False NoExtra demo_start = (Ok (''j'', dr_region demo_recorded), s')
     \<and> w_calls s' ! 3 = Run_Function (start_runner_event v)
     \<and> payload_json (pv_payload (recorded_payload d ''m/n'' ''plan'' [''-refresh-only''] (dr_module_version d) user NoExtra)) = Some v
     \<and> en_get_deployment (ce_env demo_claim_env) [] ''m/n'' ''l/ns'' False = Inr (Some d)"
proof -
  obtain s' where r: "driftcheck_infra demo_claim_env ''m/n'' ''l/ns'' False NoExtra demo_start = (Ok (''j'', dr_region demo_recorded), s')"
    "3 < length (w_calls s')" "starts_runner (w_calls s' ! 3)"
    using demo_drift_check by blast
  from drift_check_changes_nothing [OF r(1) _ _ r(2,3)] obtain d user v where
    "en_get_deployment (ce_env demo_claim_env) (w_calls demo_start) ''m/n'' ''l/ns'' False = Inr (Some d)"
    "payload_json (pv_payload (recorded_payload d ''m/n'' ''plan'' [''-refresh-only''] (dr_module_version d) user NoExtra)) = Some v"
    "w_calls s' ! 3 = Run_Function (start_runner_event v)"
    by (auto simp: demo_claim_env_simps demo_start_def Let_def)
  with r(1) show ?thesis by (auto simp: demo_start_def)
qed

end
