(* ===== verification/Gitops.thy ===== *)
theory Gitops
  imports Variables "HOL-Library.Multiset"
begin

text \<open>
  What a push to a repository of claims changes: \<open>gitops/src/git_utils.rs\<close> (the files that git
  reports), \<open>gitops/src/diff.rs\<close> (their contents before and after) and \<open>gitops/src/gitops.rs\<close> (the
  claims in them, grouped by identity into what is applied, deleted or only moved). The git
  commands, the environment variable and \<open>serde_yaml\<close> are parameters; the order in which the hash
  maps are traversed is an argument.
\<close>

section \<open>Changed files\<close>

record file_change =
  fc_path :: string
  fc_content :: string

record processed_files =
  pf_active :: "file_change list"
  pf_deleted :: "file_change list"

text \<open>
  \<open>git_diff\<close> is the output of \<open>git diff --name-status\<close>, \<open>git_show\<close> that of \<open>git show ref:path\<close>,
  \<open>git_prefix\<close> the variable \<open>FILE_PATH_PREFIX\<close>.
\<close>

record git_env =
  git_diff :: "string \<Rightarrow> string \<Rightarrow> (string, string) result"
  git_show :: "string \<Rightarrow> string \<Rightarrow> (string, string) result"
  git_prefix :: "string option"

text \<open>\<open>str::lines\<close>: no line after a final newline, and a carriage return at the end is cut.\<close>

definition cut_return :: "string \<Rightarrow> string" where
  "cut_return s = (if s \<noteq> [] \<and> last s = CHR 0x0D then butlast s else s)"

definition str_lines :: "string \<Rightarrow> string list" where
  "str_lines s = (let parts = split_on (CHR 0x0A) s
     in List.map cut_return (if last parts = [] then butlast parts else parts))"

definition changed_file :: "string \<Rightarrow> (string \<times> string) list" where
  "changed_file line =
     (case split_on (CHR 0x09) line of
        status # file_path # _ \<Rightarrow>
          if ends_with file_path ''.yaml'' \<or> ends_with file_path ''.yml'' then [(status, file_path)] else []
      | _ \<Rightarrow> [])"

definition get_changed_files :: "git_env \<Rightarrow> string \<Rightarrow> string \<Rightarrow> (string, (string \<times> string) list) result" where
  "get_changed_files git before_ref after_ref =
     res_bind (git_diff git before_ref after_ref) (\<lambda>out. Inr (concat (List.map changed_file (str_lines out))))"

text \<open>The contents that one changed file adds to the active and to the deleted files.\<close>

definition contents_of :: "git_env \<Rightarrow> string \<Rightarrow> string \<Rightarrow> string \<times> string \<Rightarrow> file_change list \<times> file_change list" where
  "contents_of git before_ref after_ref change = (case change of (status, file_path) \<Rightarrow>
     if status = ''A'' \<or> status = ''M''
     then (case git_show git after_ref file_path of
             Inl _ \<Rightarrow> ([], [])
           | Inr content \<Rightarrow>
               ([\<lparr>fc_path = file_path, fc_content = content\<rparr>],
                if status = ''M''
                then (case git_show git before_ref file_path of
                        Inl _ \<Rightarrow> []
                      | Inr before_content \<Rightarrow> [\<lparr>fc_path = file_path, fc_content = before_content\<rparr>])
                else []))
     else if status = ''D''
     then (case git_show git before_ref file_path of
             Inl _ \<Rightarrow> ([], [])
           | Inr content \<Rightarrow> ([], [\<lparr>fc_path = file_path, fc_content = content\<rparr>]))
     else ([], []))"

definition in_prefixes :: "git_env \<Rightarrow> string \<times> string \<Rightarrow> bool" where
  "in_prefixes git change =
     (case git_prefix git of
        None \<Rightarrow> True
      | Some prefix_env \<Rightarrow>
          list_ex (\<lambda>prefix. starts_with (snd change) prefix) (List.map trim (split_on (CHR '','') prefix_env)))"

definition get_diff :: "git_env \<Rightarrow> string \<Rightarrow> string \<Rightarrow> (string, processed_files) result" where
  "get_diff git before_ref after_ref =
     res_bind (get_changed_files git before_ref after_ref) (\<lambda>changes.
     let contents = List.map (contents_of git before_ref after_ref) (filter (in_prefixes git) changes)
     in Inr \<lparr>pf_active = concat (List.map fst contents), pf_deleted = concat (List.map snd contents)\<rparr>)"

section \<open>Changed claims\<close>

record group_key =
  gk_api_version :: string
  gk_kind :: string
  gk_name :: string
  gk_namespace :: string
  gk_region :: string

record manifest_change =
  mc_key :: group_key
  mc_content :: string
  mc_file :: file_change

record grouped_file =
  gf_key :: group_key
  gf_active :: "(file_change \<times> string) option"
  gf_deleted :: "(file_change \<times> string) option"
  gf_renamed :: "(file_change \<times> string) option"

text \<open>\<open>serde_yaml::from_str\<close> and \<open>to_string\<close> of a claim.\<close>

record yaml_lib =
  yl_parse :: "string \<Rightarrow> (string, deployment_manifest) result"
  yl_print :: "deployment_manifest \<Rightarrow> (string, string) result"

definition key_of :: "deployment_manifest \<Rightarrow> group_key" where
  "key_of m =
     \<lparr>gk_api_version = dmf_api_version m, gk_kind = dmf_kind m, gk_name = dm_name (dmf_metadata m),
      gk_namespace = (case dm_namespace (dmf_metadata m) of None \<Rightarrow> ''default'' | Some ns \<Rightarrow> ns),
      gk_region = dsc_region (dmf_spec m)\<rparr>"

definition document_change :: "yaml_lib \<Rightarrow> file_change \<Rightarrow> string \<Rightarrow> manifest_change list" where
  "document_change yl file doc =
     (if trim doc = [] then []
      else (case yl_parse yl (trim doc) of
              Inl _ \<Rightarrow> []
            | Inr manifest \<Rightarrow>
                (case yl_print yl manifest of
                   Inl _ \<Rightarrow> []
                 | Inr canonical \<Rightarrow> [\<lparr>mc_key = key_of manifest, mc_content = canonical, mc_file = file\<rparr>])))"

definition extract_manifest_changes :: "yaml_lib \<Rightarrow> file_change \<Rightarrow> manifest_change list" where
  "extract_manifest_changes yl file = concat (List.map (document_change yl file) (split_str ''---'' (fc_content file)))"

text \<open>The claims of a list of files by their key; a later one replaces an earlier one.\<close>

definition changes_by_key :: "yaml_lib \<Rightarrow> file_change list \<Rightarrow> (group_key, manifest_change) hash_map" where
  "changes_by_key yl files =
     fold (\<lambda>(k, c). hm_insert k c) (List.map (\<lambda>c. (mc_key c, c)) (concat (List.map (extract_manifest_changes yl) files))) []"

section \<open>Groups\<close>

definition document_of :: "manifest_change \<Rightarrow> file_change \<times> string" where
  "document_of c = (mc_file c, mc_content c)"

definition apply_group :: "group_key \<Rightarrow> manifest_change \<Rightarrow> grouped_file" where
  "apply_group k c = \<lparr>gf_key = k, gf_active = Some (document_of c), gf_deleted = None, gf_renamed = None\<rparr>"

definition delete_group :: "group_key \<Rightarrow> manifest_change \<Rightarrow> grouped_file" where
  "delete_group k c = \<lparr>gf_key = k, gf_active = None, gf_deleted = Some (document_of c), gf_renamed = None\<rparr>"

definition rename_group :: "group_key \<Rightarrow> manifest_change \<Rightarrow> grouped_file" where
  "rename_group k c = \<lparr>gf_key = k, gf_active = None, gf_deleted = None, gf_renamed = Some (document_of c)\<rparr>"

definition hm_remove :: "'k \<Rightarrow> ('k, 'v) hash_map \<Rightarrow> ('k, 'v) hash_map" where
  "hm_remove k m = filter (\<lambda>(k', _). k' \<noteq> k) m"

text \<open>
  One active claim, with the deleted claims that are left: the groups it makes and the deleted
  claims left after it. \<open>None\<close> is the panic of the two \<open>unwrap\<close>s.
\<close>

definition group_one ::
  "yaml_lib \<Rightarrow> group_key \<Rightarrow> manifest_change \<Rightarrow> (group_key, manifest_change) hash_map \<Rightarrow>
   (grouped_file list \<times> (group_key, manifest_change) hash_map) option" where
  "group_one yl key active deleted_changes =
     (case map_of deleted_changes key of
        None \<Rightarrow> Some ([apply_group key active], deleted_changes)
      | Some deleted \<Rightarrow>
          if mc_content active = mc_content deleted \<and> fc_content (mc_file active) = fc_content (mc_file deleted)
             \<and> fc_path (mc_file active) \<noteq> fc_path (mc_file deleted)
          then Some ([rename_group key active], deleted_changes)
          else if mc_content active = mc_content deleted then Some ([], deleted_changes)
          else (case (yl_parse yl (mc_content active), yl_parse yl (mc_content deleted)) of
                  (Inr a, Inr d) \<Rightarrow>
                    if dsc_region (dmf_spec a) \<noteq> dsc_region (dmf_spec d)
                    then Some ([delete_group ((mc_key deleted)\<lparr>gk_region := dsc_region (dmf_spec d)\<rparr>) deleted,
                                apply_group ((mc_key active)\<lparr>gk_region := dsc_region (dmf_spec a)\<rparr>) active],
                               hm_remove key deleted_changes)
                    else Some ([apply_group key active], deleted_changes)
                | _ \<Rightarrow> None))"

fun group_active ::
  "yaml_lib \<Rightarrow> (group_key \<times> manifest_change) list \<Rightarrow> (group_key, manifest_change) hash_map \<Rightarrow>
   (grouped_file list \<times> (group_key, manifest_change) hash_map) option" where
  "group_active yl [] deleted_changes = Some ([], deleted_changes)"
| "group_active yl ((key, active) # rest) deleted_changes =
     Option.bind (group_one yl key active deleted_changes) (\<lambda>(groups, deleted_changes).
     Option.bind (group_active yl rest deleted_changes) (\<lambda>(groups', deleted_changes).
     Some (groups @ groups', deleted_changes)))"

definition group_deleted ::
  "(group_key, manifest_change) hash_map \<Rightarrow> (group_key \<times> manifest_change) list \<Rightarrow> grouped_file list" where
  "group_deleted active_changes deleted =
     List.map (\<lambda>(k, c). delete_group k c) (filter (\<lambda>(k, _). \<not> hm_contains active_changes k) deleted)"

definition group_files_by_manifest ::
  "((group_key \<times> manifest_change) list \<Rightarrow> (group_key \<times> manifest_change) list) \<Rightarrow> yaml_lib \<Rightarrow> processed_files \<Rightarrow>
   grouped_file list option" where
  "group_files_by_manifest order yl processed =
     (let active_changes = changes_by_key yl (pf_active processed);
          deleted_changes = changes_by_key yl (pf_deleted processed)
      in Option.bind (group_active yl (order active_changes) deleted_changes) (\<lambda>(groups, deleted_changes).
         Some (groups @ group_deleted active_changes (order deleted_changes))))"

section \<open>What the groups are\<close>

text \<open>The last change of a claim in a list of files.\<close>

definition last_change :: "yaml_lib \<Rightarrow> file_change list \<Rightarrow> group_key \<Rightarrow> manifest_change option" where
  "last_change yl files k =
     (let cs = filter (\<lambda>c. mc_key c = k) (concat (List.map (extract_manifest_changes yl) files))
      in if cs = [] then None else Some (last cs))"

text \<open>
  What has to happen to a claim, from its last active and its last deleted version: a new or
  changed claim is applied, a claim that moved with its file is renamed, an unchanged one is left
  alone, and one that is only deleted is deleted.
\<close>

fun group_of :: "group_key \<Rightarrow> manifest_change option \<Rightarrow> manifest_change option \<Rightarrow> grouped_file option" where
  "group_of k None None = None"
| "group_of k (Some a) None = Some (apply_group k a)"
| "group_of k None (Some d) = Some (delete_group k d)"
| "group_of k (Some a) (Some d) =
     (if mc_content a \<noteq> mc_content d then Some (apply_group k a)
      else if fc_content (mc_file a) = fc_content (mc_file d) \<and> fc_path (mc_file a) \<noteq> fc_path (mc_file d)
      then Some (rename_group k a)
      else None)"

text \<open>\<open>serde_yaml\<close> reads what it has written.\<close>

definition reads_back :: "yaml_lib \<Rightarrow> bool" where
  "reads_back yl \<longleftrightarrow> (\<forall>m t. yl_print yl m = Inr t \<longrightarrow> yl_parse yl t = Inr m)"

lemma map_of_rev_keyed:
  "map_of (rev (List.map (\<lambda>c. (f c, c)) cs)) k =
     (let xs = filter (\<lambda>c. f c = k) cs in if xs = [] then None else Some (last xs))"
  by (induction cs rule: rev_induct) (auto simp: Let_def)

lemma look_changes: "map_of (changes_by_key yl files) k = last_change yl files k"
  unfolding changes_by_key_def hm.look_collect last_change_def by (rule map_of_rev_keyed)

lemma changes_wf: "distinct (List.map fst (changes_by_key yl files))"
  using hm.invar_fold [OF hm.invar_emp] unfolding changes_by_key_def hm_wf_def by blast

lemma last_changeD:
  assumes "last_change yl files k = Some c"
  shows "mc_key c = k" "\<exists>m. yl_print yl m = Inr (mc_content c) \<and> key_of m = k"
proof -
  have "c \<in> set (filter (\<lambda>c. mc_key c = k) (concat (List.map (extract_manifest_changes yl) files)))"
    using assms last_in_set unfolding last_change_def Let_def by (metis option.distinct(1) option.inject)
  then obtain fl doc where k: "mc_key c = k" and c: "c \<in> set (document_change yl fl doc)"
    unfolding extract_manifest_changes_def by auto
  then show "mc_key c = k" by simp
  have "c \<in> set (document_change yl fl doc) \<Longrightarrow> \<exists>m. yl_print yl m = Inr (mc_content c) \<and> key_of m = mc_key c"
    unfolding document_change_def by (cases "yl_parse yl (trim doc)") (auto split: if_splits sum.splits)
  with c k show "\<exists>m. yl_print yl m = Inr (mc_content c) \<and> key_of m = k" by blast
qed

text \<open>The branch for a changed region is never taken: the region is part of the key.\<close>

lemma group_one_exact:
  assumes rt: "reads_back yl" and a: "last_change yl fs key = Some active"
    and d: "\<And>c. map_of deleted key = Some c \<Longrightarrow> last_change yl gs key = Some c"
  shows "group_one yl key active deleted
    = Some (case group_of key (Some active) (map_of deleted key) of None \<Rightarrow> [] | Some g \<Rightarrow> [g], deleted)"
proof (cases "map_of deleted key")
  case (Some c)
  obtain m n where "yl_print yl m = Inr (mc_content active)" "key_of m = key"
    "yl_print yl n = Inr (mc_content c)" "key_of n = key"
    using last_changeD(2) [OF a] last_changeD(2) [OF d [OF Some]] by blast
  then have "yl_parse yl (mc_content active) = Inr m" "yl_parse yl (mc_content c) = Inr n"
    "dsc_region (dmf_spec m) = dsc_region (dmf_spec n)"
    using rt by (auto simp: reads_back_def key_of_def)
  with Some show ?thesis by (simp add: group_one_def)
qed (simp add: group_one_def)

lemma group_active_exact:
  assumes "reads_back yl" "\<And>k c. (k, c) \<in> set actives \<Longrightarrow> last_change yl fs k = Some c"
    and "\<And>k c. map_of deleted k = Some c \<Longrightarrow> last_change yl gs k = Some c"
  shows "group_active yl actives deleted
    = Some (List.map_filter (\<lambda>(k, a). group_of k (Some a) (map_of deleted k)) actives, deleted)"
  using assms(2)
proof (induction actives)
  case (Cons kv actives)
  obtain k a where kv: "kv = (k, a)" by (cases kv)
  have a: "last_change yl fs k = Some a" by (rule Cons.prems) (simp add: kv)
  have one: "group_one yl k a deleted = Some (case group_of k (Some a) (map_of deleted k) of None \<Rightarrow> [] | Some g \<Rightarrow> [g], deleted)"
    by (rule group_one_exact [where fs = fs and gs = gs, OF assms(1) a assms(3)])
  have rest: "group_active yl actives deleted
      = Some (List.map_filter (\<lambda>(k, a). group_of k (Some a) (map_of deleted k)) actives, deleted)"
    by (rule Cons.IH) (rule Cons.prems, simp)
  show ?case
    unfolding kv group_active.simps one
    by (cases "group_of k (Some a) (map_of deleted k)") (simp_all add: map_filter_simps rest)
qed (simp add: map_filter_simps)

lemma gf_key_group: "group_of k a d = Some g \<Longrightarrow> gf_key g = k"
  by (induction k a d rule: group_of.induct) (auto simp: apply_group_def delete_group_def rename_group_def split: if_splits)

lemma map_filter_keys:
  assumes "\<And>k v g. f (k, v) = Some g \<Longrightarrow> h g = k"
  shows "distinct (List.map fst kvs) \<Longrightarrow> distinct (List.map h (List.map_filter f kvs)) \<and> h ` set (List.map_filter f kvs) \<subseteq> fst ` set kvs"
proof (induction kvs)
  case (Cons kv kvs)
  then show ?case using assms by (cases kv) (auto simp: map_filter_simps split: option.splits)
qed (simp add: map_filter_simps)

lemma in_map_filter: "y \<in> set (List.map_filter f xs) \<longleftrightarrow> (\<exists>x \<in> set xs. f x = Some y)"
  by (induction xs) (auto simp: map_filter_simps split: option.splits)

lemma distinct_keys_append:
  "distinct (List.map f xs) \<Longrightarrow> distinct (List.map f ys) \<Longrightarrow> f ` set xs \<subseteq> K \<Longrightarrow>
   (\<And>g. g \<in> set ys \<Longrightarrow> f g \<notin> K) \<Longrightarrow> distinct (List.map f (xs @ ys))"
  by auto

text \<open>
  C10: a push changes exactly what it changes. The grouping never panics, names no claim twice, and
  its groups are those of \<open>group_of\<close> applied to the last active and the last deleted version of
  every claim, in whatever order the maps are traversed.
\<close>

theorem groups_exact:
  assumes order: "\<And>m. mset (order m) = mset m" and rt: "reads_back yl"
  shows "\<exists>gs. group_files_by_manifest order yl processed = Some gs \<and> distinct (List.map gf_key gs)
    \<and> (\<forall>g. g \<in> set gs \<longleftrightarrow> (\<exists>k. group_of k (last_change yl (pf_active processed) k) (last_change yl (pf_deleted processed) k) = Some g))"
proof -
  let ?A = "changes_by_key yl (pf_active processed)" and ?D = "changes_by_key yl (pf_deleted processed)"
  let ?a = "last_change yl (pf_active processed)" and ?d = "last_change yl (pf_deleted processed)"
  let ?f = "\<lambda>(k, a). group_of k (Some a) (map_of ?D k)"
  have sets: "set (order m) = set m" for m using mset_eq_setD [OF order] .
  have keys: "distinct (List.map fst (order m)) = distinct (List.map fst m)" for m
    using order by (metis mset_eq_imp_distinct_iff mset_map)
  have inA: "(k, c) \<in> set (order ?A) \<longleftrightarrow> ?a k = Some c" and inD: "(k, c) \<in> set (order ?D) \<longleftrightarrow> ?d k = Some c" for k c
    unfolding sets by (simp_all add: look_changes [symmetric] changes_wf)
  have fst_in: "k \<in> fst ` set (order ?A) \<longleftrightarrow> hm_contains ?A k" for k
    unfolding sets hm_contains_def by (metis map_of_eq_None_iff)
  have act: "group_active yl (order ?A) ?D = Some (List.map_filter ?f (order ?A), ?D)"
    by (rule group_active_exact [OF rt]) (simp_all add: inA look_changes)
  have A: "distinct (List.map gf_key (List.map_filter ?f (order ?A)))"
    "gf_key ` set (List.map_filter ?f (order ?A)) \<subseteq> fst ` set (order ?A)"
    using map_filter_keys [of ?f gf_key "order ?A"] gf_key_group keys [of ?A] changes_wf by auto
  have D: "List.map gf_key (group_deleted ?A m) = List.map fst (filter (\<lambda>(k, _). \<not> hm_contains ?A k) m)" for m
    by (auto simp: group_deleted_def delete_group_def)
  have "distinct (List.map gf_key (group_deleted ?A (order ?D)))"
    unfolding D by (rule distinct_map_filter) (simp add: keys changes_wf)
  moreover have "gf_key g \<notin> fst ` set (order ?A)" if "g \<in> set (group_deleted ?A (order ?D))" for g
    unfolding fst_in using that by (auto simp: group_deleted_def delete_group_def)
  ultimately
  have dist: "distinct (List.map gf_key (List.map_filter ?f (order ?A) @ group_deleted ?A (order ?D)))"
    by (intro distinct_keys_append [where K = "fst ` set (order ?A)", OF A(1) _ A(2)])
  have mem: "g \<in> set (List.map_filter ?f (order ?A) @ group_deleted ?A (order ?D)) \<longleftrightarrow> (\<exists>k. group_of k (?a k) (?d k) = Some g)" for g
  proof -
    have "g \<in> set (List.map_filter ?f (order ?A)) \<longleftrightarrow> (\<exists>k c. ?a k = Some c \<and> group_of k (Some c) (?d k) = Some g)"
      unfolding in_map_filter by (auto simp: look_changes dest: inA [THEN iffD1]) (use inA in force)
    moreover have "g \<in> set (group_deleted ?A (order ?D)) \<longleftrightarrow> (\<exists>k c. ?a k = None \<and> ?d k = Some c \<and> g = delete_group k c)"
      by (auto simp: group_deleted_def inD hm_contains_def look_changes image_iff)
    moreover have "(\<exists>k. group_of k (?a k) (?d k) = Some g) \<longleftrightarrow>
        (\<exists>k c. ?a k = Some c \<and> group_of k (Some c) (?d k) = Some g) \<or> (\<exists>k c. ?a k = None \<and> ?d k = Some c \<and> g = delete_group k c)"
      by (metis group_of.simps(1,3) not_None_eq option.inject)
    ultimately show ?thesis by auto
  qed
  show ?thesis
    using dist mem by (simp add: group_files_by_manifest_def act Let_def)
qed

definition demo_manifest :: "string \<Rightarrow> deployment_manifest" where
  "demo_manifest n =
     \<lparr>dmf_metadata = \<lparr>dm_name = n, dm_namespace = None, dm_annotations = None, dm_labels = None\<rparr>,
      dmf_api_version = [], dmf_kind = ''M'',
      dmf_spec = \<lparr>dsc_module_version = Some ''1'', dsc_stack_version = None, dsc_region = ''r'', dsc_reference = None,
        dsc_variables = [], dsc_dependencies = None, dsc_drift_detection = None\<rparr>\<rparr>"

definition demo_yaml_lib :: yaml_lib where
  "demo_yaml_lib =
     \<lparr>yl_parse = (\<lambda>t. if t = ''a'' \<or> t = ''b'' then Inr (demo_manifest t) else Inl []),
      yl_print = (\<lambda>m. if m = demo_manifest ''a'' then Inr ''a'' else if m = demo_manifest ''b'' then Inr ''b'' else Inl [])\<rparr>"

definition demo_files :: "string \<Rightarrow> string \<Rightarrow> file_change" where
  "demo_files path content = \<lparr>fc_path = path, fc_content = content\<rparr>"

definition demo_push :: processed_files where
  "demo_push = \<lparr>pf_active = [demo_files ''new'' ''a''], pf_deleted = [demo_files ''old'' ''a'', demo_files ''gone'' ''b'']\<rparr>"

definition demo_change :: "string \<Rightarrow> string \<Rightarrow> manifest_change" where
  "demo_change path n = \<lparr>mc_key = key_of (demo_manifest n), mc_content = n, mc_file = demo_files path n\<rparr>"

text \<open>A claim that moved with its file is renamed, one whose file went away is deleted.\<close>

lemma groups_exact_witness:
  "\<exists>gs. group_files_by_manifest (\<lambda>m. m) demo_yaml_lib demo_push = Some gs
     \<and> rename_group (key_of (demo_manifest ''a'')) (demo_change ''new'' ''a'') \<in> set gs
     \<and> delete_group (key_of (demo_manifest ''b'')) (demo_change ''gone'' ''b'') \<in> set gs"
proof -
  have "reads_back demo_yaml_lib"
    by (auto simp: reads_back_def demo_yaml_lib_def split: if_splits)
  from groups_exact [OF _ this, of "\<lambda>m. m" demo_push]
  obtain gs where gs: "group_files_by_manifest (\<lambda>m. m) demo_yaml_lib demo_push = Some gs"
    "\<And>k g. group_of k (last_change demo_yaml_lib (pf_active demo_push) k) (last_change demo_yaml_lib (pf_deleted demo_push) k) = Some g
      \<Longrightarrow> g \<in> set gs"
    by auto
  let ?a = "key_of (demo_manifest ''a'')" and ?b = "key_of (demo_manifest ''b'')"
  have "last_change demo_yaml_lib (pf_active demo_push) ?a = Some (demo_change ''new'' ''a'')"
    "last_change demo_yaml_lib (pf_deleted demo_push) ?a = Some (demo_change ''old'' ''a'')"
    "last_change demo_yaml_lib (pf_active demo_push) ?b = None"
    "last_change demo_yaml_lib (pf_deleted demo_push) ?b = Some (demo_change ''gone'' ''b'')"
    by code_simp+
  with gs(2) [of ?a "rename_group ?a (demo_change ''new'' ''a'')"] gs(2) [of ?b "delete_group ?b (demo_change ''gone'' ''b'')"] gs(1)
  show ?thesis by (simp add: demo_change_def demo_files_def)
qed

text \<open>
  A file that was renamed and edited is lost: git reports it with a status that starts with \<open>R\<close>, and
  such a line adds neither an active nor a deleted file.
\<close>

lemma other_status_ignored:
  "status \<notin> {''A'', ''M'', ''D''} \<Longrightarrow> contents_of git before_ref after_ref (status, file_path) = ([], [])"
  by (simp add: contents_of_def)

end
