(* ===== verification/Operator.thy ===== *)
theory Operator
  imports Claims
begin

text \<open>
  \<open>operator/src/operator.rs\<close>: the Kubernetes controller. A custom resource is a claim; a pass of
  \<open>reconcile\<close> looks at one resource, starts an apply or a destroy job or checks on the one that
  runs, writes the result into the resource's status and says when the next pass is due. The
  Kubernetes API is a parameter; its requests are \<open>Http\<close> calls of the history.
\<close>

section \<open>Resources\<close>

record api_resource =
  ar_group :: string
  ar_version :: string
  ar_api_version :: string
  ar_kind :: string
  ar_plural :: string

text \<open>A \<open>DynamicObject\<close>: the metadata that the controller reads, and the remaining fields.\<close>

record k8s_object =
  ko_name :: "string option"
  ko_namespace :: "string option"
  ko_generation :: "int option"
  ko_deleting :: bool
  ko_finalizers :: "string list"
  ko_data :: json

text \<open>What the controller asks its runtime to do next; a delay is in seconds.\<close>

datatype action = Requeue "64 word" | Await_Change

datatype kube_error = Api_Error nat string | Service_Error string

definition KUBERNETES_GROUP :: string where
  "KUBERNETES_GROUP = ''infraweave.io''"

definition FINALIZER_NAME :: string where
  "FINALIZER_NAME = ''deletion-handler.finalizer.infraweave.io''"

definition get_api_resource :: "string \<Rightarrow> api_resource" where
  "get_api_resource kind =
     \<lparr>ar_group = KUBERNETES_GROUP, ar_version = ''v1'', ar_api_version = KUBERNETES_GROUP @ ''/v1'',
      ar_kind = kind, ar_plural = to_lowercase kind @ ''s''\<rparr>"

definition namespace_or_default :: "k8s_object \<Rightarrow> string" where
  "namespace_or_default obj = (case ko_namespace obj of None \<Rightarrow> ''default'' | Some n \<Rightarrow> n)"

text \<open>The fields of the status: \<open>data.get("status").and_then(get key)\<close>, read as text or number.\<close>

definition status_value :: "k8s_object \<Rightarrow> string \<Rightarrow> json option" where
  "status_value obj key = Option.bind (jget (ko_data obj) ''status'') (\<lambda>s. jget s key)"

definition status_text :: "k8s_object \<Rightarrow> string \<Rightarrow> string" where
  "status_text obj key = (case Option.bind (status_value obj key) as_str of None \<Rightarrow> [] | Some t \<Rightarrow> t)"

definition status_int :: "k8s_object \<Rightarrow> string \<Rightarrow> int" where
  "status_int obj key = (case Option.bind (status_value obj key) as_i64 of None \<Rightarrow> 0 | Some n \<Rightarrow> n)"

definition status_logs :: "k8s_object \<Rightarrow> string \<Rightarrow> string" where
  "status_logs obj fallback = (case Option.bind (status_value obj ''logs'') as_str of None \<Rightarrow> fallback | Some t \<Rightarrow> t)"

definition last_failure_epoch :: "k8s_object \<Rightarrow> 64 word" where
  "last_failure_epoch obj = (case Option.bind (status_value obj ''lastFailureEpoch'') as_u64 of None \<Rightarrow> 0 | Some n \<Rightarrow> n)"

definition i64_number :: "int \<Rightarrow> json" where
  "i64_number n = JNumber (if 0 \<le> n then PosInt (of_int n) else NegInt (of_int n))"

section \<open>Parameters\<close>

text \<open>
  \<open>ke_get\<close> and \<open>ke_patch\<close> are the Kubernetes API (a request is named by its URL), \<open>ke_yaml\<close> is
  \<open>serde_yaml::to_value\<close>, \<open>ke_parse_time\<close> and \<open>ke_seconds_since\<close> read an RFC 3339 time and the
  whole seconds since it, \<open>ke_timestamp\<close> is \<open>timestamp_opt\<close> of \<open>chrono\<close>, printed.
\<close>

record kube_env =
  ke_claim :: claim_env
  ke_cluster_id :: string
  ke_get :: "call list \<Rightarrow> string \<Rightarrow> (string, k8s_object) result"
  ke_patch :: "call list \<Rightarrow> string \<Rightarrow> json \<Rightarrow> (string, unit) result"
  ke_yaml :: "k8s_object \<Rightarrow> (string, yaml) result"
  ke_read_logs :: "call list \<Rightarrow> string \<Rightarrow> (string, string list) result"
  ke_change_record :: "call list \<Rightarrow> string \<Rightarrow> string \<Rightarrow> string \<Rightarrow> string \<Rightarrow> (string, string) result"
  ke_parse_time :: "string \<Rightarrow> int option"
  ke_seconds_since :: "call list \<Rightarrow> int \<Rightarrow> int"
  ke_timestamp :: "64 word \<Rightarrow> 32 word \<Rightarrow> string option"

definition object_url :: "api_resource \<Rightarrow> string \<Rightarrow> string \<Rightarrow> string" where
  "object_url api namespace name =
     ''/apis/'' @ ar_group api @ ''/'' @ ar_version api @ ''/namespaces/'' @ namespace @ ''/'' @ ar_plural api @ ''/'' @ name"

definition kube_get :: "kube_env \<Rightarrow> string \<Rightarrow> k8s_object job_eff" where
  "kube_get ke url = bnd (ask (Http (''GET '' @ url) JNull) (\<lambda>h. ke_get ke h url)) of_result"

definition kube_patch :: "kube_env \<Rightarrow> string \<Rightarrow> json \<Rightarrow> unit job_eff" where
  "kube_patch ke url patch = bnd (ask (Http (''PATCH '' @ url) patch) (\<lambda>h. ke_patch ke h url patch)) of_result"

definition patch_status :: "kube_env \<Rightarrow> api_resource \<Rightarrow> string \<Rightarrow> string \<Rightarrow> (string \<times> json) list \<Rightarrow> unit job_eff" where
  "patch_status ke api namespace name status_fields =
     kube_patch ke (object_url api namespace name @ ''/status'') (jobj [(''status'', jobj status_fields)])"

definition patch_finalizers :: "kube_env \<Rightarrow> api_resource \<Rightarrow> string \<Rightarrow> string \<Rightarrow> string list \<Rightarrow> unit job_eff" where
  "patch_finalizers ke api namespace name finalizers =
     kube_patch ke (object_url api namespace name)
       (jobj [(''metadata'', jobj [(''finalizers'', JArray (List.map JString finalizers))])])"

definition unwrap_name :: "k8s_object \<Rightarrow> string job_eff" where
  "unwrap_name obj = unwrap_opt ''called `Option::unwrap()` on a `None` value'' (ko_name obj)"

definition get_timestamp :: "kube_env \<Rightarrow> string job_eff" where
  "get_timestamp ke = ask Timestamp (en_timestamp (ce_env (ke_claim ke)))"

definition epoch_to_timestamp :: "kube_env \<Rightarrow> 128 word \<Rightarrow> string job_eff" where
  "epoch_to_timestamp ke epoch =
     unwrap_opt ''No such local time'' (ke_timestamp ke (ucast (epoch div 1000)) (ucast ((epoch mod 1000) * 1000000)))"

section \<open>Writing the status\<close>

definition add_finalizer :: "kube_env \<Rightarrow> k8s_object \<Rightarrow> api_resource \<Rightarrow> string \<Rightarrow> unit job_eff" where
  "add_finalizer ke resource api namespace =
     bnd (unwrap_name resource) (\<lambda>name. patch_finalizers ke api namespace name [FINALIZER_NAME])"

definition update_resource_status ::
  "kube_env \<Rightarrow> k8s_object \<Rightarrow> api_resource \<Rightarrow> string \<Rightarrow> string \<Rightarrow> string \<Rightarrow> string \<Rightarrow> unit job_eff" where
  "update_resource_status ke resource api status last_deployment_update message job_id =
     bnd (unwrap_name resource) (\<lambda>name.
     bnd (get_timestamp ke) (\<lambda>now.
     let namespace = namespace_or_default resource
     in seq (patch_status ke api namespace name
               [(''resourceStatus'', JString status), (''lastDeploymentEvent'', JString last_deployment_update),
                (''lastCheck'', JString now), (''jobId'', JString job_id),
                (''deploymentId'', JString (to_lowercase (ar_kind api) @ ''/'' @ name)),
                (''lastGeneration'', i64_number (case ko_generation resource of None \<Rightarrow> 0 | Some g \<Rightarrow> g)),
                (''logs'', JString message), (''retryCount'', i64_number (status_int resource ''retryCount''))])
          (bnd (kube_get ke (object_url api namespace name)) (\<lambda>_. ret ()))))"

definition update_retry_count :: "kube_env \<Rightarrow> k8s_object \<Rightarrow> api_resource \<Rightarrow> int \<Rightarrow> unit job_eff" where
  "update_retry_count ke resource api retry_count =
     bnd (unwrap_name resource) (\<lambda>name.
     patch_status ke api (namespace_or_default resource) name
       [(''retryCount'', i64_number retry_count), (''jobId'', JString [])])"

definition reset_retry_count :: "kube_env \<Rightarrow> k8s_object \<Rightarrow> api_resource \<Rightarrow> unit job_eff" where
  "reset_retry_count ke resource api =
     bnd (unwrap_name resource) (\<lambda>name.
     patch_status ke api (namespace_or_default resource) name
       [(''retryCount'', i64_number 0), (''jobId'', JString []), (''lastFailureEpoch'', JNull)])"

section \<open>Checking on a job\<close>

text \<open>The seconds since \<open>lastCheck\<close>, when it can be read.\<close>

definition seconds_since_check :: "kube_env \<Rightarrow> k8s_object \<Rightarrow> int option job_eff" where
  "seconds_since_check ke obj =
     (let last_check = status_text obj ''lastCheck''
      in if last_check = [] then ret None
         else (case ke_parse_time ke last_check of
                 None \<Rightarrow> ret None
               | Some t \<Rightarrow> bnd (ask Clock (\<lambda>h. ke_seconds_since ke h t)) (\<lambda>n. ret (Some n))))"

definition should_do_full_check :: "int option \<Rightarrow> bool" where
  "should_do_full_check age = (case age of None \<Rightarrow> True | Some n \<Rightarrow> \<not> n < 25)"

definition no_logs :: string where
  "no_logs = ''No logs available yet - job is initializing...''"

definition fetch_job_logs :: "kube_env \<Rightarrow> string \<Rightarrow> string job_eff" where
  "fetch_job_logs ke job_id =
     bnd (ask (Http ''read_logs'' (JString job_id)) (\<lambda>h. ke_read_logs ke h job_id)) (\<lambda>r.
     ret (case r of
            Inr lines \<Rightarrow>
              if lines = [] then no_logs
              else concat (List.map (\<lambda>message. message @ [CHR 0x0A]) (rev (take 10 (rev lines))))
          | Inl _ \<Rightarrow> no_logs))"

definition update_logs :: "kube_env \<Rightarrow> api_resource \<Rightarrow> string \<Rightarrow> string \<Rightarrow> string \<Rightarrow> action job_eff" where
  "update_logs ke api namespace name job_id =
     bnd (fetch_job_logs ke job_id) (\<lambda>log_str.
     seq (patch_status ke api namespace name [(''logs'', JString log_str)]) (ret (Requeue 10)))"

definition update_time_of :: "kube_env \<Rightarrow> deployment_resp option \<Rightarrow> string job_eff" where
  "update_time_of ke depl = (case depl of Some d \<Rightarrow> epoch_to_timestamp ke (dr_epoch d) | None \<Rightarrow> get_timestamp ke)"

section \<open>Failed jobs\<close>

definition MAX_RETRIES :: int where
  "MAX_RETRIES = 3"

text \<open>\<open>10 * 2_u64.pow(retry_count as u32) * 60\<close>, in 64 bits.\<close>

definition backoff :: "int \<Rightarrow> 64 word" where
  "backoff retry_count = 10 * 2 ^ unat (of_int retry_count :: 32 word) * 60"

definition twenty_four_hours_ms :: "64 word" where
  "twenty_four_hours_ms = 24 * 60 * 60 * 1000"

definition cooling_down :: "64 word \<Rightarrow> 64 word \<Rightarrow> action" where
  "cooling_down now_epoch since =
     (let remaining_ms = twenty_four_hours_ms - (now_epoch - since) in Requeue (max (remaining_ms div 1000) 60))"

definition apply_failed ::
  "kube_env \<Rightarrow> k8s_object \<Rightarrow> k8s_object \<Rightarrow> api_resource \<Rightarrow> string \<Rightarrow> string \<Rightarrow> string \<Rightarrow> string \<Rightarrow> action job_eff" where
  "apply_failed ke resource fresh_resource api depl_status update_time final_message current_job_id =
     (let retry_count = status_int fresh_resource ''retryCount'' in
      if retry_count < MAX_RETRIES
      then seq (update_resource_status ke resource api (''Apply - '' @ depl_status) update_time final_message current_job_id)
          (seq (update_retry_count ke resource api (retry_count + 1))
          (ret (Requeue (backoff retry_count))))
      else bnd (get_epoch (ce_env (ke_claim ke))) (\<lambda>epoch.
        let since = last_failure_epoch resource; now_epoch = ucast epoch; namespace = namespace_or_default resource in
        if since = 0
        then bnd (unwrap_name resource) (\<lambda>name.
             seq (patch_status ke api namespace name
                    [(''lastFailureEpoch'', JNumber (PosInt now_epoch)),
                     (''resourceStatus'', JString (''Apply - '' @ depl_status @ '' (max retries exhausted)'')),
                     (''jobId'', JString []), (''logs'', JString final_message)])
               (ret (Requeue (24 * 60 * 60))))
        else if twenty_four_hours_ms \<le> now_epoch - since
        then seq (reset_retry_count ke resource api) (ret (Requeue 10))
        else bnd (unwrap_name resource) (\<lambda>name.
             seq (patch_status ke api namespace name
                    [(''jobId'', JString []), (''resourceStatus'', JString (''Apply - '' @ depl_status @ '' (cooling down)''))])
               (ret (cooling_down now_epoch since)))))"

definition destroy_failed ::
  "kube_env \<Rightarrow> k8s_object \<Rightarrow> api_resource \<Rightarrow> string \<Rightarrow> string \<Rightarrow> string \<Rightarrow> string \<Rightarrow> action job_eff" where
  "destroy_failed ke resource api depl_status update_time error_message current_job_id =
     (let retry_count = status_int resource ''retryCount'' in
      if retry_count < MAX_RETRIES
      then seq (update_resource_status ke resource api (''Delete - '' @ depl_status) update_time error_message current_job_id)
          (seq (update_retry_count ke resource api (retry_count + 1))
          (ret (Requeue (backoff retry_count))))
      else bnd (get_epoch (ce_env (ke_claim ke))) (\<lambda>epoch.
        let since = last_failure_epoch resource; now_epoch = ucast epoch; namespace = namespace_or_default resource in
        if since = 0
        then bnd (unwrap_name resource) (\<lambda>name.
             seq (patch_status ke api namespace name
                    [(''lastFailureEpoch'', JNumber (PosInt now_epoch)),
                     (''resourceStatus'', JString (''Delete - '' @ depl_status @ '' (max retries exhausted)'')),
                     (''jobId'', JString [])])
               (ret (Requeue (24 * 60 * 60))))
        else if twenty_four_hours_ms \<le> now_epoch - since
        then seq (reset_retry_count ke resource api) (ret (Requeue 10))
        else bnd (unwrap_name resource) (\<lambda>name.
             seq (patch_status ke api namespace name
                    [(''jobId'', JString []), (''resourceStatus'', JString (''Delete - '' @ depl_status @ '' (cooling down)''))])
               (ret (cooling_down now_epoch since)))))"

section \<open>A pass over a resource\<close>

definition is_stuck :: "string \<Rightarrow> bool" where
  "is_stuck current_status \<longleftrightarrow> contains_str current_status ''initiated'' \<or> contains_str current_status ''in progress''"

text \<open>A status that speaks of a job that is not there is cleared after half a minute.\<close>

definition clear_stuck :: "kube_env \<Rightarrow> api_resource \<Rightarrow> string \<Rightarrow> k8s_object \<Rightarrow> action job_eff" where
  "clear_stuck ke api name fresh_resource =
     bnd (seconds_since_check ke fresh_resource) (\<lambda>age.
     case age of
       Some seconds \<Rightarrow>
         if 30 < seconds
         then seq (patch_status ke api (namespace_or_default fresh_resource) name
                     [(''resourceStatus'', JString ''Ready for reconciliation''), (''jobId'', JString [])])
                (ret (Requeue 5))
         else ret (Requeue 5)
     | None \<Rightarrow> ret (Requeue 5))"

definition start_apply :: "kube_env \<Rightarrow> api_resource \<Rightarrow> string \<Rightarrow> k8s_object \<Rightarrow> action job_eff" where
  "start_apply ke api environment fresh_resource =
     bnd (of_result (ke_yaml ke fresh_resource)) (\<lambda>yaml.
     bnd (attempt (run_claim (ke_claim ke) yaml environment ''apply'' [] NoExtra [])) (\<lambda>r.
     bnd (get_timestamp ke) (\<lambda>now.
     case r of
       Inr (job_id, _, _) \<Rightarrow>
         seq (update_resource_status ke fresh_resource api ''Apply - initiated'' now ''Job submitted successfully'' job_id)
           (ret (Requeue 10))
     | Inl e \<Rightarrow>
         seq (update_resource_status ke fresh_resource api ''Apply - failed'' now (''Failed to start job: '' @ e) [])
           (fail e))))"

definition generation_of :: "k8s_object \<Rightarrow> int" where
  "generation_of obj = (case ko_generation obj of None \<Rightarrow> 0 | Some g \<Rightarrow> g)"

definition reconcile_idle :: "kube_env \<Rightarrow> api_resource \<Rightarrow> string \<Rightarrow> string \<Rightarrow> k8s_object \<Rightarrow> action job_eff" where
  "reconcile_idle ke api name environment fresh_resource =
     (let observed_generation = status_int fresh_resource ''lastGeneration'';
          metadata_generation = generation_of fresh_resource in
      if is_stuck (status_text fresh_resource ''resourceStatus'') then clear_stuck ke api name fresh_resource
      else if observed_generation = metadata_generation \<and> 0 < observed_generation then ret Await_Change
      else start_apply ke api environment fresh_resource)"

text \<open>The message of a finished job: its error, then the output of its change record.\<close>

definition final_message :: "deployment_resp option \<Rightarrow> string option \<Rightarrow> string" where
  "final_message depl record_output =
     (let error = (case depl of
                     Some d \<Rightarrow> if dr_error_text d = [] then [] else ''ERROR: '' @ dr_error_text d @ [CHR 0x0A, CHR 0x0A]
                   | None \<Rightarrow> [])
      in case record_output of
           Some plan_std_output \<Rightarrow> error @ plan_std_output
         | None \<Rightarrow> if error = [] then ''Job completed'' else error)"

text \<open>A job that did not fail, or ended in a status the controller does not know.\<close>

definition apply_done ::
  "kube_env \<Rightarrow> k8s_object \<Rightarrow> k8s_object \<Rightarrow> api_resource \<Rightarrow> string \<Rightarrow> string \<Rightarrow> string \<Rightarrow> action job_eff" where
  "apply_done ke resource fresh_resource api depl_status update_time message =
     seq (update_resource_status ke resource api (''Apply - '' @ depl_status) update_time message [])
    (seq (if depl_status = ''successful'' \<and> 0 < status_int fresh_resource ''retryCount''
          then reset_retry_count ke resource api else ret ())
    (ret Await_Change))"

definition apply_finished ::
  "kube_env \<Rightarrow> api_resource \<Rightarrow> string \<Rightarrow> k8s_object \<Rightarrow> k8s_object \<Rightarrow> string \<Rightarrow> deployment_resp option \<Rightarrow> action job_eff" where
  "apply_finished ke api environment resource fresh_resource depl_status depl =
     (let job_id = status_text fresh_resource ''jobId''; deployment_id = status_text fresh_resource ''deploymentId'' in
      bnd (update_time_of ke depl) (\<lambda>update_time.
      bnd (ask (Http ''get_change_record'' (JArray (List.map JString [environment, deployment_id, job_id, ''APPLY''])))
             (\<lambda>h. ke_change_record ke h environment deployment_id job_id ''APPLY'')) (\<lambda>r.
      let message = final_message depl (case r of Inl _ \<Rightarrow> None | Inr output \<Rightarrow> Some output) in
      if depl_status = ''failed'' \<or> depl_status = ''error''
      then apply_failed ke resource fresh_resource api depl_status update_time message job_id
      else apply_done ke resource fresh_resource api depl_status update_time message)))"

definition reconcile_running ::
  "kube_env \<Rightarrow> api_resource \<Rightarrow> string \<Rightarrow> string \<Rightarrow> k8s_object \<Rightarrow> k8s_object \<Rightarrow> action job_eff" where
  "reconcile_running ke api name environment resource fresh_resource =
     (let job_id = status_text fresh_resource ''jobId''; deployment_id = status_text fresh_resource ''deploymentId'' in
      bnd (seconds_since_check ke fresh_resource) (\<lambda>age.
      if \<not> should_do_full_check age then update_logs ke api (namespace_or_default resource) name job_id
      else bnd (is_deployment_in_progress (ce_env (ke_claim ke)) deployment_id environment False True)
             (\<lambda>(in_progress, _, depl_status, depl).
        if \<not> in_progress \<and> depl = None \<and> contains_str (status_text fresh_resource ''resourceStatus'') ''initiated''
        then bnd (get_timestamp ke) (\<lambda>now.
             seq (update_resource_status ke resource api ''Apply - pending'' now ''Waiting for job to start processing'' job_id)
               (ret (Requeue 5)))
        else if in_progress
        then bnd (update_time_of ke depl) (\<lambda>update_time.
             seq (update_resource_status ke resource api ''Apply - in progress'' update_time
                    (status_logs fresh_resource ''Checking job status...'') job_id)
               (ret (Requeue 30)))
        else apply_finished ke api environment resource fresh_resource depl_status depl)))"

definition reconcile_resource_nonblocking ::
  "kube_env \<Rightarrow> k8s_object \<Rightarrow> api_resource \<Rightarrow> string \<Rightarrow> action job_eff" where
  "reconcile_resource_nonblocking ke resource api environment =
     bnd (unwrap_name resource) (\<lambda>name.
     bnd (kube_get ke (object_url api (namespace_or_default resource) name)) (\<lambda>fresh_resource.
     if status_text fresh_resource ''jobId'' = []
     then reconcile_idle ke api name environment fresh_resource
     else reconcile_running ke api name environment resource fresh_resource))"

section \<open>Deleting a resource\<close>

definition start_destroy :: "kube_env \<Rightarrow> api_resource \<Rightarrow> string \<Rightarrow> string \<Rightarrow> k8s_object \<Rightarrow> action job_eff" where
  "start_destroy ke api name environment resource =
     bnd (kube_get ke (object_url api (namespace_or_default resource) name)) (\<lambda>fresh_resource.
     bnd (of_result (ke_yaml ke fresh_resource)) (\<lambda>yaml.
     bnd (run_claim (ke_claim ke) yaml environment ''destroy'' [] NoExtra []) (\<lambda>(job_id, _, _).
     bnd (get_timestamp ke) (\<lambda>now.
     seq (update_resource_status ke fresh_resource api ''Delete - initiated'' now ''Destroy job submitted'' job_id)
       (ret (Requeue 10))))))"

definition destroy_message :: "bool \<Rightarrow> deployment_resp option \<Rightarrow> string" where
  "destroy_message failed_job depl =
     (let error = (case depl of Some d \<Rightarrow> if dr_error_text d = [] then [] else ''ERROR: '' @ dr_error_text d | None \<Rightarrow> [])
      in if error = [] then (if failed_job then ''Destroy operation failed'' else ''Destroy operation completed'') else error)"

text \<open>After a successful destroy the finalizer is removed.\<close>

definition release_resource :: "kube_env \<Rightarrow> k8s_object \<Rightarrow> api_resource \<Rightarrow> string \<Rightarrow> string \<Rightarrow> string \<Rightarrow> string \<Rightarrow> unit job_eff" where
  "release_resource ke resource api name depl_status update_time message =
     seq (update_resource_status ke resource api (''Delete - '' @ depl_status) update_time message [])
       (patch_finalizers ke api (namespace_or_default resource) name
          (filter (\<lambda>f. f \<noteq> FINALIZER_NAME) (ko_finalizers resource)))"

definition destroy_finished ::
  "kube_env \<Rightarrow> api_resource \<Rightarrow> string \<Rightarrow> k8s_object \<Rightarrow> string \<Rightarrow> deployment_resp option \<Rightarrow> action job_eff" where
  "destroy_finished ke api name resource depl_status depl =
     bnd (update_time_of ke depl) (\<lambda>update_time.
     let failed_job = depl_status = ''failed'' \<or> depl_status = ''error'';
         message = destroy_message failed_job depl in
     if failed_job
     then destroy_failed ke resource api depl_status update_time message (status_text resource ''jobId'')
     else seq (if depl_status = ''successful'' then release_resource ke resource api name depl_status update_time message else ret ())
         (ret Await_Change))"

definition handle_resource_deletion_nonblocking ::
  "kube_env \<Rightarrow> k8s_object \<Rightarrow> api_resource \<Rightarrow> string \<Rightarrow> action job_eff" where
  "handle_resource_deletion_nonblocking ke resource api environment =
     bnd (unwrap_name resource) (\<lambda>name.
     let job_id = status_text resource ''jobId''; namespace = namespace_or_default resource;
         is_destroy_job = contains_str (status_text resource ''resourceStatus'') ''Delete'' in
     if \<not> is_destroy_job \<or> job_id = [] then start_destroy ke api name environment resource
     else bnd (seconds_since_check ke resource) (\<lambda>age.
       if \<not> should_do_full_check age then update_logs ke api namespace name job_id
       else bnd (is_deployment_in_progress (ce_env (ke_claim ke)) (status_text resource ''deploymentId'') environment False True)
              (\<lambda>(in_progress, _, depl_status, depl).
         if in_progress
         then bnd (update_time_of ke depl) (\<lambda>update_time.
              seq (update_resource_status ke resource api ''Delete - in progress'' update_time
                     (status_logs resource ''Destroying resources'') job_id)
                (ret (Requeue 30)))
         else destroy_finished ke api name resource depl_status depl)))"

section \<open>The reconciler\<close>

definition to_kube_err :: "string \<Rightarrow> kube_error" where
  "to_kube_err e = Service_Error e"

definition with_kube_err :: "'a job_eff \<Rightarrow> ('a \<Rightarrow> (kube_error, action) result job_eff) \<Rightarrow> (kube_error, action) result job_eff" where
  "with_kube_err m f = bnd (attempt m) (\<lambda>r. case r of Inl e \<Rightarrow> ret (Inl (to_kube_err e)) | Inr a \<Rightarrow> f a)"

definition environment_of :: "kube_env \<Rightarrow> k8s_object \<Rightarrow> string" where
  "environment_of ke resource = ''k8s-'' @ ke_cluster_id ke @ ''/'' @ namespace_or_default resource"

definition reconcile :: "kube_env \<Rightarrow> string \<Rightarrow> k8s_object \<Rightarrow> (kube_error, action) result job_eff" where
  "reconcile ke kind resource =
     (case ko_name resource of
        None \<Rightarrow> ret (Inl (to_kube_err ''Resource has no name''))
      | Some name \<Rightarrow>
          let namespace = namespace_or_default resource;
              environment = environment_of ke resource;
              api = get_api_resource kind in
          if ko_deleting resource
          then if FINALIZER_NAME \<in> set (ko_finalizers resource)
               then with_kube_err (handle_resource_deletion_nonblocking ke resource api environment) (\<lambda>a. ret (Inr a))
               else ret (Inr Await_Change)
          else if FINALIZER_NAME \<notin> set (ko_finalizers resource)
          then with_kube_err (add_finalizer ke resource api namespace) (\<lambda>_. ret (Inr (Requeue 1)))
          else with_kube_err (reconcile_resource_nonblocking ke resource api environment) (\<lambda>a. ret (Inr a)))"

definition error_policy :: "kube_error \<Rightarrow> action" where
  "error_policy error =
     (let is_fatal = (case error of
            Api_Error code reason \<Rightarrow> code = 401 \<or> code = 403 \<or> (code = 404 \<and> reason = ''NotFound'')
          | Service_Error _ \<Rightarrow> False)
      in if is_fatal then Await_Change else Requeue 30)"

text \<open>What the runtime does after a pass.\<close>

definition next_action :: "(kube_error, action) result \<Rightarrow> action" where
  "next_action r = (case r of Inl e \<Rightarrow> error_policy e | Inr a \<Rightarrow> a)"

end
