(* ===== verification/Operator_Properties.thy ===== *)
theory Operator_Properties
  imports Operator
begin

text \<open>
  What the passes of the Kubernetes controller guarantee: when the finalizer of a resource is
  removed, when jobs are started, how long a pass may delay the next one, and what becomes of
  failures.
\<close>

section \<open>Which calls a pass makes\<close>

definition finalizers_patch :: "string list \<Rightarrow> json" where
  "finalizers_patch finalizers = jobj [(''metadata'', jobj [(''finalizers'', JArray (List.map JString finalizers))])]"

text \<open>The request that lets Kubernetes delete a resource.\<close>

definition releases :: "call \<Rightarrow> bool" where
  "releases c \<longleftrightarrow> (\<exists>url finalizers. c = Http (''PATCH '' @ url) (finalizers_patch finalizers) \<and> FINALIZER_NAME \<notin> set finalizers)"

lemma patches_differ:
  "jobj [(''status'', v)] \<noteq> finalizers_patch fs"
  "finalizers_patch fs = finalizers_patch gs \<longleftrightarrow> fs = gs"
  by (auto simp: finalizers_patch_def jobj_def inj_map_eq_map inj_def)

interpretation claims_keep: submitting_calls "\<lambda>c. \<not> releases c"
  by unfold_locales (simp_all add: releases_def)

lemma releases_patch: "releases (Http (''PATCH '' @ url) (finalizers_patch fs)) \<longleftrightarrow> FINALIZER_NAME \<notin> set fs"
  by (auto simp: releases_def patches_differ)

text \<open>
  The interface between a pass and a class of watched calls: the requests by which a pass reads
  resources and writes their status are not watched.
\<close>

locale pass_calls =
  fixes watched :: "call \<Rightarrow> bool"
  assumes pass_unwatched: "\<not> watched Clock" "\<not> watched Timestamp" "\<not> watched (Http (''GET '' @ url) v)"
    "\<not> watched (Http ''read_logs'' v)" "\<not> watched (Http ''get_change_record'' v)"
    "\<not> watched (Http (''PATCH '' @ url) (jobj [(''status'', v)]))" "\<not> watched (Get_Deployment i e b)"
begin

lemma never_ask: "\<not> watched c \<Longrightarrow> never watched (ask c f)"
  by (rule logs_ask) simp

lemmas pass_intros = logs_intros never_ask pass_unwatched

lemma kube_quiet:
  "never watched (kube_get ke url)" "never watched (patch_status ke api ns name fs)" "never watched (unwrap_name obj)"
  "never watched (get_timestamp ke)" "never watched (epoch_to_timestamp ke epoch)" "never watched (get_epoch en)"
  unfolding kube_get_def patch_status_def unwrap_name_def get_timestamp_def epoch_to_timestamp_def kube_patch_def get_epoch_def
  by (intro pass_intros)+

lemma updates_quiet:
  "never watched (update_resource_status ke obj api st ev msg job_id)" "never watched (update_retry_count ke obj api n)"
  "never watched (reset_retry_count ke obj api)"
  unfolding update_resource_status_def update_retry_count_def reset_retry_count_def
  by (intro pass_intros kube_quiet)+

lemma in_progress_quiet: "never watched (is_deployment_in_progress en did environment False True)"
  unfolding is_deployment_in_progress_def by (simp only: if_False) (intro pass_intros)

lemma checks_quiet:
  "never watched (seconds_since_check ke obj)" "never watched (update_logs ke api ns name job_id)"
  "never watched (update_time_of ke depl)"
  unfolding seconds_since_check_def update_logs_def fetch_job_logs_def update_time_of_def
  by (intro pass_intros kube_quiet)+

lemma failures_quiet:
  "never watched (apply_failed ke obj fresh api st t msg job_id)" "never watched (destroy_failed ke obj api st t msg job_id)"
  unfolding apply_failed_def destroy_failed_def
  by (intro pass_intros kube_quiet updates_quiet)+

lemma running_quiet:
  "never watched (clear_stuck ke api name fresh)" "never watched (reconcile_running ke api name environment resource fresh)"
  unfolding clear_stuck_def reconcile_running_def apply_finished_def apply_done_def
  by (intro pass_intros kube_quiet updates_quiet checks_quiet in_progress_quiet failures_quiet)+

lemma progress_quiet:
  "never watched (bnd (update_time_of ke depl) (\<lambda>t. seq (update_resource_status ke resource api st t l job_id) (ret a)))"
  by (intro pass_intros checks_quiet updates_quiet)

end

interpretation releasing: pass_calls releases
  by unfold_locales (auto simp: releases_def patches_differ)

interpretation starting: pass_calls starts_runner
  by unfold_locales (simp_all add: starts_runner_def)

interpretation passing: pass_calls "\<lambda>_. False"
  by unfold_locales simp_all

lemma add_finalizer_keeps: "never releases (add_finalizer ke obj api ns)"
  unfolding add_finalizer_def patch_finalizers_def kube_patch_def finalizers_patch_def [symmetric]
  by (intro releasing.pass_intros releasing.kube_quiet) (simp add: releases_patch [simplified])

lemma claims_keep_start: "never releases (start_apply ke api environment fresh)"
  unfolding start_apply_def
  by (intro releasing.pass_intros releasing.kube_quiet releasing.updates_quiet claims_keep.claim_allowed)

lemma reconcile_keeps: "never releases (reconcile_resource_nonblocking ke resource api environment)"
  unfolding reconcile_resource_nonblocking_def reconcile_idle_def
  by (intro releasing.pass_intros releasing.kube_quiet releasing.running_quiet claims_keep_start)

lemma start_destroy_keeps: "never releases (start_destroy ke api name environment resource)"
  unfolding start_destroy_def
  by (intro releasing.pass_intros releasing.kube_quiet releasing.updates_quiet claims_keep.claim_allowed)

section \<open>When a resource is released\<close>

text \<open>
  The deployment was read as successful, by a call at position \<open>n\<close> or later.
\<close>

definition read_successful :: "kube_env \<Rightarrow> nat \<Rightarrow> string \<Rightarrow> string \<Rightarrow> call list \<Rightarrow> bool" where
  "read_successful ke n deployment_id environment h \<longleftrightarrow>
     (\<exists>i. n \<le> i \<and> i < length h \<and> h ! i = Get_Deployment deployment_id environment True
        \<and> (\<exists>d. en_get_deployment (ce_env (ke_claim ke)) (take i h) deployment_id environment True = Inr (Some d)
             \<and> dr_status d = Successful))"

lemma in_progress_result:
  assumes "is_deployment_in_progress en did environment False True s = (Ok (p, job, st, depl), s')"
  shows "w_calls s' = w_calls s @ [Get_Deployment did environment True]
    \<and> (case en_get_deployment en (w_calls s) did environment True of
         Inr (Some d) \<Rightarrow> p = is_busy (dr_status d) \<and> st = status_str (dr_status d) \<and> depl = Some d
       | _ \<Rightarrow> \<not> p \<and> st = [] \<and> depl = None)"
  using assms
  by (auto simp: is_deployment_in_progress_def bnd_Ok Let_def split: sum.splits option.splits if_splits)

lemma grows_patch: "grows (patch_finalizers ke api ns name fs)"
  unfolding patch_finalizers_def kube_patch_def by (intro logs_intros logs_ask) simp

lemma grows_finished: "grows (destroy_finished ke api name resource st depl)"
  unfolding destroy_finished_def release_resource_def
  by (intro logs_intros grows_patch passing.checks_quiet passing.updates_quiet passing.failures_quiet)

lemma finished_releases:
  assumes "destroy_finished ke api name resource st depl s = (r, s')"
    and "j < length (w_calls s')" "length (w_calls s) \<le> j" "releases (w_calls s' ! j)"
  shows "st = ''successful''"
proof (rule ccontr)
  assume "st \<noteq> ''successful''"
  then have "never releases (destroy_finished ke api name resource st depl)"
    unfolding destroy_finished_def release_resource_def by (simp only: if_False) (intro releasing.pass_intros releasing.checks_quiet releasing.failures_quiet)
  from extends_never [OF logsD [OF this assms(1)] assms(2,3)] assms(4) show False by simp
qed

lemma with_kube_err_run:
  "with_kube_err m (\<lambda>a. ret (Inr (f a))) s
     = (case m s of
          (Ok a, s') \<Rightarrow> (Ok (Inr (f a)), s') | (Err e, s') \<Rightarrow> (Ok (Inl (Service_Error e)), s')
        | (Panic e, s') \<Rightarrow> (Panic e, s') | (Exit, s') \<Rightarrow> (Exit, s'))"
  by (auto simp: with_kube_err_def attempt_def bnd_def to_kube_err_def split: prod.splits outcome.splits)

lemma with_kube_err_calls:
  "with_kube_err m (\<lambda>a. ret (Inr (f a))) s = (r, s') \<Longrightarrow> \<exists>r'. m s = (r', s')"
  by (cases "m s") (auto simp: with_kube_err_run split: outcome.splits)

text \<open>Which part of a pass made a releasing call.\<close>

lemma release_from_deletion:
  assumes run: "reconcile ke kind resource s = (r, s')"
    and j: "j < length (w_calls s')" "length (w_calls s) \<le> j" "releases (w_calls s' ! j)"
  obtains r' where "ko_deleting resource"
    "handle_resource_deletion_nonblocking ke resource (get_api_resource kind) (environment_of ke resource) s = (r', s')"
proof -
  have quiet: False if "never releases m" "m s = (x, s')" for m :: "'x job_eff" and x
    using extends_never [OF logsD [OF that] j(1,2)] j(3) by simp
  have silent: False if "s' = s" using j that by simp
  note err = with_kube_err_calls [where f = "\<lambda>a. a" and s = s] with_kube_err_calls [where f = "\<lambda>_. Requeue 1" and s = s]
  note parts = err [of _ r s'] quiet [OF add_finalizer_keeps] quiet [OF reconcile_keeps] silent
  show thesis
  proof (cases "ko_name resource")
    case (Some name)
    show thesis
    proof (cases "ko_deleting resource")
      case True
      with run Some parts that show thesis
        by (cases "FINALIZER_NAME \<in> set (ko_finalizers resource)") (fastforce simp: reconcile_def Let_def)+
    next
      case False
      with run Some parts show thesis
        by (cases "FINALIZER_NAME \<in> set (ko_finalizers resource)") (fastforce simp: reconcile_def Let_def)+
    qed
  qed (use run silent in \<open>simp add: reconcile_def\<close>)
qed

lemma grows_deletion:
  "grows (if in_progress then bnd (update_time_of ke depl) (\<lambda>t. seq (update_resource_status ke resource api st t l job_id) (ret (Requeue 30)))
          else destroy_finished ke api name resource depl_status depl)"
  by (intro logs_intros grows_finished passing.checks_quiet passing.updates_quiet)

text \<open>
  C3: infrastructure outlives no resource. The finalizer is taken from a resource only while the
  resource is being deleted and its status names a destroy job, and only after the deployment was
  read, in the same pass, as successful.
\<close>

theorem released_after_destroy:
  assumes run: "reconcile ke kind resource s = (r, s')"
    and j: "length (w_calls s) \<le> j" "j < length (w_calls s')" "releases (w_calls s' ! j)"
  shows "ko_deleting resource \<and> contains_str (status_text resource ''resourceStatus'') ''Delete''
    \<and> status_text resource ''jobId'' \<noteq> []
    \<and> read_successful ke (length (w_calls s)) (status_text resource ''deploymentId'')
        (environment_of ke resource) (take j (w_calls s'))"
proof -
  let ?api = "get_api_resource kind" and ?did = "status_text resource ''deploymentId''"
  let ?env = "environment_of ke resource"
  have quiet: False if "never releases m" "m s1 = (x, s')" "length (w_calls s1) \<le> j" for m :: "'x job_eff" and x s1
    using extends_never [OF logsD [OF that(1,2)] j(2) that(3)] j(3) by simp
  obtain r' where del: "ko_deleting resource"
    and h: "handle_resource_deletion_nonblocking ke resource ?api ?env s = (r', s')"
    using release_from_deletion [OF run j(2,1,3)] by blast
  obtain name where name: "ko_name resource = Some name"
    using h quiet [OF logs_panic _ j(1)]
    by (cases "ko_name resource") (auto simp: handle_resource_deletion_nonblocking_def unwrap_name_def bnd_def)
  note h' = h [unfolded handle_resource_deletion_nonblocking_def unwrap_name_def name Let_def]
  show ?thesis
  proof (cases "\<not> contains_str (status_text resource ''resourceStatus'') ''Delete'' \<or> status_text resource ''jobId'' = []")
    case True
    with h' have "start_destroy ke ?api name ?env resource s = (r', s')" by (simp add: bnd_def)
    with quiet [OF start_destroy_keeps _ j(1)] show ?thesis by blast
  next
    case False
    let ?rest = "\<lambda>(in_progress, x, depl_status, depl).
         if in_progress
         then bnd (update_time_of ke depl) (\<lambda>update_time.
              seq (update_resource_status ke resource ?api ''Delete - in progress'' update_time
                     (status_logs resource ''Destroying resources'') (status_text resource ''jobId''))
                (ret (Requeue 30)))
         else destroy_finished ke ?api name resource depl_status depl"
    let ?check = "\<lambda>age. if \<not> should_do_full_check age then update_logs ke ?api (namespace_or_default resource) name (status_text resource ''jobId'')
       else bnd (is_deployment_in_progress (ce_env (ke_claim ke)) ?did ?env False True) ?rest"
    have gr: "grows (?rest x)" for x :: "bool \<times> string \<times> string \<times> deployment_resp option"
      by (cases x) (simp only: prod.case, rule grows_deletion)
    have gc: "grows (?check age)" for age
      by (intro logs_intros gr passing.checks_quiet passing.in_progress_quiet)
    from h' False have "bnd (seconds_since_check ke resource) ?check s = (r', s')" by (simp add: bnd_def)
    from reach_bnd [OF this releasing.checks_quiet(1) gc j(2,1,3)] obtain age s1 where
      s1: "?check age s1 = (r', s')" "length (w_calls s) \<le> length (w_calls s1)" "length (w_calls s1) \<le> j" by blast
    have "should_do_full_check age"
      using s1(1) quiet [OF releasing.checks_quiet(2) _ s1(3)] by (auto split: if_splits)
    with s1 have "bnd (is_deployment_in_progress (ce_env (ke_claim ke)) ?did ?env False True) ?rest s1 = (r', s')" by simp
    from reach_bnd [OF this releasing.in_progress_quiet gr j(2) s1(3) j(3)] obtain x s2 cs where
      i: "is_deployment_in_progress (ce_env (ke_claim ke)) ?did ?env False True s1 = (Ok x, s2)"
      and fin: "?rest x s2 = (r', s')" "length (w_calls s2) \<le> j" "w_calls s' = w_calls s2 @ cs" by blast
    obtain p job st depl where x: "x = (p, job, st, depl)" by (cases x)
    note i = in_progress_result [OF i [unfolded x]]
    have "\<not> p"
    proof
      assume p
      with fin(1) have "bnd (update_time_of ke depl) (\<lambda>update_time.
              seq (update_resource_status ke resource ?api ''Delete - in progress'' update_time
                     (status_logs resource ''Destroying resources'') (status_text resource ''jobId''))
                (ret (Requeue 30))) s2 = (r', s')" by (simp add: x)
      from quiet [OF releasing.progress_quiet this fin(2)] show False .
    qed
    with fin(1) have "destroy_finished ke ?api name resource st depl s2 = (r', s')" by (simp add: x)
    from finished_releases [OF this j(2) fin(2) j(3)] have "st = status_str Successful" by simp
    with i obtain d where "en_get_deployment (ce_env (ke_claim ke)) (w_calls s1) ?did ?env True = Inr (Some d)" "dr_status d = Successful"
      by (auto split: sum.splits option.splits simp del: status_str.simps simp: inj_status_str)
        (simp_all)
    with i fin(2,3) s1(2) have "read_successful ke (length (w_calls s)) ?did ?env (take j (w_calls s'))"
      unfolding read_successful_def by (intro exI [of _ "length (w_calls s1)"]) (auto simp: nth_append)
    with False del show ?thesis by blast
  qed
qed

section \<open>When a pass comes back\<close>

text \<open>\<open>yields Q m\<close>: a value that \<open>m\<close> returns satisfies \<open>Q\<close>.\<close>

definition yields :: "('a \<Rightarrow> bool) \<Rightarrow> ('s, 'a) eff \<Rightarrow> bool" where
  "yields Q m \<longleftrightarrow> (\<forall>s a s'. m s = (Ok a, s') \<longrightarrow> Q a)"

named_theorems yields_intros \<open>one rule per combinator\<close>

lemma yields_bnd: "yields R m \<Longrightarrow> (\<And>a. R a \<Longrightarrow> yields Q (f a)) \<Longrightarrow> yields Q (bnd m f)"
  unfolding yields_def bnd_Ok by blast

lemma yields_rules [yields_intros]:
  "Q a \<Longrightarrow> yields Q (ret a)" "yields Q (fail e)" "yields Q (panic e)" "yields Q n \<Longrightarrow> yields Q (seq m0 n)"
  "(b \<Longrightarrow> yields Q m) \<Longrightarrow> (\<not> b \<Longrightarrow> yields Q m') \<Longrightarrow> yields Q (if b then m else m')" "yields Q (g x) \<Longrightarrow> yields Q (Let x g)"
  "(v = None \<Longrightarrow> yields Q m) \<Longrightarrow> (\<And>x. v = Some x \<Longrightarrow> yields Q (k x)) \<Longrightarrow> yields Q (case v of None \<Rightarrow> m | Some x \<Rightarrow> k x)"
  "(\<And>x y. p = (x, y) \<Longrightarrow> yields Q (q x y)) \<Longrightarrow> yields Q (case p of (x, y) \<Rightarrow> q x y)"
  "(\<And>e. r = Inl e \<Longrightarrow> yields Q (f e)) \<Longrightarrow> (\<And>a. r = Inr a \<Longrightarrow> yields Q (h a)) \<Longrightarrow> yields Q (case r of Inl e \<Rightarrow> f e | Inr a \<Rightarrow> h a)"
  by (auto simp: yields_def seq_def bnd_Ok ret_def fail_def panic_def split: option.splits prod.splits sum.splits)

lemma yields_any [yields_intros]: "(\<And>a. yields Q (f a)) \<Longrightarrow> yields Q (bnd m f)"
  unfolding yields_def bnd_Ok by blast

text \<open>A delay of at least a second and at most a day.\<close>

definition timely :: "action \<Rightarrow> bool" where
  "timely a \<longleftrightarrow> (case a of Requeue n \<Rightarrow> 0 < n \<and> n \<le> 24 * 60 * 60 | Await_Change \<Rightarrow> True)"

lemma timely_const: "timely Await_Change" "timely (Requeue 1)" "timely (Requeue 5)" "timely (Requeue 10)"
  "timely (Requeue 30)" "timely (Requeue (24 * 60 * 60))"
  by (simp_all add: timely_def)

lemma backoff_values: "backoff 0 = 600" "backoff 1 = 1200" "backoff 2 = 2400"
  by (simp_all add: backoff_def)

lemma timely_backoff:
  assumes "0 \<le> n" "n < MAX_RETRIES"
  shows "timely (Requeue (backoff n))"
proof -
  have "n = 0 \<or> n = 1 \<or> n = 2" using assms by (auto simp: MAX_RETRIES_def)
  then show ?thesis by (auto simp: timely_def backoff_values)
qed

lemma timely_cooling:
  assumes "\<not> twenty_four_hours_ms \<le> now - since"
  shows "timely (cooling_down now since)"
proof -
  define x where "x = now - since"
  have x: "x < 86400000" using assms by (simp add: x_def twenty_four_hours_ms_def not_le)
  then have "unat (86400000 - x) \<le> 86400000"
    by (simp add: unat_sub word_less_nat_alt word_le_nat_alt)
  then have "unat ((86400000 - x) div 1000) \<le> 86400"
    by (simp add: unat_div)
  then have "(86400000 - x) div 1000 \<le> 86400" by (simp add: word_le_nat_alt)
  moreover have "(60::64 word) \<le> max ((86400000 - x) div 1000) 60" by simp
  then have "0 < max ((86400000 - x) div 1000) (60::64 word)"
    by (rule less_le_trans [rotated]) simp
  ultimately show ?thesis
    by (simp add: timely_def cooling_down_def x_def twenty_four_hours_ms_def Let_def)
qed

lemma failures_timely:
  "0 \<le> status_int fresh ''retryCount'' \<Longrightarrow> yields timely (apply_failed ke obj fresh api st t msg job_id)"
  "0 \<le> status_int obj ''retryCount'' \<Longrightarrow> yields timely (destroy_failed ke obj api st t msg job_id)"
  unfolding apply_failed_def destroy_failed_def
  by - (intro yields_intros timely_const timely_backoff timely_cooling, assumption+)+

lemma parts_timely:
  "yields timely (clear_stuck ke api name fresh)" "yields timely (start_apply ke api environment fresh)"
  "yields timely (reconcile_idle ke api name environment fresh)" "yields timely (update_logs ke api ns name job_id)"
  "yields timely (start_destroy ke api name environment resource)"
  unfolding reconcile_idle_def clear_stuck_def start_apply_def update_logs_def start_destroy_def
  by (intro yields_intros timely_const)+

lemma running_timely:
  "0 \<le> status_int fresh ''retryCount'' \<Longrightarrow> yields timely (reconcile_running ke api name environment resource fresh)"
  unfolding reconcile_running_def apply_finished_def apply_done_def
  by (intro yields_intros timely_const parts_timely failures_timely)

lemma kube_get_yields:
  assumes "\<And>h url obj. ke_get ke h url = Inr obj \<Longrightarrow> Q obj"
  shows "yields Q (kube_get ke url)"
  using assms by (auto simp: yields_def kube_get_def bnd_Ok unwrap_Ok)

lemma reconcile_nonblocking_timely:
  assumes "\<And>h url obj. ke_get ke h url = Inr obj \<Longrightarrow> 0 \<le> status_int obj ''retryCount''"
  shows "yields timely (reconcile_resource_nonblocking ke resource api environment)"
  unfolding reconcile_resource_nonblocking_def
  by (rule yields_any, rule yields_bnd [OF kube_get_yields [OF assms]])
    (assumption, intro yields_intros parts_timely running_timely)

lemma deletion_timely:
  "0 \<le> status_int resource ''retryCount'' \<Longrightarrow> yields timely (handle_resource_deletion_nonblocking ke resource api environment)"
  unfolding handle_resource_deletion_nonblocking_def destroy_finished_def release_resource_def
  by (intro yields_intros timely_const parts_timely failures_timely)

lemma yields_kube_err:
  "yields (\<lambda>a. timely (f a)) m \<Longrightarrow> yields (\<lambda>r. timely (next_action r)) (with_kube_err m (\<lambda>a. ret (Inr (f a))))"
  unfolding with_kube_err_run yields_def
  by (auto simp: next_action_def error_policy_def timely_const split: prod.splits outcome.splits)

text \<open>
  C36: the controller never spins and never sleeps for more than a day. After every pass, a failed one
  included, the resource is either left until it changes or looked at again after at least one
  second and at most 24 hours, provided the retry counts are not negative.
\<close>

theorem next_pass_timely:
  assumes "\<And>h url obj. ke_get ke h url = Inr obj \<Longrightarrow> 0 \<le> status_int obj ''retryCount''"
    and "0 \<le> status_int resource ''retryCount''"
  shows "reconcile ke kind resource s = (Ok r, s') \<Longrightarrow> timely (next_action r)"
proof -
  have "yields (\<lambda>r. timely (next_action r)) (reconcile ke kind resource)"
    unfolding reconcile_def
    by (intro yields_intros yields_kube_err [where f = "\<lambda>a. a"] yields_kube_err [where f = "\<lambda>_. Requeue 1"]
        deletion_timely reconcile_nonblocking_timely assms)
      (simp_all add: next_action_def error_policy_def to_kube_err_def timely_const yields_def)
  then show "reconcile ke kind resource s = (Ok r, s') \<Longrightarrow> timely (next_action r)"
    unfolding yields_def by blast
qed

section \<open>When a job is started\<close>

text \<open>A watched call made by a sequence whose second part makes none is made by the first part.\<close>

lemma reach_first:
  assumes run: "bnd m f s = (r, s')" and rest: "\<And>a. never W (f a)"
    and j: "j < length (w_calls s')" "W (w_calls s' ! j)"
  obtains r1 s1 cs where "m s = (r1, s1)" "j < length (w_calls s1)" "w_calls s' = w_calls s1 @ cs"
proof -
  obtain o1 s1 where m: "m s = (o1, s1)" by (cases "m s")
  have e: "extends (\<lambda>_ c. \<not> W c) (w_calls s1) (w_calls s')"
    using run m logsD [OF rest] by (cases o1) (auto simp: bnd_def)
  then obtain cs where cs: "w_calls s' = w_calls s1 @ cs" by (auto simp: extends_def)
  have "j < length (w_calls s1)"
    using extends_never [OF e j(1)] j(2) by (meson not_le)
  with m cs that show thesis by blast
qed

lemma attempt_state: "attempt m s = (r, s') \<Longrightarrow> \<exists>r'. m s = (r', s')"
  by (cases "m s") (auto simp: attempt_def split: outcome.splits)

text \<open>
  What a started job is, given the history before it: the runner gets the payload of the claim of a
  resource, which had been accepted and whose deployment was free.
\<close>

definition accepted_start :: "kube_env \<Rightarrow> string \<Rightarrow> k8s_object \<Rightarrow> string \<Rightarrow> call list \<Rightarrow> call \<Rightarrow> bool" where
  "accepted_start ke command obj environment h c \<longleftrightarrow> (\<exists>yaml (pv :: payload_with_variables) v.
     ke_yaml ke obj = Inr yaml \<and> accepted_claim (ke_claim ke) yaml environment pv h
     \<and> deployment_free (ce_env (ke_claim ke)) (pv_payload pv) h \<and> payload_json (pv_payload pv) = Some v
     \<and> c = Run_Function (start_runner_event v) \<and> pl_command (pv_payload pv) = command
     \<and> pl_environment (pv_payload pv) = environment)"

lemma claim_start_accepted:
  assumes "run_claim (ke_claim ke) yaml environment command flags extra reference s1 = (r1, s2)" "\<not> ce_http (ke_claim ke)"
    and "length (w_calls s1) \<le> j" "j < length (w_calls s2)" "starts_runner (w_calls s' ! j)" "w_calls s' = w_calls s2 @ cs"
    and "ke_yaml ke obj = Inr yaml"
  shows "accepted_start ke command obj environment (take j (w_calls s')) (w_calls s' ! j)"
proof -
  have eq: "w_calls s' ! j = w_calls s2 ! j" "take j (w_calls s') = take j (w_calls s2)"
    using assms(4,6) by (simp_all add: nth_append)
  from run_claim_starts [OF assms(1-4)] assms(5,7) show ?thesis
    unfolding accepted_start_def eq by blast
qed

lemma get_answered: "kube_get ke url s = (Ok obj, s') \<Longrightarrow> ke_get ke (w_calls s) url = Inr obj"
  by (auto simp: kube_get_def bnd_Ok unwrap_Ok)

lemma starting_updates:
  "never starts_runner (bnd (get_timestamp ke) (\<lambda>now. seq (update_resource_status ke obj api st now msg job_id) (ret a)))"
  "never starts_runner (bnd (get_timestamp ke) (\<lambda>now. seq (update_resource_status ke obj api st now msg job_id) (fail e)))"
  by (intro starting.pass_intros starting.kube_quiet starting.updates_quiet)+

lemma yaml_quiet: "never starts_runner (of_result r)" "grows (of_result r)"
  by (rule logs_of_result)+

lemma grows_claim: "grows (run_claim ce yaml environment command flags extra reference)"
  using free_calls.claim_allowed by simp

lemma start_destroy_starts:
  assumes "start_destroy ke api name environment resource s = (r, s')" "\<not> ce_http (ke_claim ke)"
    and j: "length (w_calls s) \<le> j" "j < length (w_calls s')" "starts_runner (w_calls s' ! j)"
  shows "\<exists>fresh. ke_get ke (w_calls s) (object_url api (namespace_or_default resource) name) = Inr fresh
    \<and> accepted_start ke ''destroy'' fresh environment (take j (w_calls s')) (w_calls s' ! j)"
proof -
  let ?upd = "\<lambda>fresh (job_id, x, y). bnd (get_timestamp ke) (\<lambda>now.
     seq (update_resource_status ke fresh api ''Delete - initiated'' now ''Destroy job submitted'' job_id) (ret (Requeue 10)))"
  let ?claim = "\<lambda>fresh yaml. bnd (run_claim (ke_claim ke) yaml environment ''destroy'' [] NoExtra []) (?upd fresh)"
  have q: "never starts_runner (?upd fresh x)" for fresh :: k8s_object and x :: "string \<times> string \<times> payload_with_variables"
    by (cases x) (simp only: prod.case, rule starting_updates)
  have g: "grows (?upd fresh x)" for fresh :: k8s_object and x :: "string \<times> string \<times> payload_with_variables"
    by (cases x) (simp only: prod.case, intro passing.pass_intros passing.kube_quiet passing.updates_quiet)
  note rest = logs_bnd [OF grows_claim g]
  note run = assms(1) [unfolded start_destroy_def]
  from reach_bnd [OF run starting.kube_quiet(1) logs_bnd [OF yaml_quiet(2) rest] j(2,1,3)]
  obtain fresh s1 where get: "kube_get ke (object_url api (namespace_or_default resource) name) s = (Ok fresh, s1)"
    and s1: "bnd (of_result (ke_yaml ke fresh)) (?claim fresh) s1 = (r, s')" "length (w_calls s1) \<le> j" by blast
  from reach_bnd [OF s1(1) yaml_quiet(1) rest j(2) s1(2) j(3)]
  obtain yaml s2 where y: "of_result (ke_yaml ke fresh) s1 = (Ok yaml, s2)"
    and s2: "?claim fresh yaml s2 = (r, s')" "length (w_calls s2) \<le> j" by blast
  from y have yaml: "ke_yaml ke fresh = Inr yaml" by (simp add: unwrap_Ok)
  from reach_first [OF s2(1) q j(2,3)] obtain r3 s3 cs where
    "run_claim (ke_claim ke) yaml environment ''destroy'' [] NoExtra [] s2 = (r3, s3)" "j < length (w_calls s3)" "w_calls s' = w_calls s3 @ cs" .
  from claim_start_accepted [OF this(1) assms(2) s2(2) this(2) j(3) this(3) yaml] get_answered [OF get] show ?thesis by blast
qed

lemma start_apply_starts:
  assumes "start_apply ke api environment fresh s = (r, s')" "\<not> ce_http (ke_claim ke)"
    and j: "length (w_calls s) \<le> j" "j < length (w_calls s')" "starts_runner (w_calls s' ! j)"
  shows "accepted_start ke ''apply'' fresh environment (take j (w_calls s')) (w_calls s' ! j)"
proof -
  let ?upd = "\<lambda>r. bnd (get_timestamp ke) (\<lambda>now.
     case r of
       Inr (job_id, x, y) \<Rightarrow>
         seq (update_resource_status ke fresh api ''Apply - initiated'' now ''Job submitted successfully'' job_id) (ret (Requeue 10))
     | Inl e \<Rightarrow>
         seq (update_resource_status ke fresh api ''Apply - failed'' now (''Failed to start job: '' @ e) []) (fail e))"
  let ?claim = "\<lambda>yaml. attempt (run_claim (ke_claim ke) yaml environment ''apply'' [] NoExtra [])"
  have q: "never starts_runner (?upd x)" for x :: "(string, string \<times> string \<times> payload_with_variables) result"
    by (intro starting.pass_intros starting.kube_quiet starting.updates_quiet)
  have g: "grows (?upd x)" for x :: "(string, string \<times> string \<times> payload_with_variables) result"
    by (intro passing.pass_intros passing.kube_quiet passing.updates_quiet)
  have rest: "grows (bnd (?claim yaml) ?upd)" for yaml
    by (intro logs_bnd logs_attempt grows_claim g)
  from reach_bnd [OF assms(1) [unfolded start_apply_def] yaml_quiet(1) rest j(2,1,3)]
  obtain yaml s2 where y: "of_result (ke_yaml ke fresh) s = (Ok yaml, s2)"
    and s2: "bnd (?claim yaml) ?upd s2 = (r, s')" "length (w_calls s2) \<le> j" by blast
  from y have yaml: "ke_yaml ke fresh = Inr yaml" by (simp add: unwrap_Ok)
  from reach_first [OF s2(1) q j(2,3)] obtain r3 s3 cs where
    c: "?claim yaml s2 = (r3, s3)" "j < length (w_calls s3)" "w_calls s' = w_calls s3 @ cs" .
  from attempt_state [OF c(1)] obtain r4 where
    "run_claim (ke_claim ke) yaml environment ''apply'' [] NoExtra [] s2 = (r4, s3)" by blast
  from claim_start_accepted [OF this assms(2) s2(2) c(2) j(3) c(3) yaml] show ?thesis .
qed

text \<open>
  Whether the status lets a pass start a job: an apply needs a resource without a job whose
  specification has changed since the last update of the status, a destroy one without a destroy job.
\<close>

definition may_apply :: "k8s_object \<Rightarrow> bool" where
  "may_apply fresh \<longleftrightarrow> status_text fresh ''jobId'' = [] \<and> \<not> is_stuck (status_text fresh ''resourceStatus'')
     \<and> \<not> (status_int fresh ''lastGeneration'' = generation_of fresh \<and> 0 < status_int fresh ''lastGeneration'')"

definition may_destroy :: "k8s_object \<Rightarrow> bool" where
  "may_destroy resource \<longleftrightarrow>
     \<not> contains_str (status_text resource ''resourceStatus'') ''Delete'' \<or> status_text resource ''jobId'' = []"

lemma grows_reconcile_parts:
  "grows (if status_text fresh ''jobId'' = [] then reconcile_idle ke api name environment fresh
          else reconcile_running ke api name environment resource fresh)"
proof -
  have "grows (start_apply ke api environment fresh)"
    unfolding start_apply_def
    by (intro passing.pass_intros passing.kube_quiet passing.updates_quiet grows_claim)
  then show ?thesis
    unfolding reconcile_idle_def by (intro passing.pass_intros passing.running_quiet)
qed

lemma apply_pass_starts:
  assumes run: "reconcile_resource_nonblocking ke resource api environment s = (r, s')" and http: "\<not> ce_http (ke_claim ke)"
    and j: "length (w_calls s) \<le> j" "j < length (w_calls s')" "starts_runner (w_calls s' ! j)" and name: "ko_name resource = Some name"
  shows "\<exists>fresh. ke_get ke (w_calls s) (object_url api (namespace_or_default resource) name) = Inr fresh \<and> may_apply fresh
    \<and> accepted_start ke ''apply'' fresh environment (take j (w_calls s')) (w_calls s' ! j)"
proof -
  have quiet: False if "never starts_runner m" "m s1 = (x, s')" "length (w_calls s1) \<le> j" for m :: "'x job_eff" and x s1
    using extends_never [OF logsD [OF that(1,2)] j(2) that(3)] j(3) by simp
  let ?get = "kube_get ke (object_url api (namespace_or_default resource) name)"
  let ?rest = "\<lambda>fresh. if status_text fresh ''jobId'' = [] then reconcile_idle ke api name environment fresh
          else reconcile_running ke api name environment resource fresh"
  have "bnd ?get ?rest s = (r, s')"
    using run by (simp add: reconcile_resource_nonblocking_def unwrap_name_def name bnd_def)
  from reach_bnd [OF this starting.kube_quiet(1) grows_reconcile_parts j(2,1,3)]
  obtain fresh s1 where get: "?get s = (Ok fresh, s1)" and rest: "?rest fresh s1 = (r, s')" and len: "length (w_calls s1) \<le> j"
    by blast
  note fresh = get_answered [OF get]
  have id: "status_text fresh ''jobId'' = []" using rest quiet [OF starting.running_quiet(2) _ len] by (auto split: if_splits)
  then have idle: "reconcile_idle ke api name environment fresh s1 = (r, s')" using rest by simp
  then have may: "may_apply fresh" using id quiet [OF starting.running_quiet(1) _ len] quiet [OF logs_ret _ len]
    by (auto simp: reconcile_idle_def may_apply_def Let_def split: if_splits)
  then have "start_apply ke api environment fresh s1 = (r, s')"
    using idle by (auto simp: reconcile_idle_def may_apply_def Let_def split: if_splits)
  from start_apply_starts [OF this http len j(2,3)] fresh may show ?thesis by blast
qed

lemma destroy_pass_starts:
  assumes run: "handle_resource_deletion_nonblocking ke resource api environment s = (r, s')" and http: "\<not> ce_http (ke_claim ke)"
    and j: "length (w_calls s) \<le> j" "j < length (w_calls s')" "starts_runner (w_calls s' ! j)" and name: "ko_name resource = Some name"
  shows "may_destroy resource \<and> (\<exists>fresh. ke_get ke (w_calls s) (object_url api (namespace_or_default resource) name) = Inr fresh
    \<and> accepted_start ke ''destroy'' fresh environment (take j (w_calls s')) (w_calls s' ! j))"
proof (cases "may_destroy resource")
  case True
  then have "start_destroy ke api name environment resource s = (r, s')"
    using run by (simp add: handle_resource_deletion_nonblocking_def unwrap_name_def name bnd_def may_destroy_def Let_def)
  from start_destroy_starts [OF this http j] True show ?thesis by blast
next
  case False
  have fin: "never starts_runner (patch_finalizers ke api ns n fs)" for ns n fs
    unfolding patch_finalizers_def kube_patch_def by (intro logs_intros starting.never_ask) (simp add: starts_runner_def)
  have never: "never starts_runner (if may_destroy resource then ret Await_Change else handle_resource_deletion_nonblocking ke resource api environment)"
    unfolding handle_resource_deletion_nonblocking_def unwrap_name_def name destroy_finished_def release_resource_def
    using False fin
    by (auto simp: may_destroy_def Let_def intro!: starting.pass_intros starting.kube_quiet starting.updates_quiet
        starting.checks_quiet starting.in_progress_quiet starting.failures_quiet)
  have "(if may_destroy resource then ret Await_Change else handle_resource_deletion_nonblocking ke resource api environment) s = (r, s')"
    using False run by simp
  from extends_never [OF logsD [OF never this] j(2,1)] j(3) show ?thesis by simp
qed


section \<open>A destroy that ended otherwise\<close>

text \<open>
  A destroy can also end in one of the other failures, for example because the deployment has
  dependents. Such a resource keeps its finalizer and its job id, and nobody looks at it again
  until it changes.
\<close>

lemma destroy_left_alone:
  assumes "destroy_finished ke api name resource (status_str st) depl s = (Ok a, s')" "st \<notin> {Successful, Failed, Error}"
  shows "a = Await_Change \<and> (w_calls s' = w_calls s \<or> w_calls s' = w_calls s @ [Timestamp])"
proof -
  have "status_str st \<noteq> ''successful''" "status_str st \<noteq> ''failed''" "status_str st \<noteq> ''error''"
    using assms(2) by (cases st; simp)+
  with assms(1) show ?thesis
    by (auto simp: destroy_finished_def release_resource_def bnd_Ok Let_def seq_Ok update_time_of_def get_timestamp_def epoch_to_timestamp_def unwrap_Ok
        split: option.splits)
qed

end
