(* ===== verification/Operator_Retry.thy ===== *)
theory Operator_Retry
  imports Operator_Properties
begin

text \<open>
  Two passes in a row. What a pass writes into the status of a resource is what the next pass
  reads, so the effect of a retry depends on both. The Kubernetes API stays a parameter; that it
  serves what was patched is a hypothesis.
\<close>

section \<open>What the next pass reads\<close>

text \<open>The value that the last accepted status patch with this field gave it; the history is reversed.\<close>

fun patched :: "kube_env \<Rightarrow> string \<Rightarrow> string \<Rightarrow> call list \<Rightarrow> json option" where
  "patched ke url key (Http u p # cs) =
     (if u = ''PATCH '' @ url @ ''/status'' \<and> is_ok (ke_patch ke (rev cs) (url @ ''/status'') p)
      then (case Option.bind (jget p ''status'') (\<lambda>s. jget s key) of
              Some v \<Rightarrow> Some v
            | None \<Rightarrow> patched ke url key cs)
      else patched ke url key cs)"
| "patched ke url key (_ # cs) = patched ke url key cs"
| "patched ke url key [] = None"

text \<open>A resource that is read has the fields that were patched; a null removes a field.\<close>

definition serves_patches :: "kube_env \<Rightarrow> bool" where
  "serves_patches ke \<longleftrightarrow> (\<forall>h url obj key v. ke_get ke h url = Inr obj \<longrightarrow> patched ke url key (rev h) = Some v \<longrightarrow>
     status_value obj key = (if v = JNull then None else Some v))"

lemma served:
  assumes "serves_patches ke" "ke_get ke h url = Inr obj" "patched ke url key (rev h) = Some (JString t)"
  shows "status_text obj key = t"
  using assms unfolding serves_patches_def by (simp add: status_text_def)

lemma served_int:
  assumes "serves_patches ke" "ke_get ke h url = Inr obj" "patched ke url key (rev h) = Some (i64_number g)"
    and "0 \<le> g" "g < 2 ^ 63"
  shows "status_int obj key = g"
proof -
  have "status_value obj key = Some (i64_number g)"
    using assms(1-3) unfolding serves_patches_def by (simp add: i64_number_def split: if_splits)
  moreover have "uint (of_int g :: 64 word) = g"
    using assms(4,5) by (simp add: uint_word_of_int)
  ultimately show ?thesis using assms(4,5) by (simp add: status_int_def i64_number_def)
qed

section \<open>The writes of a failed apply\<close>

definition status_fields :: "k8s_object \<Rightarrow> api_resource \<Rightarrow> string \<Rightarrow> string \<Rightarrow> string \<Rightarrow> string \<Rightarrow> string \<Rightarrow> string \<Rightarrow> (string \<times> json) list" where
  "status_fields resource api name now status event message job_id =
     [(''resourceStatus'', JString status), (''lastDeploymentEvent'', JString event), (''lastCheck'', JString now),
      (''jobId'', JString job_id), (''deploymentId'', JString (to_lowercase (ar_kind api) @ ''/'' @ name)),
      (''lastGeneration'', i64_number (generation_of resource)), (''logs'', JString message),
      (''retryCount'', i64_number (status_int resource ''retryCount''))]"

lemma kube_patch_Ok:
  "kube_patch ke url p s = (Ok u, s') \<longleftrightarrow>
     ke_patch ke (w_calls s) url p = Inr () \<and> s' = w_calls_update (\<lambda>cs. cs @ [Http (''PATCH '' @ url) p]) s"
  by (auto simp: kube_patch_def bnd_Ok unwrap_Ok simp del: append_Cons)

lemma update_status_writes:
  assumes "update_resource_status ke resource api status event message job_id s = (Ok u, s')" "ko_name resource = Some name"
  defines "url \<equiv> object_url api (namespace_or_default resource) name"
  shows "\<exists>now. let p = jobj [(''status'', jobj (status_fields resource api name now status event message job_id))] in
    w_calls s' = w_calls s @ [Timestamp, Http (''PATCH '' @ url @ ''/status'') p, Http (''GET '' @ url) JNull]
    \<and> ke_patch ke (w_calls s @ [Timestamp]) (url @ ''/status'') p = Inr ()"
  using assms(1,2)
  by (auto simp: update_resource_status_def unwrap_name_def get_timestamp_def bnd_Ok seq_Ok patch_status_def kube_patch_Ok
      kube_get_def unwrap_Ok Let_def url_def status_fields_def generation_of_def simp del: append_Cons)

lemma update_retry_writes:
  assumes "update_retry_count ke resource api n s = (Ok u, s')" "ko_name resource = Some name"
  defines "url \<equiv> object_url api (namespace_or_default resource) name"
  defines "p \<equiv> jobj [(''status'', jobj [(''retryCount'', i64_number n), (''jobId'', JString [])])]"
  shows "w_calls s' = w_calls s @ [Http (''PATCH '' @ url @ ''/status'') p] \<and> ke_patch ke (w_calls s) (url @ ''/status'') p = Inr ()"
  using assms(1,2)
  by (auto simp: update_retry_count_def unwrap_name_def bnd_Ok patch_status_def kube_patch_Ok unwrap_Ok url_def p_def
      simp del: append_Cons)

lemma get_is_not_patch: "''GET '' @ u \<noteq> ''PATCH '' @ v"
  by simp

text \<open>The status after a failed apply that may be tried again.\<close>

lemma failed_status:
  assumes run: "apply_failed ke resource fresh api st event message job_id s = (Ok a, s')"
    and retry: "status_int fresh ''retryCount'' < MAX_RETRIES" and name: "ko_name resource = Some name"
  defines "url \<equiv> object_url api (namespace_or_default resource) name"
  shows "a = Requeue (backoff (status_int fresh ''retryCount''))"
    and "patched ke url ''jobId'' (rev (w_calls s')) = Some (JString [])"
    and "patched ke url ''resourceStatus'' (rev (w_calls s')) = Some (JString (''Apply - '' @ st))"
    and "patched ke url ''lastGeneration'' (rev (w_calls s')) = Some (i64_number (generation_of resource))"
    and "patched ke url ''retryCount'' (rev (w_calls s')) = Some (i64_number (status_int fresh ''retryCount'' + 1))"
proof -
  obtain s1 where one: "update_resource_status ke resource api (''Apply - '' @ st) event message job_id s = (Ok (), s1)"
    and two: "update_retry_count ke resource api (status_int fresh ''retryCount'' + 1) s1 = (Ok (), s')"
    and a: "a = Requeue (backoff (status_int fresh ''retryCount''))"
    using run retry by (auto simp: apply_failed_def Let_def seq_Ok)
  show "a = Requeue (backoff (status_int fresh ''retryCount''))" by (rule a)
  from update_status_writes [OF one name] obtain now where
    w1: "w_calls s1 = w_calls s @ [Timestamp, Http (''PATCH '' @ url @ ''/status'')
      (jobj [(''status'', jobj (status_fields resource api name now (''Apply - '' @ st) event message job_id))]), Http (''GET '' @ url) JNull]"
    and p1: "ke_patch ke (w_calls s @ [Timestamp]) (url @ ''/status'')
      (jobj [(''status'', jobj (status_fields resource api name now (''Apply - '' @ st) event message job_id))]) = Inr ()"
    unfolding url_def Let_def by blast
  note w2 = update_retry_writes [OF two name, folded url_def]
  note sim = w1 w2 p1 jget_jobj status_fields_def get_is_not_patch
  show "patched ke url ''jobId'' (rev (w_calls s')) = Some (JString [])"
    "patched ke url ''resourceStatus'' (rev (w_calls s')) = Some (JString (''Apply - '' @ st))"
    "patched ke url ''lastGeneration'' (rev (w_calls s')) = Some (i64_number (generation_of resource))"
    "patched ke url ''retryCount'' (rev (w_calls s')) = Some (i64_number (status_int fresh ''retryCount'' + 1))"
    using w2 p1 by (simp_all add: w1 jget_jobj status_fields_def)
qed

lemma not_stuck_failed: "\<not> is_stuck (''Apply - '' @ ''failed'')" "\<not> is_stuck (''Apply - '' @ ''error'')"
  by (simp_all add: is_stuck_def starts_with_def)

text \<open>A pass over a resource without a job whose specification has not changed only reads it.\<close>

lemma settled_pass:
  assumes "\<not> ko_deleting resource" "FINALIZER_NAME \<in> set (ko_finalizers resource)" "ko_name resource = Some name"
    and get: "ke_get ke (w_calls s) (object_url (get_api_resource kind) (namespace_or_default resource) name) = Inr fresh"
    and "status_text fresh ''jobId'' = []" "\<not> may_apply fresh" "\<not> is_stuck (status_text fresh ''resourceStatus'')"
  shows "reconcile ke kind resource s = (Ok (Inr Await_Change),
    w_calls_update (\<lambda>cs. cs @ [Http (''GET '' @ object_url (get_api_resource kind) (namespace_or_default resource) name) JNull]) s)"
proof -
  have "reconcile_idle ke (get_api_resource kind) name (environment_of ke resource) fresh t = (Ok Await_Change, t)" for t
    using assms(5-7) by (auto simp: reconcile_idle_def may_apply_def Let_def)
  then show ?thesis
    using assms(1-5) by (simp add: reconcile_def Let_def with_kube_err_run [where f = "\<lambda>a. a", simplified]
        reconcile_resource_nonblocking_def unwrap_name_def bnd_def kube_get_def)
qed

lemma failed_check:
  assumes run: "reconcile_running ke api name environment resource fresh s = (Ok a, s')"
    and failed: "\<And>h. en_get_deployment (ce_env (ke_claim ke)) h (status_text fresh ''deploymentId'') environment True = Inr (Some d)"
    and st: "dr_status d = Failed \<or> dr_status d = Error"
    and due: "\<And>h t. 25 \<le> ke_seconds_since ke h t"
  shows "\<exists>event message s1. apply_failed ke resource fresh api (status_str (dr_status d)) event message (status_text fresh ''jobId'') s1 = (Ok a, s')"
proof -
  have full: "should_do_full_check age" if "seconds_since_check ke fresh s = (Ok age, s1)" for age s1
    using that due unfolding seconds_since_check_def should_do_full_check_def Let_def
    by (auto simp: bnd_Ok not_less split: if_splits option.splits)
  have "\<exists>s3. apply_finished ke api environment resource fresh (status_str (dr_status d)) (Some d) s3 = (Ok a, s')"
    using run full failed st unfolding reconcile_running_def Let_def
    by (auto simp: bnd_Ok is_deployment_in_progress_def)
  then obtain s3 where "apply_finished ke api environment resource fresh (status_str (dr_status d)) (Some d) s3 = (Ok a, s')" ..
  with st show ?thesis
    unfolding apply_finished_def by (elim disjE) (simp_all add: bnd_Ok Let_def, blast+)
qed

text \<open>
  C35: a failed apply is announced to be retried, and is not. The pass that finds the job failed
  clears the job and asks for another pass after 10, 20 or 40 minutes; but it has also noted the
  current generation as handled, so the next pass finds nothing to do: it reads the resource,
  starts no job, and asks for no further pass.
\<close>

theorem failed_apply_not_retried:
  assumes serves: "serves_patches ke"
    and first: "reconcile ke kind resource s = (Ok (Inr a), s1)"
    and resource: "\<not> ko_deleting resource" "FINALIZER_NAME \<in> set (ko_finalizers resource)" "ko_name resource = Some name"
    and fresh: "ke_get ke (w_calls s) (object_url (get_api_resource kind) (namespace_or_default resource) name) = Inr fresh"
      "status_text fresh ''jobId'' \<noteq> []" "status_int fresh ''retryCount'' < MAX_RETRIES"
    and failed: "\<And>h. en_get_deployment (ce_env (ke_claim ke)) h (status_text fresh ''deploymentId'') (environment_of ke resource) True
      = Inr (Some d)" "dr_status d = Failed \<or> dr_status d = Error"
    and due: "\<And>h t. 25 \<le> ke_seconds_since ke h t"
    and later: "\<not> ko_deleting later" "FINALIZER_NAME \<in> set (ko_finalizers later)" "ko_name later = Some name"
      "namespace_or_default later = namespace_or_default resource"
    and unchanged: "ke_get ke (w_calls s1) (object_url (get_api_resource kind) (namespace_or_default resource) name) = Inr next"
      "generation_of next = generation_of resource" "0 < generation_of resource" "generation_of resource < 2 ^ 63"
  shows "a = Requeue (backoff (status_int fresh ''retryCount''))
    \<and> reconcile ke kind later s1 = (Ok (Inr Await_Change), w_calls_update (\<lambda>cs. cs @
        [Http (''GET '' @ object_url (get_api_resource kind) (namespace_or_default resource) name) JNull]) s1)"
proof -
  let ?api = "get_api_resource kind"
  let ?url = "object_url ?api (namespace_or_default resource) name"
  have "with_kube_err (reconcile_resource_nonblocking ke resource ?api (environment_of ke resource)) (\<lambda>a. ret (Inr a)) s = (Ok (Inr a), s1)"
    using first resource by (simp add: reconcile_def Let_def)
  then have "reconcile_resource_nonblocking ke resource ?api (environment_of ke resource) s = (Ok a, s1)"
    by (auto simp: with_kube_err_run [where f = "\<lambda>a. a", simplified] split: prod.splits outcome.splits)
  then obtain s0 where "reconcile_running ke ?api name (environment_of ke resource) resource fresh s0 = (Ok a, s1)"
    using fresh resource(3) by (auto simp: reconcile_resource_nonblocking_def unwrap_name_def kube_get_def bnd_Ok unwrap_Ok)
  from failed_check [OF this failed due] obtain event message s2 where
    "apply_failed ke resource fresh ?api (status_str (dr_status d)) event message (status_text fresh ''jobId'') s2 = (Ok a, s1)" by blast
  note w = failed_status [OF this fresh(3) resource(3)]
  have "status_text next ''jobId'' = []" "status_text next ''resourceStatus'' = ''Apply - '' @ status_str (dr_status d)"
    by (rule served [OF serves unchanged(1)], rule w)+
  moreover have "status_int next ''lastGeneration'' = generation_of resource"
    using unchanged(3,4) by (intro served_int [OF serves unchanged(1) w(4)]) simp_all
  moreover have "\<not> is_stuck (''Apply - '' @ status_str (dr_status d))"
    using failed(2) not_stuck_failed by auto
  ultimately have "reconcile ke kind later s1 = (Ok (Inr Await_Change), w_calls_update (\<lambda>cs. cs @ [Http (''GET '' @ ?url) JNull]) s1)"
    using unchanged(1-3) later settled_pass [OF later(1-3), of ke s1 kind "next"] by (simp add: may_apply_def)
  with w(1) show ?thesis by simp
qed

end
