(* ===== verification/Operator_Demo.thy ===== *)
theory Operator_Demo
  imports Operator_Retry
begin

text \<open>A cluster with one resource, on which the properties of the controller are applied.\<close>

definition demo_object :: "bool \<Rightarrow> (string \<times> json) list \<Rightarrow> k8s_object" where
  "demo_object deleting fs =
     \<lparr>ko_name = Some ''n'', ko_namespace = Some ''ns'', ko_generation = Some 1, ko_deleting = deleting,
      ko_finalizers = [FINALIZER_NAME], ko_data = JObject [(''status'', JObject fs)]\<rparr>"

text \<open>The API accepts every patch; what it serves is an argument.\<close>

definition demo_kube :: "claim_env \<Rightarrow> (call list \<Rightarrow> string \<Rightarrow> (string, k8s_object) result) \<Rightarrow> kube_env" where
  "demo_kube ce get =
     \<lparr>ke_claim = ce, ke_cluster_id = ''c'', ke_get = get, ke_patch = (\<lambda>_ _ _. Inr ()),
      ke_yaml = (\<lambda>_. Inr demo_yaml_claim), ke_read_logs = (\<lambda>_ _. Inr []),
      ke_change_record = (\<lambda>_ _ _ _ _. Inr []), ke_parse_time = (\<lambda>_. None), ke_seconds_since = (\<lambda>_ _. 60),
      ke_timestamp = (\<lambda>_ _. Some ''t'')\<rparr>"

lemma demo_kube_simps [simp]:
  "ke_claim (demo_kube ce get) = ce" "ke_get (demo_kube ce get) = get" "ke_patch (demo_kube ce get) h u p = Inr ()"
  "ke_cluster_id (demo_kube ce get) = ''c''" "ke_yaml (demo_kube ce get) obj = Inr demo_yaml_claim"
  "ke_parse_time (demo_kube ce get) t = None" "ke_seconds_since (demo_kube ce get) h n = 60"
  "ke_timestamp (demo_kube ce get) x y = Some ''t''" "ke_change_record (demo_kube ce get) h e i j t = Inr []"
  by (simp_all add: demo_kube_def)

lemma demo_object_simps [simp]:
  "ko_name (demo_object b fs) = Some ''n''" "ko_namespace (demo_object b fs) = Some ''ns''"
  "ko_deleting (demo_object b fs) = b" "ko_finalizers (demo_object b fs) = [FINALIZER_NAME]"
  "namespace_or_default (demo_object b fs) = ''ns''" "generation_of (demo_object b fs) = 1"
  "status_value (demo_object b fs) key = map_of fs key"
  by (simp_all add: demo_object_def namespace_or_default_def generation_of_def status_value_def)

definition demo_url :: string where
  "demo_url = object_url (get_api_resource ''M'') ''ns'' ''n''"

section \<open>A destroy that has ended\<close>

definition demo_gone :: k8s_object where
  "demo_gone = demo_object True
     [(''resourceStatus'', JString ''Delete - in progress''), (''jobId'', JString ''j''), (''deploymentId'', JString ''m/n'')]"

definition demo_release_kube :: kube_env where
  "demo_release_kube = demo_kube demo_claim_env (\<lambda>_ _. Inr demo_gone)"

lemma demo_gone_status [simp]:
  "status_text demo_gone ''resourceStatus'' = ''Delete - in progress''" "status_text demo_gone ''jobId'' = ''j''"
  "status_text demo_gone ''deploymentId'' = ''m/n''" "status_text demo_gone ''lastCheck'' = []"
  "status_int demo_gone ''retryCount'' = 0"
  by (simp_all add: demo_gone_def status_text_def status_int_def)

lemma demo_release:
  "\<exists>s'. reconcile demo_release_kube ''M'' demo_gone demo_start = (Ok (Inr Await_Change), s')
     \<and> w_calls s' ! 4 = Http (''PATCH '' @ demo_url) (finalizers_patch []) \<and> length (w_calls s') = 5"
proof -
  have d: "contains_str ''Delete - in progress'' ''Delete''" "dr_status demo_recorded = Successful"
    "dr_epoch demo_recorded = 1700000000000" "w_calls demo_start = []" "dr_error_text demo_recorded = []"
    by (simp_all add: starts_with_def demo_recorded_def demo_deployment_def demo_start_def)
  have o: "ko_name demo_gone = Some ''n''" "namespace_or_default demo_gone = ''ns''" "ko_deleting demo_gone"
    "ko_finalizers demo_gone = [FINALIZER_NAME]"
    by (simp_all add: demo_gone_def)
  show ?thesis
    by (simp add: reconcile_def Let_def o with_kube_err_run [where f = "\<lambda>a. a", simplified]
        handle_resource_deletion_nonblocking_def unwrap_name_def d bnd_def seq_def seconds_since_check_def should_do_full_check_def
        is_deployment_in_progress_def demo_release_kube_def demo_claim_env_answers destroy_finished_def release_resource_def update_time_of_def
        epoch_to_timestamp_def update_resource_status_def get_timestamp_def patch_status_def kube_patch_def kube_get_def
        patch_finalizers_def demo_url_def finalizers_patch_def del: contains_str.simps)
qed

lemma released_after_destroy_witness:
  "\<exists>s'. reconcile demo_release_kube ''M'' demo_gone demo_start = (Ok (Inr Await_Change), s') \<and> releases (w_calls s' ! 4)
     \<and> contains_str (status_text demo_gone ''resourceStatus'') ''Delete''
     \<and> read_successful demo_release_kube 0 ''m/n'' (environment_of demo_release_kube demo_gone) (take 4 (w_calls s'))"
proof -
  obtain s' where r: "reconcile demo_release_kube ''M'' demo_gone demo_start = (Ok (Inr Await_Change), s')"
    "w_calls s' ! 4 = Http (''PATCH '' @ demo_url) (finalizers_patch [])" "length (w_calls s') = 5"
    using demo_release by blast
  have rel: "releases (w_calls s' ! 4)" unfolding r(2) releases_patch by simp
  have "length (w_calls demo_start) = 0" by (simp add: demo_start_def)
  with released_after_destroy [OF r(1), of 4] rel r show ?thesis by simp
qed

lemma next_pass_timely_witness:
  "\<exists>r s'. reconcile demo_release_kube ''M'' demo_gone demo_start = (Ok r, s') \<and> timely (next_action r)"
proof -
  obtain s' where r: "reconcile demo_release_kube ''M'' demo_gone demo_start = (Ok (Inr Await_Change), s')"
    using demo_release by blast
  have g: "0 \<le> status_int obj ''retryCount''" if "ke_get demo_release_kube h url = Inr obj" for h url obj
    using that by (auto simp: demo_release_kube_def)
  have "timely (next_action (Inr Await_Change))" by (rule next_pass_timely [OF g _ r]) simp_all
  with r show ?thesis by blast
qed

section \<open>A new resource\<close>

definition demo_new :: k8s_object where
  "demo_new = demo_object False []"

definition demo_new_kube :: kube_env where
  "demo_new_kube = demo_kube demo_claim_env (\<lambda>_ _. Inr demo_new)"

lemma demo_new_simps [simp]:
  "status_text demo_new key = []" "status_int demo_new key = 0" "generation_of demo_new = 1" "ko_name demo_new = Some ''n''"
  "ko_finalizers demo_new = [FINALIZER_NAME]" "ko_deleting demo_new = False" "namespace_or_default demo_new = ''ns''"
  by (simp_all add: demo_new_def status_text_def status_int_def)

lemma demo_environment: "environment_of demo_new_kube demo_new = ''k8s-c/ns''" "namespace_of ''k8s-c/ns'' = ''ns''"
  by (simp add: environment_of_def demo_new_kube_def) code_simp

lemma demo_new_claim: "\<exists>s' v cs. run_claim demo_claim_env demo_yaml_claim ''k8s-c/ns'' ''apply'' [] NoExtra [] s
     = (Ok (''j'', ''m/n'', demo_prepared_for ''k8s-c/ns'' ''apply'' []), s')
   \<and> w_calls s' = w_calls s @ [Get_Module_Version ''m'' ''stable'' ''1.9.0'', Get_User_Id, Get_Deployment ''m/n'' ''k8s-c/ns'' False,
        Run_Function (start_runner_event v)] @ cs"
proof -
  let ?s = "w_calls_update (\<lambda>cs. cs @ [Get_Module_Version ''m'' ''stable'' ''1.9.0'', Get_User_Id]) s"
  obtain s' v cs where "submit_claim_job demo_claim_env (demo_prepared_for ''k8s-c/ns'' ''apply'' []) ?s = (Ok ''j'', s')"
    "w_calls s' = w_calls ?s @ Get_Deployment ''m/n'' ''k8s-c/ns'' False # Run_Function (start_runner_event v) # cs"
    using demo_submit_for by blast
  then show ?thesis
    by (auto simp: run_claim_def bnd_def demo_prepare_for [OF demo_environment(2)])
qed

lemma demo_first_pass:
  "\<exists>s' v cs. reconcile demo_new_kube ''M'' demo_new demo_start = (Ok (Inr (Requeue 10)), s')
     \<and> w_calls s' = [Http (''GET '' @ demo_url) JNull, Get_Module_Version ''m'' ''stable'' ''1.9.0'', Get_User_Id,
         Get_Deployment ''m/n'' ''k8s-c/ns'' False, Run_Function (start_runner_event v)] @ cs"
proof -
  define s0 where "s0 = w_calls_update (\<lambda>cs. cs @ [Http (''GET '' @ demo_url) JNull]) demo_start"
  obtain s' v cs where c: "run_claim demo_claim_env demo_yaml_claim ''k8s-c/ns'' ''apply'' [] NoExtra [] s0
     = (Ok (''j'', ''m/n'', demo_prepared_for ''k8s-c/ns'' ''apply'' []), s')"
    "w_calls s' = w_calls s0 @ [Get_Module_Version ''m'' ''stable'' ''1.9.0'', Get_User_Id, Get_Deployment ''m/n'' ''k8s-c/ns'' False,
        Run_Function (start_runner_event v)] @ cs"
    using demo_new_claim by blast
  have k: "ke_claim demo_new_kube = demo_claim_env" "ke_get demo_new_kube h u = Inr demo_new" "ke_yaml demo_new_kube obj = Inr demo_yaml_claim"
    "ke_patch demo_new_kube h u p = Inr ()" for h u obj p
    by (simp_all add: demo_new_kube_def)
  have "start_apply demo_new_kube (get_api_resource ''M'') ''k8s-c/ns'' demo_new s0
      = bnd (get_timestamp demo_new_kube) (\<lambda>now. seq (update_resource_status demo_new_kube demo_new (get_api_resource ''M'')
          ''Apply - initiated'' now ''Job submitted successfully'' ''j'') (ret (Requeue 10))) s'"
    by (simp add: start_apply_def k c(1) attempt_def bnd_def)
  then have "\<exists>s'' cs'. start_apply demo_new_kube (get_api_resource ''M'') ''k8s-c/ns'' demo_new s0 = (Ok (Requeue 10), s'')
      \<and> w_calls s'' = w_calls s' @ cs'"
    by (simp add: bnd_def seq_def update_resource_status_def get_timestamp_def unwrap_name_def patch_status_def kube_patch_def
        kube_get_def k Let_def)
  then obtain s'' cs' where a: "start_apply demo_new_kube (get_api_resource ''M'') ''k8s-c/ns'' demo_new s0 = (Ok (Requeue 10), s'')"
    "w_calls s'' = w_calls s' @ cs'" by blast
  have stuck: "\<not> is_stuck []" by (simp add: is_stuck_def starts_with_def)
  have "reconcile demo_new_kube ''M'' demo_new demo_start = (Ok (Inr (Requeue 10)), s'')"
    using a(1) by (simp add: reconcile_def Let_def with_kube_err_run [where f = "\<lambda>a. a", simplified] demo_environment
        reconcile_resource_nonblocking_def unwrap_name_def kube_get_def bnd_def k reconcile_idle_def demo_url_def stuck s0_def)
  with a(2) c(2) show ?thesis by (auto simp: demo_start_def s0_def)
qed


section \<open>A failed apply\<close>

text \<open>An API that serves what was patched, over a first status; the history is reversed.\<close>

fun served_fields :: "string \<Rightarrow> call list \<Rightarrow> (string \<times> json) list" where
  "served_fields url (Http u p # cs) =
     (if u = ''PATCH '' @ url @ ''/status''
      then (case jget p ''status'' of Some (JObject kvs) \<Rightarrow> kvs | _ \<Rightarrow> []) @ served_fields url cs
      else served_fields url cs)"
| "served_fields url (_ # cs) = served_fields url cs"
| "served_fields url [] = [(''jobId'', JString ''j''), (''deploymentId'', JString ''m/n'')]"

definition without_nulls :: "(string \<times> json) list \<Rightarrow> (string \<times> json) list" where
  "without_nulls fs = filter (\<lambda>(k, v). v \<noteq> JNull \<and> map_of fs k = Some v) fs"

definition demo_served :: "call list \<Rightarrow> string \<Rightarrow> (string, k8s_object) result" where
  "demo_served h url = Inr (demo_object False (without_nulls (served_fields url (rev h))))"

definition demo_failed_env :: claim_env where
  "demo_failed_env = demo_claim_env\<lparr>ce_env := (ce_env demo_claim_env)
     \<lparr>en_get_deployment := \<lambda>_ _ _ _. Inr (Some (demo_recorded\<lparr>dr_status := Failed\<rparr>))\<rparr>\<rparr>"

definition demo_failed_kube :: kube_env where
  "demo_failed_kube = demo_kube demo_failed_env demo_served"

lemma map_of_without_nulls:
  "map_of fs k = Some v \<Longrightarrow> map_of (without_nulls fs) k = (if v = JNull then None else Some v)"
proof -
  assume v: "map_of fs k = Some v"
  have only: "(k, w) \<in> set (without_nulls fs) \<longleftrightarrow> w = v \<and> v \<noteq> JNull" for w
    using v by (auto simp: without_nulls_def dest: map_of_SomeD)
  show ?thesis
  proof (cases "v = JNull")
    case True
    with only have "k \<notin> fst ` set (without_nulls fs)" by force
    with True show ?thesis by (simp add: map_of_eq_None_iff)
  next
    case False
    with only have "(k, v) \<in> set (without_nulls fs)" by simp
    then obtain w where "map_of (without_nulls fs) k = Some w"
      by (meson weak_map_of_SomeI)
    with only map_of_SomeD False show ?thesis by metis
  qed
qed

lemma patched_served: "patched demo_failed_kube url key h = Some v \<Longrightarrow> map_of (served_fields url h) key = Some v"
proof (induction url h rule: served_fields.induct)
  case (1 url u p cs)
  then show ?case
    by (cases "jget p ''status''"; cases "the (jget p ''status'')")
      (auto simp: demo_failed_kube_def map_add_def split: if_splits option.splits)
qed (auto simp: demo_failed_kube_def)

lemma demo_serves: "serves_patches demo_failed_kube"
  unfolding serves_patches_def
  by (auto simp: demo_served_def map_of_without_nulls dest!: patched_served) (auto simp: demo_failed_kube_def demo_served_def map_of_without_nulls)

definition demo_running :: k8s_object where
  "demo_running = demo_object False (without_nulls (served_fields demo_url []))"

lemma demo_running_simps [simp]:
  "status_text demo_running ''jobId'' = ''j''" "status_text demo_running ''deploymentId'' = ''m/n''"
  "status_text demo_running ''lastCheck'' = []" "status_int demo_running ''retryCount'' = 0"
  "status_text demo_running ''resourceStatus'' = []"
  by (simp_all add: demo_running_def status_text_def status_int_def without_nulls_def)

lemma demo_failed_simps [simp]:
  "ke_get demo_failed_kube = demo_served" "ke_patch demo_failed_kube h u p = Inr ()" "ke_claim demo_failed_kube = demo_failed_env"
  "ke_seconds_since demo_failed_kube h n = 60" "ke_timestamp demo_failed_kube x y = Some ''t''"
  "ke_change_record demo_failed_kube h e i j t = Inr []"
  "en_get_deployment (ce_env demo_failed_env) h i e b = Inr (Some (demo_recorded\<lparr>dr_status := Failed\<rparr>))"
  by (simp_all add: demo_failed_kube_def demo_failed_env_def)

definition demo_applied :: k8s_object where
  "demo_applied = demo_object False []"

lemma demo_failed_pass:
  "\<exists>s'. reconcile demo_failed_kube ''M'' demo_applied demo_start = (Ok (Inr (Requeue 600)), s')"
proof -
  have stuck: "\<not> contains_str [] ''initiated''" by (simp add: starts_with_def)
  have get: "demo_served [] demo_url = Inr demo_running"
    by (simp add: demo_served_def demo_running_def)
  have o: "ko_name demo_applied = Some ''n''" "namespace_or_default demo_applied = ''ns''" "\<not> ko_deleting demo_applied"
    "ko_finalizers demo_applied = [FINALIZER_NAME]" "w_calls demo_start = []"
    by (simp_all add: demo_applied_def demo_start_def)
  have "\<exists>s'. reconcile_running demo_failed_kube (get_api_resource ''M'') ''n'' env demo_applied demo_running s
      = (Ok (Requeue 600), s')" for env s
    by (simp add: reconcile_running_def Let_def seconds_since_check_def should_do_full_check_def is_deployment_in_progress_def bnd_def
        stuck apply_finished_def update_time_of_def epoch_to_timestamp_def apply_failed_def MAX_RETRIES_def seq_def
        update_resource_status_def update_retry_count_def unwrap_name_def o patch_status_def kube_patch_def kube_get_def
        get_timestamp_def backoff_values demo_served_def)
  moreover define s0 where "s0 = w_calls_update (\<lambda>cs. cs @ [Http (''GET '' @ demo_url) JNull]) demo_start"
  ultimately obtain s' where "reconcile_running demo_failed_kube (get_api_resource ''M'') ''n''
      (environment_of demo_failed_kube demo_applied) demo_applied demo_running s0 = (Ok (Requeue 600), s')" by blast
  then show ?thesis
    by (simp add: reconcile_def Let_def o with_kube_err_run [where f = "\<lambda>a. a", simplified] reconcile_resource_nonblocking_def
        unwrap_name_def kube_get_def bnd_def get [unfolded demo_url_def] s0_def demo_url_def)
qed

lemma failed_apply_not_retried_witness:
  "\<exists>s1 s2. reconcile demo_failed_kube ''M'' demo_applied demo_start = (Ok (Inr (Requeue 600)), s1)
     \<and> reconcile demo_failed_kube ''M'' demo_applied s1 = (Ok (Inr Await_Change), s2)"
proof -
  obtain s1 where r: "reconcile demo_failed_kube ''M'' demo_applied demo_start = (Ok (Inr (Requeue 600)), s1)"
    using demo_failed_pass by blast
  obtain later where later: "demo_served (w_calls s1) demo_url = Inr later" "generation_of later = 1"
    by (simp add: demo_served_def)
  have o: "\<not> ko_deleting demo_applied" "FINALIZER_NAME \<in> set (ko_finalizers demo_applied)" "ko_name demo_applied = Some ''n''"
    "namespace_or_default demo_applied = ''ns''" "generation_of demo_applied = 1"
    by (simp_all add: demo_applied_def)
  have f: "ke_get demo_failed_kube (w_calls demo_start) (object_url (get_api_resource ''M'') (namespace_or_default demo_applied) ''n'')
      = Inr demo_running" "status_int demo_running ''retryCount'' < MAX_RETRIES" "status_text demo_running ''jobId'' \<noteq> []"
    by (simp_all add: o demo_served_def demo_running_def demo_url_def MAX_RETRIES_def demo_start_def)
      (simp_all add: without_nulls_def status_text_def status_int_def)
  have d: "en_get_deployment (ce_env (ke_claim demo_failed_kube)) h i e True = Inr (Some (demo_recorded\<lparr>dr_status := Failed\<rparr>))"
    "dr_status (demo_recorded\<lparr>dr_status := Failed\<rparr>) = Failed \<or> dr_status (demo_recorded\<lparr>dr_status := Failed\<rparr>) = Error" for h i e
    by simp_all
  have "reconcile demo_failed_kube ''M'' demo_applied s1 = (Ok (Inr Await_Change), w_calls_update (\<lambda>cs. cs @
        [Http (''GET '' @ object_url (get_api_resource ''M'') (namespace_or_default demo_applied) ''n'') JNull]) s1)"
    by (rule failed_apply_not_retried [OF demo_serves r o(1-3) f(1,3,2) d _ o(1-3), THEN conjunct2])
      (use later o in \<open>simp_all add: demo_url_def\<close>)
  with r show ?thesis by blast
qed

end
