(* ===== verification/Hcl.thy ===== *)
theory Hcl
  imports Variables
begin

text \<open>
  Terraform code as a tree: the blocks, attributes and expressions of the crate \<open>hcl\<close> as far as
  the program builds and inspects them, and the conversions of variables and outputs to blocks and
  back, \<open>defs/src/tfvariable.rs\<close> and \<open>defs/src/tfoutput.rs\<close>. The parser, the printer and the
  sanitising of identifiers are the crate's and parameters.
\<close>

section \<open>The tree\<close>

datatype template = Quoted string | Heredoc string

text \<open>\<open>EOther\<close> is an expression of parsed code that the program never builds, by its text.\<close>

datatype expr =
    ENull
  | EBool bool
  | ENumber number
  | EString string
  | EArray "expr list"
  | EObject "(object_key \<times> expr) list"
  | ETemplate template
  | EVariable string
  | ETraversal expr "string list"
  | EOther string
and object_key = KIdent string | KExpr expr

datatype label = LString string | LIdent string

datatype block = Block string "label list" "structure list"
and "structure" = SAttr string expr | SBlock block

type_synonym hcl_attribute = "string \<times> expr"

fun label_text :: "label \<Rightarrow> string" where
  "label_text (LString s) = s"
| "label_text (LIdent s) = s"

fun block_identifier :: "block \<Rightarrow> string" where
  "block_identifier (Block i ls b) = i"

fun block_labels :: "block \<Rightarrow> label list" where
  "block_labels (Block i ls b) = ls"

fun block_body :: "block \<Rightarrow> structure list" where
  "block_body (Block i ls b) = b"

definition body_attributes :: "structure list \<Rightarrow> hcl_attribute list" where
  "body_attributes b = concat (List.map (\<lambda>x. case x of SAttr k e \<Rightarrow> [(k, e)] | SBlock _ \<Rightarrow> []) b)"

definition body_blocks :: "structure list \<Rightarrow> block list" where
  "body_blocks b = concat (List.map (\<lambda>x. case x of SAttr _ _ \<Rightarrow> [] | SBlock bl \<Rightarrow> [bl]) b)"

lemma body_attributes_attrs [simp]: "body_attributes (List.map (\<lambda>(k, e). SAttr k e) as) = as"
  by (induction as) (auto simp: body_attributes_def)

text \<open>
  \<open>hl_ident\<close> makes an identifier from any text, \<open>hl_valid\<close> is \<open>Identifier::new\<close>, \<open>hl_parse\<close> and
  \<open>hl_text\<close> are the parser and printer of expressions, \<open>hl_of_json\<close> is \<open>to_expression\<close> and
  \<open>hl_to_json\<close> \<open>serde_json::to_value\<close> of the value of an expression; \<open>hl_json_text\<close> prints JSON,
  \<open>hl_f64\<close> a large integer as a float, \<open>hl_finite\<close> says that a float is finite.
\<close>

record hcl_lib =
  hl_ident :: "string \<Rightarrow> string"
  hl_valid :: "string \<Rightarrow> bool"
  hl_parse :: "string \<Rightarrow> (string, expr) result"
  hl_text :: "expr \<Rightarrow> string"
  hl_of_json :: "json \<Rightarrow> (string, expr) result"
  hl_to_json :: "expr \<Rightarrow> (string, json) result"
  hl_json_text :: "json \<Rightarrow> string"
  hl_f64 :: "64 word \<Rightarrow> string"
  hl_finite :: "string \<Rightarrow> bool"

definition mk_attribute :: "hcl_lib \<Rightarrow> string \<Rightarrow> expr \<Rightarrow> hcl_attribute" where
  "mk_attribute hl key e = (hl_ident hl key, e)"

definition attribute_block :: "string \<Rightarrow> label list \<Rightarrow> hcl_attribute list \<Rightarrow> block" where
  "attribute_block i ls as = Block i ls (List.map (\<lambda>(k, e). SAttr k e) as)"

lemma attribute_block_simps [simp]:
  "block_identifier (attribute_block i ls as) = i" "block_labels (attribute_block i ls as) = ls"
  "body_attributes (block_body (attribute_block i ls as)) = as"
  by (simp_all add: attribute_block_def)

definition res_opt :: "('e, 'a) result \<Rightarrow> 'a option" where
  "res_opt r = (case r of Inl _ \<Rightarrow> None | Inr a \<Rightarrow> Some a)"

lemma res_opt_simps [simp]: "res_opt (Inl e) = None" "res_opt (Inr a) = Some a"
  by (simp_all add: res_opt_def)

section \<open>Variables\<close>

definition required :: "tf_variable \<Rightarrow> bool" where
  "required v \<longleftrightarrow> tfv_default v = None \<or> (\<not> tfv_nullable v \<and> tfv_default v = Some JNull)"

text \<open>A type is kept as text.\<close>

definition type_text :: "hcl_lib \<Rightarrow> json \<Rightarrow> string" where
  "type_text hl ty = (case ty of JString s \<Rightarrow> s | _ \<Rightarrow> hl_json_text hl ty)"

text \<open>\<open>None\<close> is the panic of an \<open>expect\<close>.\<close>

definition variable_attributes :: "hcl_lib \<Rightarrow> tf_variable \<Rightarrow> hcl_attribute list option" where
  "variable_attributes hl v =
     Option.bind (res_opt (hl_parse hl (type_text hl (tfv_type v)))) (\<lambda>type_expr.
     Option.bind (res_opt (hl_of_json hl (JString (tfv_description v)))) (\<lambda>description.
     Option.bind (case tfv_default v of
                    None \<Rightarrow> Some []
                  | Some value \<Rightarrow> map_option (\<lambda>e. [mk_attribute hl ''default'' e]) (res_opt (hl_of_json hl value))) (\<lambda>default_attr.
     Some ([mk_attribute hl ''type'' type_expr, mk_attribute hl ''description'' description] @ default_attr
       @ [mk_attribute hl ''nullable'' (EBool (tfv_nullable v)), mk_attribute hl ''sensitive'' (EBool (tfv_sensitive v))]))))"

definition variable_block :: "hcl_lib \<Rightarrow> tf_variable \<Rightarrow> block option" where
  "variable_block hl v = map_option (attribute_block ''variable'' [LString (tfv_name v)]) (variable_attributes hl v)"

definition empty_variable :: "string \<Rightarrow> tf_variable" where
  "empty_variable name = \<lparr>tfv_name = name, tfv_type = JString ''any'', tfv_default = None, tfv_description = [],
     tfv_nullable = True, tfv_sensitive = False\<rparr>"

definition read_attribute :: "hcl_lib \<Rightarrow> hcl_attribute \<Rightarrow> tf_variable \<Rightarrow> (string, tf_variable) result" where
  "read_attribute hl attr var = (case attr of (key, e) \<Rightarrow>
     if key = ''type'' then Inr (var\<lparr>tfv_type := JString (hl_text hl e)\<rparr>)
     else if key = ''default'' then res_bind (hl_to_json hl e) (\<lambda>value. Inr (var\<lparr>tfv_default := Some value\<rparr>))
     else if key = ''description''
     then Inr (var\<lparr>tfv_description := (case hl_to_json hl e of Inr (JString s) \<Rightarrow> s | _ \<Rightarrow> [])\<rparr>)
     else if key = ''nullable''
     then (case e of EBool b \<Rightarrow> Inr (var\<lparr>tfv_nullable := b\<rparr>) | _ \<Rightarrow> Inl ''nullable must be a bool'')
     else if key = ''sensitive''
     then (case e of EBool b \<Rightarrow> Inr (var\<lparr>tfv_sensitive := b\<rparr>) | _ \<Rightarrow> Inl ''sensitive must be a bool'')
     else Inr var)"

fun read_attributes :: "hcl_lib \<Rightarrow> hcl_attribute list \<Rightarrow> tf_variable \<Rightarrow> (string, tf_variable) result" where
  "read_attributes hl [] var = Inr var"
| "read_attributes hl (attr # attrs) var = res_bind (read_attribute hl attr var) (read_attributes hl attrs)"

definition read_variable :: "hcl_lib \<Rightarrow> block \<Rightarrow> (string, tf_variable) result" where
  "read_variable hl b =
     (if block_identifier b \<noteq> ''variable'' then Inl ''Block is not a variable block''
      else (case block_labels b of
              [l] \<Rightarrow> read_attributes hl (body_attributes (block_body b)) (empty_variable (label_text l))
            | _ \<Rightarrow> Inl ''Variable block should have exactly one label''))"

section \<open>Outputs\<close>

definition output_attributes :: "hcl_lib \<Rightarrow> tf_output \<Rightarrow> hcl_attribute list option" where
  "output_attributes hl out =
     Option.bind (res_opt (hl_parse hl (tfo_value out))) (\<lambda>value.
     Option.bind (res_opt (hl_of_json hl (JString (tfo_description out)))) (\<lambda>description.
     Some ([mk_attribute hl ''description'' description, mk_attribute hl ''value'' value]
       @ (case tfo_sensitive out of None \<Rightarrow> [] | Some val \<Rightarrow> [mk_attribute hl ''sensitive'' (EBool val)]))))"

definition output_block :: "hcl_lib \<Rightarrow> tf_output \<Rightarrow> block option" where
  "output_block hl out = map_option (attribute_block ''output'' [LString (tfo_name out)]) (output_attributes hl out)"

text \<open>The outer \<open>None\<close> is a panic: a block without a label, or a description that is not a string.\<close>

definition read_output :: "hcl_lib \<Rightarrow> block \<Rightarrow> (string, tf_output) result option" where
  "read_output hl b =
     (if block_identifier b \<noteq> ''output'' then Some (Inl ''Block is not an output block'')
      else (case block_labels b of
              [] \<Rightarrow> None
            | [l] \<Rightarrow>
                let attrs = body_attributes (block_body b) in
                Option.bind (case map_of attrs ''description'' of
                               None \<Rightarrow> Some []
                             | Some e \<Rightarrow> (case hl_to_json hl e of Inr (JString s) \<Rightarrow> Some s | _ \<Rightarrow> None)) (\<lambda>description.
                Some (Inr \<lparr>tfo_name = label_text l,
                  tfo_value = (case map_of attrs ''value'' of None \<Rightarrow> [] | Some e \<Rightarrow> hl_text hl e),
                  tfo_description = description,
                  tfo_sensitive = (case map_of attrs ''sensitive'' of Some (EBool val) \<Rightarrow> Some val | _ \<Rightarrow> None)\<rparr>))
            | _ \<Rightarrow> Some (Inl ''Output block should have a single label!'')))"

section \<open>Round trips\<close>

text \<open>
  What the conversions rely on: the six attribute names are identifiers, an expression that was
  parsed from a text prints as it, and a JSON value is read back from its expression.
\<close>

definition faithful_hcl :: "hcl_lib \<Rightarrow> bool" where
  "faithful_hcl hl \<longleftrightarrow>
     (\<forall>k \<in> {''type'', ''description'', ''default'', ''nullable'', ''sensitive'', ''value''}. hl_ident hl k = k)
     \<and> (\<forall>t e. hl_parse hl t = Inr e \<longrightarrow> hl_text hl e = t)
     \<and> (\<forall>v e. hl_of_json hl v = Inr e \<longrightarrow> hl_to_json hl e = Inr v)"

lemma faithful_hclD:
  assumes "faithful_hcl hl"
  shows "hl_ident hl ''type'' = ''type''" "hl_ident hl ''description'' = ''description''" "hl_ident hl ''default'' = ''default''"
    "hl_ident hl ''nullable'' = ''nullable''" "hl_ident hl ''sensitive'' = ''sensitive''" "hl_ident hl ''value'' = ''value''"
    "hl_parse hl t = Inr e \<Longrightarrow> hl_text hl e = t" "hl_of_json hl v = Inr e \<Longrightarrow> hl_to_json hl e = Inr v"
  using assms by (auto simp: faithful_hcl_def)

lemma res_opt_Some [simp]: "res_opt r = Some a \<longleftrightarrow> r = Inr a"
  by (cases r) auto

text \<open>
  A variable survives Terraform. The block that a variable is written as is read back as the
  variable, its type as text; a default of null stays different from no default.
\<close>

theorem variable_roundtrip:
  assumes hl: "faithful_hcl hl" and b: "variable_block hl v = Some b"
  shows "read_variable hl b = Inr (v\<lparr>tfv_type := JString (type_text hl (tfv_type v))\<rparr>)"
proof -
  note f = faithful_hclD [OF hl]
  obtain ty ds where p: "hl_parse hl (type_text hl (tfv_type v)) = Inr ty" "hl_of_json hl (JString (tfv_description v)) = Inr ds"
    using b by (auto simp: variable_block_def variable_attributes_def bind_eq_Some_conv)
  show ?thesis
  proof (cases "tfv_default v")
    case None
    with b p show ?thesis
      by (auto simp add: variable_block_def variable_attributes_def mk_attribute_def f read_variable_def read_attribute_def empty_variable_def)
  next
    case (Some val)
    with b p obtain e where e: "hl_of_json hl val = Inr e"
      by (auto simp: variable_block_def variable_attributes_def bind_eq_Some_conv)
    with b p Some show ?thesis
      by (auto simp add: variable_block_def variable_attributes_def mk_attribute_def f read_variable_def read_attribute_def empty_variable_def)
  qed
qed

text \<open>A toy library: expressions are texts, JSON values are strings, null and Booleans.\<close>

definition demo_hcl :: hcl_lib where
  "demo_hcl = \<lparr>hl_ident = (\<lambda>s. s), hl_valid = (\<lambda>_. True), hl_parse = (\<lambda>t. Inr (EOther t)),
     hl_text = (\<lambda>e. case e of EOther t \<Rightarrow> t | _ \<Rightarrow> []),
     hl_of_json = (\<lambda>j. case j of JString s \<Rightarrow> Inr (EString s) | JNull \<Rightarrow> Inr ENull | JBool b \<Rightarrow> Inr (EBool b) | _ \<Rightarrow> Inl []),
     hl_to_json = (\<lambda>e. case e of EString s \<Rightarrow> Inr (JString s) | ENull \<Rightarrow> Inr JNull | EBool b \<Rightarrow> Inr (JBool b) | _ \<Rightarrow> Inl []),
     hl_json_text = (\<lambda>_. []), hl_f64 = (\<lambda>_. []), hl_finite = (\<lambda>_. True)\<rparr>"

lemma variable_roundtrip_witness:
  "read_variable demo_hcl (attribute_block ''variable'' [LString ''bucket'']
     [(''type'', EOther ''string''), (''description'', EString ''a bucket''), (''default'', ENull), (''nullable'', EBool True), (''sensitive'', EBool False)])
   = Inr \<lparr>tfv_name = ''bucket'', tfv_type = JString ''string'', tfv_default = Some JNull, tfv_description = ''a bucket'',
       tfv_nullable = True, tfv_sensitive = False\<rparr>"
proof -
  let ?v = "\<lparr>tfv_name = ''bucket'', tfv_type = JString ''string'', tfv_default = Some JNull, tfv_description = ''a bucket'',
    tfv_nullable = True, tfv_sensitive = False\<rparr>"
  have f: "faithful_hcl demo_hcl"
    by (auto simp: faithful_hcl_def demo_hcl_def split: json.splits)
  have b: "variable_block demo_hcl ?v = Some (attribute_block ''variable'' [LString ''bucket'']
     [(''type'', EOther ''string''), (''description'', EString ''a bucket''), (''default'', ENull), (''nullable'', EBool True), (''sensitive'', EBool False)])"
    by code_simp
  show ?thesis using variable_roundtrip [OF f b] by (simp add: type_text_def)
qed

lemma output_roundtrip:
  assumes hl: "faithful_hcl hl" and b: "output_block hl out = Some b"
  shows "read_output hl b = Some (Inr out)"
proof -
  note f = faithful_hclD [OF hl]
  obtain e ds where "hl_parse hl (tfo_value out) = Inr e" "hl_of_json hl (JString (tfo_description out)) = Inr ds"
    using b by (auto simp: output_block_def output_attributes_def bind_eq_Some_conv)
  with b show ?thesis
    by (cases "tfo_sensitive out")
      (auto simp: output_block_def output_attributes_def mk_attribute_def f read_output_def)
qed

end
