(* ===== verification/Stack_Module.thy ===== *)
theory Stack_Module
  imports Hcl Stack
begin

text \<open>
  The Terraform code of a stack: the inputs and outputs of its modules and the references between
  them (\<open>env_common/src/logic/api_stack.rs\<close>), the expressions that replace references
  (\<open>tf_input_resolver.rs\<close>), the module calls (\<open>tf_root_module.rs\<close>) and the blocks around them
  (\<open>tf_provider_mgmt.rs\<close>). Hash maps are association lists; the order in which one is traversed is
  an argument.
\<close>

section \<open>Inputs and outputs of a stack\<close>

text \<open>\<open>sk_to_json\<close> and \<open>sk_print\<close> are \<open>serde_json::to_value\<close> of a YAML value and \<open>to_string\<close>.\<close>

record stack_lib =
  sk_text :: text_lib
  sk_hcl :: hcl_lib
  sk_to_json :: "yaml \<Rightarrow> (string, json) result"
  sk_print :: "json \<Rightarrow> string"

definition get_variable_name :: "text_lib \<Rightarrow> string \<Rightarrow> string \<Rightarrow> string" where
  "get_variable_name lib claim variable_name = to_snake_case lib claim @ ''__'' @ variable_name"

definition get_output_name :: "text_lib \<Rightarrow> string \<Rightarrow> string \<Rightarrow> string" where
  "get_output_name lib claim output_name = to_snake_case lib claim @ ''__'' @ output_name"

definition collect_module_outputs :: "text_lib \<Rightarrow> claim_module list \<Rightarrow> (string, tf_output) hash_map" where
  "collect_module_outputs lib cms =
     fold (\<lambda>(k, v). hm_insert k v)
       (concat (List.map (\<lambda>cm. List.map (\<lambda>out. (get_output_name lib (claim_name cm) (tfo_name out), out)) (mr_tf_outputs (snd cm))) cms)) []"

text \<open>A variable with the value of the claim as its default; \<open>None\<close> is the panic of the conversion.\<close>

definition with_claim_value :: "stack_lib \<Rightarrow> deployment_manifest \<Rightarrow> tf_variable \<Rightarrow> tf_variable option" where
  "with_claim_value sk claim tf_var =
     (case map_of (dsc_variables (dmf_spec claim)) (YString (to_camel_case (sk_text sk) (tfv_name tf_var))) of
        Some v \<Rightarrow> map_option (\<lambda>j. tf_var\<lparr>tfv_default := Some j\<rparr>) (res_opt (sk_to_json sk v))
      | None \<Rightarrow> Some tf_var)"

definition claim_inputs :: "stack_lib \<Rightarrow> claim_module list \<Rightarrow> (string \<times> tf_variable) list option" where
  "claim_inputs sk cms =
     map_option concat (those (List.map (\<lambda>cm. those (List.map (\<lambda>tf_var.
       map_option (Pair (get_variable_name (sk_text sk) (claim_name cm) (tfv_name tf_var))) (with_claim_value sk (fst cm) tf_var))
       (mr_tf_variables (snd cm)))) cms))"

definition collect_module_variables_with_stack ::
  "stack_lib \<Rightarrow> claim_module list \<Rightarrow> tf_variable list option \<Rightarrow> (string, tf_variable) hash_map option" where
  "collect_module_variables_with_stack sk cms stack_variable_definitions =
     map_option (\<lambda>inputs. fold (\<lambda>(k, v). hm_insert k v)
       (inputs @ (case stack_variable_definitions of
                    None \<Rightarrow> []
                  | Some vs \<Rightarrow> List.map (\<lambda>v. (''stack__'' @ to_snake_case (sk_text sk) (tfv_name v), v)) vs)) [])
       (claim_inputs sk cms)"

section \<open>Which inputs are wired\<close>

text \<open>
  \<open>(.*?)\{\{\s*(.*?)\s*\}\}(.*)\<close> on a text without line breaks, as \<open>serde_json\<close> prints it. The last
  group takes the rest, so there is at most one match.
\<close>

definition placeholder :: "string \<Rightarrow> (string \<times> string \<times> string) option" where
  "placeholder s =
     Option.bind (cut_at ''{{'' s) (\<lambda>(before, rest).
     Option.bind (cut_at ''}}'' (dropWhile is_space rest)) (\<lambda>(inner, after).
     Some (before, trim_end inner, after)))"

definition reference_text :: "string \<Rightarrow> string \<Rightarrow> string \<Rightarrow> string" where
  "reference_text before after target =
     (if before = [CHR 0x22] \<and> after = [CHR 0x22] then target else before @ ''${'' @ target @ ''}'' @ after)"

text \<open>The text that an input is wired to, when its value holds a reference.\<close>

definition wiring ::
  "stack_lib \<Rightarrow> (string, tf_variable) hash_map \<Rightarrow> (string, tf_output) hash_map \<Rightarrow> string \<Rightarrow> tf_variable \<Rightarrow>
   (module_error, string option) result" where
  "wiring sk vars outs key var =
     (case tfv_default var of
        None \<Rightarrow> Inr None
      | Some default_value \<Rightarrow>
          let serialized = sk_print sk default_value; lib = sk_text sk in
          (case placeholder serialized of
             None \<Rightarrow> Inr None
           | Some (before, inner, after) \<Rightarrow>
               (case split_str ''::'' inner of
                  [kind, claim, field] \<Rightarrow>
                    let field_snake = to_snake_case lib field;
                        not_found = Inl (OutputKeyNotFound (to_camel_case lib (List.hd (split_str ''__'' key)))
                          (to_camel_case lib (tfv_name var)) serialized field claim) in
                    if kind = ''Stack'' \<and> claim = ''variables''
                    then let stack_var_key = ''stack__'' @ field_snake in
                      if hm_contains vars stack_var_key
                      then Inr (Some (reference_text before after (''var.'' @ stack_var_key)))
                      else not_found
                    else let output_key = get_output_name lib claim field_snake in
                      if hm_contains outs output_key
                      then Inr (Some (reference_text before after (''module.'' @ to_snake_case lib claim @ ''.'' @ field_snake)))
                      else if hm_contains vars output_key
                      then Inr (Some (reference_text before after (''var.'' @ get_variable_name lib claim field_snake)))
                      else not_found
                | _ \<Rightarrow> Inr None)))"

fun dependencies_of ::
  "stack_lib \<Rightarrow> (string, tf_variable) hash_map \<Rightarrow> (string, tf_output) hash_map \<Rightarrow> (string \<times> tf_variable) list \<Rightarrow>
   (string, string) hash_map \<Rightarrow> (module_error, (string, string) hash_map) result" where
  "dependencies_of sk vars outs [] dependency_map = Inr dependency_map"
| "dependencies_of sk vars outs ((key, var) # rest) dependency_map =
     res_bind (wiring sk vars outs key var) (\<lambda>w.
     dependencies_of sk vars outs rest (case w of None \<Rightarrow> dependency_map | Some t \<Rightarrow> hm_insert key t dependency_map))"

definition generate_dependency_map ::
  "((string \<times> tf_variable) list \<Rightarrow> (string \<times> tf_variable) list) \<Rightarrow> stack_lib \<Rightarrow>
   (string, tf_variable) hash_map \<Rightarrow> (string, tf_output) hash_map \<Rightarrow> (module_error, (string, string) hash_map) result" where
  "generate_dependency_map order sk vars outs = dependencies_of sk vars outs (order vars) []"

section \<open>Expressions for values\<close>

record input_resolver =
  ir_variables :: "string list"
  ir_outputs :: "string list"

text \<open>\<open>\{\{\s?(\w+):+(\w+):+(\w+)\s?\}\}\<close> at the start of a text: the whole match and its groups.\<close>

definition opt_space :: "string \<Rightarrow> string" where
  "opt_space s = (case s of c # cs \<Rightarrow> if is_space c then cs else s | [] \<Rightarrow> [])"

definition match_colons :: "string \<Rightarrow> string option" where
  "match_colons s = (if takeWhile ((=) CHR '':'') s = [] then None else Some (dropWhile ((=) CHR '':'') s))"

definition match_full_ref :: "string \<Rightarrow> ((string \<times> string \<times> string \<times> string) \<times> string) option" where
  "match_full_ref s =
     Option.bind (match_lit ''{{'' s) (\<lambda>s1.
     Option.bind (match_word (opt_space s1)) (\<lambda>(kind, s2).
     Option.bind (match_colons s2) (\<lambda>s3.
     Option.bind (match_word s3) (\<lambda>(claim, s4).
     Option.bind (match_colons s4) (\<lambda>s5.
     Option.bind (match_word s5) (\<lambda>(field, s6).
     Option.bind (match_lit ''}}'' (opt_space s6)) (\<lambda>rest.
     Some ((take (length s - length rest) s, kind, claim, field), rest))))))))"

lemma match_full_ref_shorter: "match_full_ref s = Some (r, rest) \<Longrightarrow> length rest < length s"
proof -
  assume "match_full_ref s = Some (r, rest)"
  then obtain s1 k s2 s3 c s4 s5 f s6 where
    m: "match_lit ''{{'' s = Some s1" "match_word (opt_space s1) = Some (k, s2)" "match_colons s2 = Some s3"
      "match_word s3 = Some (c, s4)" "match_colons s4 = Some s5" "match_word s5 = Some (f, s6)"
      "match_lit ''}}'' (opt_space s6) = Some rest"
    unfolding match_full_ref_def by (auto simp: bind_eq_Some_conv split: prod.splits)
  have o: "length (opt_space t) \<le> length t" for t by (cases t) (auto simp: opt_space_def)
  have c: "match_colons t = Some u \<Longrightarrow> length u \<le> length t" for t u
    by (auto simp: match_colons_def length_dropWhile_le split: if_splits)
  from m(1) have "length s1 \<le> length s" by (rule match_lit_shorter)
  moreover from m(2) have "length s2 < length s1" using match_word_shorter o less_le_trans by blast
  moreover from m(3) have "length s3 \<le> length s2" by (rule c)
  moreover from m(4) have "length s4 < length s3" by (rule match_word_shorter)
  moreover from m(5) have "length s5 \<le> length s4" by (rule c)
  moreover from m(6) have "length s6 < length s5" by (rule match_word_shorter)
  moreover from m(7) have "length rest \<le> length s6" using match_lit_shorter o le_trans by blast
  ultimately show ?thesis by linarith
qed

function (sequential) find_full_refs :: "string \<Rightarrow> (string \<times> string \<times> string \<times> string) list" where
  "find_full_refs [] = []"
| "find_full_refs (c # cs) =
     (case match_full_ref (c # cs) of Some (r, rest) \<Rightarrow> r # find_full_refs rest | None \<Rightarrow> find_full_refs cs)"
  by pat_completeness auto
termination
  by (relation "measure length") (auto dest: match_full_ref_shorter)

definition prefix_name :: "text_lib \<Rightarrow> string \<Rightarrow> string \<Rightarrow> string" where
  "prefix_name lib claim field_name = to_snake_case lib claim @ ''__'' @ field_name"

text \<open>A path below \<open>var\<close> or \<open>module\<close>.\<close>

definition traversal :: "hcl_lib \<Rightarrow> string \<Rightarrow> string list \<Rightarrow> expr" where
  "traversal hl root path = ETraversal (EVariable root) (List.map (hl_ident hl) path)"

text \<open>What a reference stands for: its path, or the key that is not known.\<close>

definition target_of :: "text_lib \<Rightarrow> input_resolver \<Rightarrow> string \<Rightarrow> string \<Rightarrow> string \<Rightarrow> (string, string \<times> string list) result" where
  "target_of lib ir kind claim field =
     (let field_snake = to_snake_case lib field in
      if kind = ''Stack'' \<and> claim = ''variables''
      then let key = ''stack__'' @ field_snake in
        if key \<in> set (ir_variables ir) then Inr (''var'', [key]) else Inl key
      else let key = prefix_name lib claim field_snake in
        if key \<in> set (ir_outputs ir) then Inr (''module'', [to_snake_case lib claim, field_snake])
        else if key \<in> set (ir_variables ir) then Inr (''var'', [key])
        else Inl key)"

definition plain_text :: "string \<Rightarrow> string \<Rightarrow> expr" where
  "plain_text input s =
     (if s = input then EString input
      else if CHR 0x0A \<in> set s then ETemplate (Heredoc s) else ETemplate (Quoted s))"

fun resolve_refs ::
  "text_lib \<Rightarrow> hcl_lib \<Rightarrow> input_resolver \<Rightarrow> string \<Rightarrow> (string \<times> string \<times> string \<times> string) list \<Rightarrow> string \<Rightarrow>
   (module_error, expr) result" where
  "resolve_refs lib hl ir input [] s = Inr (plain_text input s)"
| "resolve_refs lib hl ir input ((to_replace, kind, claim, field) # refs) s =
     (if \<not> contains_str to_replace (kind @ ''::'' @ claim @ ''::'' @ field)
      then Inl (InvalidReference to_replace (''{{ '' @ kind @ ''::'' @ claim @ ''::'' @ field @ '' }}''))
      else (case target_of lib ir kind claim field of
              Inl key \<Rightarrow> Inl (UnresolvedReference to_replace key)
            | Inr (root, path) \<Rightarrow>
                if length input = length to_replace then Inr (traversal hl root path)
                else resolve_refs lib hl ir input refs
                       (replace_all to_replace (''${'' @ root @ ''.'' @ join ''.'' path @ ''}'') s)))"

definition string_to_expression :: "text_lib \<Rightarrow> hcl_lib \<Rightarrow> input_resolver \<Rightarrow> string \<Rightarrow> (module_error, expr) result" where
  "string_to_expression lib hl ir input = resolve_refs lib hl ir input (find_full_refs input) input"

definition number_yaml_to_hcl :: "hcl_lib \<Rightarrow> number \<Rightarrow> number option" where
  "number_yaml_to_hcl hl n =
     (case n of
        PosInt w \<Rightarrow> Some (if uint w < 2 ^ 63 then PosInt w else Float (hl_f64 hl w))
      | NegInt w \<Rightarrow> Some (NegInt w)
      | Float f \<Rightarrow> if hl_finite hl f then Some (Float f) else None)"

text \<open>\<open>hcl::Object::from_iter\<close>: a later value replaces the value of an equal key.\<close>

definition mk_object :: "(object_key \<times> expr) list \<Rightarrow> expr" where
  "mk_object kvs = EObject (fold (\<lambda>(k, v). hm_insert k v) kvs [])"

lemma size_yaml_entry [termination_simp]:
  "(k, v) \<in> set kvs \<Longrightarrow> size v < Suc (size_list (size_prod size size) kvs)"
  by (induction kvs) auto

text \<open>The outer \<open>None\<close> is a panic; inside a list or a mapping an error is one.\<close>

fun resolve :: "text_lib \<Rightarrow> hcl_lib \<Rightarrow> input_resolver \<Rightarrow> yaml \<Rightarrow> (module_error, expr) result option" where
  "resolve lib hl ir YNull = Some (Inr ENull)"
| "resolve lib hl ir (YBool b) = Some (Inr (EBool b))"
| "resolve lib hl ir (YNumber n) = map_option (\<lambda>n. Inr (ENumber n)) (number_yaml_to_hcl hl n)"
| "resolve lib hl ir (YString s) = Some (string_to_expression lib hl ir s)"
| "resolve lib hl ir (YSeq vs) =
     map_option (\<lambda>es. Inr (EArray es)) (those (List.map (\<lambda>v. Option.bind (resolve lib hl ir v) res_opt) vs))"
| "resolve lib hl ir (YMap kvs) =
     map_option (\<lambda>es. Inr (mk_object es)) (those (List.map (\<lambda>(k, v).
       (case yaml_str k of
          None \<Rightarrow> None
        | Some key \<Rightarrow> if hl_valid hl key then map_option (Pair (KIdent key)) (Option.bind (resolve lib hl ir v) res_opt) else None))
       kvs))"
| "resolve lib hl ir (YTagged t v) = resolve lib hl ir v"

section \<open>Module calls\<close>

fun can_be_variable :: "expr \<Rightarrow> bool" where
  "can_be_variable (EArray es) = list_all can_be_variable es"
| "can_be_variable (EObject kvs) = list_all (\<lambda>(k, e). can_be_variable e) kvs"
| "can_be_variable (ETemplate t) = False"
| "can_be_variable (ETraversal e p) = False"
| "can_be_variable _ = True"

text \<open>The value of one input: inline when it holds a reference, else a variable of the stack.\<close>

definition module_input ::
  "text_lib \<Rightarrow> hcl_lib \<Rightarrow> input_resolver \<Rightarrow> deployment_manifest \<Rightarrow> string \<times> string \<Rightarrow> hcl_attribute option" where
  "module_input lib hl ir deployment input = (case input of (input_name, fq_input_name) \<Rightarrow>
     (case map_of (dsc_variables (dmf_spec deployment)) (YString (to_camel_case lib input_name)) of
        Some val \<Rightarrow>
          map_option (\<lambda>e. mk_attribute hl input_name (if can_be_variable e then traversal hl ''var'' [fq_input_name] else e))
            (Option.bind (resolve lib hl ir val) res_opt)
      | None \<Rightarrow> Some (mk_attribute hl input_name (traversal hl ''var'' [fq_input_name]))))"

definition module_variables ::
  "text_lib \<Rightarrow> hcl_lib \<Rightarrow> input_resolver \<Rightarrow> deployment_manifest \<Rightarrow> (string \<times> string) list \<Rightarrow> hcl_attribute list option" where
  "module_variables lib hl ir deployment inputs = those (List.map (module_input lib hl ir deployment) inputs)"

definition configuration_name :: "provider_spec \<Rightarrow> string" where
  "configuration_name ps = (case ps_alias ps of Some a \<Rightarrow> ps_provider ps @ ''.'' @ a | None \<Rightarrow> ps_provider ps)"

definition config_name_to_expression :: "hcl_lib \<Rightarrow> string \<Rightarrow> expr option" where
  "config_name_to_expression hl provider_name =
     (case split_on (CHR ''.'') provider_name of
        first # rest \<Rightarrow>
          if hl_valid hl first \<and> list_all (hl_valid hl) rest
          then Some (if rest = [] then EVariable first else ETraversal (EVariable first) rest) else None
      | [] \<Rightarrow> None)"

definition module_providers :: "hcl_lib \<Rightarrow> provider_resp list \<Rightarrow> (object_key \<times> expr) list option" where
  "module_providers hl prs =
     those (List.map (\<lambda>p. map_option (\<lambda>e. (KExpr e, e))
       (config_name_to_expression hl (configuration_name (pm_spec (pv_manifest p))))) prs)"

definition dependencies_attributes :: "hcl_lib \<Rightarrow> string list \<Rightarrow> hcl_attribute list" where
  "dependencies_attributes hl dependencies =
     (if dependencies = [] then []
      else [(''depends_on'', EArray (List.map (\<lambda>s. traversal hl ''module'' [s]) dependencies))])"

definition module_block ::
  "hcl_lib \<Rightarrow> deployment_manifest \<Rightarrow> hcl_attribute list \<Rightarrow> (object_key \<times> expr) list \<Rightarrow> string list \<Rightarrow> block option" where
  "module_block hl deployment inputs providers dependencies =
     map_option (\<lambda>version.
       attribute_block ''module'' [LString (dm_name (dmf_metadata deployment))]
         ([mk_attribute hl ''source'' (EString (''./'' @ dmf_kind deployment @ ''-'' @ version))] @ inputs
          @ (if providers = [] then [] else [mk_attribute hl ''providers'' (mk_object providers)])
          @ dependencies_attributes hl dependencies))
       (dsc_module_version (dmf_spec deployment))"

section \<open>The blocks around the modules\<close>

record provider_mgmt =
  tm_terraform :: "block list"
  tm_providers :: "block list"
  tm_variables :: "block list"
  tm_locals :: "hcl_attribute list"
  tm_output :: "block list"
  tm_data :: "block list"

definition new_mgmt :: provider_mgmt where
  "new_mgmt = \<lparr>tm_terraform = [], tm_providers = [], tm_variables = [], tm_locals = [], tm_output = [], tm_data = []\<rparr>"

definition add_check_duplicate_on_labels :: "string \<Rightarrow> block \<Rightarrow> block list \<Rightarrow> block list" where
  "add_check_duplicate_on_labels identifier b target =
     (if block_identifier b \<noteq> identifier then target
      else if \<exists>x \<in> set target. block_labels x = block_labels b then target
      else target @ [b])"

definition add_terraform :: "block \<Rightarrow> provider_mgmt \<Rightarrow> provider_mgmt" where
  "add_terraform b m = (if block_identifier b \<noteq> ''terraform'' then m else m\<lparr>tm_terraform := tm_terraform m @ [b]\<rparr>)"

definition get_alias :: "block \<Rightarrow> expr option" where
  "get_alias b = map_of (body_attributes (block_body b)) ''alias''"

definition add_provider_configuration :: "block \<Rightarrow> provider_mgmt \<Rightarrow> provider_mgmt" where
  "add_provider_configuration b m =
     (if block_identifier b \<noteq> ''provider'' then m
      else if \<exists>p \<in> set (tm_providers m). block_labels p = block_labels b \<and> get_alias p = get_alias b then m
      else m\<lparr>tm_providers := tm_providers m @ [b]\<rparr>)"

definition add_variable :: "block \<Rightarrow> provider_mgmt \<Rightarrow> provider_mgmt" where
  "add_variable b m = m\<lparr>tm_variables := add_check_duplicate_on_labels ''variable'' b (tm_variables m)\<rparr>"

definition add_output :: "block \<Rightarrow> provider_mgmt \<Rightarrow> provider_mgmt" where
  "add_output b m = m\<lparr>tm_output := add_check_duplicate_on_labels ''output'' b (tm_output m)\<rparr>"

definition add_data :: "block \<Rightarrow> provider_mgmt \<Rightarrow> provider_mgmt" where
  "add_data b m = m\<lparr>tm_data := add_check_duplicate_on_labels ''data'' b (tm_data m)\<rparr>"

definition add_local :: "hcl_attribute \<Rightarrow> hcl_attribute list \<Rightarrow> hcl_attribute list" where
  "add_local a locals = (if \<exists>x \<in> set locals. fst x = fst a then locals else locals @ [a])"

definition add_locals :: "block \<Rightarrow> provider_mgmt \<Rightarrow> provider_mgmt" where
  "add_locals b m =
     (if block_identifier b \<noteq> ''locals'' then m
      else m\<lparr>tm_locals := fold add_local (body_attributes (block_body b)) (tm_locals m)\<rparr>)"

definition add_block :: "block \<Rightarrow> provider_mgmt \<Rightarrow> provider_mgmt" where
  "add_block b m =
     add_output b (add_data b (add_variable b (add_locals b (add_provider_configuration b (add_terraform b m)))))"

definition required_version :: "hcl_lib \<Rightarrow> provider_mgmt \<Rightarrow> hcl_attribute list" where
  "required_version hl m =
     (let constraints = concat (List.map (\<lambda>(k, e). case e of EString v \<Rightarrow> if k = ''required_version'' then [v] else [] | _ \<Rightarrow> [])
            (concat (List.map (\<lambda>b. body_attributes (block_body b)) (tm_terraform m))))
      in if constraints = [] then [] else [mk_attribute hl ''required_version'' (EString (join '', '' constraints))])"

definition add_version :: "(object_key \<times> expr) list \<Rightarrow> (object_key \<times> expr) list \<Rightarrow> (object_key \<times> expr) list option" where
  "add_version new current =
     (case map_of new (KIdent ''version'') of
        None \<Rightarrow> None
      | Some (EString ver) \<Rightarrow> Some (case map_of current (KIdent ''version'') of
            Some (EString cur) \<Rightarrow> hm_insert (KIdent ''version'') (EString (cur @ '', '' @ ver)) current
          | Some _ \<Rightarrow> current
          | None \<Rightarrow> hm_insert (KIdent ''version'') (EString ver) current)
      | Some _ \<Rightarrow> Some current)"

definition add_aliases :: "(object_key \<times> expr) list \<Rightarrow> (object_key \<times> expr) list \<Rightarrow> (object_key \<times> expr) list" where
  "add_aliases new current =
     (case map_of new (KIdent ''configured_aliases'') of
        None \<Rightarrow> current
      | Some e \<Rightarrow> (case map_of current (KIdent ''configured_aliases'') of
            None \<Rightarrow> hm_insert (KIdent ''configured_aliases'') e current
          | Some cur \<Rightarrow> (case (cur, e) of
                (EArray xs, EArray ys) \<Rightarrow> hm_insert (KIdent ''configured_aliases'') (EArray (xs @ ys)) current
              | _ \<Rightarrow> current)))"

fun merge_providers ::
  "hcl_attribute list \<Rightarrow> (string, (object_key \<times> expr) list) hash_map \<Rightarrow> (string, (object_key \<times> expr) list) hash_map option" where
  "merge_providers [] ps = Some ps"
| "merge_providers ((key, e) # rest) ps =
     (case e of
        EObject new \<Rightarrow>
          (case map_of ps key of
             None \<Rightarrow> merge_providers rest (hm_insert key new ps)
           | Some current \<Rightarrow> Option.bind (add_version new current) (\<lambda>merged.
               merge_providers rest (hm_insert key (add_aliases new merged) ps)))
      | _ \<Rightarrow> merge_providers rest ps)"

definition nested_blocks :: "string \<Rightarrow> provider_mgmt \<Rightarrow> block list" where
  "nested_blocks identifier m =
     filter (\<lambda>b. block_identifier b = identifier) (concat (List.map (\<lambda>t. body_blocks (block_body t)) (tm_terraform m)))"

definition required_providers ::
  "((string \<times> (object_key \<times> expr) list) list \<Rightarrow> (string \<times> (object_key \<times> expr) list) list) \<Rightarrow> hcl_lib \<Rightarrow> provider_mgmt \<Rightarrow>
   block list option" where
  "required_providers order hl m =
     map_option (\<lambda>ps. if ps = [] then []
         else [attribute_block ''required_providers'' [] (List.map (\<lambda>(k, obj). mk_attribute hl k (EObject obj)) (order ps))])
       (merge_providers (concat (List.map (\<lambda>b. body_attributes (block_body b)) (nested_blocks ''required_providers'' m))) [])"

definition provider_meta :: "provider_mgmt \<Rightarrow> block list" where
  "provider_meta m = nested_blocks ''provider_meta'' m"

definition terraform_blocks ::
  "((string \<times> (object_key \<times> expr) list) list \<Rightarrow> (string \<times> (object_key \<times> expr) list) list) \<Rightarrow> hcl_lib \<Rightarrow> provider_mgmt \<Rightarrow>
   block list option" where
  "terraform_blocks order hl m =
     (if tm_terraform m = [] then Some []
      else map_option (\<lambda>rps. [Block ''terraform'' []
             (List.map (\<lambda>(k, e). SAttr k e) (required_version hl m) @ List.map SBlock rps @ List.map SBlock (provider_meta m))])
        (required_providers order hl m))"

definition locals_blocks :: "provider_mgmt \<Rightarrow> block list" where
  "locals_blocks m = (if tm_locals m = [] then [] else [attribute_block ''locals'' [] (tm_locals m)])"

definition build_mgmt ::
  "((string \<times> (object_key \<times> expr) list) list \<Rightarrow> (string \<times> (object_key \<times> expr) list) list) \<Rightarrow> hcl_lib \<Rightarrow> provider_mgmt \<Rightarrow>
   block list option" where
  "build_mgmt order hl m =
     map_option (\<lambda>ts. ts @ tm_providers m @ locals_blocks m @ tm_variables m @ tm_data m @ tm_output m)
       (terraform_blocks order hl m)"

section \<open>The code of a stack\<close>

text \<open>
  \<open>sp_blocks\<close> is the parsed code of the Terraform files in the folder of the stack, \<open>sp_providers\<close>
  that of each provider; the remaining parts are those of the manifest of the stack.
\<close>

record stack_parts =
  sp_claims :: "claim_module list"
  sp_variables :: "tf_variable list option"
  sp_locals :: "(yaml \<times> yaml) list option"
  sp_dependencies :: "(string \<times> string list) list"
  sp_blocks :: "block list"
  sp_providers :: "block list list"

record stack_code =
  sc_mgmt :: provider_mgmt
  sc_providers :: "block list"
  sc_main :: "block list"
  sc_variables :: "tf_variable list"
  sc_environment :: "string list"
  sc_outputs :: "tf_output list"

definition split_manual :: "block list \<Rightarrow> block list \<times> provider_mgmt" where
  "split_manual bs =
     fold (\<lambda>b (main, m). if block_identifier b = ''module'' then (main @ [b], m) else (main, add_block b m)) bs ([], new_mgmt)"

text \<open>A local of a provider takes the value that the stack gives; \<open>None\<close> is the panic of \<open>unwrap\<close>.\<close>

definition set_local ::
  "stack_lib \<Rightarrow> input_resolver \<Rightarrow> (yaml \<times> yaml) list \<Rightarrow> structure \<Rightarrow> structure option" where
  "set_local sk ir mapping st =
     (case st of
        SAttr k e \<Rightarrow> (case map_of mapping (YString (to_camel_case (sk_text sk) k)) of
            None \<Rightarrow> Some st
          | Some val \<Rightarrow> map_option (SAttr k) (Option.bind (resolve (sk_text sk) (sk_hcl sk) ir val) res_opt))
      | SBlock _ \<Rightarrow> Some st)"

definition provider_block ::
  "stack_lib \<Rightarrow> input_resolver \<Rightarrow> (yaml \<times> yaml) list option \<Rightarrow> block \<Rightarrow> provider_mgmt \<Rightarrow> provider_mgmt option" where
  "provider_block sk ir locals b m =
     (if block_identifier b = ''variable''
      then (case block_labels b of
              [] \<Rightarrow> None
            | l # _ \<Rightarrow> Some (case locals of
                None \<Rightarrow> add_block b m
              | Some mapping \<Rightarrow>
                  if YString (to_camel_case (sk_text sk) (label_text l)) \<in> fst ` set mapping then m else add_block b m))
      else if block_identifier b = ''locals''
      then (case locals of
              None \<Rightarrow> Some (add_block b m)
            | Some mapping \<Rightarrow> map_option (\<lambda>body. add_block (Block ''locals'' (block_labels b) body) m)
                (those (List.map (set_local sk ir mapping) (block_body b))))
      else Some (add_block b m))"

fun provider_blocks ::
  "stack_lib \<Rightarrow> input_resolver \<Rightarrow> (yaml \<times> yaml) list option \<Rightarrow> block list \<Rightarrow> provider_mgmt \<Rightarrow> provider_mgmt option" where
  "provider_blocks sk ir locals [] m = Some m"
| "provider_blocks sk ir locals (b # bs) m = Option.bind (provider_block sk ir locals b m) (provider_blocks sk ir locals bs)"

text \<open>The variables that no reference is wired to, under their full names.\<close>

definition unwired :: "(string, string) hash_map \<Rightarrow> (string \<times> tf_variable) list \<Rightarrow> tf_variable list" where
  "unwired wired vars = List.map (\<lambda>(k, v). v\<lparr>tfv_name := k\<rparr>) (filter (\<lambda>(k, v). \<not> hm_contains wired k) vars)"

definition stack_output :: "string \<Rightarrow> tf_output \<Rightarrow> tf_output" where
  "stack_output name out = out\<lparr>tfo_name := name, tfo_value := ''module.'' @ join ''.'' (split_str ''__'' name)\<rparr>"

definition claim_input_names :: "claim_module \<Rightarrow> (string \<times> string) list" where
  "claim_input_names cm =
     List.map (\<lambda>v. (tfv_name v, claim_name cm @ ''__'' @ tfv_name v)) (mr_tf_variables (snd cm))"

definition claim_module_block ::
  "stack_lib \<Rightarrow> input_resolver \<Rightarrow> (string \<times> string list) list \<Rightarrow> claim_module \<Rightarrow> block option" where
  "claim_module_block sk ir dependencies cm =
     Option.bind (module_variables (sk_text sk) (sk_hcl sk) ir (fst cm) (claim_input_names cm)) (\<lambda>inputs.
     Option.bind (module_providers (sk_hcl sk) (mr_tf_providers (snd cm))) (\<lambda>providers.
     module_block (sk_hcl sk) (fst cm) inputs providers
       (concat (List.map snd (filter (\<lambda>d. fst d = claim_name cm) dependencies)))))"

fun module_calls ::
  "stack_lib \<Rightarrow> input_resolver \<Rightarrow> (string \<times> string list) list \<Rightarrow> claim_module list \<Rightarrow> block list \<Rightarrow> block list option" where
  "module_calls sk ir dependencies [] main = Some main"
| "module_calls sk ir dependencies (cm # cms) main =
     (if \<exists>b \<in> set main. \<exists>l \<in> set (block_labels b). label_text l = claim_name cm
      then module_calls sk ir dependencies cms main
      else Option.bind (claim_module_block sk ir dependencies cm) (\<lambda>b. module_calls sk ir dependencies cms (main @ [b])))"

definition stack_resolver :: "(string, tf_variable) hash_map \<Rightarrow> (string, tf_output) hash_map \<Rightarrow> input_resolver" where
  "stack_resolver vars outs = \<lparr>ir_variables = List.map fst vars, ir_outputs = List.map fst outs\<rparr>"

definition with_blocks :: "block list \<Rightarrow> provider_mgmt \<Rightarrow> provider_mgmt" where
  "with_blocks bs m = fold add_block bs m"

text \<open>The outputs of the module that the stack becomes.\<close>

fun read_outputs :: "hcl_lib \<Rightarrow> block list \<Rightarrow> (string, tf_output list) result option" where
  "read_outputs hl [] = Some (Inr [])"
| "read_outputs hl (b # bs) =
     Option.bind (read_output hl b) (\<lambda>r. case r of
       Inl e \<Rightarrow> Some (Inl e)
     | Inr out \<Rightarrow> map_option (\<lambda>rs. res_bind rs (\<lambda>outs. Inr (out # outs))) (read_outputs hl bs))"

text \<open>
  The code of \<open>publish_stack\<close> between the download of the providers and the upload. The \<open>order\<close>
  arguments are the orders in which the hash maps are traversed. The outer \<open>None\<close> is a panic.
\<close>

definition generate_stack_code ::
  "((string \<times> tf_variable) list \<Rightarrow> (string \<times> tf_variable) list) \<Rightarrow> ((string \<times> tf_output) list \<Rightarrow> (string \<times> tf_output) list) \<Rightarrow>
   ((string \<times> (object_key \<times> expr) list) list \<Rightarrow> (string \<times> (object_key \<times> expr) list) list) \<Rightarrow>
   stack_lib \<Rightarrow> stack_parts \<Rightarrow> (module_error, stack_code) result option" where
  "generate_stack_code order_vars order_outs order_required sk sp =
     Option.bind (collect_module_variables_with_stack sk (sp_claims sp) (sp_variables sp)) (\<lambda>vars.
     let outs = collect_module_outputs (sk_text sk) (sp_claims sp); ir = stack_resolver vars outs;
         (manual, m0) = split_manual (sp_blocks sp)
     in Option.bind (provider_blocks sk ir (sp_locals sp) (concat (sp_providers sp)) m0) (\<lambda>m1.
        case generate_dependency_map order_vars sk vars outs of
          Inl e \<Rightarrow> Some (Inl e)
        | Inr wired \<Rightarrow>
            Option.bind (those (List.map (variable_block (sk_hcl sk)) (unwired wired (order_vars vars)))) (\<lambda>vbs.
            Option.bind (those (List.map (\<lambda>(k, out). output_block (sk_hcl sk) (stack_output k out)) (order_outs outs))) (\<lambda>obs.
            let m2 = with_blocks obs (with_blocks vbs m1)
            in Option.bind (module_calls sk ir (sp_dependencies sp) (sp_claims sp) manual) (\<lambda>main.
               Option.bind (build_mgmt order_required (sk_hcl sk) m2) (\<lambda>providers.
               Option.bind (read_outputs (sk_hcl sk) (tm_output m2)) (\<lambda>tf_outputs.
               let open_vars = unwired wired (order_vars vars)
               in Some (case tf_outputs of
                    Inl e \<Rightarrow> Inl (OtherError e)
                  | Inr os \<Rightarrow> Inr \<lparr>sc_mgmt = m2, sc_providers = providers, sc_main = main,
                      sc_variables = filter (\<lambda>v. \<not> starts_with (tfv_name v) ''INFRAWEAVE_'') open_vars,
                      sc_environment = List.map tfv_name (filter (\<lambda>v. starts_with (tfv_name v) ''INFRAWEAVE_'') open_vars),
                      sc_outputs = os\<rparr>))))))))"

end
