(* ===== verification/Stack_Module_Properties.thy ===== *)
theory Stack_Module_Properties
  imports Stack_Module
begin

text \<open>
  What holds of the code of a stack: which blocks survive the merge of Terraform code from several
  sources, what the module calls refer to, and where a reference is lost.
\<close>

section \<open>The merge of blocks\<close>

text \<open>The elements whose key has not occurred before.\<close>

fun firsts :: "('a \<Rightarrow> 'b) \<Rightarrow> 'a list \<Rightarrow> 'a list" where
  "firsts f [] = []"
| "firsts f (x # xs) = x # filter (\<lambda>y. f y \<noteq> f x) (firsts f xs)"

lemma keys_firsts: "f ` set (firsts f xs) = f ` set xs"
proof (induction xs)
  case (Cons x xs)
  have "f ` set (firsts f (x # xs)) = insert (f x) (f ` set (firsts f xs))" by auto
  with Cons.IH show ?case by simp
qed simp

lemma known_key: "(\<exists>x \<in> set (firsts f xs). f x = k) \<longleftrightarrow> (\<exists>x \<in> set xs. f x = k)"
  using keys_firsts [of f xs] by (metis imageE imageI)

lemma distinct_firsts: "distinct (List.map f (firsts f xs))"
  by (induction xs) (auto simp: distinct_map inj_on_def)

lemma firsts_subset: "set (firsts f xs) \<subseteq> set xs"
  by (induction xs) auto

lemma firsts_snoc: "firsts f (xs @ [x]) = firsts f xs @ (if \<exists>y \<in> set xs. f y = f x then [] else [x])"
  by (induction xs) (auto simp: filter_id_conv)

definition of_kind :: "string \<Rightarrow> block list \<Rightarrow> block list" where
  "of_kind identifier bs = filter (\<lambda>b. block_identifier b = identifier) bs"

lemma of_kind_snoc [simp]:
  "of_kind i (bs @ [b]) = of_kind i bs @ (if block_identifier b = i then [b] else [])" "of_kind i [] = []"
  by (simp_all add: of_kind_def)

lemma add_check_firsts:
  "add_check_duplicate_on_labels i b (firsts block_labels (of_kind i bs)) = firsts block_labels (of_kind i (bs @ [b]))"
  by (simp add: add_check_duplicate_on_labels_def firsts_snoc known_key del: bex_simps)

definition provider_key :: "block \<Rightarrow> label list \<times> expr option" where
  "provider_key b = (block_labels b, get_alias b)"

lemma add_provider_firsts:
  assumes "tm_providers m = firsts provider_key (of_kind ''provider'' bs)"
  shows "add_provider_configuration b m = m\<lparr>tm_providers := firsts provider_key (of_kind ''provider'' (bs @ [b]))\<rparr>"
proof -
  have k: "block_labels p = block_labels b \<and> get_alias p = get_alias b \<longleftrightarrow> provider_key p = provider_key b" for p
    by (simp add: provider_key_def)
  show ?thesis
  proof (cases "block_identifier b = ''provider''")
    case True
    then show ?thesis
      using assms unfolding add_provider_configuration_def k by (cases m) (simp add: firsts_snoc known_key)
  next
    case False
    then show ?thesis using assms by (cases m) (simp add: add_provider_configuration_def)
  qed
qed

lemma add_local_firsts: "add_local a (firsts fst as) = firsts fst (as @ [a])"
  by (simp only: add_local_def firsts_snoc known_key) simp

lemma add_local_all: "fold add_local bs (firsts fst as) = firsts fst (as @ bs)"
proof (induction bs arbitrary: as)
  case (Cons b bs)
  show ?case using Cons.IH [of "as @ [b]"] by (simp add: add_local_firsts)
qed simp

definition merged :: "block list \<Rightarrow> provider_mgmt" where
  "merged bs = \<lparr>tm_terraform = of_kind ''terraform'' bs,
     tm_providers = firsts provider_key (of_kind ''provider'' bs),
     tm_variables = firsts block_labels (of_kind ''variable'' bs),
     tm_locals = firsts fst (concat (List.map (\<lambda>b. body_attributes (block_body b)) (of_kind ''locals'' bs))),
     tm_output = firsts block_labels (of_kind ''output'' bs),
     tm_data = firsts block_labels (of_kind ''data'' bs)\<rparr>"

lemma merged_snoc: "add_block b (merged bs) = merged (bs @ [b])"
proof -
  have p: "add_provider_configuration b (add_terraform b (merged bs))
      = (add_terraform b (merged bs))\<lparr>tm_providers := firsts provider_key (of_kind ''provider'' (bs @ [b]))\<rparr>"
    by (rule add_provider_firsts) (simp add: merged_def add_terraform_def)
  show ?thesis
    unfolding add_block_def p
    by (simp add: merged_def add_terraform_def add_locals_def add_local_all add_variable_def add_data_def
        add_output_def add_check_firsts del: of_kind_snoc) (simp add: of_kind_def)
qed

lemma merged_append: "with_blocks bs (merged as) = merged (as @ bs)"
proof (induction bs arbitrary: as)
  case (Cons b bs)
  show ?case using Cons.IH [of "as @ [b]"] by (simp add: with_blocks_def merged_snoc)
qed (simp add: with_blocks_def)

lemma new_merged: "new_mgmt = merged []"
  by (simp add: new_mgmt_def merged_def of_kind_def)

text \<open>The kinds of blocks that the merge knows.\<close>

definition merged_kinds :: "string set" where
  "merged_kinds = {''terraform'', ''provider'', ''variable'', ''locals'', ''output'', ''data''}"

lemma of_merged_kind: "i \<in> merged_kinds \<Longrightarrow> of_kind i (filter (\<lambda>b. block_identifier b \<in> merged_kinds) bs) = of_kind i bs"
  unfolding of_kind_def filter_filter by (rule filter_cong) auto

lemma merged_filtered: "merged (filter (\<lambda>b. block_identifier b \<in> merged_kinds) bs) = merged bs"
proof -
  have "''terraform'' \<in> merged_kinds" "''provider'' \<in> merged_kinds" "''variable'' \<in> merged_kinds"
    "''locals'' \<in> merged_kinds" "''output'' \<in> merged_kinds" "''data'' \<in> merged_kinds"
    by (simp_all add: merged_kinds_def)
  then show ?thesis by (simp add: merged_def of_merged_kind)
qed

text \<open>
  C37: what the merge of the Terraform files of a stack, of its providers and of the generated blocks
  keeps. Every \<open>terraform\<close> block is kept; of the variables, the outputs and the data sources the first
  block with each list of labels, of the providers the first with each pair of labels and alias, of
  the local values the first of each name; all in their order and whole. A block of any other kind
  (a resource, a check, a \<open>moved\<close> or an \<open>import\<close> block) leaves no trace, and no warning says so.
\<close>

theorem blocks_merged_once:
  "with_blocks bs new_mgmt = merged bs
   \<and> with_blocks bs new_mgmt = with_blocks (filter (\<lambda>b. block_identifier b \<in> merged_kinds) bs) new_mgmt
   \<and> distinct (List.map block_labels (tm_variables (merged bs))) \<and> distinct (List.map block_labels (tm_output (merged bs)))
   \<and> distinct (List.map block_labels (tm_data (merged bs))) \<and> distinct (List.map provider_key (tm_providers (merged bs)))
   \<and> distinct (List.map fst (tm_locals (merged bs)))"
  unfolding new_merged merged_append by (simp add: merged_filtered) (simp add: merged_def distinct_firsts)

lemma split_manual_merged:
  "split_manual bs = (of_kind ''module'' bs, merged (filter (\<lambda>b. block_identifier b \<noteq> ''module'') bs))"
proof -
  have "fold (\<lambda>b (main, m). if block_identifier b = ''module'' then (main @ [b], m) else (main, add_block b m)) bs (main, merged as)
      = (main @ of_kind ''module'' bs, merged (as @ filter (\<lambda>b. block_identifier b \<noteq> ''module'') bs))" for main as
    by (induction bs arbitrary: main as) (simp_all add: merged_snoc of_kind_def)
  from this [of "[]" "[]"] show ?thesis by (simp add: split_manual_def new_merged)
qed

lemma provider_block_merged: "provider_block sk ir locals b (merged as) = Some m \<Longrightarrow> \<exists>cs. m = merged (as @ cs)"
  by (auto simp: provider_block_def merged_snoc split: if_splits list.splits option.splits intro: exI [of _ "[]"])

lemma provider_blocks_merged: "provider_blocks sk ir locals bs (merged as) = Some m \<Longrightarrow> \<exists>cs. m = merged (as @ cs)"
proof (induction bs arbitrary: as)
  case (Cons b bs)
  then obtain m1 where b: "provider_block sk ir locals b (merged as) = Some m1" and bs: "provider_blocks sk ir locals bs m1 = Some m"
    by (auto simp: bind_eq_Some_conv)
  from provider_block_merged [OF b] obtain cs where "m1 = merged (as @ cs)" by blast
  with Cons.IH [of "as @ cs"] bs show ?case by auto
qed (auto intro: exI [of _ "[]"])

lemma case_dep_map:
  assumes "(case r of Inl e \<Rightarrow> Some (Inl e) | Inr w \<Rightarrow> f w) = Some (Inr c)"
  obtains w where "r = Inr w" "f w = Some (Inr c)"
  using assms by (cases r) auto

lemma case_os:
  assumes "(case r of Inl e \<Rightarrow> Inl (f e) | Inr w \<Rightarrow> Inr (g w)) = Inr c"
  obtains w where "r = Inr w" "c = g w"
  using assms by (cases r) auto

text \<open>What the generation of a stack amounts to when it succeeds.\<close>

lemma generated:
  assumes "generate_stack_code order_vars order_outs order_required sk sp = Some (Inr code)"
  obtains vars wired vbs obs cs where
    "collect_module_variables_with_stack sk (sp_claims sp) (sp_variables sp) = Some vars"
    "generate_dependency_map order_vars sk vars (collect_module_outputs (sk_text sk) (sp_claims sp)) = Inr wired"
    "those (List.map (variable_block (sk_hcl sk)) (unwired wired (order_vars vars))) = Some vbs"
    "those (List.map (\<lambda>(k, out). output_block (sk_hcl sk) (stack_output k out))
       (order_outs (collect_module_outputs (sk_text sk) (sp_claims sp)))) = Some obs"
    "sc_mgmt code = merged (cs @ vbs @ obs)"
    "module_calls sk (stack_resolver vars (collect_module_outputs (sk_text sk) (sp_claims sp))) (sp_dependencies sp) (sp_claims sp)
       (of_kind ''module'' (sp_blocks sp)) = Some (sc_main code)"
    "sc_variables code = filter (\<lambda>v. \<not> starts_with (tfv_name v) ''INFRAWEAVE_'') (unwired wired (order_vars vars))"
proof -
  let ?outs = "collect_module_outputs (sk_text sk) (sp_claims sp)"
  obtain vars m1 wired vbs obs os where
    p: "collect_module_variables_with_stack sk (sp_claims sp) (sp_variables sp) = Some vars"
    "provider_blocks sk (stack_resolver vars ?outs) (sp_locals sp) (concat (sp_providers sp))
      (merged (filter (\<lambda>b. block_identifier b \<noteq> ''module'') (sp_blocks sp))) = Some m1"
    "generate_dependency_map order_vars sk vars ?outs = Inr wired"
    "those (List.map (variable_block (sk_hcl sk)) (unwired wired (order_vars vars))) = Some vbs"
    "those (List.map (\<lambda>(k, out). output_block (sk_hcl sk) (stack_output k out)) (order_outs ?outs)) = Some obs"
    "module_calls sk (stack_resolver vars ?outs) (sp_dependencies sp) (sp_claims sp) (of_kind ''module'' (sp_blocks sp)) = Some (sc_main code)"
    "sc_mgmt code = with_blocks obs (with_blocks vbs m1)"
    "sc_variables code = filter (\<lambda>v. \<not> starts_with (tfv_name v) ''INFRAWEAVE_'') (unwired wired (order_vars vars))"
    using assms unfolding generate_stack_code_def
    apply (simp add: split_manual_merged Let_def bind_eq_Some_conv del: not_None_eq)
    apply (elim exE conjE)
    apply (erule case_dep_map)
    apply (simp add: Let_def bind_eq_Some_conv)
    apply (elim exE conjE case_os)
    apply hypsubst
    apply (rule that)
    apply (assumption | simp)+
    done
  from provider_blocks_merged [OF p(2)] obtain cs where cs: "m1 = merged cs" by blast
  with p(7) have "sc_mgmt code = merged (cs @ vbs @ obs)" by (simp add: merged_append)
  from that [OF p(1,3,4,5) this p(6,8)] show thesis .
qed

section \<open>What module calls refer to\<close>

text \<open>The parts of an expression below its lists and objects, and the texts of a value.\<close>

fun leaves :: "expr \<Rightarrow> expr list" where
  "leaves (EArray es) = concat (List.map leaves es)"
| "leaves (EObject kvs) = concat (List.map (\<lambda>(k, e). leaves e) kvs)"
| "leaves e = [e]"

fun yaml_texts :: "yaml \<Rightarrow> string list" where
  "yaml_texts (YString s) = [s]"
| "yaml_texts (YSeq vs) = concat (List.map yaml_texts vs)"
| "yaml_texts (YMap kvs) = concat (List.map (\<lambda>(k, v). yaml_texts v) kvs)"
| "yaml_texts (YTagged t v) = yaml_texts v"
| "yaml_texts _ = []"

fun template_text :: "template \<Rightarrow> string" where
  "template_text (Quoted s) = s"
| "template_text (Heredoc s) = s"

text \<open>
  The path that a reference names: a variable of the stack for \<open>Stack::variables::x\<close>, else an output of
  the named claim or one of its inputs.
\<close>

definition names_path :: "text_lib \<Rightarrow> string \<times> string \<times> string \<times> string \<Rightarrow> string \<Rightarrow> string list \<Rightarrow> bool" where
  "names_path lib r root path =
     (case r of (reference, kind, claim, field) \<Rightarrow>
        if kind = ''Stack'' \<and> claim = ''variables'' then root = ''var'' \<and> path = [''stack__'' @ to_snake_case lib field]
        else (root = ''module'' \<and> path = [to_snake_case lib claim, to_snake_case lib field])
          \<or> (root = ''var'' \<and> path = [get_variable_name lib claim (to_snake_case lib field)]))"

text \<open>A text in which each reference has become the interpolation of a path.\<close>

definition filled :: "(string \<times> string \<times> string list) list \<Rightarrow> string \<Rightarrow> string" where
  "filled subs s = fold (\<lambda>(reference, root, path). replace_all reference (''${'' @ root @ ''.'' @ join ''.'' path @ ''}'')) subs s"

definition known_path :: "text_lib \<Rightarrow> input_resolver \<Rightarrow> string \<Rightarrow> string list \<Rightarrow> bool" where
  "known_path lib ir root path \<longleftrightarrow>
     (\<exists>k \<in> set (ir_variables ir). root = ''var'' \<and> path = [k])
     \<or> (\<exists>c f. get_output_name lib c f \<in> set (ir_outputs ir) \<and> root = ''module'' \<and> path = [to_snake_case lib c, f])"

lemma target_known:
  "target_of lib ir kind claim field = Inr (root, path) \<Longrightarrow>
   known_path lib ir root path \<and> names_path lib (reference, kind, claim, field) root path"
  unfolding target_of_def prefix_name_def get_output_name_def get_variable_name_def known_path_def names_path_def Let_def
  by (simp split: if_splits) blast+

text \<open>
  What a leaf of the value of an input may be, for the paths that exist, the variable of the input and
  the texts of its value: the variable, the path that a text names which is one reference, one of the
  texts, or a template whose text is one of them with every reference in it replaced by the path it names.
\<close>

definition leaf_of :: "text_lib \<Rightarrow> hcl_lib \<Rightarrow> (string \<Rightarrow> string list \<Rightarrow> bool) \<Rightarrow> string \<Rightarrow> string set \<Rightarrow> expr \<Rightarrow> bool" where
  "leaf_of lib hl exists_path own texts e \<longleftrightarrow>
     (case e of
        ETraversal r ids \<Rightarrow> (\<exists>root path. r = EVariable root \<and> ids = List.map (hl_ident hl) path \<and> exists_path root path
            \<and> (root = ''var'' \<and> path = [own]
               \<or> (\<exists>s \<in> texts. \<exists>r \<in> set (find_full_refs s). length (fst r) = length s \<and> names_path lib r root path)))
      | ETemplate t \<Rightarrow> (\<exists>s \<in> texts. \<exists>subs. template_text t = filled subs s
            \<and> list_all2 (\<lambda>r (reference, root, path). reference = fst r \<and> exists_path root path \<and> names_path lib r root path)
                (find_full_refs s) subs)
      | EString t \<Rightarrow> t \<in> texts
      | EVariable _ \<Rightarrow> False
      | EOther _ \<Rightarrow> False
      | _ \<Rightarrow> True)"

lemma leaf_of_mono:
  assumes "leaf_of lib hl P own T e" "\<And>root path. P root path \<Longrightarrow> Q root path"
  shows "leaf_of lib hl Q own T e"
proof (cases e)
  case (ETemplate t)
  with assms(1) obtain s subs where s: "s \<in> T" "template_text t = filled subs s" and
    all: "list_all2 (\<lambda>r (reference, root, path). reference = fst r \<and> P root path \<and> names_path lib r root path) (find_full_refs s) subs"
    by (auto simp: leaf_of_def)
  have "list_all2 (\<lambda>r (reference, root, path). reference = fst r \<and> Q root path \<and> names_path lib r root path) (find_full_refs s) subs"
    by (rule list_all2_mono [OF all]) (auto intro: assms(2))
  with s ETemplate show ?thesis by (auto simp: leaf_of_def)
next
  case (ETraversal r ids)
  with assms show ?thesis unfolding leaf_of_def by (simp, blast)
qed (use assms(1) in \<open>simp_all add: leaf_of_def\<close>)

lemma resolve_refs_leaf:
  assumes "resolve_refs lib hl ir input refs s = Inr e"
  shows "(\<exists>root path r. e = traversal hl root path \<and> known_path lib ir root path \<and> r \<in> set refs
       \<and> length (fst r) = length input \<and> names_path lib r root path)
    \<or> e = EString input
    \<or> (\<exists>t subs. e = ETemplate t \<and> template_text t = filled subs s
         \<and> list_all2 (\<lambda>r (reference, root, path). reference = fst r \<and> known_path lib ir root path \<and> names_path lib r root path) refs subs)"
  using assms
proof (induction lib hl ir input refs s rule: resolve_refs.induct)
  case (1 lib hl ir input s)
  then show ?case by (auto simp: plain_text_def filled_def split: if_splits)
next
  case (2 lib hl ir input to_replace kind claim field refs s)
  let ?new = "\<lambda>root path. replace_all to_replace (''${'' @ root @ ''.'' @ join ''.'' path @ ''}'') s"
  let ?r = "(to_replace, kind, claim, field)"
  from 2(2) obtain root path where t: "target_of lib ir kind claim field = Inr (root, path)"
    and c: "contains_str to_replace (kind @ ''::'' @ claim @ ''::'' @ field)"
    by (auto split: if_splits sum.splits)
  from target_known [OF t] have known: "known_path lib ir root path" "names_path lib ?r root path" by auto
  show ?case
  proof (cases "length input = length to_replace")
    case True
    with 2(2) t c have "e = traversal hl root path" by simp
    with known True have "\<exists>root path r. e = traversal hl root path \<and> known_path lib ir root path \<and> r \<in> set (?r # refs)
       \<and> length (fst r) = length input \<and> names_path lib r root path"
      by (intro exI [of _ root] exI [of _ path] exI [of _ ?r]) simp
    then show ?thesis by blast
  next
    case False
    with 2(2) t c have r: "resolve_refs lib hl ir input refs (?new root path) = Inr e" by simp
    from 2(1) [OF _ t refl False r] c consider
        root path r where "e = traversal hl root path" "known_path lib ir root path" "r \<in> set (?r # refs)"
          "length (fst r) = length input" "names_path lib r root path"
      | "e = EString input"
      | t subs where "e = ETemplate t" "template_text t = filled subs (?new root path)"
          "list_all2 (\<lambda>r (reference, root, path). reference = fst r \<and> known_path lib ir root path \<and> names_path lib r root path) refs subs"
      by fastforce
    then show ?thesis
    proof cases
      case 3
      let ?subs = "(to_replace, root, path) # subs"
      have "template_text t = filled ?subs s"
        "list_all2 (\<lambda>r (reference, root, path). reference = fst r \<and> known_path lib ir root path \<and> names_path lib r root path) (?r # refs) ?subs"
        using 3 known by (simp_all add: filled_def)
      with 3(1) show ?thesis by blast
    qed blast+
  qed
qed

lemma string_leaf:
  assumes "string_to_expression lib hl ir s = Inr e" "s \<in> T"
  shows "leaves e = [e] \<and> leaf_of lib hl (known_path lib ir) own T e"
proof -
  from resolve_refs_leaf [OF assms(1) [unfolded string_to_expression_def]] consider
      root path r where "e = traversal hl root path" "known_path lib ir root path" "r \<in> set (find_full_refs s)"
        "length (fst r) = length s" "names_path lib r root path"
    | "e = EString s"
    | t subs where "e = ETemplate t" "template_text t = filled subs s"
        "list_all2 (\<lambda>r (reference, root, path). reference = fst r \<and> known_path lib ir root path \<and> names_path lib r root path)
           (find_full_refs s) subs"
    by blast
  then show ?thesis
  proof cases
    case 1
    with assms(2) have "known_path lib ir root path
        \<and> (\<exists>s \<in> T. \<exists>r \<in> set (find_full_refs s). length (fst r) = length s \<and> names_path lib r root path)" by blast
    with 1(1) show ?thesis by (auto simp: leaf_of_def traversal_def)
  next
    case 3
    with assms(2) show ?thesis by (simp add: leaf_of_def) blast
  qed (use assms(2) in \<open>simp add: leaf_of_def\<close>)
qed

lemma hm_insert_values: "snd ` set (hm_insert k v m) \<subseteq> insert v (snd ` set m)"
  by (induction k v m rule: hm_insert.induct) auto

lemma in_hm_inserts: "snd ` set (fold (\<lambda>(k, v). hm_insert k v) kvs m) \<subseteq> snd ` set kvs \<union> snd ` set m"
proof (induction kvs arbitrary: m)
  case (Cons x kvs)
  obtain k v where x: "x = (k, v)" by (cases x)
  have "snd ` set (fold (\<lambda>(k, v). hm_insert k v) (x # kvs) m) \<subseteq> snd ` set kvs \<union> snd ` set (hm_insert k v m)"
    using Cons.IH [of "hm_insert k v m"] by (simp add: x)
  also have "\<dots> \<subseteq> snd ` set (x # kvs) \<union> snd ` set m" using hm_insert_values [of k v m] by (auto simp: x)
  finally show ?case .
qed simp

lemma those_in: "those ys = Some xs \<Longrightarrow> x \<in> set xs \<Longrightarrow> Some x \<in> set ys"
  by (induction ys arbitrary: xs) (auto split: option.splits)

lemma leaves_of_object: "l \<in> set (leaves (mk_object kvs)) \<Longrightarrow> \<exists>e \<in> snd ` set kvs. l \<in> set (leaves e)"
proof -
  assume "l \<in> set (leaves (mk_object kvs))"
  then obtain e where "e \<in> snd ` set (fold (\<lambda>(k, v). hm_insert k v) kvs [])" "l \<in> set (leaves e)"
    by (force simp: mk_object_def)
  with in_hm_inserts [of kvs "[]"] have "e \<in> snd ` set kvs" by (simp add: subset_iff)
  with \<open>l \<in> set (leaves e)\<close> show ?thesis by blast
qed

lemma resolve_leaf:
  "resolve lib hl ir v = Some (Inr e) \<Longrightarrow> set (yaml_texts v) \<subseteq> T \<Longrightarrow> l \<in> set (leaves e) \<Longrightarrow> leaf_of lib hl (known_path lib ir) own T l"
proof (induction lib hl ir v arbitrary: e rule: resolve.induct)
  case (4 lib hl ir s)
  then show ?case using string_leaf [of lib hl ir s e T own] by auto
next
  case (5 lib hl ir vs)
  then obtain es e' where "those (List.map (\<lambda>v. Option.bind (resolve lib hl ir v) res_opt) vs) = Some es"
    and e': "e' \<in> set es" "l \<in> set (leaves e')" by auto
  then obtain v where "v \<in> set vs" "resolve lib hl ir v = Some (Inr e')"
    using those_in [of "List.map (\<lambda>v. Option.bind (resolve lib hl ir v) res_opt) vs" es e'] by (auto simp: bind_eq_Some_conv dest: sym)
  with 5(1) [OF this] 5(3) e'(2) show ?case by (auto simp: subset_iff)
next
  case (6 lib hl ir kvs)
  let ?entry = "\<lambda>(k, v). case yaml_str k of None \<Rightarrow> None | Some key \<Rightarrow>
    if hl_valid hl key then map_option (Pair (KIdent key)) (Option.bind (resolve lib hl ir v) res_opt) else None"
  from 6(2) obtain es where es: "those (List.map ?entry kvs) = Some es" "e = mk_object es" by auto
  with 6(4) leaves_of_object obtain k e' where e': "(k, e') \<in> set es" "l \<in> set (leaves e')" by fastforce
  with those_in [OF es(1)] obtain yk v where v: "(yk, v) \<in> set kvs" "?entry (yk, v) = Some (k, e')" by force
  then obtain key where "yaml_str yk = Some key" "hl_valid hl key" "resolve lib hl ir v = Some (Inr e')"
    by (auto simp: bind_eq_Some_conv split: option.splits if_splits)
  moreover have "set (yaml_texts v) \<subseteq> T" using 6(3) v(1) by force
  ultimately show ?case using 6(1) [OF v(1)] e'(2) by blast
qed (auto simp: leaf_of_def split: option.splits)

text \<open>The texts that a claim gives for an input.\<close>

definition input_texts :: "text_lib \<Rightarrow> deployment_manifest \<Rightarrow> string \<Rightarrow> string set" where
  "input_texts lib claim n =
     (case map_of (dsc_variables (dmf_spec claim)) (YString (to_camel_case lib n)) of None \<Rightarrow> {} | Some v \<Rightarrow> set (yaml_texts v))"

lemma input_leaf:
  assumes i: "module_input lib hl ir claim (n, fq) = Some (k, e)" and l: "l \<in> set (leaves e)" and fq: "fq \<in> set (ir_variables ir)"
  shows "leaf_of lib hl (known_path lib ir) fq (input_texts lib claim n) l"
proof -
  have own: ?thesis if "e = traversal hl ''var'' [fq]"
    using that l fq by (auto simp: traversal_def leaf_of_def known_path_def intro!: exI [of _ "[fq]"])
  show ?thesis
  proof (cases "map_of (dsc_variables (dmf_spec claim)) (YString (to_camel_case lib n))")
    case None
    with i own show ?thesis by (simp add: module_input_def mk_attribute_def)
  next
    case (Some val)
    with i obtain e0 where e0: "resolve lib hl ir val = Some (Inr e0)"
        "e = (if can_be_variable e0 then traversal hl ''var'' [fq] else e0)"
      by (auto simp: module_input_def mk_attribute_def bind_eq_Some_conv)
    show ?thesis
    proof (cases "can_be_variable e0")
      case True
      with e0(2) own show ?thesis by simp
    next
      case False
      have "set (yaml_texts val) \<subseteq> input_texts lib claim n" using Some by (simp add: input_texts_def)
      from resolve_leaf [OF e0(1) this] False e0(2) l show ?thesis by simp
    qed
  qed
qed

lemma called_blocks:
  "module_calls sk ir deps cms main = Some main' \<Longrightarrow> b \<in> set main' \<Longrightarrow>
   b \<in> set main \<or> (\<exists>cm \<in> set cms. claim_module_block sk ir deps cm = Some b)"
proof (induction cms arbitrary: main)
  case (Cons cm cms)
  show ?case
  proof (cases "\<exists>b \<in> set main. \<exists>l \<in> set (block_labels b). label_text l = claim_name cm")
    case True
    with Cons.prems Cons.IH [of main] show ?thesis by (auto simp del: bex_simps)
  next
    case False
    with Cons.prems(1) obtain b' where b': "claim_module_block sk ir deps cm = Some b'" "module_calls sk ir deps cms (main @ [b']) = Some main'"
      by (auto simp: bind_eq_Some_conv)
    with Cons.IH [OF b'(2) Cons.prems(2)] show ?thesis by auto
  qed
qed simp

lemma keys_inserts: "fst ` set (fold (\<lambda>(k, v). hm_insert k v) kvs m) = fst ` set kvs \<union> fst ` set m"
proof (induction kvs arbitrary: m)
  case (Cons x kvs)
  obtain k v where "x = (k, v)" by (cases x)
  with Cons.IH [of "hm_insert k v m"] show ?case by (simp add: keys_hm_insert)
qed simp

lemma in_those: "those ys = Some xs \<Longrightarrow> ys = List.map Some xs"
  by (induction ys arbitrary: xs) (auto split: option.splits)

lemma input_collected:
  assumes vars: "collect_module_variables_with_stack sk cms defs = Some vars"
    and cm: "cm \<in> set cms" and v: "v \<in> set (mr_tf_variables (snd cm))"
  shows "get_variable_name (sk_text sk) (claim_name cm) (tfv_name v) \<in> fst ` set vars"
proof -
  let ?named = "\<lambda>cm v. map_option (Pair (get_variable_name (sk_text sk) (claim_name cm) (tfv_name v))) (with_claim_value sk (fst cm) v)"
  obtain iss where iss: "those (List.map (\<lambda>cm. those (List.map (?named cm) (mr_tf_variables (snd cm)))) cms) = Some iss"
    and keys: "fst ` set (concat iss) \<subseteq> fst ` set vars"
    using vars by (auto simp: collect_module_variables_with_stack_def claim_inputs_def keys_inserts)
  have "those (List.map (?named cm) (mr_tf_variables (snd cm))) \<in> set (List.map Some iss)"
    unfolding in_those [OF iss, symmetric] using cm by simp
  then obtain found where found: "found \<in> set iss" "those (List.map (?named cm) (mr_tf_variables (snd cm))) = Some found" by auto
  have "?named cm v \<in> set (List.map Some found)" unfolding in_those [OF found(2), symmetric] using v by simp
  then obtain w where "(get_variable_name (sk_text sk) (claim_name cm) (tfv_name v), w) \<in> set found" by auto
  with found(1) keys show ?thesis by (force simp: subset_iff)
qed

lemma declared_or_wired:
  assumes vbs: "those (List.map (variable_block hl) (unwired wired vars')) = Some vbs" and k: "k \<in> fst ` set vars'"
  shows "hm_contains wired k \<or> (\<exists>b \<in> set (tm_variables (merged (cs @ vbs @ obs))). block_labels b = [LString k])"
proof (cases "hm_contains wired k")
  case False
  with k obtain v where v: "v \<in> set (unwired wired vars')" "tfv_name v = k" by (force simp: unwired_def)
  have "variable_block hl v \<in> set (List.map Some vbs)"
    unfolding in_those [OF vbs, symmetric] using \<open>v \<in> set (unwired wired vars')\<close> by simp
  then obtain b where b: "b \<in> set vbs" "variable_block hl v = Some b" by auto
  then have "b \<in> set (of_kind ''variable'' (cs @ vbs @ obs))" "block_labels b = [LString k]"
    using b \<open>tfv_name v = k\<close> by (auto simp: variable_block_def of_kind_def)
  then have "\<exists>b \<in> set (firsts block_labels (of_kind ''variable'' (cs @ vbs @ obs))). block_labels b = [LString k]"
    unfolding known_key by blast
  then show ?thesis by (simp add: merged_def)
qed simp

text \<open>
  A path that the code of a stack may use: a collected variable, which is declared or else one of the
  wired inputs, whose own value holds a reference; or an output of a module of the stack.
\<close>

definition stack_path ::
  "stack_lib \<Rightarrow> stack_parts \<Rightarrow> (string, tf_variable) hash_map \<Rightarrow> (string, string) hash_map \<Rightarrow> stack_code \<Rightarrow> string \<Rightarrow> string list \<Rightarrow> bool"
where
  "stack_path sk sp vars wired code root path \<longleftrightarrow>
     (\<exists>k \<in> fst ` set vars. root = ''var'' \<and> path = [k]
        \<and> (hm_contains wired k \<or> (\<exists>d \<in> set (tm_variables (sc_mgmt code)). block_labels d = [LString k])))
     \<or> (\<exists>c f. get_output_name (sk_text sk) c f \<in> fst ` set (collect_module_outputs (sk_text sk) (sp_claims sp))
        \<and> root = ''module'' \<and> path = [to_snake_case (sk_text sk) c, f])"


section \<open>A stack\<close>

definition demo_stack_code_lib :: stack_lib where
  "demo_stack_code_lib = \<lparr>sk_text = demo_stack_lib, sk_hcl = demo_hcl,
     sk_to_json = (\<lambda>v. case v of YString s \<Rightarrow> Inr (JString s) | _ \<Rightarrow> Inl []),
     sk_print = (\<lambda>j. case j of JString s \<Rightarrow> CHR 0x22 # s @ [CHR 0x22] | _ \<Rightarrow> [])\<rparr>"

text \<open>Three claims, where each refers to the input of the one before it; the second with other spaces.\<close>

definition demo_chain :: "string \<Rightarrow> claim_module list" where
  "demo_chain reference = [demo_claim ''aa'' [], demo_claim ''bb'' [(YString ''x'', YString reference)],
     demo_claim ''cc'' [(YString ''x'', YString ''{{ M::bb::x }}'')]]"

definition demo_parts :: "string \<Rightarrow> stack_parts" where
  "demo_parts reference = \<lparr>sp_claims = demo_chain reference, sp_variables = None, sp_locals = None, sp_dependencies = [],
     sp_blocks = [], sp_providers = []\<rparr>"

definition demo_code :: "string \<Rightarrow> stack_code option" where
  "demo_code reference =
     (case generate_stack_code (\<lambda>vs. vs) (\<lambda>os. os) (\<lambda>ps. ps) demo_stack_code_lib (demo_parts reference) of
        Some (Inr code) \<Rightarrow> Some code
      | _ \<Rightarrow> None)"

definition call_input :: "stack_code \<Rightarrow> string \<Rightarrow> string \<Rightarrow> expr option" where
  "call_input code claim input =
     Option.bind (find (\<lambda>b. block_labels b = [LString claim]) (sc_main code)) (\<lambda>b. map_of (body_attributes (block_body b)) input)"

definition declared_variables :: "stack_code \<Rightarrow> label list list" where
  "declared_variables code = List.map block_labels (tm_variables (sc_mgmt code))"

text \<open>
  An accepted stack whose Terraform code does not load. When a claim refers to an input of a
  second claim that itself holds a reference, the call of the first uses a variable that the stack
  leaves out; and a reference with two spaces, which validation and the dependency map read, is not
  replaced at all, so that the input becomes such a variable.
\<close>

lemma reference_to_wired_input_lost:
  "validate_claim_modules demo_stack_lib (\<lambda>ks. ks) (demo_chain ''{{ M::aa::x }}'') = Some (Inr ())
   \<and> Option.bind (demo_code ''{{ M::aa::x }}'') (\<lambda>code. call_input code ''cc'' ''x'') = Some (ETraversal (EVariable ''var'') [''bb__x''])
   \<and> map_option declared_variables (demo_code ''{{ M::aa::x }}'') = Some [[LString ''aa__x'']]
   \<and> validate_claim_modules demo_stack_lib (\<lambda>ks. ks) (demo_chain ''{{  M::aa::x  }}'') = Some (Inr ())
   \<and> Option.bind (demo_code ''{{  M::aa::x  }}'') (\<lambda>code. call_input code ''bb'' ''x'') = Some (ETraversal (EVariable ''var'') [''bb__x''])
   \<and> map_option declared_variables (demo_code ''{{  M::aa::x  }}'') = Some [[LString ''aa__x'']]"
  by (intro conjI) code_simp+

text \<open>With one space the reference of the second claim is replaced, and the input is used inline.\<close>

definition demo_made :: stack_code where
  "demo_made = the (demo_code ''{{ M::aa::x }}'')"

definition demo_inputs :: "(string, tf_variable) hash_map" where
  "demo_inputs = the (collect_module_variables_with_stack demo_stack_code_lib (demo_chain ''{{ M::aa::x }}'') None)"

definition demo_wired :: "(string, string) hash_map" where
  "demo_wired = [(''bb__x'', ''var.aa__x''), (''cc__x'', ''var.bb__x'')]"


end
