(* ===== verification/Plan_Graph.thy ===== *)
theory Plan_Graph
  imports Variables "HOL-Library.Multiset"
begin

text \<open>
  The graph of a plan, first half of \<open>graph/src/lib.rs\<close>: the parts of Terraform's plan that it
  reads, the values shown on a node, the groups of modules, the nodes and the lines of a DOT file.
  The position of a node, always the origin, is left out.
\<close>

section \<open>The plan\<close>

record change =
  ch_actions :: "string list"
  ch_after :: "json option"
  ch_after_unknown :: "json option"
  ch_after_sensitive :: "json option"

record plan_change =
  pc_address :: string
  pc_mode :: "string option"
  pc_change :: change

record state_resource =
  str_address :: string
  str_values :: "json option"

datatype state_module = State_Module (sm_resources: "state_resource list option") (sm_children: "state_module list option")

record resource_config =
  rcf_address :: string
  rcf_expressions :: "(string, json) hash_map option"
  rcf_count :: "json option"
  rcf_for_each :: "json option"

text \<open>The calls of a module and its outputs with their expressions, each under its name.\<close>

datatype module_config = Module_Config
  (mc_resources: "resource_config list option")
  (mc_calls: "(string \<times> module_config option) list option")
  (mc_outputs: "(string \<times> json option) list option")

text \<open>A state is its root module; \<open>pl_values\<close> is present when the file is a state and not a plan.\<close>

record plan =
  pl_resource_changes :: "plan_change list option"
  pl_output_changes :: "(string, change) hash_map option"
  pl_configuration :: "module_config option"
  pl_prior_state :: "state_module option"
  pl_planned_values :: "state_module option"
  pl_values :: "state_module option"

fun collect_state_addresses :: "state_module \<Rightarrow> string list" where
  "collect_state_addresses (State_Module rs cs) =
     List.map str_address (case rs of None \<Rightarrow> [] | Some rs \<Rightarrow> rs)
     @ (case cs of None \<Rightarrow> [] | Some cs \<Rightarrow> concat (List.map collect_state_addresses cs))"

fun collect_state_values :: "state_module \<Rightarrow> (string \<times> json) list" where
  "collect_state_values (State_Module rs cs) =
     concat (List.map (\<lambda>r. case str_values r of None \<Rightarrow> [] | Some v \<Rightarrow> [(str_address r, v)]) (case rs of None \<Rightarrow> [] | Some rs \<Rightarrow> rs))
     @ (case cs of None \<Rightarrow> [] | Some cs \<Rightarrow> concat (List.map collect_state_values cs))"

section \<open>Nodes\<close>

record node_data =
  nd_label :: string
  nd_type :: string
  nd_action :: "string option"
  nd_count :: "nat option"
  nd_hcl :: "string option"
  nd_values :: "json option"

record node_style =
  ns_background_color :: string
  ns_border :: string
  ns_z_index :: int

datatype out_node =
    Group string node_data node_style "string option"
  | Resource string "string option" node_data

fun node_id :: "out_node \<Rightarrow> string" where
  "node_id (Group i d st p) = i"
| "node_id (Resource i p d) = i"

fun node_parent :: "out_node \<Rightarrow> string option" where
  "node_parent (Group i d st p) = p"
| "node_parent (Resource i p d) = p"

fun is_group :: "out_node \<Rightarrow> bool" where
  "is_group (Group i d st p) = True"
| "is_group (Resource i p d) = False"

definition group_node :: "string \<Rightarrow> string \<Rightarrow> string \<Rightarrow> string \<Rightarrow> string \<Rightarrow> string option \<Rightarrow> out_node" where
  "group_node i label type color border parent =
     Group i \<lparr>nd_label = label, nd_type = type, nd_action = None, nd_count = None, nd_hcl = None, nd_values = None\<rparr>
       \<lparr>ns_background_color = color, ns_border = border, ns_z_index = -1\<rparr> parent"

definition determine_block_type :: "string \<Rightarrow> bool \<Rightarrow> string" where
  "determine_block_type address is_data =
     (if starts_with address ''var.'' then ''var''
      else if starts_with address ''local.'' then ''local''
      else if starts_with address ''output.'' then ''output''
      else let parts = split_on (CHR ''.'') address in
        case find (\<lambda>p. p = ''var'' \<or> p = ''local'' \<or> p = ''output'') parts of
          Some p \<Rightarrow> p
        | None \<Rightarrow>
            if is_data then ''data''
            else if length parts \<ge> 3 \<and> parts ! (length parts - 3) = ''data'' then ''data''
            else if starts_with address ''data.'' then ''data''
            else ''resource'')"

text \<open>The paths of the modules in an address, outermost first.\<close>

definition extend_path :: "string \<Rightarrow> string \<Rightarrow> string" where
  "extend_path path part = (if path = [] then [] else path @ ''.'') @ part"

fun module_paths :: "string \<Rightarrow> string list \<Rightarrow> string list" where
  "module_paths path [] = []"
| "module_paths path [p] = []"
| "module_paths path (p # q # parts) =
     (if p = ''module''
      then let path' = extend_path path (''module.'' @ q) in path' # module_paths path' parts
      else module_paths (extend_path path p) (q # parts))"

definition module_group :: "string \<Rightarrow> string option \<Rightarrow> out_node" where
  "module_group m parent = group_node m m ''module'' ''rgba(56, 139, 253, 0.05)'' ''1px dashed #388bfd'' parent"

fun add_groups :: "string option \<Rightarrow> string list \<Rightarrow> string set \<times> out_node list \<Rightarrow> string set \<times> out_node list" where
  "add_groups parent [] kn = kn"
| "add_groups parent (m # ms) (known, ns) =
     add_groups (Some m) ms (if m \<in> known then (known, ns) else (insert m known, ns @ [module_group m parent]))"

definition extract_parent_modules ::
  "string \<Rightarrow> string set \<times> out_node list \<Rightarrow> string option \<times> (string set \<times> out_node list)" where
  "extract_parent_modules address kn =
     (let hierarchy = module_paths [] (split_on (CHR ''.'') address)
      in if hierarchy = [] then (None, kn) else (Some (last hierarchy), add_groups None hierarchy kn))"

section \<open>Values\<close>

text \<open>\<open>Value::get\<close> with a number.\<close>

fun jnth :: "json \<Rightarrow> nat \<Rightarrow> json option" where
  "jnth (JArray xs) i = (if i < length xs then Some (xs ! i) else None)"
| "jnth _ i = None"

definition is_obj :: "json option \<Rightarrow> bool" where
  "is_obj v \<longleftrightarrow> (case v of Some (JObject _) \<Rightarrow> True | _ \<Rightarrow> False)"

definition is_arr :: "json option \<Rightarrow> bool" where
  "is_arr v \<longleftrightarrow> (case v of Some (JArray _) \<Rightarrow> True | _ \<Rightarrow> False)"

definition keys_of :: "json option \<Rightarrow> string list" where
  "keys_of v = (case v of Some (JObject kvs) \<Rightarrow> List.map fst kvs | _ \<Rightarrow> [])"

definition length_of :: "json option \<Rightarrow> nat" where
  "length_of v = (case v of Some (JArray xs) \<Rightarrow> length xs | _ \<Rightarrow> 0)"

definition field_of :: "json option \<Rightarrow> string \<Rightarrow> json option" where
  "field_of v k = Option.bind v (\<lambda>v. jget v k)"

definition item_of :: "json option \<Rightarrow> nat \<Rightarrow> json option" where
  "item_of v i = Option.bind v (\<lambda>v. jnth v i)"

definition size_of :: "json option \<Rightarrow> nat" where
  "size_of v = (case v of None \<Rightarrow> 0 | Some v \<Rightarrow> Suc (size v))"

lemma size_field: "size_of (field_of v k) \<le> size_of v" "k \<in> set (keys_of v) \<Longrightarrow> size_of (field_of v k) < size_of v"
proof -
  have s: "jget j k = Some w \<Longrightarrow> size w < size j" for j w
    by (cases j) (auto dest: size_object_entry)
  show "size_of (field_of v k) \<le> size_of v"
    by (auto simp: size_of_def field_of_def dest!: s split: option.splits)
  show "k \<in> set (keys_of v) \<Longrightarrow> size_of (field_of v k) < size_of v"
    by (auto simp: size_of_def field_of_def keys_of_def size_object_entry split: option.splits json.splits)
qed

lemma size_item: "size_of (item_of v i) \<le> size_of v" "i < length_of v \<Longrightarrow> size_of (item_of v i) < size_of v"
proof -
  have s: "jnth j i = Some w \<Longrightarrow> size w < size j" for j w
    by (cases j) (auto simp: less_Suc_eq_le size_list_estimation' [OF nth_mem] split: if_splits)
  show "size_of (item_of v i) \<le> size_of v"
    by (auto simp: size_of_def item_of_def dest!: s split: option.splits)
  show "i < length_of v \<Longrightarrow> size_of (item_of v i) < size_of v"
    by (auto simp: size_of_def item_of_def length_of_def less_Suc_eq_le size_list_estimation' [OF nth_mem] split: option.splits json.splits)
qed

definition shown_object :: "string list \<Rightarrow> (string \<Rightarrow> json option) \<Rightarrow> json" where
  "shown_object keys f = jobj (concat (List.map (\<lambda>k. case f k of None \<Rightarrow> [] | Some v \<Rightarrow> [(k, v)]) keys))"

definition shown_array :: "nat \<Rightarrow> (nat \<Rightarrow> json option) \<Rightarrow> json" where
  "shown_array n f = JArray (List.map (\<lambda>i. case f i of None \<Rightarrow> JNull | Some v \<Rightarrow> v) [0..<n])"

lemma shown_object_cong [fundef_cong]:
  "keys = keys' \<Longrightarrow> (\<And>k. k \<in> set keys' \<Longrightarrow> f k = g k) \<Longrightarrow> shown_object keys f = shown_object keys' g"
  unfolding shown_object_def by (metis (mono_tags, lifting) map_eq_conv)

lemma shown_array_cong [fundef_cong]:
  "n = n' \<Longrightarrow> (\<And>i. i < n' \<Longrightarrow> f i = g i) \<Longrightarrow> shown_array n f = shown_array n' g"
  by (simp add: shown_array_def)

text \<open>The keys come out of a hash set, but the object that is built is sorted by them.\<close>

function process_values :: "json option \<Rightarrow> json option \<Rightarrow> json option \<Rightarrow> json option" where
  "process_values a u s =
     (if s = Some (JBool True) then Some (JString ''(sensitive)'')
      else if u = Some (JBool True) then Some (JString ''(known after apply)'')
      else if is_obj a \<or> is_obj u \<or> is_obj s
      then Some (shown_object (remdups (keys_of a @ keys_of u @ keys_of s))
             (\<lambda>k. process_values (field_of a k) (field_of u k) (field_of s k)))
      else if is_arr a \<or> is_arr u \<or> is_arr s
      then Some (shown_array (max (max (length_of a) (length_of u)) (length_of s))
             (\<lambda>i. process_values (item_of a i) (item_of u i) (item_of s i)))
      else a)"
  by pat_completeness auto
termination
proof (relation "measure (\<lambda>(a, u, s). size_of a + size_of u + size_of s)", goal_cases)
  case (2 a u s k)
  then show ?case
    using size_field(1) [of a k] size_field(1) [of u k] size_field(1) [of s k]
      size_field(2) [of k a] size_field(2) [of k u] size_field(2) [of k s] by fastforce
next
  case (3 a u s i)
  then show ?case
    using size_item(1) [of a i] size_item(1) [of u i] size_item(1) [of s i]
      size_item(2) [of i a] size_item(2) [of i u] size_item(2) [of i s] by (fastforce simp: less_max_iff_disj)
qed simp

declare process_values.simps [simp del]

section \<open>The node of an address\<close>

definition joined_actions :: "plan_change list \<Rightarrow> string" where
  "joined_actions changes =
     (let distinct_actions = remdups (concat (List.map (\<lambda>c. ch_actions (pc_change c)) changes));
          kept = (if length distinct_actions > 1 then filter (\<lambda>a. a \<noteq> ''no-op'') distinct_actions else distinct_actions)
      in join '', '' (sort kept))"

definition change_values :: "change \<Rightarrow> json option" where
  "change_values c = process_values (ch_after c) (ch_after_unknown c) (ch_after_sensitive c)"

definition collected_values :: "plan_change list \<Rightarrow> json option" where
  "collected_values changes =
     (case concat (List.map (\<lambda>c. case change_values (pc_change c) of None \<Rightarrow> [] | Some v \<Rightarrow> [v]) changes) of
        [] \<Rightarrow> None
      | [v] \<Rightarrow> Some v
      | vs \<Rightarrow> Some (JArray vs))"

text \<open>What the plan says of the resources: their changes, the outputs, the values in a state, the known addresses.\<close>

record plan_index =
  pi_resources :: "(string, plan_change list) hash_map"
  pi_outputs :: "(string, change) hash_map"
  pi_state_values :: "(string, json) hash_map"
  pi_active :: "string list"

text \<open>Action, whether it is a data source, count and values; \<open>None\<close> when the address has no node.\<close>

definition output_info :: "plan_index \<Rightarrow> bool \<Rightarrow> string \<Rightarrow> string option \<times> bool \<times> nat option \<times> json option" where
  "output_info px include_values address =
     (case map_of (pi_outputs px) (trim_start_matches ''output.'' address) of
        Some c \<Rightarrow> (Some (join '', '' (sort (ch_actions c))), False, None, if include_values then change_values c else None)
      | None \<Rightarrow> (Some ''no-op'', False, None, None))"

definition node_info :: "plan_index \<Rightarrow> bool \<Rightarrow> string \<Rightarrow> (string option \<times> bool \<times> nat option \<times> json option) option" where
  "node_info px include_values address =
     (case map_of (pi_resources px) address of
        Some changes \<Rightarrow> Some (Some (joined_actions changes), (\<exists>c \<in> set changes. pc_mode c = Some ''data''),
          (if length changes > 1 \<or> (\<exists>c \<in> set changes. ends_with (pc_address c) '']'') then Some (length changes) else None),
          (if include_values then collected_values changes else None))
      | None \<Rightarrow>
          let block_type = determine_block_type address False in
          (case map_of (pi_state_values px) address of
             Some state_val \<Rightarrow>
               Some (if block_type = ''data'' then (Some ''read'', True, None, if include_values then Some state_val else None)
                     else (None, False, None, if include_values then Some state_val else None))
           | None \<Rightarrow>
               if starts_with address ''output.'' then Some (output_info px include_values address)
               else if block_type = ''data''
               then (if address \<in> set (pi_active px) then Some (Some ''read'', True, None, None) else None)
               else if block_type = ''var'' \<or> block_type = ''local'' \<or> block_type = ''output''
               then Some (Some ''n/a'', False, None, None)
               else None))"

definition create_node ::
  "plan_index \<Rightarrow> bool \<Rightarrow> string option \<Rightarrow> string \<Rightarrow> string set \<times> out_node list \<Rightarrow> out_node option \<times> (string set \<times> out_node list)" where
  "create_node px include_values hcl address kn =
     (if address = ''root'' \<or> starts_with address ''provider['' \<or> starts_with address ''meta.'' then (None, kn)
      else let (parent, kn') = extract_parent_modules address kn in
        if parent = Some address then (None, kn')
        else (case node_info px include_values address of
                None \<Rightarrow> (None, kn')
              | Some (action, is_data, number, values) \<Rightarrow>
                  let type = determine_block_type address is_data;
                      final_parent = (if parent = None
                        then if type = ''var'' then Some ''root_variables'' else if type = ''output'' then Some ''root_outputs'' else None
                        else parent);
                      final_action = (if type = ''data'' \<and> action = None then Some ''read'' else action)
                  in (Some (Resource address final_parent \<lparr>nd_label = address, nd_type = type, nd_action = final_action,
                       nd_count = number, nd_hcl = hcl, nd_values = values\<rparr>), kn')))"

section \<open>DOT files\<close>

text \<open>
  The two patterns for lines: a quoted text of at least one character ends at the first quote
  after which the rest of the pattern matches.
\<close>

fun quoted_until :: "(string \<Rightarrow> 'a option) \<Rightarrow> string \<Rightarrow> string \<Rightarrow> (string \<times> 'a) option" where
  "quoted_until k acc [] = None"
| "quoted_until k acc (c # cs) =
     (if c = CHR 0x22 \<and> acc \<noteq> []
      then (case k cs of Some r \<Rightarrow> Some (rev acc, r) | None \<Rightarrow> quoted_until k (c # acc) cs)
      else quoted_until k (c # acc) cs)"

definition match_quoted :: "(string \<Rightarrow> 'a option) \<Rightarrow> string \<Rightarrow> (string \<times> 'a) option" where
  "match_quoted k s = Option.bind (match_lit [CHR 0x22] s) (quoted_until k [])"

definition skip_spaces :: "string \<Rightarrow> string" where
  "skip_spaces s = dropWhile is_space s"

definition node_line :: "string \<Rightarrow> (string \<times> string) option" where
  "node_line s =
     map_option (\<lambda>(dot_id, label, _). (dot_id, label))
       (match_quoted (\<lambda>r. Option.bind (match_lit ''[label'' (skip_spaces r)) (\<lambda>r.
          Option.bind (match_lit ''='' (skip_spaces r)) (\<lambda>r. match_quoted Some (skip_spaces r)))) (skip_spaces s))"

definition edge_line :: "string \<Rightarrow> (string \<times> string) option" where
  "edge_line s =
     map_option (\<lambda>(source, target, _). (source, target))
       (match_quoted (\<lambda>r. Option.bind (match_lit ''->'' (skip_spaces r)) (\<lambda>r. match_quoted Some (skip_spaces r))) (skip_spaces s))"

fun dot_lines :: "string list \<Rightarrow> (string \<times> string) list \<times> (string \<times> string) list" where
  "dot_lines [] = ([], [])"
| "dot_lines (l # ls) =
     (case dot_lines ls of (nodes, edges) \<Rightarrow>
        (case node_line l of
           Some n \<Rightarrow> (n # nodes, edges)
         | None \<Rightarrow> (case edge_line l of Some e \<Rightarrow> (nodes, e # edges) | None \<Rightarrow> (nodes, edges))))"

definition before_parenthesis :: "string \<Rightarrow> string" where
  "before_parenthesis s = (case cut_at '' ('' s of Some (a, _) \<Rightarrow> a | None \<Rightarrow> s)"

text \<open>\<open>None\<close> is a panic: the slice of a label that is a single quote.\<close>

definition clean_label :: "string \<Rightarrow> string option" where
  "clean_label label =
     (let s = trim label in
      if starts_with s [CHR 0x22] \<and> ends_with s [CHR 0x22]
      then if length s < 2 then None
           else Some (before_parenthesis (replace_all [CHR 0x5C, CHR 0x22] [CHR 0x22] (butlast (List.tl s))))
      else Some (before_parenthesis s))"

definition parse_dot_id :: "string \<Rightarrow> string" where
  "parse_dot_id dot_id =
     (let s = trim dot_id in before_parenthesis (if starts_with s ''[root] '' then drop (length ''[root] '') s else s))"

end
