(* ===== verification/Plan_Edges.thy ===== *)
theory Plan_Edges
  imports Plan_Graph
begin

text \<open>
  The graph of a plan, second half of \<open>graph/src/lib.rs\<close>: the references in the configuration, what
  is reached from the resources, the sources that stand behind variables, locals and outputs, and
  \<open>process_graph\<close>, which puts the graph together.
\<close>

section \<open>References in the configuration\<close>

fun extract_references :: "json \<Rightarrow> string list" where
  "extract_references (JObject kvs) =
     (case map_of kvs ''references'' of Some (JArray rs) \<Rightarrow> concat (List.map (\<lambda>r. case as_str r of Some s \<Rightarrow> [s] | None \<Rightarrow> []) rs) | _ \<Rightarrow> [])
     @ concat (List.map (\<lambda>(k, v). extract_references v) kvs)"
| "extract_references (JArray xs) = concat (List.map extract_references xs)"
| "extract_references _ = []"

definition before_bracket :: "string \<Rightarrow> string" where
  "before_bracket s = List.hd (split_on (CHR ''['') s)"

definition strip_attribute_path :: "string \<Rightarrow> string" where
  "strip_attribute_path reference =
     (case split_on (CHR ''.'') reference of
        p # q # rest \<Rightarrow>
          if p = ''module'' \<or> p = ''var'' \<or> p = ''local'' then reference
          else if p = ''data'' then (case rest of r # _ \<Rightarrow> p @ ''.'' @ q @ ''.'' @ before_bracket r | [] \<Rightarrow> reference)
          else p @ ''.'' @ before_bracket q
      | _ \<Rightarrow> reference)"

type_synonym attributes = "(string \<times> string, string list) hash_map"

text \<open>\<open>entry(...).or_default().insert(name)\<close> and \<open>extend\<close>.\<close>

definition names_at :: "attributes \<Rightarrow> string \<times> string \<Rightarrow> string list" where
  "names_at m e = (case map_of m e of Some ns \<Rightarrow> ns | None \<Rightarrow> [])"

definition add_names :: "string \<times> string \<Rightarrow> string list \<Rightarrow> attributes \<Rightarrow> attributes" where
  "add_names e ns m = hm_insert e (remdups (names_at m e @ ns)) m"

definition add_refs :: "string \<Rightarrow> string \<Rightarrow> json \<Rightarrow> attributes \<Rightarrow> attributes" where
  "add_refs address name v m = fold (\<lambda>r. add_names (address, r) [name]) (extract_references v) m"

definition add_opt_refs :: "string \<Rightarrow> string \<Rightarrow> json option \<Rightarrow> attributes \<Rightarrow> attributes" where
  "add_opt_refs address name v m = (case v of Some v \<Rightarrow> add_refs address name v m | None \<Rightarrow> m)"

definition full_address :: "string \<Rightarrow> string \<Rightarrow> string" where
  "full_address parent_path address = (if parent_path = [] then address else parent_path @ ''.'' @ address)"

definition resource_refs :: "string \<Rightarrow> resource_config \<Rightarrow> attributes \<Rightarrow> attributes" where
  "resource_refs parent_path res m =
     (let address = full_address parent_path (rcf_address res)
      in add_opt_refs address ''for_each'' (rcf_for_each res) (add_opt_refs address ''count'' (rcf_count res)
           (fold (\<lambda>(name, v). add_refs address name v) (case rcf_expressions res of None \<Rightarrow> [] | Some es \<Rightarrow> es) m)))"

text \<open>A reference of an output that is the beginning of another one is left out.\<close>

definition longest_refs :: "string list \<Rightarrow> string list" where
  "longest_refs refs = filter (\<lambda>a. \<not> (\<exists>b \<in> set refs. starts_with b (a @ ''.'') \<and> b \<noteq> a)) refs"

definition qualified_ref :: "string \<Rightarrow> string \<Rightarrow> string" where
  "qualified_ref parent_path reference =
     (let stripped = strip_attribute_path reference
      in if parent_path \<noteq> [] \<and> \<not> starts_with stripped ''module.'' \<and> \<not> starts_with stripped ''var.''
            \<and> \<not> starts_with stripped ''local.'' \<and> \<not> starts_with stripped ''output.'' \<and> \<not> starts_with stripped ''data.''
         then parent_path @ ''.'' @ stripped else stripped)"

definition output_refs :: "string \<Rightarrow> string \<times> json option \<Rightarrow> attributes \<Rightarrow> attributes" where
  "output_refs parent_path output m = (case output of (name, expression) \<Rightarrow>
     (case expression of
        None \<Rightarrow> m
      | Some v \<Rightarrow> fold (\<lambda>r. add_names (full_address parent_path (''output.'' @ name), qualified_ref parent_path r) [''value''])
          (longest_refs (extract_references v)) m))"

lemma size_module_call [termination_simp]:
  "(n, Some c) \<in> set cs \<Longrightarrow> size c < Suc (size_option (size_list (size_prod size (size_option size))) (Some cs))"
proof (induction cs)
  case (Cons x cs)
  then show ?case by (cases x) auto
qed simp

fun traverse_configuration :: "module_config \<Rightarrow> string \<Rightarrow> attributes \<Rightarrow> attributes" where
  "traverse_configuration (Module_Config rs cs os) parent_path m =
     (let m1 = fold (resource_refs parent_path) (case rs of None \<Rightarrow> [] | Some rs \<Rightarrow> rs) m;
          m2 = fold (output_refs parent_path) (case os of None \<Rightarrow> [] | Some os \<Rightarrow> os) m1
      in fold (\<lambda>(name, call) m. case call of
           None \<Rightarrow> m
         | Some c \<Rightarrow> traverse_configuration c (full_address parent_path (''module.'' @ name)) m)
         (case cs of None \<Rightarrow> [] | Some cs \<Rightarrow> cs) m2)"

section \<open>What is reached\<close>

type_synonym links = "(string, string list) hash_map"

definition links_of :: "links \<Rightarrow> string \<Rightarrow> string list" where
  "links_of g n = (case map_of g n of Some ns \<Rightarrow> ns | None \<Rightarrow> [])"

definition add_link :: "string \<times> string \<Rightarrow> links \<Rightarrow> links" where
  "add_link e g = hm_insert (fst e) (links_of g (fst e) @ [snd e]) g"

definition linked :: "links \<Rightarrow> string set" where
  "linked g = \<Union> (set ` snd ` set g)"

lemma links_linked: "set (links_of g u) \<subseteq> linked g"
proof (cases "map_of g u")
  case (Some ns)
  then have "(u, ns) \<in> set g" by (rule map_of_SomeD)
  with Some show ?thesis by (force simp: links_of_def linked_def)
qed (simp add: links_of_def)

lemma finite_linked [simp]: "finite (linked g)"
  by (simp add: linked_def)

text \<open>The stack of nodes to visit, its top first.\<close>

function (sequential) visit :: "links \<Rightarrow> string list \<Rightarrow> string set \<Rightarrow> string set" where
  "visit g [] visited = visited"
| "visit g (u # todo) visited =
     (if u \<in> visited then visit g todo visited
      else visit g (rev (filter (\<lambda>v. v \<notin> insert u visited) (links_of g u)) @ todo) (insert u visited))"
  by pat_completeness auto
termination
proof (relation "measures [\<lambda>(g, todo, visited). card ((set todo \<union> linked g) - visited), \<lambda>(g, todo, visited). length todo]", goal_cases)
  case (2 g u todo visited)
  then have "(set (u # todo) \<union> linked g) - visited = (set todo \<union> linked g) - visited" by auto
  then show ?case by simp
next
  case (3 g u todo visited)
  have fin: "finite (set (u # todo) \<union> linked g)" by simp
  have "(set (rev (filter (\<lambda>v. v \<notin> insert u visited) (links_of g u)) @ todo) \<union> linked g) - insert u visited
      \<subset> (set (u # todo) \<union> linked g) - visited"
    using links_linked [of g u] 3 by auto
  then show ?case using fin by (auto intro: psubset_card_mono)
qed simp

text \<open>The resources, data sources and root outputs are where the search starts, the last one first.\<close>

definition is_seed :: "out_node \<Rightarrow> bool" where
  "is_seed node = (case node of
       Group _ _ _ _ \<Rightarrow> False
     | Resource i p d \<Rightarrow> nd_type d \<noteq> ''var'' \<and> nd_type d \<noteq> ''local''
         \<and> (nd_type d \<noteq> ''output'' \<or> nd_type d = ''output'' \<and> starts_with i ''output.''))"

definition seeds :: "out_node list \<Rightarrow> string list" where
  "seeds nodes = List.map node_id (filter is_seed nodes)"

definition is_prunable :: "out_node \<Rightarrow> bool" where
  "is_prunable node = (case node of
       Group _ _ _ _ \<Rightarrow> False
     | Resource i p d \<Rightarrow> nd_type d = ''var'' \<or> nd_type d = ''local'' \<or> nd_type d = ''data'')"

definition prune_unused :: "links \<Rightarrow> out_node list \<Rightarrow> out_node list" where
  "prune_unused adj nodes =
     (let visited = visit adj (rev (seeds nodes)) {}
      in filter (\<lambda>n. \<not> is_prunable n \<or> node_id n \<in> visited) nodes)"

definition drop_childless :: "out_node list \<Rightarrow> out_node list" where
  "drop_childless nodes = filter (\<lambda>n. \<not> is_group n \<or> Some (node_id n) \<in> node_parent ` set nodes) nodes"

function prune_groups :: "out_node list \<Rightarrow> out_node list" where
  "prune_groups nodes =
     (let kept = drop_childless nodes in if length kept = length nodes then kept else prune_groups kept)"
  by pat_completeness auto
termination
proof (relation "measure length", goal_cases)
  case (2 nodes kept)
  then show ?case using length_filter_le [of _ nodes] by (simp add: drop_childless_def le_neq_implies_less)
qed simp

declare prune_groups.simps [simp del]

definition add_root_group :: "string \<Rightarrow> string \<Rightarrow> out_node list \<Rightarrow> out_node list" where
  "add_root_group i label nodes =
     (if \<exists>n \<in> set nodes. \<not> is_group n \<and> node_parent n = Some i
      then nodes @ [group_node i label ''group'' ''rgba(255, 255, 255, 0.05)'' ''1px dashed #cccccc'' None] else nodes)"

section \<open>The sources behind a node\<close>

definition type_of :: "(string, string) hash_map \<Rightarrow> string \<Rightarrow> string" where
  "type_of types n = (case map_of types n of Some t \<Rightarrow> t | None \<Rightarrow> determine_block_type n False)"

text \<open>Variables, locals and outputs are passed through; only a root variable or a root output can stand for itself.\<close>

definition passed :: "(string, string) hash_map \<Rightarrow> string \<Rightarrow> bool" where
  "passed types n \<longleftrightarrow> type_of types n = ''var'' \<or> type_of types n = ''local'' \<or> type_of types n = ''output''"

definition stands_alone :: "(string, string) hash_map \<Rightarrow> string \<Rightarrow> bool" where
  "stands_alone types n \<longleftrightarrow>
     type_of types n = ''var'' \<and> starts_with n ''var.'' \<or> type_of types n = ''output'' \<and> starts_with n ''output.''"

definition alone :: "(string, string) hash_map \<Rightarrow> string \<Rightarrow> string list" where
  "alone types n = (if stands_alone types n then [n] else [])"

text \<open>\<open>sort\<close> and \<open>dedup\<close>.\<close>

definition tidy :: "string list \<Rightarrow> string list" where
  "tidy xs = remdups_adj (sort xs)"

type_synonym source_cache = "(string, string list) hash_map"

text \<open>The set of nodes on the way and the cache are passed on; the set is as before on return.\<close>

function (sequential) resolve_dependencies ::
  "links \<Rightarrow> (string, string) hash_map \<Rightarrow> source_cache \<Rightarrow> string set \<Rightarrow> string \<Rightarrow> string list \<times> source_cache"
and resolve_each ::
  "links \<Rightarrow> (string, string) hash_map \<Rightarrow> source_cache \<Rightarrow> string set \<Rightarrow> string list \<Rightarrow> string list \<times> source_cache" where
  "resolve_dependencies deps types cache stack node =
     (if node \<in> stack then ([], cache)
      else (case map_of cache node of
          Some cached \<Rightarrow> (cached, cache)
        | None \<Rightarrow>
            if \<not> passed types node then ([node], cache)
            else (case map_of deps node of
                None \<Rightarrow> (alone types node, cache)
              | Some my_deps \<Rightarrow>
                  if my_deps = [] then (alone types node, cache)
                  else let (resolved, cache') = resolve_each deps types cache (insert node stack) my_deps in
                    if resolved = [] \<and> \<not> (type_of types node = ''output'' \<and> \<not> starts_with node ''output.'')
                    then (alone types node, cache')
                    else (tidy resolved, hm_insert node (tidy resolved) cache'))))"
| "resolve_each deps types cache stack [] = ([], cache)"
| "resolve_each deps types cache stack (d # ds) =
     (case resolve_dependencies deps types cache stack d of (r, cache') \<Rightarrow>
        (case resolve_each deps types cache' stack ds of (rs, cache'') \<Rightarrow> (r @ rs, cache'')))"
  by pat_completeness auto
termination
proof (relation "measures [\<lambda>x. case x of Inl (deps, types, cache, stack, node) \<Rightarrow> card (fst ` set deps - stack)
      | Inr (deps, types, cache, stack, ns) \<Rightarrow> card (fst ` set deps - stack),
    \<lambda>x. case x of Inl _ \<Rightarrow> 0 | Inr (deps, types, cache, stack, ns) \<Rightarrow> Suc (length ns)]", goal_cases)
  case (2 deps types cache stack node my_deps)
  have "fst ` set deps - insert node stack \<subset> fst ` set deps - stack"
    using 2 by (force dest: map_of_SomeD)
  then show ?case by (simp add: psubset_card_mono)
qed simp_all

section \<open>Edges\<close>

definition is_output_address :: "string \<Rightarrow> bool" where
  "is_output_address a \<longleftrightarrow> starts_with a ''output.'' \<or> contains_str a ''.output.''"

text \<open>What is before the last \<open>.output.\<close>, or nothing.\<close>

definition output_scope :: "string \<Rightarrow> string" where
  "output_scope dependent = (case cut_at (rev ''.output.'') (rev dependent) of Some (a, b) \<Rightarrow> rev b | None \<Rightarrow> [])"

fun parts_after_modules :: "string list \<Rightarrow> nat" where
  "parts_after_modules (p # q # parts) = (if p = ''module'' then parts_after_modules parts else length (p # q # parts))"
| "parts_after_modules parts = length parts"

definition normalized_target :: "string \<Rightarrow> string \<Rightarrow> string" where
  "normalized_target dependent reference =
     (let scope = output_scope dependent;
          qualified = (if scope \<noteq> [] \<and> starts_with reference ''module.''
            then if starts_with reference (scope @ ''.'') \<or> reference = scope then reference else scope @ ''.'' @ reference
            else reference)
      in if starts_with qualified ''module.''
         then let parts = split_on (CHR ''.'') qualified in
           if \<not> parts_after_modules parts \<ge> 2 \<and> ''output'' \<notin> set parts
           then join ''.'' (butlast parts @ [''output'', last parts]) else qualified
         else qualified)"

text \<open>The links of the DOT file between known addresses; with the links of outputs in the configuration.\<close>

definition dot_links :: "(string, string) hash_map \<Rightarrow> (string \<times> string) list \<Rightarrow> (string \<times> string) list" where
  "dot_links addresses edges =
     concat (List.map (\<lambda>(s, t). case (map_of addresses s, map_of addresses t) of (Some a, Some b) \<Rightarrow> [(a, b)] | _ \<Rightarrow> []) edges)"

definition config_links :: "attributes \<Rightarrow> (string \<times> string) list" where
  "config_links config_deps =
     List.map (\<lambda>((dependent, reference), _). (dependent, normalized_target dependent reference))
       (filter (\<lambda>((dependent, _), _). is_output_address dependent) config_deps)"

definition all_links :: "(string \<times> string) list \<Rightarrow> attributes \<Rightarrow> links" where
  "all_links dots config_deps = fold add_link (filter (\<lambda>(s, t). s \<noteq> t) dots @ config_links config_deps) []"

text \<open>A node that is replaced by what is behind it, or hidden.\<close>

definition is_skipped :: "links \<Rightarrow> string \<times> string \<Rightarrow> bool" where
  "is_skipped deps node = (case node of (n, t) \<Rightarrow>
     (t = ''var'' \<or> t = ''local'' \<or> t = ''output'') \<and> \<not> starts_with n ''output.''
     \<and> (links_of deps n \<noteq> [] \<or> t = ''local'' \<or> t = ''var'' \<and> \<not> starts_with n ''var.''))"

text \<open>A simplified edge: the dependent, its source and the immediate dependency it goes through.\<close>

type_synonym simplified = "string \<times> string \<times> string"

fun edges_through :: "links \<Rightarrow> (string, string) hash_map \<Rightarrow> string \<Rightarrow> string list \<Rightarrow> source_cache \<Rightarrow> simplified list \<times> source_cache" where
  "edges_through deps types node [] cache = ([], cache)"
| "edges_through deps types node (d # ds) cache =
     (case resolve_dependencies deps types cache {} d of (sources, cache') \<Rightarrow>
        (case edges_through deps types node ds cache' of (es, cache'') \<Rightarrow>
           (List.map (\<lambda>s. (node, s, d)) (filter (\<lambda>s. s \<noteq> node) sources) @ es, cache'')))"

fun simplified_edges :: "links \<Rightarrow> (string, string) hash_map \<Rightarrow> (string \<times> string) list \<Rightarrow> source_cache \<Rightarrow> simplified list" where
  "simplified_edges deps types [] cache = []"
| "simplified_edges deps types ((n, t) # nodes) cache =
     (if is_skipped deps (n, t) then simplified_edges deps types nodes cache
      else (case edges_through deps types n (links_of deps n) cache of (es, cache') \<Rightarrow>
              es @ simplified_edges deps types nodes cache'))"

definition active_nodes :: "links \<Rightarrow> (string \<times> string) list \<Rightarrow> simplified list \<Rightarrow> string set" where
  "active_nodes deps nodes es = fst ` set (filter (\<lambda>n. \<not> is_skipped deps n) nodes) \<union> (fst \<circ> snd) ` set es"

fun module_scope :: "string list \<Rightarrow> string list" where
  "module_scope (p # q # parts) = (if p = ''module'' then p # q # module_scope parts else [])"
| "module_scope parts = []"

definition begins_path :: "string \<Rightarrow> string \<Rightarrow> bool" where
  "begins_path a b \<longleftrightarrow> starts_with b a \<and> (let r = drop (length a) b in starts_with r ''.'' \<or> starts_with r ''['')"

definition edge_attributes :: "attributes \<Rightarrow> simplified \<Rightarrow> string list" where
  "edge_attributes config_deps e = (case e of (dependent, _, via) \<Rightarrow>
     let scope = join ''.'' (module_scope (split_on (CHR ''.'') dependent));
         matches = (\<lambda>reference. let q = full_address scope reference in via = q \<or> begins_path via q \<or> begins_path q via)
     in concat (List.map (\<lambda>((_, reference), names). if matches reference then names else [])
          (filter (\<lambda>((d, _), _). d = dependent) config_deps)))"

definition merged_edges :: "attributes \<Rightarrow> simplified list \<Rightarrow> attributes" where
  "merged_edges config_deps es =
     fold (\<lambda>e. case e of (dependent, dependency, _) \<Rightarrow> add_names (dependency, dependent) (edge_attributes config_deps e)) es []"

record out_edge =
  oe_id :: string
  oe_source :: string
  oe_target :: string
  oe_attributes :: "string list option"

definition out_edges :: "attributes \<Rightarrow> out_edge list" where
  "out_edges es =
     List.map (\<lambda>(n, ((source, target), names)). \<lparr>oe_id = ''e_'' @ nat_str n, oe_source = source, oe_target = target,
       oe_attributes = (if names = [] then None else Some (sort names))\<rparr>) (List.zip [1..<Suc (length es)] es)"

section \<open>The graph\<close>

record out_graph =
  og_nodes :: "out_node list"
  og_edges :: "out_edge list"

text \<open>
  \<open>gl_parse\<close> is the derived deserialisation of a plan; the other fields are the orders in which the
  hash maps and sets built here are traversed: the identifiers of a DOT file, the references of the
  configuration, the types of the nodes, the edges and the nodes of the result.
\<close>

record graph_lib =
  gl_parse :: "string \<Rightarrow> (string, plan) result"
  gl_ids :: "string list \<Rightarrow> string list"
  gl_config :: "attributes \<Rightarrow> attributes"
  gl_types :: "(string \<times> string) list \<Rightarrow> (string \<times> string) list"
  gl_edges :: "attributes \<Rightarrow> attributes"
  gl_nodes :: "out_node list \<Rightarrow> out_node list"

text \<open>\<open>\[[^\]]+\]$\<close> replaced by nothing.\<close>

definition strip_index :: "string \<Rightarrow> string" where
  "strip_index s =
     (if s \<noteq> [] \<and> last s = CHR '']''
      then let body = butlast s; inner = rev (takeWhile (\<lambda>c. c \<noteq> CHR '']'') (rev body)) in
        (case cut_at ''['' inner of
           Some (a, b) \<Rightarrow> if b = [] then s else take (length body - length inner) body @ a
         | None \<Rightarrow> s)
      else s)"

definition push_change :: "string \<Rightarrow> plan_change \<Rightarrow> (string, plan_change list) hash_map \<Rightarrow> (string, plan_change list) hash_map" where
  "push_change a c m = hm_insert a ((case map_of m a of Some cs \<Rightarrow> cs | None \<Rightarrow> []) @ [c]) m"

definition index_changes :: "plan_change list \<Rightarrow> (string, plan_change list) hash_map" where
  "index_changes changes =
     fold (\<lambda>c m. let base = strip_index (pc_address c); m' = push_change (pc_address c) c m
                 in if base \<noteq> pc_address c then push_change base c m' else m') changes []"

definition opt_list :: "'a list option \<Rightarrow> 'a list" where
  "opt_list xs = (case xs of Some xs \<Rightarrow> xs | None \<Rightarrow> [])"

definition state_addresses :: "state_module option \<Rightarrow> string list" where
  "state_addresses m = (case m of Some m \<Rightarrow> collect_state_addresses m | None \<Rightarrow> [])"

definition index_plan :: "plan \<Rightarrow> plan_index" where
  "index_plan p = \<lparr>pi_resources = index_changes (opt_list (pl_resource_changes p)), pi_outputs = opt_list (pl_output_changes p),
     pi_state_values = (case pl_values p of Some m \<Rightarrow> fold (\<lambda>(k, v). hm_insert k v) (collect_state_values m) [] | None \<Rightarrow> []),
     pi_active = state_addresses (pl_values p) @ List.map pc_address (opt_list (pl_resource_changes p))
       @ state_addresses (pl_prior_state p) @ state_addresses (pl_planned_values p)\<rparr>"

type_synonym node_state = "(string, string) hash_map \<times> string set \<times> out_node list"

definition add_node :: "plan_index \<Rightarrow> bool \<Rightarrow> (string \<Rightarrow> string option) \<Rightarrow> string \<Rightarrow> string \<Rightarrow> node_state \<Rightarrow> node_state" where
  "add_node px include_values hcl dot_id address st = (case st of (addresses, kn) \<Rightarrow>
     (case create_node px include_values (hcl address) address kn of
        (Some node, (known, ns)) \<Rightarrow> (hm_insert dot_id address addresses, known, ns @ [node])
      | (None, kn') \<Rightarrow> (addresses, kn')))"

fun explicit_nodes :: "plan_index \<Rightarrow> bool \<Rightarrow> (string \<Rightarrow> string option) \<Rightarrow> (string \<times> string) list \<Rightarrow> node_state \<Rightarrow> node_state option" where
  "explicit_nodes px include_values hcl [] st = Some st"
| "explicit_nodes px include_values hcl ((dot_id, label) # ns) st =
     Option.bind (clean_label label) (\<lambda>address. explicit_nodes px include_values hcl ns (add_node px include_values hcl dot_id address st))"

definition implicit_nodes :: "plan_index \<Rightarrow> bool \<Rightarrow> (string \<Rightarrow> string option) \<Rightarrow> string list \<Rightarrow> node_state \<Rightarrow> node_state" where
  "implicit_nodes px include_values hcl ids st =
     fold (\<lambda>i st. if hm_contains (fst st) i then st else add_node px include_values hcl i (parse_dot_id i) st) ids st"

definition node_types :: "out_node list \<Rightarrow> (string, string) hash_map" where
  "node_types nodes = fold (\<lambda>n m. case n of Resource i p d \<Rightarrow> hm_insert i (nd_type d) m | Group _ _ _ _ \<Rightarrow> m) nodes []"

definition is_module_output :: "out_node \<Rightarrow> bool" where
  "is_module_output n = (case n of Resource i p d \<Rightarrow> nd_type d = ''output'' \<and> \<not> starts_with i ''output.'' | Group _ _ _ _ \<Rightarrow> False)"

definition shown_nodes :: "string set \<Rightarrow> out_node list \<Rightarrow> out_node list" where
  "shown_nodes active nodes = filter (\<lambda>n. is_group n \<or> (\<not> is_module_output n \<and> node_id n \<in> active)) nodes"

definition drop_idle_groups :: "string set \<Rightarrow> out_node list \<Rightarrow> out_node list" where
  "drop_idle_groups active nodes =
     filter (\<lambda>n. \<not> is_group n \<or> (\<exists>m \<in> set nodes. \<not> is_group m \<and> starts_with (node_id m) (node_id n @ ''.''))
       \<or> node_id n \<in> active \<or> Some (node_id n) \<in> node_parent ` set nodes) nodes"

fun unique_nodes :: "out_node list \<Rightarrow> string set \<Rightarrow> out_node list" where
  "unique_nodes [] seen = []"
| "unique_nodes (n # ns) seen = (if node_id n \<in> seen then unique_nodes ns seen else n # unique_nodes ns (insert (node_id n) seen))"

text \<open>From the nodes of all addresses to the graph.\<close>

definition finish_graph :: "graph_lib \<Rightarrow> module_config option \<Rightarrow> (string \<times> string) list \<Rightarrow> node_state \<Rightarrow> out_graph" where
  "finish_graph gl config raw_edges st = (case st of (addresses, _, nodes0) \<Rightarrow>
     let dots = dot_links addresses raw_edges;
         nodes1 = add_root_group ''root_outputs'' ''Outputs'' (add_root_group ''root_variables'' ''Variables''
           (prune_groups (prune_unused (fold add_link dots []) nodes0)));
         types = node_types nodes1;
         config_deps = gl_config gl (case config of Some c \<Rightarrow> traverse_configuration c [] [] | None \<Rightarrow> []);
         deps = all_links dots config_deps;
         ordered = gl_types gl types;
         simplified = simplified_edges deps types ordered [];
         active = active_nodes deps ordered simplified;
         edges = merged_edges config_deps simplified;
         in_edges = fst ` fst ` set edges \<union> snd ` fst ` set edges;
         nodes2 = drop_idle_groups active (prune_groups (shown_nodes (active \<union> in_edges) nodes1))
     in \<lparr>og_nodes = gl_nodes gl (unique_nodes nodes2 {}), og_edges = out_edges (gl_edges gl edges)\<rparr>)"

definition process_plan :: "graph_lib \<Rightarrow> plan \<Rightarrow> string \<Rightarrow> bool \<Rightarrow> (string \<Rightarrow> string option) \<Rightarrow> out_graph option" where
  "process_plan gl p dot_content include_values hcl =
     (let px = index_plan p; (raw_nodes, raw_edges) = dot_lines (lines_of dot_content)
      in map_option (\<lambda>st. finish_graph gl (pl_configuration p) raw_edges
           (implicit_nodes px include_values hcl (gl_ids gl (remdups (concat (List.map (\<lambda>(s, t). [s, t]) raw_edges)))) st))
         (explicit_nodes px include_values hcl raw_nodes ([], {}, [])))"

text \<open>The outer \<open>None\<close> is a panic. Without a source directory no node has code.\<close>

definition process_graph ::
  "graph_lib \<Rightarrow> string \<Rightarrow> string \<Rightarrow> bool \<Rightarrow> (string \<Rightarrow> string option) option \<Rightarrow> (string, out_graph) result option" where
  "process_graph gl plan_json dot_content include_values source =
     (case gl_parse gl plan_json of
        Inl e \<Rightarrow> Some (Inl ''Failed to parse plan file'')
      | Inr p \<Rightarrow> map_option Inr (process_plan gl p dot_content include_values (case source of Some f \<Rightarrow> f | None \<Rightarrow> (\<lambda>_. None))))"

end
