(* ===== verification/Plan_Graph_Properties.thy ===== *)
theory Plan_Graph_Properties
  imports Plan_Edges Versions
begin

text \<open>
  What holds of the graph of a plan: which nodes survive the pruning, what stands behind a node that
  is passed through, which nodes and edges the result has, and which values of the plan it shows.
\<close>

section \<open>Reached nodes\<close>

definition link_rel :: "links \<Rightarrow> (string \<times> string) set" where
  "link_rel g = {(a, b). b \<in> set (links_of g a)}"

lemma links_of_add: "links_of (add_link e g) n = (if n = fst e then links_of g n @ [snd e] else links_of g n)"
  by (simp add: links_of_def add_link_def)

lemma link_rel_add: "link_rel (add_link e g) = insert e (link_rel g)"
  by (cases e) (auto simp: link_rel_def links_of_add split: if_splits)

lemma link_rel_fold: "link_rel (fold add_link es g) = set es \<union> link_rel g"
  by (induction es arbitrary: g) (auto simp: link_rel_add)

lemma link_rel_Nil [simp]: "link_rel [] = {}"
  by (simp add: link_rel_def links_of_def)

text \<open>A visited set is closed when the links of its members lead to members or to the stack.\<close>

lemma visit_closed:
  "(\<forall>a \<in> visited. link_rel g `` {a} \<subseteq> visited \<union> set todo) \<Longrightarrow>
   set todo \<union> visited \<subseteq> visit g todo visited
   \<and> (\<forall>a \<in> visit g todo visited. link_rel g `` {a} \<subseteq> visit g todo visited)"
proof (induction g todo visited rule: visit.induct)
  case (2 g u todo visited)
  show ?case
  proof (cases "u \<in> visited")
    case True
    with 2(1,3) show ?thesis by (auto simp: insert_absorb)
  next
    case False
    have "\<forall>a \<in> insert u visited. link_rel g `` {a} \<subseteq> insert u visited \<union> set (rev (filter (\<lambda>v. v \<notin> insert u visited) (links_of g u)) @ todo)"
      using 2(3) by (auto simp: link_rel_def)
    from 2(2) [OF False this] False show ?thesis by auto
  qed
qed simp

lemma visit_reached: "v \<in> visit g todo visited \<Longrightarrow> v \<in> visited \<or> (\<exists>u \<in> set todo. (u, v) \<in> (link_rel g)\<^sup>*)"
proof (induction g todo visited rule: visit.induct)
  case (2 g u todo visited)
  show ?case
  proof (cases "u \<in> visited")
    case True
    with 2(1,3) show ?thesis by auto
  next
    case False
    with 2(3) have "v \<in> visit g (rev (filter (\<lambda>v. v \<notin> insert u visited) (links_of g u)) @ todo) (insert u visited)" by simp
    from 2(2) [OF False this] consider "v = u" | "v \<in> visited" | w where "w \<in> set (links_of g u)" "(w, v) \<in> (link_rel g)\<^sup>*"
      | w where "w \<in> set todo" "(w, v) \<in> (link_rel g)\<^sup>*"
      by auto
    then show ?thesis
    proof cases
      case 3
      then have "(u, v) \<in> (link_rel g)\<^sup>*" by (auto simp: link_rel_def intro: converse_rtrancl_into_rtrancl)
      then show ?thesis by auto
    qed auto
  qed
qed simp

lemma visit_exact: "visit g todo {} = {v. \<exists>u \<in> set todo. (u, v) \<in> (link_rel g)\<^sup>*}"
proof -
  have c: "set todo \<subseteq> visit g todo {}" "\<And>a. a \<in> visit g todo {} \<Longrightarrow> link_rel g `` {a} \<subseteq> visit g todo {}"
    using visit_closed [of "{}" g todo] by auto
  have "v \<in> visit g todo {}" if "(u, v) \<in> (link_rel g)\<^sup>*" "u \<in> set todo" for u v
    using that by (induction rule: rtrancl_induct) (use c in auto)
  then show ?thesis using visit_reached [of _ g todo "{}"] by auto
qed

text \<open>Pruning keeps a variable, a local value or a data source exactly when it is reached, and every other node.\<close>

lemma prune_unused_exact:
  "prune_unused (fold add_link dots []) nodes =
     filter (\<lambda>n. if is_prunable n then node_id n \<in> (set dots)\<^sup>* `` {node_id s | s. s \<in> set nodes \<and> is_seed s} else True) nodes"
proof -
  have "node_id n \<in> visit (fold add_link dots []) (rev (seeds nodes)) {}
      \<longleftrightarrow> node_id n \<in> (set dots)\<^sup>* `` {node_id s | s. s \<in> set nodes \<and> is_seed s}" for n
    by (simp add: visit_exact link_rel_fold seeds_def Image_def) blast
  then show ?thesis unfolding prune_unused_def Let_def by (intro filter_cong) auto
qed

section \<open>What stands behind a node\<close>

text \<open>
  The specification: a node that is not passed through is its own source, the sources of one that is
  are those of its dependencies, and a root variable or root output with none is its own.
\<close>

inductive silent :: "links \<Rightarrow> (string, string) hash_map \<Rightarrow> string \<Rightarrow> bool" for deps types where
  "passed types n \<Longrightarrow> \<not> stands_alone types n \<Longrightarrow> (\<And>d. d \<in> set (links_of deps n) \<Longrightarrow> silent deps types d) \<Longrightarrow> silent deps types n"

inductive source :: "links \<Rightarrow> (string, string) hash_map \<Rightarrow> string \<Rightarrow> string \<Rightarrow> bool" for deps types where
  itself: "\<not> passed types n \<Longrightarrow> source deps types n n"
| behind: "passed types n \<Longrightarrow> d \<in> set (links_of deps n) \<Longrightarrow> source deps types d s \<Longrightarrow> source deps types n s"
| root: "passed types n \<Longrightarrow> stands_alone types n \<Longrightarrow> (\<And>d. d \<in> set (links_of deps n) \<Longrightarrow> silent deps types d) \<Longrightarrow> source deps types n n"

inductive_cases sourceE: "source deps types n s"
inductive_cases silentE: "silent deps types n"

lemma silent_no_source: "silent deps types n \<Longrightarrow> \<not> source deps types n s"
  by (induction arbitrary: s rule: silent.induct) (auto elim: sourceE)

lemma finite_link_rel: "finite (link_rel deps)"
proof (rule finite_subset)
  show "link_rel deps \<subseteq> fst ` set deps \<times> linked deps"
  proof (clarify)
    fix a b
    assume ab: "(a, b) \<in> link_rel deps"
    then have "b \<in> linked deps" using links_linked [of deps a] by (auto simp: link_rel_def)
    moreover from ab have "map_of deps a \<noteq> None" by (cases "map_of deps a") (simp_all add: link_rel_def links_of_def)
    ultimately show "a \<in> fst ` set deps \<and> b \<in> linked deps" by (simp add: map_of_eq_None_iff)
  qed
qed simp

lemma silent_or_source:
  assumes "acyclic (link_rel deps)"
  shows "silent deps types n \<or> (\<exists>s. source deps types n s)"
proof -
  have "wf ((link_rel deps)\<inverse>)" using assms finite_link_rel by (simp add: finite_acyclic_wf_converse)
  then show ?thesis
  proof (induction n rule: wf_induct_rule)
    case (less n)
    then have "d \<in> set (links_of deps n) \<Longrightarrow> silent deps types d \<or> (\<exists>s. source deps types d s)" for d
      by (simp add: link_rel_def)
    then show ?case by (metis source.intros silent.intros)
  qed
qed

definition sources :: "links \<Rightarrow> (string, string) hash_map \<Rightarrow> string \<Rightarrow> string set" where
  "sources deps types n = {s. source deps types n s}"

lemma sources_rec:
  assumes "acyclic (link_rel deps)"
  shows "sources deps types n =
     (if \<not> passed types n then {n}
      else let behind = \<Union> (sources deps types ` set (links_of deps n)) in
        if behind = {} then (if stands_alone types n then {n} else {}) else behind)"
proof -
  have empty: "\<Union> (sources deps types ` set (links_of deps n)) = {} \<longleftrightarrow> (\<forall>d \<in> set (links_of deps n). silent deps types d)"
    using silent_or_source [OF assms, of types] silent_no_source [of deps types] unfolding sources_def by blast
  show ?thesis
  proof (cases "passed types n")
    case False
    then show ?thesis by (auto simp: sources_def intro: source.intros elim: sourceE)
  next
    case True
    show ?thesis
    proof (cases "\<forall>d \<in> set (links_of deps n). silent deps types d")
      case silent: True
      then have "source deps types n s \<longleftrightarrow> stands_alone types n \<and> s = n" for s
        using True silent_no_source by (auto intro: source.root elim: sourceE)
      with True silent empty show ?thesis by (auto simp: sources_def)
    next
      case False
      then have "source deps types n s \<longleftrightarrow> (\<exists>d \<in> set (links_of deps n). source deps types d s)" for s
        using True by (auto intro: source.behind elim: sourceE)
      with True False empty show ?thesis by (auto simp: sources_def)
    qed
  qed
qed

definition cache_ok :: "links \<Rightarrow> (string, string) hash_map \<Rightarrow> source_cache \<Rightarrow> bool" where
  "cache_ok deps types cache \<longleftrightarrow> (\<forall>n ss. map_of cache n = Some ss \<longrightarrow> set ss = sources deps types n)"

lemma cache_ok_insert: "cache_ok deps types cache \<Longrightarrow> set ss = sources deps types n \<Longrightarrow> cache_ok deps types (hm_insert n ss cache)"
  by (simp add: cache_ok_def)

lemma set_tidy [simp]: "set (tidy xs) = set xs"
  by (simp add: tidy_def)

lemma resolved_sources:
  shows "acyclic (link_rel deps) \<Longrightarrow> cache_ok deps types cache \<Longrightarrow> (\<And>a. a \<in> stack \<Longrightarrow> (a, node) \<in> (link_rel deps)\<^sup>+) \<Longrightarrow>
      resolve_dependencies deps types cache stack node = (r, cache') \<Longrightarrow>
      set r = sources deps types node \<and> cache_ok deps types cache'"
    and "acyclic (link_rel deps) \<Longrightarrow> cache_ok deps types cache \<Longrightarrow> (\<And>a d. a \<in> stack \<Longrightarrow> d \<in> set ds \<Longrightarrow> (a, d) \<in> (link_rel deps)\<^sup>+) \<Longrightarrow>
      resolve_each deps types cache stack ds = (r, cache') \<Longrightarrow>
      set r = \<Union> (sources deps types ` set ds) \<and> cache_ok deps types cache'"
proof (induction deps types cache stack node and deps types cache stack ds arbitrary: r cache' and r cache' rule: resolve_dependencies_resolve_each.induct)
  case (1 deps types cache stack node)
  note acyclic = 1(2)
  have n: "node \<notin> stack"
  proof
    assume "node \<in> stack"
    then have "(node, node) \<in> (link_rel deps)\<^sup>+" by (rule 1(4))
    with acyclic show False by (simp add: acyclic_def)
  qed
  show ?case
  proof (cases "map_of cache node")
    case (Some cached)
    with n 1(3,5) show ?thesis by (auto simp: cache_ok_def)
  next
    case None
    show ?thesis
    proof (cases "passed types node \<and> links_of deps node \<noteq> []")
      case False
      then have s: "sources deps types node = (if passed types node then set (alone types node) else {node})"
        by (subst sources_rec [OF acyclic]) (auto simp: alone_def)
      have "resolve_dependencies deps types cache stack node = (if passed types node then alone types node else [node], cache)"
        using n None False by (cases "map_of deps node") (auto simp: links_of_def)
      with s 1(3,5) show ?thesis by (simp split: if_splits)
    next
      case True
      then obtain my_deps where my: "map_of deps node = Some my_deps" "my_deps \<noteq> []" "links_of deps node = my_deps"
        by (auto simp: links_of_def split: option.splits)
      obtain resolved c where rc: "resolve_each deps types cache (insert node stack) my_deps = (resolved, c)" by fastforce
      have below: "(a, d) \<in> (link_rel deps)\<^sup>+" if "a \<in> insert node stack" "d \<in> set my_deps" for a d
      proof -
        have "(node, d) \<in> link_rel deps" using that(2) my(3) by (simp add: link_rel_def)
        with that(1) 1(4) show ?thesis by (auto intro: trancl_into_trancl)
      qed
      have IH: "set resolved = \<Union> (sources deps types ` set my_deps)" "cache_ok deps types c"
        using 1(1) [OF n None _ my(1,2) acyclic 1(3) below rc] True by auto
      have s: "sources deps types node = (if resolved = [] then set (alone types node) else set resolved)"
        using True by (subst sources_rec [OF acyclic]) (simp add: my(3) alone_def Let_def flip: IH(1))
      have m: "resolved = [] \<Longrightarrow> type_of types node = ''output'' \<and> \<not> starts_with node ''output.'' \<Longrightarrow> alone types node = []"
        by (auto simp: alone_def stands_alone_def)
      have e: "(r, cache') = (if resolved = [] \<and> \<not> (type_of types node = ''output'' \<and> \<not> starts_with node ''output.'')
          then (alone types node, c) else (tidy resolved, hm_insert node (tidy resolved) c))"
        using 1(5) n None True my rc by simp
      show ?thesis
      proof (cases "resolved = [] \<and> \<not> (type_of types node = ''output'' \<and> \<not> starts_with node ''output.'')")
        case True
        with e s IH(2) show ?thesis by simp
      next
        case False
        then have "r = tidy resolved" "cache' = hm_insert node (tidy resolved) c" using e unfolding if_not_P [OF False] by simp_all
        moreover have "sources deps types node = set resolved" using False s m by (cases "resolved = []") simp_all
        ultimately show ?thesis using cache_ok_insert [OF IH(2), of "tidy resolved" node] by simp
      qed
    qed
  qed
next
  case (2 deps types cache stack)
  then show ?case by simp
next
  case (3 deps types cache stack d ds)
  obtain r1 c1 where r1: "resolve_dependencies deps types cache stack d = (r1, c1)" by fastforce
  obtain r2 c2 where r2: "resolve_each deps types c1 stack ds = (r2, c2)" by fastforce
  have h: "set r1 = sources deps types d \<and> cache_ok deps types c1" using 3(1) [OF 3(3,4) _ r1] 3(5) by simp
  have "set r2 = \<Union> (sources deps types ` set ds) \<and> cache_ok deps types c2"
    using 3(2) [OF r1 [symmetric] 3(3) _ _ r2] h 3(5) by simp
  with h r1 r2 3(6) show ?case by auto
qed

lemma resolve_one:
  assumes "acyclic (link_rel deps)" "cache_ok deps types cache"
  obtains r cache' where "resolve_dependencies deps types cache {} d = (r, cache')" "set r = sources deps types d" "cache_ok deps types cache'"
proof -
  obtain r cache' where "resolve_dependencies deps types cache {} d = (r, cache')" by fastforce
  with resolved_sources(1) [OF assms, of "{}" d r cache'] that show thesis by simp
qed

lemma edges_through_sources:
  "acyclic (link_rel deps) \<Longrightarrow> cache_ok deps types cache \<Longrightarrow>
   set (fst (edges_through deps types n ds cache)) = {(n, s, d) | s d. d \<in> set ds \<and> source deps types d s \<and> s \<noteq> n}
   \<and> cache_ok deps types (snd (edges_through deps types n ds cache))"
proof (induction ds arbitrary: cache)
  case (Cons d ds)
  obtain r c where "resolve_dependencies deps types cache {} d = (r, c)" "set r = sources deps types d" "cache_ok deps types c"
    using resolve_one [OF Cons.prems] .
  with Cons.IH [OF Cons.prems(1), of c] show ?case by (auto simp: sources_def split: prod.splits)
qed simp

text \<open>
  C38: with links that do not go in circles, the edges of the graph are exactly those of the
  specification, whatever the order in which the nodes are taken and whatever the cache holds from
  the earlier ones: from every node that is shown, through each of its dependencies, to every source
  behind that dependency other than the node itself.
\<close>

theorem edges_are_the_sources:
  assumes "acyclic (link_rel deps)"
  shows "set (simplified_edges deps types nodes []) =
     {(n, s, d) | n t s d. (n, t) \<in> set nodes \<and> \<not> is_skipped deps (n, t) \<and> (n, d) \<in> link_rel deps \<and> source deps types d s \<and> s \<noteq> n}"
proof -
  have "cache_ok deps types cache \<Longrightarrow> set (simplified_edges deps types nodes cache) =
     {(n, s, d) | n t s d. (n, t) \<in> set nodes \<and> \<not> is_skipped deps (n, t) \<and> (n, d) \<in> link_rel deps \<and> source deps types d s \<and> s \<noteq> n}" for cache
  proof (induction nodes arbitrary: cache)
    case (Cons x nodes)
    obtain n t where x: "x = (n, t)" by fastforce
    show ?case
    proof (cases "is_skipped deps (n, t)")
      case True
      with Cons.IH [OF Cons.prems] show ?thesis by (auto simp: x)
    next
      case False
      obtain es c where es: "edges_through deps types n (links_of deps n) cache = (es, c)" by fastforce
      with edges_through_sources [OF assms Cons.prems, of n "links_of deps n"]
      have e: "set es = {(n, s, d) | s d. (n, d) \<in> link_rel deps \<and> source deps types d s \<and> s \<noteq> n}" "cache_ok deps types c"
        by (simp_all add: link_rel_def)
      show ?thesis using Cons.IH [OF e(2)] False es by (auto simp: x e(1))
    qed
  qed simp
  moreover have "cache_ok deps types []" by (simp add: cache_ok_def)
  ultimately show ?thesis by blast
qed

section \<open>The shape of the graph\<close>

text \<open>
  Every parent is a group of the list, or, for a node that is not a group, one of the names that get
  their group later.
\<close>

definition closed_under :: "string set \<Rightarrow> out_node list \<Rightarrow> bool" where
  "closed_under late nodes \<longleftrightarrow>
     (\<forall>n \<in> set nodes. \<forall>p. node_parent n = Some p \<longrightarrow> (\<exists>g \<in> set nodes. is_group g \<and> node_id g = p) \<or> \<not> is_group n \<and> p \<in> late)"

definition group_ids :: "out_node list \<Rightarrow> string set" where
  "group_ids nodes = node_id ` {g \<in> set nodes. is_group g}"

lemma group_ids_append [simp]: "group_ids (as @ bs) = group_ids as \<union> group_ids bs"
  by (auto simp: group_ids_def)

lemma closed_iff: "closed_under late nodes \<longleftrightarrow>
    (\<forall>n \<in> set nodes. \<forall>p. node_parent n = Some p \<longrightarrow> p \<in> group_ids nodes \<or> \<not> is_group n \<and> p \<in> late)"
  by (auto simp: closed_under_def group_ids_def)

lemma closed_append:
  "closed_under late nodes \<Longrightarrow> (\<And>p. node_parent n = Some p \<Longrightarrow> p \<in> group_ids nodes \<or> \<not> is_group n \<and> p \<in> late) \<Longrightarrow>
   closed_under late (nodes @ [n])"
  by (auto simp: closed_iff)

lemma closed_filter:
  assumes "closed_under late nodes" and "\<And>g. g \<in> set nodes \<Longrightarrow> is_group g \<Longrightarrow> Some (node_id g) \<in> node_parent ` set nodes \<Longrightarrow> P g"
  shows "closed_under late (filter P nodes)"
  unfolding closed_under_def
proof (intro ballI allI impI)
  fix n p
  assume n: "n \<in> set (filter P nodes)" and p: "node_parent n = Some p"
  then consider g where "g \<in> set nodes" "is_group g" "node_id g = p" | "\<not> is_group n" "p \<in> late"
    using assms(1) by (auto simp: closed_under_def)
  then show "(\<exists>g \<in> set (filter P nodes). is_group g \<and> node_id g = p) \<or> \<not> is_group n \<and> p \<in> late"
  proof cases
    case 1
    have "Some (node_id g) \<in> node_parent ` set nodes" using n p 1(3) by (auto intro: rev_image_eqI)
    with assms(2) [OF 1(1,2)] 1 show ?thesis by auto
  qed simp
qed

lemma module_group_simps [simp]:
  "node_id (module_group m p) = m" "node_parent (module_group m p) = p" "is_group (module_group m p)"
  by (simp_all add: module_group_def group_node_def)

lemma add_groups_closed:
  "closed_under late ns \<Longrightarrow> group_ids ns = known \<Longrightarrow> (\<forall>p. parent = Some p \<longrightarrow> p \<in> known) \<Longrightarrow>
   add_groups parent ms (known, ns) = (known', ns') \<Longrightarrow>
   closed_under late ns' \<and> group_ids ns' = known' \<and> known \<union> set ms \<subseteq> known'"
proof (induction ms arbitrary: parent known ns)
  case (Cons m ms)
  show ?case
  proof (cases "m \<in> known")
    case True
    with Cons.prems show ?thesis using Cons.IH [of ns known "Some m"] by auto
  next
    case False
    have "closed_under late (ns @ [module_group m parent])" using Cons.prems(1-3) by (intro closed_append) auto
    moreover have "group_ids (ns @ [module_group m parent]) = insert m known"
      using Cons.prems(2) by simp (simp add: group_ids_def conj_commute cong: conj_cong)
    ultimately show ?thesis using Cons.IH [of "ns @ [module_group m parent]" "insert m known" "Some m"] Cons.prems(4) False by auto
  qed
qed simp

definition late_groups :: "string set" where
  "late_groups = {''root_variables'', ''root_outputs''}"

definition growing :: "string set \<times> out_node list \<Rightarrow> bool" where
  "growing kn \<longleftrightarrow> closed_under late_groups (snd kn) \<and> group_ids (snd kn) = fst kn"

lemma extract_growing:
  assumes "growing kn" "extract_parent_modules address kn = (parent, kn')"
  shows "growing kn' \<and> (\<forall>p. parent = Some p \<longrightarrow> p \<in> fst kn')"
proof (cases "module_paths [] (split_on (CHR ''.'') address) = []")
  case True
  with assms show ?thesis by (auto simp: extract_parent_modules_def)
next
  case False
  let ?h = "module_paths [] (split_on (CHR ''.'') address)"
  obtain known ns known' ns' where e: "kn = (known, ns)" "add_groups None ?h (known, ns) = (known', ns')" by fastforce
  have "closed_under late_groups ns' \<and> group_ids ns' = known' \<and> known \<union> set ?h \<subseteq> known'"
    using assms(1) e by (intro add_groups_closed [OF _ _ _ e(2)]) (auto simp: growing_def)
  moreover have "parent = Some (last ?h)" "kn' = (known', ns')" using assms(2) e False by (auto simp: extract_parent_modules_def Let_def)
  moreover have "last ?h \<in> set ?h" using False by simp
  ultimately show ?thesis by (auto simp: growing_def)
qed

lemma create_growing:
  assumes "growing kn" "create_node px iv hcl address kn = (node, kn')"
  shows "growing kn' \<and> (\<forall>n. node = Some n \<longrightarrow> \<not> is_group n \<and> (\<forall>p. node_parent n = Some p \<longrightarrow> p \<in> fst kn' \<union> late_groups))"
proof -
  obtain parent kn'' where e: "extract_parent_modules address kn = (parent, kn'')" by (cases "extract_parent_modules address kn")
  note g = extract_growing [OF assms(1) e]
  show ?thesis
    using assms g unfolding create_node_def e Let_def
    by (cases "node_info px iv address") (auto simp: late_groups_def split: if_splits)
qed

lemma add_node_growing:
  assumes "growing (snd st)"
  shows "growing (snd (add_node px iv hcl i address st))"
proof -
  obtain addresses kn where st: "st = (addresses, kn)" by (cases st)
  obtain node known ns where c: "create_node px iv (hcl address) address kn = (node, (known, ns))"
    by (cases "create_node px iv (hcl address) address kn") auto
  note g = create_growing [OF _ c]
  show ?thesis
  proof (cases node)
    case None
    with g assms st c show ?thesis by (simp add: add_node_def)
  next
    case (Some n)
    have "growing (known, ns)" "\<not> is_group n" "\<And>p. node_parent n = Some p \<Longrightarrow> p \<in> known \<union> late_groups"
      using g assms st Some by simp_all
    then have "growing (known, ns @ [n])"
      unfolding growing_def by (auto intro!: closed_append simp: group_ids_def)
    with st c Some show ?thesis by (simp add: add_node_def)
  qed
qed

lemma explicit_growing: "explicit_nodes px iv hcl raw st = Some st' \<Longrightarrow> growing (snd st) \<Longrightarrow> growing (snd st')"
proof (induction raw arbitrary: st)
  case (Cons x raw)
  obtain i label where x: "x = (i, label)" by (cases x)
  with Cons.prems(1) obtain address where "explicit_nodes px iv hcl raw (add_node px iv hcl i address st) = Some st'"
    by (auto simp: bind_eq_Some_conv simp del: split_paired_All)
  then show ?case by (rule Cons.IH) (rule add_node_growing [OF Cons.prems(2)])
qed simp

lemma implicit_growing: "growing (snd st) \<Longrightarrow> growing (snd (implicit_nodes px iv hcl ids st))"
  unfolding implicit_nodes_def by (induction ids arbitrary: st) (simp_all add: add_node_growing)

lemma prune_unused_closed: "closed_under late nodes \<Longrightarrow> closed_under late (prune_unused adj nodes)"
  unfolding prune_unused_def Let_def
  by (rule closed_filter) (auto simp: is_prunable_def split: out_node.splits)

lemma prune_groups_closed: "closed_under late nodes \<Longrightarrow> closed_under late (prune_groups nodes)"
proof (induction nodes rule: prune_groups.induct)
  case (1 nodes)
  have "closed_under late (drop_childless nodes)"
    unfolding drop_childless_def using 1(2) by (rule closed_filter) simp
  with 1(1) show ?case by (subst prune_groups.simps) (auto simp: Let_def)
qed

lemma root_group_closed:
  assumes "closed_under (insert i late) nodes"
  shows "closed_under late (add_root_group i label nodes)"
proof (cases "\<exists>n \<in> set nodes. \<not> is_group n \<and> node_parent n = Some i")
  case True
  then show ?thesis
    using assms by (auto simp: closed_under_def add_root_group_def group_node_def)
next
  case False
  have "\<exists>g \<in> set nodes. is_group g \<and> node_id g = p \<or> \<not> is_group n \<and> p \<in> late"
    if "n \<in> set nodes" "node_parent n = Some p" for n p
    using assms that False unfolding closed_under_def by blast
  then show ?thesis using False by (auto simp: closed_under_def add_root_group_def)
qed

lemma shown_closed: "closed_under late nodes \<Longrightarrow> closed_under late (shown_nodes active nodes)"
  unfolding shown_nodes_def by (rule closed_filter) simp_all

lemma idle_closed: "closed_under late nodes \<Longrightarrow> closed_under late (drop_idle_groups active nodes)"
  unfolding drop_idle_groups_def by (rule closed_filter) simp_all

lemma unique_nodes_ids: "node_id ` set (unique_nodes ns seen) = node_id ` set ns - seen"
  by (induction ns seen rule: unique_nodes.induct) auto

lemma unique_nodes_subset: "set (unique_nodes ns seen) \<subseteq> set ns"
  by (induction ns seen rule: unique_nodes.induct) auto

lemma unique_nodes_distinct: "distinct (List.map node_id (unique_nodes ns seen))"
proof (induction ns seen rule: unique_nodes.induct)
  case (2 n ns seen)
  then show ?case using unique_nodes_ids [of ns "insert (node_id n) seen"] by simp
qed simp

lemma simplified_no_loop: "(n, s, d) \<in> set (simplified_edges deps types nodes cache) \<Longrightarrow> s \<noteq> n"
proof (induction deps types nodes cache rule: simplified_edges.induct)
  case (2 deps types m t nodes cache)
  have e: "(n, s, d) \<in> set (fst (edges_through deps types m ds c)) \<Longrightarrow> s \<noteq> n" for ds c
    by (induction deps types m ds c rule: edges_through.induct) (auto split: prod.splits)
  show ?case
  proof (cases "is_skipped deps (m, t)")
    case True
    with 2 show ?thesis by simp
  next
    case False
    obtain es c where es: "edges_through deps types m (links_of deps m) cache = (es, c)"
      by (cases "edges_through deps types m (links_of deps m) cache")
    with 2(3) False consider "(n, s, d) \<in> set es" | "(n, s, d) \<in> set (simplified_edges deps types nodes c)" by auto
    then show ?thesis
    proof cases
      case 1
      then show ?thesis using e [of "links_of deps m" cache] by (simp add: es)
    next
      case 2
      then show ?thesis using "2.IH"(2) [OF False es [symmetric]] by simp
    qed
  qed
qed simp

lemma merged_edges_keys:
  "hm_wf (merged_edges config_deps es) \<and> fst ` set (merged_edges config_deps es) = (\<lambda>(n, s, d). (s, n)) ` set es"
proof -
  have "hm_wf m \<Longrightarrow> hm_wf (fold (\<lambda>e. case e of (n, s, _) \<Rightarrow> add_names (s, n) (edge_attributes config_deps e)) es m)
      \<and> fst ` set (fold (\<lambda>e. case e of (n, s, _) \<Rightarrow> add_names (s, n) (edge_attributes config_deps e)) es m)
        = (\<lambda>(n, s, d). (s, n)) ` set es \<union> fst ` set m" for m
    by (induction es arbitrary: m) (auto simp: add_names_def keys_hm_insert split: prod.splits)
  from this [of "[]"] show ?thesis by (simp add: merged_edges_def)
qed

lemma nat_str_inj: "nat_str a = nat_str b \<Longrightarrow> a = b"
  by (metis value_of_nat_str)

lemma out_edges_fields:
  "List.map (\<lambda>e. (oe_source e, oe_target e)) (out_edges es) = List.map fst es" "distinct (List.map oe_id (out_edges es))"
proof -
  have "List.map (\<lambda>e. (oe_source e, oe_target e)) (out_edges es) = List.map (fst \<circ> snd) (List.zip [1..<Suc (length es)] es)"
    by (auto simp: out_edges_def)
  also have "\<dots> = List.map fst (List.map snd (List.zip [1..<Suc (length es)] es))" by simp
  also have "List.map snd (List.zip [1..<Suc (length es)] es) = es" by (rule map_snd_zip) (simp del: upt_Suc)
  finally show "List.map (\<lambda>e. (oe_source e, oe_target e)) (out_edges es) = List.map fst es" .
  have "List.map oe_id (out_edges es) = List.map (\<lambda>n. ''e_'' @ nat_str n) (List.map fst (List.zip [1..<Suc (length es)] es))"
    by (auto simp: out_edges_def)
  also have "List.map fst (List.zip [1..<Suc (length es)] es) = [1..<Suc (length es)]" by (rule map_fst_zip) (simp del: upt_Suc)
  finally show "distinct (List.map oe_id (out_edges es))" by (simp add: distinct_map inj_on_def nat_str_inj)
qed

lemma map_option_SomeE: "map_option f x = Some y \<Longrightarrow> (\<And>a. x = Some a \<Longrightarrow> P) \<Longrightarrow> P"
  by (cases x) auto

text \<open>
  C39: the graph is well formed. The nodes have different identifiers and every parent is a node of
  the graph; the edges have different identifiers, at most one leads from one node to another, and
  none from a node to itself. This holds for every plan, every DOT file and every order in which the
  hash maps are traversed.
\<close>

theorem graph_is_well_formed:
  assumes graph: "process_plan gl p dot_content include_values hcl = Some g"
    and edges: "\<forall>es. mset (gl_edges gl es) = mset es" and nodes: "\<forall>ns. mset (gl_nodes gl ns) = mset ns"
  shows "distinct (List.map node_id (og_nodes g))
    \<and> {q. Some q \<in> node_parent ` set (og_nodes g)} \<subseteq> node_id ` set (og_nodes g)
    \<and> distinct (List.map oe_id (og_edges g)) \<and> distinct (List.map (\<lambda>e. (oe_source e, oe_target e)) (og_edges g))
    \<and> {e \<in> set (og_edges g). oe_source e = oe_target e} = {}"
proof -
  obtain raw_nodes raw_edges where raw: "dot_lines (lines_of dot_content) = (raw_nodes, raw_edges)" by (cases "dot_lines (lines_of dot_content)")
  obtain st where st: "explicit_nodes (index_plan p) include_values hcl raw_nodes ([], {}, []) = Some st"
    using graph unfolding process_plan_def raw Let_def prod.case by (elim map_option_SomeE)
  let ?ids = "gl_ids gl (remdups (concat (List.map (\<lambda>(s, t). [s, t]) raw_edges)))"
  obtain addresses known nodes0 where st': "implicit_nodes (index_plan p) include_values hcl ?ids st = (addresses, known, nodes0)"
    by (cases "implicit_nodes (index_plan p) include_values hcl ?ids st") auto
  have "growing ({}, [])" by (simp add: growing_def closed_under_def group_ids_def)
  with explicit_growing [OF st] have "growing (snd st)" by simp
  from implicit_growing [OF this, of "index_plan p" include_values hcl ?ids] have c0: "closed_under late_groups nodes0"
    by (simp add: st' growing_def)
  define nodes1 where "nodes1 = add_root_group ''root_outputs'' ''Outputs'' (add_root_group ''root_variables'' ''Variables''
      (prune_groups (prune_unused (fold add_link (dot_links addresses raw_edges) []) nodes0)))"
  have "closed_under {''root_variables'', ''root_outputs''} (prune_groups (prune_unused (fold add_link (dot_links addresses raw_edges) []) nodes0))"
    using c0 unfolding late_groups_def by (intro prune_groups_closed prune_unused_closed)
  then have c1: "closed_under {} nodes1" unfolding nodes1_def by (intro root_group_closed)
  note whole = graph [unfolded process_plan_def finish_graph_def Let_def raw prod.case st option.map st' option.inject, folded nodes1_def, symmetric]
  from arg_cong [OF whole, of og_nodes, unfolded out_graph.select_convs(1)] arg_cong [OF whole, of og_edges, unfolded out_graph.select_convs(2)]
  obtain active shown config_deps deps ordered where
    n: "og_nodes g = gl_nodes gl (unique_nodes (drop_idle_groups active (prune_groups (shown_nodes shown nodes1))) {})"
    and e: "og_edges g = out_edges (gl_edges gl (merged_edges config_deps (simplified_edges deps (node_types nodes1) ordered [])))"
    by (rule that)
  define nodes2 where "nodes2 = drop_idle_groups active (prune_groups (shown_nodes shown nodes1))"
  have c2: "closed_under {} nodes2" unfolding nodes2_def using c1 by (intro idle_closed prune_groups_closed shown_closed)
  have ns: "mset (og_nodes g) = mset (unique_nodes nodes2 {})" using nodes by (simp add: n nodes2_def)
  then have set_ns: "set (og_nodes g) = set (unique_nodes nodes2 {})" by (metis set_mset_mset)
  have "mset (List.map node_id (og_nodes g)) = mset (List.map node_id (unique_nodes nodes2 {}))" using ns by simp
  then have 1: "distinct (List.map node_id (og_nodes g))" using unique_nodes_distinct mset_eq_imp_distinct_iff by blast
  have 2: "{q. Some q \<in> node_parent ` set (og_nodes g)} \<subseteq> node_id ` set (og_nodes g)"
  proof
    fix q
    assume "q \<in> {q. Some q \<in> node_parent ` set (og_nodes g)}"
    then obtain n where "n \<in> set (unique_nodes nodes2 {})" and p: "node_parent n = Some q" by (auto simp: set_ns)
    then have "n \<in> set nodes2" using unique_nodes_subset by blast
    with c2 p obtain m where "m \<in> set nodes2" "node_id m = q" unfolding closed_under_def by blast
    then show "q \<in> node_id ` set (og_nodes g)" unfolding set_ns unique_nodes_ids by blast
  qed
  define es where "es = merged_edges config_deps (simplified_edges deps (node_types nodes1) ordered [])"
  have keys: "mset (List.map fst (gl_edges gl es)) = mset (List.map fst es)" using edges by simp
  have wf: "distinct (List.map fst es)" using merged_edges_keys unfolding es_def hm_wf_def by blast
  have 3: "List.map (\<lambda>e. (oe_source e, oe_target e)) (og_edges g) = List.map fst (gl_edges gl es)"
    unfolding e es_def by (rule out_edges_fields)
  have 4: "distinct (List.map (\<lambda>e. (oe_source e, oe_target e)) (og_edges g))"
    unfolding 3 using wf keys mset_eq_imp_distinct_iff by blast
  have "(\<lambda>e. (oe_source e, oe_target e)) ` set (og_edges g) = fst ` set es"
    using keys 3 by (metis list.set_map set_mset_mset)
  also have "\<dots> = (\<lambda>(n, s, d). (s, n)) ` set (simplified_edges deps (node_types nodes1) ordered [])"
    unfolding es_def using merged_edges_keys by blast
  finally have 5: "{e \<in> set (og_edges g). oe_source e = oe_target e} = {}"
    using simplified_no_loop by fastforce
  from 1 2 4 5 show ?thesis unfolding e by (simp add: out_edges_fields)
qed

section \<open>Sensitive values\<close>

text \<open>Two values that differ at most where the third says that a value is sensitive.\<close>

inductive agree :: "json option \<Rightarrow> json option \<Rightarrow> json option \<Rightarrow> bool" where
  agree_same: "agree a a s"
| agree_hidden: "agree a a' (Some (JBool True))"
| agree_object: "(\<And>k. agree (map_of x k) (map_of x' k) (field_of s k)) \<Longrightarrow> agree (Some (JObject x)) (Some (JObject x')) s"
| agree_array: "length x = length x' \<Longrightarrow> (\<And>i. i < length x \<Longrightarrow> agree (Some (x ! i)) (Some (x' ! i)) (item_of s i)) \<Longrightarrow>
    agree (Some (JArray x)) (Some (JArray x')) s"

lemma lookup_shown: "map_of (bt_of_list (concat (List.map (\<lambda>k. case f k of None \<Rightarrow> [] | Some v \<Rightarrow> [(k, v)]) ks))) k
    = (if k \<in> set ks then f k else None)"
proof -
  have "map_of (rev (concat (List.map (\<lambda>k. case f k of None \<Rightarrow> [] | Some v \<Rightarrow> [(k, v)]) ks))) k
      = (if k \<in> set ks then f k else None)"
    by (induction ks) (auto simp: map_add_def split: option.splits)
  then show ?thesis by (simp add: bt.look_collect)
qed

lemma shown_object_eq:
  assumes "\<And>k. f k = g k" "\<And>k. k \<notin> set ks \<Longrightarrow> f k = None" "\<And>k. k \<notin> set ks' \<Longrightarrow> g k = None"
  shows "shown_object ks f = shown_object ks' g"
proof -
  have "(if k \<in> set ks then f k else None) = (if k \<in> set ks' then g k else None)" for k
    using assms by metis
  then have "bt_of_list (concat (List.map (\<lambda>k. case f k of None \<Rightarrow> [] | Some v \<Rightarrow> [(k, v)]) ks))
      = bt_of_list (concat (List.map (\<lambda>k. case g k of None \<Rightarrow> [] | Some v \<Rightarrow> [(k, v)]) ks'))"
    by (intro bt_ext bt_of_list_wf ext) (simp add: lookup_shown)
  then show ?thesis by (simp add: shown_object_def jobj_def)
qed

lemma no_field: "k \<notin> set (keys_of v) \<Longrightarrow> field_of v k = None"
proof (cases v)
  case (Some j)
  assume "k \<notin> set (keys_of v)"
  with Some show ?thesis by (cases j) (simp_all add: keys_of_def field_of_def map_of_eq_None_iff)
qed (simp add: field_of_def)

lemma process_nothing: "process_values None None None = None"
  by (subst process_values.simps) (simp add: is_obj_def is_arr_def)

lemma process_agree: "agree a a' s \<Longrightarrow> process_values a u s = process_values a' u s"
proof (induction arbitrary: u rule: agree.induct)
  case (agree_hidden a a')
  show ?case by (subst (1 2) process_values.simps) simp
next
  case (agree_object x x' s)
  let ?shown = "\<lambda>y. shown_object (remdups (keys_of (Some (JObject y)) @ keys_of u @ keys_of s))
    (\<lambda>k. process_values (field_of (Some (JObject y)) k) (field_of u k) (field_of s k))"
  have p: "process_values (Some (JObject y)) u s =
      (if s = Some (JBool True) then Some (JString ''(sensitive)'')
       else if u = Some (JBool True) then Some (JString ''(known after apply)'') else Some (?shown y))" for y
    by (subst process_values.simps) (simp add: is_obj_def)
  have "?shown x = ?shown x'"
  proof (rule shown_object_eq)
    fix k
    show "process_values (field_of (Some (JObject x)) k) (field_of u k) (field_of s k)
        = process_values (field_of (Some (JObject x')) k) (field_of u k) (field_of s k)"
      using agree_object by (simp add: field_of_def)
  qed (simp_all add: no_field process_nothing)
  then show ?case unfolding p by simp
next
  case (agree_array x x' s)
  let ?shown = "\<lambda>y. shown_array (max (max (length_of (Some (JArray y))) (length_of u)) (length_of s))
    (\<lambda>i. process_values (item_of (Some (JArray y)) i) (item_of u i) (item_of s i))"
  let ?object = "\<lambda>y. shown_object (remdups (keys_of u @ keys_of s)) (\<lambda>k. process_values None (field_of u k) (field_of s k))"
  have p: "process_values (Some (JArray y)) u s =
      (if s = Some (JBool True) then Some (JString ''(sensitive)'')
       else if u = Some (JBool True) then Some (JString ''(known after apply)'')
       else if is_obj u \<or> is_obj s then Some (?object y) else Some (?shown y))" for y
    by (subst process_values.simps) (simp add: is_obj_def is_arr_def keys_of_def field_of_def)
  have "?shown x = ?shown x'"
  proof (rule shown_array_cong)
    fix i
    show "process_values (item_of (Some (JArray x)) i) (item_of u i) (item_of s i)
        = process_values (item_of (Some (JArray x')) i) (item_of u i) (item_of s i)"
      using agree_array by (simp add: item_of_def)
  qed (simp add: length_of_def agree_array(1))
  then show ?case unfolding p by simp
qed simp

text \<open>
  Two changes that differ at most in sensitive values, and two plans of that kind. The states inside
  a plan are read for their addresses only; a plan that is itself a state is compared in full.
\<close>

definition alike_change :: "change \<Rightarrow> change \<Rightarrow> bool" where
  "alike_change c c' \<longleftrightarrow> ch_actions c = ch_actions c' \<and> ch_after_unknown c = ch_after_unknown c'
     \<and> ch_after_sensitive c = ch_after_sensitive c' \<and> agree (ch_after c) (ch_after c') (ch_after_sensitive c)"

definition alike_resource :: "plan_change \<Rightarrow> plan_change \<Rightarrow> bool" where
  "alike_resource r r' \<longleftrightarrow> pc_address r = pc_address r' \<and> pc_mode r = pc_mode r' \<and> alike_change (pc_change r) (pc_change r')"

definition alike :: "plan \<Rightarrow> plan \<Rightarrow> bool" where
  "alike p p' \<longleftrightarrow> list_all2 alike_resource (opt_list (pl_resource_changes p)) (opt_list (pl_resource_changes p'))
     \<and> list_all2 (rel_prod (=) alike_change) (opt_list (pl_output_changes p)) (opt_list (pl_output_changes p'))
     \<and> pl_configuration p = pl_configuration p' \<and> pl_values p = pl_values p'
     \<and> state_addresses (pl_prior_state p) = state_addresses (pl_prior_state p')
     \<and> state_addresses (pl_planned_values p) = state_addresses (pl_planned_values p')"

lemma alike_values: "alike_change c c' \<Longrightarrow> change_values c = change_values c'"
proof -
  assume alike: "alike_change c c'"
  from alike [unfolded alike_change_def] have u: "ch_after_unknown c = ch_after_unknown c'" by blast
  from alike [unfolded alike_change_def] have v: "ch_after_sensitive c = ch_after_sensitive c'" by blast
  from alike [unfolded alike_change_def] have x: "agree (ch_after c) (ch_after c') (ch_after_sensitive c)" by blast
  show "change_values c = change_values c'"
    unfolding change_values_def u [symmetric] v [symmetric] by (rule process_agree [OF x])
qed

lemma rel_map_of: "list_all2 (rel_prod (=) R) m m' \<Longrightarrow> rel_option R (map_of m k) (map_of m' k)"
  by (induction rule: list_all2_induct) auto

lemma rel_hm_insert: "list_all2 (rel_prod (=) R) m m' \<Longrightarrow> R v v' \<Longrightarrow> list_all2 (rel_prod (=) R) (hm_insert k v m) (hm_insert k v' m')"
  by (induction rule: list_all2_induct) auto

abbreviation rel_index :: "(string, plan_change list) hash_map \<Rightarrow> (string, plan_change list) hash_map \<Rightarrow> bool" where
  "rel_index \<equiv> list_all2 (rel_prod (=) (list_all2 alike_resource))"

lemma push_alike:
  assumes "rel_index m m'" "alike_resource c c'"
  shows "rel_index (push_change a c m) (push_change a c' m')"
proof -
  have "list_all2 alike_resource ((case map_of m a of Some cs \<Rightarrow> cs | None \<Rightarrow> []) @ [c]) ((case map_of m' a of Some cs \<Rightarrow> cs | None \<Rightarrow> []) @ [c'])"
    using rel_map_of [OF assms(1), of a] assms(2) by (cases "map_of m a"; cases "map_of m' a") (auto simp: list_all2_appendI)
  then show ?thesis using assms(1) by (simp add: push_change_def rel_hm_insert)
qed

lemma index_alike: "list_all2 alike_resource cs cs' \<Longrightarrow> rel_index (index_changes cs) (index_changes cs')"
proof -
  let ?step = "\<lambda>c m. let base = strip_index (pc_address c); m' = push_change (pc_address c) c m
                 in if base \<noteq> pc_address c then push_change base c m' else m'"
  have "list_all2 alike_resource cs cs' \<Longrightarrow> rel_index m m' \<Longrightarrow> rel_index (fold ?step cs m) (fold ?step cs' m')" for m m'
  proof (induction arbitrary: m m' rule: list_all2_induct)
    case (Cons c cs c' cs')
    then have "pc_address c = pc_address c'" by (simp add: alike_resource_def)
    with Cons have "rel_index (?step c m) (?step c' m')" by (auto simp: Let_def push_alike)
    with Cons show ?case by simp
  qed simp
  then show "list_all2 alike_resource cs cs' \<Longrightarrow> ?thesis" by (simp add: index_changes_def)
qed

lemma alike_map: "list_all2 alike_resource cs cs' \<Longrightarrow> (\<And>c c'. alike_resource c c' \<Longrightarrow> f c = f c') \<Longrightarrow> List.map f cs = List.map f cs'"
  by (induction rule: list_all2_induct) auto

lemma alike_ex: "list_all2 alike_resource cs cs' \<Longrightarrow> (\<And>c c'. alike_resource c c' \<Longrightarrow> f c = f c') \<Longrightarrow> (\<exists>c \<in> set cs. f c) = (\<exists>c \<in> set cs'. f c)"
  by (induction rule: list_all2_induct) auto

lemma changes_alike:
  assumes "list_all2 alike_resource cs cs'"
  shows "joined_actions cs = joined_actions cs'" "(\<exists>c \<in> set cs. pc_mode c = Some ''data'') = (\<exists>c \<in> set cs'. pc_mode c = Some ''data'')"
    "(\<exists>c \<in> set cs. ends_with (pc_address c) '']'') = (\<exists>c \<in> set cs'. ends_with (pc_address c) '']'')"
    "length cs = length cs'" "collected_values cs = collected_values cs'"
proof -
  have "List.map (\<lambda>c. ch_actions (pc_change c)) cs = List.map (\<lambda>c. ch_actions (pc_change c)) cs'"
    using assms by (rule alike_map) (simp add: alike_resource_def alike_change_def)
  then show "joined_actions cs = joined_actions cs'" unfolding joined_actions_def by (simp only:)
  have "List.map (\<lambda>c. case change_values (pc_change c) of None \<Rightarrow> [] | Some v \<Rightarrow> [v]) cs
      = List.map (\<lambda>c. case change_values (pc_change c) of None \<Rightarrow> [] | Some v \<Rightarrow> [v]) cs'"
  proof (rule alike_map [OF assms])
    fix c c'
    assume "alike_resource c c'"
    then have "change_values (pc_change c) = change_values (pc_change c')" by (intro alike_values) (simp add: alike_resource_def)
    then show "(case change_values (pc_change c) of None \<Rightarrow> [] | Some v \<Rightarrow> [v]) = (case change_values (pc_change c') of None \<Rightarrow> [] | Some v \<Rightarrow> [v])" by simp
  qed
  then show "collected_values cs = collected_values cs'" unfolding collected_values_def by (simp only:)
  show "length cs = length cs'" using assms by (rule list_all2_lengthD)
  show "(\<exists>c \<in> set cs. pc_mode c = Some ''data'') = (\<exists>c \<in> set cs'. pc_mode c = Some ''data'')"
    using assms by (rule alike_ex) (simp add: alike_resource_def)
  show "(\<exists>c \<in> set cs. ends_with (pc_address c) '']'') = (\<exists>c \<in> set cs'. ends_with (pc_address c) '']'')"
    using assms by (rule alike_ex) (simp add: alike_resource_def)
qed

lemma node_info_alike:
  assumes "alike p p'"
  shows "node_info (index_plan p) iv address = node_info (index_plan p') iv address"
proof -
  have r: "rel_option (list_all2 alike_resource) (map_of (pi_resources (index_plan p)) address) (map_of (pi_resources (index_plan p')) address)"
    using assms by (intro rel_map_of) (simp add: alike_def index_plan_def index_alike)
  let ?n = "trim_start_matches ''output.'' address"
  have "rel_option alike_change (map_of (pi_outputs (index_plan p)) ?n) (map_of (pi_outputs (index_plan p')) ?n)"
    using assms by (intro rel_map_of) (simp add: alike_def index_plan_def)
  then have o: "output_info (index_plan p) iv address = output_info (index_plan p') iv address"
    unfolding output_info_def
    by (cases rule: option.rel_cases) (auto simp: alike_values alike_change_def)
  have s: "pi_state_values (index_plan p) = pi_state_values (index_plan p')" "set (pi_active (index_plan p)) = set (pi_active (index_plan p'))"
    using assms alike_map [of "opt_list (pl_resource_changes p)" "opt_list (pl_resource_changes p')" pc_address]
    by (simp_all add: alike_def index_plan_def alike_resource_def)
  from r show ?thesis
  proof (cases rule: option.rel_cases)
    case None
    show ?thesis unfolding node_info_def Let_def None option.case o s ..
  next
    case (Some cs cs')
    then show ?thesis using changes_alike [OF Some(3)] by (simp add: node_info_def)
  qed
qed

text \<open>
  C5: the graph of a plan shows no sensitive value. Two plans that differ at most in values that
  Terraform marks as sensitive, in the changes of resources and of outputs, and in the values of the
  states inside the plan, have the same graph.
\<close>

theorem sensitive_values_not_shown:
  assumes "alike p p'"
  shows "process_plan gl p dot_content include_values hcl = process_plan gl p' dot_content include_values hcl"
proof -
  have c: "create_node (index_plan p) = create_node (index_plan p')"
    unfolding create_node_def node_info_alike [OF assms] ..
  then have a: "add_node (index_plan p) = add_node (index_plan p')" by (intro ext) (simp add: add_node_def)
  then have e: "explicit_nodes (index_plan p) iv f raw st = explicit_nodes (index_plan p') iv f raw st" for iv f raw st
    by (induction "index_plan p" iv f raw st rule: explicit_nodes.induct) (auto intro!: bind_option_cong)
  have i: "implicit_nodes (index_plan p) = implicit_nodes (index_plan p')"
    unfolding implicit_nodes_def a ..
  have config: "pl_configuration p = pl_configuration p'" using assms by (simp add: alike_def)
  show ?thesis unfolding process_plan_def Let_def e i config ..
qed

end
