(* ===== verification/Plan_Graph_Nodes.thy ===== *)
theory Plan_Graph_Nodes
  imports Plan_Graph_Properties
begin

text \<open>
  Which nodes the graph of a plan shows, after all the stages of \<open>process_graph\<close>: the pruning of what
  is not reached, the removal of empty groups, and the hiding of what the edges pass through.
\<close>

section \<open>Stages that remove groups only\<close>

lemma prune_groups_nodes: "\<not> is_group n \<Longrightarrow> n \<in> set (prune_groups ns) \<longleftrightarrow> n \<in> set ns"
proof (induction ns rule: prune_groups.induct)
  case (1 ns)
  have "n \<in> set (drop_childless ns) \<longleftrightarrow> n \<in> set ns" using 1(2) by (simp add: drop_childless_def)
  with 1 show ?case by (subst prune_groups.simps) (auto simp: Let_def)
qed

lemma root_group_nodes: "\<not> is_group n \<Longrightarrow> n \<in> set (add_root_group i label ns) \<longleftrightarrow> n \<in> set ns"
  by (auto simp: add_root_group_def group_node_def)

lemma idle_nodes: "\<not> is_group n \<Longrightarrow> n \<in> set (drop_idle_groups active ns) \<longleftrightarrow> n \<in> set ns"
  by (simp add: drop_idle_groups_def)

lemmas kept_nodes = prune_groups_nodes root_group_nodes idle_nodes

text \<open>Nodes whose identifiers differ stay different, and nothing but the root groups is added.\<close>

definition named_apart :: "string set \<Rightarrow> out_node list \<Rightarrow> bool" where
  "named_apart late ns \<longleftrightarrow> distinct (List.map node_id ns) \<and> late \<inter> node_id ` set ns = {}"

lemma named_filter: "named_apart late ns \<Longrightarrow> named_apart late (filter P ns)"
  by (auto simp: named_apart_def distinct_map inj_on_def)

lemma named_prune_groups: "named_apart late ns \<Longrightarrow> named_apart late (prune_groups ns)"
proof (induction ns rule: prune_groups.induct)
  case (1 ns)
  have "named_apart late (drop_childless ns)" unfolding drop_childless_def by (rule named_filter [OF 1(2)])
  with 1(1) show ?case by (subst prune_groups.simps) (auto simp: Let_def)
qed

lemma named_root_group:
  assumes "named_apart late ns" "i \<in> late"
  shows "named_apart (late - {i}) (add_root_group i label ns)"
  using assms by (auto simp: named_apart_def add_root_group_def group_node_def)

lemma unique_nodes_same: "distinct (List.map node_id ns) \<Longrightarrow> seen \<inter> node_id ` set ns = {} \<Longrightarrow> unique_nodes ns seen = ns"
  by (induction ns seen rule: unique_nodes.induct) auto

section \<open>The types of the nodes\<close>

lemma node_types_sound: "map_of (node_types ns) i = Some t \<Longrightarrow> \<exists>p d. Resource i p d \<in> set ns \<and> nd_type d = t"
proof (induction ns rule: rev_induct)
  case (snoc n ns)
  then show ?case by (cases n) (auto simp: node_types_def split: if_splits)
qed (simp add: node_types_def)

lemma node_types_complete:
  "distinct (List.map node_id ns) \<Longrightarrow> Resource i p d \<in> set ns \<Longrightarrow> map_of (node_types ns) i = Some (nd_type d)"
proof (induction ns rule: rev_induct)
  case (snoc n ns)
  show ?case
  proof (cases "n = Resource i p d")
    case True
    then show ?thesis by (simp add: node_types_def)
  next
    case False
    then have m: "Resource i p d \<in> set ns" using snoc.prems(2) by simp
    have "node_id n \<noteq> i"
    proof
      assume "node_id n = i"
      with m have "node_id n \<in> node_id ` set ns" by (auto intro: rev_image_eqI)
      with snoc.prems(1) show False by simp
    qed
    with snoc.IH [OF _ m] snoc.prems(1) show ?thesis by (cases n) (auto simp: node_types_def)
  qed
qed simp

lemma node_types_wf: "hm_wf (node_types ns)"
proof (induction ns rule: rev_induct)
  case (snoc n ns)
  then show ?case by (cases n) (simp_all add: node_types_def)
qed (simp add: node_types_def)

lemma node_types_set: "(i, t) \<in> set (node_types ns) \<longleftrightarrow> map_of (node_types ns) i = Some t"
  using node_types_wf [of ns] unfolding hm_wf_def by (simp add: map_of_eq_Some_iff)

section \<open>The ends of the edges\<close>

text \<open>A source of an edge is not passed through, or stands for itself.\<close>

definition ends :: "(string, string) hash_map \<Rightarrow> string set" where
  "ends types = {n. passed types n \<longrightarrow> stands_alone types n}"

definition cache_ends :: "(string, string) hash_map \<Rightarrow> source_cache \<Rightarrow> bool" where
  "cache_ends types cache \<longleftrightarrow> (\<forall>n ss. map_of cache n = Some ss \<longrightarrow> set ss \<subseteq> ends types)"

lemma alone_ends: "set (alone types n) \<subseteq> ends types"
  by (auto simp: alone_def ends_def)

lemma resolved_ends:
  shows "cache_ends types cache \<Longrightarrow> resolve_dependencies deps types cache stack node = (r, cache') \<Longrightarrow>
      set r \<subseteq> ends types \<and> cache_ends types cache'"
    and "cache_ends types cache \<Longrightarrow> resolve_each deps types cache stack ds = (r, cache') \<Longrightarrow>
      set r \<subseteq> ends types \<and> cache_ends types cache'"
proof (induction deps types cache stack node and deps types cache stack ds arbitrary: r cache' and r cache' rule: resolve_dependencies_resolve_each.induct)
  case (1 deps types cache stack node)
  consider "node \<in> stack" | cached where "node \<notin> stack" "map_of cache node = Some cached"
    | "node \<notin> stack" "map_of cache node = None" "\<not> passed types node"
    | "node \<notin> stack" "map_of cache node = None" "passed types node" "links_of deps node = []"
    | my_deps where "node \<notin> stack" "map_of cache node = None" "passed types node" "map_of deps node = Some my_deps" "my_deps \<noteq> []"
    by (cases "map_of cache node"; cases "map_of deps node") (auto simp: links_of_def)
  then show ?case
  proof cases
    case 4
    with 1(2,3) alone_ends show ?thesis by (cases "map_of deps node") (auto simp: links_of_def)
  next
    case (5 my_deps)
    obtain resolved c where rc: "resolve_each deps types cache (insert node stack) my_deps = (resolved, c)" by fastforce
    have IH: "set resolved \<subseteq> ends types" "cache_ends types c"
      using 1(1) [OF 5(1,2) _ 5(4,5) 1(2) rc] 5(3) by auto
    then have "cache_ends types (hm_insert node (tidy resolved) c)" by (simp add: cache_ends_def)
    with IH 1(3) 5 rc alone_ends [of types node] show ?thesis by (auto split: if_splits)
  qed (use 1(2,3) in \<open>auto simp: cache_ends_def ends_def\<close>)
next
  case (3 deps types cache stack d ds)
  obtain r1 c1 where r1: "resolve_dependencies deps types cache stack d = (r1, c1)" by fastforce
  obtain r2 c2 where r2: "resolve_each deps types c1 stack ds = (r2, c2)" by fastforce
  have h: "set r1 \<subseteq> ends types \<and> cache_ends types c1" using 3(1) [OF 3(3) r1] .
  have "set r2 \<subseteq> ends types \<and> cache_ends types c2" using 3(2) [OF r1 [symmetric] _ r2] h by simp
  with h r1 r2 3(4) show ?case by auto
qed simp

lemma through_ends:
  "cache_ends types cache \<Longrightarrow> edges_through deps types n ds cache = (es, cache') \<Longrightarrow>
   (\<forall>(m, s, d) \<in> set es. m = n \<and> s \<in> ends types) \<and> cache_ends types cache'"
proof (induction ds arbitrary: cache es cache')
  case (Cons d ds)
  obtain r c where r: "resolve_dependencies deps types cache {} d = (r, c)" by fastforce
  obtain es1 c1 where e: "edges_through deps types n ds c = (es1, c1)" by fastforce
  have h: "set r \<subseteq> ends types" "cache_ends types c" using resolved_ends(1) [OF Cons.prems(1) r] by auto
  have "es = List.map (\<lambda>s. (n, s, d)) (filter (\<lambda>s. s \<noteq> n) r) @ es1" "cache' = c1"
    using Cons.prems(2) r e by (simp_all del: resolve_dependencies.simps)
  with Cons.IH [OF h(2) e] h(1) show ?case by auto
qed simp

lemma edge_ends:
  "cache_ends types cache \<Longrightarrow> (n, s, d) \<in> set (simplified_edges deps types nodes cache) \<Longrightarrow>
   s \<in> ends types \<and> (\<exists>t. (n, t) \<in> set nodes \<and> \<not> is_skipped deps (n, t))"
proof (induction nodes arbitrary: cache)
  case (Cons x nodes)
  obtain m t where x: "x = (m, t)" by fastforce
  show ?case
  proof (cases "is_skipped deps (m, t)")
    case True
    with Cons.IH [OF Cons.prems(1)] Cons.prems(2) show ?thesis by (auto simp: x)
  next
    case False
    obtain es c where e: "edges_through deps types m (links_of deps m) cache = (es, c)" by fastforce
    note th = through_ends [OF Cons.prems(1) e]
    from Cons.prems(2) False e consider "(n, s, d) \<in> set es" | "(n, s, d) \<in> set (simplified_edges deps types nodes c)"
      by (auto simp: x)
    then show ?thesis
    proof cases
      case 1
      with th have "s \<in> ends types" "n = m" by auto
      with False show ?thesis by (auto simp: x)
    next
      case 2
      with Cons.IH [of c] th show ?thesis by auto
    qed
  qed
qed simp

section \<open>The nodes of the graph\<close>

text \<open>A node made from an address has the type of the address.\<close>

definition typed :: "out_node list \<Rightarrow> bool" where
  "typed ns \<longleftrightarrow> (\<forall>i p d. Resource i p d \<in> set ns \<longrightarrow> (\<exists>b. nd_type d = determine_block_type i b))"

lemma add_groups_typed: "typed (snd kn) \<Longrightarrow> typed (snd (add_groups parent ms kn))"
  by (induction parent ms kn rule: add_groups.induct) (auto simp: typed_def module_group_def group_node_def)

lemma add_node_typed: "typed (snd (snd st)) \<Longrightarrow> typed (snd (snd (add_node px iv hcl i address st)))"
proof -
  assume st: "typed (snd (snd st))"
  obtain addresses kn where k: "st = (addresses, kn)" by (cases st)
  obtain parent kn' where e: "extract_parent_modules address kn = (parent, kn')" by (cases "extract_parent_modules address kn")
  with st k have "typed (snd kn')" using add_groups_typed [of kn None] by (auto simp: extract_parent_modules_def Let_def split: if_splits)
  with st k e show ?thesis
    unfolding add_node_def create_node_def Let_def by (cases "node_info px iv address"; cases kn') (auto simp: typed_def, rule exI, rule refl)
qed

lemma nodes_typed:
  assumes "explicit_nodes px iv hcl raw st = Some st'" "typed (snd (snd st))"
  shows "typed (snd (snd (implicit_nodes px iv hcl ids st')))"
proof -
  have "typed (snd (snd st'))" using assms
    by (induction px iv hcl raw st rule: explicit_nodes.induct) (auto simp: bind_eq_Some_conv add_node_typed)
  then show ?thesis
    unfolding implicit_nodes_def by (induction ids arbitrary: st') (simp_all add: add_node_typed)
qed

lemma type_prefix:
  "determine_block_type i b = ''local'' \<Longrightarrow> \<not> starts_with i ''output.''" "determine_block_type i b = ''var'' \<Longrightarrow> \<not> starts_with i ''output.''"
  by (auto simp: determine_block_type_def starts_with_iff Let_def split: if_splits)

text \<open>What is reached: a path of the DOT file leads to it from a resource, a data source or a root output.\<close>

definition reached :: "(string \<times> string) list \<Rightarrow> out_node list \<Rightarrow> string \<Rightarrow> bool" where
  "reached dots nodes i \<longleftrightarrow> (\<exists>s \<in> set nodes. is_seed s \<and> (node_id s, i) \<in> (set dots)\<^sup>*)"

definition shown :: "(string \<times> string) list \<Rightarrow> out_node list \<Rightarrow> string \<Rightarrow> string \<Rightarrow> bool" where
  "shown dots nodes i type =
     (if type = ''local'' then False
      else if type = ''var'' then starts_with i ''var.'' \<and> reached dots nodes i
      else if type = ''output'' then starts_with i ''output.''
      else if type = ''data'' then reached dots nodes i
      else True)"

lemma no_links:
  assumes "i \<notin> fst ` set dots" "\<not> is_output_address i"
  shows "links_of (all_links dots config_deps) i = []"
proof -
  have "(i, b) \<notin> link_rel (all_links dots config_deps)" for b
    using assms by (force simp: all_links_def link_rel_fold config_links_def)
  then show ?thesis by (cases "links_of (all_links dots config_deps) i") (auto simp: link_rel_def)
qed

lemma finish_shown:
  assumes ids: "distinct (''root_variables'' # ''root_outputs'' # List.map node_id nodes0)" and typed: "typed nodes0"
    and orders: "\<forall>ts. set (gl_types gl ts) = set ts" "\<forall>ns. set (gl_nodes gl ns) = set ns"
    and n: "Resource i p d \<in> set nodes0"
    and root: "starts_with i ''var.'' \<Longrightarrow> i \<notin> fst ` set (dot_links addresses raw_edges) \<and> \<not> is_output_address i"
  shows "Resource i p d \<in> set (og_nodes (finish_graph gl config raw_edges (addresses, known, nodes0)))
    \<longleftrightarrow> shown (dot_links addresses raw_edges) nodes0 i (nd_type d)"
proof -
  let ?n = "Resource i p d" and ?dots = "dot_links addresses raw_edges"
  define nodes1 where "nodes1 = add_root_group ''root_outputs'' ''Outputs'' (add_root_group ''root_variables'' ''Variables''
      (prune_groups (prune_unused (fold add_link ?dots []) nodes0)))"
  define types where "types = node_types nodes1"
  define config_deps where "config_deps = gl_config gl (case config of Some c \<Rightarrow> traverse_configuration c [] [] | None \<Rightarrow> [])"
  define deps where "deps = all_links ?dots config_deps"
  define ordered where "ordered = gl_types gl types"
  define es where "es = simplified_edges deps types ordered []"
  define active where "active = active_nodes deps ordered es"
  define merged where "merged = merged_edges config_deps es"
  define in_edges where "in_edges = fst ` fst ` set merged \<union> snd ` fst ` set merged"
  define nodes2 where "nodes2 = drop_idle_groups active (prune_groups (shown_nodes (active \<union> in_edges) nodes1))"
  have g: "og_nodes (finish_graph gl config raw_edges (addresses, known, nodes0)) = gl_nodes gl (unique_nodes nodes2 {})"
    by (simp add: finish_graph_def Let_def nodes2_def in_edges_def merged_def active_def es_def ordered_def deps_def config_deps_def
        types_def nodes1_def)
  have "named_apart {''root_variables'', ''root_outputs''} nodes0" using ids by (auto simp: named_apart_def)
  then have "named_apart {''root_variables'', ''root_outputs''} (prune_groups (prune_unused (fold add_link ?dots []) nodes0))"
    unfolding prune_unused_def Let_def by (intro named_prune_groups named_filter)
  from named_root_group [OF named_root_group [OF this, of "''root_variables''"], of "''root_outputs''"]
  have a1: "named_apart {} nodes1" by (auto simp: nodes1_def named_apart_def)
  then have "named_apart {} nodes2"
    unfolding nodes2_def drop_idle_groups_def shown_nodes_def by (intro named_filter named_prune_groups)
  then have "unique_nodes nodes2 {} = nodes2" by (intro unique_nodes_same) (simp_all add: named_apart_def)
  then have s2: "?n \<in> set (og_nodes (finish_graph gl config raw_edges (addresses, known, nodes0))) \<longleftrightarrow> ?n \<in> set nodes2"
    using orders(2) by (simp add: g)
  have "?n \<in> set nodes1 \<longleftrightarrow> ?n \<in> set (prune_unused (fold add_link ?dots []) nodes0)" by (simp add: nodes1_def kept_nodes)
  also have "\<dots> \<longleftrightarrow> (nd_type d \<in> {''var'', ''local'', ''data''} \<longrightarrow> reached ?dots nodes0 i)"
    using n by (auto simp: prune_unused_exact is_prunable_def reached_def Image_iff)
  finally have n1: "?n \<in> set nodes1 \<longleftrightarrow> (nd_type d \<in> {''var'', ''local'', ''data''} \<longrightarrow> reached ?dots nodes0 i)" .
  have n2: "?n \<in> set nodes2 \<longleftrightarrow> ?n \<in> set nodes1 \<and> \<not> is_module_output ?n \<and> i \<in> active \<union> in_edges"
    by (simp add: nodes2_def kept_nodes shown_nodes_def)
  have type: "map_of types i = Some (nd_type d)" if "?n \<in> set nodes1"
    using node_types_complete [OF _ that] a1 by (simp add: types_def named_apart_def)
  have in_ordered: "(m, t) \<in> set ordered \<longleftrightarrow> map_of types m = Some t" for m t
    using orders(1) by (simp add: ordered_def types_def node_types_set)
  have ends: "s \<in> ends types" "\<exists>t. (m, t) \<in> set ordered \<and> \<not> is_skipped deps (m, t)" if "(m, s, v) \<in> set es" for m s v
    using edge_ends [of types "[]" m s v deps ordered] that by (simp_all add: es_def cache_ends_def)
  have merged_set: "fst ` set merged = (\<lambda>(n, s, d). (s, n)) ` set es" unfolding merged_def using merged_edges_keys by blast
  have act: "i \<in> active \<union> in_edges \<longleftrightarrow> (\<exists>t. map_of types i = Some t \<and> \<not> is_skipped deps (i, t)) \<or> i \<in> (fst \<circ> snd) ` set es"
  proof
    assume "i \<in> active \<union> in_edges"
    then consider t where "(i, t) \<in> set ordered" "\<not> is_skipped deps (i, t)" | "i \<in> (fst \<circ> snd) ` set es" | s v where "(i, s, v) \<in> set es"
      unfolding active_def active_nodes_def in_edges_def merged_set by force
    then show "(\<exists>t. map_of types i = Some t \<and> \<not> is_skipped deps (i, t)) \<or> i \<in> (fst \<circ> snd) ` set es"
      by cases (use ends(2) in_ordered in \<open>blast+\<close>)
  next
    assume "(\<exists>t. map_of types i = Some t \<and> \<not> is_skipped deps (i, t)) \<or> i \<in> (fst \<circ> snd) ` set es"
    then show "i \<in> active \<union> in_edges" unfolding active_def active_nodes_def in_ordered [symmetric] by force
  qed
  obtain b where b: "nd_type d = determine_block_type i b" using typed n unfolding typed_def by blast
  have not_source: "i \<notin> (fst \<circ> snd) ` set es" if "i \<notin> ends types" using ends(1) that by force
  have not_end: "i \<notin> ends types" if "?n \<in> set nodes1" "nd_type d = ''local'' \<or> nd_type d = ''var'' \<and> \<not> starts_with i ''var.''"
    using type [OF that(1)] that(2) by (auto simp: ends_def passed_def stands_alone_def type_of_def)
  have links: "links_of deps i = []" if "starts_with i ''var.''"
    using no_links root [OF that] unfolding deps_def by blast
  have shown_iff: "?n \<in> set nodes2 \<longleftrightarrow> ?n \<in> set nodes1 \<and> \<not> is_module_output ?n \<and> (\<not> is_skipped deps (i, nd_type d) \<or> i \<in> (fst \<circ> snd) ` set es)"
    unfolding n2 act using type by auto
  consider "nd_type d = ''local''" | "nd_type d = ''var''" "\<not> starts_with i ''var.''" | "nd_type d = ''var''" "starts_with i ''var.''"
    | "nd_type d = ''output''" | "nd_type d \<notin> {''local'', ''var'', ''output''}" by blast
  then have "?n \<in> set nodes2 \<longleftrightarrow> shown ?dots nodes0 i (nd_type d)"
  proof cases
    case 1
    then have "is_skipped deps (i, nd_type d)" using type_prefix(1) [of i b] b by (simp add: is_skipped_def)
    then show ?thesis using 1 not_source not_end shown_iff by (auto simp: shown_def)
  next
    case 2
    then have "is_skipped deps (i, nd_type d)" using type_prefix(2) [of i b] b by (simp add: is_skipped_def)
    then show ?thesis using 2 not_source not_end shown_iff by (auto simp: shown_def)
  next
    case 3
    then have "\<not> is_skipped deps (i, nd_type d)" using links by (simp add: is_skipped_def)
    then show ?thesis using 3 shown_iff n1 by (simp add: shown_def is_module_output_def)
  next
    case 4
    then show ?thesis using shown_iff n1 by (auto simp: shown_def is_module_output_def is_skipped_def)
  next
    case 5
    then have "\<not> is_skipped deps (i, nd_type d)" by (simp add: is_skipped_def)
    then show ?thesis using 5 shown_iff n1 by (auto simp: shown_def is_module_output_def)
  qed
  with s2 show ?thesis by simp
qed


end
