(* ===== verification/Plan_Graph_Demo.thy ===== *)
theory Plan_Graph_Demo
  imports Plan_Graph_Nodes
begin

text \<open>A plan and a state of one resource with a password, on which the properties are evaluated.\<close>

text \<open>
  One step of \<open>process_values\<close>; the equations for evaluation are split by the arguments, so that a
  call is unfolded only when they are known.
\<close>

definition process_step :: "json option \<Rightarrow> json option \<Rightarrow> json option \<Rightarrow> json option" where
  "process_step a u s =
     (if s = Some (JBool True) then Some (JString ''(sensitive)'')
      else if u = Some (JBool True) then Some (JString ''(known after apply)'')
      else if is_obj a \<or> is_obj u \<or> is_obj s
      then Some (shown_object (remdups (keys_of a @ keys_of u @ keys_of s))
             (\<lambda>k. process_values (field_of a k) (field_of u k) (field_of s k)))
      else if is_arr a \<or> is_arr u \<or> is_arr s
      then Some (shown_array (max (max (length_of a) (length_of u)) (length_of s))
             (\<lambda>i. process_values (item_of a i) (item_of u i) (item_of s i)))
      else a)"

lemma process_values_code [code]:
  "process_values None None None = None"
  "process_values (Some a) u v = process_step (Some a) u v"
  "process_values None (Some b) v = process_step None (Some b) v"
  "process_values None None (Some c) = process_step None None (Some c)"
  unfolding process_step_def by (rule process_nothing) (rule process_values.simps)+

definition demo_orders :: graph_lib where
  "demo_orders = \<lparr>gl_parse = (\<lambda>_. Inl []), gl_ids = (\<lambda>x. x), gl_config = (\<lambda>x. x), gl_types = (\<lambda>x. x), gl_edges = (\<lambda>x. x), gl_nodes = (\<lambda>x. x)\<rparr>"

definition line :: "string \<Rightarrow> string" where
  "line s = s @ [CHR 0x0A]"

definition in_quotes :: "string \<Rightarrow> string" where
  "in_quotes s = CHR 0x22 # s @ [CHR 0x22]"

definition demo_dot :: string where
  "demo_dot = line (in_quotes ''[root] db.main'' @ '' [label = '' @ in_quotes ''db.main'' @ '']'')
     @ line (in_quotes ''[root] db.main'' @ '' -> '' @ in_quotes ''[root] local.n'')
     @ line (in_quotes ''[root] local.n'' @ '' -> '' @ in_quotes ''[root] var.name'')"

definition demo_change :: "string \<Rightarrow> change" where
  "demo_change password = \<lparr>ch_actions = [''create''], ch_after = Some (JObject [(''password'', JString password)]),
     ch_after_unknown = None, ch_after_sensitive = Some (JObject [(''password'', JBool True)])\<rparr>"

definition demo_plan :: "string \<Rightarrow> plan" where
  "demo_plan password = \<lparr>pl_resource_changes = Some [\<lparr>pc_address = ''db.main'', pc_mode = Some ''managed'', pc_change = demo_change password\<rparr>],
     pl_output_changes = None, pl_configuration = None, pl_prior_state = None,
     pl_planned_values = Some (State_Module (Some [\<lparr>str_address = ''db.main'', str_values = Some (JObject [(''password'', JString password)])\<rparr>]) None),
     pl_values = None\<rparr>"

definition demo_state :: "string \<Rightarrow> plan" where
  "demo_state password = \<lparr>pl_resource_changes = None, pl_output_changes = None, pl_configuration = None, pl_prior_state = None,
     pl_planned_values = None,
     pl_values = Some (State_Module (Some [\<lparr>str_address = ''db.main'', str_values = Some (JObject [(''password'', JString password)])\<rparr>]) None)\<rparr>"

text \<open>The links of the file, and the nodes of its addresses.\<close>

definition demo_edges :: "(string \<times> string) list" where
  "demo_edges = [(''[root] db.main'', ''[root] local.n''), (''[root] local.n'', ''[root] var.name'')]"

definition demo_nodes :: "string \<Rightarrow> string option \<Rightarrow> node_state" where
  "demo_nodes password action = ([(''[root] db.main'', ''db.main''), (''[root] local.n'', ''local.n''), (''[root] var.name'', ''var.name'')], {},
     [Resource ''db.main'' None \<lparr>nd_label = ''db.main'', nd_type = ''resource'', nd_action = action, nd_count = None, nd_hcl = None,
        nd_values = Some (JObject [(''password'', JString password)])\<rparr>,
      Resource ''local.n'' None \<lparr>nd_label = ''local.n'', nd_type = ''local'', nd_action = Some ''n/a'', nd_count = None, nd_hcl = None, nd_values = None\<rparr>,
      Resource ''var.name'' (Some ''root_variables'') \<lparr>nd_label = ''var.name'', nd_type = ''var'', nd_action = Some ''n/a'', nd_count = None,
        nd_hcl = None, nd_values = None\<rparr>])"

definition demo_graph :: "string \<Rightarrow> string option \<Rightarrow> out_graph" where
  "demo_graph password action = finish_graph demo_orders None demo_edges (demo_nodes password action)"

lemma demo_lines: "dot_lines (lines_of demo_dot) = ([(''[root] db.main'', ''db.main'')], demo_edges)"
  by code_simp

lemma demo_graph_from:
  assumes "pl_configuration p = None"
    and "map_option (implicit_nodes (index_plan p) True (\<lambda>_. None) (remdups (concat (List.map (\<lambda>(s, t). [s, t]) demo_edges))))
      (explicit_nodes (index_plan p) True (\<lambda>_. None) [(''[root] db.main'', ''db.main'')] ([], {}, [])) = Some (demo_nodes password action)"
  shows "process_plan demo_orders p demo_dot True (\<lambda>_. None) = Some (demo_graph password action)"
proof -
  obtain st where e: "explicit_nodes (index_plan p) True (\<lambda>_. None) [(''[root] db.main'', ''db.main'')] ([], {}, []) = Some st"
    and i: "implicit_nodes (index_plan p) True (\<lambda>_. None) (remdups (concat (List.map (\<lambda>(s, t). [s, t]) demo_edges))) st = demo_nodes password action"
    using assms(2) unfolding map_option_eq_Some by blast
  have "gl_ids demo_orders = (\<lambda>x. x)" by (simp add: demo_orders_def)
  then show ?thesis
    unfolding process_plan_def demo_lines Let_def prod.case assms(1) e option.map demo_graph_def by (simp only: i)
qed

lemma demo_plan_graph:
  "process_plan demo_orders (demo_plan ''hunter2'') demo_dot True (\<lambda>_. None) = Some (demo_graph ''(sensitive)'' (Some ''create''))"
proof (rule demo_graph_from)
  show "map_option (implicit_nodes (index_plan (demo_plan ''hunter2'')) True (\<lambda>_. None) (remdups (concat (List.map (\<lambda>(s, t). [s, t]) demo_edges))))
      (explicit_nodes (index_plan (demo_plan ''hunter2'')) True (\<lambda>_. None) [(''[root] db.main'', ''db.main'')] ([], {}, []))
    = Some (demo_nodes ''(sensitive)'' (Some ''create''))"
    by code_simp
qed (simp add: demo_plan_def)

text \<open>
  The graph of a state shows its values as they are, although Terraform stores beside them which are
  sensitive: the same password that the graph of the plan hides.
\<close>

lemma state_values_shown:
  "process_plan demo_orders (demo_state ''hunter2'') demo_dot True (\<lambda>_. None) = Some (demo_graph ''hunter2'' None)"
proof (rule demo_graph_from)
  show "map_option (implicit_nodes (index_plan (demo_state ''hunter2'')) True (\<lambda>_. None) (remdups (concat (List.map (\<lambda>(s, t). [s, t]) demo_edges))))
      (explicit_nodes (index_plan (demo_state ''hunter2'')) True (\<lambda>_. None) [(''[root] db.main'', ''db.main'')] ([], {}, []))
    = Some (demo_nodes ''hunter2'' None)"
    by code_simp
qed (simp add: demo_state_def)

fun shown_value :: "out_node \<Rightarrow> string \<times> json option" where
  "shown_value (Group i d st p) = (i, nd_values d)"
| "shown_value (Resource i p d) = (i, nd_values d)"

lemma state_password_shown:
  "List.map shown_value (og_nodes (demo_graph ''hunter2'' None))
     = [(''db.main'', Some (JObject [(''password'', JString ''hunter2'')])), (''var.name'', None), (''root_variables'', None)]"
  unfolding demo_graph_def finish_graph_def Let_def demo_nodes_def prod.case by code_simp

lemma graph_is_well_formed_witness:
  "distinct (List.map node_id (og_nodes (demo_graph ''hunter2'' None)))
    \<and> {q. Some q \<in> node_parent ` set (og_nodes (demo_graph ''hunter2'' None))} \<subseteq> node_id ` set (og_nodes (demo_graph ''hunter2'' None))
    \<and> distinct (List.map oe_id (og_edges (demo_graph ''hunter2'' None)))
    \<and> distinct (List.map (\<lambda>e. (oe_source e, oe_target e)) (og_edges (demo_graph ''hunter2'' None)))
    \<and> {e \<in> set (og_edges (demo_graph ''hunter2'' None)). oe_source e = oe_target e} = {}"
  by (rule graph_is_well_formed [OF state_values_shown]) (simp_all add: demo_orders_def)


lemma sensitive_values_not_shown_witness:
  "process_plan demo_orders (demo_plan ''hunter2'') demo_dot True (\<lambda>_. None)
     = process_plan demo_orders (demo_plan ''qwerty'') demo_dot True (\<lambda>_. None)"
proof (rule sensitive_values_not_shown)
  have "agree (Some (JObject [(''password'', JString ''hunter2'')])) (Some (JObject [(''password'', JString ''qwerty'')]))
      (Some (JObject [(''password'', JBool True)]))"
    by (rule agree_object) (auto simp: field_of_def intro: agree_same agree_hidden)
  then show "alike (demo_plan ''hunter2'') (demo_plan ''qwerty'')"
    by (simp add: alike_def demo_plan_def opt_list_def alike_resource_def alike_change_def demo_change_def state_addresses_def)
qed

text \<open>A resource behind a local value that is behind a variable.\<close>

definition demo_links :: links where
  "demo_links = fold add_link [(''db.main'', ''local.n''), (''local.n'', ''var.name'')] []"

definition demo_types :: "(string \<times> string) list" where
  "demo_types = [(''db.main'', ''resource''), (''local.n'', ''local''), (''var.name'', ''var'')]"

lemma edges_are_the_sources_witness:
  "{(''db.main'', ''var.name'', ''local.n'')}
     = {(n, s, d) | n t s d. (n, t) \<in> set demo_types \<and> \<not> is_skipped demo_links (n, t) \<and> (n, d) \<in> link_rel demo_links
          \<and> source demo_links demo_types d s \<and> s \<noteq> n}"
proof -
  have r: "link_rel demo_links = {(''db.main'', ''local.n''), (''local.n'', ''var.name'')}"
    unfolding demo_links_def link_rel_fold by simp
  have "acyclic (link_rel demo_links)"
    unfolding r by (rule wf_acyclic, rule wf_subset [OF wf_measure [of "\<lambda>n. if n = ''db.main'' then 0 else if n = ''local.n'' then 1 else 2"]]) auto
  moreover have "set (simplified_edges demo_links demo_types demo_types []) = {(''db.main'', ''var.name'', ''local.n'')}"
    by code_simp
  ultimately show ?thesis using edges_are_the_sources [of demo_links demo_types demo_types] by simp
qed

end
