(* ===== verification/Claim_Form.thy ===== *)
theory Claim_Form
  imports Variables
begin

text \<open>
  The claim builder of the terminal interface: \<open>cli/src/tui/state/claim_builder_state.rs\<close> with the
  claim text of \<open>utils/src/deployment.rs\<close> and the keys of \<open>cli/src/tui/events/claim_builder_handler.rs\<close>
  that edit the form. A panic is \<open>None\<close>.

  A cursor is an offset in bytes, as in the code. The characters of the model are those up to
  U+00FF, and a character from U+0080 on takes two bytes in UTF-8: this theory is exact for them
  where it computes offsets. Lower case only meets the ASCII words it is compared with.
\<close>

section \<open>Text and byte offsets\<close>

definition utf8_width :: "char \<Rightarrow> nat" where
  "utf8_width c = (if (of_char c :: nat) < 128 then 1 else 2)"

definition byte_len :: "string \<Rightarrow> nat" where
  "byte_len s = sum_list (List.map utf8_width s)"

text \<open>The index of the character at an offset; \<open>None\<close> when the offset is no character boundary.\<close>

fun char_index :: "string \<Rightarrow> nat \<Rightarrow> nat option" where
  "char_index s 0 = Some 0"
| "char_index [] (Suc n) = None"
| "char_index (c # s) (Suc n) =
     (if utf8_width c \<le> Suc n then map_option Suc (char_index s (Suc n - utf8_width c)) else None)"

text \<open>\<open>String::insert\<close>, \<open>String::remove\<close> and the two slices at an offset: all panic off a boundary.\<close>

definition str_insert :: "string \<Rightarrow> nat \<Rightarrow> char \<Rightarrow> string option" where
  "str_insert s i c = map_option (\<lambda>k. take k s @ c # drop k s) (char_index s i)"

definition str_remove :: "string \<Rightarrow> nat \<Rightarrow> string option" where
  "str_remove s i =
     (case char_index s i of
        Some k \<Rightarrow> if k < length s then Some (take k s @ drop (Suc k) s) else None
      | None \<Rightarrow> None)"

definition str_split :: "string \<Rightarrow> nat \<Rightarrow> (string \<times> string) option" where
  "str_split s i = map_option (\<lambda>k. (take k s, drop k s)) (char_index s i)"

text \<open>\<open>char::is_numeric\<close>.\<close>

definition is_numeric :: "char \<Rightarrow> bool" where
  "is_numeric c \<longleftrightarrow> is_digit c \<or> (of_char c :: nat) \<in> {178, 179, 185, 188, 189, 190}"

text \<open>What \<open>str::parse::<f64>\<close> accepts.\<close>

definition drop_sign :: "string \<Rightarrow> string" where
  "drop_sign s = (case s of c # r \<Rightarrow> if c = CHR ''+'' \<or> c = CHR ''-'' then r else s | [] \<Rightarrow> [])"

definition is_exponent :: "string \<Rightarrow> bool" where
  "is_exponent s \<longleftrightarrow>
     (case s of
        [] \<Rightarrow> True
      | c # r \<Rightarrow> c = CHR ''e'' \<and> drop_sign r \<noteq> [] \<and> list_all is_digit (drop_sign r))"

definition is_decimal :: "string \<Rightarrow> bool" where
  "is_decimal s \<longleftrightarrow>
     (let d = takeWhile is_digit s; r = dropWhile is_digit s in
      case r of
        [] \<Rightarrow> d \<noteq> []
      | c # r' \<Rightarrow>
          if c = CHR ''.'' then (d \<noteq> [] \<or> takeWhile is_digit r' \<noteq> []) \<and> is_exponent (dropWhile is_digit r')
          else d \<noteq> [] \<and> is_exponent r)"

definition parses_f64 :: "string \<Rightarrow> bool" where
  "parses_f64 s \<longleftrightarrow>
     (let t = to_lowercase (drop_sign s)
      in t = ''inf'' \<or> t = ''infinity'' \<or> t = ''nan'' \<or> is_decimal t)"

section \<open>A variable of the form\<close>

text \<open>
  The crates the form relies on: \<open>serde_json::from_str\<close> and \<open>to_string\<close> on values, \<open>serde_yaml::to_string\<close>,
  and the case conversions.
\<close>

record form_lib =
  fl_text :: text_lib
  fl_parse_json :: "string \<Rightarrow> json option"
  fl_json_str :: "json \<Rightarrow> string"
  fl_yaml_str :: "json \<Rightarrow> string"

record variable_input =
  vi_name :: string
  vi_description :: string
  vi_var_type :: string
  vi_default_value :: "string option"
  vi_is_required :: bool
  vi_is_sensitive :: bool
  vi_user_value :: string
  vi_cursor_position :: nat

definition from_tf_variable :: "form_lib \<Rightarrow> tf_variable \<Rightarrow> variable_input" where
  "from_tf_variable lib var =
     (let is_required = (tfv_default var = None);
          default_str = map_option (\<lambda>v. if v = JNull then [] else fl_json_str lib v) (tfv_default var)
      in \<lparr>vi_name = tfv_name var, vi_description = tfv_description var, vi_var_type = fl_json_str lib (tfv_type var),
          vi_default_value = default_str, vi_is_required = is_required, vi_is_sensitive = tfv_sensitive var,
          vi_user_value = (if is_required then case default_str of Some s \<Rightarrow> s | None \<Rightarrow> [] else []),
          vi_cursor_position = 0\<rparr>)"

definition type_has :: "variable_input \<Rightarrow> string list \<Rightarrow> bool" where
  "type_has v words \<longleftrightarrow> (\<exists>w \<in> set words. contains_str (to_lowercase (vi_var_type v)) w)"

definition begins_bool :: "string \<Rightarrow> bool" where
  "begins_bool s \<longleftrightarrow> starts_with ''true'' (to_lowercase s) \<or> starts_with ''false'' (to_lowercase s)"

definition is_valid_char_for_type :: "variable_input \<Rightarrow> char \<Rightarrow> bool option" where
  "is_valid_char_for_type v c =
     (if type_has v [''bool'']
      then map_option (\<lambda>(a, b). begins_bool (a @ [c] @ b)) (str_split (vi_user_value v) (vi_cursor_position v))
      else if type_has v [''number'', ''int''] then Some (is_numeric c \<or> c = CHR ''-'' \<or> c = CHR ''.'')
      else Some True)"

definition vi_insert_char :: "char \<Rightarrow> variable_input \<Rightarrow> variable_input option" where
  "vi_insert_char c v =
     (case is_valid_char_for_type v c of
        None \<Rightarrow> None
      | Some False \<Rightarrow> Some v
      | Some True \<Rightarrow>
          map_option (\<lambda>s. v\<lparr>vi_user_value := s, vi_cursor_position := vi_cursor_position v + 1\<rparr>)
            (str_insert (vi_user_value v) (vi_cursor_position v) c))"

definition vi_delete_char :: "variable_input \<Rightarrow> variable_input option" where
  "vi_delete_char v =
     (if vi_cursor_position v = 0 then Some v
      else case str_remove (vi_user_value v) (vi_cursor_position v - 1) of
             None \<Rightarrow> None
           | Some s \<Rightarrow>
               if type_has v [''bool''] \<and> vi_user_value v \<noteq> [] \<and> s \<noteq> [] \<and> \<not> begins_bool s then Some v
               else Some (v\<lparr>vi_user_value := s, vi_cursor_position := vi_cursor_position v - 1\<rparr>))"

definition vi_left :: "variable_input \<Rightarrow> variable_input" where
  "vi_left v = (if vi_cursor_position v > 0 then v\<lparr>vi_cursor_position := vi_cursor_position v - 1\<rparr> else v)"

definition vi_right :: "variable_input \<Rightarrow> variable_input" where
  "vi_right v =
     (if vi_cursor_position v < byte_len (vi_user_value v)
      then v\<lparr>vi_cursor_position := vi_cursor_position v + 1\<rparr> else v)"

definition vi_home :: "variable_input \<Rightarrow> variable_input" where
  "vi_home v = v\<lparr>vi_cursor_position := 0\<rparr>"

definition vi_end :: "variable_input \<Rightarrow> variable_input" where
  "vi_end v = v\<lparr>vi_cursor_position := byte_len (vi_user_value v)\<rparr>"

text \<open>The four checks of a value that is not empty, in their order.\<close>

definition check_bool :: "variable_input \<Rightarrow> (string, unit) result" where
  "check_bool v =
     (let val = to_lowercase (vi_user_value v) in
      if type_has v [''bool''] \<and> val \<noteq> ''true'' \<and> val \<noteq> ''false''
      then Inl (''Bool field must be 'true' or 'false', got '' @ CHR 0x27 # vi_user_value v @ [CHR 0x27]) else Inr ())"

definition check_number :: "variable_input \<Rightarrow> (string, unit) result" where
  "check_number v =
     (if type_has v [''number'', ''int''] \<and> \<not> parses_f64 (vi_user_value v)
      then Inl (''Number field must be numeric, got '' @ CHR 0x27 # vi_user_value v @ [CHR 0x27]) else Inr ())"

definition check_map :: "form_lib \<Rightarrow> variable_input \<Rightarrow> (string, unit) result" where
  "check_map lib v =
     (if type_has v [''map'', ''object''] then
        if \<not> starts_with (vi_user_value v) ''{''
        then Inl (''Map field must be a JSON object starting with '' @ CHR 0x27 # ''{'' @ [CHR 0x27])
        else if fl_parse_json lib (vi_user_value v) = None then Inl ''Map field must be valid JSON''
        else Inr ()
      else Inr ())"

definition check_list :: "form_lib \<Rightarrow> variable_input \<Rightarrow> (string, unit) result" where
  "check_list lib v =
     (if type_has v [''list'', ''array'', ''set''] then
        if \<not> starts_with (vi_user_value v) ''[''
        then Inl (''List field must be a JSON array starting with '' @ CHR 0x27 # ''['' @ [CHR 0x27])
        else if fl_parse_json lib (vi_user_value v) = None then Inl ''List field must be valid JSON''
        else Inr ()
      else Inr ())"

definition validate_value :: "form_lib \<Rightarrow> variable_input \<Rightarrow> (string, unit) result" where
  "validate_value lib v =
     (if vi_user_value v = []
      then if vi_is_required v
           then Inl (''Required field '' @ CHR 0x27 # vi_name v @ CHR 0x27 # '' cannot be empty'') else Inr ()
      else res_bind (check_bool v) (\<lambda>_. res_bind (check_number v) (\<lambda>_. res_bind (check_map lib v) (\<lambda>_. check_list lib v))))"

section \<open>The form\<close>

record claim_form =
  cb_showing_claim_builder :: bool
  cb_source_module :: "module_resp option"
  cb_source_stack :: "module_resp option"
  cb_is_stack :: bool
  cb_deployment_name :: string
  cb_deployment_name_cursor :: nat
  cb_region :: string
  cb_region_cursor :: nat
  cb_variable_inputs :: "variable_input list"
  cb_selected_field_index :: nat
  cb_scroll_offset :: "16 word"
  cb_generated_yaml :: string
  cb_show_preview :: bool
  cb_preview_scroll :: "16 word"
  cb_validation_error :: "string option"

definition new_form :: claim_form where
  "new_form =
     \<lparr>cb_showing_claim_builder = False, cb_source_module = None, cb_source_stack = None, cb_is_stack = False,
      cb_deployment_name = [], cb_deployment_name_cursor = 0, cb_region = [], cb_region_cursor = 0,
      cb_variable_inputs = [], cb_selected_field_index = 0, cb_scroll_offset = 0, cb_generated_yaml = [],
      cb_show_preview = False, cb_preview_scroll = 0, cb_validation_error = None\<rparr>"

text \<open>Required variables first, then by name: two stable sorts are the comparison of the code.\<close>

definition initialize_from_module :: "form_lib \<Rightarrow> module_resp \<Rightarrow> claim_form \<Rightarrow> claim_form" where
  "initialize_from_module lib module cb =
     (let variables = List.map (from_tf_variable lib) (mr_tf_variables module) in
      cb\<lparr>cb_deployment_name := [], cb_deployment_name_cursor := 0, cb_region := [], cb_region_cursor := 0,
         cb_variable_inputs :=
           (if cb_is_stack cb then variables
            else sort_key (\<lambda>v. \<not> vi_is_required v) (sort_key vi_name variables)),
         cb_selected_field_index := 0, cb_scroll_offset := 0, cb_show_preview := False, cb_preview_scroll := 0\<rparr>)"

definition open_for_module :: "form_lib \<Rightarrow> module_resp \<Rightarrow> claim_form \<Rightarrow> claim_form" where
  "open_for_module lib module cb =
     initialize_from_module lib module
       (cb\<lparr>cb_source_module := Some module, cb_source_stack := None, cb_is_stack := False, cb_showing_claim_builder := True\<rparr>)"

definition open_for_stack :: "form_lib \<Rightarrow> module_resp \<Rightarrow> claim_form \<Rightarrow> claim_form" where
  "open_for_stack lib stack cb =
     initialize_from_module lib stack
       (cb\<lparr>cb_source_module := None, cb_source_stack := Some stack, cb_is_stack := True, cb_showing_claim_builder := True\<rparr>)"

definition close_form :: "claim_form \<Rightarrow> claim_form" where
  "close_form cb =
     cb\<lparr>cb_showing_claim_builder := False, cb_source_module := None, cb_source_stack := None, cb_variable_inputs := [],
        cb_deployment_name := [], cb_generated_yaml := [], cb_selected_field_index := 0, cb_scroll_offset := 0,
        cb_show_preview := False, cb_preview_scroll := 0\<rparr>"

section \<open>The claim\<close>

text \<open>Which variables are written, and as which values.\<close>

definition normalize_value :: "form_lib \<Rightarrow> string \<Rightarrow> string" where
  "normalize_value lib s =
     (if s = [] then []
      else case fl_parse_json lib s of Some parsed \<Rightarrow> fl_json_str lib parsed | None \<Rightarrow> trim s)"

definition should_include_variable :: "form_lib \<Rightarrow> variable_input \<Rightarrow> bool" where
  "should_include_variable lib v \<longleftrightarrow>
     vi_is_required v
     \<or> (vi_user_value v \<noteq> []
        \<and> (case vi_default_value v of
             None \<Rightarrow> True
           | Some d \<Rightarrow> normalize_value lib (vi_user_value v) \<noteq> normalize_value lib d))"

definition input_value :: "form_lib \<Rightarrow> variable_input \<Rightarrow> json" where
  "input_value lib v =
     (if contains_str (vi_user_value v) ''{{'' then JString (vi_user_value v)
      else case fl_parse_json lib (vi_user_value v) of
             Some parsed \<Rightarrow> parsed
           | None \<Rightarrow> JString (vi_user_value v))"

definition included :: "form_lib \<Rightarrow> variable_input list \<Rightarrow> variable_input list" where
  "included lib vs = filter (should_include_variable lib) vs"

definition add_stack_input :: "form_lib \<Rightarrow> variable_input \<Rightarrow> (string, json) btree \<Rightarrow> (string, json) btree" where
  "add_stack_input lib v m =
     (case cut_at ''__'' (vi_name v) of
        None \<Rightarrow> m
      | Some (instance_name, var_name) \<Rightarrow>
          let obj = (case map_of m instance_name of Some x \<Rightarrow> x | None \<Rightarrow> JObject [])
          in bt_insert instance_name
               (case obj of
                  JObject kvs \<Rightarrow> JObject (bt_insert (to_camel_case (fl_text lib) var_name) (input_value lib v) kvs)
                | other \<Rightarrow> other) m)"

definition stack_inputs :: "form_lib \<Rightarrow> variable_input list \<Rightarrow> json" where
  "stack_inputs lib vs = JObject (fold (add_stack_input lib) (included lib vs) [])"

definition module_inputs :: "form_lib \<Rightarrow> variable_input list \<Rightarrow> json" where
  "module_inputs lib vs = JObject (bt_of_list (List.map (\<lambda>v. (vi_name v, input_value lib v)) (included lib vs)))"

text \<open>\<open>generate_deployment_claim\<close>; the variables of a module get their names in camel case here.\<close>

definition claim_values :: "text_lib \<Rightarrow> deployment_resp \<Rightarrow> json option" where
  "claim_values lib deployment =
     (if dr_module_type deployment = ''stack'' then Some (dr_variables deployment)
      else if dr_module_type deployment = ''module''
      then map_option (\<lambda>kvs. JObject (bt_of_list (List.map (\<lambda>(k, v). (to_camel_case lib k, v)) kvs)))
             (as_object (dr_variables deployment))
      else None)"

definition claim_lines :: "string \<Rightarrow> deployment_resp \<Rightarrow> module_resp \<Rightarrow> string list" where
  "claim_lines variables deployment module =
     [[], ''apiVersion: infraweave.io/v1'', ''kind: '' @ mr_module_name module, ''metadata:'',
      ''  name: '' @ last (split_on (CHR ''/'') (dr_deployment_id deployment))]
     @ (if dr_environment deployment \<noteq> ''default'' then [''  namespace: '' @ dr_environment deployment] else [])
     @ [''spec:'',
        ''  '' @ (if mr_module_type module = ''stack'' then ''stackVersion: '' else ''moduleVersion: '') @ mr_version module,
        ''  region: '' @ dr_region deployment, ''  variables:'', variables, []]"

definition generate_deployment_claim :: "form_lib \<Rightarrow> deployment_resp \<Rightarrow> module_resp \<Rightarrow> string option" where
  "generate_deployment_claim lib deployment module =
     map_option (\<lambda>variables.
       join [CHR 0x0A] (claim_lines
         (join [CHR 0x0A] (List.map (\<lambda>l. ''    '' @ l)
            (lines_of (trim_start_matches (''---'' @ [CHR 0x0A]) (fl_yaml_str lib variables))))) deployment module))
       (claim_values (fl_text lib) deployment)"

definition form_deployment :: "form_lib \<Rightarrow> claim_form \<Rightarrow> module_resp \<Rightarrow> deployment_resp" where
  "form_deployment lib cb module =
     \<lparr>dr_epoch = 0, dr_deployment_id = ''default/'' @ cb_deployment_name cb, dr_status = Requested, dr_job_id = [],
      dr_environment = ''default'', dr_project_id = [], dr_region = cb_region cb, dr_module = mr_module_name module,
      dr_module_version = mr_version module, dr_module_type = (if cb_is_stack cb then ''stack'' else ''module''),
      dr_module_track = [],
      dr_drift_detection = \<lparr>dd_enabled = False, dd_interval = ''24h'', dd_auto_remediate = False, dd_webhooks = []\<rparr>,
      dr_next_drift_check_epoch = 0, dr_has_drifted = False,
      dr_variables = (if cb_is_stack cb then stack_inputs lib (cb_variable_inputs cb) else module_inputs lib (cb_variable_inputs cb)),
      dr_output = JNull, dr_policy_results = [], dr_error_text = [], dr_deleted = False, dr_dependencies = [],
      dr_initiated_by = [], dr_cpu = [], dr_memory = [], dr_reference = [], dr_tf_resources = None\<rparr>"

definition form_source :: "claim_form \<Rightarrow> module_resp option" where
  "form_source cb = (if cb_is_stack cb then cb_source_stack cb else cb_source_module cb)"

definition claim_text :: "form_lib \<Rightarrow> claim_form \<Rightarrow> string option" where
  "claim_text lib cb =
     (case form_source cb of
        None \<Rightarrow> Some ''Error: No module or stack loaded''
      | Some module \<Rightarrow> generate_deployment_claim lib (form_deployment lib cb module) module)"

definition generate_yaml :: "form_lib \<Rightarrow> claim_form \<Rightarrow> claim_form option" where
  "generate_yaml lib cb = map_option (\<lambda>yaml. cb\<lparr>cb_generated_yaml := yaml\<rparr>) (claim_text lib cb)"

definition validate_all_fields :: "form_lib \<Rightarrow> claim_form \<Rightarrow> (string, unit) result" where
  "validate_all_fields lib cb =
     (if cb_deployment_name cb = [] then Inl ''Deployment name is required''
      else if cb_region cb = [] then Inl ''Region is required''
      else try_all (validate_value lib) (cb_variable_inputs cb))"

definition toggle_preview :: "form_lib \<Rightarrow> claim_form \<Rightarrow> claim_form option" where
  "toggle_preview lib cb =
     (if cb_show_preview cb then Some (cb\<lparr>cb_validation_error := None, cb_show_preview := False\<rparr>)
      else case validate_all_fields lib cb of
             Inl err \<Rightarrow> Some (cb\<lparr>cb_validation_error := Some err\<rparr>)
           | Inr _ \<Rightarrow> generate_yaml lib (cb\<lparr>cb_validation_error := None, cb_show_preview := True\<rparr>))"

section \<open>Editing\<close>

text \<open>\<open>get_mut\<close> on the variable a field index stands for.\<close>

definition change_input :: "nat \<Rightarrow> (variable_input \<Rightarrow> variable_input option) \<Rightarrow> claim_form \<Rightarrow> claim_form option" where
  "change_input i f cb =
     (if i < length (cb_variable_inputs cb)
      then map_option (\<lambda>v. cb\<lparr>cb_variable_inputs := (cb_variable_inputs cb)[i := v]\<rparr>) (f (cb_variable_inputs cb ! i))
      else Some cb)"

definition total_fields :: "claim_form \<Rightarrow> nat" where
  "total_fields cb = 2 + length (cb_variable_inputs cb)"

definition autocorrect :: "variable_input \<Rightarrow> variable_input" where
  "autocorrect v =
     (if type_has v [''bool''] \<and> vi_user_value v \<noteq> [] then
        let val_lower = to_lowercase (vi_user_value v) in
        if starts_with ''true'' val_lower then v\<lparr>vi_user_value := ''true'', vi_cursor_position := 4\<rparr>
        else if starts_with ''false'' val_lower then v\<lparr>vi_user_value := ''false'', vi_cursor_position := 5\<rparr>
        else v\<lparr>vi_user_value := [], vi_cursor_position := 0\<rparr>
      else v)"

definition autocorrect_field :: "claim_form \<Rightarrow> claim_form option" where
  "autocorrect_field cb =
     (if cb_selected_field_index cb < 2 then Some cb
      else change_input (cb_selected_field_index cb - 2) (\<lambda>v. Some (autocorrect v)) cb)"

definition next_field :: "claim_form \<Rightarrow> claim_form option" where
  "next_field cb =
     map_option (\<lambda>cb. if cb_selected_field_index cb < total_fields cb - 1
                      then cb\<lparr>cb_selected_field_index := cb_selected_field_index cb + 1\<rparr> else cb) (autocorrect_field cb)"

definition previous_field :: "claim_form \<Rightarrow> claim_form option" where
  "previous_field cb =
     map_option (\<lambda>cb. if cb_selected_field_index cb > 0
                      then cb\<lparr>cb_selected_field_index := cb_selected_field_index cb - 1\<rparr> else cb) (autocorrect_field cb)"

definition form_insert_char :: "char \<Rightarrow> claim_form \<Rightarrow> claim_form option" where
  "form_insert_char c cb0 =
     (let cb = cb0\<lparr>cb_validation_error := None\<rparr>; i = cb_selected_field_index cb in
      if i = 0 then
        map_option (\<lambda>s. cb\<lparr>cb_deployment_name := s, cb_deployment_name_cursor := cb_deployment_name_cursor cb + 1\<rparr>)
          (str_insert (cb_deployment_name cb) (cb_deployment_name_cursor cb) c)
      else if i = 1 then
        map_option (\<lambda>s. cb\<lparr>cb_region := s, cb_region_cursor := cb_region_cursor cb + 1\<rparr>)
          (str_insert (cb_region cb) (cb_region_cursor cb) c)
      else change_input (i - 2) (vi_insert_char c) cb)"

definition form_backspace :: "claim_form \<Rightarrow> claim_form option" where
  "form_backspace cb0 =
     (let cb = cb0\<lparr>cb_validation_error := None\<rparr>; i = cb_selected_field_index cb in
      if i = 0 then
        if cb_deployment_name_cursor cb > 0 then
          map_option (\<lambda>s. cb\<lparr>cb_deployment_name := s, cb_deployment_name_cursor := cb_deployment_name_cursor cb - 1\<rparr>)
            (str_remove (cb_deployment_name cb) (cb_deployment_name_cursor cb - 1))
        else Some cb
      else if i = 1 then
        if cb_region_cursor cb > 0 then
          map_option (\<lambda>s. cb\<lparr>cb_region := s, cb_region_cursor := cb_region_cursor cb - 1\<rparr>)
            (str_remove (cb_region cb) (cb_region_cursor cb - 1))
        else Some cb
      else change_input (i - 2) vi_delete_char cb)"

definition form_left :: "claim_form \<Rightarrow> claim_form option" where
  "form_left cb =
     (let i = cb_selected_field_index cb in
      if i = 0 then
        Some (if cb_deployment_name_cursor cb > 0
              then cb\<lparr>cb_deployment_name_cursor := cb_deployment_name_cursor cb - 1\<rparr> else cb)
      else if i = 1 then
        Some (if cb_region_cursor cb > 0 then cb\<lparr>cb_region_cursor := cb_region_cursor cb - 1\<rparr> else cb)
      else change_input (i - 2) (\<lambda>v. Some (vi_left v)) cb)"

definition form_right :: "claim_form \<Rightarrow> claim_form option" where
  "form_right cb =
     (let i = cb_selected_field_index cb in
      if i = 0 then
        Some (if cb_deployment_name_cursor cb < byte_len (cb_deployment_name cb)
              then cb\<lparr>cb_deployment_name_cursor := cb_deployment_name_cursor cb + 1\<rparr> else cb)
      else if i = 1 then
        Some (if cb_region_cursor cb < byte_len (cb_region cb)
              then cb\<lparr>cb_region_cursor := cb_region_cursor cb + 1\<rparr> else cb)
      else change_input (i - 2) (\<lambda>v. Some (vi_right v)) cb)"

definition template_for :: "variable_input \<Rightarrow> string option" where
  "template_for v =
     (if type_has v [''bool''] then Some ''false''
      else if type_has v [''map'', ''object''] then Some ''{}''
      else if type_has v [''list'', ''array'', ''set''] then Some ''[]''
      else if type_has v [''number'', ''int''] then Some ''0''
      else None)"

definition insert_template :: "claim_form \<Rightarrow> claim_form option" where
  "insert_template cb =
     (if cb_selected_field_index cb < 2 then Some cb
      else change_input (cb_selected_field_index cb - 2)
             (\<lambda>v. Some (case template_for v of
                          None \<Rightarrow> v
                        | Some t \<Rightarrow> v\<lparr>vi_user_value := t, vi_cursor_position := byte_len t\<rparr>)) cb)"

definition scroll_preview_up :: "claim_form \<Rightarrow> claim_form" where
  "scroll_preview_up cb = (if cb_preview_scroll cb > 0 then cb\<lparr>cb_preview_scroll := cb_preview_scroll cb - 1\<rparr> else cb)"

definition scroll_preview_down :: "claim_form \<Rightarrow> claim_form" where
  "scroll_preview_down cb = cb\<lparr>cb_preview_scroll := cb_preview_scroll cb + 1\<rparr>"

definition current_cursor_position :: "claim_form \<Rightarrow> nat" where
  "current_cursor_position cb =
     (let i = cb_selected_field_index cb in
      if i = 0 then cb_deployment_name_cursor cb
      else if i = 1 then cb_region_cursor cb
      else if i - 2 < length (cb_variable_inputs cb) then vi_cursor_position (cb_variable_inputs cb ! (i - 2)) else 0)"

section \<open>Keys\<close>

datatype key =
    KeyChar char | KeyTab | KeyBackTab | KeyUp | KeyDown | KeyLeft | KeyRight | KeyHome | KeyEnd
  | KeyPageUp | KeyPageDown | KeyBackspace | KeyEnter | KeyEsc | KeyOther

text \<open>Home and End count the variables from field 1, the other operations from field 2.\<close>

definition form_home :: "claim_form \<Rightarrow> claim_form option" where
  "form_home cb =
     (if cb_selected_field_index cb = 0 then Some (cb\<lparr>cb_deployment_name_cursor := 0\<rparr>)
      else change_input (cb_selected_field_index cb - 1) (\<lambda>v. Some (vi_home v)) cb)"

definition form_end :: "claim_form \<Rightarrow> claim_form option" where
  "form_end cb =
     (if cb_selected_field_index cb = 0 then Some (cb\<lparr>cb_deployment_name_cursor := byte_len (cb_deployment_name cb)\<rparr>)
      else change_input (cb_selected_field_index cb - 1) (\<lambda>v. Some (vi_end v)) cb)"

fun preview_key :: "form_lib \<Rightarrow> key \<Rightarrow> claim_form \<Rightarrow> claim_form option" where
  "preview_key lib KeyUp cb = Some (scroll_preview_up cb)"
| "preview_key lib KeyDown cb = Some (scroll_preview_down cb)"
| "preview_key lib KeyPageUp cb = Some ((scroll_preview_up ^^ 10) cb)"
| "preview_key lib KeyPageDown cb = Some ((scroll_preview_down ^^ 10) cb)"
| "preview_key lib KeyEsc cb = toggle_preview lib cb"
| "preview_key lib _ cb = Some cb"

fun edit_key :: "form_lib \<Rightarrow> key \<Rightarrow> claim_form \<Rightarrow> claim_form option" where
  "edit_key lib KeyTab cb = next_field cb"
| "edit_key lib KeyBackTab cb = previous_field cb"
| "edit_key lib KeyUp cb = previous_field cb"
| "edit_key lib KeyDown cb = next_field cb"
| "edit_key lib KeyLeft cb = form_left cb"
| "edit_key lib KeyRight cb = form_right cb"
| "edit_key lib KeyHome cb = form_home cb"
| "edit_key lib KeyEnd cb = form_end cb"
| "edit_key lib KeyBackspace cb = form_backspace cb"
| "edit_key lib KeyEnter cb = toggle_preview lib cb"
| "edit_key lib (KeyChar c) cb = form_insert_char c cb"
| "edit_key lib KeyEsc cb = Some (close_form cb)"
| "edit_key lib _ cb = Some cb"

definition form_key :: "form_lib \<Rightarrow> key \<Rightarrow> claim_form \<Rightarrow> claim_form option" where
  "form_key lib k cb = (if cb_show_preview cb then preview_key lib k cb else edit_key lib k cb)"

text \<open>A sequence of keys; they go to the form as long as it is shown.\<close>

fun form_keys :: "form_lib \<Rightarrow> key list \<Rightarrow> claim_form \<Rightarrow> claim_form option" where
  "form_keys lib [] cb = Some cb"
| "form_keys lib (k # ks) cb =
     (if cb_showing_claim_builder cb
      then case form_key lib k cb of None \<Rightarrow> None | Some cb' \<Rightarrow> form_keys lib ks cb'
      else Some cb)"

end
