(* ===== verification/Claim_Form_Properties.thy ===== *)
theory Claim_Form_Properties
  imports Claim_Form Claims
begin

text \<open>
  The claim builder: which keys can make it panic, what the preview shows, which types have no value
  that validates, and that the variables of a claim reach the runner under the names of the form.
\<close>

section \<open>Cursors\<close>

definition is_ascii :: "char \<Rightarrow> bool" where
  "is_ascii c \<longleftrightarrow> (of_char c :: nat) < 128"

named_theorems cursor_simps \<open>offsets in ASCII text\<close>

lemma char_index_ascii [cursor_simps]: "list_all is_ascii s \<Longrightarrow> char_index s i = (if i \<le> length s then Some i else None)"
  by (induction s i rule: char_index.induct) (auto simp: is_ascii_def utf8_width_def)

lemma byte_len_ascii [cursor_simps]: "list_all is_ascii s \<Longrightarrow> byte_len s = length s"
  by (induction s) (auto simp: byte_len_def is_ascii_def utf8_width_def)

lemma insert_ascii [cursor_simps]:
  "list_all is_ascii s \<Longrightarrow> i \<le> length s \<Longrightarrow> str_insert s i c = Some (take i s @ c # drop i s)"
  by (simp add: str_insert_def char_index_ascii)

lemma remove_ascii [cursor_simps]:
  "list_all is_ascii s \<Longrightarrow> i < length s \<Longrightarrow> str_remove s i = Some (take i s @ drop (Suc i) s)"
  by (simp add: str_remove_def char_index_ascii)

lemma split_ascii [cursor_simps]:
  "list_all is_ascii s \<Longrightarrow> i \<le> length s \<Longrightarrow> str_split s i = Some (take i s, drop i s)"
  by (simp add: str_split_def char_index_ascii)

definition cursor_ok :: "string \<Rightarrow> nat \<Rightarrow> bool" where
  "cursor_ok s i \<longleftrightarrow> list_all is_ascii s \<and> i \<le> length s"

lemma cursor_ok_insert: "cursor_ok s i \<Longrightarrow> is_ascii c \<Longrightarrow> cursor_ok (take i s @ c # drop i s) (Suc i)"
  by (auto simp: cursor_ok_def list_all_iff dest: in_set_takeD in_set_dropD)

lemma cursor_ok_remove: "cursor_ok s i \<Longrightarrow> 0 < i \<Longrightarrow> cursor_ok (take (i - 1) s @ drop i s) (i - 1)"
  by (auto simp: cursor_ok_def list_all_iff dest: in_set_takeD in_set_dropD)

lemma cursor_ok_less: "cursor_ok s i \<Longrightarrow> j \<le> i \<Longrightarrow> cursor_ok s j"
  by (simp add: cursor_ok_def)

lemma cursor_ok_left: "cursor_ok s i \<Longrightarrow> cursor_ok s (i - n)" "cursor_ok s i \<Longrightarrow> cursor_ok s 0"
  by (auto simp: cursor_ok_def)

lemma cursor_ok_right: "cursor_ok s i \<Longrightarrow> i < byte_len s \<Longrightarrow> cursor_ok s (Suc i)"
  by (simp add: cursor_ok_def byte_len_ascii)

lemma cursor_ok_end: "cursor_ok s i \<Longrightarrow> cursor_ok s (byte_len s)"
  by (simp add: cursor_ok_def byte_len_ascii)

lemma cursor_ok_Nil: "cursor_ok [] 0"
  by (simp add: cursor_ok_def)

lemmas cursor_intros = cursor_ok_insert cursor_ok_remove cursor_ok_right cursor_ok_end cursor_ok_Nil

definition input_ok :: "variable_input \<Rightarrow> bool" where
  "input_ok v \<longleftrightarrow> cursor_ok (vi_user_value v) (vi_cursor_position v)"

definition form_ok :: "claim_form \<Rightarrow> bool" where
  "form_ok cb \<longleftrightarrow> cursor_ok (cb_deployment_name cb) (cb_deployment_name_cursor cb)
     \<and> cursor_ok (cb_region cb) (cb_region_cursor cb) \<and> (\<forall>v \<in> set (cb_variable_inputs cb). input_ok v)"

text \<open>An operation that neither panics nor leaves the invariant.\<close>

definition stays :: "('a \<Rightarrow> bool) \<Rightarrow> 'a option \<Rightarrow> bool" where
  "stays P r \<longleftrightarrow> (\<exists>x. r = Some x \<and> P x)"

lemma stays_Some [simp]: "stays P (Some x) \<longleftrightarrow> P x"
  by (simp add: stays_def)

lemma stays_map: "stays P r \<Longrightarrow> (\<And>x. P x \<Longrightarrow> Q (f x)) \<Longrightarrow> stays Q (map_option f r)"
  by (auto simp: stays_def)

lemma stays_insert_char: "input_ok v \<Longrightarrow> is_ascii c \<Longrightarrow> stays input_ok (vi_insert_char c v)"
  unfolding input_ok_def vi_insert_char_def is_valid_char_for_type_def cursor_ok_def [of "vi_user_value v"]
  by (auto simp: cursor_simps stays_def input_ok_def cursor_ok_insert [unfolded cursor_ok_def] cursor_ok_def
      list_all_iff split: bool.splits dest: in_set_takeD in_set_dropD)

lemma stays_delete_char: "input_ok v \<Longrightarrow> stays input_ok (vi_delete_char v)"
  using cursor_ok_remove [of "vi_user_value v" "vi_cursor_position v"]
  by (auto simp: vi_delete_char_def input_ok_def cursor_ok_def remove_ascii)

lemma stays_moves:
  assumes "input_ok v"
  shows "input_ok (vi_left v)" "input_ok (vi_right v)" "input_ok (vi_home v)" "input_ok (vi_end v)"
  using assms cursor_ok_right [of "vi_user_value v" "vi_cursor_position v"]
  by (auto simp: vi_left_def vi_right_def vi_home_def vi_end_def input_ok_def cursor_ok_end intro: cursor_ok_less)

lemma stays_autocorrect: "input_ok v \<Longrightarrow> input_ok (autocorrect v)"
  by (simp add: autocorrect_def input_ok_def cursor_ok_def Let_def is_ascii_def)

lemma stays_change_input:
  assumes "form_ok cb" "\<And>v. input_ok v \<Longrightarrow> stays input_ok (f v)"
  shows "stays form_ok (change_input i f cb)"
proof (cases "i < length (cb_variable_inputs cb)")
  case True
  with assms(1) have "input_ok (cb_variable_inputs cb ! i)"
    by (simp add: form_ok_def)
  then obtain w where "f (cb_variable_inputs cb ! i) = Some w" "input_ok w"
    using assms(2) by (auto simp: stays_def)
  with True assms(1) show ?thesis
    by (auto simp: change_input_def form_ok_def dest: set_update_subset_insert [THEN subsetD])
qed (use assms(1) in \<open>simp add: change_input_def\<close>)

lemma stays_autocorrect_field: "form_ok cb \<Longrightarrow> stays form_ok (autocorrect_field cb)"
  by (auto simp: autocorrect_field_def intro!: stays_change_input stays_autocorrect)

lemma form_ok_select [simp]: "form_ok (cb\<lparr>cb_selected_field_index := i\<rparr>) = form_ok cb"
  "form_ok (cb\<lparr>cb_validation_error := e\<rparr>) = form_ok cb" "form_ok (cb\<lparr>cb_preview_scroll := s\<rparr>) = form_ok cb"
  "form_ok (cb\<lparr>cb_generated_yaml := y\<rparr>) = form_ok cb" "form_ok (cb\<lparr>cb_show_preview := p\<rparr>) = form_ok cb"
  by (simp_all add: form_ok_def)

lemma stays_fields: "form_ok cb \<Longrightarrow> stays form_ok (next_field cb)" "form_ok cb \<Longrightarrow> stays form_ok (previous_field cb)"
  unfolding next_field_def previous_field_def by (auto intro!: stays_map [OF stays_autocorrect_field])

lemma cursor_insert: "cursor_ok s i \<Longrightarrow> str_insert s i c = Some (take i s @ c # drop i s)"
  by (simp add: cursor_ok_def insert_ascii)

lemma cursor_remove: "cursor_ok s i \<Longrightarrow> 0 < i \<Longrightarrow> str_remove s (i - 1) = Some (take (i - 1) s @ drop i s)"
  by (cases i) (simp_all add: cursor_ok_def remove_ascii)

lemma form_ok_fields:
  assumes "form_ok cb"
  shows "cursor_ok (cb_deployment_name cb) (cb_deployment_name_cursor cb)" "cursor_ok (cb_region cb) (cb_region_cursor cb)"
    and "cursor_ok s i \<Longrightarrow> form_ok (cb\<lparr>cb_deployment_name := s, cb_deployment_name_cursor := i\<rparr>)"
    and "cursor_ok s i \<Longrightarrow> form_ok (cb\<lparr>cb_region := s, cb_region_cursor := i\<rparr>)"
    and "cursor_ok (cb_deployment_name cb) i \<Longrightarrow> form_ok (cb\<lparr>cb_deployment_name_cursor := i\<rparr>)"
    and "cursor_ok (cb_region cb) i \<Longrightarrow> form_ok (cb\<lparr>cb_region_cursor := i\<rparr>)"
  using assms by (simp_all add: form_ok_def)

lemma stays_form_insert:
  assumes "form_ok cb" "is_ascii c"
  shows "stays form_ok (form_insert_char c cb)"
proof -
  have ok: "form_ok (cb\<lparr>cb_validation_error := None\<rparr>)" using assms(1) by simp
  show ?thesis
    unfolding form_insert_char_def Let_def
    using form_ok_fields [OF ok] assms(2) stays_change_input [OF ok stays_insert_char [OF _ assms(2)]]
    by (auto simp: cursor_insert cursor_ok_insert)
qed

lemma stays_backspace:
  assumes "form_ok cb"
  shows "stays form_ok (form_backspace cb)"
proof -
  have ok: "form_ok (cb\<lparr>cb_validation_error := None\<rparr>)" using assms by simp
  show ?thesis
    unfolding form_backspace_def Let_def
    using form_ok_fields [OF ok] ok stays_change_input [OF ok stays_delete_char]
    by (auto simp: cursor_remove cursor_ok_remove simp del: One_nat_def)
qed

lemma stays_form_moves:
  assumes ok: "form_ok cb"
  shows "stays form_ok (form_left cb)" "stays form_ok (form_right cb)" "stays form_ok (form_home cb)"
    "stays form_ok (form_end cb)"
  unfolding form_left_def form_right_def form_home_def form_end_def Let_def
  using form_ok_fields [OF ok] ok stays_moves cursor_ok_left(2) [OF form_ok_fields(1) [OF ok]] stays_change_input [OF ok, of "\<lambda>v. Some (vi_left v)"]
    stays_change_input [OF ok, of "\<lambda>v. Some (vi_right v)"] stays_change_input [OF ok, of "\<lambda>v. Some (vi_home v)"]
    stays_change_input [OF ok, of "\<lambda>v. Some (vi_end v)"]
  by (auto simp: cursor_ok_right cursor_ok_end cursor_ok_left intro: cursor_ok_less)

section \<open>The claim text\<close>

lemma claim_values_form: "\<exists>v. claim_values text (form_deployment lib cb module) = Some v"
  by (simp add: claim_values_def form_deployment_def module_inputs_def)

lemma claim_text_Some: "\<exists>y. claim_text lib cb = Some y"
  using claim_values_form [of "fl_text lib" lib cb]
  by (auto simp: claim_text_def generate_deployment_claim_def split: option.split)

lemma claim_text_view [simp]:
  "claim_text lib (cb\<lparr>cb_generated_yaml := y\<rparr>) = claim_text lib cb" "claim_text lib (cb\<lparr>cb_show_preview := p\<rparr>) = claim_text lib cb"
  "claim_text lib (cb\<lparr>cb_validation_error := e\<rparr>) = claim_text lib cb" "claim_text lib (cb\<lparr>cb_preview_scroll := s\<rparr>) = claim_text lib cb"
  by (simp_all add: claim_text_def form_source_def form_deployment_def split: option.split)

lemma validate_view [simp]:
  "validate_all_fields lib (cb\<lparr>cb_generated_yaml := y\<rparr>) = validate_all_fields lib cb"
  "validate_all_fields lib (cb\<lparr>cb_show_preview := p\<rparr>) = validate_all_fields lib cb"
  "validate_all_fields lib (cb\<lparr>cb_validation_error := e\<rparr>) = validate_all_fields lib cb"
  "validate_all_fields lib (cb\<lparr>cb_preview_scroll := s\<rparr>) = validate_all_fields lib cb"
  by (simp_all add: validate_all_fields_def)

lemma stays_toggle: "form_ok cb \<Longrightarrow> stays form_ok (toggle_preview lib cb)"
  using claim_text_Some [of lib cb] by (auto simp: toggle_preview_def generate_yaml_def split: sum.split)

section \<open>No panic\<close>

lemma scroll_ok [simp]: "form_ok (scroll_preview_up cb) = form_ok cb" "form_ok (scroll_preview_down cb) = form_ok cb"
  by (simp_all add: scroll_preview_up_def scroll_preview_down_def)

lemma scrolls_ok [simp]: "form_ok ((scroll_preview_up ^^ n) cb) = form_ok cb" "form_ok ((scroll_preview_down ^^ n) cb) = form_ok cb"
  by (induction n) simp_all

fun ascii_key :: "key \<Rightarrow> bool" where
  "ascii_key (KeyChar c) \<longleftrightarrow> is_ascii c"
| "ascii_key _ \<longleftrightarrow> True"

text \<open>Closing the form empties the name and keeps its cursor, which counts only while the form is shown.\<close>

definition shown_ok :: "claim_form \<Rightarrow> bool" where
  "shown_ok cb \<longleftrightarrow> cb_showing_claim_builder cb \<longrightarrow> form_ok cb"

lemma shown_okI: "stays form_ok r \<Longrightarrow> stays shown_ok r"
  by (auto simp: stays_def shown_ok_def)

lemma stays_form_key: "form_ok cb \<Longrightarrow> ascii_key k \<Longrightarrow> stays shown_ok (form_key lib k cb)"
proof (cases "cb_show_preview cb")
  case True
  then show "form_ok cb \<Longrightarrow> ascii_key k \<Longrightarrow> stays shown_ok (form_key lib k cb)"
    by (cases k) (auto simp: form_key_def shown_ok_def simp del: funpow.simps intro: shown_okI stays_toggle)
next
  case False
  then show "form_ok cb \<Longrightarrow> ascii_key k \<Longrightarrow> stays shown_ok (form_key lib k cb)"
    by (cases k) (auto simp: form_key_def shown_ok_def close_form_def
        intro!: shown_okI stays_fields stays_form_moves stays_backspace stays_toggle stays_form_insert)
qed

lemma stays_form_keys: "shown_ok cb \<Longrightarrow> list_all ascii_key ks \<Longrightarrow> stays shown_ok (form_keys lib ks cb)"
proof (induction ks arbitrary: cb)
  case (Cons k ks)
  then show ?case
    using stays_form_key [of cb k lib] by (auto simp: shown_ok_def stays_def)
qed simp

lemma initialize_ok: "form_ok (initialize_from_module lib module cb)"
  by (auto simp: initialize_from_module_def form_ok_def cursor_ok_Nil input_ok_def from_tf_variable_def Let_def)

lemma open_ok: "form_ok (open_for_module lib module cb)" "form_ok (open_for_stack lib module cb)"
  by (simp_all add: open_for_module_def open_for_stack_def initialize_ok)

text \<open>
  C14: However a form is filled in with keys that are ASCII characters or commands, it never panics, and
  while it is shown the cursors of the name, the region and every variable lie within their texts.
\<close>

theorem ascii_keys_never_panic:
  assumes "list_all ascii_key ks" "start = open_for_module lib module cb \<or> start = open_for_stack lib module cb"
  shows "\<exists>cb'. form_keys lib ks start = Some cb' \<and> shown_ok cb'"
  using stays_form_keys [of start ks lib] open_ok assms by (auto simp: stays_def shown_ok_def [of start])

section \<open>The preview\<close>

definition preview_ok :: "form_lib \<Rightarrow> claim_form \<Rightarrow> bool" where
  "preview_ok lib cb \<longleftrightarrow>
     cb_show_preview cb \<longrightarrow> validate_all_fields lib cb = Inr () \<and> claim_text lib cb = Some (cb_generated_yaml cb)"

lemma preview_hidden: "\<not> cb_show_preview cb \<Longrightarrow> preview_ok lib cb"
  by (simp add: preview_ok_def)

lemma preview_toggle: "toggle_preview lib cb = Some cb' \<Longrightarrow> preview_ok lib cb'"
  by (auto simp: toggle_preview_def generate_yaml_def preview_ok_def split: if_splits sum.splits)

lemma change_input_view: "change_input i f cb = Some cb' \<Longrightarrow> cb_show_preview cb' = cb_show_preview cb"
  by (auto simp: change_input_def split: if_splits)

lemma edit_views:
  "autocorrect_field cb = Some cb' \<Longrightarrow> cb_show_preview cb' = cb_show_preview cb"
  "form_insert_char c cb = Some cb' \<Longrightarrow> cb_show_preview cb' = cb_show_preview cb"
  "form_backspace cb = Some cb' \<Longrightarrow> cb_show_preview cb' = cb_show_preview cb"
  "form_left cb = Some cb' \<Longrightarrow> cb_show_preview cb' = cb_show_preview cb"
  "form_right cb = Some cb' \<Longrightarrow> cb_show_preview cb' = cb_show_preview cb"
  "form_home cb = Some cb' \<Longrightarrow> cb_show_preview cb' = cb_show_preview cb"
  "form_end cb = Some cb' \<Longrightarrow> cb_show_preview cb' = cb_show_preview cb"
  unfolding autocorrect_field_def form_insert_char_def form_backspace_def form_left_def form_right_def form_home_def
    form_end_def Let_def
  by (auto dest!: change_input_view split: if_splits)

lemma fields_views:
  assumes "next_field cb = Some cb' \<or> previous_field cb = Some cb'"
  shows "cb_show_preview cb' = cb_show_preview cb"
proof -
  from assms obtain z where "autocorrect_field cb = Some z" "cb_show_preview cb' = cb_show_preview z"
    unfolding next_field_def previous_field_def map_option_eq_Some by force
  with edit_views(1) show ?thesis by metis
qed

lemma edit_hidden:
  assumes "\<not> cb_show_preview cb" "edit_key lib k cb = Some cb'"
  shows "preview_ok lib cb'"
proof (cases "k = KeyEnter")
  case True
  with assms(2) show ?thesis by (auto intro: preview_toggle)
next
  case False
  with assms have "\<not> cb_show_preview cb'"
    by (cases k) (auto simp: close_form_def dest: edit_views fields_views [OF disjI1] fields_views [OF disjI2])
  then show ?thesis by (rule preview_hidden)
qed

lemma scroll_view [simp]:
  "preview_ok lib (scroll_preview_up cb) = preview_ok lib cb" "preview_ok lib (scroll_preview_down cb) = preview_ok lib cb"
  by (simp_all add: scroll_preview_up_def scroll_preview_down_def preview_ok_def)

lemma scrolls_view [simp]:
  "preview_ok lib ((scroll_preview_up ^^ n) cb) = preview_ok lib cb" "preview_ok lib ((scroll_preview_down ^^ n) cb) = preview_ok lib cb"
  by (induction n) simp_all

lemma preview_key_ok: "preview_ok lib cb \<Longrightarrow> preview_key lib k cb = Some cb' \<Longrightarrow> preview_ok lib cb'"
  by (cases k) (auto intro: preview_toggle simp del: funpow.simps)

lemma form_key_preview: "preview_ok lib cb \<Longrightarrow> form_key lib k cb = Some cb' \<Longrightarrow> preview_ok lib cb'"
  by (auto simp: form_key_def intro: preview_key_ok edit_hidden split: if_splits)

lemma form_keys_preview: "preview_ok lib cb \<Longrightarrow> form_keys lib ks cb = Some cb' \<Longrightarrow> preview_ok lib cb'"
  by (induction ks arbitrary: cb) (auto intro: form_key_preview split: if_splits option.splits)

section \<open>Types without a valid value\<close>

lemma bracket_unreadable:
  assumes "starts_with s ''{'' \<or> starts_with s ''[''"
  shows "to_lowercase s \<noteq> ''true''" "to_lowercase s \<noteq> ''false''" "\<not> parses_f64 s"
proof -
  from assms obtain c r where c: "s = c # r" "c = CHR ''{'' \<or> c = CHR ''[''"
    by (auto dest!: starts_withE)
  have "ascii_lower CHR ''{'' = CHR ''{''" "ascii_lower CHR ''['' = CHR ''[''" "\<not> is_digit CHR ''{''" "\<not> is_digit CHR ''[''"
    by code_simp+
  with c show "to_lowercase s \<noteq> ''true''" "to_lowercase s \<noteq> ''false''" "\<not> parses_f64 s"
    by (auto simp: to_lowercase_def parses_f64_def drop_sign_def is_decimal_def Let_def)
qed

lemma mixed_type_invalid:
  assumes "vi_is_required v" "type_has v [''bool'', ''number'', ''int'']" "type_has v [''map'', ''object'', ''list'', ''array'', ''set'']"
  shows "validate_value lib v \<noteq> Inr ()"
proof (cases "starts_with (vi_user_value v) ''{'' \<or> starts_with (vi_user_value v) ''[''")
  case True
  then show ?thesis
    using bracket_unreadable [OF True] assms(1,2)
    by (auto simp: validate_value_def check_bool_def check_number_def Let_def type_has_def res_bind_eq_Inr)
next
  case False
  then show ?thesis
    using assms(1,3) by (auto simp: validate_value_def check_map_def check_list_def type_has_def res_bind_eq_Inr)
qed

text \<open>
  A required variable of a collection of booleans or numbers, such as \<open>list(number)\<close>, has no value
  the form accepts: the checks of both types apply to the same text. Whatever is typed, the preview
  stays closed with an error, and no claim of the module can be copied or run.
\<close>

theorem mixed_type_blocks_claim:
  assumes "v \<in> set (cb_variable_inputs cb)" "vi_is_required v" "\<not> cb_show_preview cb"
    and "type_has v [''bool'', ''number'', ''int'']" "type_has v [''map'', ''object'', ''list'', ''array'', ''set'']"
  shows "validate_all_fields lib cb \<noteq> Inr () \<and> (\<exists>err. toggle_preview lib cb = Some (cb\<lparr>cb_validation_error := Some err\<rparr>))"
proof -
  have "validate_all_fields lib cb \<noteq> Inr ()"
    using mixed_type_invalid [OF assms(2,4,5), of lib] assms(1) by (auto simp: validate_all_fields_def try_all_ok)
  then obtain err where "validate_all_fields lib cb = Inl err"
    by (cases "validate_all_fields lib cb") auto
  with assms(3) have "toggle_preview lib cb = Some (cb\<lparr>cb_validation_error := Some err\<rparr>)"
    by (simp add: toggle_preview_def)
  with \<open>validate_all_fields lib cb = Inl err\<close> show ?thesis by auto
qed

section \<open>From the form to the runner\<close>

lemma option_eqI: "(\<And>w. a = Some w \<longleftrightarrow> b = Some w) \<Longrightarrow> a = b"
  by (cases b) (metis option.exhaust, metis)

lemma bt_eqI: "bt_wf m \<Longrightarrow> bt_wf m' \<Longrightarrow> (\<And>k w. map_of m k = Some w \<longleftrightarrow> map_of m' k = Some w) \<Longrightarrow> m = m'"
  by (rule bt_ext, assumption, assumption, rule ext, rule option_eqI)

lemma bt_of_list_eqI:
  assumes "bt_wf m" "distinct (List.map fst kvs)" "set kvs = set m"
  shows "bt_of_list kvs = m"
proof (rule bt_eqI [OF bt_of_list_wf assms(1)])
  fix k v
  show "map_of (bt_of_list kvs) k = Some v \<longleftrightarrow> map_of m k = Some v"
    using assms(3) set_bt_of_list [OF assms(2)] bt.entries_look [OF bt_of_list_wf, of k v kvs] bt.entries_look [OF assms(1), of k v]
    by simp
qed

text \<open>Names that survive both conversions come back, whatever the order in which the map sorts them.\<close>

lemma keys_rename: "List.map fst (List.map (\<lambda>(k, v). (f k, v)) m) = List.map f (List.map fst m)"
  by (induction m) auto

lemma rename_back:
  assumes wf: "bt_wf m" and names: "\<And>k. k \<in> fst ` set m \<Longrightarrow> b (a k) = k"
  shows "bt_of_list (List.map (\<lambda>(k, v). (b k, v)) (bt_of_list (List.map (\<lambda>(k, v). (a k, v)) m))) = m"
proof (rule bt_of_list_eqI [OF wf])
  let ?m = "List.map (\<lambda>(k, v). (a k, v)) m"
  have "inj_on a (set (List.map fst m))"
    by (rule inj_on_inverseI [of _ b]) (simp add: names)
  then have d: "distinct (List.map fst ?m)"
    unfolding keys_rename distinct_map [of a] using bt_wf_distinct [OF wf] by simp
  show "set (List.map (\<lambda>(k, v). (b k, v)) (bt_of_list ?m)) = set m"
    using names by (force simp: set_bt_of_list [OF d] image_image)
  have "set (List.map fst (bt_of_list ?m)) = a ` fst ` set m"
    using arg_cong [OF keys_rename [of a m], of set] by (simp add: set_bt_of_list [OF d] image_image)
  moreover have "inj_on b (a ` fst ` set m)"
  proof (rule inj_on_inverseI [of _ a])
    fix y assume "y \<in> a ` fst ` set m"
    then obtain k where "k \<in> fst ` set m" "y = a k" by blast
    then show "a (b y) = y" using names by simp
  qed
  ultimately show "distinct (List.map fst (List.map (\<lambda>(k, v). (b k, v)) (bt_of_list ?m)))"
    unfolding keys_rename distinct_map [of b] using bt_wf_distinct [OF bt_of_list_wf, of ?m] by simp
qed

lemma module_inputs_back:
  assumes "\<And>v. v \<in> set (included lib vs) \<Longrightarrow> to_snake_case text (to_camel_case text (vi_name v)) = vi_name v"
    and "module_inputs lib vs = JObject m"
  shows "convert_first_level_keys_to_snake_case text
     (JObject (bt_of_list (List.map (\<lambda>(k, v). (to_camel_case text k, v)) m))) = JObject m"
proof -
  have m: "m = bt_of_list (List.map (\<lambda>v. (vi_name v, input_value lib v)) (included lib vs))"
    using assms(2) by (simp add: module_inputs_def)
  have "set m \<subseteq> (\<lambda>v. (vi_name v, input_value lib v)) ` set (included lib vs)"
    unfolding m using bt_of_list_set [of "List.map (\<lambda>v. (vi_name v, input_value lib v)) (included lib vs)"] by simp
  then have "fst ` set m \<subseteq> vi_name ` set (included lib vs)" by fastforce
  then have names: "k \<in> fst ` set m \<Longrightarrow> to_snake_case text (to_camel_case text k) = k" for k
    using assms(1) by (metis (no_types) imageE subsetD)
  have "bt_wf m" unfolding m by (rule bt_of_list_wf)
  from rename_back [where a = "to_camel_case text" and b = "to_snake_case text", OF this names] show ?thesis unfolding convert_first_level_keys_to_snake_case.simps json.inject .
qed

text \<open>The variables of a stack: the instance before the first \<open>__\<close>, the variable after it.\<close>

definition input_key :: "text_lib \<Rightarrow> variable_input \<Rightarrow> string \<times> string" where
  "input_key text v = (case cut_at ''__'' (vi_name v) of Some (i, x) \<Rightarrow> (i, to_camel_case text x) | None \<Rightarrow> ([], []))"

definition two_level :: "(string, json) btree \<Rightarrow> bool" where
  "two_level m \<longleftrightarrow> bt_wf m \<and> (\<forall>k x. map_of m k = Some x \<longrightarrow> (\<exists>kvs. x = JObject kvs \<and> bt_wf kvs))"

definition look2 :: "(string, json) btree \<Rightarrow> string \<times> string \<Rightarrow> json option" where
  "look2 m ic = (case map_of m (fst ic) of Some x \<Rightarrow> jget x (snd ic) | None \<Rightarrow> None)"

lemma look2_Nil [simp]: "look2 [] = Map.empty"
  by (simp add: look2_def fun_eq_iff)

lemma add_stack_input_spec:
  assumes "two_level m" "cut_at ''__'' (vi_name v) = Some (i, x)"
  shows "two_level (add_stack_input lib v m)"
    and "look2 (add_stack_input lib v m) = (look2 m)(input_key (fl_text lib) v \<mapsto> input_value lib v)"
proof -
  let ?c = "to_camel_case (fl_text lib) x"
  obtain kvs where kvs: "(case map_of m i of Some y \<Rightarrow> y | None \<Rightarrow> JObject []) = JObject kvs" "bt_wf kvs"
    using assms(1) by (cases "map_of m i") (auto simp: two_level_def)
  have add: "add_stack_input lib v m = bt_insert i (JObject (bt_insert ?c (input_value lib v) kvs)) m"
    using kvs(1) by (simp add: add_stack_input_def assms(2) Let_def)
  show "two_level (add_stack_input lib v m)"
    using assms(1) kvs(2) unfolding add two_level_def by auto
  have "look2 m (i, c) = map_of kvs c" for c
    using kvs(1) by (auto simp: look2_def split: option.splits)
  then show "look2 (add_stack_input lib v m) = (look2 m)(input_key (fl_text lib) v \<mapsto> input_value lib v)"
    using assms(1) kvs(2) unfolding add two_level_def
    by (auto simp: look2_def input_key_def assms(2) fun_eq_iff split: option.split)
qed

lemma stack_inputs_spec:
  assumes "two_level m" "\<And>v. v \<in> set vs \<Longrightarrow> cut_at ''__'' (vi_name v) \<noteq> None"
  shows "two_level (fold (add_stack_input lib) vs m)
    \<and> look2 (fold (add_stack_input lib) vs m) = look2 m ++ map_of (rev (List.map (\<lambda>v. (input_key (fl_text lib) v, input_value lib v)) vs))"
  using assms
proof (induction vs arbitrary: m)
  case (Cons v vs)
  from Cons.prems(2) [of v] obtain i x where ix: "cut_at ''__'' (vi_name v) = Some (i, x)" by auto
  note step = add_stack_input_spec [OF Cons.prems(1) ix, of lib]
  from Cons.IH [OF step(1)] Cons.prems(2)
  have "two_level (fold (add_stack_input lib) vs (add_stack_input lib v m))"
    and l: "look2 (fold (add_stack_input lib) vs (add_stack_input lib v m)) = look2 (add_stack_input lib v m)
      ++ map_of (rev (List.map (\<lambda>v. (input_key (fl_text lib) v, input_value lib v)) vs))"
    by auto
  then show ?case
    unfolding fold.simps comp_apply l step(2) by (auto simp: map_add_def fun_eq_iff split: option.split)
qed simp

text \<open>The entries of all instances, each under the pair of its two keys.\<close>

definition children :: "string \<times> json \<Rightarrow> ((string \<times> string) \<times> json) list" where
  "children ix = (case as_object (snd ix) of Some kvs \<Rightarrow> List.map (\<lambda>(c, v). ((fst ix, c), v)) kvs | None \<Rightarrow> [])"

definition pairs :: "(string, json) btree \<Rightarrow> ((string \<times> string) \<times> json) list" where
  "pairs m = concat (List.map children m)"

lemma in_children: "((i, c), v) \<in> set (children ix) \<longleftrightarrow> (\<exists>kvs. ix = (i, JObject kvs) \<and> (c, v) \<in> set kvs)"
  by (cases ix; cases "snd ix") (auto simp: children_def)

lemma pairs_distinct: "two_level m \<Longrightarrow> distinct (List.map fst (pairs m))"
proof (induction m)
  case (Cons ix m)
  obtain i x where ix: "ix = (i, x)" by (cases ix)
  have "map_of (ix # m) i = Some x" by (simp add: ix)
  with Cons.prems obtain kvs where x: "x = JObject kvs" "bt_wf kvs" unfolding two_level_def by blast
  have wf: "bt_wf m" "i \<notin> fst ` set m"
    using Cons.prems by (auto simp: two_level_def ix bt_wf_Cons)
  have "two_level m"
    unfolding two_level_def
  proof (intro conjI allI impI wf(1))
    fix k y assume y: "map_of m k = Some y"
    then have "k \<noteq> i" using wf(2) by (metis map_of_SomeD fst_conv imageI)
    with y ix have "map_of (ix # m) k = Some y" by simp
    with Cons.prems show "\<exists>kvs. y = JObject kvs \<and> bt_wf kvs" unfolding two_level_def by blast
  qed
  moreover have "List.map fst (List.map (\<lambda>(c, v). ((i, c), v)) kvs) = List.map (Pair i) (List.map fst kvs)"
    by (induction kvs) auto
  moreover have "fst ` set (pairs m) \<subseteq> (fst ` set m) \<times> UNIV"
    by (force simp: pairs_def children_def split: option.splits)
  ultimately show ?case
    using Cons.IH wf(2) bt_wf_distinct [OF x(2)]
    by (auto simp: pairs_def children_def ix x(1) distinct_map inj_on_def image_iff)
qed (simp add: pairs_def)

lemma in_pairs: "two_level m \<Longrightarrow> (ic, v) \<in> set (pairs m) \<longleftrightarrow> look2 m ic = Some v"
proof -
  assume t: "two_level m"
  then have wf: "bt_wf m" by (simp add: two_level_def)
  obtain i c where ic: "ic = (i, c)" by (cases ic)
  have child_wf: "map_of m i = Some (JObject kvs) \<Longrightarrow> bt_wf kvs" for kvs
    using t unfolding two_level_def by (metis json.inject(5))
  have "(ic, v) \<in> set (pairs m) \<longleftrightarrow> (\<exists>kvs. (i, JObject kvs) \<in> set m \<and> (c, v) \<in> set kvs)"
    by (auto simp: pairs_def ic in_children)
  also have "\<dots> \<longleftrightarrow> (\<exists>kvs. map_of m i = Some (JObject kvs) \<and> map_of kvs c = Some v)"
    by (simp add: bt.entries_look [OF wf] bt.entries_look [OF child_wf] cong: conj_cong)
  also have "\<dots> \<longleftrightarrow> look2 m ic = Some v"
  proof (cases "map_of m i")
    case (Some x)
    with t obtain kvs where "x = JObject kvs" unfolding two_level_def by blast
    with Some show ?thesis by (simp add: look2_def ic)
  qed (simp add: look2_def ic)
  finally show ?thesis .
qed

text \<open>Renaming the keys of a list of entries does not change which entry a key finds.\<close>

lemma map_of_rename:
  "\<forall>x \<in> set xs. f x = k \<longleftrightarrow> h x = k' \<Longrightarrow> map_of (List.map (\<lambda>x. (f x, g x)) xs) k = map_of (List.map (\<lambda>x. (h x, g x)) xs) k'"
  by (induction xs) auto

text \<open>The name a pair of keys becomes on the server.\<close>

definition joined :: "text_lib \<Rightarrow> string \<times> string \<Rightarrow> string" where
  "joined text ic = fst ic @ ''__'' @ to_snake_case text (snd ic)"

lemma flat_entries_children:
  assumes "i \<notin> set dont_flatten" "to_snake_case text i = i"
  shows "flat_entries text [] dont_flatten (i, JObject kvs) = List.map (\<lambda>(ic, v). (joined text ic, v)) (children (i, JObject kvs))"
  by (auto simp: flat_entries_def children_def assms Let_def joined_def)

lemma cut_at_parts: "cut_at p s = Some (a, b) \<Longrightarrow> s = a @ p @ b"
proof (induction p s arbitrary: a rule: cut_at.induct)
  case (2 p c cs)
  then show ?case by (auto split: if_splits dest!: starts_withE)
qed (auto split: if_splits)

lemma stack_keys: "fst ` set (fold (add_stack_input lib) vs m) \<subseteq> fst ` set m \<union> (\<lambda>v. fst (input_key text v)) ` set vs"
proof (induction vs arbitrary: m)
  case (Cons v vs)
  have "fst ` set (add_stack_input lib v m) \<subseteq> insert (fst (input_key text v)) (fst ` set m)"
    by (auto simp: add_stack_input_def input_key_def Let_def keys_bt_insert split: option.splits)
  with Cons.IH [of "add_stack_input lib v m"] show ?case by auto
qed simp

definition stack_name :: "text_lib \<Rightarrow> string list \<Rightarrow> string \<Rightarrow> bool" where
  "stack_name text dont_flatten name \<longleftrightarrow>
     (case cut_at ''__'' name of
        Some (i, x) \<Rightarrow> to_snake_case text i = i \<and> i \<notin> set dont_flatten \<and> to_snake_case text (to_camel_case text x) = x
      | None \<Rightarrow> False)"

lemma stack_nameE:
  assumes "stack_name text D (vi_name v)"
  shows "cut_at ''__'' (vi_name v) \<noteq> None" "joined text (input_key text v) = vi_name v"
    and "to_snake_case text (fst (input_key text v)) = fst (input_key text v)" "fst (input_key text v) \<notin> set D"
  using assms by (auto simp: stack_name_def joined_def input_key_def dest: cut_at_parts split: option.splits)

lemma flat_pairs:
  assumes "two_level m" "\<And>i. i \<in> fst ` set m \<Longrightarrow> to_snake_case text i = i \<and> i \<notin> set D"
  shows "concat (List.map (flat_entries text [] D) m) = List.map (\<lambda>(ic, v). (joined text ic, v)) (pairs m)"
proof -
  have "flat_entries text [] D ix = List.map (\<lambda>(ic, v). (joined text ic, v)) (children ix)" if "ix \<in> set m" for ix
  proof -
    obtain i x where ix: "ix = (i, x)" by (cases ix)
    have "map_of m i = Some x"
      using that assms(1) unfolding ix two_level_def by (simp add: bt.entries_look)
    then obtain kvs where x: "x = JObject kvs"
      using assms(1) unfolding two_level_def by blast
    have i: "i \<notin> set D" "to_snake_case text i = i"
      using assms(2) [of i] that ix by force+
    show ?thesis
      unfolding ix x by (rule flat_entries_children [OF i])
  qed
  then show ?thesis unfolding pairs_def map_concat map_map comp_def by (simp cong: map_cong)
qed

lemma stack_inputs_back:
  assumes names: "\<And>v. v \<in> set vs \<Longrightarrow> stack_name (fl_text lib) D (vi_name v)"
  shows "flatten_and_convert_first_level_keys_to_snake_case (fl_text lib) (JObject (fold (add_stack_input lib) vs [])) [] D
    = JObject (bt_of_list (List.map (\<lambda>v. (vi_name v, input_value lib v)) vs))"
proof -
  let ?text = "fl_text lib" and ?m = "fold (add_stack_input lib) vs []"
  let ?entries = "List.map (\<lambda>(ic, v). (joined ?text ic, v)) (pairs ?m)"
  define K where "K s = (case cut_at ''__'' s of Some (i, x) \<Rightarrow> (i, to_camel_case ?text x) | None \<Rightarrow> ([], []))" for s
  have K: "K (joined ?text (input_key ?text v)) = input_key ?text v" if "v \<in> set vs" for v
    using stack_nameE(2) [OF names [OF that]] by (simp add: K_def input_key_def)
  have t: "two_level ?m" and l: "look2 ?m = map_of (rev (List.map (\<lambda>v. (input_key ?text v, input_value lib v)) vs))"
    using stack_inputs_spec [of "[]" vs lib] stack_nameE(1) [OF names] by (auto simp: two_level_def look2_Nil)
  have flat: "concat (List.map (flat_entries ?text [] D) ?m) = ?entries"
    using stack_keys [of lib vs "[]" ?text] stack_nameE(3,4) [OF names] by (intro flat_pairs [OF t]) auto
  have dom: "ic \<in> input_key ?text ` set vs" if "look2 ?m ic = Some v" for ic v
    using that unfolding l by (auto dest!: map_of_SomeD)
  then have from_vs: "ic \<in> input_key ?text ` set vs" if "ic \<in> fst ` set (pairs ?m)" for ic
    using that in_pairs [OF t] by force
  have "inj_on (joined ?text) (set (List.map fst (pairs ?m)))"
  proof (rule inj_on_inverseI [of _ K])
    fix ic assume "ic \<in> set (List.map fst (pairs ?m))"
    then have "ic \<in> input_key ?text ` set vs" using from_vs by simp
    then show "K (joined ?text ic) = ic" using K by blast
  qed
  then have d: "distinct (List.map fst ?entries)"
    unfolding keys_rename distinct_map [of "joined ?text"] using pairs_distinct [OF t] by simp
  have "bt_of_list ?entries = bt_of_list (List.map (\<lambda>v. (vi_name v, input_value lib v)) vs)"
  proof (rule bt_eqI [OF bt_of_list_wf bt_of_list_wf])
    fix k w
    let ?named = "List.map (\<lambda>v. (vi_name v, input_value lib v)) vs"
    have "map_of (bt_of_list ?entries) k = Some w \<longleftrightarrow> (k, w) \<in> set ?entries"
      using bt.entries_look [OF bt_of_list_wf, of k w ?entries] set_bt_of_list [OF d] by simp
    also have "\<dots> \<longleftrightarrow> (\<exists>ic. k = joined ?text ic \<and> (ic, w) \<in> set (pairs ?m))"
      unfolding set_map by force
    also have "\<dots> \<longleftrightarrow> (\<exists>ic. k = joined ?text ic \<and> look2 ?m ic = Some w)"
      unfolding in_pairs [OF t] ..
    also have "\<dots> \<longleftrightarrow> map_of (rev ?named) k = Some w"
    proof (cases "k \<in> vi_name ` set vs")
      case True
      then obtain v where v: "v \<in> set vs" "k = vi_name v" by blast
      let ?ic = "input_key ?text v"
      have k: "k = joined ?text ?ic" using stack_nameE(2) [OF names [OF v(1)]] v(2) by simp
      have same: "\<forall>u \<in> set (rev vs). input_key ?text u = ?ic \<longleftrightarrow> vi_name u = k"
      proof
        fix u assume "u \<in> set (rev vs)"
        then have u: "u \<in> set vs" by simp
        show "input_key ?text u = ?ic \<longleftrightarrow> vi_name u = k"
          using K [OF u] K [OF v(1)] stack_nameE(2) [OF names [OF u]] k v(2) by metis
      qed
      have "(\<exists>ic. k = joined ?text ic \<and> look2 ?m ic = Some w) \<longleftrightarrow> look2 ?m ?ic = Some w"
        using dom K k v(1) by (metis imageE)
      also have "\<dots> \<longleftrightarrow> map_of (rev ?named) k = Some w"
        unfolding l rev_map using map_of_rename [OF same, of "input_value lib"] by simp
      finally show ?thesis .
    next
      case False
      then have "map_of (rev ?named) k = None" by (auto simp: map_of_eq_None_iff)
      moreover have "\<not> (\<exists>ic. k = joined ?text ic \<and> look2 ?m ic = Some w)"
      proof
        assume "\<exists>ic. k = joined ?text ic \<and> look2 ?m ic = Some w"
        then obtain ic v where kv: "k = joined ?text ic" "ic = input_key ?text v" "v \<in> set vs"
          using dom by blast
        have "k = vi_name v" using stack_nameE(2) [OF names [OF kv(3)]] kv(1,2) by simp
        with False kv(3) show False by blast
      qed
      ultimately show ?thesis by simp
    qed
    also have "\<dots> \<longleftrightarrow> map_of (bt_of_list ?named) k = Some w" unfolding bt.look_collect ..
    finally show "map_of (bt_of_list ?entries) k = Some w \<longleftrightarrow> map_of (bt_of_list ?named) k = Some w" .
  qed
  then show ?thesis
    by (simp add: flatten_and_convert_first_level_keys_to_snake_case_def flat)
qed

definition carried_name :: "text_lib \<Rightarrow> module_resp \<Rightarrow> bool \<Rightarrow> string \<Rightarrow> bool" where
  "carried_name text module is_stack name \<longleftrightarrow>
     (if is_stack
      then stack_name text (concat (List.map (\<lambda>p. List.map tfv_name (pv_tf_variables p)) (mr_tf_providers module))) name
      else to_snake_case text (to_camel_case text name) = name)"

text \<open>
  C15: When the names survive the case conversions, as publication requires, the claim of the builder
  carries every variable that is set to the server under the name and with the value of the form, and
  nothing else: the nesting of a stack's variables by instance and both renamings cancel out.
\<close>

theorem form_variables_reach_server:
  assumes "\<And>v. v \<in> set (included lib (cb_variable_inputs cb)) \<Longrightarrow> carried_name (fl_text lib) module (cb_is_stack cb) (vi_name v)"
  shows "map_option (claim_variables (fl_text lib) module (cb_is_stack cb)) (claim_values (fl_text lib) (form_deployment lib cb module))
    = Some (module_inputs lib (cb_variable_inputs cb))"
proof (cases "cb_is_stack cb")
  case True
  with assms show ?thesis
    using stack_inputs_back [of "included lib (cb_variable_inputs cb)" lib]
    by (simp add: claim_values_def form_deployment_def claim_variables_def stack_inputs_def module_inputs_def carried_name_def)
next
  case False
  with assms show ?thesis
    using module_inputs_back [of lib "cb_variable_inputs cb" "fl_text lib"]
    by (simp add: claim_values_def form_deployment_def claim_variables_def module_inputs_def carried_name_def)
qed

section \<open>A form\<close>

definition demo_form_lib :: form_lib where
  "demo_form_lib = \<lparr>fl_text = demo_lib, fl_parse_json = (\<lambda>s. if s = ''5'' then Some (JNumber (PosInt 5)) else None),
     fl_json_str = (\<lambda>v. case v of JString s \<Rightarrow> quoted s | _ \<Rightarrow> ''null''), fl_yaml_str = (\<lambda>_. ''{}'')\<rparr>"

definition ports_variable :: tf_variable where
  "ports_variable = tf_variable_default\<lparr>tfv_name := ''ports'', tfv_type := JString ''list(number)'', tfv_default := None\<rparr>"

definition ports_form :: claim_form where
  "ports_form = new_form\<lparr>cb_showing_claim_builder := True, cb_source_module := Some demo_module,
     cb_variable_inputs := [from_tf_variable demo_form_lib ports_variable]\<rparr>"

definition stack_form :: claim_form where
  "stack_form = new_form\<lparr>cb_showing_claim_builder := True, cb_is_stack := True, cb_source_stack := Some demo_module,
     cb_variable_inputs := [(from_tf_variable demo_form_lib (ports_variable\<lparr>tfv_name := ''net__bucket_name''\<rparr>))\<lparr>vi_user_value := ''b''\<rparr>]\<rparr>"

lemma ascii_keys_never_panic_witness:
  "\<exists>cb'. form_keys demo_form_lib [KeyChar CHR ''a'', KeyDown, KeyChar CHR ''b'', KeyLeft, KeyBackspace, KeyEnd, KeyEsc]
     (open_for_module demo_form_lib demo_module new_form) = Some cb' \<and> shown_ok cb'"
  by (rule ascii_keys_never_panic [where module = demo_module and cb = new_form]) (simp_all add: is_ascii_def)

lemma mixed_type_blocks_claim_witness:
  "validate_all_fields demo_form_lib ports_form \<noteq> Inr ()
     \<and> (\<exists>err. toggle_preview demo_form_lib ports_form = Some (ports_form\<lparr>cb_validation_error := Some err\<rparr>))"
proof (rule mixed_type_blocks_claim)
  let ?v = "from_tf_variable demo_form_lib ports_variable"
  show "?v \<in> set (cb_variable_inputs ports_form)" by (simp add: ports_form_def)
  show "vi_is_required ?v" by code_simp
  show "\<not> cb_show_preview ports_form" by code_simp
  show "type_has ?v [''bool'', ''number'', ''int'']" by code_simp
  show "type_has ?v [''map'', ''object'', ''list'', ''array'', ''set'']" by code_simp
qed

lemma form_variables_reach_server_witness:
  "map_option (claim_variables demo_lib demo_module True) (claim_values demo_lib (form_deployment demo_form_lib stack_form demo_module))
    = Some (JObject [(''net__bucket_name'', JString ''b'')])"
proof -
  have "carried_name (fl_text demo_form_lib) demo_module (cb_is_stack stack_form) (vi_name v)"
    if "v \<in> set (included demo_form_lib (cb_variable_inputs stack_form))" for v
  proof -
    from that have "v \<in> set (cb_variable_inputs stack_form)" by (simp add: included_def)
    then have "vi_name v = ''net__bucket_name''"
      by (simp add: stack_form_def from_tf_variable_def Let_def ports_variable_def)
    moreover have "carried_name (fl_text demo_form_lib) demo_module (cb_is_stack stack_form) ''net__bucket_name''"
      by code_simp
    ultimately show ?thesis by simp
  qed
  note form_variables_reach_server [OF this]
  moreover have "module_inputs demo_form_lib (cb_variable_inputs stack_form) = JObject [(''net__bucket_name'', JString ''b'')]"
    by code_simp
  moreover have "cb_is_stack stack_form" "fl_text demo_form_lib = demo_lib"
    by (simp_all add: stack_form_def demo_form_lib_def)
  ultimately show ?thesis by simp
qed

text \<open>
  What the assumptions leave out: a character of two bytes moves the cursor by one, into its middle,
  and the next one panics. And Home on the region moves the cursor of the first variable.
\<close>

lemma accented_name_panics:
  "form_keys lib [KeyChar CHR 0xE9, KeyChar CHR ''a''] (open_for_module lib demo_module new_form) = None"
  by (simp add: open_for_module_def initialize_from_module_def demo_module_def new_form_def form_key_def form_insert_char_def
      str_insert_def utf8_width_def Let_def)

lemma home_on_region_moves_variable:
  "map_option (\<lambda>cb. (cb_region_cursor cb, List.map vi_cursor_position (cb_variable_inputs cb)))
     (form_home (ports_form\<lparr>cb_selected_field_index := 1, cb_region := ''eu'', cb_region_cursor := 2,
        cb_variable_inputs := [(from_tf_variable demo_form_lib ports_variable)\<lparr>vi_user_value := ''5'', vi_cursor_position := 1\<rparr>]\<rparr>))
   = Some (2, [0])"
  by code_simp

end
