(* ===== verification/Tui_State.thy ===== *)
theory Tui_State
  imports Claim_Form_Properties
begin

text \<open>
  The state of the terminal interface (\<open>cli/src/tui/app.rs\<close> with \<open>state/\<close>): what is listed, selected,
  shown in the detail and events views and in the modals, and the operations on it that are not
  asynchronous.

  The code keeps most of it twice, in fields of \<open>App\<close> and in the state modules that are to replace
  them. The model groups the fields of a module into a record and has that record twice, \<open>ap_detail\<close>
  for the fields and \<open>ap_detail_state\<close> for the module. The symbols that decorate messages are left
  out of the texts.
\<close>

section \<open>Data\<close>

record tui_module =
  tm_module :: string
  tm_module_name :: string
  tm_version :: string
  tm_track :: string
  tm_reference :: string
  tm_timestamp :: string
  tm_deprecated :: bool
  tm_deprecated_message :: "string option"

record grouped_module =
  gm_module :: string
  gm_module_name :: string
  gm_stable_version :: "string option"
  gm_rc_version :: "string option"
  gm_beta_version :: "string option"
  gm_alpha_version :: "string option"
  gm_dev_version :: "string option"
  gm_has_deprecated :: bool
  gm_stable_deprecated :: bool
  gm_rc_deprecated :: bool
  gm_beta_deprecated :: bool
  gm_alpha_deprecated :: bool
  gm_dev_deprecated :: bool

record tui_deployment =
  td_status :: string
  td_deployment_id :: string
  td_project_id :: string
  td_region :: string
  td_module :: string
  td_module_version :: string
  td_environment :: string
  td_epoch :: "128 word"
  td_timestamp :: string
  td_reference :: string

record project_data =
  pd_project_id :: string
  pd_name :: string
  pd_description :: string
  pd_regions :: "string list"

datatype view = ViewModules | ViewStacks | ViewPolicies | ViewDeployments

datatype pending_action =
    NoAction | LoadModules | LoadStacks | LoadDeployments
  | ShowModuleDetail nat | ShowStackDetail nat | ShowDeploymentDetail nat
  | ShowModuleVersions nat | ShowStackVersions nat | LoadModalVersions
  | ShowDeploymentEvents nat | LoadJobLogs string | LoadChangeRecord string string string string
  | ReapplyDeployment nat | DestroyDeployment nat
  | ReloadCurrentDeploymentDetail | SaveClaimToFile | RunClaimFromBuilder

datatype nav_item =
    NavGeneral | NavComposition | NavVariablesHeader | NavVariableFolder string
  | NavVariable "string option" string bool
  | NavOutputsHeader | NavOutputFolder string | NavOutput "string option" string
  | NavDependencies | NavPolicyResults | NavLogs

text \<open>The lists; \<open>lp_track_switched\<close> says that \<open>last_track_switch\<close> holds an instant.\<close>

record list_panel =
  lp_selected_index :: nat
  lp_modules :: "tui_module list"
  lp_stacks :: "tui_module list"
  lp_deployments :: "tui_deployment list"
  lp_current_track :: string
  lp_available_tracks :: "string list"
  lp_selected_track_index :: nat
  lp_track_switched :: bool

record detail_panel =
  dp_showing_detail :: bool
  dp_detail_content :: string
  dp_detail_module :: "module_resp option"
  dp_detail_stack :: "module_resp option"
  dp_detail_deployment :: "deployment_resp option"
  dp_detail_nav_items :: "nav_item list"
  dp_detail_browser_index :: nat
  dp_detail_focus_right :: bool
  dp_detail_scroll :: "16 word"
  dp_detail_visible_lines :: "16 word"
  dp_detail_total_lines :: "16 word"
  dp_detail_wrap_text :: bool

datatype events_log_view = EventsView | LogsView | ChangelogView

record events_panel =
  ep_showing_events :: bool
  ep_events_deployment_id :: string
  ep_events_data :: "event_data list"
  ep_events_browser_index :: nat
  ep_events_scroll :: "16 word"
  ep_events_focus_right :: bool
  ep_events_logs :: "string list"
  ep_events_current_job_id :: string
  ep_events_log_view :: events_log_view
  ep_change_records :: "(string, infra_change_record) hash_map"

record versions_modal =
  vm_showing_versions_modal :: bool
  vm_modal_module_name :: string
  vm_modal_track :: string
  vm_modal_track_index :: nat
  vm_modal_available_tracks :: "string list"
  vm_modal_versions :: "tui_module list"
  vm_modal_selected_index :: nat

record confirmation =
  cf_showing_confirmation :: bool
  cf_confirmation_message :: string
  cf_confirmation_deployment_index :: "nat option"
  cf_confirmation_action :: pending_action

datatype filter_type = FilterNone | FilterProject | FilterRegion

record filter_modal =
  fm_showing_filter_modal :: bool
  fm_filter_type :: filter_type
  fm_filter_options :: "string list"
  fm_filter_selected_index :: nat

record search_state =
  ss_search_mode :: bool
  ss_search_query :: string

record app =
  ap_should_quit :: bool
  ap_current_view :: view
  ap_is_loading :: bool
  ap_loading_message :: string
  ap_pending_action :: pending_action
  ap_available_projects :: "string list"
  ap_available_regions :: "string list"
  ap_selected_project_filter :: "string option"
  ap_selected_region_filter :: "string option"
  ap_project_selection_made :: bool
  ap_projects_cache :: "project_data list option"
  ap_pending_deployment_requests :: nat
  ap_list :: list_panel
  ap_view_state :: list_panel
  ap_detail :: detail_panel
  ap_detail_state :: detail_panel
  ap_events :: events_panel
  ap_events_state :: events_panel
  ap_events_project_id :: string
  ap_events_region :: string
  ap_versions :: versions_modal
  ap_versions_state :: versions_modal
  ap_confirmation :: confirmation
  ap_confirmation_state :: confirmation
  ap_filter :: filter_modal
  ap_search :: search_state
  ap_search_state :: search_state
  ap_form :: claim_form

section \<open>The start\<close>

definition new_list :: list_panel where
  "new_list = \<lparr>lp_selected_index = 0, lp_modules = [], lp_stacks = [], lp_deployments = [], lp_current_track = ''all'',
     lp_available_tracks = [''all'', ''stable'', ''rc'', ''beta'', ''alpha'', ''dev''], lp_selected_track_index = 0,
     lp_track_switched = False\<rparr>"

definition new_detail :: detail_panel where
  "new_detail = \<lparr>dp_showing_detail = False, dp_detail_content = [], dp_detail_module = None, dp_detail_stack = None,
     dp_detail_deployment = None, dp_detail_nav_items = [], dp_detail_browser_index = 0, dp_detail_focus_right = False,
     dp_detail_scroll = 0, dp_detail_visible_lines = 0, dp_detail_total_lines = 0, dp_detail_wrap_text = True\<rparr>"

definition new_events :: events_panel where
  "new_events = \<lparr>ep_showing_events = False, ep_events_deployment_id = [], ep_events_data = [], ep_events_browser_index = 0,
     ep_events_scroll = 0, ep_events_focus_right = False, ep_events_logs = [], ep_events_current_job_id = [],
     ep_events_log_view = EventsView, ep_change_records = []\<rparr>"

definition new_versions :: versions_modal where
  "new_versions = \<lparr>vm_showing_versions_modal = False, vm_modal_module_name = [], vm_modal_track = [],
     vm_modal_track_index = 0, vm_modal_available_tracks = [], vm_modal_versions = [], vm_modal_selected_index = 0\<rparr>"

definition no_confirmation :: confirmation where
  "no_confirmation = \<lparr>cf_showing_confirmation = False, cf_confirmation_message = [],
     cf_confirmation_deployment_index = None, cf_confirmation_action = NoAction\<rparr>"

definition no_filter :: filter_modal where
  "no_filter = \<lparr>fm_showing_filter_modal = False, fm_filter_type = FilterNone, fm_filter_options = [],
     fm_filter_selected_index = 0\<rparr>"

definition new_search :: search_state where
  "new_search = \<lparr>ss_search_mode = False, ss_search_query = []\<rparr>"

definition new_app :: app where
  "new_app = \<lparr>ap_should_quit = False, ap_current_view = ViewModules, ap_is_loading = False, ap_loading_message = [],
     ap_pending_action = LoadModules, ap_available_projects = [], ap_available_regions = [],
     ap_selected_project_filter = None, ap_selected_region_filter = None, ap_project_selection_made = False,
     ap_projects_cache = None, ap_pending_deployment_requests = 0, ap_list = new_list, ap_view_state = new_list,
     ap_detail = new_detail, ap_detail_state = new_detail, ap_events = new_events, ap_events_state = new_events,
     ap_events_project_id = [], ap_events_region = [], ap_versions = new_versions, ap_versions_state = new_versions,
     ap_confirmation = no_confirmation, ap_confirmation_state = no_confirmation, ap_filter = no_filter,
     ap_search = new_search, ap_search_state = new_search, ap_form = new_form\<rparr>"

section \<open>Updates of a part\<close>

definition on_list :: "(list_panel \<Rightarrow> list_panel) \<Rightarrow> app \<Rightarrow> app" where
  "on_list f a = a\<lparr>ap_list := f (ap_list a)\<rparr>"

definition on_detail :: "(detail_panel \<Rightarrow> detail_panel) \<Rightarrow> app \<Rightarrow> app" where
  "on_detail f a = a\<lparr>ap_detail := f (ap_detail a)\<rparr>"

definition on_detail_state :: "(detail_panel \<Rightarrow> detail_panel) \<Rightarrow> app \<Rightarrow> app" where
  "on_detail_state f a = a\<lparr>ap_detail_state := f (ap_detail_state a)\<rparr>"

definition on_events :: "(events_panel \<Rightarrow> events_panel) \<Rightarrow> app \<Rightarrow> app" where
  "on_events f a = a\<lparr>ap_events := f (ap_events a)\<rparr>"

definition on_versions :: "(versions_modal \<Rightarrow> versions_modal) \<Rightarrow> app \<Rightarrow> app" where
  "on_versions f a = a\<lparr>ap_versions := f (ap_versions a)\<rparr>"

definition on_filter :: "(filter_modal \<Rightarrow> filter_modal) \<Rightarrow> app \<Rightarrow> app" where
  "on_filter f a = a\<lparr>ap_filter := f (ap_filter a)\<rparr>"

definition set_loading :: "string \<Rightarrow> app \<Rightarrow> app" where
  "set_loading message a = a\<lparr>ap_is_loading := True, ap_loading_message := message\<rparr>"

definition clear_loading :: "app \<Rightarrow> app" where
  "clear_loading a = a\<lparr>ap_is_loading := False, ap_loading_message := []\<rparr>"

definition schedule_action :: "pending_action \<Rightarrow> app \<Rightarrow> app" where
  "schedule_action action a = a\<lparr>ap_pending_action := action\<rparr>"

definition has_pending_action :: "app \<Rightarrow> bool" where
  "has_pending_action a \<longleftrightarrow> ap_pending_action a \<noteq> NoAction"

section \<open>What is listed\<close>

definition searches :: "search_state \<Rightarrow> bool" where
  "searches s \<longleftrightarrow> ss_search_mode s \<and> ss_search_query s \<noteq> []"

definition matches_search :: "search_state \<Rightarrow> string list \<Rightarrow> bool" where
  "matches_search s texts \<longleftrightarrow> (\<exists>t \<in> set texts. contains_str (to_lowercase t) (to_lowercase (ss_search_query s)))"

text \<open>A version of a module in its group: a group that is new, and one that is there.\<close>

definition first_of_group :: "tui_module \<Rightarrow> grouped_module" where
  "first_of_group m =
     (let track = tm_track m; version = (\<lambda>t. if track = t then Some (tm_version m) else None);
          deprecated = (\<lambda>t. track = t \<and> tm_deprecated m) in
      \<lparr>gm_module = tm_module m, gm_module_name = tm_module_name m,
       gm_stable_version = version ''stable'', gm_rc_version = version ''rc'', gm_beta_version = version ''beta'',
       gm_alpha_version = version ''alpha'', gm_dev_version = version ''dev'', gm_has_deprecated = tm_deprecated m,
       gm_stable_deprecated = deprecated ''stable'', gm_rc_deprecated = deprecated ''rc'',
       gm_beta_deprecated = deprecated ''beta'', gm_alpha_deprecated = deprecated ''alpha'',
       gm_dev_deprecated = deprecated ''dev''\<rparr>)"

definition next_of_group :: "tui_module \<Rightarrow> grouped_module \<Rightarrow> grouped_module" where
  "next_of_group m g =
     (let track = tm_track m; version = (\<lambda>t old. if track = t then Some (tm_version m) else old);
          deprecated = (\<lambda>t old. old \<or> track = t \<and> tm_deprecated m) in
      g\<lparr>gm_stable_version := version ''stable'' (gm_stable_version g), gm_rc_version := version ''rc'' (gm_rc_version g),
        gm_beta_version := version ''beta'' (gm_beta_version g), gm_alpha_version := version ''alpha'' (gm_alpha_version g),
        gm_dev_version := version ''dev'' (gm_dev_version g),
        gm_has_deprecated := gm_has_deprecated g \<or> tm_deprecated m,
        gm_stable_deprecated := deprecated ''stable'' (gm_stable_deprecated g),
        gm_rc_deprecated := deprecated ''rc'' (gm_rc_deprecated g),
        gm_beta_deprecated := deprecated ''beta'' (gm_beta_deprecated g),
        gm_alpha_deprecated := deprecated ''alpha'' (gm_alpha_deprecated g),
        gm_dev_deprecated := deprecated ''dev'' (gm_dev_deprecated g)\<rparr>)"

definition add_to_group :: "tui_module \<Rightarrow> (string, grouped_module) hash_map \<Rightarrow> (string, grouped_module) hash_map" where
  "add_to_group m groups =
     hm_insert (tm_module_name m)
       (case map_of groups (tm_module_name m) of Some g \<Rightarrow> next_of_group m g | None \<Rightarrow> first_of_group m) groups"

definition group_by_name :: "search_state \<Rightarrow> tui_module list \<Rightarrow> grouped_module list" where
  "group_by_name s ms =
     (let filtered = (if searches s
                      then filter (\<lambda>m. matches_search s [tm_module_name m, tm_module m, tm_version m, tm_track m]) ms
                      else ms)
      in sort_key gm_module_name (List.map snd (fold add_to_group filtered [])))"

definition get_filtered_modules :: "app \<Rightarrow> grouped_module list" where
  "get_filtered_modules a = group_by_name (ap_search a) (lp_modules (ap_list a))"

definition get_filtered_stacks :: "app \<Rightarrow> grouped_module list" where
  "get_filtered_stacks a = group_by_name (ap_search a) (lp_stacks (ap_list a))"

text \<open>The id in a project filter \<open>Name (ID)\<close>.\<close>

definition filter_project_id :: "string \<Rightarrow> string" where
  "filter_project_id project =
     (if CHR ''('' \<in> set project \<and> ends_with project '')''
      then rev (dropWhile (\<lambda>c. c = CHR '')'') (rev (last (split_on (CHR ''('') project))))
      else project)"

definition get_filtered_deployments :: "app \<Rightarrow> tui_deployment list" where
  "get_filtered_deployments a =
     (let in_project = (case ap_selected_project_filter a of
                          None \<Rightarrow> (\<lambda>d. True) | Some p \<Rightarrow> (\<lambda>d. td_project_id d = filter_project_id p));
          in_region = (case ap_selected_region_filter a of None \<Rightarrow> (\<lambda>d. True) | Some r \<Rightarrow> (\<lambda>d. td_region d = r));
          found = (\<lambda>d. \<not> searches (ap_search a)
                       \<or> matches_search (ap_search a) [td_module d, td_module_version d, td_environment d, td_deployment_id d])
      in filter found (filter in_region (filter in_project (lp_deployments (ap_list a)))))"

section \<open>Moving in a list\<close>

definition listed_count :: "app \<Rightarrow> nat" where
  "listed_count a =
     (case ap_current_view a of
        ViewModules \<Rightarrow> length (lp_modules (ap_list a))
      | ViewStacks \<Rightarrow> length (lp_stacks (ap_list a))
      | ViewDeployments \<Rightarrow> length (lp_deployments (ap_list a))
      | ViewPolicies \<Rightarrow> 0)"

definition filtered_count :: "app \<Rightarrow> nat" where
  "filtered_count a =
     (case ap_current_view a of
        ViewModules \<Rightarrow> length (get_filtered_modules a)
      | ViewStacks \<Rightarrow> length (get_filtered_stacks a)
      | ViewDeployments \<Rightarrow> length (get_filtered_deployments a)
      | ViewPolicies \<Rightarrow> 0)"

definition select_index :: "nat \<Rightarrow> app \<Rightarrow> app" where
  "select_index i = on_list (\<lambda>l. l\<lparr>lp_selected_index := i\<rparr>)"

abbreviation selected :: "app \<Rightarrow> nat" where
  "selected a \<equiv> lp_selected_index (ap_list a)"

definition move_up :: "app \<Rightarrow> app" where
  "move_up a = (if selected a > 0 then select_index (selected a - 1) a else a)"

definition move_down :: "app \<Rightarrow> app" where
  "move_down a =
     (let count = (if ss_search_mode (ap_search a) \<or> ss_search_query (ap_search a) \<noteq> [] then filtered_count a else listed_count a)
      in if selected a < count - 1 then select_index (selected a + 1) a else a)"

definition page_up :: "app \<Rightarrow> app" where
  "page_up a = select_index (selected a - 10) a"

definition page_down :: "app \<Rightarrow> app" where
  "page_down a = select_index (min (selected a + 10) (listed_count a - 1)) a"

definition switch_track :: "nat \<Rightarrow> list_panel \<Rightarrow> list_panel" where
  "switch_track i l =
     l\<lparr>lp_selected_track_index := i, lp_current_track := lp_available_tracks l ! i, lp_track_switched := True\<rparr>"

definition next_track :: "app \<Rightarrow> app" where
  "next_track a =
     (if lp_selected_track_index (ap_list a) < length (lp_available_tracks (ap_list a)) - 1
      then on_list (switch_track (lp_selected_track_index (ap_list a) + 1)) a else a)"

definition previous_track :: "app \<Rightarrow> app" where
  "previous_track a =
     (if lp_selected_track_index (ap_list a) > 0
      then on_list (switch_track (lp_selected_track_index (ap_list a) - 1)) a else a)"

text \<open>\<open>elapsed\<close>: a second has passed since the switch.\<close>

definition check_track_switch_timeout :: "bool \<Rightarrow> app \<Rightarrow> app" where
  "check_track_switch_timeout elapsed a0 =
     (if lp_track_switched (ap_list a0) \<and> elapsed then
        let a = on_list (\<lambda>l. l\<lparr>lp_track_switched := False\<rparr>) a0 in
        if ap_current_view a = ViewModules \<and> \<not> ap_is_loading a then schedule_action LoadModules a else a
      else a0)"

definition change_view :: "view \<Rightarrow> app \<Rightarrow> app" where
  "change_view v a =
     (if ap_current_view a \<noteq> v then
        let cleared = on_list (\<lambda>l. case v of
                ViewModules \<Rightarrow> l\<lparr>lp_modules := []\<rparr>
              | ViewStacks \<Rightarrow> l\<lparr>lp_stacks := []\<rparr>
              | ViewDeployments \<Rightarrow> l\<lparr>lp_deployments := []\<rparr>
              | ViewPolicies \<Rightarrow> l) a
        in on_detail (\<lambda>d. d\<lparr>dp_showing_detail := False\<rparr>) (select_index 0 (cleared\<lparr>ap_current_view := v\<rparr>))
      else a)"

section \<open>Search\<close>

definition set_search :: "(search_state \<Rightarrow> search_state) \<Rightarrow> app \<Rightarrow> app" where
  "set_search f a = select_index 0 (a\<lparr>ap_search_state := f (ap_search_state a), ap_search := f (ap_search a)\<rparr>)"

definition enter_search_mode :: "app \<Rightarrow> app" where
  "enter_search_mode = set_search (\<lambda>s. s\<lparr>ss_search_mode := True, ss_search_query := []\<rparr>)"

definition exit_search_mode :: "app \<Rightarrow> app" where
  "exit_search_mode = set_search (\<lambda>s. s\<lparr>ss_search_mode := False, ss_search_query := []\<rparr>)"

definition search_input :: "char \<Rightarrow> app \<Rightarrow> app" where
  "search_input c = set_search (\<lambda>s. s\<lparr>ss_search_query := ss_search_query s @ [c]\<rparr>)"

definition search_backspace :: "app \<Rightarrow> app" where
  "search_backspace = set_search (\<lambda>s. s\<lparr>ss_search_query := butlast (ss_search_query s)\<rparr>)"

end
