(* ===== verification/Tui_Keys.thy ===== *)
theory Tui_Keys
  imports Tui_State
begin

text \<open>
  The keys of the terminal interface: \<open>cli/src/tui/events/\<close> with the operations of \<open>app.rs\<close> they call,
  and \<open>handlers.rs\<close>, which decides who gets a key. A panic is \<open>None\<close>.
\<close>

text \<open>
  What is not in the repository: the libraries of the form, \<open>serde_json::to_string_pretty\<close>, the time
  format of \<open>chrono\<close>, and the order in which a hash map of jobs is read.
\<close>

record tui_lib =
  ul_form :: form_lib
  ul_pretty_module :: "module_resp \<Rightarrow> string"
  ul_pretty_deployment :: "deployment_resp \<Rightarrow> string"
  ul_time :: "128 word \<Rightarrow> string"
  ul_job_order :: "(string \<times> event_data list) list \<Rightarrow> (string \<times> event_data list) list"

definition sat_sub :: "16 word \<Rightarrow> 16 word \<Rightarrow> 16 word" where
  "sat_sub x y = (if y \<le> x then x - y else 0)"

definition sat_add :: "16 word \<Rightarrow> 16 word \<Rightarrow> 16 word" where
  "sat_add x y = (if unat x + unat y < 2 ^ 16 then x + y else - 1)"

section \<open>The detail view\<close>

definition show_message :: "string \<Rightarrow> app \<Rightarrow> app" where
  "show_message message = on_detail_state (\<lambda>d. d\<lparr>dp_showing_detail := True, dp_detail_content := message,
     dp_detail_module := None, dp_detail_stack := None, dp_detail_deployment := None, dp_detail_nav_items := [],
     dp_detail_scroll := 0, dp_detail_browser_index := 0\<rparr>)"

definition show_error :: "string \<Rightarrow> app \<Rightarrow> app" where
  "show_error err = show_message (''Error: '' @ err)"

definition close_panel :: "detail_panel \<Rightarrow> detail_panel" where
  "close_panel d = d\<lparr>dp_showing_detail := False, dp_detail_scroll := 0, dp_detail_browser_index := 0,
     dp_detail_focus_right := False, dp_detail_module := None, dp_detail_stack := None, dp_detail_deployment := None,
     dp_detail_nav_items := [], dp_detail_total_lines := 0\<rparr>"

definition close_detail :: "app \<Rightarrow> app" where
  "close_detail a = on_detail close_panel (on_detail_state close_panel a)"

definition get_max_detail_scroll :: "app \<Rightarrow> 16 word" where
  "get_max_detail_scroll a =
     (let total = dp_detail_total_lines (ap_detail a); visible = dp_detail_visible_lines (ap_detail a)
      in if total \<le> visible then 0 else sat_add (sat_sub total visible) (total div 5))"

definition scroll_detail :: "(16 word \<Rightarrow> 16 word) \<Rightarrow> app \<Rightarrow> app" where
  "scroll_detail f = on_detail (\<lambda>d. d\<lparr>dp_detail_scroll := f (dp_detail_scroll d)\<rparr>)"

definition scroll_detail_up :: "app \<Rightarrow> app" where
  "scroll_detail_up = scroll_detail (\<lambda>s. sat_sub s 1)"

definition scroll_detail_down :: "app \<Rightarrow> app" where
  "scroll_detail_down a = scroll_detail (\<lambda>s. min (sat_add s 1) (get_max_detail_scroll a)) a"

definition scroll_detail_page_up :: "app \<Rightarrow> app" where
  "scroll_detail_page_up = scroll_detail (\<lambda>s. sat_sub s 10)"

definition scroll_detail_page_down :: "app \<Rightarrow> app" where
  "scroll_detail_page_down a = scroll_detail (\<lambda>s. min (sat_add s 10) (get_max_detail_scroll a)) a"

text \<open>The sections of a deployment before its logs: which index the logs have.\<close>

definition filled_object :: "json \<Rightarrow> bool" where
  "filled_object v \<longleftrightarrow> (case as_object v of Some kvs \<Rightarrow> kvs \<noteq> [] | None \<Rightarrow> False)"

definition logs_section_index :: "deployment_resp option \<Rightarrow> nat" where
  "logs_section_index deployment =
     (case deployment of
        None \<Rightarrow> 0
      | Some d \<Rightarrow> 1 + of_bool (filled_object (dr_variables d)) + of_bool (filled_object (dr_output d))
                 + of_bool (dr_dependencies d \<noteq> []) + of_bool (dr_policy_results d \<noteq> []))"

definition calculate_logs_section_index :: "app \<Rightarrow> nat" where
  "calculate_logs_section_index a = logs_section_index (dp_detail_deployment (ap_detail a))"

definition check_and_load_logs_if_needed :: "app \<Rightarrow> app" where
  "check_and_load_logs_if_needed a =
     (case dp_detail_deployment (ap_detail a) of
        None \<Rightarrow> a
      | Some d \<Rightarrow>
          if dp_detail_browser_index (ap_detail a) = calculate_logs_section_index a
             \<and> ep_events_current_job_id (ap_events a) \<noteq> dr_job_id d
          then schedule_action (LoadJobLogs (dr_job_id d)) a else a)"

definition browse_detail :: "nat \<Rightarrow> app \<Rightarrow> app" where
  "browse_detail i a =
     check_and_load_logs_if_needed (on_detail (\<lambda>d. d\<lparr>dp_detail_browser_index := i, dp_detail_scroll := 0\<rparr>) a)"

definition detail_browser_up :: "app \<Rightarrow> app" where
  "detail_browser_up a =
     (let i = dp_detail_browser_index (ap_detail a) in if i > 0 then browse_detail (i - 1) a else a)"

definition detail_browser_down :: "app \<Rightarrow> app" where
  "detail_browser_down a =
     (let i = dp_detail_browser_index (ap_detail a) in
      if i < length (dp_detail_nav_items (ap_detail a)) - 1 then browse_detail (i + 1) a else a)"

definition detail_focus :: "bool \<Rightarrow> app \<Rightarrow> app" where
  "detail_focus right = on_detail (\<lambda>d. d\<lparr>dp_detail_focus_right := right\<rparr>)"

definition toggle_detail_wrap :: "app \<Rightarrow> app" where
  "toggle_detail_wrap = on_detail (\<lambda>d. d\<lparr>dp_detail_wrap_text := \<not> dp_detail_wrap_text d\<rparr>)"

section \<open>The events view\<close>

definition close_events :: "app \<Rightarrow> app" where
  "close_events a =
     on_events (\<lambda>e. new_events\<lparr>ep_change_records := ep_change_records e\<rparr>) (a\<lparr>ap_events_state := new_events\<rparr>)"

definition first_epoch :: "event_data list \<Rightarrow> nat" where
  "first_epoch es = (case es of [] \<Rightarrow> 0 | e # _ \<Rightarrow> unat (ev_epoch e))"

definition get_grouped_events :: "tui_lib \<Rightarrow> app \<Rightarrow> (string \<times> event_data list) list" where
  "get_grouped_events lib a =
     (let jobs = fold (\<lambda>e m. hm_insert (ev_job_id e) ((case map_of m (ev_job_id e) of Some es \<Rightarrow> es | None \<Rightarrow> []) @ [e]) m)
                   (ep_events_data (ap_events a)) []
      in sort_key (\<lambda>(job, es). - int (first_epoch es)) (ul_job_order lib jobs))"

definition browse_events :: "nat \<Rightarrow> app \<Rightarrow> app" where
  "browse_events i = on_events (\<lambda>e. e\<lparr>ep_events_browser_index := i, ep_events_scroll := 0, ep_events_log_view := EventsView\<rparr>)"

definition events_browser_up :: "app \<Rightarrow> app" where
  "events_browser_up a =
     (let i = ep_events_browser_index (ap_events a) in if i > 0 then browse_events (i - 1) a else a)"

definition events_browser_down :: "tui_lib \<Rightarrow> app \<Rightarrow> app" where
  "events_browser_down lib a =
     (let i = ep_events_browser_index (ap_events a) in
      if i < length (get_grouped_events lib a) - 1 then browse_events (i + 1) a else a)"

definition scroll_events :: "(16 word \<Rightarrow> 16 word) \<Rightarrow> app \<Rightarrow> app" where
  "scroll_events f = on_events (\<lambda>e. e\<lparr>ep_events_scroll := f (ep_events_scroll e)\<rparr>)"

definition events_max_scroll :: "app \<Rightarrow> 16 word" where
  "events_max_scroll a = sat_sub (dp_detail_total_lines (ap_detail a)) (dp_detail_visible_lines (ap_detail a))"

definition scroll_events_up :: "app \<Rightarrow> app" where
  "scroll_events_up = scroll_events (\<lambda>s. sat_sub s 1)"

definition scroll_events_down :: "app \<Rightarrow> app" where
  "scroll_events_down a = scroll_events (\<lambda>s. min (sat_add s 1) (events_max_scroll a)) a"

definition scroll_events_page_up :: "app \<Rightarrow> app" where
  "scroll_events_page_up = scroll_events (\<lambda>s. sat_sub s 10)"

definition scroll_events_page_down :: "app \<Rightarrow> app" where
  "scroll_events_page_down a = scroll_events (\<lambda>s. min (sat_add s 10) (events_max_scroll a)) a"

definition events_focus :: "bool \<Rightarrow> app \<Rightarrow> app" where
  "events_focus right = on_events (\<lambda>e. e\<lparr>ep_events_focus_right := right\<rparr>)"

definition show_log_view :: "events_log_view \<Rightarrow> app \<Rightarrow> app" where
  "show_log_view v = on_events (\<lambda>e. e\<lparr>ep_events_log_view := v, ep_events_scroll := 0\<rparr>)"

definition events_log_view_next :: "app \<Rightarrow> app" where
  "events_log_view_next a =
     show_log_view (case ep_events_log_view (ap_events a) of
         EventsView \<Rightarrow> LogsView | LogsView \<Rightarrow> ChangelogView | ChangelogView \<Rightarrow> EventsView) a"

section \<open>The modals\<close>

definition show_filter_modal :: "filter_type \<Rightarrow> string list \<Rightarrow> string option \<Rightarrow> app \<Rightarrow> app" where
  "show_filter_modal kind options current = on_filter (\<lambda>f. f\<lparr>fm_showing_filter_modal := True, fm_filter_type := kind,
     fm_filter_selected_index :=
       (case current of
          None \<Rightarrow> 0
        | Some selection \<Rightarrow> if selection \<in> set options then length (takeWhile (\<lambda>x. x \<noteq> selection) options) else 0),
     fm_filter_options := options\<rparr>)"

definition close_filter_modal :: "app \<Rightarrow> app" where
  "close_filter_modal = on_filter (\<lambda>_. no_filter)"

definition clear_versions :: "versions_modal \<Rightarrow> versions_modal" where
  "clear_versions v = v\<lparr>vm_showing_versions_modal := False, vm_modal_versions := [], vm_modal_module_name := [],
     vm_modal_available_tracks := [], vm_modal_selected_index := 0\<rparr>"

definition close_modal :: "app \<Rightarrow> app" where
  "close_modal a = on_versions clear_versions (a\<lparr>ap_versions_state := clear_versions (ap_versions_state a)\<rparr>)"

definition modal_move_up :: "app \<Rightarrow> app" where
  "modal_move_up = on_versions (\<lambda>v. if vm_modal_selected_index v > 0
     then v\<lparr>vm_modal_selected_index := vm_modal_selected_index v - 1\<rparr> else v)"

definition modal_move_down :: "app \<Rightarrow> app" where
  "modal_move_down = on_versions (\<lambda>v. if vm_modal_selected_index v < length (vm_modal_versions v) - 1
     then v\<lparr>vm_modal_selected_index := vm_modal_selected_index v + 1\<rparr> else v)"

text \<open>A track the modal can switch to, and the switch to the first of some indexes that has one.\<close>

definition modal_has_track :: "app \<Rightarrow> string \<Rightarrow> bool" where
  "modal_has_track a track \<longleftrightarrow> track \<noteq> ''all'' \<and> track \<in> set (vm_modal_available_tracks (ap_versions a))"

definition modal_switch :: "app \<Rightarrow> nat list \<Rightarrow> app" where
  "modal_switch a indexes =
     (case find (\<lambda>i. modal_has_track a (lp_available_tracks (ap_list a) ! i)) indexes of
        None \<Rightarrow> a
      | Some i \<Rightarrow> on_versions (\<lambda>v. v\<lparr>vm_modal_track_index := i, vm_modal_track := lp_available_tracks (ap_list a) ! i\<rparr>) a)"

definition modal_next_track :: "app \<Rightarrow> app" where
  "modal_next_track a = modal_switch a [vm_modal_track_index (ap_versions a) + 1 ..< length (lp_available_tracks (ap_list a))]"

text \<open>The loop down to index 0; an index outside the tracks panics.\<close>

definition modal_previous_track :: "app \<Rightarrow> app option" where
  "modal_previous_track a =
     (if vm_modal_track_index (ap_versions a) > length (lp_available_tracks (ap_list a)) then None
      else Some (modal_switch a (rev [0 ..< vm_modal_track_index (ap_versions a)])))"

definition modal_reload_versions :: "app \<Rightarrow> app" where
  "modal_reload_versions = schedule_action LoadModalVersions"

text \<open>A confirmation is shown by writing both copies.\<close>

definition set_confirmation :: "string \<Rightarrow> nat option \<Rightarrow> pending_action \<Rightarrow> app \<Rightarrow> app" where
  "set_confirmation message i action a =
     (let c = \<lparr>cf_showing_confirmation = True, cf_confirmation_message = message,
               cf_confirmation_deployment_index = i, cf_confirmation_action = action\<rparr>
      in a\<lparr>ap_confirmation_state := c, ap_confirmation := c\<rparr>)"

definition close_confirmation :: "app \<Rightarrow> app" where
  "close_confirmation a = a\<lparr>ap_confirmation := no_confirmation, ap_confirmation_state := no_confirmation\<rparr>"

definition confirm_action :: "app \<Rightarrow> app" where
  "confirm_action a =
     (let action = cf_confirmation_action (ap_confirmation a)
      in close_confirmation (if action \<noteq> NoAction then schedule_action action a else a))"

section \<open>Keys in a modal\<close>

definition handle_confirmation_key :: "key \<Rightarrow> app \<Rightarrow> app" where
  "handle_confirmation_key k a =
     (case k of
        KeyChar c \<Rightarrow> (if c = CHR ''y'' \<or> c = CHR ''Y'' then confirm_action a
        else if c = CHR ''n'' \<or> c = CHR ''N'' then close_confirmation a else a)
      | KeyEsc \<Rightarrow> close_confirmation a
      | _ \<Rightarrow> a)"

definition show_version :: "app \<Rightarrow> app" where
  "show_version a =
     (let i = vm_modal_selected_index (ap_versions a)
      in schedule_action (if ap_current_view a = ViewStacks then ShowStackDetail i else ShowModuleDetail i) a)"

definition handle_versions_key :: "key \<Rightarrow> app \<Rightarrow> app option" where
  "handle_versions_key k a =
     (case k of
        KeyEsc \<Rightarrow> Some (close_modal a)
      | KeyUp \<Rightarrow> Some (modal_move_up a)
      | KeyDown \<Rightarrow> Some (modal_move_down a)
      | KeyLeft \<Rightarrow> modal_previous_track a
      | KeyRight \<Rightarrow> Some (modal_next_track a)
      | KeyEnter \<Rightarrow> Some (show_version a)
      | KeyChar c \<Rightarrow> Some (if c = CHR ''q'' then close_modal a
             else if c = CHR ''k'' then modal_move_up a
             else if c = CHR ''j'' then modal_move_down a
             else if c = CHR ''r'' then modal_reload_versions a
             else if c = CHR '' '' then show_version a else a)
      | _ \<Rightarrow> Some a)"

definition filter_up :: "app \<Rightarrow> app" where
  "filter_up = on_filter (\<lambda>f. if fm_filter_selected_index f > 0
     then f\<lparr>fm_filter_selected_index := fm_filter_selected_index f - 1\<rparr> else f)"

definition filter_down :: "app \<Rightarrow> app" where
  "filter_down = on_filter (\<lambda>f. if fm_filter_selected_index f < length (fm_filter_options f)
     then f\<lparr>fm_filter_selected_index := fm_filter_selected_index f + 1\<rparr> else f)"

definition apply_filter :: "app \<Rightarrow> app" where
  "apply_filter a =
     (let f = ap_filter a;
          chosen = (if fm_filter_selected_index f \<ge> length (fm_filter_options f) then None
                    else Some (fm_filter_options f ! fm_filter_selected_index f));
          reload = (\<lambda>a. schedule_action LoadDeployments (select_index 0 (a\<lparr>ap_project_selection_made := True\<rparr>)))
      in close_filter_modal
           (case fm_filter_type f of
              FilterProject \<Rightarrow> reload (a\<lparr>ap_selected_project_filter := chosen\<rparr>)
            | FilterRegion \<Rightarrow> reload (a\<lparr>ap_selected_region_filter := chosen\<rparr>)
            | FilterNone \<Rightarrow> a))"

definition handle_filter_key :: "key \<Rightarrow> app \<Rightarrow> app" where
  "handle_filter_key k a =
     (case k of
        KeyEsc \<Rightarrow> close_filter_modal a
      | KeyUp \<Rightarrow> filter_up a
      | KeyDown \<Rightarrow> filter_down a
      | KeyEnter \<Rightarrow> apply_filter a
      | KeyChar c \<Rightarrow> (if c = CHR ''q'' then close_filter_modal a
        else if c = CHR ''k'' then filter_up a
        else if c = CHR ''j'' then filter_down a else a)
      | _ \<Rightarrow> a)"

section \<open>Keys in the claim builder\<close>

definition blank :: string where
  "blank = [CHR 0x0A, CHR 0x0A]"

definition run_message :: "string \<Rightarrow> string \<Rightarrow> string" where
  "run_message name region =
     ''Are you sure you want to run this deployment claim?'' @ blank @ ''Deployment: '' @ name @ [CHR 0x0A] @ ''Region: ''
     @ region @ blank @ ''This will create or update the deployment.'' @ blank
     @ ''Press '' @ CHR 0x27 # ''y'' @ CHR 0x27 # '' to confirm or '' @ CHR 0x27 # ''n'' @ CHR 0x27 # '' to cancel.''"

definition generate_unless_shown :: "tui_lib \<Rightarrow> claim_form \<Rightarrow> claim_form option" where
  "generate_unless_shown lib cb = (if cb_show_preview cb then Some cb else generate_yaml (ul_form lib) cb)"

text \<open>\<open>clipboard\<close> is what the system clipboard answers to the text. The run asks first.\<close>

definition copy_claim :: "tui_lib \<Rightarrow> (string \<Rightarrow> (string, unit) result) \<Rightarrow> app \<Rightarrow> app option" where
  "copy_claim lib clipboard a0 =
     map_option (\<lambda>cb.
       let a = a0\<lparr>ap_form := cb\<rparr> in
       case validate_all_fields (ul_form lib) cb of
         Inl err \<Rightarrow> show_error (''Cannot copy claim: '' @ err) a
       | Inr _ \<Rightarrow> (case clipboard (cb_generated_yaml cb) of
                    Inr _ \<Rightarrow> show_message ''Claim YAML copied to clipboard!'' a
                  | Inl err \<Rightarrow> show_error err a))
       (generate_unless_shown lib (ap_form a0))"

definition save_claim :: "tui_lib \<Rightarrow> app \<Rightarrow> app option" where
  "save_claim lib a =
     map_option (\<lambda>cb. schedule_action SaveClaimToFile (a\<lparr>ap_form := cb\<rparr>)) (generate_unless_shown lib (ap_form a))"

definition ask_run_claim :: "tui_lib \<Rightarrow> app \<Rightarrow> app option" where
  "ask_run_claim lib a0 =
     map_option (\<lambda>cb.
       let a = a0\<lparr>ap_form := cb\<rparr> in
       case validate_all_fields (ul_form lib) cb of
         Inl err \<Rightarrow> show_error (''Cannot run claim: '' @ err) a
       | Inr _ \<Rightarrow>
           let c = \<lparr>cf_showing_confirmation = True,
                    cf_confirmation_message = run_message (cb_deployment_name cb) (cb_region cb),
                    cf_confirmation_deployment_index = cf_confirmation_deployment_index (ap_confirmation a),
                    cf_confirmation_action = RunClaimFromBuilder\<rparr>
           in a\<lparr>ap_confirmation_state := c\<lparr>cf_confirmation_deployment_index :=
                   cf_confirmation_deployment_index (ap_confirmation_state a)\<rparr>, ap_confirmation := c\<rparr>)
       (generate_unless_shown lib (ap_form a0))"

definition on_form :: "(claim_form \<Rightarrow> claim_form option) \<Rightarrow> app \<Rightarrow> app option" where
  "on_form f a = map_option (\<lambda>cb. a\<lparr>ap_form := cb\<rparr>) (f (ap_form a))"

definition ctrl_claim_key :: "tui_lib \<Rightarrow> (string \<Rightarrow> (string, unit) result) \<Rightarrow> key \<Rightarrow> app \<Rightarrow> app option option" where
  "ctrl_claim_key lib clipboard k a =
     (case k of
        KeyChar c \<Rightarrow> (if c = CHR ''p'' then Some (on_form (toggle_preview (ul_form lib)) a)
        else if c = CHR ''y'' then Some (copy_claim lib clipboard a)
        else if c = CHR ''s'' then Some (save_claim lib a)
        else if c = CHR ''r'' then Some (ask_run_claim lib a)
        else None)
      | _ \<Rightarrow> None)"

definition handle_claim_key ::
  "tui_lib \<Rightarrow> (string \<Rightarrow> (string, unit) result) \<Rightarrow> key \<Rightarrow> bool \<Rightarrow> app \<Rightarrow> app option" where
  "handle_claim_key lib clipboard k ctrl a =
     (case (if ctrl then ctrl_claim_key lib clipboard k a else None) of
        Some r \<Rightarrow> r
      | None \<Rightarrow> on_form (form_key (ul_form lib) k) a)"

section \<open>Keys in the events and detail views\<close>

definition selected_job :: "tui_lib \<Rightarrow> app \<Rightarrow> (string \<times> event_data list) option" where
  "selected_job lib a =
     (let jobs = get_grouped_events lib a; i = ep_events_browser_index (ap_events a)
      in if i < length jobs then Some (jobs ! i) else None)"

definition open_logs :: "tui_lib \<Rightarrow> app \<Rightarrow> app" where
  "open_logs lib a0 =
     (let a = show_log_view LogsView a0 in
      case selected_job lib a of None \<Rightarrow> a | Some (job_id, _) \<Rightarrow> schedule_action (LoadJobLogs job_id) a)"

definition open_changelog :: "tui_lib \<Rightarrow> app \<Rightarrow> app" where
  "open_changelog lib a0 =
     (let a = show_log_view ChangelogView a0 in
      case selected_job lib a of
        Some (job_id, e # _) \<Rightarrow>
          if hm_contains (ep_change_records (ap_events a)) job_id then a
          else schedule_action (LoadChangeRecord job_id (ev_environment e) (ev_deployment_id e) (to_uppercase (ev_event e))) a
      | _ \<Rightarrow> a)"

definition reload_logs :: "app \<Rightarrow> app" where
  "reload_logs a = schedule_action (LoadJobLogs (ep_events_current_job_id (ap_events a))) a"

definition events_up :: "app \<Rightarrow> app" where
  "events_up a = (if ep_events_focus_right (ap_events a) then scroll_events_up a else events_browser_up a)"

definition events_down :: "tui_lib \<Rightarrow> app \<Rightarrow> app" where
  "events_down lib a = (if ep_events_focus_right (ap_events a) then scroll_events_down a else events_browser_down lib a)"

definition handle_events_key :: "tui_lib \<Rightarrow> key \<Rightarrow> app \<Rightarrow> app" where
  "handle_events_key lib k a =
     (case k of
        KeyEsc \<Rightarrow> close_events a
      | KeyTab \<Rightarrow> events_log_view_next a
      | KeyLeft \<Rightarrow> events_focus False a
      | KeyRight \<Rightarrow> events_focus True a
      | KeyUp \<Rightarrow> events_up a
      | KeyDown \<Rightarrow> events_down lib a
      | KeyPageUp \<Rightarrow> (if ep_events_focus_right (ap_events a) then scroll_events_page_up a else a)
      | KeyPageDown \<Rightarrow> (if ep_events_focus_right (ap_events a) then scroll_events_page_down a else a)
      | KeyChar c \<Rightarrow> (if c = CHR ''q'' then close_events a
        else if c = CHR ''r'' then
          if ep_events_log_view (ap_events a) = LogsView \<and> ep_events_current_job_id (ap_events a) \<noteq> [] then reload_logs a else a
        else if c = CHR ''1'' then show_log_view EventsView a
        else if c = CHR ''2'' then open_logs lib a
        else if c = CHR ''3'' then open_changelog lib a
        else if c = CHR ''h'' then events_focus False a
        else if c = CHR ''l'' then events_focus True a
        else if c = CHR ''k'' then events_up a
        else if c = CHR ''j'' then events_down lib a else a)
      | _ \<Rightarrow> a)"

definition reload_detail :: "app \<Rightarrow> app" where
  "reload_detail a =
     (let shown = dp_detail_deployment (ap_detail a) \<noteq> None; i = dp_detail_browser_index (ap_detail a) in
      if shown \<and> i = calculate_logs_section_index a \<and> ep_events_current_job_id (ap_events a) \<noteq> [] then reload_logs a
      else if shown \<and> i = 0 then schedule_action ReloadCurrentDeploymentDetail a
      else a)"

definition open_claim_builder :: "tui_lib \<Rightarrow> app \<Rightarrow> app" where
  "open_claim_builder lib a =
     (case dp_detail_module (ap_detail_state a) of
        Some module \<Rightarrow> a\<lparr>ap_form := open_for_module (ul_form lib) module (ap_form a)\<rparr>
      | None \<Rightarrow>
          (case dp_detail_stack (ap_detail_state a) of
             Some stack \<Rightarrow> a\<lparr>ap_form := open_for_stack (ul_form lib) stack (ap_form a)\<rparr>
           | None \<Rightarrow> a))"

definition detail_up :: "app \<Rightarrow> app" where
  "detail_up a = (if dp_detail_focus_right (ap_detail a) then scroll_detail_up a else detail_browser_up a)"

definition detail_down :: "app \<Rightarrow> app" where
  "detail_down a = (if dp_detail_focus_right (ap_detail a) then scroll_detail_down a else detail_browser_down a)"

definition handle_detail_key :: "tui_lib \<Rightarrow> key \<Rightarrow> app \<Rightarrow> app" where
  "handle_detail_key lib k a =
     (case k of
        KeyEsc \<Rightarrow> close_detail a
      | KeyLeft \<Rightarrow> detail_focus False a
      | KeyRight \<Rightarrow> detail_focus True a
      | KeyUp \<Rightarrow> detail_up a
      | KeyDown \<Rightarrow> detail_down a
      | KeyPageUp \<Rightarrow> (if dp_detail_focus_right (ap_detail a) then scroll_detail_page_up a else a)
      | KeyPageDown \<Rightarrow> (if dp_detail_focus_right (ap_detail a) then scroll_detail_page_down a else a)
      | KeyChar c \<Rightarrow> (if c = CHR ''q'' then close_detail a
        else if c = CHR ''r'' then reload_detail a
        else if c = CHR ''c'' then open_claim_builder lib a
        else if c = CHR ''h'' then detail_focus False a
        else if c = CHR ''l'' then detail_focus True a
        else if c = CHR ''w'' then toggle_detail_wrap a
        else if c = CHR ''k'' then detail_up a
        else if c = CHR ''j'' then detail_down a else a)
      | _ \<Rightarrow> a)"

section \<open>Keys in the lists\<close>

definition deployment_lines :: "tui_deployment \<Rightarrow> string" where
  "deployment_lines d =
     ''Deployment ID: '' @ td_deployment_id d @ [CHR 0x0A] @ ''Module: '' @ td_module d @ '' ('' @ td_module_version d @ '')''
     @ [CHR 0x0A] @ ''Environment: '' @ td_environment d @ [CHR 0x0A] @ ''Status: '' @ td_status d"

definition confirm_line :: string where
  "confirm_line = ''Press '' @ CHR 0x27 # ''y'' @ CHR 0x27 # '' to confirm or '' @ CHR 0x27 # ''n'' @ CHR 0x27 # '' to cancel.''"

definition reapply_message :: "tui_deployment \<Rightarrow> string" where
  "reapply_message d = ''Are you sure you want to reapply this deployment?'' @ blank @ deployment_lines d @ blank @ confirm_line"

definition destroy_message :: "tui_deployment \<Rightarrow> string" where
  "destroy_message d =
     (if td_reference d \<noteq> [] \<and> contains_str (td_reference d) ''github'' then
        ''IMPORTANT WARNING: GITHUB-MANAGED DEPLOYMENT'' @ blank
        @ ''This deployment'' @ CHR 0x27 # ''s lifecycle is managed in Git!'' @ [CHR 0x0A]
        @ ''Deleting it here may cause inconsistencies!'' @ blank @ deployment_lines d @ [CHR 0x0A]
        @ ''Managed in: '' @ td_reference d @ blank
        @ ''DISCOURAGED: The deployment will also the handled'' @ [CHR 0x0A]
        @ ''by your GitOps workflow if the manifest still exists in Git.'' @ blank
        @ ''Instead, remove the deployment from your Git repository'' @ [CHR 0x0A]
        @ ''and let your GitOps process handle the deletion.'' @ blank
        @ ''Are you ABSOLUTELY SURE you want to proceed?'' @ [CHR 0x0A] @ confirm_line
      else
        ''WARNING: Are you sure you want to DESTROY this deployment?'' @ blank @ deployment_lines d @ blank
        @ ''This action cannot be undone!'' @ [CHR 0x0A] @ confirm_line)"

definition ask_deployment :: "(tui_deployment \<Rightarrow> string) \<Rightarrow> (nat \<Rightarrow> pending_action) \<Rightarrow> app \<Rightarrow> app" where
  "ask_deployment message action a =
     (if ap_current_view a = ViewDeployments \<and> selected a < length (get_filtered_deployments a)
      then set_confirmation (message (get_filtered_deployments a ! selected a)) (Some (selected a)) (action (selected a)) a
      else a)"

definition go_to :: "view \<Rightarrow> pending_action \<Rightarrow> app \<Rightarrow> app" where
  "go_to v action a = schedule_action action (change_view v a)"

definition open_filter :: "filter_type \<Rightarrow> app \<Rightarrow> app" where
  "open_filter kind a =
     (if ap_current_view a = ViewDeployments then
        if kind = FilterProject then show_filter_modal kind (ap_available_projects a) (ap_selected_project_filter a) a
        else show_filter_modal kind (ap_available_regions a) (ap_selected_region_filter a) a
      else a)"

definition reload_list :: "app \<Rightarrow> app" where
  "reload_list a =
     (case ap_current_view a of
        ViewModules \<Rightarrow> schedule_action LoadModules a
      | ViewStacks \<Rightarrow> schedule_action LoadStacks a
      | ViewDeployments \<Rightarrow> schedule_action LoadDeployments a
      | ViewPolicies \<Rightarrow> a)"

definition show_deployment_events_key :: "app \<Rightarrow> app" where
  "show_deployment_events_key a =
     (if ap_current_view a = ViewDeployments \<and> selected a < length (get_filtered_deployments a)
      then schedule_action (ShowDeploymentEvents (selected a)) a else a)"

definition open_selected :: "app \<Rightarrow> app" where
  "open_selected a =
     (case ap_current_view a of
        ViewModules \<Rightarrow> schedule_action (ShowModuleVersions (selected a)) a
      | ViewStacks \<Rightarrow> schedule_action (ShowStackVersions (selected a)) a
      | ViewDeployments \<Rightarrow> schedule_action (ShowDeploymentDetail (selected a)) a
      | ViewPolicies \<Rightarrow> a)"

definition in_tracks :: "(app \<Rightarrow> app) \<Rightarrow> app \<Rightarrow> app" where
  "in_tracks f a = (if ap_current_view a = ViewModules \<or> ap_current_view a = ViewStacks then f a else a)"

definition main_key :: "key \<Rightarrow> app \<Rightarrow> app" where
  "main_key k a =
     (case k of
        KeyUp \<Rightarrow> move_up a
      | KeyDown \<Rightarrow> move_down a
      | KeyPageUp \<Rightarrow> page_up a
      | KeyPageDown \<Rightarrow> page_down a
      | KeyLeft \<Rightarrow> in_tracks previous_track a
      | KeyRight \<Rightarrow> in_tracks next_track a
      | KeyEnter \<Rightarrow> open_selected a
      | KeyChar c \<Rightarrow> (if c = CHR ''q'' then a\<lparr>ap_should_quit := True\<rparr>
        else if c = CHR ''1'' then go_to ViewModules LoadModules a
        else if c = CHR ''2'' then go_to ViewStacks LoadStacks a
        else if c = CHR ''3'' then change_view ViewPolicies a
        else if c = CHR ''4'' then go_to ViewDeployments LoadDeployments a
        else if c = CHR ''/'' then enter_search_mode a
        else if c = CHR ''e'' then show_deployment_events_key a
        else if c = CHR ''P'' then open_filter FilterProject a
        else if c = CHR ''R'' then open_filter FilterRegion a
        else if c = CHR ''r'' then reload_list a
        else if c = CHR ''k'' then move_up a
        else if c = CHR ''j'' then move_down a
        else if c = CHR '' '' then open_selected a else a)
      | _ \<Rightarrow> a)"

definition handle_main_key :: "key \<Rightarrow> bool \<Rightarrow> app \<Rightarrow> app" where
  "handle_main_key k ctrl a =
     (if ctrl \<and> k = KeyChar CHR ''r'' then ask_deployment reapply_message ReapplyDeployment a
      else if ctrl \<and> k = KeyChar CHR ''d'' then ask_deployment destroy_message DestroyDeployment a
      else main_key k a)"

definition search_enter :: "app \<Rightarrow> app" where
  "search_enter a =
     (case ap_current_view a of
        ViewModules \<Rightarrow> schedule_action (ShowModuleDetail (selected a)) a
      | ViewStacks \<Rightarrow> schedule_action (ShowStackDetail (selected a)) a
      | ViewDeployments \<Rightarrow> schedule_action (ShowDeploymentDetail (selected a)) a
      | ViewPolicies \<Rightarrow> a)"

definition handle_search_key :: "key \<Rightarrow> app \<Rightarrow> app" where
  "handle_search_key k a =
     (case k of
        KeyEsc \<Rightarrow> exit_search_mode a
      | KeyEnter \<Rightarrow> search_enter a
      | KeyUp \<Rightarrow> move_up a
      | KeyDown \<Rightarrow> move_down a
      | KeyPageUp \<Rightarrow> page_up a
      | KeyPageDown \<Rightarrow> page_down a
      | KeyBackspace \<Rightarrow> search_backspace a
      | KeyChar c \<Rightarrow> (if c = CHR ''q'' then exit_search_mode a else search_input c a)
      | _ \<Rightarrow> a)"

section \<open>Who gets a key\<close>

definition handle_key_event ::
  "tui_lib \<Rightarrow> (string \<Rightarrow> (string, unit) result) \<Rightarrow> key \<Rightarrow> bool \<Rightarrow> app \<Rightarrow> app option" where
  "handle_key_event lib clipboard k ctrl a =
     (if ap_is_loading a then Some a
      else if cf_showing_confirmation (ap_confirmation a) then Some (handle_confirmation_key k a)
      else if vm_showing_versions_modal (ap_versions_state a) then handle_versions_key k a
      else if fm_showing_filter_modal (ap_filter a) then Some (handle_filter_key k a)
      else if cb_showing_claim_builder (ap_form a) then handle_claim_key lib clipboard k ctrl a
      else if ep_showing_events (ap_events_state a) then Some (handle_events_key lib k a)
      else if dp_showing_detail (ap_detail_state a) then Some (handle_detail_key lib k a)
      else if ss_search_mode (ap_search_state a) then Some (handle_search_key k a)
      else Some (handle_main_key k ctrl a))"

definition handle_event ::
  "tui_lib \<Rightarrow> (string \<Rightarrow> (string, unit) result) \<Rightarrow> key \<Rightarrow> bool \<Rightarrow> app \<Rightarrow> app option" where
  "handle_event lib clipboard k ctrl a =
     (if ctrl \<and> k = KeyChar CHR ''c'' then Some (a\<lparr>ap_should_quit := True\<rparr>) else handle_key_event lib clipboard k ctrl a)"

end
