(* ===== verification/Tui_Loop.thy ===== *)
theory Tui_Loop
  imports Tui_Keys
begin

text \<open>
  The main loop of the terminal interface (\<open>run_tui\<close> in \<open>cli/src/main.rs\<close>): the messages of background
  tasks, the actions a key has scheduled, and one turn of the loop with its calls to the outside. The
  tasks that have been spawned and not answered are part of the state, so that their messages can
  arrive in any turn and in any order.
\<close>

section \<open>Navigation items\<close>

definition grouped_items :: "('a \<Rightarrow> string) \<Rightarrow> 'a list \<Rightarrow> (string, 'a list) btree" where
  "grouped_items name xs =
     fold (\<lambda>x m. let parts = split_str ''__'' (name x);
                      module_name = (if length parts \<ge> 2 then hd parts else ''_other'')
                  in bt_insert module_name ((case map_of m module_name of Some ys \<Rightarrow> ys | None \<Rightarrow> []) @ [x]) m) xs []"

definition folder_items ::
  "(string \<Rightarrow> nav_item) \<Rightarrow> (string option \<Rightarrow> 'a \<Rightarrow> nav_item) \<Rightarrow> (string, 'a list) btree \<Rightarrow> nav_item list" where
  "folder_items folder item groups =
     concat (List.map (\<lambda>(module_name, xs).
       if module_name = ''_other'' then List.map (item None) xs
       else folder module_name # List.map (item (Some module_name)) xs) groups)"

definition variable_item :: "string option \<Rightarrow> tf_variable \<Rightarrow> nav_item" where
  "variable_item module_name v = NavVariable module_name (tfv_name v) (required v)"

definition output_item :: "string option \<Rightarrow> tf_output \<Rightarrow> nav_item" where
  "output_item module_name out = NavOutput module_name (tfo_name out)"

definition build_stack_nav_items :: "module_resp \<Rightarrow> nav_item list" where
  "build_stack_nav_items stack =
     [NavGeneral]
     @ (case mr_stack_data stack of Some sd \<Rightarrow> if sd_modules sd \<noteq> [] then [NavComposition] else [] | None \<Rightarrow> [])
     @ (if mr_tf_variables stack = [] then []
        else NavVariablesHeader # folder_items NavVariableFolder variable_item (grouped_items tfv_name (mr_tf_variables stack)))
     @ (if mr_tf_outputs stack = [] then []
        else NavOutputsHeader # folder_items NavOutputFolder output_item (grouped_items tfo_name (mr_tf_outputs stack)))"

definition build_module_nav_items :: "module_resp \<Rightarrow> nav_item list" where
  "build_module_nav_items module =
     [NavGeneral]
     @ (if mr_tf_variables module = [] then [] else NavVariablesHeader # List.map (variable_item None) (mr_tf_variables module))
     @ (if mr_tf_outputs module = [] then [] else NavOutputsHeader # List.map (output_item None) (mr_tf_outputs module))"

definition build_deployment_nav_items :: "deployment_resp \<Rightarrow> nav_item list" where
  "build_deployment_nav_items d =
     [NavGeneral]
     @ (if filled_object (dr_variables d) then [NavVariablesHeader] else [])
     @ (if filled_object (dr_output d) then [NavOutputsHeader] else [])
     @ (if dr_dependencies d \<noteq> [] then [NavDependencies] else [])
     @ (if dr_policy_results d \<noteq> [] then [NavPolicyResults] else [])
     @ [NavLogs]"

section \<open>Messages\<close>

datatype message =
    ModulesLoaded "(string, tui_module list) result"
  | StacksLoaded "(string, tui_module list) result"
  | DeploymentsLoaded "(string, tui_deployment list) result"
  | DeploymentDetailLoaded "(string, deployment_resp option) result"
  | DeploymentEventsLoaded "(string, string \<times> event_data list) result"
  | JobLogsLoaded "(string, string \<times> string list) result"
  | ChangeRecordLoaded "(string, string \<times> infra_change_record) result"
  | DeploymentsBatchLoaded "(string, tui_deployment list) result"
  | ProjectsLoaded "(string, project_data list) result"
  | OtherLoaded

definition newest_first :: "tui_deployment list \<Rightarrow> tui_deployment list" where
  "newest_first = sort_key (\<lambda>d. - int (unat (td_epoch d)))"

definition project_display :: "project_data \<Rightarrow> string" where
  "project_display p = pd_name p @ '' ('' @ pd_project_id p @ '')''"

text \<open>The filters after a batch: every project of the cache, under the last name it has there.\<close>

definition process_deployment_batch :: "tui_deployment list \<Rightarrow> app \<Rightarrow> app" where
  "process_deployment_batch batch a0 =
     (let deployments = newest_first (lp_deployments (ap_list a0) @ batch);
          projects = (case ap_projects_cache a0 of Some ps \<Rightarrow> ps | None \<Rightarrow> []);
          named = (\<lambda>i. case map_of (rev (List.map (\<lambda>p. (pd_project_id p, pd_name p)) projects)) i of
                         Some name \<Rightarrow> name @ '' ('' @ i @ '')'' | None \<Rightarrow> i);
          a = on_list (\<lambda>l. l\<lparr>lp_deployments := deployments\<rparr>) a0
      in select_index (min (selected a) (length deployments - 1))
           (a\<lparr>ap_available_projects := sort (List.map named (remdups (List.map pd_project_id projects))),
              ap_available_regions := sort (remdups (concat (List.map pd_regions projects)))\<rparr>))"

definition replace_deployments :: "tui_deployment list \<Rightarrow> app \<Rightarrow> app" where
  "replace_deployments new a =
     (let deployments = newest_first new; old = lp_deployments (ap_list a);
          a' = (on_list (\<lambda>l. l\<lparr>lp_deployments := deployments\<rparr>) a)\<lparr>ap_view_state := (ap_view_state a)\<lparr>lp_deployments := deployments\<rparr>\<rparr>
      in if selected a < length old then
           let wanted = td_deployment_id (old ! selected a) in
           select_index
             (if wanted \<in> td_deployment_id ` set deployments
              then length (takeWhile (\<lambda>d. td_deployment_id d \<noteq> wanted) deployments)
              else min (selected a) (length deployments - 1)) a'
         else a')"

definition show_loaded_deployment :: "tui_lib \<Rightarrow> deployment_resp option \<Rightarrow> app \<Rightarrow> app" where
  "show_loaded_deployment lib detail a =
     (case detail of
        Some d \<Rightarrow>
          let items = build_deployment_nav_items d; content = ul_pretty_deployment lib d in
          on_detail (\<lambda>p. p\<lparr>dp_detail_nav_items := items, dp_detail_deployment := Some d, dp_detail_content := content,
                          dp_showing_detail := True\<rparr>)
            (on_detail_state (\<lambda>p. p\<lparr>dp_showing_detail := True, dp_detail_deployment := Some d, dp_detail_module := None,
                          dp_detail_stack := None, dp_detail_nav_items := items, dp_detail_content := content,
                          dp_detail_scroll := 0, dp_detail_browser_index := 0, dp_detail_focus_right := False\<rparr>) a)
      | None \<Rightarrow>
          on_detail (\<lambda>p. p\<lparr>dp_detail_content := ''Deployment not found'', dp_detail_deployment := None,
                          dp_detail_nav_items := [], dp_showing_detail := True\<rparr>)
            (show_message ''Deployment not found'' a))"

primrec process_background_message :: "tui_lib \<Rightarrow> message \<Rightarrow> app \<Rightarrow> app" where
  "process_background_message lib (ModulesLoaded r) a =
     clear_loading (case r of
       Inr ms \<Rightarrow> (on_list (\<lambda>l. l\<lparr>lp_modules := ms\<rparr>) a)\<lparr>ap_view_state := (ap_view_state a)\<lparr>lp_modules := ms\<rparr>\<rparr>
     | Inl _ \<Rightarrow> a)"
| "process_background_message lib (StacksLoaded r) a =
     clear_loading (case r of
       Inr ms \<Rightarrow> (on_list (\<lambda>l. l\<lparr>lp_stacks := ms\<rparr>) a)\<lparr>ap_view_state := (ap_view_state a)\<lparr>lp_stacks := ms\<rparr>\<rparr>
     | Inl _ \<Rightarrow> a)"
| "process_background_message lib (DeploymentsLoaded r) a =
     clear_loading (case r of Inr ds \<Rightarrow> replace_deployments ds a | Inl _ \<Rightarrow> a)"
| "process_background_message lib (DeploymentsBatchLoaded r) a =
     (let a1 = (case r of Inr batch \<Rightarrow> process_deployment_batch batch a | Inl _ \<Rightarrow> a);
          a2 = a1\<lparr>ap_pending_deployment_requests := ap_pending_deployment_requests a1 - 1\<rparr>
      in if ap_pending_deployment_requests a2 = 0 then clear_loading a2 else a2)"
| "process_background_message lib (ProjectsLoaded r) a =
     (case r of Inr projects \<Rightarrow> a\<lparr>ap_projects_cache := Some projects\<rparr> | Inl _ \<Rightarrow> a)"
| "process_background_message lib (JobLogsLoaded r) a =
     clear_loading (case r of
       Inr (job_id, entries) \<Rightarrow>
         (on_events (\<lambda>e. e\<lparr>ep_events_logs := entries, ep_events_current_job_id := job_id\<rparr>) a)
           \<lparr>ap_events_state := (ap_events_state a)\<lparr>ep_events_logs := entries, ep_events_current_job_id := job_id\<rparr>\<rparr>
     | Inl _ \<Rightarrow> on_events (\<lambda>e. e\<lparr>ep_events_logs := []\<rparr>) a)"
| "process_background_message lib (ChangeRecordLoaded r) a =
     clear_loading (case r of
       Inr (job_id, rec) \<Rightarrow>
         (on_events (\<lambda>e. e\<lparr>ep_change_records := hm_insert job_id rec (ep_change_records e)\<rparr>) a)
           \<lparr>ap_events_state := (ap_events_state a)\<lparr>ep_change_records :=
              hm_insert job_id rec (ep_change_records (ap_events_state a))\<rparr>\<rparr>
     | Inl _ \<Rightarrow> a)"
| "process_background_message lib (DeploymentEventsLoaded r) a =
     clear_loading (case r of
       Inr (deployment_id, events) \<Rightarrow>
         let show = (\<lambda>e. e\<lparr>ep_events_deployment_id := deployment_id, ep_events_data := events, ep_showing_events := True,
                          ep_events_browser_index := 0, ep_events_scroll := 0, ep_events_focus_right := False\<rparr>)
         in (on_events show a)\<lparr>ap_events_state := show (ap_events_state a)\<rparr>
     | Inl _ \<Rightarrow> a)"
| "process_background_message lib (DeploymentDetailLoaded r) a =
     clear_loading (case r of Inr detail \<Rightarrow> show_loaded_deployment lib detail a | Inl _ \<Rightarrow> a)"
| "process_background_message lib OtherLoaded a = clear_loading a"

section \<open>What an action asks for\<close>

text \<open>Tasks that answer with a message, and the calls that change something outside.\<close>

datatype task =
    TaskProjects | TaskDeployments string string | TaskDetail string string string string
  | TaskLogs string | TaskRecord string

datatype tui_call =
    CallDestroy string string string string
  | CallReapply string string string yaml
  | CallRun string yaml
  | CallWrite string string

text \<open>The answers of the cloud, the file system and \<open>serde_yaml\<close> in one turn.\<close>

record answers =
  an_http :: bool
  an_projects :: "(string, project_data list) result"
  an_all_deployments :: "(string, deployment_resp list) result"
  an_latest_modules :: "string \<Rightarrow> (string, module_resp list) result"
  an_latest_stacks :: "string \<Rightarrow> (string, module_resp list) result"
  an_module_version :: "string \<Rightarrow> string \<Rightarrow> string \<Rightarrow> (string, module_resp option) result"
  an_stack_version :: "string \<Rightarrow> string \<Rightarrow> string \<Rightarrow> (string, module_resp option) result"
  an_module_versions :: "string \<Rightarrow> string \<Rightarrow> (string, module_resp list) result"
  an_stack_versions :: "string \<Rightarrow> string \<Rightarrow> (string, module_resp list) result"
  an_deployment :: "string \<Rightarrow> string \<Rightarrow> string \<Rightarrow> string \<Rightarrow> (string, deployment_resp option) result"
  an_events :: "string \<Rightarrow> string \<Rightarrow> string \<Rightarrow> string \<Rightarrow> (string, event_data list) result"
  an_hostname :: "(string, string) result"
  an_yaml :: "string \<Rightarrow> (string, yaml) result"
  an_call :: "tui_call \<Rightarrow> (string, string \<times> string) result"
  an_clipboard :: "string \<Rightarrow> (string, unit) result"

datatype turn_outcome = Goes | Fails string | Panics

record act =
  ac_app :: app
  ac_tasks :: "task list"
  ac_calls :: "tui_call list"
  ac_outcome :: turn_outcome

definition done_with :: "app \<Rightarrow> act" where
  "done_with a = \<lparr>ac_app = a, ac_tasks = [], ac_calls = [], ac_outcome = Goes\<rparr>"

definition failed_with :: "string \<Rightarrow> app \<Rightarrow> act" where
  "failed_with e a = \<lparr>ac_app = a, ac_tasks = [], ac_calls = [], ac_outcome = Fails e\<rparr>"

definition panicked_at :: "app \<Rightarrow> act" where
  "panicked_at a = \<lparr>ac_app = a, ac_tasks = [], ac_calls = [], ac_outcome = Panics\<rparr>"

definition spawns :: "task list \<Rightarrow> app \<Rightarrow> act" where
  "spawns ts a = \<lparr>ac_app = a, ac_tasks = ts, ac_calls = [], ac_outcome = Goes\<rparr>"

definition called :: "tui_call \<Rightarrow> app \<Rightarrow> act" where
  "called c a = \<lparr>ac_app = a, ac_tasks = [], ac_calls = [c], ac_outcome = Goes\<rparr>"

section \<open>Lists\<close>

definition to_tui_module :: "module_resp \<Rightarrow> tui_module" where
  "to_tui_module m = \<lparr>tm_module = mr_module m, tm_module_name = mr_module_name m, tm_version = mr_version m,
     tm_track = mr_track m, tm_reference = mr_reference m, tm_timestamp = mr_timestamp m,
     tm_deprecated = mr_deprecated m, tm_deprecated_message = mr_deprecated_message m\<rparr>"

definition to_tui_deployment :: "tui_lib \<Rightarrow> deployment_resp \<Rightarrow> tui_deployment" where
  "to_tui_deployment lib d = \<lparr>td_status = status_str (dr_status d), td_deployment_id = dr_deployment_id d,
     td_project_id = dr_project_id d, td_region = dr_region d, td_module = dr_module d,
     td_module_version = dr_module_version d,
     td_environment = (if dr_environment d = [] then ''default'' else dr_environment d), td_epoch = dr_epoch d,
     td_timestamp = (if dr_epoch d > 0 then ul_time lib (dr_epoch d) else ''Unknown''), td_reference = dr_reference d\<rparr>"

definition track_filter :: "app \<Rightarrow> string" where
  "track_filter a = (let t = lp_current_track (ap_list a) in if t = ''all'' then [] else t)"

definition load_modules :: "answers \<Rightarrow> app \<Rightarrow> act" where
  "load_modules an a =
     (case an_latest_modules an (track_filter a) of
        Inl e \<Rightarrow> failed_with e a
      | Inr ms \<Rightarrow> done_with (clear_loading (on_list (\<lambda>l. l\<lparr>lp_modules := sort_key tm_module_name (List.map to_tui_module ms),
                    lp_selected_index := 0\<rparr>) a)))"

definition load_stacks :: "answers \<Rightarrow> app \<Rightarrow> act" where
  "load_stacks an a =
     (case an_latest_stacks an (track_filter a) of
        Inl e \<Rightarrow> failed_with e a
      | Inr ms \<Rightarrow> done_with (clear_loading (on_list (\<lambda>l. l\<lparr>lp_stacks := sort_key tm_module_name (List.map to_tui_module ms),
                    lp_selected_index := 0\<rparr>) a)))"

text \<open>The requests of a list of deployments: one for every project and region that passes the filters.\<close>

definition passes :: "string option \<Rightarrow> string \<Rightarrow> bool" where
  "passes selection s \<longleftrightarrow> (case selection of None \<Rightarrow> True | Some x \<Rightarrow> x = s)"

definition requests :: "app \<Rightarrow> project_data list \<Rightarrow> task list" where
  "requests a projects =
     concat (List.map (\<lambda>p.
       if passes (ap_selected_project_filter a) (project_display p)
       then List.map (TaskDeployments (pd_project_id p)) (filter (passes (ap_selected_region_filter a)) (pd_regions p))
       else []) projects)"

definition request_deployments :: "project_data list \<Rightarrow> app \<Rightarrow> act" where
  "request_deployments projects a0 =
     (let a = (on_list (\<lambda>l. l\<lparr>lp_deployments := []\<rparr>) a0)
            \<lparr>ap_available_projects := sort (List.map project_display projects),
             ap_available_regions := sort (remdups (concat (List.map pd_regions projects)))\<rparr>;
          reqs = requests a projects
      in if \<not> ap_project_selection_made a then
           done_with (show_filter_modal FilterProject (ap_available_projects a) (ap_selected_project_filter a) (a\<lparr>ap_is_loading := False\<rparr>))
         else if reqs = [] then done_with (clear_loading a)
         else spawns reqs (a\<lparr>ap_pending_deployment_requests := length reqs\<rparr>))"

definition load_deployments :: "tui_lib \<Rightarrow> answers \<Rightarrow> app \<Rightarrow> act" where
  "load_deployments lib an a =
     (case ap_projects_cache a of
        Some projects \<Rightarrow> request_deployments projects a
      | None \<Rightarrow>
          (case an_projects an of
             Inr projects \<Rightarrow> request_deployments projects (a\<lparr>ap_projects_cache := Some projects\<rparr>)
           | Inl _ \<Rightarrow>
               if an_http an then done_with (clear_loading a)
               else (case an_all_deployments an of
                       Inl e \<Rightarrow> failed_with e a
                     | Inr ds \<Rightarrow> done_with (clear_loading (process_deployment_batch (List.map (to_tui_deployment lib) ds) a)))))"

section \<open>Details\<close>

text \<open>The version chosen in the modal, or the first one listed of the selected group.\<close>

definition chosen_version :: "app \<Rightarrow> grouped_module list \<Rightarrow> tui_module list \<Rightarrow> tui_module option" where
  "chosen_version a groups ms =
     (if vm_showing_versions_modal (ap_versions a) then
        let vs = vm_modal_versions (ap_versions a); i = vm_modal_selected_index (ap_versions a)
        in if i < length vs then Some (vs ! i) else None
      else if selected a < length groups
      then find (\<lambda>m. tm_module_name m = gm_module_name (groups ! selected a)) ms
      else None)"

definition close_shown_modal :: "app \<Rightarrow> app" where
  "close_shown_modal a = (if vm_showing_versions_modal (ap_versions a) then close_modal a else a)"

definition show_module_detail :: "tui_lib \<Rightarrow> answers \<Rightarrow> app \<Rightarrow> act" where
  "show_module_detail lib an a =
     (case chosen_version a (get_filtered_modules a) (lp_modules (ap_list a)) of
        None \<Rightarrow> done_with a
      | Some m \<Rightarrow>
          (case an_module_version an (tm_track m) (tm_module m) (tm_version m) of
             Inl e \<Rightarrow> failed_with e a
           | Inr (Some detail) \<Rightarrow>
               let items = build_module_nav_items detail; content = ul_pretty_module lib detail in
               done_with (clear_loading (close_shown_modal
                 (on_detail (\<lambda>d. d\<lparr>dp_detail_nav_items := items, dp_detail_content := content,
                                  dp_detail_module := Some detail, dp_showing_detail := True, dp_detail_scroll := 0\<rparr>)
                   (on_detail_state (\<lambda>d. d\<lparr>dp_showing_detail := True, dp_detail_module := Some detail, dp_detail_stack := None,
                                  dp_detail_deployment := None, dp_detail_nav_items := items, dp_detail_content := content,
                                  dp_detail_scroll := 0, dp_detail_browser_index := 0, dp_detail_focus_right := False\<rparr>) a))))
           | Inr None \<Rightarrow>
               done_with (clear_loading (close_shown_modal
                 (on_detail (\<lambda>d. d\<lparr>dp_detail_content := ''Module not found'', dp_detail_module := None,
                                  dp_detail_nav_items := [], dp_showing_detail := True\<rparr>)
                   (show_message ''Module not found'' a))))))"

definition show_stack_detail :: "tui_lib \<Rightarrow> answers \<Rightarrow> app \<Rightarrow> act" where
  "show_stack_detail lib an a =
     (case chosen_version a (get_filtered_stacks a) (lp_stacks (ap_list a)) of
        None \<Rightarrow> done_with a
      | Some m \<Rightarrow>
          (case an_stack_version an (tm_track m) (tm_module m) (tm_version m) of
             Inl e \<Rightarrow> failed_with e a
           | Inr (Some detail) \<Rightarrow>
               let items = build_stack_nav_items detail; content = ul_pretty_module lib detail in
               done_with (clear_loading (close_shown_modal
                 (on_detail (\<lambda>d. d\<lparr>dp_detail_nav_items := items, dp_detail_content := content,
                                  dp_detail_stack := Some detail, dp_showing_detail := True, dp_detail_scroll := 0,
                                  dp_detail_browser_index := 0\<rparr>)
                   (on_detail_state (\<lambda>d. d\<lparr>dp_showing_detail := True, dp_detail_stack := Some detail, dp_detail_module := None,
                                  dp_detail_deployment := None, dp_detail_nav_items := items, dp_detail_content := content,
                                  dp_detail_scroll := 0, dp_detail_browser_index := 0, dp_detail_focus_right := False\<rparr>) a))))
           | Inr None \<Rightarrow>
               done_with (clear_loading (close_shown_modal
                 (on_detail (\<lambda>d. d\<lparr>dp_detail_content := ''Stack not found'', dp_detail_stack := None,
                                  dp_detail_nav_items := [], dp_showing_detail := True\<rparr>)
                   (show_message ''Stack not found'' a))))))"

definition selected_deployment :: "app \<Rightarrow> tui_deployment option" where
  "selected_deployment a =
     (let ds = get_filtered_deployments a in if selected a < length ds then Some (ds ! selected a) else None)"

definition describe :: "answers \<Rightarrow> tui_deployment \<Rightarrow> (string, deployment_resp option) result" where
  "describe an d = an_deployment an (td_project_id d) (td_region d) (td_environment d) (td_deployment_id d)"

definition missing_deployment :: "tui_deployment \<Rightarrow> string" where
  "missing_deployment d = ''Deployment not found: '' @ td_deployment_id d @ '' (proj: '' @ td_project_id d @ '', reg: ''
     @ td_region d @ '', env: '' @ td_environment d @ '')''"

definition show_deployment_detail :: "tui_lib \<Rightarrow> answers \<Rightarrow> app \<Rightarrow> act" where
  "show_deployment_detail lib an a =
     (case selected_deployment a of
        None \<Rightarrow> done_with a
      | Some d \<Rightarrow>
          (case describe an d of
             Inl e \<Rightarrow> failed_with e a
           | Inr (Some detail) \<Rightarrow>
               done_with (clear_loading (on_detail (\<lambda>p. p\<lparr>dp_detail_scroll := 0, dp_detail_browser_index := 0,
                   dp_detail_focus_right := False\<rparr>) (show_loaded_deployment lib (Some detail) a)))
           | Inr None \<Rightarrow>
               done_with (clear_loading (on_detail (\<lambda>p. p\<lparr>dp_detail_content := missing_deployment d,
                   dp_detail_deployment := None, dp_detail_nav_items := [], dp_showing_detail := True\<rparr>)
                 (show_message (missing_deployment d) a)))))"

definition reload_deployment_detail :: "app \<Rightarrow> act" where
  "reload_deployment_detail a =
     (case selected_deployment a of
        None \<Rightarrow> done_with a
      | Some d \<Rightarrow> spawns [TaskDetail (td_project_id d) (td_region d) (td_environment d) (td_deployment_id d)] a)"

text \<open>The tracks of a group, and the modal that opens on the first of them.\<close>

definition group_tracks :: "grouped_module \<Rightarrow> string list" where
  "group_tracks g =
     (if gm_stable_version g \<noteq> None then [''stable''] else []) @ (if gm_rc_version g \<noteq> None then [''rc''] else [])
     @ (if gm_beta_version g \<noteq> None then [''beta''] else []) @ (if gm_alpha_version g \<noteq> None then [''alpha''] else [])
     @ (if gm_dev_version g \<noteq> None then [''dev''] else [])"

definition open_versions :: "grouped_module \<Rightarrow> app \<Rightarrow> app" where
  "open_versions g a =
     (let all = (lp_current_track (ap_list a) = ''all'');
          tracks = (if all then group_tracks g else []);
          track = (if all then case tracks of t # _ \<Rightarrow> t | [] \<Rightarrow> ''stable'' else lp_current_track (ap_list a));
          known = lp_available_tracks (ap_list a);
          index = (if track \<in> set known then length (takeWhile (\<lambda>t. t \<noteq> track) known) else 1);
          open_on = (\<lambda>v. v\<lparr>vm_showing_versions_modal := True, vm_modal_module_name := gm_module g, vm_modal_track := track,
                          vm_modal_track_index := index, vm_modal_available_tracks := tracks, vm_modal_selected_index := 0\<rparr>)
      in clear_loading (schedule_action LoadModalVersions
           (on_versions open_on (a\<lparr>ap_versions_state := open_on (ap_versions_state a)\<rparr>))))"

definition show_module_versions :: "app \<Rightarrow> act" where
  "show_module_versions a =
     (let groups = get_filtered_modules a
      in done_with (if selected a < length groups then open_versions (groups ! selected a) a else a))"

definition show_stack_versions :: "app \<Rightarrow> act" where
  "show_stack_versions a =
     (let groups = get_filtered_stacks a
      in done_with (if selected a < length groups then open_versions (groups ! selected a) a else a))"

text \<open>The timestamps of the versions sort newest first.\<close>

definition newest_versions :: "tui_module list \<Rightarrow> tui_module list" where
  "newest_versions vs = rev (sort_key tm_timestamp (rev vs))"

definition load_modal_versions :: "answers \<Rightarrow> app \<Rightarrow> act" where
  "load_modal_versions an a =
     (let v = ap_versions a;
          ask = (if ap_current_view a = ViewStacks then an_stack_versions an else an_module_versions an)
      in case ask (vm_modal_track v) (vm_modal_module_name v) of
           Inl e \<Rightarrow> failed_with e a
         | Inr ms \<Rightarrow> done_with (clear_loading (on_versions (\<lambda>v. v\<lparr>vm_modal_versions := newest_versions (List.map to_tui_module ms),
                       vm_modal_selected_index := 0\<rparr>) a)))"

definition show_deployment_events :: "answers \<Rightarrow> app \<Rightarrow> act" where
  "show_deployment_events an a0 =
     (case selected_deployment a0 of
        None \<Rightarrow> done_with a0
      | Some d \<Rightarrow>
          let show = (\<lambda>e. e\<lparr>ep_showing_events := True, ep_events_deployment_id := td_deployment_id d,
                           ep_events_browser_index := 0, ep_events_scroll := 0\<rparr>);
              a = set_loading ''Loading deployment events...''
                    ((on_events show a0)\<lparr>ap_events_state := show (ap_events_state a0),
                       ap_events_project_id := td_project_id d, ap_events_region := td_region d\<rparr>)
          in case an_events an (td_project_id d) (td_region d) (td_environment d) (td_deployment_id d) of
               Inr events \<Rightarrow> done_with (clear_loading (on_events (\<lambda>e. e\<lparr>ep_events_data :=
                   sort_key (\<lambda>ev. unat (ev_epoch ev)) events\<rparr>) a))
             | Inl e \<Rightarrow> failed_with e (clear_loading (on_events (\<lambda>e. e\<lparr>ep_events_data := []\<rparr>) a)))"

definition load_logs_for_job :: "string \<Rightarrow> app \<Rightarrow> act" where
  "load_logs_for_job job_id a =
     spawns [TaskLogs job_id]
       (on_events (\<lambda>e. e\<lparr>ep_events_logs := [], ep_events_current_job_id := job_id\<rparr>) (set_loading ''Loading logs...'' a))"

definition load_change_record :: "string \<Rightarrow> app \<Rightarrow> act" where
  "load_change_record job_id a = spawns [TaskRecord job_id] (set_loading ''Loading change record...'' a)"

section \<open>Actions that change a deployment\<close>

text \<open>A message of an action, shown through both copies of the detail view.\<close>

definition report :: "string \<Rightarrow> app \<Rightarrow> app" where
  "report message a =
     on_detail (\<lambda>d. d\<lparr>dp_detail_content := message, dp_showing_detail := True, dp_detail_scroll := 0\<rparr>) (show_message message a)"

definition report_missing :: "string \<Rightarrow> app \<Rightarrow> app" where
  "report_missing message a =
     on_detail (\<lambda>d. d\<lparr>dp_detail_content := message, dp_showing_detail := True\<rparr>) (show_message message a)"

definition reapply_found :: "tui_lib \<Rightarrow> answers \<Rightarrow> tui_deployment \<Rightarrow> deployment_resp \<Rightarrow> module_resp \<Rightarrow> app \<Rightarrow> act" where
  "reapply_found lib an d detail module a =
     (case generate_deployment_claim (ul_form lib) detail module of
        None \<Rightarrow> panicked_at a
      | Some claim_yaml \<Rightarrow>
          (case an_yaml an claim_yaml of
             Inl e \<Rightarrow> failed_with e a
           | Inr yaml \<Rightarrow>
               (case an_hostname an of
                  Inl e \<Rightarrow> failed_with (''Failed to get hostname: '' @ e) a
                | Inr _ \<Rightarrow>
                    let call = CallReapply (td_project_id d) (td_region d) (td_environment d) yaml in
                    (case an_call an call of
                       Inr (job_id, deployment_id) \<Rightarrow>
                         called call (clear_loading (schedule_action LoadDeployments (report
                           (''Deployment reapplied successfully!'' @ blank @ ''Job ID: '' @ job_id @ [CHR 0x0A] @ ''Deployment ID: ''
                            @ deployment_id @ [CHR 0x0A] @ ''Environment: '' @ td_environment d) a)))
                     | Inl e \<Rightarrow> called call (clear_loading (report (''Failed to reapply deployment:'' @ blank @ e) a))))))"

definition reapply_module :: "answers \<Rightarrow> deployment_resp \<Rightarrow> (string, module_resp option) result" where
  "reapply_module an detail =
     (case an_module_version an (dr_module_track detail) (dr_module detail) (dr_module_version detail) of
        Inl e \<Rightarrow> if an_http an then Inr None else Inl e
      | r \<Rightarrow> r)"

definition reapply_deployment :: "tui_lib \<Rightarrow> answers \<Rightarrow> app \<Rightarrow> act" where
  "reapply_deployment lib an a =
     (case selected_deployment a of
        None \<Rightarrow> done_with a
      | Some d \<Rightarrow>
          (case describe an d of
             Inl e \<Rightarrow> failed_with e a
           | Inr None \<Rightarrow> done_with (clear_loading (report_missing ''Deployment not found'' a))
           | Inr (Some detail) \<Rightarrow>
               (case reapply_module an detail of
                  Inl e \<Rightarrow> failed_with e a
                | Inr None \<Rightarrow> done_with (clear_loading (report_missing ''Module not found'' a))
                | Inr (Some module) \<Rightarrow> reapply_found lib an d detail module a)))"

definition destroy_deployment :: "answers \<Rightarrow> app \<Rightarrow> act" where
  "destroy_deployment an a =
     (case selected_deployment a of
        None \<Rightarrow> done_with a
      | Some d \<Rightarrow>
          let call = CallDestroy (td_project_id d) (td_region d) (td_environment d) (td_deployment_id d) in
          (case an_call an call of
             Inr _ \<Rightarrow>
               called call (clear_loading (schedule_action LoadDeployments (report
                 (''Deployment destroy initiated successfully!'' @ blank @ ''Deployment ID: '' @ td_deployment_id d @ [CHR 0x0A]
                  @ ''Environment: '' @ td_environment d @ blank @ ''The deployment will be destroyed in the background.'') a)))
           | Inl e \<Rightarrow> called call (clear_loading (report (''Failed to destroy deployment:'' @ blank @ e) a))))"

definition save_claim_to_file :: "tui_lib \<Rightarrow> answers \<Rightarrow> app \<Rightarrow> act" where
  "save_claim_to_file lib an a0 =
     (case validate_all_fields (ul_form lib) (ap_form a0) of
        Inl err \<Rightarrow> done_with (clear_loading (show_error (''Validation failed: '' @ err) a0))
      | Inr _ \<Rightarrow>
          (case on_form (generate_yaml (ul_form lib)) a0 of
             None \<Rightarrow> panicked_at a0
           | Some a \<Rightarrow>
               let name = cb_deployment_name (ap_form a);
                   path = ''./'' @ (if name = [] then ''deployment'' else name) @ ''.yaml'';
                   call = CallWrite path (cb_generated_yaml (ap_form a))
               in (case an_call an call of
                     Inr _ \<Rightarrow>
                       let shown = show_message (''Claim saved to: '' @ path) a
                       in called call (clear_loading (shown\<lparr>ap_form := close_form (ap_form shown)\<rparr>))
                   | Inl e \<Rightarrow> called call (clear_loading (show_error (''Failed to save claim: '' @ e) a)))))"

definition run_claim_from_builder :: "tui_lib \<Rightarrow> answers \<Rightarrow> app \<Rightarrow> act" where
  "run_claim_from_builder lib an a0 =
     (case validate_all_fields (ul_form lib) (ap_form a0) of
        Inl err \<Rightarrow> done_with (clear_loading (show_error (''Validation failed: '' @ err) a0))
      | Inr _ \<Rightarrow>
          (case on_form (generate_yaml (ul_form lib)) a0 of
             None \<Rightarrow> panicked_at a0
           | Some a \<Rightarrow>
               (case an_yaml an (cb_generated_yaml (ap_form a)) of
                  Inl e \<Rightarrow> done_with (clear_loading (show_error (''Failed to parse YAML: '' @ e) a))
                | Inr yaml \<Rightarrow>
                    (case an_hostname an of
                       Inl e \<Rightarrow> done_with (clear_loading (show_error (''Failed to get hostname: '' @ e) a))
                     | Inr _ \<Rightarrow>
                         let call = CallRun ''cli/default'' yaml in
                         (case an_call an call of
                            Inr (job_id, deployment_id) \<Rightarrow>
                              called call (clear_loading (schedule_action LoadDeployments (show_message
                                (''Deployment claim executed successfully!'' @ blank @ ''Job ID: '' @ job_id @ [CHR 0x0A]
                                 @ ''Deployment ID: '' @ deployment_id @ [CHR 0x0A] @ ''Environment: cli/default'' @ blank
                                 @ ''The deployment is being processed in the background.'' @ [CHR 0x0A]
                                 @ ''You can monitor its progress in the deployments list.'' @ blank @ ''Press any key to close.'')
                                (a\<lparr>ap_form := close_form (ap_form a)\<rparr>))))
                          | Inl e \<Rightarrow>
                              called call (clear_loading (show_error
                                (''Failed to execute deployment claim:'' @ blank @ e @ blank
                                 @ ''Please check your configuration and try again.'') a)))))))"

section \<open>A turn of the loop\<close>

primrec prepare_text :: "pending_action \<Rightarrow> string option" where
  "prepare_text NoAction = None"
| "prepare_text LoadModules = Some ''Loading modules...''"
| "prepare_text LoadStacks = Some ''Loading stacks...''"
| "prepare_text LoadDeployments = Some ''Loading deployments...''"
| "prepare_text (ShowModuleDetail _) = Some ''Loading module details...''"
| "prepare_text (ShowStackDetail _) = Some ''Loading stack details...''"
| "prepare_text (ShowDeploymentDetail _) = Some ''Loading deployment details...''"
| "prepare_text (ShowModuleVersions _) = Some ''Loading module versions...''"
| "prepare_text (ShowStackVersions _) = Some ''Loading stack versions...''"
| "prepare_text LoadModalVersions = Some ''Loading versions...''"
| "prepare_text (ShowDeploymentEvents _) = Some ''Loading deployment events...''"
| "prepare_text (LoadJobLogs _) = Some ''Loading job logs...''"
| "prepare_text (LoadChangeRecord _ _ _ _) = Some ''Loading change record...''"
| "prepare_text (ReapplyDeployment _) = Some ''Reapplying deployment...''"
| "prepare_text (DestroyDeployment _) = Some ''Destroying deployment...''"
| "prepare_text ReloadCurrentDeploymentDetail = Some ''Reloading deployment details...''"
| "prepare_text SaveClaimToFile = Some ''Saving claim to file...''"
| "prepare_text RunClaimFromBuilder = Some ''Running claim...''"

definition prepare_pending_action :: "app \<Rightarrow> app" where
  "prepare_pending_action a =
     (case prepare_text (ap_pending_action a) of
        None \<Rightarrow> a
      | Some message \<Rightarrow>
          set_loading message
            (case ap_pending_action a of
               LoadModules \<Rightarrow> on_list (\<lambda>l. l\<lparr>lp_modules := []\<rparr>) a
             | LoadStacks \<Rightarrow> on_list (\<lambda>l. l\<lparr>lp_stacks := []\<rparr>) a
             | LoadDeployments \<Rightarrow> on_list (\<lambda>l. l\<lparr>lp_deployments := []\<rparr>) a
             | LoadModalVersions \<Rightarrow> on_versions (\<lambda>v. v\<lparr>vm_modal_versions := []\<rparr>) a
             | _ \<Rightarrow> a))"

primrec run_action :: "tui_lib \<Rightarrow> answers \<Rightarrow> pending_action \<Rightarrow> app \<Rightarrow> act" where
  "run_action lib an NoAction a = done_with a"
| "run_action lib an LoadModules a = load_modules an a"
| "run_action lib an LoadStacks a = load_stacks an a"
| "run_action lib an LoadDeployments a = load_deployments lib an a"
| "run_action lib an (ShowModuleDetail i) a = show_module_detail lib an (select_index i a)"
| "run_action lib an (ShowStackDetail i) a = show_stack_detail lib an (select_index i a)"
| "run_action lib an (ShowDeploymentDetail i) a = show_deployment_detail lib an (select_index i a)"
| "run_action lib an (ShowModuleVersions i) a = show_module_versions (select_index i a)"
| "run_action lib an (ShowStackVersions i) a = show_stack_versions (select_index i a)"
| "run_action lib an LoadModalVersions a = load_modal_versions an a"
| "run_action lib an (ShowDeploymentEvents i) a = show_deployment_events an (select_index i a)"
| "run_action lib an (LoadJobLogs job_id) a = load_logs_for_job job_id a"
| "run_action lib an (LoadChangeRecord job_id _ _ _) a = load_change_record job_id a"
| "run_action lib an (ReapplyDeployment i) a = reapply_deployment lib an (select_index i a)"
| "run_action lib an (DestroyDeployment i) a = destroy_deployment an (select_index i a)"
| "run_action lib an ReloadCurrentDeploymentDetail a = reload_deployment_detail a"
| "run_action lib an SaveClaimToFile a = save_claim_to_file lib an a"
| "run_action lib an RunClaimFromBuilder a = run_claim_from_builder lib an a"

definition process_pending_action :: "tui_lib \<Rightarrow> answers \<Rightarrow> app \<Rightarrow> act" where
  "process_pending_action lib an a = run_action lib an (ap_pending_action a) (a\<lparr>ap_pending_action := NoAction\<rparr>)"

text \<open>
  What a turn meets: the messages that have arrived, whether a second has passed since the track was
  switched, what drawing writes into the state (the visible lines, all lines and the clamped scroll
  position of the detail view), the answers to the calls, and the key of the user with its control
  modifier, if one is pressed.
\<close>

record turn_input =
  tn_messages :: "message list"
  tn_elapsed :: bool
  tn_lines :: "16 word \<times> 16 word \<times> 16 word"
  tn_answers :: answers
  tn_key :: "(key \<times> bool) option"

definition drawn :: "turn_input \<Rightarrow> app \<Rightarrow> app" where
  "drawn t = (case tn_lines t of (visible, lines, scroll) \<Rightarrow>
     on_detail (\<lambda>d. d\<lparr>dp_detail_visible_lines := visible, dp_detail_total_lines := lines, dp_detail_scroll := scroll\<rparr>))"

definition before_action :: "tui_lib \<Rightarrow> turn_input \<Rightarrow> app \<Rightarrow> app" where
  "before_action lib t a =
     check_track_switch_timeout (tn_elapsed t) (fold (process_background_message lib) (tn_messages t) a)"

definition turn :: "tui_lib \<Rightarrow> turn_input \<Rightarrow> app \<Rightarrow> act" where
  "turn lib t a0 =
     (let a = before_action lib t a0 in
      if has_pending_action a then process_pending_action lib (tn_answers t) (drawn t (prepare_pending_action a))
      else case tn_key t of
             None \<Rightarrow> done_with (drawn t a)
           | Some (k, ctrl) \<Rightarrow>
               (case handle_event lib (an_clipboard (tn_answers t)) k ctrl (drawn t a) of
                  None \<Rightarrow> panicked_at (drawn t a)
                | Some a' \<Rightarrow> done_with a'))"

text \<open>The messages that a task can send, and the tasks that are left when some have been delivered.\<close>

definition answers_task :: "task \<Rightarrow> message \<Rightarrow> bool" where
  "answers_task t m \<longleftrightarrow>
     (case t of
        TaskProjects \<Rightarrow> (case m of ProjectsLoaded _ \<Rightarrow> True | _ \<Rightarrow> False)
      | TaskDeployments _ _ \<Rightarrow> (case m of DeploymentsBatchLoaded _ \<Rightarrow> True | _ \<Rightarrow> False)
      | TaskDetail _ _ _ _ \<Rightarrow> (case m of DeploymentDetailLoaded _ \<Rightarrow> True | _ \<Rightarrow> False)
      | TaskLogs job_id \<Rightarrow> (case m of JobLogsLoaded (Inr (j, _)) \<Rightarrow> j = job_id | JobLogsLoaded (Inl _) \<Rightarrow> True | _ \<Rightarrow> False)
      | TaskRecord job_id \<Rightarrow>
          (case m of ChangeRecordLoaded (Inr (j, _)) \<Rightarrow> j = job_id | ChangeRecordLoaded (Inl _) \<Rightarrow> True | _ \<Rightarrow> False))"

inductive delivered :: "message list \<Rightarrow> task list \<Rightarrow> task list \<Rightarrow> bool" where
  nothing: "delivered [] ts ts"
| one: "t \<in> set ts \<Longrightarrow> answers_task t m \<Longrightarrow> delivered ms (remove1 t ts) ts' \<Longrightarrow> delivered (m # ms) ts ts'"

text \<open>The states that the loop reaches, with the tasks that have not answered yet.\<close>

inductive reaches :: "tui_lib \<Rightarrow> app \<Rightarrow> task list \<Rightarrow> bool" for lib where
  start: "reaches lib new_app [TaskProjects]"
| step: "reaches lib a ts \<Longrightarrow> delivered (tn_messages t) ts ts' \<Longrightarrow> ac_outcome (turn lib t a) = Goes
    \<Longrightarrow> \<not> ap_should_quit (ac_app (turn lib t a))
    \<Longrightarrow> reaches lib (ac_app (turn lib t a)) (ts' @ ac_tasks (turn lib t a))"

inductive_cases delivered_Cons: "delivered (m # ms) ts ts'"
inductive_cases delivered_Nil: "delivered [] ts ts'"

end
