(* ===== verification/Tui_Properties.thy ===== *)
theory Tui_Properties
  imports Tui_Loop
begin

text \<open>
  The terminal interface: a deployment is destroyed or applied again, and a claim is run, only after the
  user has confirmed the dialog that names it; the preview shows the claim of the form; and how the
  interface waits for its tasks.
\<close>

section \<open>What an operation leaves alone\<close>

definition core :: "app \<Rightarrow> confirmation \<times> confirmation \<times> bool \<times> nat" where
  "core a = (ap_confirmation a, ap_confirmation_state a, ap_is_loading a, ap_pending_deployment_requests a)"

lemma core_eq:
  "core a = core b \<longleftrightarrow> ap_confirmation a = ap_confirmation b \<and> ap_confirmation_state a = ap_confirmation_state b
     \<and> ap_is_loading a = ap_is_loading b \<and> ap_pending_deployment_requests a = ap_pending_deployment_requests b"
  by (simp add: core_def)

fun dangerous :: "pending_action \<Rightarrow> bool" where
  "dangerous (ReapplyDeployment _) \<longleftrightarrow> True"
| "dangerous (DestroyDeployment _) \<longleftrightarrow> True"
| "dangerous RunClaimFromBuilder \<longleftrightarrow> True"
| "dangerous _ \<longleftrightarrow> False"

text \<open>The same core, the same form, and no dangerous action scheduled.\<close>

definition quiet :: "app \<Rightarrow> app \<Rightarrow> bool" where
  "quiet a b \<longleftrightarrow> core b = core a \<and> ap_form b = ap_form a \<and> (dangerous (ap_pending_action b) \<longrightarrow> ap_pending_action b = ap_pending_action a)"

lemma quiet_refl [simp]: "quiet a a"
  by (simp add: quiet_def)

lemma quiet_trans: "quiet a b \<Longrightarrow> quiet b c \<Longrightarrow> quiet a c"
  by (auto simp: quiet_def)

lemma quiet_on [simp]:
  "quiet a (on_list f b) = quiet a b" "quiet a (on_detail g b) = quiet a b" "quiet a (on_detail_state g b) = quiet a b"
  "quiet a (on_events h b) = quiet a b" "quiet a (on_versions k b) = quiet a b" "quiet a (on_filter l b) = quiet a b"
  "quiet a (select_index i b) = quiet a b"
  by (simp_all add: quiet_def core_def on_list_def on_detail_def on_detail_state_def on_events_def on_versions_def
      on_filter_def select_index_def)

lemma quiet_fields [simp]:
  "quiet a (b\<lparr>ap_current_view := v\<rparr>) = quiet a b" "quiet a (b\<lparr>ap_should_quit := q\<rparr>) = quiet a b"
  "quiet a (b\<lparr>ap_events_state := e\<rparr>) = quiet a b" "quiet a (b\<lparr>ap_versions_state := vs\<rparr>) = quiet a b"
  "quiet a (b\<lparr>ap_search_state := s, ap_search := s'\<rparr>) = quiet a b" "quiet a (b\<lparr>ap_project_selection_made := p\<rparr>) = quiet a b"
  "quiet a (b\<lparr>ap_selected_project_filter := x\<rparr>) = quiet a b" "quiet a (b\<lparr>ap_selected_region_filter := y\<rparr>) = quiet a b"
  by (simp_all add: quiet_def core_def)

lemma quiet_schedule [simp]: "\<not> dangerous p \<Longrightarrow> quiet a (schedule_action p b) = (core b = core a \<and> ap_form b = ap_form a)"
  by (simp add: quiet_def core_def schedule_action_def)

lemma quiet_core: "quiet a b \<Longrightarrow> core b = core a \<and> ap_form b = ap_form a"
  by (simp add: quiet_def)

lemma core_on [simp]:
  "core (on_list f b) = core b" "core (on_detail g b) = core b" "core (on_detail_state g b) = core b"
  "core (on_events h b) = core b" "core (on_versions k b) = core b" "core (on_filter l b) = core b"
  "core (select_index i b) = core b" "core (schedule_action p b) = core b"
  by (simp_all add: core_def on_list_def on_detail_def on_detail_state_def on_events_def on_versions_def on_filter_def
      select_index_def schedule_action_def)

lemma form_on [simp]:
  "ap_form (on_list f b) = ap_form b" "ap_form (on_detail g b) = ap_form b" "ap_form (on_detail_state g b) = ap_form b"
  "ap_form (on_events h b) = ap_form b" "ap_form (on_versions k b) = ap_form b" "ap_form (on_filter l b) = ap_form b"
  "ap_form (select_index i b) = ap_form b" "ap_form (schedule_action p b) = ap_form b"
  by (simp_all add: on_list_def on_detail_def on_detail_state_def on_events_def on_versions_def on_filter_def
      select_index_def schedule_action_def)

lemma core_fields [simp]:
  "core (b\<lparr>ap_current_view := v\<rparr>) = core b" "core (b\<lparr>ap_project_selection_made := p\<rparr>) = core b"
  "core (b\<lparr>ap_selected_project_filter := x\<rparr>) = core b" "core (b\<lparr>ap_selected_region_filter := y\<rparr>) = core b"
  "core (b\<lparr>ap_form := cb\<rparr>) = core b" "core (b\<lparr>ap_pending_action := q\<rparr>) = core b"
  "core (b\<lparr>ap_events_state := e\<rparr>) = core b" "core (b\<lparr>ap_versions_state := vs\<rparr>) = core b" "core (b\<lparr>ap_view_state := l\<rparr>) = core b"
  by (simp_all add: core_def)

section \<open>Keys\<close>

lemma quiet_lists:
  "quiet a (move_up a)" "quiet a (move_down a)" "quiet a (page_up a)" "quiet a (page_down a)"
  "quiet a (next_track a)" "quiet a (previous_track a)" "quiet a (change_view v a)"
  "quiet a (enter_search_mode a)" "quiet a (exit_search_mode a)" "quiet a (search_input c a)" "quiet a (search_backspace a)"
  by (simp_all add: move_up_def move_down_def page_up_def page_down_def next_track_def previous_track_def change_view_def
      enter_search_mode_def exit_search_mode_def search_input_def search_backspace_def set_search_def Let_def)

lemma change_view_core [simp]: "core (change_view v a) = core a" "ap_form (change_view v a) = ap_form a"
  using quiet_lists(7) [of a v] by (simp_all add: quiet_def)

lemma quiet_search: "quiet a (handle_search_key k a)"
  by (simp add: handle_search_key_def search_enter_def quiet_lists split: key.split view.split)

lemma quiet_main: "quiet a (main_key k a)"
  by (simp add: main_key_def quiet_lists in_tracks_def open_selected_def go_to_def show_deployment_events_key_def
      open_filter_def show_filter_modal_def reload_list_def split: key.split view.split)

lemma quiet_browse: "quiet a (browse_detail i a)"
  by (simp add: browse_detail_def check_and_load_logs_if_needed_def split: option.split)

lemma quiet_detail_ops:
  "quiet a (close_detail a)" "quiet a (detail_up a)" "quiet a (detail_down a)" "quiet a (reload_detail a)"
  "quiet a (scroll_detail_page_up a)" "quiet a (scroll_detail_page_down a)" "quiet a (toggle_detail_wrap a)"
  by (simp_all add: close_detail_def detail_up_def detail_down_def scroll_detail_up_def scroll_detail_down_def
      scroll_detail_page_up_def scroll_detail_page_down_def scroll_detail_def detail_browser_up_def detail_browser_down_def
      quiet_browse Let_def reload_detail_def reload_logs_def toggle_detail_wrap_def)

lemma quiet_detail: "k \<noteq> KeyChar CHR ''c'' \<Longrightarrow> quiet a (handle_detail_key lib k a)"
  by (simp add: handle_detail_key_def quiet_detail_ops detail_focus_def split: key.split)

lemma detail_opens: "handle_detail_key lib (KeyChar CHR ''c'') a = open_claim_builder lib a"
  by (simp add: handle_detail_key_def)

lemma quiet_events: "quiet a (handle_events_key lib k a)"
  by (simp add: handle_events_key_def close_events_def events_focus_def events_up_def events_down_def scroll_events_up_def
      scroll_events_down_def scroll_events_page_up_def scroll_events_page_down_def scroll_events_def events_browser_up_def
      events_browser_down_def browse_events_def Let_def reload_logs_def show_log_view_def events_log_view_next_def
      open_logs_def open_changelog_def split: key.split option.split list.split)

lemma quiet_filter: "quiet a (handle_filter_key k a)"
  by (simp add: handle_filter_key_def filter_up_def filter_down_def apply_filter_def close_filter_modal_def Let_def
      split: key.split filter_type.split)

lemma quiet_switch [simp]: "quiet a (modal_switch b is) = quiet a b"
  by (simp add: modal_switch_def split: option.split)

lemma quiet_versions: "handle_versions_key k a = Some b \<Longrightarrow> quiet a b"
  by (auto simp: handle_versions_key_def close_modal_def modal_move_up_def modal_move_down_def modal_previous_track_def
      modal_next_track_def modal_reload_versions_def show_version_def Let_def split: key.splits if_splits)

section \<open>Messages\<close>

fun is_batch :: "task \<Rightarrow> bool" where
  "is_batch (TaskDeployments _ _) \<longleftrightarrow> True"
| "is_batch _ \<longleftrightarrow> False"

definition batches :: "task list \<Rightarrow> task list" where
  "batches ts = filter is_batch ts"

definition others :: "task list \<Rightarrow> task list" where
  "others ts = filter (\<lambda>t. t \<noteq> TaskProjects \<and> \<not> is_batch t) ts"

definition idle :: "task list \<Rightarrow> bool" where
  "idle ts \<longleftrightarrow> batches ts = [] \<and> others ts = []"

lemma idle_tasks: "idle ts \<longleftrightarrow> (\<forall>t \<in> set ts. t = TaskProjects)"
  by (auto simp: idle_def batches_def others_def filter_empty_conv)

text \<open>
  While a task other than the one for the projects is out, the interface shows that it is loading and
  has nothing scheduled; the requests for deployments are counted; another task runs alone.
\<close>

definition waiting :: "app \<Rightarrow> task list \<Rightarrow> bool" where
  "waiting a ts \<longleftrightarrow> length (batches ts) = ap_pending_deployment_requests a \<and> length (others ts) \<le> 1
     \<and> (others ts \<noteq> [] \<longrightarrow> batches ts = []) \<and> (\<not> idle ts \<longrightarrow> ap_is_loading a \<and> ap_pending_action a = NoAction)"

text \<open>A message leaves the dialog, the form and the scheduled action alone.\<close>

lemma update_parts:
  "ap_pending_action (on_list f b) = ap_pending_action b" "ap_pending_action (on_detail g b) = ap_pending_action b"
  "ap_pending_action (on_detail_state g b) = ap_pending_action b" "ap_pending_action (on_events h b) = ap_pending_action b"
  "ap_pending_action (on_versions k b) = ap_pending_action b" "ap_pending_action (on_filter l b) = ap_pending_action b"
  "ap_pending_action (select_index i b) = ap_pending_action b" "ap_pending_action (clear_loading b) = ap_pending_action b"
  "ap_pending_action (set_loading m b) = ap_pending_action b"
  by (simp_all add: on_list_def on_detail_def on_detail_state_def on_events_def on_versions_def on_filter_def select_index_def
      clear_loading_def set_loading_def)

lemma core_parts:
  "core a = core b \<Longrightarrow> ap_confirmation a = ap_confirmation b" "core a = core b \<Longrightarrow> ap_confirmation_state a = ap_confirmation_state b"
  "core a = core b \<Longrightarrow> ap_is_loading a = ap_is_loading b"
  "core a = core b \<Longrightarrow> ap_pending_deployment_requests a = ap_pending_deployment_requests b"
  by (simp_all add: core_eq)

lemma loading_parts [simp]:
  "ap_confirmation (clear_loading b) = ap_confirmation b" "ap_confirmation_state (clear_loading b) = ap_confirmation_state b"
  "ap_form (clear_loading b) = ap_form b" "\<not> ap_is_loading (clear_loading b)"
  "ap_pending_deployment_requests (clear_loading b) = ap_pending_deployment_requests b"
  "ap_confirmation (set_loading m b) = ap_confirmation b" "ap_confirmation_state (set_loading m b) = ap_confirmation_state b"
  "ap_form (set_loading m b) = ap_form b" "ap_is_loading (set_loading m b)"
  "ap_pending_deployment_requests (set_loading m b) = ap_pending_deployment_requests b"
  by (simp_all add: clear_loading_def set_loading_def)

lemma batch_parts:
  "core (process_deployment_batch ds a) = core a" "ap_form (process_deployment_batch ds a) = ap_form a"
  "ap_pending_action (process_deployment_batch ds a) = ap_pending_action a"
  by (simp_all add: process_deployment_batch_def Let_def core_def on_list_def select_index_def)

lemma loaded_parts:
  "core (show_loaded_deployment lib d a) = core a" "ap_form (show_loaded_deployment lib d a) = ap_form a"
  "ap_pending_action (show_loaded_deployment lib d a) = ap_pending_action a"
  by (simp_all add: show_loaded_deployment_def Let_def show_message_def update_parts split: option.split)

definition same_dialog :: "app \<Rightarrow> app \<Rightarrow> bool" where
  "same_dialog a b \<longleftrightarrow> ap_confirmation b = ap_confirmation a \<and> ap_confirmation_state b = ap_confirmation_state a
     \<and> ap_form b = ap_form a"

lemma same_dialogI: "core b = core a \<Longrightarrow> ap_form b = ap_form a \<Longrightarrow> same_dialog a b"
  by (simp add: same_dialog_def core_eq)

lemma same_dialog_trans: "same_dialog a b \<Longrightarrow> same_dialog b c \<Longrightarrow> same_dialog a c"
  by (simp add: same_dialog_def)

lemma same_dialog_loading [simp]: "same_dialog a (clear_loading b) = same_dialog a b"
  by (simp add: same_dialog_def)

text \<open>A message that answers a task.\<close>

lemma message_step:
  assumes "answers_task t m"
  shows "same_dialog a (process_background_message lib m a)"
    and "ap_pending_action (process_background_message lib m a) = ap_pending_action a"
    and "ap_pending_deployment_requests (process_background_message lib m a)
      = ap_pending_deployment_requests a - (if is_batch t then 1 else 0)"
    and "ap_is_loading (process_background_message lib m a) \<longleftrightarrow> ap_is_loading a
      \<and> (t = TaskProjects \<or> is_batch t \<and> ap_pending_deployment_requests a > 1)"
  using assms core_parts [OF batch_parts(1)] core_parts [OF loaded_parts(1)]
  by (cases m; cases t; auto simp: answers_task_def Let_def update_parts batch_parts loaded_parts same_dialog_def
      on_events_def split: sum.splits)+

lemma batches_remove: "t \<in> set ts \<Longrightarrow> length (batches (remove1 t ts)) = length (batches ts) - (if is_batch t then 1 else 0)"
  by (auto simp: batches_def filter_remove1 length_remove1 remove1_idem)

lemma others_remove:
  "t \<in> set ts \<Longrightarrow> length (others (remove1 t ts)) = length (others ts) - (if t \<noteq> TaskProjects \<and> \<not> is_batch t then 1 else 0)"
  by (auto simp: others_def filter_remove1 length_remove1 remove1_idem)

lemma idle_lengths: "idle ts \<longleftrightarrow> length (batches ts) = 0 \<and> length (others ts) = 0"
  by (simp add: idle_def)

lemma waiting_lengths:
  "waiting a ts \<longleftrightarrow> length (batches ts) = ap_pending_deployment_requests a \<and> length (others ts) \<le> 1
     \<and> (0 < length (others ts) \<longrightarrow> length (batches ts) = 0) \<and> (\<not> idle ts \<longrightarrow> ap_is_loading a \<and> ap_pending_action a = NoAction)"
  by (auto simp: waiting_def)

lemma member_counted:
  "t \<in> set ts \<Longrightarrow> t \<noteq> TaskProjects \<Longrightarrow> \<not> is_batch t \<Longrightarrow> 0 < length (others ts)"
  "t \<in> set ts \<Longrightarrow> is_batch t \<Longrightarrow> 0 < length (batches ts)"
  by (auto simp: others_def batches_def filter_empty_conv)

lemma waiting_message:
  assumes w: "waiting a ts" and t: "t \<in> set ts" and m: "answers_task t m"
  shows "waiting (process_background_message lib m a) (remove1 t ts)"
proof -
  note b = batches_remove [OF t] and r = others_remove [OF t] and e = message_step [where a = a and lib = lib, OF m]
  consider "t = TaskProjects" | "is_batch t" "t \<noteq> TaskProjects" | "t \<noteq> TaskProjects" "\<not> is_batch t"
    by (cases t) auto
  then show ?thesis
  proof cases
    case 1
    with w b r e show ?thesis by (auto simp: waiting_lengths idle_lengths)
  next
    case 2
    with w b r e member_counted(2) [OF t] show ?thesis by (auto simp: waiting_lengths idle_lengths)
  next
    case 3
    with w b r e member_counted(1) [OF t] show ?thesis by (auto simp: waiting_lengths idle_lengths)
  qed
qed

lemma messages_step:
  assumes "delivered ms ts ts'" "waiting a ts"
  shows "waiting (fold (process_background_message lib) ms a) ts' \<and> same_dialog a (fold (process_background_message lib) ms a)
    \<and> ap_pending_action (fold (process_background_message lib) ms a) = ap_pending_action a"
  using assms
proof (induction arbitrary: a rule: delivered.induct)
  case (one t ts m ms ts')
  note s = message_step [where a = a and lib = lib, OF one(2)]
  from one.IH [OF waiting_message [OF one.prems one(1,2), of lib]] s same_dialog_trans [OF s(1)]
  show ?case by simp
qed (simp add: same_dialog_def)

text \<open>When only the projects are awaited, a message does not touch the lists either.\<close>

definition same_lists :: "app \<Rightarrow> app \<Rightarrow> bool" where
  "same_lists a b \<longleftrightarrow> get_filtered_deployments b = get_filtered_deployments a \<and> ap_current_view b = ap_current_view a"

lemma idle_messages:
  assumes "delivered ms ts ts'" "idle ts"
  shows "same_lists a (fold (process_background_message lib) ms a) \<and> idle ts'"
  using assms
proof (induction arbitrary: a rule: delivered.induct)
  case (one t ts m ms ts')
  then have "t = TaskProjects" by (simp add: idle_tasks)
  with one(2) obtain r where m: "m = ProjectsLoaded r" by (cases m) (auto simp: answers_task_def)
  have "same_lists a (process_background_message lib m a)"
    by (auto simp: m same_lists_def get_filtered_deployments_def split: sum.split)
  moreover have "idle (remove1 t ts)"
    using one.prems by (auto simp: idle_tasks dest: notin_set_remove1 in_set_remove1 set_remove1_subset [THEN subsetD])
  ultimately show ?case using one.IH [of "process_background_message lib m a"] by (simp add: same_lists_def)
qed (simp add: same_lists_def)

section \<open>Actions\<close>

text \<open>What an action leaves: the dialog as it was, the preview in step, and its tasks counted.\<close>

definition settled :: "tui_lib \<Rightarrow> app \<Rightarrow> act \<Rightarrow> bool" where
  "settled lib a r \<longleftrightarrow> ap_confirmation (ac_app r) = ap_confirmation a \<and> ap_confirmation_state (ac_app r) = ap_confirmation_state a
     \<and> preview_ok (ul_form lib) (ap_form (ac_app r)) \<and> waiting (ac_app r) (ac_tasks r) \<and> \<not> dangerous (ap_pending_action (ac_app r))"

lemma waiting_Nil [simp]: "waiting a [] \<longleftrightarrow> ap_pending_deployment_requests a = 0"
  by (auto simp: waiting_def batches_def others_def idle_def)

lemma preview_close [simp]: "preview_ok lib (close_form cb)"
  by (simp add: preview_ok_def close_form_def)

lemma settled_done:
  assumes "same_dialog a b" "preview_ok (ul_form lib) (ap_form a)" "ap_pending_deployment_requests b = 0" "\<not> dangerous (ap_pending_action b)"
  shows "settled lib a (done_with b)" "settled lib a (called c b)" "settled lib a (failed_with e b)" "settled lib a (panicked_at b)"
  using assms by (simp_all add: settled_def done_with_def called_def failed_with_def panicked_at_def same_dialog_def)

lemma core_panel [simp]:
  "core (show_message m b) = core b" "core (show_error m b) = core b" "core (report m b) = core b" "core (report_missing m b) = core b"
  "core (close_shown_modal b) = core b" "core (show_filter_modal k os c b) = core b"
  by (simp_all add: show_message_def show_error_def report_def report_missing_def close_shown_modal_def close_modal_def
      show_filter_modal_def)

lemma form_panel [simp]:
  "ap_form (show_message m b) = ap_form b" "ap_form (show_error m b) = ap_form b" "ap_form (report m b) = ap_form b"
  "ap_form (report_missing m b) = ap_form b" "ap_form (close_shown_modal b) = ap_form b"
  "ap_form (show_filter_modal k os c b) = ap_form b"
  by (simp_all add: show_message_def show_error_def report_def report_missing_def close_shown_modal_def close_modal_def
      show_filter_modal_def)

lemma pending_panel [simp]:
  "ap_pending_action (show_message m b) = ap_pending_action b" "ap_pending_action (show_error m b) = ap_pending_action b"
  "ap_pending_action (report m b) = ap_pending_action b" "ap_pending_action (report_missing m b) = ap_pending_action b"
  "ap_pending_action (close_shown_modal b) = ap_pending_action b"
  "ap_pending_action (show_filter_modal k os c b) = ap_pending_action b"
  "ap_pending_action (schedule_action p b) = p"
  by (simp_all add: show_message_def show_error_def report_def report_missing_def close_shown_modal_def close_modal_def
      show_filter_modal_def update_parts schedule_action_def)

text \<open>The parts that matter of an application, for all panels at once.\<close>

definition parts :: "app \<Rightarrow> (confirmation \<times> confirmation \<times> bool \<times> nat) \<times> claim_form \<times> pending_action" where
  "parts a = (core a, ap_form a, ap_pending_action a)"

lemma parts_on [simp]:
  "parts (on_list f b) = parts b" "parts (on_detail g b) = parts b" "parts (on_detail_state g b) = parts b"
  "parts (on_events h b) = parts b" "parts (on_versions k b) = parts b" "parts (on_filter l b) = parts b"
  "parts (select_index i b) = parts b" "parts (show_message m b) = parts b" "parts (show_error m b) = parts b"
  "parts (report m b) = parts b" "parts (report_missing m b) = parts b" "parts (close_shown_modal b) = parts b"
  "parts (show_filter_modal k' os c b) = parts b" "parts (process_deployment_batch ds b) = parts b"
  "parts (show_loaded_deployment lib d b) = parts b"
  by (simp_all add: parts_def update_parts batch_parts loaded_parts)

lemma parts_change [simp]:
  "parts b = ((c, s, l, n), f, p) \<Longrightarrow> parts (clear_loading b) = ((c, s, False, n), f, p)"
  "parts b = ((c, s, l, n), f, p) \<Longrightarrow> parts (set_loading m b) = ((c, s, True, n), f, p)"
  "parts b = ((c, s, l, n), f, p) \<Longrightarrow> parts (schedule_action q b) = ((c, s, l, n), f, q)"
  "parts b = ((c, s, l, n), f, p) \<Longrightarrow> parts (b\<lparr>ap_form := g\<rparr>) = ((c, s, l, n), g, p)"
  "parts b = ((c, s, l, n), f, p) \<Longrightarrow> parts (b\<lparr>ap_is_loading := k\<rparr>) = ((c, s, k, n), f, p)"
  "parts b = ((c, s, l, n), f, p) \<Longrightarrow> parts (b\<lparr>ap_projects_cache := ps\<rparr>) = ((c, s, l, n), f, p)"
  "parts b = ((c, s, l, n), f, p) \<Longrightarrow> parts (b\<lparr>ap_versions_state := vs\<rparr>) = ((c, s, l, n), f, p)"
  "parts b = ((c, s, l, n), f, p) \<Longrightarrow> parts (b\<lparr>ap_available_projects := xs, ap_available_regions := ys\<rparr>) = ((c, s, l, n), f, p)"
  "parts b = ((c, s, l, n), f, p) \<Longrightarrow>
     parts (b\<lparr>ap_events_state := e, ap_events_project_id := i, ap_events_region := r\<rparr>) = ((c, s, l, n), f, p)"
  by (simp_all add: parts_def core_def clear_loading_def set_loading_def schedule_action_def)

text \<open>An action starts in a loading state with nothing scheduled and nothing awaited.\<close>

definition ready :: "tui_lib \<Rightarrow> app \<Rightarrow> bool" where
  "ready lib a \<longleftrightarrow> parts a = ((ap_confirmation a, ap_confirmation_state a, True, 0), ap_form a, NoAction)
     \<and> preview_ok (ul_form lib) (ap_form a)"

definition settled_parts ::
  "tui_lib \<Rightarrow> app \<Rightarrow> (confirmation \<times> confirmation \<times> bool \<times> nat) \<times> claim_form \<times> pending_action \<Rightarrow> bool" where
  "settled_parts lib a x \<longleftrightarrow> (case x of ((c, s, l, n), f, p) \<Rightarrow>
     c = ap_confirmation a \<and> s = ap_confirmation_state a \<and> preview_ok (ul_form lib) f \<and> n = 0 \<and> \<not> dangerous p)"

lemma settled_simps [simp]:
  "settled lib a (done_with b) = settled_parts lib a (parts b)" "settled lib a (called k b) = settled_parts lib a (parts b)"
  "settled lib a (failed_with e b) = settled_parts lib a (parts b)" "settled lib a (panicked_at b) = settled_parts lib a (parts b)"
  by (auto simp: settled_def settled_parts_def parts_def core_def done_with_def called_def failed_with_def panicked_at_def)

lemma settled_ready:
  assumes "ready lib a"
  shows "settled_parts lib a (parts a)"
    and "\<And>p. \<not> dangerous p \<Longrightarrow> settled_parts lib a ((ap_confirmation a, ap_confirmation_state a, l, 0), ap_form a, p)"
  using assms by (simp_all add: ready_def settled_parts_def)

lemma ready_parts: "ready lib a \<Longrightarrow> parts a = ((ap_confirmation a, ap_confirmation_state a, True, 0), ap_form a, NoAction)"
  by (simp add: ready_def)

lemma ready_select: "ready lib a \<Longrightarrow> ready lib (select_index i a)"
  by (simp add: ready_def) (simp add: select_index_def on_list_def)

lemma settled_lists:
  assumes r: "ready lib a"
  shows "settled lib a (load_modules an a)" "settled lib a (load_stacks an a)" "settled lib a (load_modal_versions an a)"
    "settled lib a (show_module_detail lib an a)" "settled lib a (show_stack_detail lib an a)"
    "settled lib a (show_deployment_detail lib an a)" "settled lib a (show_module_versions a)" "settled lib a (show_stack_versions a)"
    "settled lib a (show_deployment_events an a)"
  unfolding load_modules_def load_stacks_def load_modal_versions_def show_module_detail_def show_stack_detail_def
    show_deployment_detail_def show_module_versions_def show_stack_versions_def show_deployment_events_def
  by (simp_all add: parts_change [OF ready_parts [OF r]] settled_ready [OF r] Let_def open_versions_def ready_parts [OF r]
      split: sum.split option.split)

lemma batches_requests: "batches (requests a projects) = requests a projects" "others (requests a projects) = []"
proof -
  have "\<forall>t \<in> set (requests a projects). is_batch t"
    by (auto simp: requests_def split: if_splits)
  then show "batches (requests a projects) = requests a projects" "others (requests a projects) = []"
    by (auto simp: batches_def others_def filter_id_conv filter_empty_conv)
qed

lemma settled_same:
  "ap_confirmation b = ap_confirmation a \<Longrightarrow> ap_confirmation_state b = ap_confirmation_state a \<Longrightarrow> settled lib b r = settled lib a r"
  by (simp add: settled_def)

lemma partsD:
  "parts b = ((c, s, l, n), f, p) \<Longrightarrow> ap_confirmation b = c \<and> ap_confirmation_state b = s \<and> ap_is_loading b = l
     \<and> ap_pending_deployment_requests b = n \<and> ap_form b = f \<and> ap_pending_action b = p"
  by (simp add: parts_def core_def)

lemma settled_spawns:
  assumes "parts b = ((ap_confirmation a, ap_confirmation_state a, True, length (batches ts)), f, NoAction)"
    "preview_ok (ul_form lib) f" "length (others ts) \<le> 1" "others ts \<noteq> [] \<Longrightarrow> batches ts = []"
  shows "settled lib a (spawns ts b)"
  using assms partsD [OF assms(1)] by (simp add: settled_def spawns_def waiting_def)

lemma ready_form: "ready lib a \<Longrightarrow> preview_ok (ul_form lib) (ap_form a)"
  by (simp add: ready_def)

lemma settled_request:
  assumes r: "ready lib a"
  shows "settled lib a (request_deployments projects a)"
proof -
  note p = ready_parts [OF r]
  have *: "parts ((on_list f a)\<lparr>ap_available_projects := xs, ap_available_regions := ys, ap_pending_deployment_requests := n\<rparr>)
      = ((ap_confirmation a, ap_confirmation_state a, True, n), ap_form a, NoAction)" for f xs ys n
    using partsD [OF p] by (simp add: parts_def core_def on_list_def)
  have spawned: "settled lib a (spawns (requests b projects) ((on_list f a)\<lparr>ap_available_projects := xs,
      ap_available_regions := ys, ap_pending_deployment_requests := length (requests b projects)\<rparr>))" for b f xs ys
    by (rule settled_spawns [where f = "ap_form a"]) (simp_all add: * batches_requests ready_form [OF r])
  show ?thesis
    unfolding request_deployments_def Let_def
    by (simp add: parts_change [OF parts_change(8) [OF trans [OF parts_on(1) p]]] parts_change(8) [OF trans [OF parts_on(1) p]]
        settled_ready [OF r] spawned)
qed

lemma settled_deployments:
  assumes r: "ready lib a"
  shows "settled lib a (load_deployments lib an a)"
proof -
  have "ready lib (a\<lparr>ap_projects_cache := Some ps\<rparr>)" for ps
    using r parts_change(6) [OF ready_parts [OF r]] by (simp add: ready_def)
  then have "settled lib a (request_deployments ps (a\<lparr>ap_projects_cache := Some ps\<rparr>))" for ps
    using settled_request [of lib "a\<lparr>ap_projects_cache := Some ps\<rparr>" ps] settled_same [of "a\<lparr>ap_projects_cache := Some ps\<rparr>" a lib]
    by simp
  then show ?thesis
    unfolding load_deployments_def
    by (simp add: settled_request [OF r] parts_change [OF ready_parts [OF r]] ready_parts [OF r] settled_ready [OF r]
        split: option.split sum.split)
qed

lemma settled_tasks:
  assumes r: "ready lib a"
  shows "settled lib a (reload_deployment_detail a)" "settled lib a (load_logs_for_job job a)" "settled lib a (load_change_record job a)"
proof -
  have one: "settled lib a (spawns [t] b)"
    if "parts b = ((ap_confirmation a, ap_confirmation_state a, True, 0), ap_form a, NoAction)" "\<not> is_batch t" "t \<noteq> TaskProjects" for t b
    using that ready_form [OF r] by (intro settled_spawns) (simp_all add: batches_def others_def)
  show "settled lib a (reload_deployment_detail a)" "settled lib a (load_logs_for_job job a)" "settled lib a (load_change_record job a)"
    unfolding reload_deployment_detail_def load_logs_for_job_def load_change_record_def
    by (auto simp: one ready_parts [OF r] settled_ready [OF r] parts_change [OF ready_parts [OF r]] split: option.split)
qed

lemma settled_reapply:
  assumes r: "ready lib a"
  shows "settled lib a (reapply_deployment lib an a)"
  unfolding reapply_deployment_def reapply_found_def
  by (simp add: parts_change [OF ready_parts [OF r]] parts_change [OF parts_change(3) [OF trans [OF parts_on(10) ready_parts [OF r]]]]
      settled_ready [OF r] ready_parts [OF r] Let_def split: sum.split option.split prod.split)

lemma settled_destroy:
  assumes r: "ready lib a"
  shows "settled lib a (destroy_deployment an a)"
  unfolding destroy_deployment_def
  by (simp add: parts_change [OF ready_parts [OF r]] parts_change [OF parts_change(3) [OF trans [OF parts_on(10) ready_parts [OF r]]]]
      settled_ready [OF r] ready_parts [OF r] Let_def split: sum.split option.split)

lemma generate_ok: "preview_ok lib cb \<Longrightarrow> generate_yaml lib cb = Some cb' \<Longrightarrow> preview_ok lib cb'"
  by (auto simp: generate_yaml_def preview_ok_def)

lemma unless_shown_ok: "preview_ok lib cb \<Longrightarrow> generate_unless_shown ul cb = Some cb' \<Longrightarrow> lib = ul_form ul \<Longrightarrow> preview_ok lib cb'"
  by (auto simp: generate_unless_shown_def intro: generate_ok split: if_splits)

lemma settled_form:
  assumes r: "ready lib a" and g: "on_form (generate_yaml (ul_form lib)) a = Some b"
  shows "parts b = ((ap_confirmation a, ap_confirmation_state a, True, 0), ap_form b, NoAction)" "preview_ok (ul_form lib) (ap_form b)"
  using g parts_change(4) [OF ready_parts [OF r]] generate_ok [OF ready_form [OF r]] by (auto simp: on_form_def)

lemma settled_save:
  assumes r: "ready lib a"
  shows "settled lib a (save_claim_to_file lib an a)"
proof (cases "on_form (generate_yaml (ul_form lib)) a")
  case None
  then show ?thesis
    by (simp add: save_claim_to_file_def parts_change [OF trans [OF parts_on(9) ready_parts [OF r]]] settled_ready [OF r] ready_form [OF r]
        ready_parts [OF r] split: sum.split)
next
  case (Some b)
  note f = settled_form [OF r Some]
  from Some show ?thesis
    by (simp add: save_claim_to_file_def Let_def parts_change [OF trans [OF parts_on(9) ready_parts [OF r]]] settled_ready [OF r] ready_form [OF r]
        parts_change [OF trans [OF parts_on(9) f(1)]] parts_change [OF parts_change(4) [OF trans [OF parts_on(8) f(1)]]]
        settled_parts_def f(2) split: sum.split)
qed

lemma settled_run:
  assumes r: "ready lib a"
  shows "settled lib a (run_claim_from_builder lib an a)"
proof (cases "on_form (generate_yaml (ul_form lib)) a")
  case None
  then show ?thesis
    by (simp add: run_claim_from_builder_def parts_change [OF trans [OF parts_on(9) ready_parts [OF r]]] settled_ready [OF r] ready_form [OF r]
        ready_parts [OF r] split: sum.split)
next
  case (Some b)
  note f = settled_form [OF r Some]
  from Some show ?thesis
    by (simp add: run_claim_from_builder_def Let_def parts_change [OF trans [OF parts_on(9) ready_parts [OF r]]] settled_ready [OF r] ready_form [OF r]
        parts_change [OF trans [OF parts_on(9) f(1)]] parts_change [OF parts_change(3) [OF trans [OF parts_on(8) parts_change(4) [OF f(1)]]]]
        settled_parts_def f(2) split: sum.split prod.split)
qed

lemma settled_selected:
  "ready lib a \<Longrightarrow> settled lib (select_index i a) r = settled lib a r"
  by (rule settled_same) (simp_all add: select_index_def on_list_def)

text \<open>Every action.\<close>

lemma settled_action:
  assumes r: "ready lib a"
  shows "settled lib a (run_action lib an p a)"
  using settled_lists [OF r] settled_lists [OF ready_select [OF r]] settled_deployments [OF r] settled_tasks [OF r]
    settled_reapply [OF ready_select [OF r]] settled_destroy [OF ready_select [OF r]] settled_save [OF r] settled_run [OF r]
    settled_ready [OF r] settled_selected [OF r]
  by (cases p) simp_all

text \<open>Which calls an action makes.\<close>

lemma calls_simps [simp]:
  "ac_calls (done_with b) = []" "ac_calls (failed_with e b) = []" "ac_calls (panicked_at b) = []" "ac_calls (spawns ts b) = []"
  "ac_calls (called c b) = [c]"
  by (simp_all add: done_with_def failed_with_def panicked_at_def spawns_def called_def)

lemma calls_load: "ac_calls (request_deployments ps a) = []" "ac_calls (load_deployments lib an a) = []"
proof -
  show r: "ac_calls (request_deployments ps a) = []" for ps a
    by (simp add: request_deployments_def Let_def)
  show "ac_calls (load_deployments lib an a) = []"
    by (simp add: load_deployments_def r split: option.split sum.split)
qed

lemma calls_lists:
  "ac_calls (load_modules an a) = []" "ac_calls (load_stacks an a) = []" "ac_calls (load_modal_versions an a) = []"
  "ac_calls (show_module_detail lib an a) = []" "ac_calls (show_stack_detail lib an a) = []"
  "ac_calls (show_deployment_detail lib an a) = []" "ac_calls (show_module_versions a) = []" "ac_calls (show_stack_versions a) = []"
  "ac_calls (show_deployment_events an a) = []" "ac_calls (reload_deployment_detail a) = []" "ac_calls (load_logs_for_job job a) = []"
  "ac_calls (load_change_record job a) = []"
  unfolding load_modules_def load_stacks_def load_modal_versions_def show_module_detail_def show_stack_detail_def
    show_deployment_detail_def show_module_versions_def show_stack_versions_def show_deployment_events_def
    reload_deployment_detail_def load_logs_for_job_def load_change_record_def
  by (simp_all add: Let_def split: sum.split option.split)

lemma calls_quiet: "\<not> dangerous p \<Longrightarrow> p \<noteq> SaveClaimToFile \<Longrightarrow> ac_calls (run_action lib an p a) = []"
  by (cases p) (simp_all add: calls_load calls_lists)

lemma calls_save: "c \<in> set (ac_calls (save_claim_to_file lib an a)) \<Longrightarrow> \<exists>path content. c = CallWrite path content"
  by (auto simp: save_claim_to_file_def Let_def split: sum.splits option.splits)

lemma calls_destroy:
  "c \<in> set (ac_calls (destroy_deployment an a)) \<Longrightarrow>
   \<exists>d. selected_deployment a = Some d \<and> c = CallDestroy (td_project_id d) (td_region d) (td_environment d) (td_deployment_id d)"
  by (auto simp: destroy_deployment_def Let_def split: sum.splits option.splits)

lemma calls_reapply:
  "c \<in> set (ac_calls (reapply_deployment lib an a)) \<Longrightarrow>
   \<exists>d detail module text yaml. selected_deployment a = Some d \<and> describe an d = Inr (Some detail)
     \<and> reapply_module an detail = Inr (Some module) \<and> generate_deployment_claim (ul_form lib) detail module = Some text
     \<and> an_yaml an text = Inr yaml \<and> c = CallReapply (td_project_id d) (td_region d) (td_environment d) yaml"
  by (auto simp: reapply_deployment_def reapply_found_def Let_def split: sum.splits option.splits prod.splits)

lemma calls_run:
  "c \<in> set (ac_calls (run_claim_from_builder lib an a)) \<Longrightarrow>
   \<exists>text yaml. validate_all_fields (ul_form lib) (ap_form a) = Inr () \<and> claim_text (ul_form lib) (ap_form a) = Some text
     \<and> an_yaml an text = Inr yaml \<and> c = CallRun ''cli/default'' yaml"
  by (auto simp: run_claim_from_builder_def on_form_def generate_yaml_def Let_def split: sum.splits option.splits prod.splits)

section \<open>The dialog\<close>

definition asked :: "app \<Rightarrow> (tui_deployment \<Rightarrow> string) \<Rightarrow> nat \<Rightarrow> bool" where
  "asked a message i \<longleftrightarrow> ap_current_view a = ViewDeployments \<and> i < length (get_filtered_deployments a)
     \<and> cf_confirmation_message (ap_confirmation a) = message (get_filtered_deployments a ! i)"

text \<open>A dialog names what its action is about.\<close>

definition dialog_ok :: "tui_lib \<Rightarrow> app \<Rightarrow> bool" where
  "dialog_ok lib a \<longleftrightarrow>
     (case cf_confirmation_action (ap_confirmation a) of
        DestroyDeployment i \<Rightarrow> asked a destroy_message i
      | ReapplyDeployment i \<Rightarrow> asked a reapply_message i
      | RunClaimFromBuilder \<Rightarrow> validate_all_fields (ul_form lib) (ap_form a) = Inr ()
          \<and> cf_confirmation_message (ap_confirmation a) = run_message (cb_deployment_name (ap_form a)) (cb_region (ap_form a))
      | _ \<Rightarrow> False)"

abbreviation dialog :: "app \<Rightarrow> bool" where
  "dialog a \<equiv> cf_showing_confirmation (ap_confirmation a)"

lemma dialog_same:
  assumes "same_dialog a b" "same_lists a b"
  shows "dialog_ok lib b = dialog_ok lib a"
  using assms by (simp add: dialog_ok_def asked_def same_dialog_def same_lists_def split: pending_action.split)

text \<open>The invariant: the tasks are counted, the copies agree, the preview is in step, a dialog is alone.\<close>

definition consistent :: "tui_lib \<Rightarrow> app \<Rightarrow> bool" where
  "consistent lib a \<longleftrightarrow> ap_confirmation_state a = ap_confirmation a \<and> preview_ok (ul_form lib) (ap_form a)"

definition tui_inv :: "tui_lib \<Rightarrow> app \<Rightarrow> task list \<Rightarrow> bool" where
  "tui_inv lib a ts \<longleftrightarrow> waiting a ts \<and> consistent lib a
     \<and> (dialog a \<longrightarrow> idle ts \<and> ap_pending_action a = NoAction \<and> dialog_ok lib a)"

text \<open>A key when no dialog is shown.\<close>

definition keyed :: "tui_lib \<Rightarrow> app \<Rightarrow> app \<Rightarrow> bool" where
  "keyed lib a b \<longleftrightarrow> \<not> dangerous (ap_pending_action b) \<and> consistent lib b \<and> ap_is_loading b = ap_is_loading a
     \<and> ap_pending_deployment_requests b = ap_pending_deployment_requests a \<and> (ap_is_loading a \<longrightarrow> ap_pending_action b = NoAction)
     \<and> (dialog b \<longrightarrow> \<not> ap_is_loading b \<and> ap_pending_action b = NoAction \<and> dialog_ok lib b)"

lemma keyed_quiet:
  assumes "quiet a b" "consistent lib a" "\<not> dialog a" "ap_pending_action a = NoAction" "\<not> ap_is_loading a"
  shows "keyed lib a b"
  using assms by (auto simp: keyed_def quiet_def core_eq consistent_def)

lemma keyed_form:
  assumes "core b = core a" "preview_ok (ul_form lib) (ap_form b)" "consistent lib a" "\<not> dialog a" "\<not> ap_is_loading a"
    "\<not> dangerous (ap_pending_action b)"
  shows "keyed lib a b"
  using assms by (auto simp: keyed_def core_eq consistent_def)

lemma keyed_asked:
  assumes "consistent lib a" "\<not> dialog a" "ap_pending_action a = NoAction" "\<not> ap_is_loading a"
  shows "keyed lib a (ask_deployment destroy_message DestroyDeployment a)" "keyed lib a (ask_deployment reapply_message ReapplyDeployment a)"
proof -
  have fields: "get_filtered_deployments (set_confirmation m i p a) = get_filtered_deployments a"
    "ap_current_view (set_confirmation m i p a) = ap_current_view a" "ap_form (set_confirmation m i p a) = ap_form a"
    "ap_is_loading (set_confirmation m i p a) = ap_is_loading a" "ap_pending_action (set_confirmation m i p a) = ap_pending_action a"
    "ap_pending_deployment_requests (set_confirmation m i p a) = ap_pending_deployment_requests a"
    "ap_confirmation_state (set_confirmation m i p a) = ap_confirmation (set_confirmation m i p a)"
    "cf_confirmation_message (ap_confirmation (set_confirmation m i p a)) = m"
    "cf_confirmation_action (ap_confirmation (set_confirmation m i p a)) = p" for m i p
    by (simp_all add: set_confirmation_def get_filtered_deployments_def Let_def)
  show "keyed lib a (ask_deployment destroy_message DestroyDeployment a)" "keyed lib a (ask_deployment reapply_message ReapplyDeployment a)"
    using assms by (simp_all add: ask_deployment_def keyed_quiet keyed_def consistent_def dialog_ok_def asked_def fields)
qed

lemma keyed_ask_run:
  assumes c: "consistent lib a" and n: "\<not> dialog a" "ap_pending_action a = NoAction" "\<not> ap_is_loading a"
    and b: "ask_run_claim lib a = Some b"
  shows "keyed lib a b"
proof -
  from b obtain cb where g: "generate_unless_shown lib (ap_form a) = Some cb"
    by (auto simp: ask_run_claim_def)
  have p: "preview_ok (ul_form lib) cb"
    using c unless_shown_ok [OF _ g refl] by (simp add: consistent_def)
  show ?thesis
  proof (cases "validate_all_fields (ul_form lib) cb")
    case (Inl err)
    with b g have "b = show_error (''Cannot run claim: '' @ err) (a\<lparr>ap_form := cb\<rparr>)" by (simp add: ask_run_claim_def)
    with c n p show ?thesis by (intro keyed_form) simp_all
  next
    case (Inr u)
    with b g c n p show ?thesis by (auto simp: ask_run_claim_def keyed_def consistent_def dialog_ok_def)
  qed
qed

lemma keyed_claim:
  assumes c: "consistent lib a" and n: "\<not> dialog a" "ap_pending_action a = NoAction" "\<not> ap_is_loading a"
    and b: "handle_claim_key lib clipboard k ctrl a = Some b"
  shows "keyed lib a b"
proof -
  have p: "preview_ok (ul_form lib) (ap_form a)" using c by (simp add: consistent_def)
  have form: "keyed lib a b'" if "on_form f a = Some b'" "\<And>cb. f (ap_form a) = Some cb \<Longrightarrow> preview_ok (ul_form lib) cb" for f b'
    using that c n by (auto simp: on_form_def intro!: keyed_form)
  have copy: "keyed lib a b'" if "copy_claim lib clipboard a = Some b'" for b'
  proof -
    from that obtain cb where g: "generate_unless_shown lib (ap_form a) = Some cb" by (auto simp: copy_claim_def)
    with that have "\<exists>m. b' = show_message m (a\<lparr>ap_form := cb\<rparr>)"
      by (auto simp: copy_claim_def Let_def show_error_def split: sum.splits)
    then obtain m where "b' = show_message m (a\<lparr>ap_form := cb\<rparr>)" ..
    with c n unless_shown_ok [OF p g refl] show ?thesis by (intro keyed_form) simp_all
  qed
  have save: "keyed lib a b'" if "save_claim lib a = Some b'" for b'
    using that c n unless_shown_ok [OF p _ refl] by (auto simp: save_claim_def intro!: keyed_form)
  show ?thesis
  proof (cases "if ctrl then ctrl_claim_key lib clipboard k a else None")
    case None
    with b show ?thesis by (auto simp: handle_claim_key_def intro!: form form_key_preview [OF p])
  next
    case (Some r)
    with b have "ctrl_claim_key lib clipboard k a = Some (Some b)" by (auto simp: handle_claim_key_def split: if_splits)
    then show ?thesis
      using form [of "toggle_preview (ul_form lib)"] copy save keyed_ask_run [OF c n] preview_toggle
      by (auto simp: ctrl_claim_key_def split: key.splits if_splits)
  qed
qed

lemma keyed_opens:
  assumes "consistent lib a" "\<not> dialog a" "ap_pending_action a = NoAction" "\<not> ap_is_loading a"
  shows "keyed lib a (open_claim_builder lib a)"
  using assms
  by (auto simp: open_claim_builder_def consistent_def open_for_module_def open_for_stack_def initialize_from_module_def Let_def
      intro!: keyed_form preview_hidden split: option.split)

lemma key_step:
  assumes c: "consistent lib a" and n: "\<not> dialog a" "ap_pending_action a = NoAction"
    and b: "handle_event lib clipboard k ctrl a = Some b"
  shows "keyed lib a b"
proof (cases "ap_is_loading a \<or> ctrl \<and> k = KeyChar CHR ''c''")
  case True
  with assms show ?thesis
    by (auto simp: handle_event_def handle_key_event_def keyed_def consistent_def split: if_splits)
next
  case False
  then have l: "\<not> ap_is_loading a" by simp
  note q = keyed_quiet [OF _ c n l] and k = keyed_asked [OF c n l] keyed_claim [OF c n l] keyed_opens [OF c n l]
  from False b have "handle_key_event lib clipboard k ctrl a = Some b" by (auto simp: handle_event_def split: if_splits)
  moreover have "keyed lib a (handle_detail_key lib k a)" for k
    using k(4) by (cases "k = KeyChar CHR ''c''") (simp_all add: detail_opens q quiet_detail)
  ultimately show ?thesis
    using l n k by (auto simp: handle_key_event_def handle_main_key_def q quiet_filter quiet_events quiet_search quiet_main
        quiet_versions split: if_splits)
qed

text \<open>A key in a dialog.\<close>

lemma dialog_key:
  assumes "dialog a" "\<not> ap_is_loading a" "handle_event lib clipboard k ctrl a = Some b" "\<not> ap_should_quit b"
  shows "b = a \<or> b = close_confirmation a \<or> (k = KeyChar CHR ''y'' \<or> k = KeyChar CHR ''Y'') \<and> b = confirm_action a"
  using assms by (auto simp: handle_event_def handle_key_event_def handle_confirmation_key_def split: if_splits key.splits)

section \<open>A turn\<close>

definition timer_acted :: "app \<Rightarrow> app \<Rightarrow> bool" where
  "timer_acted a m \<longleftrightarrow> ap_pending_action m = LoadModules \<and> ap_current_view m = ViewModules \<and> \<not> ap_is_loading m"

lemma timer_parts:
  "core (check_track_switch_timeout e a) = core a" "ap_form (check_track_switch_timeout e a) = ap_form a"
  "same_lists a (check_track_switch_timeout e a)"
  "ap_pending_action (check_track_switch_timeout e a) = ap_pending_action a \<or> timer_acted a (check_track_switch_timeout e a)"
  by (auto simp: check_track_switch_timeout_def Let_def same_lists_def get_filtered_deployments_def on_list_def
      schedule_action_def core_def timer_acted_def)

lemma before_parts:
  assumes d: "delivered (tn_messages t) ts ts'" and w: "waiting a ts"
  shows "waiting (before_action lib t a) ts'" "same_dialog a (before_action lib t a)"
    "ap_pending_action (before_action lib t a) = ap_pending_action a \<or> timer_acted a (before_action lib t a)"
    "idle ts \<Longrightarrow> idle ts' \<and> same_lists a (before_action lib t a)"
proof -
  let ?m = "fold (process_background_message lib) (tn_messages t) a"
  note s = messages_step [OF d w, of lib] and t = timer_parts [where e = "tn_elapsed t" and a = ?m]
  have c: "core (before_action lib t a) = core ?m" "ap_form (before_action lib t a) = ap_form ?m"
    using t by (simp_all add: before_action_def)
  show "same_dialog a (before_action lib t a)"
    using s same_dialogI [OF c] by (auto intro: same_dialog_trans)
  show p: "ap_pending_action (before_action lib t a) = ap_pending_action a \<or> timer_acted a (before_action lib t a)"
    using s t by (auto simp: before_action_def timer_acted_def)
  show "waiting (before_action lib t a) ts'"
    using s p core_parts [OF c(1)] by (auto simp: waiting_def timer_acted_def)
  show "idle ts' \<and> same_lists a (before_action lib t a)" if "idle ts"
    using idle_messages [OF d that, of a lib] t by (simp add: before_action_def same_lists_def)
qed

lemma drawn_parts [simp]:
  "parts (drawn t a) = parts a" "ap_pending_action (drawn t a) = ap_pending_action a" "core (drawn t a) = core a"
  "ap_form (drawn t a) = ap_form a" "get_filtered_deployments (drawn t a) = get_filtered_deployments a"
  "ap_current_view (drawn t a) = ap_current_view a"
  by (simp_all add: drawn_def update_parts split: prod.split)
    (simp_all add: on_detail_def get_filtered_deployments_def)

lemma drawn_fields [simp]:
  "ap_confirmation (drawn t a) = ap_confirmation a" "ap_confirmation_state (drawn t a) = ap_confirmation_state a"
  "ap_is_loading (drawn t a) = ap_is_loading a" "ap_pending_deployment_requests (drawn t a) = ap_pending_deployment_requests a"
  using core_parts [OF drawn_parts(3)] by simp_all

lemma consistent_drawn [simp]: "consistent lib (drawn t a) = consistent lib a"
  by (simp add: consistent_def)

text \<open>The state in which a scheduled action runs.\<close>

definition at_action :: "turn_input \<Rightarrow> app \<Rightarrow> app" where
  "at_action t m = (drawn t (prepare_pending_action m))\<lparr>ap_pending_action := NoAction\<rparr>"

lemma prepared_pending: "ap_pending_action (prepare_pending_action m) = ap_pending_action m"
  by (cases "ap_pending_action m") (simp_all add: prepare_pending_action_def update_parts)

lemma prepared_parts:
  assumes "ap_pending_action m \<noteq> NoAction"
  shows "parts (prepare_pending_action m)
    = ((ap_confirmation m, ap_confirmation_state m, True, ap_pending_deployment_requests m), ap_form m, ap_pending_action m)"
proof -
  have *: "parts m = ((ap_confirmation m, ap_confirmation_state m, ap_is_loading m, ap_pending_deployment_requests m), ap_form m, ap_pending_action m)"
    by (simp add: parts_def core_def)
  from assms show ?thesis
    by (cases "ap_pending_action m")
      (simp_all add: prepare_pending_action_def parts_change(2) [OF *] parts_change(2) [OF trans [OF parts_on(1) *]]
        parts_change(2) [OF trans [OF parts_on(5) *]])
qed

lemma action_parts:
  assumes "ap_pending_action m \<noteq> NoAction"
  shows "parts (at_action t m) = ((ap_confirmation m, ap_confirmation_state m, True, ap_pending_deployment_requests m), ap_form m, NoAction)"
  using prepared_parts [OF assms] drawn_parts(1) [of t "prepare_pending_action m"]
  by (simp add: at_action_def parts_def core_def)

lemma action_ready:
  assumes w: "waiting m ts" and p: "ap_pending_action m \<noteq> NoAction" and c: "consistent lib m"
  shows "ready lib (at_action t m)" "idle ts" "ap_confirmation (at_action t m) = ap_confirmation m"
    "ap_confirmation_state (at_action t m) = ap_confirmation_state m" "ap_form (at_action t m) = ap_form m"
proof -
  show i: "idle ts" using w p by (auto simp: waiting_def)
  then have n: "ap_pending_deployment_requests m = 0" using w by (simp add: waiting_def idle_def)
  show "ready lib (at_action t m)" "ap_confirmation (at_action t m) = ap_confirmation m"
    "ap_confirmation_state (at_action t m) = ap_confirmation_state m" "ap_form (at_action t m) = ap_form m"
    using partsD [OF action_parts [OF p, of t]] action_parts [OF p, of t] c n by (simp_all add: ready_def consistent_def)
qed

lemma turn_action:
  "ap_pending_action (before_action lib t a) \<noteq> NoAction \<Longrightarrow>
   turn lib t a = run_action lib (tn_answers t) (ap_pending_action (before_action lib t a)) (at_action t (before_action lib t a))"
  by (simp add: turn_def Let_def has_pending_action_def process_pending_action_def at_action_def prepared_pending)

lemma turn_key:
  "ap_pending_action (before_action lib t a) = NoAction \<Longrightarrow> tn_key t = Some (k, ctrl) \<Longrightarrow>
   handle_event lib (an_clipboard (tn_answers t)) k ctrl (drawn t (before_action lib t a)) = Some b \<Longrightarrow> turn lib t a = done_with b"
  by (simp add: turn_def Let_def has_pending_action_def)

lemma turn_rest:
  assumes p: "ap_pending_action (before_action lib t a) = NoAction"
  obtains b where "turn lib t a = done_with b" "b = drawn t (before_action lib t a) \<or>
      (\<exists>k ctrl. tn_key t = Some (k, ctrl) \<and> handle_event lib (an_clipboard (tn_answers t)) k ctrl (drawn t (before_action lib t a)) = Some b)"
  | "turn lib t a = panicked_at (drawn t (before_action lib t a))"
proof (cases "tn_key t")
  case None
  with p that(1) show thesis by (simp add: turn_def Let_def has_pending_action_def)
next
  case (Some kc)
  obtain k ctrl where kc: "kc = (k, ctrl)" by fastforce
  with Some p that show thesis
    by (cases "handle_event lib (an_clipboard (tn_answers t)) k ctrl (drawn t (before_action lib t a))")
      (simp_all add: turn_def Let_def has_pending_action_def)
qed

lemma waiting_append [simp]: "idle ts \<Longrightarrow> waiting a (ts @ us) = waiting a us"
  by (simp add: waiting_def idle_def batches_def others_def)

lemma load_modules_keeps:
  "ap_form (ac_app (load_modules an a)) = ap_form a" "ap_pending_action (ac_app (load_modules an a)) = ap_pending_action a"
  "ac_tasks (load_modules an a) = []"
  by (simp_all add: load_modules_def done_with_def failed_with_def update_parts split: sum.split)

text \<open>A turn keeps the invariant.\<close>

lemma no_tasks [simp]: "ac_tasks (done_with b) = []" "ac_app (done_with b) = b" "ac_tasks (panicked_at b) = []" "ac_app (panicked_at b) = b"
  "ac_outcome (done_with b) = Goes" "ac_outcome (panicked_at b) = Panics"
  by (simp_all add: done_with_def panicked_at_def)

lemma confirm_parts:
  "ap_confirmation (confirm_action a) = no_confirmation" "ap_confirmation_state (confirm_action a) = no_confirmation"
  "ap_form (confirm_action a) = ap_form a" "ap_is_loading (confirm_action a) = ap_is_loading a"
  "ap_pending_deployment_requests (confirm_action a) = ap_pending_deployment_requests a"
  "get_filtered_deployments (confirm_action a) = get_filtered_deployments a" "ap_current_view (confirm_action a) = ap_current_view a"
  "cf_confirmation_action (ap_confirmation a) \<noteq> NoAction \<Longrightarrow>
     ap_pending_action (confirm_action a) = cf_confirmation_action (ap_confirmation a)"
  by (simp_all add: confirm_action_def close_confirmation_def schedule_action_def Let_def get_filtered_deployments_def)

lemma close_parts:
  "ap_confirmation (close_confirmation a) = no_confirmation" "ap_confirmation_state (close_confirmation a) = no_confirmation"
  "ap_form (close_confirmation a) = ap_form a" "ap_is_loading (close_confirmation a) = ap_is_loading a"
  "ap_pending_deployment_requests (close_confirmation a) = ap_pending_deployment_requests a"
  "ap_pending_action (close_confirmation a) = ap_pending_action a"
  by (simp_all add: close_confirmation_def)

lemma not_shown [simp]: "\<not> cf_showing_confirmation no_confirmation"
  by (simp add: no_confirmation_def)

lemma waiting_change:
  assumes "waiting a ts" "ap_pending_deployment_requests b = ap_pending_deployment_requests a" "ap_is_loading b = ap_is_loading a"
    "ap_is_loading a \<Longrightarrow> ap_pending_action b = NoAction"
  shows "waiting b ts"
  using assms by (auto simp: waiting_def)

lemma before_inv:
  assumes i: "tui_inv lib a ts" and d: "delivered (tn_messages t) ts ts'"
  defines "m \<equiv> before_action lib t a"
  shows "waiting m ts'" "consistent lib m" "ap_confirmation m = ap_confirmation a" "ap_form m = ap_form a"
    "ap_pending_action m = ap_pending_action a \<or> timer_acted a m"
    "dialog a \<Longrightarrow> idle ts' \<and> dialog_ok lib m \<and> same_lists a m"
  using i before_parts [OF d, where a = a and lib = lib] dialog_same [of a m lib]
  by (auto simp: tui_inv_def consistent_def same_dialog_def m_def)

lemma loads_modules_only:
  assumes "dialog a" "tui_inv lib a ts" "delivered (tn_messages t) ts ts'" "ap_pending_action (before_action lib t a) \<noteq> NoAction"
  shows "ap_pending_action (before_action lib t a) = LoadModules \<and> ap_current_view (before_action lib t a) = ViewModules"
  using before_inv [OF assms(2,3)] assms by (auto simp: tui_inv_def timer_acted_def)

lemma turn_inv_action:
  assumes i: "tui_inv lib a ts" and d: "delivered (tn_messages t) ts ts'" and p: "ap_pending_action (before_action lib t a) \<noteq> NoAction"
  shows "tui_inv lib (ac_app (turn lib t a)) (ts' @ ac_tasks (turn lib t a))"
    "\<not> dangerous (ap_pending_action (ac_app (turn lib t a)))"
proof -
  let ?m = "before_action lib t a" and ?r = "turn lib t a"
  note b = before_inv [OF i d]
  note r = action_ready(1,3-5) [where t = t, OF b(1) p b(2)] and idle = action_ready(2) [OF b(1) p b(2)]
  have s: "settled lib (at_action t ?m) ?r"
    unfolding turn_action [OF p] by (rule settled_action [OF r(1)])
  then show "\<not> dangerous (ap_pending_action (ac_app ?r))" by (simp add: settled_def)
  have c: "consistent lib (ac_app ?r)" "ap_confirmation (ac_app ?r) = ap_confirmation a"
    using s r b by (auto simp: settled_def consistent_def)
  have w: "waiting (ac_app ?r) (ts' @ ac_tasks ?r)" using s idle by (simp add: settled_def)
  have "idle (ts' @ ac_tasks ?r) \<and> ap_pending_action (ac_app ?r) = NoAction \<and> dialog_ok lib (ac_app ?r)" if dl: "dialog a"
  proof -
    note l = loads_modules_only [OF dl i d p]
    have t: "?r = load_modules (tn_answers t) (at_action t ?m)" using turn_action [OF p] l by simp
    have "ap_form (ac_app ?r) = ap_form ?m" "ap_pending_action (ac_app ?r) = NoAction" "ac_tasks ?r = []"
      using r(4) partsD [OF action_parts [OF p, of t]] by (simp_all add: t load_modules_keeps)
    moreover have "ap_confirmation (ac_app ?r) = ap_confirmation ?m" using c b by simp
    ultimately show ?thesis
      using b(6) [OF dl] l by (auto simp: dialog_ok_def asked_def split: pending_action.splits)
  qed
  with c w show "tui_inv lib (ac_app ?r) (ts' @ ac_tasks ?r)" by (auto simp: tui_inv_def)
qed

lemma dialog_drawn [simp]: "dialog_ok lib (drawn t m) = dialog_ok lib m"
  by (rule dialog_same) (simp_all add: same_dialog_def same_lists_def)

lemma waiting_drawn [simp]: "waiting (drawn t m) ts = waiting m ts"
  by (simp add: waiting_def)

lemma rest_inv:
  assumes i: "tui_inv lib a ts" and d: "delivered (tn_messages t) ts ts'" and p: "ap_pending_action (before_action lib t a) = NoAction"
  shows "tui_inv lib (drawn t (before_action lib t a)) ts'"
  using before_inv [OF i d] p by (auto simp: tui_inv_def)

lemma key_inv:
  assumes i: "tui_inv lib m ts" and p: "ap_pending_action m = NoAction" and h: "handle_event lib clipboard k ctrl m = Some b"
    and q: "\<not> ap_should_quit b"
  shows "tui_inv lib b ts"
proof (cases "dialog m")
  case False
  with key_step [OF _ False p h] i have k: "keyed lib m b" by (simp add: tui_inv_def)
  with i have "waiting b ts" by (auto simp: keyed_def tui_inv_def elim: waiting_change)
  with k show ?thesis by (auto simp: tui_inv_def keyed_def waiting_def)
next
  case True
  show ?thesis
  proof (cases "ap_is_loading m")
    case True
    with h q have "b = m" by (auto simp: handle_event_def handle_key_event_def split: if_splits)
    with i show ?thesis by simp
  next
    case False
    from dialog_key [OF True False h q] i p False show ?thesis
      by (auto simp: tui_inv_def consistent_def confirm_parts close_parts elim: waiting_change)
  qed
qed

lemma turn_inv:
  assumes i: "tui_inv lib a ts" and d: "delivered (tn_messages t) ts ts'"
    and g: "ac_outcome (turn lib t a) = Goes" "\<not> ap_should_quit (ac_app (turn lib t a))"
  shows "tui_inv lib (ac_app (turn lib t a)) (ts' @ ac_tasks (turn lib t a))"
proof (cases "ap_pending_action (before_action lib t a) = NoAction")
  case False
  then show ?thesis by (rule turn_inv_action [OF i d])
next
  case True
  then show ?thesis
  proof (cases rule: turn_rest)
    case (1 b)
    with rest_inv [OF i d True] g key_inv [OF rest_inv [OF i d True]] True show ?thesis by auto
  next
    case 2
    with g show ?thesis by simp
  qed
qed

lemma reaches_inv: "reaches lib a ts \<Longrightarrow> tui_inv lib a ts"
proof (induction rule: reaches.induct)
  case start
  show ?case
    by (simp add: tui_inv_def consistent_def new_app_def waiting_def batches_def others_def idle_def preview_ok_def new_form_def)
next
  case (step a ts t ts')
  then show ?case by (blast intro: turn_inv)
qed

end
