(* ===== verification/Tui_Claims.thy ===== *)
theory Tui_Claims
  imports Tui_Properties
begin

text \<open>
  What holds of every run of the terminal interface, with a run that confirms the destruction of a
  deployment and one that freezes.
\<close>

section \<open>A dangerous action was confirmed\<close>

lemma nothing_dangerous:
  assumes i: "tui_inv lib a ts" and d: "delivered (tn_messages t) ts ts'"
    and g: "ac_outcome (turn lib t a) = Goes" "\<not> ap_should_quit (ac_app (turn lib t a))"
    and s: "dangerous (ap_pending_action (ac_app (turn lib t a)))"
  obtains ctrl m where "tn_key t = Some (KeyChar CHR ''y'', ctrl) \<or> tn_key t = Some (KeyChar CHR ''Y'', ctrl)"
    "dialog a" "idle ts'" "turn lib t a = done_with (confirm_action m)" "dialog_ok lib m" "same_dialog a m" "same_lists a m"
    "tui_inv lib m ts'" "ap_pending_action m = NoAction"
proof -
  let ?m = "before_action lib t a"
  have p: "ap_pending_action ?m = NoAction"
    using turn_inv_action(2) [OF i d] s by blast
  let ?d = "drawn t ?m"
  note r = rest_inv [OF i d p]
  from p obtain b where b: "turn lib t a = done_with b" and k: "b = ?d \<or>
      (\<exists>k ctrl. tn_key t = Some (k, ctrl) \<and> handle_event lib (an_clipboard (tn_answers t)) k ctrl ?d = Some b)"
    by (cases rule: turn_rest) (use g in auto)
  from k s b p obtain k ctrl where k: "tn_key t = Some (k, ctrl)"
    and h: "handle_event lib (an_clipboard (tn_answers t)) k ctrl ?d = Some b"
    by auto
  have dl: "dialog ?d"
  proof (rule ccontr)
    assume "\<not> dialog ?d"
    with key_step [OF _ _ _ h] r p s b show False by (simp add: keyed_def tui_inv_def)
  qed
  then have da: "dialog a" using before_inv(3) [OF i d] by simp
  note bi = before_inv(1-5) [OF i d] and bd = before_inv(6) [OF i d da]
  have l: "\<not> ap_is_loading ?d"
  proof
    assume "ap_is_loading ?d"
    with h g b s p show False by (auto simp: handle_event_def handle_key_event_def split: if_splits)
  qed
  from dialog_key [OF dl l h] g b s p have "k = KeyChar CHR ''y'' \<or> k = KeyChar CHR ''Y''" "b = confirm_action ?d"
    by (auto simp: close_parts)
  moreover have "same_dialog a ?d" using before_parts(2) [OF d, of a lib] i by (simp add: same_dialog_def tui_inv_def)
  moreover have "same_lists a ?d" using bd by (simp add: same_lists_def)
  ultimately show thesis
    using k da bd b r p by (intro that [of ctrl ?d]) auto
qed

text \<open>
  The dialog that a call of the next turn comes from: the deployment it names is the one of the call,
  and a claim that is run is the one of the form.
\<close>

definition dialog_names :: "tui_lib \<Rightarrow> answers \<Rightarrow> app \<Rightarrow> tui_call \<Rightarrow> bool" where
  "dialog_names lib an a c \<longleftrightarrow>
     (let shown = cf_confirmation_message (ap_confirmation_state a) in
      case c of
        CallDestroy project_id region environment deployment_id \<Rightarrow>
          \<exists>d \<in> set (get_filtered_deployments a). shown = destroy_message d \<and> project_id = td_project_id d \<and> region = td_region d
            \<and> environment = td_environment d \<and> deployment_id = td_deployment_id d
      | CallReapply project_id region environment yaml \<Rightarrow>
          \<exists>d \<in> set (get_filtered_deployments a). shown = reapply_message d \<and> project_id = td_project_id d \<and> region = td_region d
            \<and> environment = td_environment d
            \<and> (\<exists>detail module claim. describe an d = Inr (Some detail) \<and> reapply_module an detail = Inr (Some module)
                 \<and> generate_deployment_claim (ul_form lib) detail module = Some claim \<and> an_yaml an claim = Inr yaml)
      | CallRun environment yaml \<Rightarrow>
          shown = run_message (cb_deployment_name (ap_form a)) (cb_region (ap_form a)) \<and> environment = ''cli/default''
            \<and> validate_all_fields (ul_form lib) (ap_form a) = Inr ()
            \<and> (\<exists>claim. claim_text (ul_form lib) (ap_form a) = Some claim \<and> an_yaml an claim = Inr yaml)
      | CallWrite _ _ \<Rightarrow> False)"

lemma action_lists:
  "get_filtered_deployments (at_action t m) = get_filtered_deployments m" if "dangerous (ap_pending_action m)"
  using that by (cases "ap_pending_action m")
    (simp_all add: at_action_def get_filtered_deployments_def drawn_def prepare_pending_action_def set_loading_def on_detail_def
      split: prod.split)

lemma select_lists [simp]:
  "get_filtered_deployments (select_index i a) = get_filtered_deployments a" "selected (select_index i a) = i"
  by (simp_all add: select_index_def on_list_def get_filtered_deployments_def)

lemma confirmed_calls:
  assumes dl: "dialog_ok lib m" and l: "same_lists m n" and f: "ap_form n = ap_form m"
    and s: "ap_confirmation_state m = ap_confirmation m"
    and p: "ap_pending_action n = cf_confirmation_action (ap_confirmation m)" "dangerous (ap_pending_action n)"
    and fa: "ap_form (at_action t n) = ap_form n"
    and c: "c \<in> set (ac_calls (run_action lib an (ap_pending_action n) (at_action t n)))"
  shows "dialog_names lib an m c"
proof -
  have lists: "get_filtered_deployments (at_action t n) = get_filtered_deployments m"
    using action_lists [OF p(2)] l by (simp add: same_lists_def)
  have at: "i < length (get_filtered_deployments m) \<Longrightarrow>
      selected_deployment (select_index i (at_action t n)) = Some (get_filtered_deployments m ! i)" for i
    by (simp add: selected_deployment_def lists Let_def)
  consider (destroy) i where "ap_pending_action n = DestroyDeployment i" | (reapply) i where "ap_pending_action n = ReapplyDeployment i"
    | (run) "ap_pending_action n = RunClaimFromBuilder"
    using p(2) by (cases "ap_pending_action n") auto
  then show ?thesis
  proof cases
    case destroy
    with p(1) have "cf_confirmation_action (ap_confirmation m) = DestroyDeployment i" by simp
    with dl have "asked m destroy_message i" by (simp add: dialog_ok_def)
    with destroy c calls_destroy [of c an "select_index i (at_action t n)"] at [of i] show ?thesis
      by (auto simp: asked_def dialog_names_def s)
  next
    case reapply
    with p(1) have "cf_confirmation_action (ap_confirmation m) = ReapplyDeployment i" by simp
    with dl have "asked m reapply_message i" by (simp add: dialog_ok_def)
    with reapply c calls_reapply [of c lib an "select_index i (at_action t n)"] at [of i] show ?thesis
      by (fastforce simp: asked_def dialog_names_def s)
  next
    case run
    with p(1) have "cf_confirmation_action (ap_confirmation m) = RunClaimFromBuilder" by simp
    with dl have "validate_all_fields (ul_form lib) (ap_form m) = Inr ()
        \<and> cf_confirmation_message (ap_confirmation m) = run_message (cb_deployment_name (ap_form m)) (cb_region (ap_form m))"
      by (simp add: dialog_ok_def)
    with run c calls_run [of c lib an "at_action t n"] fa f show ?thesis
      by (auto simp: dialog_names_def s)
  qed
qed

text \<open>
  C2: A deployment is destroyed or applied again, and a claim is run, only in the turn after the user
  has pressed y in a dialog that was on the screen, and only what that dialog named: whatever messages
  of background tasks arrive in between and whatever the timer does, the deployment that the call is
  about is the one whose id, module and environment the dialog showed, and the claim is the valid one
  of the form.
\<close>

theorem confirmed_calls_only:
  assumes r: "reaches lib a ts"
    and d1: "delivered (tn_messages t1) ts ts1"
    and g: "ac_outcome (turn lib t1 a) = Goes" "\<not> ap_should_quit (ac_app (turn lib t1 a))"
    and d2: "delivered (tn_messages t2) (ts1 @ ac_tasks (turn lib t1 a)) ts2"
    and c: "c \<in> set (ac_calls (turn lib t2 (ac_app (turn lib t1 a))))"
    and w: "\<And>path content. c \<noteq> CallWrite path content"
  shows "cf_showing_confirmation (ap_confirmation_state a) \<and> dialog_names lib (tn_answers t2) a c
    \<and> map_option fst (tn_key t1) \<in> {Some (KeyChar CHR ''y''), Some (KeyChar CHR ''Y'')}"
proof -
  note i = reaches_inv [OF r]
  let ?b = "ac_app (turn lib t1 a)" and ?n = "before_action lib t2 (ac_app (turn lib t1 a))"
  note ib = turn_inv [OF i d1 g] and n = before_inv [OF turn_inv [OF i d1 g] d2]
  have p: "ap_pending_action ?n \<noteq> NoAction"
    using c turn_rest [of lib t2 ?b] by (metis calls_simps(1,3) empty_iff empty_set)
  have calls: "c \<in> set (ac_calls (run_action lib (tn_answers t2) (ap_pending_action ?n) (at_action t2 ?n)))"
    using c by (simp add: turn_action [OF p])
  have dn: "dangerous (ap_pending_action ?n)"
  proof (rule ccontr)
    assume "\<not> dangerous (ap_pending_action ?n)"
    with calls calls_quiet [of "ap_pending_action ?n" lib "tn_answers t2"]
    have "ap_pending_action ?n = SaveClaimToFile" by fastforce
    with calls calls_save w show False by fastforce
  qed
  then have same: "ap_pending_action ?n = ap_pending_action ?b" using n(5) by (auto simp: timer_acted_def)
  obtain ctrl m where m: "tn_key t1 = Some (KeyChar CHR ''y'', ctrl) \<or> tn_key t1 = Some (KeyChar CHR ''Y'', ctrl)"
    "dialog a" "idle ts1" "turn lib t1 a = done_with (confirm_action m)" "dialog_ok lib m" "same_dialog a m" "same_lists a m"
    "tui_inv lib m ts1" "ap_pending_action m = NoAction"
    using nothing_dangerous [OF i d1 g] dn same by auto
  have "idle (ts1 @ ac_tasks (turn lib t1 a))" using m(3,4) by simp
  with before_parts [OF d2, where a = ?b and lib = lib] ib m(4)
  have k: "same_lists (confirm_action m) ?n" "same_dialog (confirm_action m) ?n" by (auto simp: tui_inv_def)
  have act: "cf_confirmation_action (ap_confirmation m) \<noteq> NoAction" using m(5) by (auto simp: dialog_ok_def)
  have "dialog_names lib (tn_answers t2) m c"
  proof (rule confirmed_calls [where m = m and t = t2 and n = ?n])
    show "dialog_ok lib m" by (rule m(5))
    show "same_lists m ?n" using k(1) by (simp add: same_lists_def confirm_parts)
    show "ap_form ?n = ap_form m" using k(2) by (simp add: same_dialog_def confirm_parts)
    show "ap_confirmation_state m = ap_confirmation m" using m(8) by (simp add: tui_inv_def consistent_def)
    show "ap_pending_action ?n = cf_confirmation_action (ap_confirmation m)"
      using same m(4) confirm_parts(8) [OF act] by simp
    show "ap_form (at_action t2 ?n) = ap_form ?n" using partsD [OF action_parts [OF p]] by simp
  qed (rule dn calls)+
  moreover have "dialog_names lib (tn_answers t2) a c = dialog_names lib (tn_answers t2) m c"
    using m(6,7) by (simp add: dialog_names_def same_dialog_def same_lists_def split: tui_call.split)
  moreover have "ap_confirmation_state a = ap_confirmation a" using i by (simp add: tui_inv_def consistent_def)
  ultimately show ?thesis using m(1,2) by auto
qed

section \<open>The preview\<close>

text \<open>
  C16: In every state of every run, while the claim builder shows its preview, the form is valid and
  the text of the preview is the claim of the form as it is: no key, message or action changes a field
  behind the preview, and none shows the preview of an invalid form.
\<close>

theorem preview_is_the_claim:
  assumes "reaches lib a ts" "cb_show_preview (ap_form a)"
  shows "validate_all_fields (ul_form lib) (ap_form a) = Inr () \<and> claim_text (ul_form lib) (ap_form a) = Some (cb_generated_yaml (ap_form a))"
  using reaches_inv [OF assms(1)] assms(2) by (simp add: tui_inv_def consistent_def preview_ok_def)

section \<open>Loading ends\<close>

lemma not_loading_messages:
  assumes "delivered ms ts ts'" "\<not> ap_is_loading a"
  shows "\<not> ap_is_loading (fold (process_background_message lib) ms a)"
  using assms
proof (induction arbitrary: a rule: delivered.induct)
  case (one t ts m ms ts')
  show ?case using one.IH [of "process_background_message lib m a"] message_step(4) [OF one(2), where a = a and lib = lib] one.prems
    by simp
qed simp

lemma loading_ends:
  assumes "delivered ms ts ts'" "waiting a ts" "\<not> idle ts" "idle ts'"
  shows "\<not> ap_is_loading (fold (process_background_message lib) ms a)"
  using assms
proof (induction arbitrary: a rule: delivered.induct)
  case (one t ts m ms ts')
  note s = message_step [where a = a and lib = lib, OF one(2)]
  show ?case
  proof (cases "idle (remove1 t ts)")
    case False
    with one.IH [OF waiting_message [OF one.prems(1) one(1,2)] False one.prems(3)] show ?thesis by simp
  next
    case True
    have "\<not> ap_is_loading (process_background_message lib m a)"
    proof
      assume "ap_is_loading (process_background_message lib m a)"
      with s(4) have t: "t = TaskProjects \<or> is_batch t \<and> ap_pending_deployment_requests a > 1" by simp
      with True one.prems batches_remove [OF one(1)] others_remove [OF one(1)] show False
        by (auto simp: idle_lengths waiting_lengths)
    qed
    with not_loading_messages [OF one(3)] show ?thesis by simp
  qed
qed simp

lemma waiting_messages: "delivered ms ts ts' \<Longrightarrow> waiting a ts \<Longrightarrow> waiting (fold (process_background_message lib) ms a) ts'"
  by (induction arbitrary: a rule: delivered.induct) (simp_all add: waiting_message)

text \<open>
  C17: loading ends with the last answer. In a state that the loop reaches with at least one task out
  besides the one for the projects, take any answers that arrive before the next key: with data or an
  error, of any of the tasks and in whatever order. After them the interface shows that it is loading
  exactly when a task other than the one for the projects is still out; so the count of requests for
  deployments neither runs out early nor misses one. Of states in which no such task is out this says
  nothing: the first one is not loading, and one can load forever (see below).
\<close>

theorem loading_until_answered:
  assumes "reaches lib a ts" "t \<in> set ts" "t \<noteq> TaskProjects" "delivered ms ts ts'"
  shows "ap_is_loading (fold (process_background_message lib) ms a) \<longleftrightarrow> (\<exists>t' \<in> set ts'. t' \<noteq> TaskProjects)"
proof -
  have i: "\<not> idle ts" using assms(2,3) by (auto simp: idle_tasks)
  have w: "waiting a ts" using reaches_inv [OF assms(1)] by (simp add: tui_inv_def)
  show ?thesis
  proof (cases "idle ts'")
    case True
    with loading_ends [OF assms(4) w i True, of lib] show ?thesis by (auto simp: idle_tasks)
  next
    case False
    with waiting_messages [OF assms(4) w, of lib] show ?thesis by (auto simp: waiting_def idle_tasks)
  qed
qed

section \<open>A state that loads forever\<close>

definition frozen :: "app \<Rightarrow> task list \<Rightarrow> bool" where
  "frozen a ts \<longleftrightarrow> ap_is_loading a \<and> ap_pending_action a = NoAction \<and> idle ts"

lemma idle_messages_loading:
  assumes "delivered ms ts ts'" "idle ts" "ap_is_loading a"
  shows "ap_is_loading (fold (process_background_message lib) ms a)"
  using assms
proof (induction arbitrary: a rule: delivered.induct)
  case (one t ts m ms ts')
  then have t: "t = TaskProjects" by (simp add: idle_tasks)
  then have "ap_is_loading (process_background_message lib m a)"
    using message_step(4) [OF one(2), where a = a and lib = lib] one.prems by simp
  moreover have "idle (remove1 t ts)"
    using one.prems by (auto simp: idle_tasks dest: set_remove1_subset [THEN subsetD])
  ultimately show ?case using one.IH [of "process_background_message lib m a"] by simp
qed simp

text \<open>Nothing but the control key ends it: a key is ignored, and no action or task is started.\<close>

lemma frozen_stays:
  assumes f: "frozen a ts" and w: "waiting a ts" and d: "delivered (tn_messages t) ts ts'"
    and k: "tn_key t \<noteq> Some (KeyChar CHR ''c'', True)"
  shows "turn lib t a = done_with (drawn t (before_action lib t a)) \<and> frozen (ac_app (turn lib t a)) (ts' @ ac_tasks (turn lib t a))"
proof -
  have i: "idle ts" using f by (simp add: frozen_def)
  let ?f = "fold (process_background_message lib) (tn_messages t) a"
  have l: "ap_is_loading ?f" using idle_messages_loading [OF d i] f by (simp add: frozen_def)
  have "ap_is_loading (before_action lib t a)"
    using core_parts(3) [OF timer_parts(1) [of "tn_elapsed t" ?f]] l by (simp add: before_action_def)
  moreover have "ap_pending_action (before_action lib t a) = NoAction"
    using before_parts(3) [OF d w, of lib] calculation f by (auto simp: timer_acted_def frozen_def)
  moreover have "idle ts'" using before_parts(4) [OF d w i] by simp
  moreover have "turn lib t a = done_with (drawn t (before_action lib t a))"
    using calculation k by (auto simp: turn_def Let_def has_pending_action_def handle_event_def handle_key_event_def split: option.split)
  ultimately show ?thesis by (simp add: frozen_def)
qed

end
