(* ===== verification/Tui_Demo.thy ===== *)
theory Tui_Demo
  imports Tui_Claims
begin

text \<open>
  Runs of the terminal interface from its start, evaluated: the destruction of a deployment is
  confirmed, the preview of a claim is opened, and Enter on an empty list freezes the interface.
\<close>

section \<open>Executable runs\<close>

primrec deliver :: "message list \<Rightarrow> task list \<Rightarrow> task list option" where
  "deliver [] ts = Some ts"
| "deliver (m # ms) ts = (case find (\<lambda>t. answers_task t m) ts of None \<Rightarrow> None | Some t \<Rightarrow> deliver ms (remove1 t ts))"

lemma deliver_sound: "deliver ms ts = Some ts' \<Longrightarrow> delivered ms ts ts'"
proof (induction ms arbitrary: ts)
  case Nil
  then show ?case by (simp add: delivered.nothing)
next
  case (Cons m ms)
  then obtain t where t: "find (\<lambda>t. answers_task t m) ts = Some t" "deliver ms (remove1 t ts) = Some ts'"
    by (auto split: option.splits)
  then have "t \<in> set ts" "answers_task t m" by (auto simp: find_Some_iff)
  with Cons.IH [OF t(2)] show ?case by (blast intro: delivered.one)
qed

primrec run_turns :: "tui_lib \<Rightarrow> turn_input list \<Rightarrow> app \<times> task list \<Rightarrow> (app \<times> task list) option" where
  "run_turns lib [] s = Some s"
| "run_turns lib (t # us) s =
     (case deliver (tn_messages t) (snd s) of
        None \<Rightarrow> None
      | Some ts \<Rightarrow>
          let r = turn lib t (fst s) in
          if ac_outcome r = Goes \<and> \<not> ap_should_quit (ac_app r) then run_turns lib us (ac_app r, ts @ ac_tasks r) else None)"

lemma run_turns_reaches: "run_turns lib us s = Some (b, ts) \<Longrightarrow> reaches lib (fst s) (snd s) \<Longrightarrow> reaches lib b ts"
proof (induction us arbitrary: s)
  case (Cons t us)
  then obtain ts' where d: "deliver (tn_messages t) (snd s) = Some ts'"
    and g: "ac_outcome (turn lib t (fst s)) = Goes" "\<not> ap_should_quit (ac_app (turn lib t (fst s)))"
    and r: "run_turns lib us (ac_app (turn lib t (fst s)), ts' @ ac_tasks (turn lib t (fst s))) = Some (b, ts)"
    by (auto simp: Let_def split: option.splits if_splits)
  from Cons.IH [OF r] reaches.step [OF Cons.prems(2) deliver_sound [OF d] g] show ?case by simp
qed simp

definition tui_start :: "app \<times> task list" where
  "tui_start = (new_app, [TaskProjects])"

lemma run_reaches: "run_turns lib us tui_start = Some (b, ts) \<Longrightarrow> reaches lib b ts"
  by (rule run_turns_reaches [of lib us tui_start]) (simp_all add: tui_start_def reaches.start)

section \<open>The destruction of a deployment\<close>

definition demo_tui :: tui_lib where
  "demo_tui = \<lparr>ul_form = demo_form_lib, ul_pretty_module = mr_module, ul_pretty_deployment = dr_deployment_id,
     ul_time = (\<lambda>_. ''t''), ul_job_order = (\<lambda>xs. xs)\<rparr>"

definition demo_answers :: answers where
  "demo_answers = \<lparr>an_http = False, an_projects = Inl ''e'', an_all_deployments = Inl ''e'', an_latest_modules = (\<lambda>_. Inr []),
     an_latest_stacks = (\<lambda>_. Inr []), an_module_version = (\<lambda>_ _ _. Inr (Some demo_module)), an_stack_version = (\<lambda>_ _ _. Inr None),
     an_module_versions = (\<lambda>_ _. Inr [demo_module]), an_stack_versions = (\<lambda>_ _. Inr []), an_deployment = (\<lambda>_ _ _ _. Inr None),
     an_events = (\<lambda>_ _ _ _. Inr []), an_hostname = Inr ''h'', an_yaml = (\<lambda>_. Inl ''e''), an_call = (\<lambda>_. Inr (''j'', ''d'')),
     an_clipboard = (\<lambda>_. Inr ())\<rparr>"

definition demo_turn :: turn_input where
  "demo_turn = \<lparr>tn_messages = [], tn_elapsed = False, tn_lines = (0, 0, 0), tn_answers = demo_answers, tn_key = None\<rparr>"

definition press :: "key \<Rightarrow> turn_input" where
  "press k = demo_turn\<lparr>tn_key := Some (k, False)\<rparr>"

definition demo_tui_deployment :: tui_deployment where
  "demo_tui_deployment = \<lparr>td_status = ''successful'', td_deployment_id = ''m/d'', td_project_id = ''p'', td_region = ''r'',
     td_module = ''m'', td_module_version = ''1'', td_environment = ''e'', td_epoch = 1, td_timestamp = ''t'', td_reference = []\<rparr>"

text \<open>Up to the request for the deployments: the project is chosen in the filter that opens first.\<close>

definition listing_turns :: "turn_input list" where
  "listing_turns =
     [demo_turn,
      (press (KeyChar CHR ''4''))\<lparr>tn_messages := [ProjectsLoaded (Inr [\<lparr>pd_project_id = ''p'', pd_name = ''P'', pd_description = [],
         pd_regions = [''r'']\<rparr>])]\<rparr>,
      demo_turn, press KeyEnter, demo_turn]"

definition listing :: app where
  "listing = fst (the (run_turns demo_tui listing_turns tui_start))"

lemma listing_run: "run_turns demo_tui listing_turns tui_start = Some (listing, [TaskDeployments ''p'' ''r''])"
proof -
  have "map_option snd (run_turns demo_tui listing_turns tui_start) = Some [TaskDeployments ''p'' ''r'']" by code_simp
  then show ?thesis by (auto simp: listing_def)
qed

lemma loading_until_answered_witness:
  "ap_is_loading listing \<and> \<not> ap_is_loading (fold (process_background_message demo_tui) [DeploymentsBatchLoaded (Inl ''e'')] listing)"
proof -
  have d: "delivered [DeploymentsBatchLoaded (Inl ''e'')] [TaskDeployments ''p'' ''r''] []"
    by (simp add: deliver_sound answers_task_def)
  note l = loading_until_answered [OF run_reaches [OF listing_run], of "TaskDeployments ''p'' ''r''"]
  from l [OF _ _ d] l [OF _ _ delivered.nothing] show ?thesis by simp
qed

text \<open>The deployments arrive, Ctrl+D asks, y confirms.\<close>

definition asking_turn :: turn_input where
  "asking_turn = demo_turn\<lparr>tn_messages := [DeploymentsBatchLoaded (Inr [demo_tui_deployment])], tn_key := Some (KeyChar CHR ''d'', True)\<rparr>"

definition asking :: app where
  "asking = ac_app (turn demo_tui asking_turn listing)"

lemma asking_reached: "reaches demo_tui asking []"
proof -
  have "deliver (tn_messages asking_turn) [TaskDeployments ''p'' ''r''] = Some []"
    by (simp add: asking_turn_def demo_turn_def answers_task_def)
  moreover have "ac_outcome (turn demo_tui asking_turn listing) = Goes \<and> \<not> ap_should_quit (ac_app (turn demo_tui asking_turn listing))
      \<and> ac_tasks (turn demo_tui asking_turn listing) = []"
    by code_simp
  ultimately show ?thesis
    using reaches.step [OF run_reaches [OF listing_run] deliver_sound] by (fastforce simp: asking_def)
qed

lemma confirmed_calls_only_witness:
  "cf_showing_confirmation (ap_confirmation_state asking)
    \<and> dialog_names demo_tui demo_answers asking (CallDestroy ''p'' ''r'' ''e'' ''m/d'')
    \<and> map_option fst (tn_key (press (KeyChar CHR ''y''))) \<in> {Some (KeyChar CHR ''y''), Some (KeyChar CHR ''Y'')}"
proof -
  let ?t = "press (KeyChar CHR ''y'')" and ?b = "ac_app (turn demo_tui (press (KeyChar CHR ''y'')) asking)"
  have an: "demo_answers = tn_answers demo_turn" by (simp add: demo_turn_def)
  have no: "tn_messages ?t = []" "tn_messages demo_turn = []" by (simp_all add: press_def demo_turn_def)
  have go: "ac_outcome (turn demo_tui ?t asking) = Goes" "\<not> ap_should_quit ?b" "ac_tasks (turn demo_tui ?t asking) = []"
    by code_simp+
  have c: "CallDestroy ''p'' ''r'' ''e'' ''m/d'' \<in> set (ac_calls (turn demo_tui demo_turn ?b))" by code_simp
  show ?thesis
    unfolding an
    by (rule confirmed_calls_only [OF asking_reached _ go(1,2) _ c, of "[]" "[]"]) (simp_all add: no go(3) delivered.nothing)
qed

section \<open>The preview of a claim\<close>

definition module_answers :: answers where
  "module_answers = demo_answers\<lparr>an_latest_modules := (\<lambda>_. Inr [demo_module])\<rparr>"

definition with_modules :: "turn_input \<Rightarrow> turn_input" where
  "with_modules t = t\<lparr>tn_answers := module_answers\<rparr>"

text \<open>The first module, its first version, its detail, and then the claim builder.\<close>

definition preview_turns :: "turn_input list" where
  "preview_turns = List.map with_modules
     [demo_turn, press KeyEnter, demo_turn, demo_turn, press KeyEnter, demo_turn, press (KeyChar CHR ''c''),
      press (KeyChar CHR ''n''), press KeyTab, press (KeyChar CHR ''r''), press KeyEnter]"

definition previewing :: app where
  "previewing = fst (the (run_turns demo_tui preview_turns tui_start))"

lemma preview_run: "run_turns demo_tui preview_turns tui_start = Some (previewing, [TaskProjects])"
proof -
  have "map_option snd (run_turns demo_tui preview_turns tui_start) = Some [TaskProjects]" by code_simp
  then show ?thesis by (auto simp: previewing_def)
qed

lemma preview_is_the_claim_witness:
  "validate_all_fields demo_form_lib (ap_form previewing) = Inr ()
    \<and> claim_text demo_form_lib (ap_form previewing) = Some (cb_generated_yaml (ap_form previewing))"
proof -
  have "cb_show_preview (ap_form previewing)" by code_simp
  from preview_is_the_claim [OF run_reaches [OF preview_run] this] show ?thesis by (simp add: demo_tui_def)
qed

section \<open>Enter on an empty list\<close>

definition frozen_app :: app where
  "frozen_app = fst (the (run_turns demo_tui [demo_turn, press KeyEnter, demo_turn] tui_start))"

lemma enter_on_empty_list_freezes: "reaches demo_tui frozen_app [TaskProjects] \<and> frozen frozen_app [TaskProjects]"
proof -
  have "map_option snd (run_turns demo_tui [demo_turn, press KeyEnter, demo_turn] tui_start) = Some [TaskProjects]" by code_simp
  then have "run_turns demo_tui [demo_turn, press KeyEnter, demo_turn] tui_start = Some (frozen_app, [TaskProjects])"
    by (auto simp: frozen_app_def)
  then have "reaches demo_tui frozen_app [TaskProjects]" by (rule run_reaches)
  moreover have "ap_is_loading frozen_app" "ap_pending_action frozen_app = NoAction" by code_simp+
  ultimately show ?thesis by (simp add: frozen_def idle_tasks)
qed

end
