(* ===== verification/Spec2Isabelle.thy ===== *)
theory Spec2Isabelle
  imports Runner_Properties Runner_Records Authz Registry_Properties Stack Claims Gitops Operator_Demo Stack_Module_Properties Plan_Graph_Demo Tui_Demo
begin

text \<open>
  InfraWeave is a control plane for Terraform. Users publish modules and stacks to a registry and
  deploy them with claims. A server (\<open>internal-api\<close>, \<open>env_common\<close>) checks a claim, stores the
  deployment in a table and starts a job; the job (\<open>terraform_runner\<close>) runs Terraform, checks the
  plan against policies, reports its progress through the same table and stores a record of what
  changed. This development models that logic as HOL functions over explicit states and proves what
  a reader of the code would want to rely on.

  The theories, in the order in which they build on each other:

  \<^item> \<open>Prelude\<close>: results (\<open>Result\<close> is a sum, \<open>Ok\<close> is \<open>Inr\<close>), the string operations of Rust's
    library, ordered maps and hash maps as association lists. The locale \<open>keyed_map\<close> holds what
    the components use of a map and is interpreted on both; \<open>ordered_map\<close> extends it.
  \<^item> \<open>Json\<close>: values of \<open>serde_json\<close>. An object is a \<open>BTreeMap\<close>, the crate is built without
    \<open>preserve_order\<close>.
  \<^item> \<open>Resource_Change\<close>: \<open>defs/src/resource_change.rs\<close>. The record that is kept of a plan: its
    sanitisation and the attribute diff. Lemmas: creations, deletions and no-ops that differ in marked
    values only have the same record; the diff of an update lists exactly the attributes that differ;
    where its redaction stops.
  \<^item> \<open>Deployment\<close>, \<open>Module\<close>: the records of \<open>defs/src/\<close> with their status machine, identifiers
    and serde encoding.
  \<^item> \<open>Effects\<close>: a state and outcome monad. An outcome is a value, an \<open>anyhow\<close> error, a panic or an
    exit of the process. \<open>World\<close>: the calls that leave the program. Their answers come from the
    record \<open>env\<close>, functions of everything that has been called before, so that every theorem holds
    whatever the cloud, the database and Terraform answer.
  \<^item> \<open>Deployment_Store\<close>: \<open>env_common/src/logic/api_deployment.rs\<close>, the items of a deployment and
    the transaction that writes them. A deployment that is written is read back; a write
    that finds the index of dependents exact leaves it exact.
  \<^item> \<open>Status_Handler\<close>: \<open>deployment_status_handler.rs\<close>, the object a job reports through.
  \<^item> \<open>Runner_Steps\<close>, \<open>Runner\<close>: \<open>terraform_runner/src/\<close>, the steps of a job and the job.
    \<open>Runner_Safety\<close> holds a calculus for traces of calls (the locale \<open>watch\<close>), \<open>Runner_Gates\<close> what
    has happened before infrastructure is changed, \<open>Runner_Records\<close> what the table says at the
    end, \<open>Runner_Liveness\<close> the run in which every call succeeds, \<open>Runner_Demo\<close> a concrete
    environment for the witnesses, \<open>Runner_Properties\<close> the properties.
  \<^item> \<open>Authz\<close>: \<open>internal-api/src/http_authz.rs\<close>, \<open>publish_auth/\<close> and the headers that
    \<open>main_aws_unified.rs\<close> builds from the event of the gateway.
  \<^item> \<open>Variables\<close>: the claim and the checks of its variables (\<open>utils/src/variables.rs\<close>).
  \<^item> \<open>Versions\<close>: padding, tracks and precedence (\<open>utils/src/versioning.rs\<close>). The locale
    \<open>precedence\<close> has the laws of an order on versions.
  \<^item> \<open>Registry\<close>, \<open>Registry_Properties\<close>: publication and deprecation on the server
    (\<open>env_common/src/logic/api_module.rs\<close>, \<open>api_stack.rs\<close>), with an invariant of every registry
    that ordinary releases reach; the releases that break it are at the end.
  \<^item> \<open>Stack_Graph\<close>, \<open>Stack\<close>: the search for cycles and the validation of the claims of a stack. What
    a reference is, and in which texts it counts, is specified without the search that finds it.
  \<^item> \<open>Hcl\<close>: Terraform code as a tree, variables and outputs as blocks (\<open>defs/src/tfvariable.rs\<close>,
    \<open>tfoutput.rs\<close>). \<open>Stack_Module\<close>: the code that \<open>publish_stack\<close> generates for a stack, from
    the inputs and outputs of its modules to the module calls and the merged blocks
    (\<open>api_stack.rs\<close>, \<open>tf_input_resolver.rs\<close>, \<open>tf_root_module.rs\<close>, \<open>tf_provider_mgmt.rs\<close>).
    \<open>Stack_Module_Properties\<close>: what the inputs of module calls refer to, which blocks a merge keeps,
    and two accepted stacks whose code does not load.
  \<^item> \<open>Claims\<close>: \<open>env_common/src/logic/api_infra.rs\<close>, from a claim to a started job. Three locales state
    which calls a submission makes, the last one interpreted on every call.
  \<^item> \<open>Gitops\<close>: \<open>gitops/src/git_utils.rs\<close>, \<open>diff.rs\<close>, \<open>gitops.rs\<close>: from the files of a push to the
    groups of claims that are applied, deleted or moved. The groups are a refinement of the last
    active and last deleted version of each claim.
  \<^item> \<open>Operator\<close>: \<open>operator/src/operator.rs\<close>, one pass of the Kubernetes controller over a custom
    resource. \<open>Operator_Properties\<close>: finalizers, jobs and the time of the next pass, over the locale
    \<open>pass_calls\<close>; \<open>Operator_Retry\<close>: two passes in a row; \<open>Operator_Demo\<close>: the witnesses.
  \<^item> \<open>Plan_Graph\<close>, \<open>Plan_Edges\<close>: \<open>graph/src/lib.rs\<close>, the graph of a plan or a state that the server
    returns: values of nodes, groups of modules, DOT files, references in the configuration, the
    sources behind variables, locals and outputs. \<open>Plan_Graph_Properties\<close>: no sensitive value of a
    plan is shown, the edges are those of an inductive specification, the graph is well formed;
    \<open>Plan_Graph_Nodes\<close>: which nodes are shown after all the stages; \<open>Plan_Graph_Demo\<close>: a plan and a state for the witnesses, and a password that the graph of a
    state shows.
  \<^item> \<open>Claim_Form\<close>: \<open>cli/src/tui/state/claim_builder_state.rs\<close> with the keys of
    \<open>events/claim_builder_handler.rs\<close> and the text of a claim (\<open>utils/src/deployment.rs\<close>). Cursors are
    byte offsets, an insertion inside a character is the panic it is in Rust (\<open>None\<close>).
    \<open>Claim_Form_Properties\<close>: no panic with ASCII input, the preview, the variables that the server
    reads from the claim.
  \<^item> \<open>Tui_State\<close>, \<open>Tui_Keys\<close>, \<open>Tui_Loop\<close>: the terminal interface (\<open>cli/src/tui/app.rs\<close>, \<open>state/\<close>,
    \<open>events/\<close>, \<open>handlers.rs\<close>, \<open>utils.rs\<close> and \<open>run_tui\<close> in \<open>cli/src/main.rs\<close>): its state, every key, every
    scheduled action, the messages of background tasks and one turn of the main loop. The relation
    \<open>reaches\<close> has every run: in each turn any of the tasks that are out may have answered, in any
    order, the timer may have passed, and any key may be pressed. \<open>Tui_Properties\<close>: the invariant of
    the states reached (tasks counted, the two copies of the dialog equal, preview and dialog in step
    with what they are about); \<open>Tui_Claims\<close>: what follows from it for confirmed calls, the preview
    and loading, and the state that loads forever; \<open>Tui_Demo\<close>: evaluated runs for the witnesses.

  Parameters and bounds. The iteration order of a hash map or hash set is an argument (\<open>order\<close>)
  that may be any permutation. Crates that are not part of the repository are arguments too:
  \<open>heck\<close> and \<open>serde_yaml\<close> (\<open>text_lib\<close>), \<open>semver\<close> (\<open>semver_lib\<close>), \<open>hcl\<close> (\<open>hcl_lib\<close>), the Rego
  engine and base64 (\<open>Authz\<close>), git, the Kubernetes API, and in the terminal interface the parsers
  and printers of \<open>serde_json\<close> and \<open>serde_yaml\<close> (\<open>form_lib\<close>), the time format of \<open>chrono\<close> (\<open>tui_lib\<close>)
  and the answers of the cloud, the clipboard and the file system (\<open>answers\<close>). Integers whose width matters are words: the time arithmetic of the jobs wraps, as in
  a release build. No definition takes fuel: the searches in graphs terminate by the number of
  nodes that are not visited or not on the way, the scanners by the length of the text, the removal
  of empty groups by the length of the list; the other recursions are structural.

  Not modelled, and why:

  \<^item> \<open>env_aws\<close>, \<open>env_aws_direct\<close>, \<open>env_azure\<close>, \<open>http_client\<close>: adapters to cloud SDKs; the keys of the
    queries the registry relies on are modelled, the requests are parameters.
  \<^item> The rendering of the terminal interface (what it writes back into the state is an input of a
    turn), its work without a channel for background tasks, the copying between the two sets of
    fields that nothing calls, and the symbols that decorate its messages; the other commands of
    \<open>cli\<close>, \<open>webserver-openapi\<close>, \<open>infraweave_py\<close>, \<open>infraweave-tools\<close>: command lines, HTTP transport and
    bindings around the logic above. The search for the source code of a node of a plan graph,
    which the server never asks for.
  \<^item> The client side of a publication (downloads, archives, containers, lock files) and the provider
    mirror; the preview of a stack, a second generator beside the one of \<open>publish_stack\<close>.
  \<^item> \<open>gitops\<close>: the GitHub webhooks and check runs around the grouping. \<open>operator\<close>: the watches, the
    leader election and the admission webhook around a pass.
\<close>

end
